(* ===== verification/Go_Prelude.thy ===== *)
theory Go_Prelude
  imports Main "HOL-Library.Char_ord" "HOL-Library.List_Lexorder" "HOL-Library.Multiset"
begin

text \<open>
  What the source uses of Go and of its standard library, and the generic lemmas the components
  share. A Go string is a byte sequence, so it is a \<^typ>\<open>string\<close> here: a list of \<^typ>\<open>char\<close>,
  each one a byte. A Go map is an association list: \<^const>\<open>map_of\<close> is the lookup, and the order of
  the list is the (unspecified) order in which a \<open>range\<close> loop visits the entries. A nil-able
  pointer is an \<open>option\<close>.

  The strings functions of the package \<open>strings\<close> are defined on bytes, as Go's are.
  \<open>strings.ToLower\<close>, \<open>strings.ToUpper\<close> and \<open>strings.EqualFold\<close> decode UTF-8 and map every rune; the
  code only ever compares their results with ASCII words, so the model keeps exactly the mappings
  that can produce an ASCII byte: the ASCII letters themselves, U+212A (KELVIN SIGN) and U+0130 for
  lower case, U+0131 and U+017F for upper case, U+212A and U+017F for folding. Every other
  non-ASCII rune maps to non-ASCII bytes in Go, and is left alone here.
\<close>

named_theorems go_simps \<open>unfolding rules for the Go library functions\<close>

type_synonym gostring = string

section \<open>Bytes\<close>

definition byte :: "char \<Rightarrow> nat" where
  "byte c = of_char c"

definition is_lower_byte :: "char \<Rightarrow> bool" where
  "is_lower_byte c \<longleftrightarrow> CHR ''a'' \<le> c \<and> c \<le> CHR ''z''"

definition is_upper_byte :: "char \<Rightarrow> bool" where
  "is_upper_byte c \<longleftrightarrow> CHR ''A'' \<le> c \<and> c \<le> CHR ''Z''"

definition is_alpha_byte :: "char \<Rightarrow> bool" where
  "is_alpha_byte c \<longleftrightarrow> is_lower_byte c \<or> is_upper_byte c"

definition is_digit_byte :: "char \<Rightarrow> bool" where
  "is_digit_byte c \<longleftrightarrow> CHR ''0'' \<le> c \<and> c \<le> CHR ''9''"

definition ascii_lower :: "char \<Rightarrow> char" where
  "ascii_lower c = (if is_upper_byte c then char_of (byte c + 32) else c)"

definition ascii_upper :: "char \<Rightarrow> char" where
  "ascii_upper c = (if is_lower_byte c then char_of (byte c - 32) else c)"

lemmas byte_class_defs [go_simps] =
  is_lower_byte_def is_upper_byte_def is_alpha_byte_def is_digit_byte_def

section \<open>The package strings\<close>

definition has_prefix :: "gostring \<Rightarrow> gostring \<Rightarrow> bool" where
  "has_prefix s p \<longleftrightarrow> take (length p) s = p"

definition has_suffix :: "gostring \<Rightarrow> gostring \<Rightarrow> bool" where
  "has_suffix s p \<longleftrightarrow> length p \<le> length s \<and> drop (length s - length p) s = p"

definition trim_prefix :: "gostring \<Rightarrow> gostring \<Rightarrow> gostring" where
  "trim_prefix s p = (if has_prefix s p then drop (length p) s else s)"

text \<open>The slice expression \<open>s[i:j]\<close>; the code never takes it out of range.\<close>

definition substring :: "nat \<Rightarrow> nat \<Rightarrow> 'a list \<Rightarrow> 'a list" where
  "substring i j s = take (j - i) (drop i s)"

fun index_byte :: "gostring \<Rightarrow> char \<Rightarrow> nat option" where
  "index_byte [] b = None"
| "index_byte (c # cs) b = (if c = b then Some 0 else map_option Suc (index_byte cs b))"

fun str_index :: "gostring \<Rightarrow> gostring \<Rightarrow> nat option" where
  "str_index [] p = (if p = [] then Some 0 else None)"
| "str_index (c # cs) p =
     (if has_prefix (c # cs) p then Some 0 else map_option Suc (str_index cs p))"

definition str_contains :: "gostring \<Rightarrow> gostring \<Rightarrow> bool" where
  "str_contains s p \<longleftrightarrow> str_index s p \<noteq> None"

fun trim_left :: "(char \<Rightarrow> bool) \<Rightarrow> gostring \<Rightarrow> gostring" where
  "trim_left P [] = []"
| "trim_left P (c # cs) = (if P c then trim_left P cs else c # cs)"

definition trim_right :: "(char \<Rightarrow> bool) \<Rightarrow> gostring \<Rightarrow> gostring" where
  "trim_right P s = rev (trim_left P (rev s))"

definition trim :: "(char \<Rightarrow> bool) \<Rightarrow> gostring \<Rightarrow> gostring" where
  "trim P s = trim_right P (trim_left P s)"

text \<open>\<open>strings.FieldsFunc\<close> (on ASCII separators): the maximal runs of bytes that are no separator.\<close>

fun fields_from :: "(char \<Rightarrow> bool) \<Rightarrow> gostring \<Rightarrow> gostring \<Rightarrow> gostring list" where
  "fields_from P acc [] = (if acc = [] then [] else [rev acc])"
| "fields_from P acc (c # cs) =
     (if P c then (if acc = [] then fields_from P [] cs else rev acc # fields_from P [] cs)
      else fields_from P (c # acc) cs)"

definition fields_func :: "(char \<Rightarrow> bool) \<Rightarrow> gostring \<Rightarrow> gostring list" where
  "fields_func P s = fields_from P [] s"

text \<open>
  \<open>strings.TrimSpace\<close>: the runes of \<open>unicode.IsSpace\<close> in UTF-8, stripped at both ends.
\<close>

definition space_runes :: "gostring list" where
  "space_runes =
     map (\<lambda>c. [c]) [CHR 0x09, CHR 0x0A, CHR 0x0B, CHR 0x0C, CHR 0x0D, CHR 0x20] @
     [[CHR 0xC2, CHR 0x85], [CHR 0xC2, CHR 0xA0], [CHR 0xE1, CHR 0x9A, CHR 0x80]] @
     map (\<lambda>c. [CHR 0xE2, CHR 0x80, c])
       [CHR 0x80, CHR 0x81, CHR 0x82, CHR 0x83, CHR 0x84, CHR 0x85, CHR 0x86, CHR 0x87, CHR 0x88,
        CHR 0x89, CHR 0x8A, CHR 0xA8, CHR 0xA9, CHR 0xAF] @
     [[CHR 0xE2, CHR 0x81, CHR 0x9F], [CHR 0xE3, CHR 0x80, CHR 0x80]]"

definition leading_space :: "gostring \<Rightarrow> nat" where
  "leading_space s = (case find (has_prefix s) space_runes of Some r \<Rightarrow> length r | None \<Rightarrow> 0)"

definition trailing_space :: "gostring \<Rightarrow> nat" where
  "trailing_space s = (case find (has_suffix s) space_runes of Some r \<Rightarrow> length r | None \<Rightarrow> 0)"

function trim_left_space :: "gostring \<Rightarrow> gostring" where
  "trim_left_space s =
     (if s = [] \<or> leading_space s = 0 then s else trim_left_space (drop (leading_space s) s))"
  by pat_completeness auto
termination by (relation "measure length") auto

function trim_right_space :: "gostring \<Rightarrow> gostring" where
  "trim_right_space s =
     (if s = [] \<or> trailing_space s = 0 then s
      else trim_right_space (take (length s - trailing_space s) s))"
  by pat_completeness auto
termination by (relation "measure length") auto

declare trim_left_space.simps [simp del] trim_right_space.simps [simp del]

definition trim_space :: "gostring \<Rightarrow> gostring" where
  "trim_space s = trim_right_space (trim_left_space s)"

function fields_unicode :: "gostring \<Rightarrow> gostring \<Rightarrow> gostring list" where
  "fields_unicode cur s =
     (if s = [] then (if cur = [] then [] else [rev cur])
      else if leading_space s > 0 then
        (if cur = [] then [] else [rev cur]) @ fields_unicode [] (drop (leading_space s) s)
      else fields_unicode (hd s # cur) (tl s))"
  by pat_completeness auto
termination by (relation "measure (length \<circ> snd)") auto

declare fields_unicode.simps [simp del]

text \<open>\<open>strings.Fields\<close> and \<open>strings.Join\<close>.\<close>

definition str_fields :: "gostring \<Rightarrow> gostring list" where
  "str_fields s = fields_unicode [] s"

fun str_join :: "gostring \<Rightarrow> gostring list \<Rightarrow> gostring" where
  "str_join sep [] = []"
| "str_join sep [x] = x"
| "str_join sep (x # y # zs) = x @ sep @ str_join sep (y # zs)"

text \<open>A loop \<open>for i := n - 1; i >= 0; i--\<close> that stops at the first \<open>i\<close> with \<open>P i\<close>.\<close>

fun last_index :: "(nat \<Rightarrow> bool) \<Rightarrow> nat \<Rightarrow> nat option" where
  "last_index P 0 = None"
| "last_index P (Suc n) = (if P n then Some n else last_index P n)"

lemma last_index_None: "last_index P n = None \<longleftrightarrow> (\<forall>i<n. \<not> P i)"
  by (induction n) (auto simp: less_Suc_eq)

lemma last_index_Some:
  "last_index P n = Some i \<longleftrightarrow> i < n \<and> P i \<and> (\<forall>j<n. i < j \<longrightarrow> \<not> P j)"
  by (induction n) (auto simp: less_Suc_eq)

definition last_index_byte :: "gostring \<Rightarrow> char \<Rightarrow> nat option" where
  "last_index_byte s c = last_index (\<lambda>i. s ! i = c) (length s)"

definition kelvin_sign :: gostring where
  "kelvin_sign = [CHR 0xE2, CHR 0x84, CHR 0xAA]"

definition dotted_capital_i :: gostring where
  "dotted_capital_i = [CHR 0xC4, CHR 0xB0]"

definition dotless_small_i :: gostring where
  "dotless_small_i = [CHR 0xC4, CHR 0xB1]"

definition long_s :: gostring where
  "long_s = [CHR 0xC5, CHR 0xBF]"

fun to_lower :: "gostring \<Rightarrow> gostring" where
  "to_lower [] = []"
| "to_lower (c # cs) =
     (if has_prefix (c # cs) kelvin_sign then CHR ''k'' # to_lower (drop 2 cs)
      else if has_prefix (c # cs) dotted_capital_i then CHR ''i'' # to_lower (drop 1 cs)
      else ascii_lower c # to_lower cs)"

fun to_upper :: "gostring \<Rightarrow> gostring" where
  "to_upper [] = []"
| "to_upper (c # cs) =
     (if has_prefix (c # cs) dotless_small_i then CHR ''I'' # to_upper (drop 1 cs)
      else if has_prefix (c # cs) long_s then CHR ''S'' # to_upper (drop 1 cs)
      else ascii_upper c # to_upper cs)"

text \<open>One representative per folding class: \<open>strings.EqualFold\<close> compares these.\<close>

fun fold_case :: "gostring \<Rightarrow> gostring" where
  "fold_case [] = []"
| "fold_case (c # cs) =
     (if has_prefix (c # cs) kelvin_sign then CHR ''k'' # fold_case (drop 2 cs)
      else if has_prefix (c # cs) long_s then CHR ''s'' # fold_case (drop 1 cs)
      else ascii_lower c # fold_case cs)"

definition equal_fold :: "gostring \<Rightarrow> gostring \<Rightarrow> bool" where
  "equal_fold s t \<longleftrightarrow> fold_case s = fold_case t"

section \<open>Maps and sorting\<close>

text \<open>\<open>sort.Strings\<close> orders by bytes, which is the lexicographic order on \<^typ>\<open>string\<close>.\<close>

definition sorted_keys :: "(gostring \<times> 'v) list \<Rightarrow> gostring list" where
  "sorted_keys m = sort (map fst m)"

definition has_key :: "('k \<times> 'v) list \<Rightarrow> 'k \<Rightarrow> bool" where
  "has_key m k \<longleftrightarrow> map_of m k \<noteq> None"

text \<open>A Go map holds each key once; this is what its association list must satisfy.\<close>

definition go_map :: "('k \<times> 'v) list \<Rightarrow> bool" where
  "go_map m \<longleftrightarrow> distinct (map fst m)"

text \<open>Two lists that stand for the same map, visited in different orders.\<close>

definition same_map :: "('k \<times> 'v) list \<Rightarrow> ('k \<times> 'v) list \<Rightarrow> bool" where
  "same_map m m' \<longleftrightarrow> go_map m \<and> mset m' = mset m"

section \<open>Shared lemmas\<close>

lemma byte_inject: "byte c = byte d \<longleftrightarrow> c = d"
  by (simp add: byte_def)

lemma has_prefix_Nil [simp]: "has_prefix s []"
  by (simp add: has_prefix_def)

lemma has_prefix_append [simp]: "has_prefix (p @ s) p"
  by (simp add: has_prefix_def)

lemma has_prefix_iff: "has_prefix s p \<longleftrightarrow> (\<exists>t. s = p @ t)"
  by (metis append_eq_conv_conj append_take_drop_id has_prefix_def)

lemma has_suffix_iff: "has_suffix s p \<longleftrightarrow> (\<exists>t. s = t @ p)"
proof
  assume "has_suffix s p"
  then have "s = take (length s - length p) s @ p"
    unfolding has_suffix_def by (metis append_take_drop_id)
  then show "\<exists>t. s = t @ p" ..
qed (auto simp: has_suffix_def)

lemma index_byte_None: "index_byte s b = None \<longleftrightarrow> b \<notin> set s"
  by (induction s) auto

lemma index_byte_Some:
  "index_byte s b = Some i \<longleftrightarrow> i < length s \<and> s ! i = b \<and> b \<notin> set (take i s)"
proof (induction s arbitrary: i)
  case (Cons c cs)
  then show ?case by (cases i) auto
qed simp

lemma index_byte_append:
  "b \<notin> set s \<Longrightarrow> index_byte (s @ b # t) b = Some (length s)"
  by (induction s) auto

lemma str_index_Some:
  "str_index s p = Some i \<longleftrightarrow>
     i \<le> length s \<and> has_prefix (drop i s) p \<and> (\<forall>j<i. \<not> has_prefix (drop j s) p)"
proof (induction s arbitrary: i)
  case Nil
  then show ?case by (auto simp: has_prefix_def)
next
  case (Cons c cs)
  show ?case
  proof (cases i)
    case 0
    then show ?thesis by auto
  next
    case (Suc k)
    then show ?thesis using Cons.IH [of k] by (auto simp: All_less_Suc2)
  qed
qed

lemma str_index_None:
  "str_index s p = None \<longleftrightarrow> (\<forall>i\<le>length s. \<not> has_prefix (drop i s) p)"
proof (induction s)
  case Nil
  then show ?case by (auto simp: has_prefix_def)
next
  case (Cons c cs)
  have "(\<forall>i\<le>length (c # cs). \<not> has_prefix (drop i (c # cs)) p) \<longleftrightarrow>
      \<not> has_prefix (c # cs) p \<and> (\<forall>i\<le>length cs. \<not> has_prefix (drop i cs) p)"
    by (simp add: less_Suc_eq_le [symmetric] All_less_Suc2)
  with Cons show ?case by auto
qed

lemma str_contains_iff: "str_contains s p \<longleftrightarrow> (\<exists>a b. s = a @ p @ b)"
proof
  assume "str_contains s p"
  then obtain i where "i \<le> length s" "has_prefix (drop i s) p"
    by (auto simp: str_contains_def str_index_Some)
  then obtain t where "drop i s = p @ t" by (auto simp: has_prefix_iff)
  then have "s = take i s @ p @ t" by (metis append_take_drop_id)
  then show "\<exists>a b. s = a @ p @ b" by blast
next
  assume "\<exists>a b. s = a @ p @ b"
  then obtain a b where s: "s = a @ p @ b" by blast
  then have "has_prefix (drop (length a) s) p" "length a \<le> length s" by auto
  then show "str_contains s p"
    unfolding str_contains_def using str_index_None by blast
qed

lemma sorted_sorted_keys [simp]: "sorted (sorted_keys m)"
  by (simp add: sorted_keys_def)

lemma set_sorted_keys [simp]: "set (sorted_keys m) = fst ` set m"
  by (simp add: sorted_keys_def)

lemma map_of_same_map: "same_map m m' \<Longrightarrow> map_of m' = map_of m"
  by (metis distinct_map go_map_def map_of_inject_set mset_eq_imp_distinct_iff mset_map
      same_map_def set_mset_mset)

lemma set_same_map: "same_map m m' \<Longrightarrow> set m' = set m"
  by (metis same_map_def set_mset_mset)

lemma sorted_keys_same_map: "same_map m m' \<Longrightarrow> sorted_keys m' = sorted_keys m"
  unfolding sorted_keys_def same_map_def
  by (metis mset_map mset_sort properties_for_sort sorted_sort)

lemma has_key_iff: "has_key m k \<longleftrightarrow> k \<in> fst ` set m"
  by (auto simp: has_key_def map_of_eq_None_iff)

end
