(* ===== verification/Proto_Options.thy ===== *)
theory Proto_Options
  imports Go_Prelude
begin

text \<open>
  The messages of the module \<open>rewriter-proto\<close> that the source reads and writes, reduced to the
  fields it uses. They are data: no function of that module is modelled, apart from the getters
  protobuf generates, which return the zero value on a nil message. A message pointer is an
  \<open>option\<close> (\<^const>\<open>None\<close> is nil), a protobuf map is an association list,
  and a protobuf enum is open: an unknown number is a value too.
\<close>

section \<open>Enums\<close>

datatype contract_version =
  ContractUnspecified | ContractV1 | ContractV2 | ContractOther int

datatype read_mode =
  ReadModeUnspecified | ReadModeSafe | ReadModeUnsafeLatest | ReadModeOther int

datatype rewrite_code =
  CodeSuccess | CodeRewriteError | CodeSyntaxError | CodeUnsupportedStatement
| CodeInvalidRewriteRequest

datatype existence_clause =
  ExistenceUnspecified | ExistenceIfExists | ExistenceIfNotExists

datatype statement_type =
  StUnspecified | StSelect | StInsert | StCreateTable | StDropTable | StAlterTable
| StCreateDatabase | StDropDatabase | StTruncateTable | StDelete | StUpdate | StUse | StGrant
| StRevoke | StRenameTable | StExistsTable | StShowCreateTable | StDescribe | StShowDatabases
| StShowTables | StCreateView | StDropView | StCreateMaterializedView

section \<open>Table name arguments\<close>

record si_table =
  safe_table :: gostring
  unsafe_table :: gostring
  excluded_unsafe_parts :: "gostring list"

record si_args =
  contract_version :: contract_version
  si_read_mode :: read_mode
  reserved_row_id_column :: gostring
  si_tables :: "(gostring \<times> si_table option) list"
  reserved_databases :: "gostring list"

record remote_upstream =
  ru_addr :: gostring
  ru_user :: gostring
  ru_password :: gostring

record dynamic_args =
  da_database_map :: "(gostring \<times> gostring) list"
  da_known_physical_databases :: "gostring list"
  da_logical_context :: gostring
  da_physical_context :: gostring
  da_delim :: gostring
  da_extra_arguments :: "gostring list"
  da_remote_index :: "(gostring \<times> gostring) list"
  da_remote_upstreams :: "(gostring \<times> remote_upstream option) list"
  da_protected_databases :: "gostring list"
  da_storage_integrity :: "si_args option"

record remote_table =
  rt_addr :: gostring
  rt_database :: gostring
  rt_table :: gostring
  rt_user :: gostring
  rt_password :: gostring

record table_with_database =
  wd_database :: gostring
  wd_table :: gostring

record static_args =
  sa_table_map :: "(gostring \<times> gostring) list"
  sa_remote_table_map :: "(gostring \<times> remote_table option) list"
  sa_table_with_database_map :: "(gostring \<times> table_with_database option) list"

record table_name_args =
  tn_static :: "static_args option"
  tn_dynamic :: "dynamic_args option"

text \<open>
  The option list of a request: name resolution reads only \<open>TableNameRewrite\<close>, the SELECT pipeline the others.
  The numbers are the values of their conversion to \<open>int64\<close>.
\<close>

datatype rewrite_op =
  OpTableNameRewrite | OpCommonTableExprRewrite | OpLimitRewrite | OpOffsetRewrite
| OpSettingsRewrite | OpOther int

datatype limit_args = LimitUnset | LimitForce int | LimitReplace int int

datatype setting_payload =
  SettingString gostring | SettingBool bool | SettingInt int | SettingUint nat | SettingUnset

record rewrite_option =
  ro_op :: rewrite_op
  ro_table_name_args :: "table_name_args option"
  ro_ctes :: "(gostring \<times> gostring) list"
  ro_limit :: limit_args
  ro_offset :: int
  ro_settings :: "(gostring \<times> setting_payload) list"

section \<open>Getters on nil-able messages\<close>

text \<open>The generated getter \<open>(x *T).GetF()\<close>: the field, or its zero value when \<open>x\<close> is nil.\<close>

definition getter :: "('m \<Rightarrow> 'f) \<Rightarrow> 'f \<Rightarrow> 'm option \<Rightarrow> 'f" where
  "getter f zero m = (case m of None \<Rightarrow> zero | Some x \<Rightarrow> f x)"

lemma getter_simps [simp]:
  "getter f z None = z"
  "getter f z (Some x) = f x"
  by (simp_all add: getter_def)

abbreviation "get_database_map \<equiv> getter da_database_map []"
abbreviation "get_known_physical_databases \<equiv> getter da_known_physical_databases []"
abbreviation "get_logical_context \<equiv> getter da_logical_context []"
abbreviation "get_physical_context \<equiv> getter da_physical_context []"
abbreviation "get_delim \<equiv> getter da_delim []"
abbreviation "get_extra_arguments \<equiv> getter da_extra_arguments []"
abbreviation "get_remote_index \<equiv> getter da_remote_index []"
abbreviation "get_remote_upstreams \<equiv> getter da_remote_upstreams []"
abbreviation "get_protected_databases \<equiv> getter da_protected_databases []"
abbreviation "get_storage_integrity \<equiv> getter da_storage_integrity None"

abbreviation "get_contract_version \<equiv> getter contract_version ContractUnspecified"
abbreviation "get_read_mode \<equiv> getter si_read_mode ReadModeUnspecified"
abbreviation "get_reserved_row_id_column \<equiv> getter reserved_row_id_column []"
abbreviation "get_si_tables \<equiv> getter si_tables []"
abbreviation "get_reserved_databases \<equiv> getter reserved_databases []"

abbreviation "get_safe_table \<equiv> getter safe_table []"
abbreviation "get_unsafe_table \<equiv> getter unsafe_table []"

abbreviation "get_addr \<equiv> getter ru_addr []"
abbreviation "get_user \<equiv> getter ru_user []"
abbreviation "get_password \<equiv> getter ru_password []"

abbreviation "get_rt_addr \<equiv> getter rt_addr []"
abbreviation "get_rt_database \<equiv> getter rt_database []"
abbreviation "get_rt_table \<equiv> getter rt_table []"
abbreviation "get_rt_user \<equiv> getter rt_user []"
abbreviation "get_rt_password \<equiv> getter rt_password []"

abbreviation "get_wd_database \<equiv> getter wd_database []"
abbreviation "get_wd_table \<equiv> getter wd_table []"

abbreviation "get_table_map \<equiv> getter sa_table_map []"
abbreviation "get_remote_table_map \<equiv> getter sa_remote_table_map []"
abbreviation "get_table_with_database_map \<equiv> getter sa_table_with_database_map []"

abbreviation "get_static_args \<equiv> getter tn_static None"
abbreviation "get_dynamic_args \<equiv> getter tn_dynamic None"

section \<open>The response\<close>

record accessed_table =
  at_original_database :: gostring
  at_original_table :: gostring
  at_logical_database :: gostring
  at_physical_database :: gostring
  at_is_remote :: bool
  at_is_storage_integrity :: bool

datatype delta_action = ActionGrant | ActionRevoke

datatype delta_scope = ScopeUnspecified | ScopeDatabase | ScopeTable

record grantee =
  gr_name :: gostring
  gr_is_current_user :: bool

record privilege_delta =
  pd_action :: delta_action
  pd_scope :: delta_scope
  pd_original_database :: gostring
  pd_original_table :: gostring
  pd_logical_database :: gostring
  pd_physical_database :: gostring
  pd_physical_table :: gostring
  pd_grant_option :: bool
  pd_privileges :: "gostring list"
  pd_grantees :: "grantee list"

record response =
  r_code :: rewrite_code
  r_message :: gostring
  r_sql_after_rewrite :: gostring
  r_statement_type :: statement_type
  r_existence_clause :: existence_clause
  r_si_contract_version :: contract_version
  r_table_rewrites :: "(gostring \<times> gostring) list"
  r_database_rewrites :: "(gostring \<times> gostring) list"
  r_accessed :: "accessed_table list"
  r_failed_cte_aliases :: "gostring list"
  r_privileges_deltas :: "privilege_delta list"

section \<open>A sample request\<close>

text \<open>
  The policy the worked examples use: one logical database routed to a physical one, and one
  storage-integrity table under the V2 contract.
\<close>

definition sample_si :: si_args where
  "sample_si =
     \<lparr>contract_version = ContractV2, si_read_mode = ReadModeSafe, reserved_row_id_column = ''_row'',
      si_tables = [(''shop.orders'', Some \<lparr>safe_table = ''si_safe.orders'', unsafe_table = ''si_raw.orders'',
         excluded_unsafe_parts = []\<rparr>)],
      reserved_databases = [''si_meta'']\<rparr>"

definition sample_args :: dynamic_args where
  "sample_args =
     \<lparr>da_database_map = [(''shop'', ''phys'')], da_known_physical_databases = [''extra''],
      da_logical_context = ''shop'', da_physical_context = ''phys'', da_delim = [],
      da_extra_arguments = [''t1''], da_remote_index = [], da_remote_upstreams = [],
      da_protected_databases = [''vault''], da_storage_integrity = Some sample_si\<rparr>"

definition sample_options :: "rewrite_option list" where
  "sample_options =
     [\<lparr>ro_op = OpTableNameRewrite,
       ro_table_name_args = Some \<lparr>tn_static = None, tn_dynamic = Some sample_args\<rparr>,
       ro_ctes = [], ro_limit = LimitUnset, ro_offset = 0, ro_settings = []\<rparr>]"

end
