(* ===== verification/Name_Contract.thy ===== *)
theory Name_Contract
  imports Proto_Options
begin

text \<open>
  \<open>internal/nameresolve\<close>, the part that says which databases the protocol owns: the shape checks of
  names (\<open>resolve.go\<close>), the storage-integrity contract (\<open>contract.go\<close> and the SI half of
  \<open>resolve.go\<close>) and the protected databases (\<open>protected.go\<close>). All of it is pure policy over the request's options.
\<close>

section \<open>Name shapes\<close>

definition split_qualified :: "gostring \<Rightarrow> gostring \<times> gostring" where
  "split_qualified name =
     (case index_byte name CHR ''.'' of
        Some i \<Rightarrow> (take i name, drop (i + 1) name)
      | None \<Rightarrow> ([], name))"

text \<open>
  The loop of \<open>simpleIdentifier\<close> ranges over runes; a non-ASCII rune is neither a letter nor a digit
  there, and each of its bytes is neither here, so testing bytes decides the same.
\<close>

fun simple_identifier_from :: "nat \<Rightarrow> gostring \<Rightarrow> bool" where
  "simple_identifier_from i [] = True"
| "simple_identifier_from i (r # rs) =
     (let alpha = r = CHR ''_'' \<or> is_lower_byte r \<or> is_upper_byte r; digit = is_digit_byte r
      in if \<not> alpha \<and> \<not> (i > 0 \<and> digit) then False else simple_identifier_from (i + 1) rs)"

definition simple_identifier :: "gostring \<Rightarrow> bool" where
  "simple_identifier s = (if s = [] then False else simple_identifier_from 0 s)"

text \<open>\<open>(db, table, ok)\<close>: the named results keep their split values when \<open>ok\<close> is false.\<close>

definition exact_qualified_table :: "gostring \<Rightarrow> gostring \<times> gostring \<times> bool" where
  "exact_qualified_table s =
     (if count_list s CHR ''.'' \<noteq> 1 then ([], [], False)
      else let (db, table) = split_qualified s
           in (db, table, simple_identifier db \<and> simple_identifier table))"

section \<open>The storage-integrity contract\<close>

definition storage_integrity_surface_active :: "dynamic_args option \<Rightarrow> bool" where
  "storage_integrity_surface_active a =
     (let si = get_storage_integrity a
      in if get_contract_version si = ContractV2 then True else length (get_si_tables si) > 0)"

definition storage_integrity_reserved_database :: "gostring \<Rightarrow> dynamic_args option \<Rightarrow> bool" where
  "storage_integrity_reserved_database db a =
     (let si = get_storage_integrity a
      in if db = [] \<or> get_contract_version si \<noteq> ContractV2 then False
         else list_ex (\<lambda>reserved. reserved = db) (get_reserved_databases si))"

text \<open>One table-map entry names \<open>db\<close> as the database of its safe or unsafe table.\<close>

definition physical_names_database :: "gostring \<Rightarrow> si_table \<Rightarrow> bool" where
  "physical_names_database db tbl =
     list_ex (\<lambda>physical. let (physicalDB, _, ok) = exact_qualified_table physical
                          in ok \<and> db = physicalDB) [safe_table tbl, unsafe_table tbl]"

definition is_si_physical_database :: "gostring \<Rightarrow> dynamic_args option \<Rightarrow> bool" where
  "is_si_physical_database db a =
     (if a = None \<or> db = [] then False
      else if list_ex (\<lambda>(key, tbl). case tbl of None \<Rightarrow> False
                                     | Some t \<Rightarrow> physical_names_database db t)
                (get_si_tables (get_storage_integrity a))
      then True
      else storage_integrity_reserved_database db a)"

definition is_si_logical_database :: "gostring \<Rightarrow> dynamic_args option \<Rightarrow> bool" where
  "is_si_logical_database db a =
     (if a = None \<or> db = [] then False
      else list_ex (\<lambda>(key, tbl). case tbl of None \<Rightarrow> False
                      | Some t \<Rightarrow> let (logicalDB, _, ok) = exact_qualified_table key
                                 in ok \<and> logicalDB = db)
             (get_si_tables (get_storage_integrity a)))"

fun si_physical_key :: "gostring \<Rightarrow> (gostring \<times> si_table option) list \<Rightarrow> gostring option" where
  "si_physical_key db [] = None"
| "si_physical_key db ((logicalKey, tbl) # rest) =
     (case tbl of
        None \<Rightarrow> si_physical_key db rest
      | Some t \<Rightarrow> if physical_names_database db t then Some logicalKey else si_physical_key db rest)"

definition lookup_si_physical ::
    "gostring \<Rightarrow> gostring \<Rightarrow> dynamic_args option \<Rightarrow> gostring \<times> bool" where
  "lookup_si_physical db table a =
     (if a = None \<or> table = [] then ([], False)
      else
        let effectiveDB = (if db = [] then get_logical_context a else db)
        in if effectiveDB = [] then ([], False)
           else case si_physical_key effectiveDB (get_si_tables (get_storage_integrity a)) of
                  Some logicalKey \<Rightarrow> (logicalKey, True)
                | None \<Rightarrow> ([], storage_integrity_reserved_database effectiveDB a))"

text \<open>\<open>LookupStorageIntegrity\<close>: the entry and its key, or \<^const>\<open>None\<close> for \<open>ok = false\<close>.\<close>

definition lookup_storage_integrity ::
    "gostring \<Rightarrow> gostring \<Rightarrow> dynamic_args option \<Rightarrow> (si_table \<times> gostring) option" where
  "lookup_storage_integrity db table a =
     (let tables = get_si_tables (get_storage_integrity a)
      in if length tables = 0 \<or> table = [] then None
         else
           let logical = (if db = [] then get_logical_context a else db)
           in if logical = [] then None
              else
                let key = logical @ ''.'' @ table
                in case map_of tables key of
                     None \<Rightarrow> None
                   | Some None \<Rightarrow> None
                   | Some (Some tbl) \<Rightarrow> Some (tbl, key))"

fun physical_databases_of :: "(gostring \<times> si_table option) list \<Rightarrow> gostring list" where
  "physical_databases_of [] = []"
| "physical_databases_of ((key, tbl) # rest) =
     (case tbl of
        None \<Rightarrow> []
      | Some t \<Rightarrow>
          concat (map (\<lambda>physical. let (db, _, ok) = exact_qualified_table physical
                                   in if ok then [db] else [])
                   [safe_table t, unsafe_table t])) @ physical_databases_of rest"

text \<open>The set \<open>seen\<close> is a Go map used as a set; its keys are collected once and sorted.\<close>

definition si_physical_databases :: "dynamic_args option \<Rightarrow> gostring list" where
  "si_physical_databases a =
     (let si = get_storage_integrity a;
          seen = physical_databases_of (get_si_tables si)
                 @ filter (\<lambda>db. storage_integrity_reserved_database db a) (get_reserved_databases si)
      in sort (remdups seen))"

definition authorize_si_logical :: "gostring \<Rightarrow> dynamic_args option \<Rightarrow> gostring \<times> bool" where
  "authorize_si_logical db a =
     (if a = None then ([], False)
      else
        let logical = (if db = [] then get_logical_context a else db)
        in if logical = [] then ([], False) else (logical, has_key (get_database_map a) logical))"

definition default_reserved_row_id_column :: gostring where
  "default_reserved_row_id_column = ''_hg_row_id''"

definition reserved_row_id :: "dynamic_args option \<Rightarrow> gostring" where
  "reserved_row_id a =
     (let rid = get_reserved_row_id_column (get_storage_integrity a)
      in if rid \<noteq> [] then rid else default_reserved_row_id_column)"

section \<open>Protected databases\<close>

definition protected_database :: "gostring \<Rightarrow> dynamic_args option \<Rightarrow> bool" where
  "protected_database db a =
     (if db = [] \<or> a = None then False
      else if list_ex (\<lambda>(_, physical). physical = db) (get_database_map a) then True
      else if list_ex (\<lambda>protected. protected = db) (get_protected_databases a) then True
      else is_si_physical_database db a)"

definition metadata_database :: "gostring \<Rightarrow> bool" where
  "metadata_database db \<longleftrightarrow>
     db = ''system'' \<or> db = ''information_schema'' \<or> db = ''INFORMATION_SCHEMA''"

section \<open>Validation of the request\<close>

text \<open>
  The error values of \<open>ValidateStorageIntegrity\<close> and \<open>ValidateProtectedDatabases\<close>: one constructor per
  \<open>fmt.Errorf\<close>, carrying the values its text prints.
\<close>

datatype config_error =
  RowIdNotSimple
| ReadModeNotSupported int
| LogicalKeyShape gostring
| TableNil gostring
| TableNamesEmpty gostring
| SafeTableShape gostring gostring
| UnsafeTableShape gostring gostring
| ReservedDatabaseNotSimple gostring
| ProtectedDatabaseNotSimple gostring
| DatabaseMapMetadata gostring gostring

definition validate_si_entry :: "gostring \<Rightarrow> si_table option option \<Rightarrow> config_error option" where
  "validate_si_entry key tbl =
     (if \<not> snd (snd (exact_qualified_table key)) then Some (LogicalKeyShape key)
      else case tbl of
             Some (Some t) \<Rightarrow>
               if safe_table t = [] \<or> unsafe_table t = [] then Some (TableNamesEmpty key)
               else if \<not> snd (snd (exact_qualified_table (safe_table t)))
                 then Some (SafeTableShape key (safe_table t))
               else if \<not> snd (snd (exact_qualified_table (unsafe_table t)))
                 then Some (UnsafeTableShape key (unsafe_table t))
               else None
           | _ \<Rightarrow> Some (TableNil key))"

text \<open>The first error of a loop over \<open>xs\<close>.\<close>

fun first_error :: "('a \<Rightarrow> 'e option) \<Rightarrow> 'a list \<Rightarrow> 'e option" where
  "first_error f [] = None"
| "first_error f (x # xs) = (case f x of Some e \<Rightarrow> Some e | None \<Rightarrow> first_error f xs)"

definition read_mode_error :: "read_mode \<Rightarrow> config_error option" where
  "read_mode_error m =
     (case m of
        ReadModeUnspecified \<Rightarrow> None
      | ReadModeSafe \<Rightarrow> None
      | ReadModeUnsafeLatest \<Rightarrow> None
      | ReadModeOther n \<Rightarrow> Some (ReadModeNotSupported n))"

definition validate_storage_integrity :: "dynamic_args option \<Rightarrow> config_error option" where
  "validate_storage_integrity a =
     (case get_storage_integrity a of
        None \<Rightarrow> None
      | Some si \<Rightarrow>
          let rid = reserved_row_id_column si
          in if rid \<noteq> [] \<and> \<not> simple_identifier rid then Some RowIdNotSimple
             else case read_mode_error (si_read_mode si) of
                    Some e \<Rightarrow> Some e
                  | None \<Rightarrow>
                      (case first_error (\<lambda>key. validate_si_entry key (map_of (si_tables si) key))
                              (sorted_keys (si_tables si)) of
                         Some e \<Rightarrow> Some e
                       | None \<Rightarrow>
                           if contract_version si = ContractV2
                           then first_error (\<lambda>db. if simple_identifier db then None
                                                   else Some (ReservedDatabaseNotSimple db))
                                  (reserved_databases si)
                           else None))"

definition validate_protected_databases :: "dynamic_args option \<Rightarrow> config_error option" where
  "validate_protected_databases a =
     (case first_error (\<lambda>db. if simple_identifier db then None
                              else Some (ProtectedDatabaseNotSimple db))
             (get_protected_databases a) of
        Some e \<Rightarrow> Some e
      | None \<Rightarrow>
          first_error (\<lambda>logical. case map_of (get_database_map a) logical of
                          Some physical \<Rightarrow>
                            if metadata_database physical
                            then Some (DatabaseMapMetadata logical physical) else None
                        | None \<Rightarrow> None)
            (sorted_keys (get_database_map a)))"

end
