(* ===== verification/Name_Resolve.thy ===== *)
theory Name_Resolve
  imports Name_Contract
begin

text \<open>
  \<open>internal/nameresolve/resolve.go\<close>, the resolver: the active selection of a request
  (\<open>FindActive\<close>), the static and dynamic resolution of one (database, table) target, and the
  best-effort resolution behind \<open>original_accessed_tables\<close>.
\<close>

datatype status =
  StatusPassthrough | StatusRewrite | StatusRemote | StatusRemoteUnsupported | StatusInvalid

record outcome =
  o_status :: status
  o_physical_db :: gostring
  o_new_table :: gostring
  o_logical_db :: gostring
  o_remote_addr :: gostring
  o_remote_user :: gostring
  o_remote_password :: gostring
  o_reject_reason :: gostring

text \<open>The zero \<open>Outcome\<close> with its status set; a composite literal sets the fields it names.\<close>

definition outcome0 :: "status \<Rightarrow> outcome" where
  "outcome0 st = \<lparr>o_status = st, o_physical_db = [], o_new_table = [], o_logical_db = [],
     o_remote_addr = [], o_remote_user = [], o_remote_password = [], o_reject_reason = []\<rparr>"

section \<open>The active selection\<close>

datatype mode = ModeNone | ModeStatic | ModeDynamic

record selection =
  sel_mode :: mode
  sel_static :: "static_args option"
  sel_dynamic :: "dynamic_args option"

definition selection_none :: selection where
  "selection_none = \<lparr>sel_mode = ModeNone, sel_static = None, sel_dynamic = None\<rparr>"

text \<open>One iteration of the loop of \<open>FindActive\<close>.\<close>

definition find_active_step :: "selection \<Rightarrow> rewrite_option \<Rightarrow> selection" where
  "find_active_step sel opt =
     (if ro_op opt \<noteq> OpTableNameRewrite then sel
      else case ro_table_name_args opt of
             None \<Rightarrow> sel
           | Some na \<Rightarrow>
               (if tn_static na \<noteq> None
                then \<lparr>sel_mode = ModeStatic, sel_static = tn_static na, sel_dynamic = None\<rparr>
                else if tn_dynamic na \<noteq> None
                then \<lparr>sel_mode = ModeDynamic, sel_static = None, sel_dynamic = tn_dynamic na\<rparr>
                else sel))"

definition find_active :: "rewrite_option list \<Rightarrow> selection" where
  "find_active opts = foldl find_active_step selection_none opts"

definition find_dynamic_args_step ::
    "dynamic_args option \<Rightarrow> rewrite_option \<Rightarrow> dynamic_args option" where
  "find_dynamic_args_step found opt =
     (if ro_op opt \<noteq> OpTableNameRewrite then found
      else case get_dynamic_args (ro_table_name_args opt) of Some d \<Rightarrow> Some d | None \<Rightarrow> found)"

definition find_dynamic_args :: "rewrite_option list \<Rightarrow> dynamic_args option" where
  "find_dynamic_args opts = foldl find_dynamic_args_step None opts"

definition storage_integrity_drop_contract :: "selection \<Rightarrow> bool" where
  "storage_integrity_drop_contract sel \<longleftrightarrow>
     sel_mode sel = ModeDynamic \<and>
     get_contract_version (get_storage_integrity (sel_dynamic sel)) = ContractV2"

section \<open>Static resolution\<close>

definition qualify :: "gostring \<Rightarrow> gostring \<Rightarrow> gostring" where
  "qualify db table = (if db = [] then table else db @ ''.'' @ table)"

definition lookup_static :: "gostring \<Rightarrow> gostring \<Rightarrow> static_args option \<Rightarrow> outcome" where
  "lookup_static db table a =
     (let key = qualify db table
      in case map_of (get_table_map a) key of
           Some nt \<Rightarrow> (outcome0 StatusRewrite)
             \<lparr>o_physical_db := db, o_new_table := nt, o_logical_db := db\<rparr>
         | None \<Rightarrow>
             (case map_of (get_remote_table_map a) key of
                Some rt \<Rightarrow> (outcome0 StatusRemote)
                  \<lparr>o_physical_db := get_rt_database rt, o_new_table := get_rt_table rt,
                   o_logical_db := db, o_remote_addr := get_rt_addr rt,
                   o_remote_user := get_rt_user rt, o_remote_password := get_rt_password rt\<rparr>
              | None \<Rightarrow>
                  (case map_of (get_table_with_database_map a) key of
                     Some wd \<Rightarrow>
                       (let newDB = (if get_wd_database wd = [] then db else get_wd_database wd)
                        in (outcome0 StatusRewrite)
                             \<lparr>o_physical_db := newDB, o_new_table := get_wd_table wd,
                              o_logical_db := db\<rparr>)
                   | None \<Rightarrow> outcome0 StatusPassthrough)))"

section \<open>Dynamic resolution\<close>

text \<open>The loop over the known physical databases: the first entry equal to \<open>logical\<close> decides.\<close>

fun known_physical_loop ::
    "gostring \<Rightarrow> dynamic_args option \<Rightarrow> gostring list \<Rightarrow> gostring option" where
  "known_physical_loop logical a [] = None"
| "known_physical_loop logical a (k # ks) =
     (if k \<noteq> logical then known_physical_loop logical a ks
      else if protected_database k a then None
      else Some logical)"

definition resolve_physical_database :: "gostring \<Rightarrow> dynamic_args option \<Rightarrow> gostring option" where
  "resolve_physical_database logical a =
     (if logical = [] then None
      else case map_of (get_database_map a) logical of
             Some phys \<Rightarrow> Some phys
           | None \<Rightarrow> known_physical_loop logical a (get_known_physical_databases a))"

definition is_logical_remote_mapped :: "gostring \<Rightarrow> dynamic_args option \<Rightarrow> bool" where
  "is_logical_remote_mapped logical a =
     (if logical = [] then False else has_key (get_remote_index a) logical)"

definition effective_delim :: "dynamic_args option \<Rightarrow> gostring" where
  "effective_delim a = (if get_delim a = [] then ''_'' else get_delim a)"

definition build_dynamic_table_name ::
    "gostring \<Rightarrow> gostring \<Rightarrow> dynamic_args option \<Rightarrow> gostring" where
  "build_dynamic_table_name logical originTable a =
     (if originTable = [] then []
      else logical
           @ concat (map (\<lambda>extra. effective_delim a @ extra) (get_extra_arguments a))
           @ ''.'' @ originTable)"

definition build_dynamic_table_prefix :: "gostring \<Rightarrow> dynamic_args option \<Rightarrow> gostring" where
  "build_dynamic_table_prefix logical a =
     logical
     @ concat (map (\<lambda>extra. effective_delim a @ extra) (get_extra_arguments a))
     @ ''.''"

definition protected_reject_message :: "gostring \<Rightarrow> gostring" where
  "protected_reject_message db = ''protected database '' @ db @ '' is not addressable''"

definition apply_dynamic :: "gostring \<Rightarrow> gostring \<Rightarrow> dynamic_args option \<Rightarrow> outcome" where
  "apply_dynamic db table a =
     (let logical = (if db = [] then get_logical_context a else db)
      in if logical = [] then (outcome0 StatusInvalid)
           \<lparr>o_reject_reason := ''unqualified target and no upstream_logical_database_in_context''\<rparr>
         else if protected_database logical a then (outcome0 StatusInvalid)
           \<lparr>o_reject_reason := protected_reject_message logical\<rparr>
         else case resolve_physical_database logical a of
                None \<Rightarrow> (outcome0 StatusInvalid)
                  \<lparr>o_reject_reason := ''logical db '' @ logical
                     @ '' not in database_map and not a known physical database''\<rparr>
              | Some physical \<Rightarrow>
                  (let newTable = build_dynamic_table_name logical table a
                   in case map_of (get_remote_index a) logical of
                        Some key \<Rightarrow>
                          (case map_of (get_remote_upstreams a) key of
                             None \<Rightarrow> (outcome0 StatusInvalid)
                               \<lparr>o_reject_reason := ''remote upstream key '' @ key
                                  @ '' not in remote_upstreams''\<rparr>
                           | Some up \<Rightarrow> (outcome0 StatusRemote)
                               \<lparr>o_physical_db := physical, o_new_table := newTable,
                                o_logical_db := logical, o_remote_addr := get_addr up,
                                o_remote_user := get_user up,
                                o_remote_password := get_password up\<rparr>)
                      | None \<Rightarrow> (outcome0 StatusRewrite)
                          \<lparr>o_physical_db := physical, o_new_table := newTable,
                           o_logical_db := logical\<rparr>))"

definition resolve :: "gostring \<Rightarrow> gostring \<Rightarrow> selection \<Rightarrow> outcome" where
  "resolve db table sel =
     (case sel_mode sel of
        ModeStatic \<Rightarrow> lookup_static db table (sel_static sel)
      | ModeDynamic \<Rightarrow> apply_dynamic db table (sel_dynamic sel)
      | ModeNone \<Rightarrow> outcome0 StatusPassthrough)"

section \<open>Messages\<close>

definition si_unmodelled_message :: gostring where
  "si_unmodelled_message =
     ''storage-integrity is configured; statement class is not modelled by the rewriter and cannot be forwarded''"

definition si_write_reject_message :: "gostring \<Rightarrow> gostring" where
  "si_write_reject_message logicalKey =
     ''storage-integrity table '' @ logicalKey @ '' accepts writes only through the signed statement lane''"

definition si_unauthorized_message :: "gostring \<Rightarrow> gostring" where
  "si_unauthorized_message logical =
     ''storage-integrity logical database '' @ logical @ '' is not authorized by database_map''"

definition si_physical_reject_message :: "gostring \<Rightarrow> gostring" where
  "si_physical_reject_message physical =
     ''storage-integrity physical table '' @ physical @ '' is not directly addressable''"

definition si_physical_database_reject_message :: "gostring \<Rightarrow> gostring" where
  "si_physical_database_reject_message physical =
     ''storage-integrity physical database '' @ physical @ '' is not directly addressable''"

definition si_logical_database_reject_message :: "gostring \<Rightarrow> gostring" where
  "si_logical_database_reject_message logical =
     ''storage-integrity logical database '' @ logical @ '' is not directly addressable''"

definition si_function_namespace_reject_message :: "gostring \<Rightarrow> gostring" where
  "si_function_namespace_reject_message physical =
     ''storage-integrity table function namespace '' @ physical @ '' is not directly addressable''"

definition si_unresolved_function_namespace_message :: gostring where
  "si_unresolved_function_namespace_message =
     ''storage-integrity table function namespace is not statically resolvable''"

definition unresolved_unqualified_prefix :: gostring where
  "unresolved_unqualified_prefix = ''unqualified table '' @ [CHR 0x22]"

definition unresolved_unqualified_suffix :: gostring where
  "unresolved_unqualified_suffix =
     [CHR 0x22] @ '' does not resolve through the session'' @ [CHR 0x27] @ ''s logical database''"

definition unresolved_unqualified_table_message :: "gostring \<Rightarrow> gostring" where
  "unresolved_unqualified_table_message table =
     unresolved_unqualified_prefix @ table @ unresolved_unqualified_suffix"

definition is_unresolved_unqualified_table_message :: "gostring \<Rightarrow> bool" where
  "is_unresolved_unqualified_table_message msg \<longleftrightarrow>
     length msg \<ge> length unresolved_unqualified_prefix + length unresolved_unqualified_suffix \<and>
     has_prefix msg unresolved_unqualified_prefix \<and> has_suffix msg unresolved_unqualified_suffix"

section \<open>Accessed tables\<close>

record accessed =
  ac_logical_db :: gostring
  ac_physical_db :: gostring
  ac_is_remote :: bool
  ac_is_si :: bool

definition accessed0 :: accessed where
  "accessed0 = \<lparr>ac_logical_db = [], ac_physical_db = [], ac_is_remote = False, ac_is_si = False\<rparr>"

definition resolve_accessed :: "gostring \<Rightarrow> gostring \<Rightarrow> selection \<Rightarrow> accessed" where
  "resolve_accessed db table sel =
     (case sel_mode sel of
        ModeStatic \<Rightarrow>
          (let oc = lookup_static db table (sel_static sel)
           in accessed0\<lparr>ac_physical_db := o_physical_db oc,
                        ac_is_remote := (o_status oc = StatusRemote)\<rparr>)
      | ModeDynamic \<Rightarrow>
          (let a = sel_dynamic sel
           in if snd (lookup_si_physical db table a)
              then accessed0\<lparr>ac_physical_db := (if db = [] then get_logical_context a else db),
                             ac_is_si := True\<rparr>
              else
                (let logical = (if db = [] then get_logical_context a else db);
                     phys = (case resolve_physical_database logical a of Some p \<Rightarrow> p | None \<Rightarrow> []);
                     isSI = lookup_storage_integrity db table a \<noteq> None;
                     isRemote = (if isSI then False else has_key (get_remote_index a) logical)
                 in \<lparr>ac_logical_db = logical, ac_physical_db = phys,
                     ac_is_remote = isRemote, ac_is_si = isSI\<rparr>))
      | ModeNone \<Rightarrow> accessed0)"

end
