(* ===== verification/Name_Contract_Facts.thy ===== *)
theory Name_Contract_Facts
  imports Name_Contract
begin

text \<open>
  What \<open>internal/nameresolve\<close> promises about names and about the configuration: the shape
  \<open>exactQualifiedTable\<close> accepts, what a configuration that passed validation satisfies, and which
  databases are protected, whatever order Go visits its maps in.
\<close>

section \<open>Shapes\<close>

definition identifier_byte :: "char \<Rightarrow> bool" where
  "identifier_byte c \<longleftrightarrow> c = CHR ''_'' \<or> is_alpha_byte c \<or> is_digit_byte c"

lemma simple_identifier_from_pos:
  "i > 0 \<Longrightarrow> simple_identifier_from i s \<longleftrightarrow> list_all identifier_byte s"
  by (induction s arbitrary: i) (auto simp: identifier_byte_def is_alpha_byte_def)

lemma simple_identifier_iff:
  "simple_identifier s \<longleftrightarrow>
     (\<exists>c cs. s = c # cs \<and> identifier_byte c \<and> \<not> is_digit_byte c \<and> list_all identifier_byte cs)"
proof (cases s)
  case (Cons c cs)
  have "\<not> (is_digit_byte c \<and> (c = CHR ''_'' \<or> is_lower_byte c \<or> is_upper_byte c))"
    by (auto simp: byte_class_defs less_eq_char_def)
  then show ?thesis
    unfolding simple_identifier_def Cons
    by (auto simp: simple_identifier_from_pos identifier_byte_def is_alpha_byte_def)
qed (simp add: simple_identifier_def)

lemma dot_not_identifier_byte: "\<not> identifier_byte CHR ''.''"
  by (simp add: identifier_byte_def byte_class_defs less_eq_char_def)

lemma simple_identifier_no_dot: "simple_identifier s \<Longrightarrow> CHR ''.'' \<notin> set s"
  using dot_not_identifier_byte by (auto simp: simple_identifier_iff list_all_iff)

lemma simple_identifier_nonempty: "simple_identifier s \<Longrightarrow> s \<noteq> []"
  by (auto simp: simple_identifier_def)

lemma split_qualified_eq:
  "CHR ''.'' \<notin> set db \<Longrightarrow> split_qualified (db @ CHR ''.'' # table) = (db, table)"
  by (simp add: split_qualified_def index_byte_append)

lemma split_qualified_dot:
  assumes "CHR ''.'' \<in> set s"
  obtains db table where "s = db @ CHR ''.'' # table" "CHR ''.'' \<notin> set db"
  using assms by (metis split_list_first)

lemma exact_qualified_table_iff:
  "exact_qualified_table s = (db, table, True) \<longleftrightarrow>
     s = db @ CHR ''.'' # table \<and> simple_identifier db \<and> simple_identifier table"
proof
  assume ok: "exact_qualified_table s = (db, table, True)"
  then have one: "count_list s CHR ''.'' = 1"
    and sp: "split_qualified s = (db, table)"
    and simple: "simple_identifier db" "simple_identifier table"
    by (auto simp: exact_qualified_table_def split: if_splits prod.splits)
  from one have "CHR ''.'' \<in> set s" by (metis count_list_0_iff zero_neq_one)
  then obtain p q where "s = p @ CHR ''.'' # q" "CHR ''.'' \<notin> set p"
    by (rule split_qualified_dot)
  with sp simple show "s = db @ CHR ''.'' # table \<and> simple_identifier db \<and> simple_identifier table"
    by (simp add: split_qualified_eq)
next
  assume s: "s = db @ CHR ''.'' # table \<and> simple_identifier db \<and> simple_identifier table"
  then have "CHR ''.'' \<notin> set db" "CHR ''.'' \<notin> set table" by (simp_all add: simple_identifier_no_dot)
  with s have "count_list s CHR ''.'' = 1" "split_qualified s = (db, table)"
    by (simp_all add: count_list_append count_notin split_qualified_eq)
  with s show "exact_qualified_table s = (db, table, True)"
    by (simp add: exact_qualified_table_def)
qed

lemma exact_qualified_table_ok:
  "snd (snd (exact_qualified_table s)) \<longleftrightarrow>
     (\<exists>db table. s = db @ CHR ''.'' # table \<and> simple_identifier db \<and> simple_identifier table)"
  unfolding exact_qualified_table_iff [symmetric]
  by (cases "exact_qualified_table s") auto

lemma exact_match_iff:
  "(case e of (p, _, ok) \<Rightarrow> ok \<and> db = p) \<longleftrightarrow> (\<exists>table. e = (db, table, True))"
  by (cases e) auto

lemma physical_names_database_iff:
  "physical_names_database db t \<longleftrightarrow>
     (\<exists>table. exact_qualified_table (safe_table t) = (db, table, True)) \<or>
     (\<exists>table. exact_qualified_table (unsafe_table t) = (db, table, True))"
  by (simp add: physical_names_database_def exact_match_iff)

section \<open>Databases of the storage-integrity surface\<close>

lemma is_si_physical_database_iff:
  "is_si_physical_database db a \<longleftrightarrow>
     a \<noteq> None \<and> db \<noteq> [] \<and>
     ((\<exists>key t. (key, Some t) \<in> set (get_si_tables (get_storage_integrity a)) \<and>
               physical_names_database db t) \<or>
      storage_integrity_reserved_database db a)"
  by (force simp: is_si_physical_database_def list_ex_iff split: option.splits)

lemma si_physical_key_Some:
  "si_physical_key db tables \<noteq> None \<longleftrightarrow>
     (\<exists>key t. (key, Some t) \<in> set tables \<and> physical_names_database db t)"
  by (induction tables rule: si_physical_key.induct) (auto split: option.splits)

lemma lookup_si_physical_database:
  "snd (lookup_si_physical db table a) \<longleftrightarrow>
     table \<noteq> [] \<and> is_si_physical_database (if db = [] then get_logical_context a else db) a"
proof -
  define eff where "eff = (if db = [] then get_logical_context a else db)"
  have "snd (lookup_si_physical db table a) \<longleftrightarrow>
      a \<noteq> None \<and> table \<noteq> [] \<and> eff \<noteq> [] \<and>
      (si_physical_key eff (get_si_tables (get_storage_integrity a)) \<noteq> None \<or>
       storage_integrity_reserved_database eff a)"
    by (simp add: lookup_si_physical_def eff_def Let_def split: option.split)
  then show ?thesis
    unfolding eff_def [symmetric] si_physical_key_Some is_si_physical_database_iff by blast
qed

lemma set_physical_databases_of:
  "db \<in> set (physical_databases_of tables) \<longleftrightarrow>
     (\<exists>key t. (key, Some t) \<in> set tables \<and> physical_names_database db t)"
proof (induction tables rule: physical_databases_of.induct)
  case (2 key tbl rest)
  have "db \<in> set (physical_databases_of ((key, tbl) # rest)) \<longleftrightarrow>
      (\<exists>t. tbl = Some t \<and> physical_names_database db t) \<or>
      db \<in> set (physical_databases_of rest)"
  proof (cases tbl)
    case (Some t)
    then show ?thesis
      by (cases "exact_qualified_table (safe_table t)"; cases "exact_qualified_table (unsafe_table t)")
        (auto simp: physical_names_database_iff)
  qed simp
  with 2 show ?case by auto
qed simp

lemma exact_qualified_db_nonempty:
  "physical_names_database db t \<Longrightarrow> db \<noteq> []"
  by (auto simp: physical_names_database_iff exact_qualified_table_iff dest: simple_identifier_nonempty)

lemma reserved_in_list:
  "storage_integrity_reserved_database db a \<Longrightarrow>
     db \<in> set (get_reserved_databases (get_storage_integrity a)) \<and> db \<noteq> []"
  by (auto simp: storage_integrity_reserved_database_def Let_def list_ex_iff split: if_splits)

lemma si_physical_databases_mem:
  "db \<in> set (si_physical_databases (Some a)) \<longleftrightarrow> is_si_physical_database db (Some a)"
  using reserved_in_list [of db "Some a"] exact_qualified_db_nonempty [of db]
  by (auto simp: si_physical_databases_def Let_def set_physical_databases_of is_si_physical_database_iff)

lemma si_physical_databases_sound:
  "db \<in> set (si_physical_databases dyn) \<Longrightarrow> is_si_physical_database db dyn"
  by (cases dyn) (simp_all add: si_physical_databases_mem, simp add: si_physical_databases_def)

text \<open>
  \<open>StorageIntegrityPhysicalDatabases\<close> lists exactly the databases
  \<open>IsStorageIntegrityPhysicalDatabase\<close> accepts, each once and in byte order: the conservative
  metadata of a refused table function names the same namespaces the per-name check protects.
\<close>

theorem si_physical_databases_exact:
  "set (si_physical_databases (Some a)) = {db. is_si_physical_database db (Some a)} \<and>
   sorted (si_physical_databases (Some a)) \<and> distinct (si_physical_databases (Some a))"
  using si_physical_databases_mem [of _ a] by (auto simp: si_physical_databases_def Let_def)

section \<open>Validation\<close>

lemma first_error_None: "first_error f xs = None \<longleftrightarrow> (\<forall>x \<in> set xs. f x = None)"
  by (induction xs) (auto split: option.splits)

lemma first_error_Some:
  "first_error f xs = Some e \<Longrightarrow>
     \<exists>ys x zs. xs = ys @ x # zs \<and> f x = Some e \<and> (\<forall>y \<in> set ys. f y = None)"
proof (induction xs)
  case (Cons x xs)
  show ?case
  proof (cases "f x")
    case None
    with Cons obtain ys y zs where
      "xs = ys @ y # zs \<and> f y = Some e \<and> (\<forall>z \<in> set ys. f z = None)" by auto
    with None show ?thesis by (intro exI [of _ "x # ys"] exI [of _ y] exI [of _ zs]) auto
  next
    case (Some d)
    with Cons.prems show ?thesis by (intro exI [of _ "[]"] exI [of _ x] exI [of _ xs]) auto
  qed
qed simp

text \<open>The abstract contract of a usable storage-integrity configuration.\<close>

definition qualified_name :: "gostring \<Rightarrow> bool" where
  "qualified_name s \<longleftrightarrow>
     (\<exists>db table. s = db @ ''.'' @ table \<and> simple_identifier db \<and> simple_identifier table)"

definition si_config_ok :: "si_args \<Rightarrow> bool" where
  "si_config_ok si \<longleftrightarrow>
     (reserved_row_id_column si = [] \<or> simple_identifier (reserved_row_id_column si)) \<and>
     si_read_mode si \<in> {ReadModeUnspecified, ReadModeSafe, ReadModeUnsafeLatest} \<and>
     (\<forall>(key, tbl) \<in> set (si_tables si).
        qualified_name key \<and>
        (\<exists>t. tbl = Some t \<and> qualified_name (safe_table t) \<and> qualified_name (unsafe_table t))) \<and>
     (contract_version si \<noteq> ContractV2 \<or> list_all simple_identifier (reserved_databases si))"

lemma qualified_name_nonempty: "qualified_name s \<Longrightarrow> s \<noteq> []"
  by (auto simp: qualified_name_def)

lemma exact_qualified_name: "snd (snd (exact_qualified_table s)) \<longleftrightarrow> qualified_name s"
  by (simp add: exact_qualified_table_ok qualified_name_def)

lemma validate_si_entry_None:
  "validate_si_entry key tbl = None \<longleftrightarrow>
     qualified_name key \<and>
     (\<exists>t. tbl = Some (Some t) \<and> qualified_name (safe_table t) \<and> qualified_name (unsafe_table t))"
proof -
  consider "tbl = None" | "tbl = Some None" | t where "tbl = Some (Some t)" by (metis option.exhaust)
  then show ?thesis
    using qualified_name_nonempty
    by cases (auto simp: validate_si_entry_def exact_qualified_name)
qed

lemma read_mode_error_None:
  "read_mode_error m = None \<longleftrightarrow> m \<in> {ReadModeUnspecified, ReadModeSafe, ReadModeUnsafeLatest}"
  by (cases m) (auto simp: read_mode_error_def)

lemma entries_of_keys:
  assumes "go_map m"
  shows "(\<forall>k \<in> set (sorted_keys m). P k (map_of m k)) \<longleftrightarrow> (\<forall>(k, v) \<in> set m. P k (Some v))"
proof -
  have "map_of m k = Some v" if "(k, v) \<in> set m" for k v
    using that assms by (simp add: go_map_def)
  then show ?thesis by (force simp: set_sorted_keys)
qed

text \<open>
  C32. \<open>ValidateStorageIntegrity\<close> accepts a configuration exactly when it satisfies the contract: a
  simple row-id column, a known read mode, every table-map entry non-nil with \<open>db.table\<close> names on
  the three sides, and, under contract V2, simple reserved databases.
\<close>

theorem validate_storage_integrity_iff:
  assumes "go_map (si_tables si)" and "get_storage_integrity a = Some si"
  shows "validate_storage_integrity a = None \<longleftrightarrow> si_config_ok si"
proof -
  have "(\<forall>key \<in> set (sorted_keys (si_tables si)).
          validate_si_entry key (map_of (si_tables si) key) = None) \<longleftrightarrow>
      (\<forall>(key, tbl) \<in> set (si_tables si).
        qualified_name key \<and>
        (\<exists>t. tbl = Some t \<and> qualified_name (safe_table t) \<and> qualified_name (unsafe_table t)))"
    using entries_of_keys [OF assms(1), of "\<lambda>k v. validate_si_entry k v = None"]
    by (simp add: validate_si_entry_None)
  then have tables: "first_error (\<lambda>key. validate_si_entry key (map_of (si_tables si) key))
        (sorted_keys (si_tables si)) = None \<longleftrightarrow> \<dots>"
    by (simp add: first_error_None)
  have "validate_storage_integrity a = None \<longleftrightarrow>
      (reserved_row_id_column si = [] \<or> simple_identifier (reserved_row_id_column si)) \<and>
      read_mode_error (si_read_mode si) = None \<and>
      first_error (\<lambda>key. validate_si_entry key (map_of (si_tables si) key))
        (sorted_keys (si_tables si)) = None \<and>
      (contract_version si \<noteq> ContractV2 \<or> list_all simple_identifier (reserved_databases si))"
    by (auto simp: validate_storage_integrity_def assms(2) Let_def first_error_None [of _ "reserved_databases si"]
        list_all_iff split: option.splits)
  then show ?thesis
    by (simp only: tables read_mode_error_None si_config_ok_def)
qed

lemma validate_storage_integrity_iff_witness:
  "go_map (si_tables sample_si) \<and> validate_storage_integrity (Some sample_args) = None \<and>
   (validate_storage_integrity (Some sample_args) = None \<longleftrightarrow> si_config_ok sample_si)"
proof -
  have map: "go_map (si_tables sample_si)" by code_simp
  have "validate_storage_integrity (Some sample_args) = None" by code_simp
  moreover have "get_storage_integrity (Some sample_args) = Some sample_si"
    by (simp add: sample_args_def)
  ultimately show ?thesis
    using map validate_storage_integrity_iff [of sample_si "Some sample_args"] by blast
qed

end
