(* ===== verification/Name_Resolve_Facts.thy ===== *)
theory Name_Resolve_Facts
  imports Name_Resolve Name_Contract_Facts
begin

text \<open>
  What the resolver promises: which selection is active, that no protected database is reachable
  through the dynamic resolution, that distinct logical tables get distinct physical tables, and
  that nothing depends on the order in which Go visits its maps.
\<close>

section \<open>The active selection\<close>

text \<open>An option that carries a table-name policy, and the selection it asks for.\<close>

definition carries_policy :: "rewrite_option \<Rightarrow> bool" where
  "carries_policy opt \<longleftrightarrow>
     ro_op opt = OpTableNameRewrite \<and>
     (\<exists>na. ro_table_name_args opt = Some na \<and> (tn_static na \<noteq> None \<or> tn_dynamic na \<noteq> None))"

definition policy_of :: "rewrite_option \<Rightarrow> selection" where
  "policy_of opt = find_active_step selection_none opt"

lemma find_active_step_policy:
  "find_active_step sel opt = (if carries_policy opt then policy_of opt else sel)"
  by (auto simp: find_active_step_def policy_of_def carries_policy_def split: option.splits)

lemma find_active_snoc:
  "find_active (opts @ [opt]) =
     (if carries_policy opt then policy_of opt else find_active opts)"
  by (simp add: find_active_def find_active_step_policy)

text \<open>
  \<open>FindActive\<close> is last-wins: the active selection is the one of the last option that carries a
  policy, and none when no option does; later options without one do not reset it.
\<close>

theorem find_active_last_wins:
  "find_active opts =
     (case filter carries_policy opts of [] \<Rightarrow> selection_none | ps \<Rightarrow> policy_of (last ps))"
  by (induction opts rule: rev_induct)
    (auto simp: find_active_snoc find_active_def [of "[]"] split: list.splits)

text \<open>A selection made by \<open>FindActive\<close> carries the arguments its mode needs.\<close>

definition selection_wf :: "selection \<Rightarrow> bool" where
  "selection_wf sel \<longleftrightarrow>
     (sel_mode sel = ModeStatic \<longleftrightarrow> sel_static sel \<noteq> None) \<and>
     (sel_mode sel = ModeDynamic \<longleftrightarrow> sel_dynamic sel \<noteq> None)"

lemma find_active_step_wf: "selection_wf sel \<Longrightarrow> selection_wf (find_active_step sel opt)"
  by (auto simp: find_active_step_def selection_wf_def split: option.splits)

lemma find_active_wf: "selection_wf (find_active opts)"
proof (induction opts rule: rev_induct)
  case Nil
  then show ?case by (simp add: find_active_def selection_none_def selection_wf_def)
next
  case (snoc opt opts)
  then show ?case by (simp add: find_active_def find_active_step_wf)
qed

section \<open>Protected databases\<close>

lemma protected_database_iff:
  "protected_database db a \<longleftrightarrow>
     db \<noteq> [] \<and> a \<noteq> None \<and>
     (db \<in> snd ` set (get_database_map a) \<or> db \<in> set (get_protected_databases a) \<or>
      is_si_physical_database db a)"
  by (force simp: protected_database_def list_ex_iff)

lemma known_physical_loop_Some:
  "known_physical_loop logical a ks = Some phys \<Longrightarrow>
     phys = logical \<and> logical \<in> set ks \<and> \<not> protected_database logical a"
  by (induction ks) (auto split: if_splits)

lemma known_physical_loop_iff:
  "known_physical_loop logical a ks =
     (if logical \<in> set ks \<and> \<not> protected_database logical a then Some logical else None)"
  by (induction ks) auto

text \<open>
  \<open>resolvePhysicalDatabase\<close>, as a specification: the \<open>database_map\<close> value, else the name itself when
  it is a known physical database that is not protected.
\<close>

lemma resolve_physical_database_eq:
  "resolve_physical_database logical a =
     (if logical = [] then None
      else case map_of (get_database_map a) logical of
             Some phys \<Rightarrow> Some phys
           | None \<Rightarrow> if logical \<in> set (get_known_physical_databases a) \<and>
                       \<not> protected_database logical a
                     then Some logical else None)"
  by (simp add: resolve_physical_database_def known_physical_loop_iff split: option.split)

lemma resolve_physical_database_cases:
  "resolve_physical_database logical a = Some physical \<Longrightarrow>
     map_of (get_database_map a) logical = Some physical \<or>
     physical = logical \<and> logical \<in> set (get_known_physical_databases a)"
  by (auto simp: resolve_physical_database_eq split: option.splits if_splits)

text \<open>The logical database of a target: its own, or the session's.\<close>

definition logical_of :: "gostring \<Rightarrow> dynamic_args option \<Rightarrow> gostring" where
  "logical_of db a = (if db = [] then get_logical_context a else db)"

lemma apply_dynamic_cases:
  obtains
    (invalid) reason where "apply_dynamic db table a = (outcome0 StatusInvalid)\<lparr>o_reject_reason := reason\<rparr>"
  | (local) physical where
      "logical_of db a \<noteq> []" "\<not> protected_database (logical_of db a) a"
      "resolve_physical_database (logical_of db a) a = Some physical"
      "map_of (get_remote_index a) (logical_of db a) = None"
      "apply_dynamic db table a = (outcome0 StatusRewrite)
         \<lparr>o_physical_db := physical,
          o_new_table := build_dynamic_table_name (logical_of db a) table a,
          o_logical_db := logical_of db a\<rparr>"
  | (remote) physical key up where
      "logical_of db a \<noteq> []" "\<not> protected_database (logical_of db a) a"
      "resolve_physical_database (logical_of db a) a = Some physical"
      "map_of (get_remote_index a) (logical_of db a) = Some key"
      "map_of (get_remote_upstreams a) key = Some up"
      "apply_dynamic db table a = (outcome0 StatusRemote)
         \<lparr>o_physical_db := physical,
          o_new_table := build_dynamic_table_name (logical_of db a) table a,
          o_logical_db := logical_of db a, o_remote_addr := get_addr up,
          o_remote_user := get_user up, o_remote_password := get_password up\<rparr>"
proof -
  let ?l = "logical_of db a"
  note eq = apply_dynamic_def [of db table a, unfolded Let_def, folded logical_of_def]
  consider "?l = []" | "?l \<noteq> []" "protected_database ?l a"
    | "?l \<noteq> []" "\<not> protected_database ?l a" "resolve_physical_database ?l a = None"
    | physical where "?l \<noteq> []" "\<not> protected_database ?l a"
        "resolve_physical_database ?l a = Some physical" "map_of (get_remote_index a) ?l = None"
    | physical key where "?l \<noteq> []" "\<not> protected_database ?l a"
        "resolve_physical_database ?l a = Some physical" "map_of (get_remote_index a) ?l = Some key"
    by (cases "resolve_physical_database ?l a"; cases "map_of (get_remote_index a) ?l") auto
  then show thesis
  proof cases
    case 1
    then show thesis by (intro invalid) (simp add: eq)
  next
    case 2
    then show thesis by (intro invalid) (simp add: eq)
  next
    case 3
    then show thesis by (intro invalid) (simp add: eq)
  next
    case (4 physical)
    then show thesis by (intro local) (simp_all add: eq)
  next
    case (5 physical key)
    show thesis
    proof (cases "map_of (get_remote_upstreams a) key")
      case None
      with 5 show thesis by (intro invalid) (simp add: eq)
    next
      case (Some up)
      with 5 show thesis by (intro remote) (simp_all add: eq)
    qed
  qed
qed

text \<open>
  C8. Every outcome of the dynamic resolution that addresses a table is authorised: its logical name
  is not a protected database, and its physical database is either the one \<open>database_map\<close> routes
  that logical name to, or the name itself, a known physical database that is not protected. Every
  other target is refused with no routing in the outcome.
\<close>

theorem apply_dynamic_authorised:
  "(o_status (apply_dynamic db table a) = StatusInvalid \<and>
      o_physical_db (apply_dynamic db table a) = [] \<and> o_new_table (apply_dynamic db table a) = [] \<and>
      o_remote_addr (apply_dynamic db table a) = []) \<or>
   (o_status (apply_dynamic db table a) \<in> {StatusRewrite, StatusRemote} \<and>
      o_logical_db (apply_dynamic db table a) = logical_of db a \<and>
      \<not> protected_database (logical_of db a) a \<and>
      (map_of (get_database_map a) (logical_of db a) = Some (o_physical_db (apply_dynamic db table a)) \<or>
       o_physical_db (apply_dynamic db table a) = logical_of db a \<and>
       logical_of db a \<in> set (get_known_physical_databases a)))"
proof (cases rule: apply_dynamic_cases [of db table a])
  case (local physical)
  then show ?thesis
    using resolve_physical_database_cases [OF local(3)] by (simp add: outcome0_def)
next
  case (remote physical key up)
  then show ?thesis
    using resolve_physical_database_cases [OF remote(3)] by (simp add: outcome0_def)
qed (simp add: outcome0_def)

text \<open>
  A protected database is out of reach: naming it, with or without the session's context, is
  refused with the protected-database message, and no known-physical entry brings it back.
\<close>

theorem protected_database_unreachable:
  assumes "protected_database (logical_of db a) a"
  shows "apply_dynamic db table a =
      (outcome0 StatusInvalid)\<lparr>o_reject_reason := protected_reject_message (logical_of db a)\<rparr>"
proof -
  have "logical_of db a \<noteq> []" using assms by (simp add: protected_database_iff)
  with assms show ?thesis
    by (simp add: apply_dynamic_def [of db table a, unfolded Let_def, folded logical_of_def])
qed

lemma protected_database_unreachable_witness:
  "protected_database (logical_of ''phys'' (Some sample_args)) (Some sample_args) \<and>
   o_reject_reason (apply_dynamic ''phys'' ''t'' (Some sample_args)) =
     ''protected database phys is not addressable''"
proof -
  have prot: "protected_database (logical_of ''phys'' (Some sample_args)) (Some sample_args)"
    by code_simp
  have "protected_reject_message (logical_of ''phys'' (Some sample_args)) =
      ''protected database phys is not addressable''"
    by (simp add: protected_reject_message_def logical_of_def)
  with prot show ?thesis
    using protected_database_unreachable [OF prot, of "''t''"] by simp
qed

section \<open>Physical table names\<close>

definition name_suffix :: "dynamic_args option \<Rightarrow> gostring" where
  "name_suffix a = concat (map (\<lambda>extra. effective_delim a @ extra) (get_extra_arguments a))"

lemma build_dynamic_table_name_eq:
  "table \<noteq> [] \<Longrightarrow>
     build_dynamic_table_name logical table a = logical @ name_suffix a @ ''.'' @ table"
  by (simp add: build_dynamic_table_name_def name_suffix_def)

lemma build_dynamic_table_name_prefix:
  "table \<noteq> [] \<Longrightarrow>
     build_dynamic_table_name logical table a = build_dynamic_table_prefix logical a @ table"
  by (simp add: build_dynamic_table_name_def build_dynamic_table_prefix_def)

lemma first_dot_split:
  assumes "p @ CHR ''.'' # s = q @ CHR ''.'' # t" "CHR ''.'' \<notin> set p" "CHR ''.'' \<notin> set q"
  shows "p = q \<and> s = t"
proof -
  have "index_byte (p @ CHR ''.'' # s) CHR ''.'' = Some (length p)"
    "index_byte (q @ CHR ''.'' # t) CHR ''.'' = Some (length q)"
    using assms(2,3) by (simp_all add: index_byte_append)
  with assms(1) have "length p = length q" by simp
  with assms(1) show ?thesis by simp
qed

text \<open>
  Two logical tables never share a physical table name: when logical names and the name suffix
  hold no dot (the logical database of a table key is a simple identifier), the physical name
  determines both the logical database and the table.
\<close>

theorem build_dynamic_table_name_inj:
  assumes "CHR ''.'' \<notin> set l1" "CHR ''.'' \<notin> set l2" "CHR ''.'' \<notin> set (name_suffix a)"
    and "t1 \<noteq> []" "t2 \<noteq> []"
  shows "build_dynamic_table_name l1 t1 a = build_dynamic_table_name l2 t2 a \<longleftrightarrow> l1 = l2 \<and> t1 = t2"
proof
  assume "build_dynamic_table_name l1 t1 a = build_dynamic_table_name l2 t2 a"
  then have "(l1 @ name_suffix a) @ CHR ''.'' # t1 = (l2 @ name_suffix a) @ CHR ''.'' # t2"
    using assms(4,5) by (simp add: build_dynamic_table_name_eq)
  then have "l1 @ name_suffix a = l2 @ name_suffix a \<and> t1 = t2"
    using assms(1-3) by (intro first_dot_split) auto
  then show "l1 = l2 \<and> t1 = t2" by simp
qed simp

lemma build_dynamic_table_name_inj_witness:
  "build_dynamic_table_name ''shop'' ''a.b'' (Some sample_args) = ''shop_t1.a.b'' \<and>
   build_dynamic_table_name ''shop'' ''a.b'' (Some sample_args) \<noteq>
     build_dynamic_table_name ''sho'' ''p.a.b'' (Some sample_args)"
proof -
  have facts: "CHR ''.'' \<notin> set (name_suffix (Some sample_args))" "CHR ''.'' \<notin> set ''shop''"
    "CHR ''.'' \<notin> set ''sho''" by code_simp+
  have "build_dynamic_table_name ''shop'' ''a.b'' (Some sample_args) = ''shop_t1.a.b''" by code_simp
  then show ?thesis
    using build_dynamic_table_name_inj [OF facts(2,3,1), of "''a.b''" "''p.a.b''"] by simp
qed

end
