(* ===== verification/Hidden_Names.thy ===== *)
theory Hidden_Names
  imports Name_Resolve_Facts
begin

text \<open>
  What an error text may not show: \<open>internal/nameresolve/hidden.go\<close> collects the physical side of a
  request's routing, and \<open>internal/reverse/withheld.go\<close> decides whether a text still names it.
\<close>

section \<open>Mentions (withheld.go)\<close>

definition is_word_byte :: "char \<Rightarrow> bool" where
  "is_word_byte b \<longleftrightarrow>
     b = CHR ''_'' \<or> is_digit_byte b \<or> is_upper_byte b \<or> is_lower_byte b"

text \<open>The bytes around \<open>s[st:en]\<close> are no word bytes.\<close>

definition delimited :: "gostring \<Rightarrow> nat \<Rightarrow> nat \<Rightarrow> bool" where
  "delimited s st en \<longleftrightarrow>
     (st = 0 \<or> \<not> is_word_byte (s ! (st - 1))) \<and> (en = length s \<or> \<not> is_word_byte (s ! en))"

function contains_identifier_from :: "gostring \<Rightarrow> gostring \<Rightarrow> nat \<Rightarrow> bool" where
  "contains_identifier_from s ident frm =
     (if frm + length ident \<le> length s
      then case str_index (drop frm s) ident of
             None \<Rightarrow> False
           | Some i \<Rightarrow>
               (let st = frm + i; en = st + length ident
                in if delimited s st en then True
                   else contains_identifier_from s ident (st + 1))
      else False)"
  by pat_completeness auto
termination
  by (relation "measure (\<lambda>(s, ident, frm). Suc (length s) - frm)") (auto simp: str_index_Some)

declare contains_identifier_from.simps [simp del]

definition contains_identifier :: "gostring \<Rightarrow> gostring \<Rightarrow> bool" where
  "contains_identifier s ident = (if ident = [] then False else contains_identifier_from s ident 0)"

definition mentions_hidden :: "gostring \<Rightarrow> gostring list \<Rightarrow> gostring list \<Rightarrow> bool" where
  "mentions_hidden s identifiers literals =
     (if list_ex (contains_identifier s) identifiers then True
      else list_ex (\<lambda>lit. lit \<noteq> [] \<and> str_contains s lit) literals)"

section \<open>The hidden names of a request (hidden.go)\<close>

definition min_hidden_literal :: nat where
  "min_hidden_literal = 4"

definition database_part :: "gostring \<Rightarrow> gostring" where
  "database_part qualified =
     (case index_byte qualified CHR ''.'' of Some dot \<Rightarrow> take dot qualified | None \<Rightarrow> [])"

definition blank :: "char \<Rightarrow> bool" where
  "blank c \<longleftrightarrow> c = CHR '' '' \<or> c = CHR 0x09"

text \<open>The closure \<open>add\<close> of \<open>appendRemoteAddress\<close>.\<close>

definition add_literal :: "gostring list \<Rightarrow> gostring \<Rightarrow> gostring list" where
  "add_literal literals v =
     (let v = trim blank v
      in if length v \<ge> min_hidden_literal \<and> v \<notin> set literals then literals @ [v] else literals)"

definition add_host :: "gostring list \<Rightarrow> gostring \<Rightarrow> gostring list" where
  "add_host literals raw =
     (let part = trim_left blank raw; literals = add_literal literals part
      in if has_prefix part ''[''
         then case index_byte part CHR '']'' of
                Some end_pos \<Rightarrow> add_literal literals (drop 1 (take end_pos part))
              | None \<Rightarrow> literals
         else case index_byte part CHR '':'' of
                Some colon \<Rightarrow>
                  if last_index_byte part CHR '':'' = Some colon
                  then add_literal literals (take colon part) else literals
              | None \<Rightarrow> literals)"

definition append_remote_address :: "gostring list \<Rightarrow> gostring \<Rightarrow> gostring list" where
  "append_remote_address literals addr =
     foldl add_host (add_literal literals addr)
       (fields_func (\<lambda>r. r = CHR '','' \<or> r = CHR ''|'') addr)"

definition append_secret :: "gostring list \<Rightarrow> gostring \<Rightarrow> gostring list" where
  "append_secret literals secret =
     (if length secret \<ge> min_hidden_literal then literals @ [secret] else literals)"

text \<open>The databases of the table map, as candidates: \<open>databasePart\<close> of both physical names.\<close>

definition table_candidates :: "(gostring \<times> si_table option) list \<Rightarrow> gostring list" where
  "table_candidates tables =
     concat (map (\<lambda>(_, tbl). [database_part (get_safe_table tbl), database_part (get_unsafe_table tbl)])
               tables)"

definition dynamic_candidates :: "dynamic_args option \<Rightarrow> gostring list" where
  "dynamic_candidates a =
     get_protected_databases a
     @ map snd (get_database_map a)
     @ get_reserved_databases (get_storage_integrity a)
     @ table_candidates (get_si_tables (get_storage_integrity a))"

definition dynamic_physical :: "dynamic_args option \<Rightarrow> gostring list" where
  "dynamic_physical a = filter (\<lambda>db. protected_database db a) (dynamic_candidates a)"

definition dynamic_visible :: "dynamic_args option \<Rightarrow> gostring list" where
  "dynamic_visible a =
     map fst (get_database_map a)
     @ filter (\<lambda>db. db \<notin> set (dynamic_physical a)) (get_known_physical_databases a)
     @ (if get_logical_context a \<noteq> [] then [get_logical_context a] else [])"

definition dynamic_literals :: "dynamic_args option \<Rightarrow> gostring list" where
  "dynamic_literals a =
     foldl (\<lambda>literals key.
        let upstream = (case map_of (get_remote_upstreams a) key of Some u \<Rightarrow> u | None \<Rightarrow> None)
        in append_secret (append_remote_address literals (get_addr upstream)) (get_password upstream))
       [] (sorted_keys (get_remote_upstreams a))"

definition static_visible :: "static_args option \<Rightarrow> gostring list" where
  "static_visible a =
     filter (\<lambda>db. db \<noteq> [])
       (map database_part
          (map fst (get_table_map a) @ map fst (get_table_with_database_map a)
           @ sorted_keys (get_remote_table_map a)))"

definition static_physical :: "static_args option \<Rightarrow> gostring list" where
  "static_physical a =
     map (\<lambda>(_, target). get_wd_database target) (get_table_with_database_map a)
     @ map (\<lambda>origin. get_rt_database
               (case map_of (get_remote_table_map a) origin of Some r \<Rightarrow> r | None \<Rightarrow> None))
         (sorted_keys (get_remote_table_map a))"

definition static_literals :: "static_args option \<Rightarrow> gostring list" where
  "static_literals a =
     foldl (\<lambda>literals origin.
        let remote = (case map_of (get_remote_table_map a) origin of Some r \<Rightarrow> r | None \<Rightarrow> None)
        in append_secret (append_remote_address literals (get_rt_addr remote)) (get_rt_password remote))
       [] (sorted_keys (get_remote_table_map a))"

text \<open>The tail of \<open>HiddenNames\<close>: the physical names the caller may not write, sorted.\<close>

definition hidden_identifiers :: "gostring list \<Rightarrow> gostring list \<Rightarrow> gostring list" where
  "hidden_identifiers physical visible =
     sort (remdups (filter (\<lambda>db. db \<noteq> [] \<and> db \<notin> set visible) physical))"

definition hidden_names :: "rewrite_option list \<Rightarrow> gostring list \<times> gostring list" where
  "hidden_names opts =
     (let sel = find_active opts
      in case sel_mode sel of
           ModeDynamic \<Rightarrow>
             (hidden_identifiers (dynamic_physical (sel_dynamic sel)) (dynamic_visible (sel_dynamic sel)),
              dynamic_literals (sel_dynamic sel))
         | ModeStatic \<Rightarrow>
             (hidden_identifiers (static_physical (sel_static sel)) (static_visible (sel_static sel)),
              static_literals (sel_static sel))
         | ModeNone \<Rightarrow> (hidden_identifiers [] [], []))"

section \<open>Mentions: the scan decides the specification\<close>

definition identifier_at :: "gostring \<Rightarrow> gostring \<Rightarrow> nat \<Rightarrow> bool" where
  "identifier_at s ident st \<longleftrightarrow>
     has_prefix (drop st s) ident \<and> st + length ident \<le> length s \<and>
     delimited s st (st + length ident)"

lemma contains_identifier_from_iff:
  "ident \<noteq> [] \<Longrightarrow> contains_identifier_from s ident frm \<longleftrightarrow> (\<exists>st\<ge>frm. identifier_at s ident st)"
proof (induction s ident frm rule: contains_identifier_from.induct)
  case (1 s ident frm)
  show ?case
  proof (cases "frm + length ident \<le> length s")
    case False
    then show ?thesis
      by (auto simp: contains_identifier_from.simps [of s ident frm] identifier_at_def)
  next
    case bound: True
    show ?thesis
    proof (cases "str_index (drop frm s) ident")
      case None
      have "\<not> identifier_at s ident st" if "st \<ge> frm" for st
      proof
        assume at: "identifier_at s ident st"
        with that have "st - frm \<le> length (drop frm s)" by (auto simp: identifier_at_def)
        with None have "\<not> has_prefix (drop (st - frm) (drop frm s)) ident"
          by (simp add: str_index_None)
        with at that show False by (simp add: identifier_at_def)
      qed
      with None bound show ?thesis by (simp add: contains_identifier_from.simps [of s ident frm])
    next
      case (Some i)
      then have pre: "has_prefix (drop (frm + i) s) ident"
        and first: "\<And>j. j < i \<Longrightarrow> \<not> has_prefix (drop (frm + j) s) ident"
        by (auto simp: str_index_Some add.commute)
      have fits: "frm + i + length ident \<le> length s"
      proof -
        from pre obtain t where "drop (frm + i) s = ident @ t" by (auto simp: has_prefix_iff)
        then have "length s - (frm + i) = length ident + length t" by (metis length_append length_drop)
        moreover have "0 < length ident" using "1.prems" by simp
        ultimately show ?thesis by linarith
      qed
      have earlier: "frm + i \<le> st" if "st \<ge> frm" "identifier_at s ident st" for st
        using first [of "st - frm"] that by (cases "st < frm + i") (auto simp: identifier_at_def)
      have "contains_identifier_from s ident frm \<longleftrightarrow>
          delimited s (frm + i) (frm + i + length ident) \<or>
          (\<exists>st\<ge>frm + i + 1. identifier_at s ident st)"
        using 1 bound Some by (simp add: contains_identifier_from.simps [of s ident frm] Let_def)
      also have "\<dots> \<longleftrightarrow> (\<exists>st\<ge>frm. identifier_at s ident st)"
      proof -
        have "identifier_at s ident (frm + i) \<longleftrightarrow> delimited s (frm + i) (frm + i + length ident)"
          using pre fits by (simp add: identifier_at_def)
        then show ?thesis
          using earlier by (metis Suc_eq_plus1 add_leD1 le_antisym le_add1 not_less_eq_eq)
      qed
      finally show ?thesis .
    qed
  qed
qed

text \<open>
  C31. \<open>ContainsIdentifier\<close> finds exactly the whole-word mentions: some occurrence of the identifier
  has no \<open>[A-Za-z0-9_]\<close> byte on either side, wherever the earlier, glued occurrences are.
\<close>

theorem contains_identifier_iff:
  "contains_identifier s ident \<longleftrightarrow>
     ident \<noteq> [] \<and>
     (\<exists>a b. s = a @ ident @ b \<and> (a = [] \<or> \<not> is_word_byte (last a)) \<and>
            (b = [] \<or> \<not> is_word_byte (hd b)))"
proof (cases "ident = []")
  case False
  have "(\<exists>st. identifier_at s ident st) \<longleftrightarrow>
      (\<exists>a b. s = a @ ident @ b \<and> (a = [] \<or> \<not> is_word_byte (last a)) \<and>
            (b = [] \<or> \<not> is_word_byte (hd b)))"
  proof
    assume "\<exists>st. identifier_at s ident st"
    then obtain st where st: "identifier_at s ident st" ..
    then obtain b where b: "drop st s = ident @ b" by (auto simp: identifier_at_def has_prefix_iff)
    let ?a = "take st s"
    have s: "s = ?a @ ident @ b" by (metis append_take_drop_id b)
    have la: "length ?a = st" using st by (simp add: identifier_at_def)
    have "?a = [] \<or> \<not> is_word_byte (last ?a)"
    proof (cases "st = 0")
      case False
      with la have "?a \<noteq> []" by auto
      then have "last ?a = s ! (st - 1)" using la False by (simp add: last_conv_nth)
      with st False show ?thesis by (simp add: identifier_at_def delimited_def)
    qed simp
    moreover have "b = [] \<or> \<not> is_word_byte (hd b)"
    proof (cases b)
      case (Cons x xs)
      then have "s ! (st + length ident) = x" "st + length ident \<noteq> length s"
        using s la by (metis append.assoc length_append nth_append_length,
            metis append.assoc append_Nil2 append_eq_append_conv length_append list.distinct(1))
      with st Cons show ?thesis by (simp add: identifier_at_def delimited_def)
    qed simp
    ultimately show "\<exists>a b. s = a @ ident @ b \<and> (a = [] \<or> \<not> is_word_byte (last a)) \<and>
            (b = [] \<or> \<not> is_word_byte (hd b))" using s by blast
  next
    assume "\<exists>a b. s = a @ ident @ b \<and> (a = [] \<or> \<not> is_word_byte (last a)) \<and>
            (b = [] \<or> \<not> is_word_byte (hd b))"
    then obtain a b where s: "s = a @ ident @ b" and a: "a = [] \<or> \<not> is_word_byte (last a)"
      and b: "b = [] \<or> \<not> is_word_byte (hd b)" by blast
    have "length a = 0 \<or> \<not> is_word_byte (s ! (length a - 1))"
      using a s by (cases "a = []") (auto simp: last_conv_nth nth_append)
    moreover have "length a + length ident = length s \<or> \<not> is_word_byte (s ! (length a + length ident))"
      using b s by (cases b) (auto simp: nth_append)
    ultimately have "identifier_at s ident (length a)"
      by (simp add: identifier_at_def delimited_def s)
    then show "\<exists>st. identifier_at s ident st" ..
  qed
  with False show ?thesis by (simp add: contains_identifier_def contains_identifier_from_iff)
qed (simp add: contains_identifier_def)

section \<open>Which databases are hidden\<close>

lemma database_part_exact:
  "exact_qualified_table s = (db, table, True) \<Longrightarrow> database_part s = db"
  by (auto simp: exact_qualified_table_iff database_part_def index_byte_append simple_identifier_no_dot)

lemma protected_is_candidate:
  assumes "protected_database db a"
  shows "db \<in> set (dynamic_candidates a)"
proof -
  have "db \<in> set (table_candidates (get_si_tables (get_storage_integrity a)))"
    if "(key, Some t) \<in> set (get_si_tables (get_storage_integrity a))" "physical_names_database db t"
    for key t
    using that database_part_exact [of "safe_table t" db] database_part_exact [of "unsafe_table t" db]
    by (force simp: table_candidates_def physical_names_database_iff)
  moreover have "db \<in> set (get_reserved_databases (get_storage_integrity a))"
    if "storage_integrity_reserved_database db a"
    using that reserved_in_list by blast
  ultimately show ?thesis
    using assms by (auto simp: protected_database_iff is_si_physical_database_iff dynamic_candidates_def)
qed

lemma set_dynamic_physical: "set (dynamic_physical a) = {db. protected_database db a}"
  using protected_is_candidate by (auto simp: dynamic_physical_def)

lemma set_hidden_identifiers:
  "set (hidden_identifiers physical visible) = {db \<in> set physical. db \<noteq> [] \<and> db \<notin> set visible}"
  by (auto simp: hidden_identifiers_def)

lemma hidden_of_dynamic:
  assumes "find_active opts = \<lparr>sel_mode = ModeDynamic, sel_static = None, sel_dynamic = Some a\<rparr>"
  shows "set (fst (hidden_names opts)) =
      {db. protected_database db (Some a) \<and> db \<notin> fst ` set (da_database_map a) \<and>
           db \<noteq> da_logical_context a}
    \<and> sorted (fst (hidden_names opts)) \<and> distinct (fst (hidden_names opts))"
proof -
  have fst_eq: "fst (hidden_names opts) =
      hidden_identifiers (dynamic_physical (Some a)) (dynamic_visible (Some a))"
    by (simp add: hidden_names_def assms)
  have "db \<noteq> []" if "protected_database db (Some a)" for db
    using that by (simp add: protected_database_iff)
  then show ?thesis
    unfolding fst_eq set_hidden_identifiers set_dynamic_physical
    by (auto simp: dynamic_visible_def set_dynamic_physical hidden_identifiers_def)
qed

text \<open>
  In dynamic mode the hidden identifiers are exactly the protected databases the caller has no
  name for: every \<open>database_map\<close> value, protected, reserved or storage-integrity database, save those
  that are also a logical name of the map or the session's logical database. They come sorted and
  without repetition.
\<close>

theorem hidden_names_dynamic:
  assumes "find_active opts = \<lparr>sel_mode = ModeDynamic, sel_static = None, sel_dynamic = Some a\<rparr>"
  shows "set (fst (hidden_names opts)) =
      {db. protected_database db (Some a) \<and> db \<notin> fst ` set (da_database_map a) \<and>
           db \<noteq> da_logical_context a}
    \<and> sorted (fst (hidden_names opts)) \<and> distinct (fst (hidden_names opts))"
  by (rule hidden_of_dynamic [OF assms])

lemma contains_identifier_iff_witness:
  "contains_identifier ''xdb1 db1.t'' ''db1'' \<and> \<not> contains_identifier ''xdb1 db12'' ''db1''"
proof -
  have "''xdb1 db1.t'' = ''xdb1 '' @ ''db1'' @ ''.t''" "\<not> is_word_byte (last ''xdb1 '')"
    "\<not> is_word_byte (hd ''.t'')" by code_simp+
  then have "contains_identifier ''xdb1 db1.t'' ''db1''"
    unfolding contains_identifier_iff by blast
  moreover have "\<not> contains_identifier ''xdb1 db12'' ''db1''" by code_simp
  ultimately show ?thesis ..
qed

lemma hidden_names_dynamic_witness:
  "find_active sample_options =
     \<lparr>sel_mode = ModeDynamic, sel_static = None, sel_dynamic = Some sample_args\<rparr> \<and>
   ''vault'' \<in> set (fst (hidden_names sample_options)) \<and>
   ''shop'' \<notin> set (fst (hidden_names sample_options))"
proof -
  have sel: "find_active sample_options =
     \<lparr>sel_mode = ModeDynamic, sel_static = None, sel_dynamic = Some sample_args\<rparr>"
    by (simp add: find_active_def find_active_step_def sample_options_def)
  have "protected_database ''vault'' (Some sample_args)" by code_simp
  then show ?thesis
    using hidden_names_dynamic [OF sel] sel by (simp add: sample_args_def)
qed

end
