(* ===== verification/Go_Utf8.thy ===== *)
theory Go_Utf8
  imports Go_Prelude
begin

text \<open>
  Go's view of a string as UTF-8 (package \<open>unicode/utf8\<close>): the width of the rune at the head of a byte
  sequence, \<open>utf8.ValidString\<close>, and the byte offsets a \<open>range\<close> loop visits. An invalid byte counts as
  one rune of width 1 there.
\<close>

definition in_range :: "nat \<Rightarrow> nat \<Rightarrow> char \<Rightarrow> bool" where
  "in_range lo hi c \<longleftrightarrow> lo \<le> byte c \<and> byte c \<le> hi"

definition continuation :: "char \<Rightarrow> bool" where
  "continuation c \<longleftrightarrow> in_range 0x80 0xBF c"

text \<open>Width of the first rune and whether it is well-formed (\<open>utf8.DecodeRuneInString\<close>).\<close>

definition decode_rune :: "gostring \<Rightarrow> nat \<times> bool" where
  "decode_rune s =
     (case s of
        [] \<Rightarrow> (0, False)
      | c # cs \<Rightarrow>
          (let n = byte c in
           if n < 0x80 then (1, True)
           else if n < 0xC2 then (1, False)
           else if n < 0xE0 then
             (case cs of b1 # _ \<Rightarrow> if continuation b1 then (2, True) else (1, False)
              | _ \<Rightarrow> (1, False))
           else if n < 0xF0 then
             (case cs of b1 # b2 # _ \<Rightarrow>
                if in_range (if n = 0xE0 then 0xA0 else 0x80) (if n = 0xED then 0x9F else 0xBF) b1
                   \<and> continuation b2
                then (3, True) else (1, False)
              | _ \<Rightarrow> (1, False))
           else if n < 0xF5 then
             (case cs of b1 # b2 # b3 # _ \<Rightarrow>
                if in_range (if n = 0xF0 then 0x90 else 0x80) (if n = 0xF4 then 0x8F else 0xBF) b1
                   \<and> continuation b2 \<and> continuation b3
                then (4, True) else (1, False)
              | _ \<Rightarrow> (1, False))
           else (1, False)))"

lemma decode_rune_width:
  "s \<noteq> [] \<Longrightarrow> 1 \<le> fst (decode_rune s) \<and> fst (decode_rune s) \<le> length s"
  by (auto simp: decode_rune_def Let_def split: list.splits)

function valid_utf8 :: "gostring \<Rightarrow> bool" where
  "valid_utf8 s =
     (if s = [] then True
      else if snd (decode_rune s) then valid_utf8 (drop (fst (decode_rune s)) s) else False)"
  by pat_completeness auto
termination
proof (relation "measure length", goal_cases)
  case (2 s)
  then show ?case using decode_rune_width [of s] by simp
qed simp

declare valid_utf8.simps [simp del]

function rune_offsets_from :: "nat \<Rightarrow> gostring \<Rightarrow> nat list" where
  "rune_offsets_from i s =
     (if s = [] then [] else i # rune_offsets_from (i + fst (decode_rune s)) (drop (fst (decode_rune s)) s))"
  by pat_completeness auto
termination
proof (relation "measure (\<lambda>(i, s). length s)", goal_cases)
  case (2 i s)
  then show ?case using decode_rune_width [of s] by simp
qed simp

declare rune_offsets_from.simps [simp del]

definition rune_offsets :: "gostring \<Rightarrow> nat list" where
  "rune_offsets s = rune_offsets_from 0 s"

text \<open>The runes of a string, each as its UTF-8 text; an invalid byte is U+FFFD.\<close>

function rune_texts :: "gostring \<Rightarrow> gostring list" where
  "rune_texts s =
     (if s = [] then []
      else (if snd (decode_rune s) then take (fst (decode_rune s)) s
            else [CHR 0xEF, CHR 0xBF, CHR 0xBD]) # rune_texts (drop (fst (decode_rune s)) s))"
  by pat_completeness auto
termination
proof (relation "measure length", goal_cases)
  case (2 s)
  then show ?case using decode_rune_width [of s] by simp
qed simp

declare rune_texts.simps [simp del]

section \<open>Facts\<close>

lemma valid_utf8_Nil [simp]: "valid_utf8 []"
  by (simp add: valid_utf8.simps)

lemma valid_utf8_ascii:
  "byte c < 0x80 \<Longrightarrow> valid_utf8 (c # cs) \<longleftrightarrow> valid_utf8 cs"
  by (simp add: valid_utf8.simps [of "c # cs"] decode_rune_def)

lemma valid_utf8_all_ascii: "list_all (\<lambda>c. byte c < 0x80) s \<Longrightarrow> valid_utf8 s"
  by (induction s) (simp_all add: valid_utf8_ascii)

lemma rune_offsets_from_shift:
  "rune_offsets_from (i + k) s = map (\<lambda>j. j + k) (rune_offsets_from i s)"
proof (induction i s rule: rune_offsets_from.induct)
  case (1 i s)
  then show ?case
    by (simp add: rune_offsets_from.simps [of i s] rune_offsets_from.simps [of "i + k" s] ac_simps)
qed

lemma rune_offsets_from_bounds:
  "sorted_wrt (<) (rune_offsets_from i s) \<and>
   (\<forall>j \<in> set (rune_offsets_from i s). i \<le> j \<and> j < i + length s)"
proof (induction i s rule: rune_offsets_from.induct)
  case (1 i s)
  show ?case
  proof (cases "s = []")
    case False
    let ?w = "fst (decode_rune s)"
    have w: "1 \<le> ?w" "?w \<le> length s" using decode_rune_width [OF False] by auto
    have "sorted_wrt (<) (rune_offsets_from (i + ?w) (drop ?w s)) \<and>
        (\<forall>j \<in> set (rune_offsets_from (i + ?w) (drop ?w s)). i + ?w \<le> j \<and> j < i + ?w + length (drop ?w s))"
      by (rule "1.IH" [OF False])
    with w False show ?thesis by (force simp: rune_offsets_from.simps [of i s])
  qed (simp add: rune_offsets_from.simps)
qed

end
