(* ===== verification/Name_Escape.thy ===== *)
theory Name_Escape
  imports Go_Utf8 "HOL-Library.Word"
begin

text \<open>
  \<open>internal/engine/nameescape.go\<close>: the escapes of ClickHouse's quoted identifiers and string literals,
  decoded from their source spelling, and the quoting of a name so that it decodes back to itself;
  and the second decoder of the same lexemes, \<open>clickhouseUnquote\<close> of \<open>regenerated_lexeme.go\<close>, which
  the fidelity gate compares values with.

  A scan that the source writes with an index \<open>i\<close> into \<open>raw\<close> is written on the suffix \<open>raw[i:]\<close>:
  \<open>i + 1 < len(raw)\<close> is a non-empty tail.
\<close>

section \<open>Escapes\<close>

definition backslash :: char where "backslash = CHR 0x5C"
definition backquote :: char where "backquote = CHR 0x60"
definition dquote :: char where "dquote = CHR 0x22"
definition squote :: char where "squote = CHR 0x27"

lemmas quote_chars = backslash_def backquote_def dquote_def squote_def

text \<open>The closure \<open>digit\<close> of \<open>clickHouseUnhex2\<close>: -1 for a byte that is no hex digit.\<close>

definition hex_digit :: "char \<Rightarrow> int" where
  "hex_digit c =
     (if CHR ''0'' \<le> c \<and> c \<le> CHR ''9'' then int (byte c) - int (byte CHR ''0'')
      else if CHR ''a'' \<le> c \<and> c \<le> CHR ''f'' then int (byte c) - int (byte CHR ''a'') + 10
      else if CHR ''A'' \<le> c \<and> c \<le> CHR ''F'' then int (byte c) - int (byte CHR ''A'') + 10
      else -1)"

definition unhex2 :: "char \<Rightarrow> char \<Rightarrow> char" where
  "unhex2 a b = char_of (nat ((hex_digit a * 16 + hex_digit b) mod 256))"

text \<open>The one-byte escapes of \<open>clickHouseEscape\<close>: what a backslash before \<open>c\<close> denotes.\<close>

definition escape_byte :: "char \<Rightarrow> gostring" where
  "escape_byte c =
     (if c = CHR ''N'' then []
      else if c = CHR ''a'' then [CHR 0x07]
      else if c = CHR ''b'' then [CHR 0x08]
      else if c = CHR ''e'' then [CHR 0x1B]
      else if c = CHR ''f'' then [CHR 0x0C]
      else if c = CHR ''n'' then [CHR 0x0A]
      else if c = CHR ''r'' then [CHR 0x0D]
      else if c = CHR ''t'' then [CHR 0x09]
      else if c = CHR ''v'' then [CHR 0x0B]
      else if c = CHR ''0'' then [CHR 0x00]
      else if c \<in> {backslash, squote, dquote, backquote, CHR ''/'', CHR ''=''} then [c]
      else if byte c \<le> 0x1F then [c]
      else [backslash, c])"

text \<open>
  \<open>clickHouseEscape\<close> on the suffix that starts with the backslash: the decoded bytes and the suffix
  after the escape, or \<^const>\<open>None\<close> for \<open>ok = false\<close>.
\<close>

definition escape :: "gostring \<Rightarrow> (gostring \<times> gostring) option" where
  "escape s =
     (case drop 1 s of
        [] \<Rightarrow> None
      | c # rest \<Rightarrow>
          (if c = CHR ''x'' \<or> c = CHR ''X'' then
             (case rest of h # l # rest' \<Rightarrow> Some ([unhex2 h l], rest') | _ \<Rightarrow> None)
           else Some (escape_byte c, rest)))"

lemma escape_shorter: "escape s = Some (out, rest) \<Longrightarrow> length rest < length s"
  by (cases s) (auto simp: escape_def split: list.splits if_splits)

function decode_escapes_from :: "gostring \<Rightarrow> gostring option" where
  "decode_escapes_from [] = Some []"
| "decode_escapes_from (c # cs) =
     (if c \<noteq> backslash then map_option ((#) c) (decode_escapes_from cs)
      else case escape (c # cs) of
             None \<Rightarrow> None
           | Some (out, rest) \<Rightarrow> map_option ((@) out) (decode_escapes_from rest))"
  by pat_completeness auto
termination
  by (relation "measure length") (auto dest: escape_shorter)

text \<open>\<open>decodeIdentifierEscapes\<close>: \<^const>\<open>None\<close> for \<open>ok = false\<close>.\<close>

definition decode_identifier_escapes :: "gostring \<Rightarrow> gostring option" where
  "decode_identifier_escapes s =
     (if \<not> str_contains s [backslash] then Some s else decode_escapes_from s)"

section \<open>Quoted identifiers and literals\<close>

datatype quoted_decode = DecodedExact | DecodedNotUTF8 | DecodedRejected

text \<open>The loop of \<open>decodeQuotedBody\<close>, with the bytes written so far in \<open>b\<close>, on the suffix \<open>raw[i:]\<close>.\<close>

function decode_quoted_loop :: "char \<Rightarrow> gostring \<Rightarrow> gostring \<Rightarrow> gostring \<times> quoted_decode" where
  "decode_quoted_loop q b [] = ([], DecodedRejected)"
| "decode_quoted_loop q b (c # cs) =
     (if c = q then
        (case cs of
           d # cs' \<Rightarrow>
             if d = q then decode_quoted_loop q (b @ [q]) cs' else ([], DecodedRejected)
         | [] \<Rightarrow> if \<not> valid_utf8 b then (b, DecodedNotUTF8) else (b, DecodedExact))
      else if c = backslash then
        (case escape (c # cs) of
           None \<Rightarrow> ([], DecodedRejected)
         | Some (out, rest) \<Rightarrow>
             if rest = [] then ([], DecodedRejected) else decode_quoted_loop q (b @ out) rest)
      else decode_quoted_loop q (b @ [c]) cs)"
  by pat_completeness auto
termination
  by (relation "measure (\<lambda>(q, b, s). length s)") (auto dest: escape_shorter)

definition decode_quoted_body :: "gostring \<Rightarrow> char \<Rightarrow> gostring \<times> quoted_decode" where
  "decode_quoted_body raw q = decode_quoted_loop q [] (drop 1 raw)"

definition left_double_quote :: gostring where
  "left_double_quote = [CHR 0xE2, CHR 0x80, CHR 0x9C]"

definition right_double_quote :: gostring where
  "right_double_quote = [CHR 0xE2, CHR 0x80, CHR 0x9D]"

definition decode_quoted_identifier :: "gostring \<Rightarrow> gostring \<times> quoted_decode" where
  "decode_quoted_identifier raw =
     (if has_prefix raw left_double_quote then
        (if length raw < length left_double_quote + length right_double_quote
            \<or> \<not> has_suffix raw right_double_quote
         then ([], DecodedRejected)
         else
           let name = drop (length left_double_quote) (take (length raw - length right_double_quote) raw)
           in if name = [] then ([], DecodedRejected) else (name, DecodedExact))
      else if length raw < 2 \<or> (hd raw \<noteq> backquote \<and> hd raw \<noteq> dquote) then ([], DecodedRejected)
      else
        let (name, st) = decode_quoted_body raw (hd raw)
        in if st = DecodedExact \<and> name = [] then ([], DecodedRejected) else (name, st))"

definition decode_quoted_string :: "gostring \<Rightarrow> gostring \<times> quoted_decode" where
  "decode_quoted_string raw =
     (if length raw < 2 \<or> hd raw \<noteq> squote then ([], DecodedRejected)
      else decode_quoted_body raw squote)"

definition hex_upper :: "nat \<Rightarrow> char" where
  "hex_upper n = ''0123456789ABCDEF'' ! n"

definition quote_byte :: "char \<Rightarrow> gostring" where
  "quote_byte c =
     (if c = backquote then [backquote, backquote]
      else if c = backslash then [backslash, backslash]
      else if byte c < 0x20 \<or> byte c = 0x7F then
        [backslash, CHR ''x'', hex_upper (byte c div 16), hex_upper (byte c mod 16)]
      else [c])"

definition quote_identifier_sql :: "gostring \<Rightarrow> gostring" where
  "quote_identifier_sql name = [backquote] @ concat (map quote_byte name) @ [backquote]"

section \<open>The fidelity gate's decoder\<close>

type_synonym u8 = "8 word"

definition u8_of :: "char \<Rightarrow> u8" where "u8_of c = word_of_nat (byte c)"
definition char_of_u8 :: "u8 \<Rightarrow> char" where "char_of_u8 w = char_of (unat w)"

definition unhex_digit :: "char \<Rightarrow> u8" where
  "unhex_digit c =
     (if CHR ''0'' \<le> c \<and> c \<le> CHR ''9'' then u8_of c - u8_of CHR ''0''
      else if CHR ''a'' \<le> c \<and> c \<le> CHR ''f'' then u8_of c - u8_of CHR ''a'' + 10
      else if CHR ''A'' \<le> c \<and> c \<le> CHR ''F'' then u8_of c - u8_of CHR ''A'' + 10
      else 0xFF)"

definition control_escapes :: gostring where "control_escapes = ''abefnrtv0''"

definition control_values :: gostring where
  "control_values = [CHR 0x07, CHR 0x08, CHR 0x1B, CHR 0x0C, CHR 0x0A, CHR 0x0D, CHR 0x09, CHR 0x0B, CHR 0x00]"

text \<open>The one-byte escapes of the inner switch of \<open>clickhouseUnquote\<close>.\<close>

definition unquote_byte :: "char \<Rightarrow> gostring" where
  "unquote_byte n =
     (if n = CHR ''N'' then []
      else case index_byte control_escapes n of
             Some k \<Rightarrow> [control_values ! k]
           | None \<Rightarrow>
               if n \<in> {backslash, squote, dquote, backquote, CHR ''/'', CHR ''=''} \<or> byte n \<le> 0x1F
               then [n] else [backslash, n])"

text \<open>The loop of \<open>clickhouseUnquote\<close> over \<open>body\<close>.\<close>

fun unquote_body :: "char \<Rightarrow> gostring \<Rightarrow> gostring option" where
  "unquote_body q [] = Some []"
| "unquote_body q (c # cs) =
     (if c = q then
        (case cs of d # cs' \<Rightarrow> if d = q then map_option ((#) q) (unquote_body q cs') else None
         | [] \<Rightarrow> None)
      else if c = backslash then
        (case cs of
           [] \<Rightarrow> None
         | n # cs' \<Rightarrow>
             if n = CHR ''x'' then
               (case cs' of
                  h # l # cs'' \<Rightarrow>
                    if h = q \<or> l = q \<or> h = backslash \<or> l = backslash then None
                    else map_option ((#) (char_of_u8 (push_bit 4 (unhex_digit h) + unhex_digit l)))
                           (unquote_body q cs'')
                | _ \<Rightarrow> None)
             else map_option ((@) (unquote_byte n)) (unquote_body q cs'))
      else map_option ((#) c) (unquote_body q cs))"

definition clickhouse_unquote :: "gostring \<Rightarrow> gostring option" where
  "clickhouse_unquote raw =
     (if length raw < 2 \<or> last raw \<noteq> hd raw then None
      else unquote_body (hd raw) (drop 1 (take (length raw - 1) raw)))"

end
