(* ===== verification/Lexeme.thy ===== *)
theory Lexeme
  imports Name_Escape Complex_Main
begin

text \<open>
  \<open>internal/engine/regenerated_lexeme.go\<close>: a ClickHouse literal or quoted identifier reduced to a
  spelling that is the value ClickHouse reads, and the helpers of \<open>regenerated.go\<close> it uses. A
  spelling's key is what the fidelity gate counts; its show text only appears in messages.
  \<open>math/big\<close> rationals are \<^typ>\<open>rat\<close>: \<open>big.ParseFloat\<close> is called with enough precision to be exact.
\<close>

section \<open>Spellings\<close>

record spelling =
  sp_key :: gostring
  sp_show :: gostring

definition mk_spelling :: "gostring \<Rightarrow> gostring \<Rightarrow> spelling" where
  "mk_spelling k s = \<lparr>sp_key = k, sp_show = s\<rparr>"

definition word_spelling :: "gostring \<Rightarrow> spelling" where
  "word_spelling w = mk_spelling (''W:'' @ w) w"

definition undecodable :: "gostring \<Rightarrow> bool \<Rightarrow> spelling" where
  "undecodable raw input = (if input then mk_spelling (''U:'' @ raw) raw else mk_spelling (''V:'' @ raw) raw)"

definition spelling_class :: "(gostring \<times> gostring) list" where
  "spelling_class =
     [(''BOOLEAN'', ''BOOL''), (''INT'', ''INT32''), (''INTEGER'', ''INT32''), (''TINYINT'', ''INT8''),
      (''SMALLINT'', ''INT16''), (''BIGINT'', ''INT64''), (''FLOAT'', ''FLOAT32''), (''REAL'', ''FLOAT32''),
      (''DOUBLE'', ''FLOAT64''), (''TEXT'', ''STRING''), (''CHAR'', ''STRING''), (''VARCHAR'', ''STRING''),
      (''TIMESTAMP'', ''DATETIME''), (''NUMERIC'', ''DECIMAL''), (''POW'', ''POWER''), (''LN'', ''LOG''),
      (''CEILING'', ''CEIL''), (''SUBSTR'', ''SUBSTRING''), (''LCASE'', ''LOWER''), (''UCASE'', ''UPPER''),
      (''DATE_TRUNC'', ''DATETRUNC'')]"

definition fold_class :: "gostring \<Rightarrow> gostring" where
  "fold_class w = (case map_of spelling_class w of Some c \<Rightarrow> c | None \<Rightarrow> w)"

definition is_quoted_lexeme :: "gostring \<Rightarrow> bool" where
  "is_quoted_lexeme tokenType \<longleftrightarrow>
     tokenType = ''STRING'' \<or> tokenType = ''QUOTED_IDENTIFIER'' \<or> has_suffix tokenType ''_STRING''"

definition is_quoted_identifier :: "gostring \<Rightarrow> bool" where
  "is_quoted_identifier raw \<longleftrightarrow>
     has_prefix raw [dquote] \<or> has_prefix raw [backquote] \<or> has_prefix raw left_double_quote"

definition is_digits :: "gostring \<Rightarrow> bool" where
  "is_digits s \<longleftrightarrow> list_all is_digit_byte s \<and> s \<noteq> []"

text \<open>\<open>isWordStart\<close> reads \<open>s[0]\<close>; every caller has checked that \<open>s\<close> is not empty.\<close>

definition is_word_start :: "gostring \<Rightarrow> bool" where
  "is_word_start s \<longleftrightarrow>
     (case s of [] \<Rightarrow> False | c # _ \<Rightarrow> c = CHR ''_'' \<or> is_lower_byte c \<or> is_upper_byte c)"

definition engine_word_byte :: "char \<Rightarrow> bool" where
  "engine_word_byte c \<longleftrightarrow>
     c = CHR ''_'' \<or> is_digit_byte c \<or> is_lower_byte c \<or> is_upper_byte c"

section \<open>Strings\<close>

definition unicode_quoted :: "gostring \<Rightarrow> gostring \<Rightarrow> gostring \<Rightarrow> gostring option" where
  "unicode_quoted raw opening closing =
     (if \<not> has_prefix raw opening \<or> \<not> has_suffix raw closing
         \<or> length raw < length opening + length closing then None
      else
        let body = drop (length opening) (take (length raw - length closing) raw)
        in if str_contains body closing then None else Some body)"

definition heredoc_body :: "gostring \<Rightarrow> gostring option" where
  "heredoc_body raw =
     (if length raw < 2 \<or> hd raw \<noteq> CHR ''$'' then None
      else case index_byte (drop 1 raw) CHR ''$'' of
             None \<Rightarrow> None
           | Some j \<Rightarrow>
               (let tag = take (j + 2) raw
                in if length raw < 2 * length tag \<or> \<not> has_suffix raw tag then None
                   else Some (drop (length tag) (take (length raw - length tag) raw))))"

definition quoted_body :: "gostring \<Rightarrow> gostring option" where
  "quoted_body body =
     (if length body < 2 \<or> hd body \<noteq> squote \<or> last body \<noteq> squote then None
      else Some (drop 1 (take (length body - 1) body)))"

fun hex_pairs :: "gostring \<Rightarrow> gostring option" where
  "hex_pairs [] = Some []"
| "hex_pairs [_] = None"
| "hex_pairs (h # l # rest) =
     (let hi = unhex_digit h; lo = unhex_digit l
      in if hi > 0xF \<or> lo > 0xF then None
         else map_option ((#) (char_of_u8 (or (push_bit 4 hi) lo))) (hex_pairs rest))"

definition hex_string_bytes :: "gostring \<Rightarrow> gostring option" where
  "hex_string_bytes body =
     (case quoted_body body of
        None \<Rightarrow> None
      | Some h \<Rightarrow> hex_pairs (if length h mod 2 = 1 then CHR ''0'' # h else h))"

text \<open>One output byte: \<open>v = v<<1 | (c - '0')\<close> over its eight bits.\<close>

fun bit_byte :: "u8 \<Rightarrow> gostring \<Rightarrow> u8 option" where
  "bit_byte v [] = Some v"
| "bit_byte v (c # cs) =
     (if c \<noteq> CHR ''0'' \<and> c \<noteq> CHR ''1'' then None
      else bit_byte (or (push_bit 1 v) (u8_of c - u8_of CHR ''0'')) cs)"

fun bit_bytes :: "nat \<Rightarrow> gostring \<Rightarrow> gostring option" where
  "bit_bytes 0 bits = Some []"
| "bit_bytes (Suc n) bits =
     (case bit_byte 0 (take 8 bits) of
        None \<Rightarrow> None
      | Some v \<Rightarrow> map_option ((#) (char_of_u8 v)) (bit_bytes n (drop 8 bits)))"

definition bit_string_bytes :: "gostring \<Rightarrow> gostring option" where
  "bit_string_bytes body =
     (case quoted_body body of
        None \<Rightarrow> None
      | Some bits \<Rightarrow>
          (let r = length bits mod 8;
               bits = (if r \<noteq> 0 then replicate (8 - r) CHR ''0'' @ bits else bits)
           in bit_bytes (length bits div 8) bits))"

section \<open>Numbers\<close>

definition is_number_like :: "gostring \<Rightarrow> bool" where
  "is_number_like raw \<longleftrightarrow>
     (case raw of
        [] \<Rightarrow> False
      | c # _ \<Rightarrow> is_digit_byte c \<and>
          list_all (\<lambda>c. unhex_digit c \<le> 0xF \<or> c \<in> set ''_.xXpP'') raw)"

text \<open>The radix-dependent \<open>digit\<close> of \<open>underscoresBetweenDigits\<close>.\<close>

definition radix_digit :: "gostring \<Rightarrow> char \<Rightarrow> bool" where
  "radix_digit raw c =
     (if length raw > 1 \<and> raw ! 0 = CHR ''0'' \<and> raw ! 1 \<in> {CHR ''x'', CHR ''X''}
        then unhex_digit c \<le> 0xF
      else if length raw > 1 \<and> raw ! 0 = CHR ''0'' \<and> raw ! 1 \<in> {CHR ''b'', CHR ''B''}
        then c = CHR ''0'' \<or> c = CHR ''1''
      else is_digit_byte c)"

definition underscores_between_digits :: "gostring \<Rightarrow> bool" where
  "underscores_between_digits raw \<longleftrightarrow>
     list_all (\<lambda>i. \<not> (raw ! i = CHR ''_'' \<and>
         (i = 0 \<or> i = length raw - 1 \<or> \<not> radix_digit raw (raw ! (i - 1))
          \<or> \<not> radix_digit raw (raw ! (i + 1)))))
       [0..<length raw]"

definition is_hex_digits :: "gostring \<Rightarrow> bool" where
  "is_hex_digits s \<longleftrightarrow> list_all (\<lambda>c. \<not> unhex_digit c > 0xF) s \<and> s \<noteq> []"

definition remove_underscores :: "gostring \<Rightarrow> gostring" where
  "remove_underscores s = filter (\<lambda>c. c \<noteq> CHR ''_'') s"

definition is_binary_literal :: "gostring \<Rightarrow> bool" where
  "is_binary_literal s0 =
     (let s = remove_underscores s0
      in if length s < 3 \<or> take 2 s \<noteq> ''0b'' then False
         else list_all (\<lambda>c. c = CHR ''0'' \<or> c = CHR ''1'') (drop 2 s))"

text \<open>\<open>big.Int.SetString\<close> on digits the caller has checked.\<close>

definition digits_value :: "nat \<Rightarrow> gostring \<Rightarrow> nat" where
  "digits_value radix s = foldl (\<lambda>n c. n * radix + unat (unhex_digit c)) 0 s"

text \<open>The optional exponent of the two float forms: sign and at most \<open>k\<close> digits, to the end.\<close>

definition exponent_value :: "nat \<Rightarrow> gostring \<Rightarrow> int option" where
  "exponent_value k s =
     (let neg = has_prefix s ''-'';
          ds = (if has_prefix s ''-'' \<or> has_prefix s ''+'' then drop 1 s else s)
      in if is_digits ds \<and> length ds \<le> k
         then Some (if neg then - int (digits_value 10 ds) else int (digits_value 10 ds))
         else None)"

text \<open>Mantissa \<open>d+ .? d*\<close> or \<open>. d+\<close>: the integer digits, the fraction digits, the rest.\<close>

definition mantissa :: "(char \<Rightarrow> bool) \<Rightarrow> gostring \<Rightarrow> (gostring \<times> gostring \<times> gostring) option" where
  "mantissa digit s =
     (let whole = takeWhile digit s; rest = dropWhile digit s
      in if has_prefix rest ''.''
         then let fraction = takeWhile digit (drop 1 rest); rest' = dropWhile digit (drop 1 rest)
              in if whole = [] \<and> fraction = [] then None else Some (whole, fraction, rest')
         else if whole = [] then None else Some (whole, [], rest))"

text \<open>\<open>decimalFloatForm\<close> and the value \<open>big.Rat.SetString\<close> gives it.\<close>

definition decimal_float :: "gostring \<Rightarrow> rat option" where
  "decimal_float s =
     (case mantissa is_digit_byte s of
        None \<Rightarrow> None
      | Some (whole, fraction, rest) \<Rightarrow>
          (let m = of_nat (digits_value 10 (whole @ fraction)) / 10 ^ length fraction
           in case rest of
                [] \<Rightarrow> Some m
              | e # ds \<Rightarrow>
                  if e \<noteq> CHR ''e'' \<and> e \<noteq> CHR ''E'' then None
                  else map_option (\<lambda>x. m * 10 powi x) (exponent_value 3 ds)))"

text \<open>\<open>hexFloatForm\<close> and the value \<open>big.ParseFloat\<close> gives it.\<close>

definition hex_float :: "gostring \<Rightarrow> rat option" where
  "hex_float s =
     (if \<not> (has_prefix s ''0x'' \<or> has_prefix s ''0X'') then None
      else case mantissa (\<lambda>c. unhex_digit c \<le> 0xF) (drop 2 s) of
             None \<Rightarrow> None
           | Some (whole, fraction, rest) \<Rightarrow>
               (let m = of_nat (digits_value 16 (whole @ fraction)) / 16 ^ length fraction
                in case rest of
                     [] \<Rightarrow> None
                   | e # ds \<Rightarrow>
                       if e \<noteq> CHR ''p'' \<and> e \<noteq> CHR ''P'' then None
                       else map_option (\<lambda>x. m * 2 powi x) (exponent_value 4 ds)))"

text \<open>Decimal text of a natural number (\<open>big.Int.String\<close>) and \<open>big.Rat.RatString\<close>.\<close>

definition dec_digit :: "nat \<Rightarrow> char" where
  "dec_digit d = char_of (byte CHR ''0'' + d)"

fun nat_dec :: "nat \<Rightarrow> gostring" where
  "nat_dec n = (if n < 10 then [dec_digit n] else nat_dec (n div 10) @ [dec_digit (n mod 10)])"

declare nat_dec.simps [simp del]

definition rat_string :: "rat \<Rightarrow> gostring" where
  "rat_string r =
     (let (p, q) = quotient_of r
      in if q = 1 then nat_dec (nat p) else nat_dec (nat p) @ ''/'' @ nat_dec (nat q))"

definition max_uint64 :: nat where
  "max_uint64 = 2 ^ 64 - 1"

definition int_key :: "nat \<Rightarrow> gostring" where
  "int_key n = (if n > max_uint64 then ''F'' @ rat_string (of_nat n) else nat_dec n)"

definition number_key :: "gostring \<Rightarrow> gostring option" where
  "number_key raw =
     (if \<not> underscores_between_digits raw then None
      else
        let s = remove_underscores raw
        in if is_digits s then Some (int_key (digits_value 10 s))
           else if length s > 2 \<and> (take 2 s = ''0x'' \<or> take 2 s = ''0X'') \<and> is_hex_digits (drop 2 s)
             then Some (int_key (digits_value 16 (drop 2 s)))
           else if is_binary_literal s then Some (int_key (digits_value 2 (drop 2 s)))
           else case decimal_float s of
                  Some r \<Rightarrow> Some (''F'' @ rat_string r)
                | None \<Rightarrow> map_option (\<lambda>r. ''F'' @ rat_string r) (hex_float s))"

section \<open>A literal's spelling\<close>

definition left_single_quote :: gostring where
  "left_single_quote = [CHR 0xE2, CHR 0x80, CHR 0x98]"

definition right_single_quote :: gostring where
  "right_single_quote = [CHR 0xE2, CHR 0x80, CHR 0x99]"

definition string_spelling :: "gostring \<Rightarrow> gostring \<Rightarrow> spelling" where
  "string_spelling v show_text = mk_spelling (''S:'' @ v) show_text"

text \<open>
  Words are compared in upper case. \<open>strings.ToUpper\<close> maps every letter of Unicode, so here, where its
  result is a key and not only compared with ASCII words, it is the parameter \<open>upper\<close>; the examples
  take \<^const>\<open>to_upper\<close>.

  The switch on the prefix before the first single quote, in \<open>literalSpelling\<close>.\<close>

definition prefixed_value ::
    "(gostring \<Rightarrow> gostring) \<Rightarrow> gostring \<Rightarrow> gostring \<Rightarrow> gostring option" where
  "prefixed_value upper pre body =
     (if pre = ''x'' \<or> pre = ''X'' then hex_string_bytes body
      else if pre = ''b'' \<or> pre = ''B'' then bit_string_bytes body
      else map_option (\<lambda>v. upper pre @ [squote] @ v) (clickhouse_unquote body))"

definition literal_spelling ::
    "(gostring \<Rightarrow> gostring) \<Rightarrow> gostring \<Rightarrow> gostring \<Rightarrow> bool \<Rightarrow> spelling" where
  "literal_spelling upper raw prev input =
     (if raw = [] then undecodable raw input
      else case unicode_quoted raw left_single_quote right_single_quote of
        Some v \<Rightarrow> string_spelling v v
      | None \<Rightarrow>
         (case unicode_quoted raw left_double_quote right_double_quote of
            Some v \<Rightarrow> word_spelling (fold_class (upper v))
          | None \<Rightarrow>
              if hd raw = squote then
                (case clickhouse_unquote raw of
                   None \<Rightarrow> undecodable raw input
                 | Some v \<Rightarrow>
                     if prev = ''W:INTERVAL'' \<and> is_digits v \<and> number_key v \<noteq> None
                     then mk_spelling (''N:'' @ the (number_key v)) v
                     else string_spelling v v)
              else if hd raw = dquote \<or> hd raw = backquote then
                (case clickhouse_unquote raw of
                   None \<Rightarrow> undecodable raw input
                 | Some v \<Rightarrow> word_spelling (fold_class (upper v)))
              else if hd raw = CHR ''$'' then
                (case heredoc_body raw of
                   None \<Rightarrow> undecodable raw input
                 | Some v \<Rightarrow> string_spelling v v)
              else
                (case index_byte raw squote of
                   None \<Rightarrow> undecodable raw input
                 | Some q \<Rightarrow>
                     if q = 0 then undecodable raw input
                     else case prefixed_value upper (take q raw) (drop q raw) of
                            None \<Rightarrow> undecodable raw input
                          | Some v \<Rightarrow> string_spelling v raw)))"

end
