(* ===== verification/Name_Escape_Facts.thy ===== *)
theory Name_Escape_Facts
  imports Name_Escape
begin

text \<open>
  The two decoders of a quoted lexeme agree, up to the escape \<open>\X\<close>; quoting a name and decoding it
  gives the name back; and a quoted name holds no control byte.
\<close>

section \<open>The one-byte escapes agree\<close>

lemma escape_byte_unquote_byte: "escape_byte c = unquote_byte c"
  by (simp add: escape_byte_def unquote_byte_def control_escapes_def control_values_def quote_chars)

lemma byte_less [simp]: "byte c < 256"
  by (simp add: byte_def)

lemma unat_u8_of [simp]: "unat (u8_of c) = byte c"
  by (simp add: u8_of_def unat_of_nat)

lemma u8_of_int: "u8_of c = word_of_int (int (byte c))"
  by (simp add: u8_of_def)

lemma unhex_digit_int: "unhex_digit c = word_of_int (hex_digit c)"
  unfolding unhex_digit_def hex_digit_def u8_of_int
  by (simp only: if_distrib [of word_of_int] of_int_add of_int_diff of_int_numeral of_int_minus) simp

lemma push_word_of_int:
  "push_bit 4 (word_of_int a) + word_of_int b = (word_of_int (a * 16 + b) :: u8)"
  by (simp only: push_bit_eq_mult of_int_add of_int_mult of_int_numeral) simp

lemma unat_word_of_int: "unat (word_of_int x :: u8) = nat (x mod 256)"
  by (simp only: unat_eq_nat_uint uint_word_of_int) simp

lemma unhex_agree: "char_of_u8 (push_bit 4 (unhex_digit h) + unhex_digit l) = unhex2 h l"
  by (simp only: char_of_u8_def unhex2_def unhex_digit_int push_word_of_int unat_word_of_int)

section \<open>The two decoders agree\<close>

definition quote_char :: "char \<Rightarrow> bool" where
  "quote_char q \<longleftrightarrow> q \<in> {squote, dquote, backquote}"

lemma quote_char_not_backslash: "quote_char q \<Longrightarrow> q \<noteq> backslash"
  by (auto simp: quote_char_def quote_chars)

definition utf8_status :: "gostring \<Rightarrow> quoted_decode" where
  "utf8_status s = (if valid_utf8 s then DecodedExact else DecodedNotUTF8)"

lemma escape_plain:
  "n \<noteq> CHR ''x'' \<Longrightarrow> n \<noteq> CHR ''X'' \<Longrightarrow> escape (backslash # n # cs) = Some (unquote_byte n, cs)"
  by (simp add: escape_def escape_byte_unquote_byte)

lemma escape_hex: "escape (backslash # CHR ''x'' # h # l # cs) = Some ([unhex2 h l], cs)"
  by (simp add: escape_def)

lemma decode_loop_of_unquote:
  assumes "quote_char q"
  shows "unquote_body q body = Some v \<Longrightarrow> CHR ''X'' \<notin> set body \<Longrightarrow>
     decode_quoted_loop q b (body @ [q]) = (b @ v, utf8_status (b @ v))"
proof (induction q body arbitrary: b v rule: unquote_body.induct)
  case (1 q)
  then show ?case by (simp add: utf8_status_def)
next
  case (2 q c cs)
  consider (quote) "c = q" | (esc) "c \<noteq> q" "c = backslash" | (plain) "c \<noteq> q" "c \<noteq> backslash" by blast
  then show ?case
  proof cases
    case quote
    with "2.prems" obtain cs' w where cs: "cs = q # cs'" "unquote_body q cs' = Some w" "v = q # w"
      by (auto split: list.splits if_splits)
    have "decode_quoted_loop q (b @ [q]) (cs' @ [q]) = ((b @ [q]) @ w, utf8_status ((b @ [q]) @ w))"
      using quote cs "2.prems" by (intro "2.IH"(1)) auto
    with quote cs show ?thesis by simp
  next
    case esc
    then obtain n cs' where cs: "cs = n # cs'" using "2.prems" by (cases cs) auto
    show ?thesis
    proof (cases "n = CHR ''x''")
      case True
      with esc cs "2.prems" obtain h l cs'' w where
        cs': "cs' = h # l # cs''" "unquote_body q cs'' = Some w" and v: "v = unhex2 h l # w"
        and hl: "\<not> (h = q \<or> l = q \<or> h = backslash \<or> l = backslash)"
        by (auto simp: unhex_agree split: list.splits if_splits)
      have "decode_quoted_loop q (b @ [unhex2 h l]) (cs'' @ [q]) =
          ((b @ [unhex2 h l]) @ w, utf8_status ((b @ [unhex2 h l]) @ w))"
        using esc True cs cs' hl "2.prems"(2) by (intro "2.IH"(2)) auto
      with esc True cs cs' v show ?thesis by (simp add: escape_hex)
    next
      case False
      with esc cs "2.prems" obtain w where w: "unquote_body q cs' = Some w" "v = unquote_byte n @ w"
        by auto
      have X: "n \<noteq> CHR ''X''" using cs "2.prems"(2) by auto
      have "decode_quoted_loop q (b @ unquote_byte n) (cs' @ [q]) =
          ((b @ unquote_byte n) @ w, utf8_status ((b @ unquote_byte n) @ w))"
        using esc False cs w "2.prems"(2) by (intro "2.IH"(3)) auto
      with esc False cs w X show ?thesis by (simp add: escape_plain)
    qed
  next
    case plain
    with "2.prems" obtain w where w: "unquote_body q cs = Some w" "v = c # w" by auto
    have "decode_quoted_loop q (b @ [c]) (cs @ [q]) = ((b @ [c]) @ w, utf8_status ((b @ [c]) @ w))"
      using plain w "2.prems" by (intro "2.IH"(4)) auto
    with plain w show ?thesis by simp
  qed
qed

lemma quoted_split:
  assumes "length raw \<ge> 2" "last raw = hd raw"
  shows "drop 1 raw = drop 1 (take (length raw - 1) raw) @ [hd raw]"
proof -
  have "raw = butlast raw @ [hd raw]" using assms by (metis append_butlast_last_id list.size(3) not_numeral_le_zero)
  then have "drop 1 raw = drop 1 (butlast raw @ [hd raw])" by simp
  also have "\<dots> = drop 1 (butlast raw) @ [hd raw]" using assms by simp
  finally show ?thesis by (simp add: butlast_conv_take)
qed

text \<open>
  On a quoted lexeme without a capital X, the decoder of \<open>nameescape.go\<close> reads every value the
  fidelity gate's decoder (\<open>clickhouseUnquote\<close>) reads, exactly, whichever of the three quotes it
  has; it only adds the note that the bytes are no UTF-8.
\<close>

theorem decoders_agree:
  assumes "quote_char (hd raw)" and "CHR ''X'' \<notin> set raw" and "clickhouse_unquote raw = Some v"
  shows "decode_quoted_body raw (hd raw) = (v, utf8_status v)"
proof -
  let ?body = "drop 1 (take (length raw - 1) raw)"
  from assms(3) have len: "length raw \<ge> 2" "last raw = hd raw" and u: "unquote_body (hd raw) ?body = Some v"
    by (auto simp: clickhouse_unquote_def split: if_splits)
  have "CHR ''X'' \<notin> set ?body" using assms(2) by (meson in_set_dropD in_set_takeD)
  from decode_loop_of_unquote [OF assms(1) u this, of "[]"] show ?thesis
    unfolding decode_quoted_body_def quoted_split [OF len] by simp
qed

lemma decoders_agree_witness:
  "decode_quoted_body
     ([backquote] @ ''ph'' @ [backslash] @ ''Nys'' @ [backslash] @ ''x31'' @ [backquote]) backquote
     = (''phys1'', utf8_status ''phys1'')"
proof -
  let ?raw = "[backquote] @ ''ph'' @ [backslash] @ ''Nys'' @ [backslash] @ ''x31'' @ [backquote]"
  have "clickhouse_unquote ?raw = Some ''phys1''" by code_simp
  then have "decode_quoted_body ?raw (hd ?raw) = (''phys1'', utf8_status ''phys1'')"
    by (intro decoders_agree) (simp_all add: quote_char_def quote_chars)
  then show ?thesis by (simp add: quote_chars)
qed

text \<open>
  Up to the capital X: on the identifier \<open>`\X41`\<close> the two decoders read different names. The
  decoder of \<open>nameescape.go\<close> takes \<open>\X\<close> for a hex escape, which its own rule (and
  \<open>clickhouseUnquote\<close>) keeps as two bytes.
\<close>

theorem decoders_differ_on_capital_x:
  "decode_quoted_identifier ([backquote, backslash] @ ''X41'' @ [backquote]) = (''A'', DecodedExact) \<and>
   clickhouse_unquote ([backquote, backslash] @ ''X41'' @ [backquote]) = Some (backslash # ''X41'')"
  by code_simp

section \<open>Quoting a name\<close>

lemma hex_digit_upper: "k < 16 \<Longrightarrow> hex_digit (hex_upper k) = int k"
proof -
  have "\<forall>k \<in> set [0..<16]. hex_digit (hex_upper k) = int k" by code_simp
  then show "k < 16 \<Longrightarrow> hex_digit (hex_upper k) = int k" by simp
qed

lemma div16: "(n::nat) < 256 \<Longrightarrow> n div 16 < 16"
  by presburger

lemma char_of_byte: "char_of (byte c) = c" by (simp add: byte_def)

lemma unhex2_upper: "unhex2 (hex_upper (byte c div 16)) (hex_upper (byte c mod 16)) = c"
proof -
  let ?n = "byte c"
  have "?n div 16 < 16" "?n mod 16 < 16" by (simp_all add: div16)
  then have "hex_digit (hex_upper (?n div 16)) = int (?n div 16)"
    "hex_digit (hex_upper (?n mod 16)) = int (?n mod 16)"
    by (auto intro: hex_digit_upper simp del: of_nat_mod zmod_int)
  moreover have "int (?n div 16) * 16 + int (?n mod 16) = int (?n div 16 * 16 + ?n mod 16)"
    by (simp only: of_nat_add of_nat_mult of_nat_numeral)
  moreover have "?n div 16 * 16 + ?n mod 16 = ?n" by (rule div_mult_mod_eq)
  moreover have "nat (int ?n mod 256) = ?n" using byte_less [of c] by simp
  ultimately show ?thesis by (simp only: unhex2_def char_of_byte)
qed

lemma decode_loop_quote_byte:
  "s \<noteq> [] \<Longrightarrow>
     decode_quoted_loop backquote b (quote_byte c @ s) = decode_quoted_loop backquote (b @ [c]) s"
proof -
  assume s: "s \<noteq> []"
  consider "c = backquote" | "c = backslash" | "c \<noteq> backquote" "c \<noteq> backslash" "byte c < 0x20 \<or> byte c = 0x7F"
    | "c \<noteq> backquote" "c \<noteq> backslash" "\<not> (byte c < 0x20 \<or> byte c = 0x7F)" by blast
  then show ?thesis
  proof cases
    case 2
    have "escape (backslash # backslash # s) = Some ([backslash], s)"
      by (simp add: escape_def escape_byte_def quote_chars)
    with 2 s show ?thesis by (simp add: quote_byte_def backquote_def backslash_def)
  next
    case 3
    have "decode_quoted_loop backquote b (backslash # CHR ''x'' # hex_upper (byte c div 16)
        # hex_upper (byte c mod 16) # s) = decode_quoted_loop backquote (b @ [c]) s"
      using s by (subst decode_quoted_loop.simps) (simp add: escape_hex unhex2_upper, simp add: quote_chars)
    with 3 show ?thesis by (auto simp: quote_byte_def)
  qed (simp_all add: quote_byte_def)
qed

lemma decode_loop_quoted:
  "decode_quoted_loop backquote b (concat (map quote_byte name) @ [backquote]) =
     (b @ name, utf8_status (b @ name))"
proof (induction name arbitrary: b)
  case Nil
  then show ?case by (simp add: utf8_status_def)
next
  case (Cons c name)
  have "decode_quoted_loop backquote b (quote_byte c @ (concat (map quote_byte name) @ [backquote])) =
      decode_quoted_loop backquote (b @ [c]) (concat (map quote_byte name) @ [backquote])"
    by (rule decode_loop_quote_byte) simp
  with Cons [of "b @ [c]"] show ?case by simp
qed

text \<open>
  C28. Quoting round-trips: \<open>quoteIdentifierSQL\<close> renders every non-empty name as an identifier that
  decodes back to exactly that name, control bytes, backquotes and backslashes included.
\<close>

theorem quote_identifier_roundtrip:
  assumes "name \<noteq> []"
  shows "decode_quoted_identifier (quote_identifier_sql name) = (name, utf8_status name)"
proof -
  let ?raw = "quote_identifier_sql name"
  have body: "decode_quoted_body ?raw backquote = (name, utf8_status name)"
    using decode_loop_quoted [of "[]" name]
    by (simp add: decode_quoted_body_def quote_identifier_sql_def)
  have "\<not> has_prefix ?raw left_double_quote"
    by (simp add: quote_identifier_sql_def has_prefix_def left_double_quote_def quote_chars)
  moreover have "length ?raw \<ge> 2" "hd ?raw = backquote" by (simp_all add: quote_identifier_sql_def)
  ultimately show ?thesis
    using body assms by (simp add: decode_quoted_identifier_def utf8_status_def)
qed

lemma quote_identifier_roundtrip_witness:
  "decode_quoted_identifier (quote_identifier_sql (''t'' @ [backquote, CHR 0x0A, backslash])) =
     (''t'' @ [backquote, CHR 0x0A, backslash], utf8_status (''t'' @ [backquote, CHR 0x0A, backslash]))"
  by (rule quote_identifier_roundtrip) simp

definition control_byte :: "char \<Rightarrow> bool" where
  "control_byte c \<longleftrightarrow> byte c < 0x20 \<or> byte c = 0x7F"

lemma hex_upper_no_control: "k < 16 \<Longrightarrow> \<not> control_byte (hex_upper k)"
proof -
  have "\<forall>k \<in> set [0..<16]. \<not> control_byte (hex_upper k)" by code_simp
  then show "k < 16 \<Longrightarrow> \<not> control_byte (hex_upper k)" by simp
qed

lemma quote_byte_no_control: "\<forall>d \<in> set (quote_byte c). \<not> control_byte d"
proof -
  have "\<not> control_byte (hex_upper (byte c div 16))" "\<not> control_byte (hex_upper (byte c mod 16))"
    using byte_less [of c] by (auto intro!: hex_upper_no_control simp: div16)
  moreover have "\<not> control_byte backquote" "\<not> control_byte backslash" "\<not> control_byte (CHR ''x'')"
    by (simp_all add: control_byte_def byte_def quote_chars)
  ultimately show ?thesis by (auto simp: quote_byte_def control_byte_def [of c])
qed

text \<open>
  A quoted name brings no control byte into the statement, whatever the name holds: a newline in
  a decoded name cannot end a comment or split a token of the text it is spliced into.
\<close>

theorem quote_identifier_no_control:
  "\<forall>d \<in> set (quote_identifier_sql name). \<not> control_byte d"
  using quote_byte_no_control
  by (auto simp: quote_identifier_sql_def control_byte_def byte_def quote_chars)

lemma quote_identifier_no_control_witness:
  "quote_identifier_sql [CHR ''a'', CHR 0x0A] = ''`a'' @ [backslash] @ ''x0A`'' \<and>
   CHR 0x0A \<notin> set (quote_identifier_sql [CHR ''a'', CHR 0x0A])"
proof -
  have "quote_identifier_sql [CHR ''a'', CHR 0x0A] = ''`a'' @ [backslash] @ ''x0A`''" by code_simp
  moreover have "control_byte (CHR 0x0A)" by code_simp
  ultimately show ?thesis using quote_identifier_no_control [of "[CHR ''a'', CHR 0x0A]"] by metis
qed

end
