(* ===== verification/Lexeme_Facts.thy ===== *)
theory Lexeme_Facts
  imports Lexeme Name_Escape_Facts
begin

text \<open>
  A literal's spelling keeps its value: number keys are injective on typed values, and hex and bit
  strings decode to the bytes they spell.
\<close>

section \<open>Decimal text\<close>

lemma dec_digit_byte: "d < 10 \<Longrightarrow> byte (dec_digit d) = 48 + d"
  by (simp add: dec_digit_def byte_def)

lemma is_digit_dec_digit: "d < 10 \<Longrightarrow> is_digit_byte (dec_digit d)"
  by (simp add: is_digit_byte_def less_eq_char_def dec_digit_byte byte_def [symmetric])
    (simp add: byte_def)

lemma unhex_dec_digit: "d < 10 \<Longrightarrow> unhex_digit (dec_digit d) = word_of_nat d"
proof -
  have "\<forall>d \<in> set [0..<10]. unhex_digit (dec_digit d) = word_of_nat d" by code_simp
  then show "d < 10 \<Longrightarrow> unhex_digit (dec_digit d) = word_of_nat d" by simp
qed

lemma digits_value_snoc: "digits_value r (s @ [c]) = digits_value r s * r + unat (unhex_digit c)"
  by (simp add: digits_value_def)

lemma digits_value_nat_dec: "digits_value 10 (nat_dec n) = n"
proof (induction n rule: nat_dec.induct)
  case (1 n)
  have digit: "unat (unhex_digit (dec_digit d)) = d" if "d < 10" for d
    using that by (simp add: unhex_dec_digit unat_of_nat)
  show ?case
  proof (cases "n < 10")
    case True
    then show ?thesis using digit [of n] by (simp add: nat_dec.simps [of n] digits_value_def)
  next
    case False
    then show ?thesis
      using 1 digit [of "n mod 10"] by (simp add: nat_dec.simps [of n] digits_value_snoc)
  qed
qed

lemma nat_dec_inject [simp]: "nat_dec m = nat_dec n \<longleftrightarrow> m = n"
  by (metis digits_value_nat_dec)

lemma nat_dec_digits: "list_all is_digit_byte (nat_dec n)"
proof (induction n rule: nat_dec.induct)
  case (1 n)
  then show ?case
    by (cases "n < 10") (simp_all add: nat_dec.simps [of n] is_digit_dec_digit)
qed

lemma nat_dec_nonempty [simp]: "nat_dec n \<noteq> []"
  by (simp add: nat_dec.simps [of n])

lemma is_digits_nat_dec: "is_digits (nat_dec n)"
  by (simp add: is_digits_def nat_dec_digits)

lemma not_digit: "\<not> is_digit_byte CHR ''/''" "\<not> is_digit_byte CHR ''F''"
  by (simp_all add: is_digit_byte_def less_eq_char_def)

section \<open>Typed values\<close>

text \<open>
  The value and the type ClickHouse gives a numeric literal: an unsigned integer, or a Float64.
\<close>

datatype number = UIntNumber nat | FloatNumber rat

definition int_number :: "nat \<Rightarrow> number" where
  "int_number n = (if n > max_uint64 then FloatNumber (of_nat n) else UIntNumber n)"

definition number_value :: "gostring \<Rightarrow> number option" where
  "number_value raw =
     (if \<not> underscores_between_digits raw then None
      else
        let s = remove_underscores raw
        in if is_digits s then Some (int_number (digits_value 10 s))
           else if length s > 2 \<and> (take 2 s = ''0x'' \<or> take 2 s = ''0X'') \<and> is_hex_digits (drop 2 s)
             then Some (int_number (digits_value 16 (drop 2 s)))
           else if is_binary_literal s then Some (int_number (digits_value 2 (drop 2 s)))
           else map_option FloatNumber (case decimal_float s of Some r \<Rightarrow> Some r | None \<Rightarrow> hex_float s))"

fun render :: "number \<Rightarrow> gostring" where
  "render (UIntNumber n) = nat_dec n"
| "render (FloatNumber r) = ''F'' @ rat_string r"

lemma number_key_render: "number_key raw = map_option render (number_value raw)"
proof -
  have int: "int_key n = render (int_number n)" for n
    by (simp add: int_key_def int_number_def)
  have float: "(case d of Some r \<Rightarrow> Some (''F'' @ rat_string r)
        | None \<Rightarrow> map_option (\<lambda>r. ''F'' @ rat_string r) h) =
      map_option render (map_option FloatNumber (case d of Some r \<Rightarrow> Some r | None \<Rightarrow> h))" for d h
    by (cases d; cases h) simp_all
  show ?thesis
    unfolding number_key_def number_value_def Let_def float int
    by (simp only: if_distrib [of "map_option render"] option.map)
qed

lemma slash_split:
  assumes "list_all is_digit_byte a" "list_all is_digit_byte c"
    and "a @ CHR ''/'' # b = c @ CHR ''/'' # d"
  shows "a = c \<and> b = d"
proof -
  have "CHR ''/'' \<notin> set a" "CHR ''/'' \<notin> set c"
    using assms(1,2) not_digit(1) by (auto simp: list_all_iff)
  then have "index_byte (a @ CHR ''/'' # b) CHR ''/'' = Some (length a)"
    "index_byte (c @ CHR ''/'' # d) CHR ''/'' = Some (length c)"
    by (simp_all add: index_byte_append)
  with assms(3) have "length a = length c" by simp
  with assms(3) show ?thesis by simp
qed

lemma rat_string_inject:
  assumes "r \<ge> 0" "s \<ge> 0" "rat_string r = rat_string s"
  shows "r = s"
proof -
  obtain p q where r: "quotient_of r = (p, q)" by fastforce
  obtain p' q' where s: "quotient_of s = (p', q')" by fastforce
  have pos: "q > 0" "q' > 0" using r s quotient_of_denom_pos by auto
  have nn: "p \<ge> 0" "p' \<ge> 0"
    using assms(1,2) quotient_of_div [OF r] quotient_of_div [OF s] pos
    by (simp_all add: zero_le_divide_iff)
  have no_slash: "nat_dec a \<noteq> nat_dec b @ CHR ''/'' # c" for a b c
    using nat_dec_digits [of a] not_digit(1) by (auto simp: list_all_iff)
  have spelt: "(if q = 1 then nat_dec (nat p) else nat_dec (nat p) @ CHR ''/'' # nat_dec (nat q)) =
      (if q' = 1 then nat_dec (nat p') else nat_dec (nat p') @ CHR ''/'' # nat_dec (nat q'))"
    using assms(3) unfolding rat_string_def r s Let_def prod.case append_Cons append_Nil .
  have "nat q = nat q' \<and> nat p = nat p'"
  proof (cases "q = 1")
    case True
    with spelt no_slash show ?thesis by (cases "q' = 1") simp_all
  next
    case False
    with spelt no_slash [symmetric] have "q' \<noteq> 1" by (cases "q' = 1") simp_all
    with False spelt have "nat_dec (nat p) @ CHR ''/'' # nat_dec (nat q) =
        nat_dec (nat p') @ CHR ''/'' # nat_dec (nat q')" by simp
    from slash_split [OF nat_dec_digits nat_dec_digits this] show ?thesis by simp
  qed
  with pos nn have "q = q'" "p = p'" by (simp_all add: eq_nat_nat_iff)
  with r s have "quotient_of r = quotient_of s" by simp
  then show ?thesis by (simp add: quotient_of_inject_eq)
qed

lemma decimal_float_nonneg: "decimal_float s = Some r \<Longrightarrow> r \<ge> 0"
  by (auto simp: decimal_float_def Let_def split: option.splits list.splits if_splits)

lemma hex_float_nonneg: "hex_float s = Some r \<Longrightarrow> r \<ge> 0"
  by (auto simp: hex_float_def Let_def split: option.splits list.splits if_splits)

lemma number_value_nonneg: "number_value raw = Some (FloatNumber r) \<Longrightarrow> r \<ge> 0"
  using decimal_float_nonneg hex_float_nonneg
  by (auto simp: number_value_def int_number_def Let_def split: option.splits if_splits)

lemma render_inject:
  assumes "number_value a = Some x" "number_value b = Some y" "render x = render y"
  shows "x = y"
proof -
  have F: "nat_dec n \<noteq> CHR ''F'' # t" for n t
    using nat_dec_digits [of n] not_digit(2) by (auto simp: list_all_iff)
  show ?thesis
  proof (cases x; cases y)
    fix r s assume "x = FloatNumber r" "y = FloatNumber s"
    with assms rat_string_inject [of r s] number_value_nonneg show ?thesis by simp
  qed (use assms F F [symmetric] in auto)
qed

text \<open>
  Two numeric literals have the same key exactly when ClickHouse reads them as the same value of
  the same type: \<open>0x1F\<close>, \<open>0b11111\<close>, \<open>3_1\<close> and \<open>31\<close> share one, \<open>1e3\<close> and \<open>1000\<close> do not, and an integer
  above 2^64-1 is the Float64 of its value.
\<close>

theorem number_key_eq_iff:
  assumes "number_key a \<noteq> None"
  shows "number_key a = number_key b \<longleftrightarrow> number_value a = number_value b"
proof -
  obtain x where x: "number_value a = Some x" using assms by (auto simp: number_key_render)
  show ?thesis
    using x render_inject [OF x] by (cases "number_value b") (auto simp: number_key_render)
qed

lemma number_key_eq_iff_witness:
  "number_key ''0x1F'' \<noteq> None \<and>
   (number_key ''0x1F'' = number_key ''3_1'' \<longleftrightarrow> number_value ''0x1F'' = number_value ''3_1'') \<and>
   number_key ''0x1F'' = Some ''31'' \<and> number_key ''1_e3'' = None"
proof -
  have parts: "underscores_between_digits ''0x1F''" "remove_underscores ''0x1F'' = ''0x1F''"
    "\<not> is_digits ''0x1F''" "is_hex_digits (drop 2 ''0x1F'')" "digits_value 16 (drop 2 ''0x1F'') = 31"
    "nat_dec 31 = ''31''" by code_simp+
  have k: "number_key ''0x1F'' = Some ''31''"
    unfolding number_key_def int_key_def Let_def parts(2) using parts
    by (simp add: max_uint64_def)
  moreover have "number_key ''1_e3'' = None" by code_simp
  moreover from k have "number_key ''0x1F'' \<noteq> None" by simp
  ultimately show ?thesis using number_key_eq_iff [of "''0x1F''" "''3_1''"] by simp
qed

section \<open>Hex strings\<close>

definition hex_text :: "gostring \<Rightarrow> gostring" where
  "hex_text s = concat (map (\<lambda>c. [hex_upper (byte c div 16), hex_upper (byte c mod 16)]) s)"

lemma unhex_upper: "k < 16 \<Longrightarrow> unhex_digit (hex_upper k) = word_of_nat k"
proof -
  have "\<forall>k \<in> set [0..<16]. unhex_digit (hex_upper k) = word_of_nat k" by code_simp
  then show "k < 16 \<Longrightarrow> unhex_digit (hex_upper k) = word_of_nat k" by simp
qed

lemma hex_pair:
  "\<not> unhex_digit (hex_upper (byte c div 16)) > 0xF"
  "\<not> unhex_digit (hex_upper (byte c mod 16)) > 0xF"
  "char_of_u8 (or (push_bit 4 (unhex_digit (hex_upper (byte c div 16))))
      (unhex_digit (hex_upper (byte c mod 16)))) = c"
proof -
  have small: "byte c div 16 < 16" "byte c mod 16 < 16" by (simp_all add: div16)
  have nibble: "\<forall>k \<in> set [0..<16]. \<not> (word_of_nat k :: u8) > 0xF" by code_simp
  have pair: "\<forall>h \<in> set [0..<16]. \<forall>l \<in> set [0..<16].
      unat (or (push_bit 4 (word_of_nat h :: u8)) (word_of_nat l)) = h * 16 + l" by code_simp
  show "\<not> unhex_digit (hex_upper (byte c div 16)) > 0xF"
    using nibble small(1) by (simp add: unhex_upper)
  show "\<not> unhex_digit (hex_upper (byte c mod 16)) > 0xF"
    using nibble small(2) by (simp add: unhex_upper)
  have "unat (or (push_bit 4 (word_of_nat (byte c div 16) :: u8)) (word_of_nat (byte c mod 16)))
      = byte c div 16 * 16 + byte c mod 16"
    using pair small by simp
  then show "char_of_u8 (or (push_bit 4 (unhex_digit (hex_upper (byte c div 16))))
      (unhex_digit (hex_upper (byte c mod 16)))) = c"
    using small by (simp only: char_of_u8_def unhex_upper div_mult_mod_eq char_of_byte)
qed

lemma hex_pairs_text: "hex_pairs (hex_text s) = Some s"
  by (induction s) (simp_all add: hex_text_def hex_pair Let_def)

lemma length_hex_text: "length (hex_text s) = 2 * length s"
  by (induction s) (simp_all add: hex_text_def)

text \<open>
  A hex string \<open>x'...'\<close> decodes to the bytes it spells, and a missing leading nibble is a zero.
\<close>

theorem hex_string_roundtrip:
  "hex_string_bytes (squote # hex_text s @ [squote]) = Some s \<and>
   hex_string_bytes (squote # CHR ''4'' # hex_text s @ [squote]) = Some (CHR 0x04 # s)"
proof -
  have body: "quoted_body (squote # t @ [squote]) = Some t" for t
    by (simp add: quoted_body_def)
  have "hex_pairs (CHR ''0'' # CHR ''4'' # hex_text s) = Some (CHR 0x04 # s)"
  proof -
    have "unhex_digit (CHR ''0'') = 0" "unhex_digit (CHR ''4'') = 4" by code_simp+
    moreover have "char_of_u8 4 = CHR 0x04" by code_simp
    ultimately show ?thesis by (simp add: hex_pairs_text)
  qed
  then show ?thesis
    using body [of "hex_text s"] body [of "CHR ''4'' # hex_text s"]
    by (simp add: hex_string_bytes_def hex_pairs_text length_hex_text)
qed

end
