(* ===== verification/Engine_Tokens.thy ===== *)
theory Engine_Tokens
  imports Name_Escape Go_Utf8
begin

text \<open>
  What the engine package reads: the engine itself (\<open>engine.go\<close>), the AST as decoded JSON
  (\<open>ast.go\<close>, \<open>bodyOf\<close> of \<open>writes.go\<close>), and the token stream (\<open>rawToken\<close>, \<open>tokenizeRaw\<close>,
  \<open>tokenStream\<close>, \<open>decodeRawTokenText\<close> and \<open>rejectHashGluedTokens\<close> of \<open>writes.go\<close>).
\<close>

section \<open>JSON values\<close>

text \<open>
  A decoded JSON value. An object is an association list with distinct keys, like every Go map here;
  a number keeps its text (\<open>UseNumber\<close>).
\<close>

datatype json =
  JNull | JBool bool | JNumber gostring | JString gostring
| JArray "json list" | JObject "(gostring \<times> json) list"

text \<open>\<open>m, _ := v.(map[string]any)\<close>, whose failure is the nil (empty) map, and \<open>m[k]\<close>.\<close>

definition members :: "json \<Rightarrow> (gostring \<times> json) list" where
  "members j = (case j of JObject m \<Rightarrow> m | _ \<Rightarrow> [])"

definition is_object :: "json \<Rightarrow> bool" where
  "is_object j \<longleftrightarrow> (case j of JObject _ \<Rightarrow> True | _ \<Rightarrow> False)"

definition field :: "gostring \<Rightarrow> json \<Rightarrow> json" where
  "field k j = (case map_of (members j) k of Some v \<Rightarrow> v | None \<Rightarrow> JNull)"

text \<open>\<open>s, _ := v.(string)\<close>.\<close>

definition json_string :: "json \<Rightarrow> gostring" where
  "json_string j = (case j of JString s \<Rightarrow> s | _ \<Rightarrow> [])"

text \<open>
  Objects are compared without regard to the order of their keys (\<open>reflect.DeepEqual\<close> on the decoded
  values): \<open>canonical\<close> sorts them. Byte equality, the fast path of \<open>sameAST\<close>, implies it.
\<close>

fun canonical :: "json \<Rightarrow> json" where
  "canonical (JArray vs) = JArray (map canonical vs)"
| "canonical (JObject m) = JObject (sort_key fst (map (\<lambda>(k, v). (k, canonical v)) m))"
| "canonical j = j"

definition same_ast :: "json \<Rightarrow> json \<Rightarrow> bool" where
  "same_ast a b \<longleftrightarrow> canonical a = canonical b"

section \<open>Errors\<close>

text \<open>
  The errors of the engine package. \<open>NotParsedInFull\<close> and \<open>NotRegenerated\<close> are the sentinels
  \<open>ErrNotParsedInFull\<close> and \<open>ErrNotRegeneratedFaithfully\<close> with the arguments of the text; \<open>EngineError\<close>
  is an error of the SQL engine itself. \<open>SliceOutOfRange i j\<close> is the run-time panic of a slice expression
  \<open>s[i:j]\<close> with \<open>j < i\<close>, where the code can reach one; \<open>NilMapWrite\<close> is the panic of a
  write to a nil map, and \<open>WrongKind\<close> the refusal of an edit on another statement kind.
\<close>

datatype parse_refusal =
  UnmatchedBracket gostring gostring
| UnclosedBracket gostring gostring
| StoppedBefore gostring

datatype regen_refusal =
  SpellingNotRestored
| HashToken gostring
| InputDataLost gostring
| InputDataUnknown
| LostAdded "gostring list" "gostring list"
| ModifiersReordered "gostring list" "gostring list"

datatype engine_error =
  EngineError gostring
| NestingExceeded nat
| InvalidTokenSpan int int nat
| HashGlued gostring
| NotAName gostring
| NotOneKey nat
| AstUndecodable
| NotACommand
| NotARaw
| NotParsedInFull parse_refusal
| NotRegenerated regen_refusal
| RawTargetUndecided gostring
| SliceOutOfRange nat nat
| NilMapWrite
| WrongKind gostring
| ViewColumnListMismatch
| ShowTableNotSingle
| ShowTableAbsent
| UnmodelledRead gostring
| EmbeddedStatement
| WalkOutOfFuel
| SettingListUnparsed gostring
| SettingNeedsDecoding gostring
| UndecodableEngine
| OpaqueUntokenized
| TargetUndecoded gostring
| MutationUnproven gostring
| UnverifiableName gostring
| NothingGenerated

section \<open>The engine\<close>

text \<open>
  The interface \<open>Engine\<close>, as far as the model uses it. Polyglot is a foreign library, so it is a
  parameter: each operation is a function to an error or a result. \<open>e_tokenize\<close> is \<open>Tokenize\<close> followed by
  the decoding of its JSON; the spans of its tokens count Unicode scalar values.
\<close>

record wire_token =
  wt_type :: gostring
  wt_text :: gostring
  wt_start :: int
  wt_end :: int

record engine =
  e_tokenize :: "gostring \<Rightarrow> engine_error + wire_token list"
  e_parse_one :: "gostring \<Rightarrow> engine_error + json"
  e_generate :: "json \<Rightarrow> engine_error + gostring"
  e_parse_generic :: "gostring \<Rightarrow> engine_error + json"

section \<open>AST heads\<close>

definition NodeInsert :: gostring where "NodeInsert = ''insert''"
definition NodeCommand :: gostring where "NodeCommand = ''command''"
definition NodeRaw :: gostring where "NodeRaw = ''raw''"

definition node_kind :: "json \<Rightarrow> engine_error + gostring" where
  "node_kind ast =
     (case ast of
        JObject m \<Rightarrow> (case m of [(k, _)] \<Rightarrow> Inr k | _ \<Rightarrow> Inl (NotOneKey (length m)))
      | JNull \<Rightarrow> Inl (NotOneKey 0)
      | _ \<Rightarrow> Inl AstUndecodable)"

text \<open>\<open>bodyOf\<close>: the kind, and the body when it is an object.\<close>

definition body_of :: "json \<Rightarrow> engine_error + gostring \<times> json option" where
  "body_of ast =
     (case ast of
        JObject m \<Rightarrow>
          (case m of
             [(k, v)] \<Rightarrow> Inr (k, if is_object v then Some v else None)
           | _ \<Rightarrow> Inl (NotOneKey (length m)))
      | JNull \<Rightarrow> Inl (NotOneKey 0)
      | _ \<Rightarrow> Inl AstUndecodable)"

text \<open>
  Decoding a string member of a struct: absent or null leaves \<open>None\<close> (the zero value), any value but a
  string is a decoding error.
\<close>

definition string_member :: "gostring \<Rightarrow> json \<Rightarrow> engine_error + gostring option" where
  "string_member k body =
     (case field k body of
        JNull \<Rightarrow> Inr None
      | JString s \<Rightarrow> Inr (Some s)
      | _ \<Rightarrow> Inl AstUndecodable)"

definition struct_member :: "gostring \<Rightarrow> json \<Rightarrow> engine_error + json option" where
  "struct_member k ast =
     (case ast of
        JObject m \<Rightarrow>
          (case field k ast of
             JNull \<Rightarrow> Inr None
           | JObject b \<Rightarrow> Inr (Some (JObject b))
           | _ \<Rightarrow> Inl AstUndecodable)
      | JNull \<Rightarrow> Inr None
      | _ \<Rightarrow> Inl AstUndecodable)"

definition zero_string :: "gostring option \<Rightarrow> gostring" where
  "zero_string s = (case s of None \<Rightarrow> [] | Some t \<Rightarrow> t)"

definition command_sql :: "json \<Rightarrow> engine_error + gostring" where
  "command_sql ast =
     (case struct_member ''command'' ast of
        Inl e \<Rightarrow> Inl e
      | Inr None \<Rightarrow> Inl NotACommand
      | Inr (Some b) \<Rightarrow> map_sum id zero_string (string_member ''this'' b))"

definition raw_sql :: "json \<Rightarrow> engine_error + gostring" where
  "raw_sql ast =
     (case struct_member ''raw'' ast of
        Inl e \<Rightarrow> Inl e
      | Inr None \<Rightarrow> Inl NotARaw
      | Inr (Some b) \<Rightarrow> map_sum id zero_string (string_member ''sql'' b))"

definition polyglot_command_sql :: "json \<Rightarrow> engine_error + gostring" where
  "polyglot_command_sql ast =
     (case struct_member ''command'' ast of
        Inl e \<Rightarrow> Inl e
      | Inr None \<Rightarrow> Inl NotACommand
      | Inr (Some b) \<Rightarrow>
          (case string_member ''this'' b of
             Inl e \<Rightarrow> Inl e
           | Inr this \<Rightarrow>
               (case string_member ''polyglot_this'' b of
                  Inl e \<Rightarrow> Inl e
                | Inr (Some t) \<Rightarrow> Inr t
                | Inr None \<Rightarrow> Inr (zero_string this))))"

definition insert_has_format_clause :: "json \<Rightarrow> bool" where
  "insert_has_format_clause ast =
     (case body_of ast of
        Inr (_, Some body) \<Rightarrow>
          (let q = field ''query'' body; cmd = field ''command'' q
           in if \<not> is_object q then False
              else if \<not> is_object cmd then False
              else has_prefix (to_upper (trim_space (json_string (field ''this'' cmd)))) ''FORMAT'')
      | _ \<Rightarrow> False)"

definition insert_select_has_format :: "json \<Rightarrow> bool" where
  "insert_select_has_format ast =
     (case body_of ast of
        Inr (_, Some body) \<Rightarrow> field ''format'' (field ''select'' (field ''query'' body)) \<noteq> JNull
      | _ \<Rightarrow> False)"

section \<open>Tokens\<close>

record raw_token =
  tk_type :: gostring
  tk_text :: gostring
  tk_start :: nat
  tk_end :: nat
  tk_source :: gostring

definition rune_to_byte :: "gostring \<Rightarrow> nat list" where
  "rune_to_byte sql = rune_offsets sql @ [length sql]"

definition characters :: "gostring \<Rightarrow> nat" where
  "characters sql = length (rune_to_byte sql) - 1"

definition byte_range :: "gostring \<Rightarrow> int \<Rightarrow> int \<Rightarrow> (nat \<times> nat) option" where
  "byte_range sql start stop =
     (if start < 0 \<or> stop < start \<or> stop \<ge> int (length (rune_to_byte sql)) then None
      else
        let startByte = rune_to_byte sql ! nat start; endByte = rune_to_byte sql ! nat stop
        in if endByte \<ge> startByte \<and> endByte \<le> length sql then Some (startByte, endByte) else None)"

definition decode_raw_token_text :: "raw_token \<Rightarrow> gostring \<Rightarrow> engine_error + raw_token" where
  "decode_raw_token_text tok raw =
     (if backslash \<notin> set raw then Inr tok
      else if tk_type tok = ''QUOTED_IDENTIFIER'' then
        (case decode_quoted_identifier raw of
           (decoded, DecodedRejected) \<Rightarrow> Inl (NotAName raw)
         | (decoded, DecodedExact) \<Rightarrow> Inr (tok\<lparr>tk_text := decoded\<rparr>)
         | _ \<Rightarrow> Inr tok)
      else if tk_type tok = ''STRING'' then
        (case decode_quoted_string raw of
           (decoded, DecodedExact) \<Rightarrow> Inr (tok\<lparr>tk_text := decoded\<rparr>)
         | _ \<Rightarrow> Inr tok)
      else Inr tok)"

definition normalize_token :: "gostring \<Rightarrow> wire_token \<Rightarrow> engine_error + raw_token" where
  "normalize_token sql w =
     (case byte_range sql (wt_start w) (wt_end w) of
        None \<Rightarrow> Inl (InvalidTokenSpan (wt_start w) (wt_end w) (characters sql))
      | Some (start, stop) \<Rightarrow>
          (let src = substring start stop sql
           in decode_raw_token_text
                \<lparr>tk_type = wt_type w, tk_text = wt_text w, tk_start = start, tk_end = stop,
                 tk_source = src\<rparr> src))"

fun normalize_tokens :: "gostring \<Rightarrow> wire_token list \<Rightarrow> engine_error + raw_token list" where
  "normalize_tokens sql [] = Inr []"
| "normalize_tokens sql (w # ws) =
     (case normalize_token sql w of
        Inl e \<Rightarrow> Inl e
      | Inr tk \<Rightarrow> map_sum id ((#) tk) (normalize_tokens sql ws))"

definition tokenize_raw :: "engine \<Rightarrow> gostring \<Rightarrow> engine_error + raw_token list" where
  "tokenize_raw e sql =
     (case e_tokenize e sql of
        Inl err \<Rightarrow> Inl err
      | Inr ws \<Rightarrow> normalize_tokens sql ws)"

definition string_like_token_type :: "gostring \<Rightarrow> bool" where
  "string_like_token_type tt \<longleftrightarrow>
     tt \<in> {''STRING'', ''QUOTED_IDENTIFIER'', ''DOLLAR_STRING'', ''HEREDOC_STRING'',
           ''HEREDOC_STRING_ALTERNATIVE''}"

fun hash_glued :: "raw_token list \<Rightarrow> engine_error option" where
  "hash_glued [] = None"
| "hash_glued (tk # tks) =
     (if string_like_token_type (tk_type tk) then hash_glued tks
      else if CHR ''#'' \<in> set (tk_text tk) then Some (HashGlued (tk_text tk))
      else hash_glued tks)"

definition reject_hash_glued_tokens :: "raw_token list \<Rightarrow> nat \<Rightarrow> engine_error option" where
  "reject_hash_glued_tokens toks limit = hash_glued (take limit toks)"

definition is_name_tok :: "gostring \<Rightarrow> bool" where
  "is_name_tok tt \<longleftrightarrow> tt = ''VAR'' \<or> tt = ''QUOTED_IDENTIFIER''"

definition token_text_is :: "raw_token \<Rightarrow> gostring \<Rightarrow> bool" where
  "token_text_is tok want \<longleftrightarrow> equal_fold (tk_text tok) want"

end
