(* ===== verification/Drop_Grammar.thy ===== *)
theory Drop_Grammar
  imports Engine_Tokens
begin

text \<open>
  \<open>drop_grammar.go\<close>: the token grammar of a plain \<open>DROP TABLE\<close>, with the qualified-name consumer of
  \<open>mutation_reads.go\<close>. A position in the token slice is the list of the tokens from there on. The
  grammar proper is stated here too, and the scanner is proved to recognise exactly it.
\<close>

section \<open>The scanner\<close>

definition consume_mutation_qualified_name :: "raw_token list \<Rightarrow> raw_token list option" where
  "consume_mutation_qualified_name ts =
     (case ts of
        [] \<Rightarrow> None
      | t # ts1 \<Rightarrow>
          if \<not> is_name_tok (tk_type t) then None
          else
            let rest = (case ts1 of
                          d # n # ts2 \<Rightarrow>
                            if tk_type d = ''DOT'' \<and> is_name_tok (tk_type n) then ts2 else ts1
                        | _ \<Rightarrow> ts1)
            in case rest of
                 d # _ \<Rightarrow> if tk_type d = ''DOT'' then None else Some rest
               | [] \<Rightarrow> Some rest)"

lemma consume_shorter:
  "consume_mutation_qualified_name ts = Some rest \<Longrightarrow> length rest < length ts"
  by (auto simp: consume_mutation_qualified_name_def Let_def split: list.splits if_splits)

text \<open>The loop over the names of the statement.\<close>

function drop_names :: "raw_token list \<Rightarrow> raw_token list option" where
  "drop_names ts =
     (case consume_mutation_qualified_name ts of
        None \<Rightarrow> None
      | Some [] \<Rightarrow> Some []
      | Some (c # rest) \<Rightarrow> if tk_type c = ''COMMA'' then drop_names rest else Some (c # rest))"
  by pat_completeness auto
termination
  by (relation "measure length") (auto dest: consume_shorter)

declare drop_names.simps [simp del]

definition drop_tail :: "raw_token list \<Rightarrow> bool" where
  "drop_tail ts \<longleftrightarrow>
     (case ts of
        [] \<Rightarrow> True
      | [a] \<Rightarrow> tk_type a = ''VAR'' \<and> token_text_is a ''SYNC''
      | [a, b] \<Rightarrow> token_text_is a ''NO'' \<and> tk_type b = ''VAR'' \<and> token_text_is b ''DELAY''
      | _ \<Rightarrow> False)"

definition skip_if_exists_drop :: "raw_token list \<Rightarrow> raw_token list" where
  "skip_if_exists_drop ts =
     (case ts of
        a # b # rest \<Rightarrow> if tk_type a = ''IF'' \<and> token_text_is b ''EXISTS'' then rest else ts
      | _ \<Rightarrow> ts)"

definition plain_drop_tokens :: "raw_token list \<Rightarrow> bool" where
  "plain_drop_tokens toks0 =
     (let toks = (if toks0 \<noteq> [] \<and> tk_type (last toks0) = ''SEMICOLON'' then butlast toks0 else toks0)
      in if length toks < 3 \<or> \<not> token_text_is (toks ! 0) ''DROP'' \<or> \<not> token_text_is (toks ! 1) ''TABLE''
            \<or> tk_type (toks ! 1) \<noteq> ''TABLE'' then False
         else case drop_names (skip_if_exists_drop (drop 2 toks)) of
                None \<Rightarrow> False
              | Some rest \<Rightarrow> drop_tail rest)"

definition plain_drop_table :: "engine \<Rightarrow> gostring \<Rightarrow> engine_error + bool" where
  "plain_drop_table e sql = map_sum id plain_drop_tokens (tokenize_raw e sql)"

section \<open>Comma-separated lists\<close>

text \<open>One or more items, separated by commas.\<close>

inductive comma_separated :: "(raw_token list \<Rightarrow> bool) \<Rightarrow> raw_token list \<Rightarrow> bool" for item where
  comma_one: "item ts \<Longrightarrow> comma_separated item ts"
| comma_more: "item ts \<Longrightarrow> tk_type c = ''COMMA'' \<Longrightarrow> comma_separated item us \<Longrightarrow>
    comma_separated item (ts @ c # us)"

text \<open>
  The shape of the engine's list loops: \<open>parse\<close> consumes one item, and \<open>loop\<close> goes on while a comma
  follows. \<open>stop\<close> says which rests may follow a complete item.
\<close>

locale comma_list =
  fixes parse :: "raw_token list \<Rightarrow> raw_token list option"
    and item :: "raw_token list \<Rightarrow> bool"
    and stop :: "raw_token list \<Rightarrow> bool"
    and loop :: "raw_token list \<Rightarrow> raw_token list option"
  assumes parse_sound: "parse ts = Some rest \<Longrightarrow> \<exists>used. ts = used @ rest \<and> item used \<and> stop rest"
    and parse_complete: "item used \<Longrightarrow> stop rest \<Longrightarrow> parse (used @ rest) = Some rest"
    and comma_stops: "tk_type c = ''COMMA'' \<Longrightarrow> stop (c # rest)"
    and item_nonempty: "item used \<Longrightarrow> used \<noteq> []"
    and loop_eq: "loop ts =
      (case parse ts of
         None \<Rightarrow> None
       | Some [] \<Rightarrow> Some []
       | Some (c # rest) \<Rightarrow> if tk_type c = ''COMMA'' then loop rest else Some (c # rest))"
begin

definition no_comma :: "raw_token list \<Rightarrow> bool" where
  "no_comma rest \<longleftrightarrow> (rest = [] \<or> tk_type (hd rest) \<noteq> ''COMMA'')"

lemma loop_sound:
  "loop ts = Some rest \<Longrightarrow>
     \<exists>used. ts = used @ rest \<and> comma_separated item used \<and> stop rest \<and> no_comma rest"
proof (induction "length ts" arbitrary: ts rule: less_induct)
  case less
  obtain r where r: "parse ts = Some r"
    using less.prems by (cases "parse ts") (auto simp: loop_eq [of ts])
  obtain used where used: "ts = used @ r" "item used" "stop r" using parse_sound [OF r] by blast
  show ?case
  proof (cases "r \<noteq> [] \<and> tk_type (hd r) = ''COMMA''")
    case True
    then obtain c r' where c: "r = c # r'" "tk_type c = ''COMMA''" by (cases r) auto
    with r less.prems have "loop r' = Some rest" by (simp add: loop_eq [of ts])
    moreover have "length r' < length ts" using used c by simp
    ultimately obtain more where "r' = more @ rest" "comma_separated item more" "stop rest" "no_comma rest"
      using less.hyps by blast
    with used c show ?thesis by (intro exI [of _ "used @ c # more"]) (auto intro: comma_more)
  next
    case False
    with r less.prems have "rest = r" by (cases r) (auto simp: loop_eq [of ts])
    with used False show ?thesis
      by (intro exI [of _ used]) (auto simp: no_comma_def intro: comma_one)
  qed
qed

lemma loop_complete:
  "comma_separated item used \<Longrightarrow> stop rest \<Longrightarrow> no_comma rest \<Longrightarrow> loop (used @ rest) = Some rest"
proof (induction used rule: comma_separated.induct)
  case (comma_one ts)
  then show ?case
    using parse_complete [of ts rest] loop_eq [of "ts @ rest"]
    by (cases rest) (auto simp: no_comma_def)
next
  case (comma_more ts c us)
  have "parse (ts @ c # us @ rest) = Some (c # us @ rest)"
    using comma_more.hyps by (intro parse_complete comma_stops)
  with comma_more show ?case using loop_eq [of "ts @ c # us @ rest"] by simp
qed

lemma loop_iff:
  "loop ts = Some rest \<longleftrightarrow>
     (\<exists>used. ts = used @ rest \<and> comma_separated item used) \<and> stop rest \<and> no_comma rest"
  using loop_sound loop_complete by blast

lemma loop_shorter: "loop ts = Some rest \<Longrightarrow> length rest < length ts"
proof -
  assume "loop ts = Some rest"
  then obtain used where "ts = used @ rest" "comma_separated item used" using loop_sound by blast
  moreover from this(2) have "used \<noteq> []"
    by (induction used) (use item_nonempty in auto)
  ultimately show ?thesis by simp
qed

end

section \<open>The grammar of a plain drop\<close>

text \<open>\<open>table\<close> or \<open>database.table\<close>; no dot may follow.\<close>

definition name_run :: "raw_token list \<Rightarrow> bool" where
  "name_run ts \<longleftrightarrow>
     (\<exists>t. ts = [t] \<and> is_name_tok (tk_type t)) \<or>
     (\<exists>a d b. ts = [a, d, b] \<and> is_name_tok (tk_type a) \<and> tk_type d = ''DOT'' \<and> is_name_tok (tk_type b))"

definition no_dot :: "raw_token list \<Rightarrow> bool" where
  "no_dot rest \<longleftrightarrow> rest = [] \<or> tk_type (hd rest) \<noteq> ''DOT''"

lemma consume_sound:
  assumes "consume_mutation_qualified_name ts = Some rest"
  shows "\<exists>used. ts = used @ rest \<and> name_run used \<and> no_dot rest"
proof -
  obtain t ts1 where ts: "ts = t # ts1" "is_name_tok (tk_type t)"
    using assms by (auto simp: consume_mutation_qualified_name_def split: list.splits if_splits)
  show ?thesis
  proof (cases "\<exists>d n ts2. ts1 = d # n # ts2 \<and> tk_type d = ''DOT'' \<and> is_name_tok (tk_type n)")
    case True
    then obtain d n ts2 where "ts1 = d # n # ts2" "tk_type d = ''DOT''" "is_name_tok (tk_type n)"
      by blast
    with assms ts show ?thesis
      by (intro exI [of _ "[t, d, n]"])
        (auto simp: consume_mutation_qualified_name_def name_run_def no_dot_def
          split: list.splits if_splits)
  next
    case False
    with assms ts have "rest = ts1 \<and> no_dot rest"
      by (auto simp: consume_mutation_qualified_name_def no_dot_def split: list.splits if_splits)
    then have "ts = [t] @ rest \<and> name_run [t] \<and> no_dot rest" using ts by (auto simp: name_run_def)
    then show ?thesis by blast
  qed
qed

lemma consume_complete:
  assumes "name_run used" "no_dot rest"
  shows "consume_mutation_qualified_name (used @ rest) = Some rest"
proof -
  have stop: "(case rest of d # _ \<Rightarrow> if tk_type d = ''DOT'' then None else Some rest | [] \<Rightarrow> Some rest)
      = Some rest"
    using assms(2) by (cases rest) (simp_all add: no_dot_def)
  consider (single) t where "used = [t]" "is_name_tok (tk_type t)"
    | (dotted) a d b where "used = [a, d, b]" "is_name_tok (tk_type a)" "tk_type d = ''DOT''"
        "is_name_tok (tk_type b)"
    using assms(1) unfolding name_run_def by blast
  then show ?thesis
  proof cases
    case single
    have "(case rest of d # n # ts2 \<Rightarrow>
        if tk_type d = ''DOT'' \<and> is_name_tok (tk_type n) then ts2 else rest | _ \<Rightarrow> rest) = rest"
      using assms(2) by (cases rest; cases "tl rest") (simp_all add: no_dot_def)
    with single stop show ?thesis by (simp add: consume_mutation_qualified_name_def)
  next
    case dotted
    with stop show ?thesis by (simp add: consume_mutation_qualified_name_def)
  qed
qed

interpretation dn: comma_list consume_mutation_qualified_name name_run no_dot drop_names
proof
  show "\<exists>used. ts = used @ rest \<and> name_run used \<and> no_dot rest"
    if "consume_mutation_qualified_name ts = Some rest" for ts rest
    using that by (rule consume_sound)
  show "consume_mutation_qualified_name (used @ rest) = Some rest"
    if "name_run used" "no_dot rest" for used rest
    using that by (rule consume_complete)
  show "no_dot (c # rest)" if "tk_type c = ''COMMA''" for c rest
    using that by (simp add: no_dot_def)
  show "used \<noteq> []" if "name_run used" for used
    using that by (auto simp: name_run_def)
qed (rule drop_names.simps)

definition drop_head :: "raw_token list \<Rightarrow> bool" where
  "drop_head ts \<longleftrightarrow>
     (\<exists>a b. token_text_is a ''DROP'' \<and> token_text_is b ''TABLE'' \<and> tk_type b = ''TABLE'' \<and>
        (ts = [a, b] \<or> (\<exists>c d. ts = [a, b, c, d] \<and> tk_type c = ''IF'' \<and> token_text_is d ''EXISTS'')))"

definition semicolon_opt :: "raw_token list \<Rightarrow> bool" where
  "semicolon_opt ts \<longleftrightarrow> ts = [] \<or> (\<exists>s. ts = [s] \<and> tk_type s = ''SEMICOLON'')"

lemma name_run_last: "name_run ts \<Longrightarrow> is_name_tok (tk_type (last ts)) \<and> ts \<noteq> []"
  by (auto simp: name_run_def)

lemma comma_separated_last:
  "comma_separated name_run ts \<Longrightarrow> is_name_tok (tk_type (last ts)) \<and> ts \<noteq> []"
  by (induction ts rule: comma_separated.induct) (use name_run_last in auto)

lemma comma_separated_hd:
  "comma_separated name_run ts \<Longrightarrow> is_name_tok (tk_type (hd ts)) \<and> ts \<noteq> []"
  by (induction ts rule: comma_separated.induct) (auto simp: name_run_def)

text \<open>The end of the statement; a token of type DOT or COMMA would belong to the names.\<close>

definition plain_tail :: "raw_token list \<Rightarrow> bool" where
  "plain_tail ts \<longleftrightarrow>
     ts = [] \<or>
     (\<exists>a. ts = [a] \<and> tk_type a = ''VAR'' \<and> token_text_is a ''SYNC'') \<or>
     (\<exists>a b. ts = [a, b] \<and> token_text_is a ''NO'' \<and> tk_type a \<notin> {''DOT'', ''COMMA''} \<and>
        tk_type b = ''VAR'' \<and> token_text_is b ''DELAY'')"

lemma plain_tail_scanned: "plain_tail ts \<longleftrightarrow> drop_tail ts \<and> no_dot ts \<and> dn.no_comma ts"
  by (auto simp: plain_tail_def drop_tail_def no_dot_def dn.no_comma_def split: list.splits)

lemma plain_names_iff:
  "(case drop_names ts of None \<Rightarrow> False | Some rest \<Rightarrow> drop_tail rest) \<longleftrightarrow>
     (\<exists>names tail. ts = names @ tail \<and> comma_separated name_run names \<and> plain_tail tail)"
    (is "?scan \<longleftrightarrow> ?grammar")
proof
  assume ?scan
  then obtain rest where "drop_names ts = Some rest" "drop_tail rest"
    by (auto split: option.splits)
  then show ?grammar using dn.loop_sound [of ts rest] by (auto simp: plain_tail_scanned)
next
  assume ?grammar
  then obtain names tail where "ts = names @ tail" "comma_separated name_run names"
    "drop_tail tail" "no_dot tail" "dn.no_comma tail" by (auto simp: plain_tail_scanned)
  then show ?scan using dn.loop_complete [of names tail] by simp
qed

lemma plain_last:
  assumes "comma_separated name_run names" "plain_tail tail"
  shows "tk_type (last (names @ tail)) \<noteq> ''SEMICOLON''"
proof (cases tail rule: rev_cases)
  case Nil
  then show ?thesis using comma_separated_last [OF assms(1)] by (auto simp: is_name_tok_def)
next
  case (snoc xs x)
  with assms(2) have "tk_type x = ''VAR''"
    by (auto simp: plain_tail_def split: list.splits)
  with snoc show ?thesis by simp
qed

lemma skip_if_exists_names:
  assumes "comma_separated name_run names" shows "skip_if_exists_drop (names @ tail) = names @ tail"
proof -
  obtain t ts where "names = t # ts" "is_name_tok (tk_type t)"
    using comma_separated_hd [OF assms] by (cases names) auto
  then show ?thesis by (auto simp: skip_if_exists_drop_def is_name_tok_def split: list.splits)
qed

lemma drop_head_names:
  assumes "drop_head pre" "comma_separated name_run names"
  shows "\<exists>a b. token_text_is a ''DROP'' \<and> token_text_is b ''TABLE'' \<and> tk_type b = ''TABLE'' \<and>
    take 2 (pre @ names @ tail) = [a, b] \<and> skip_if_exists_drop (drop 2 (pre @ names @ tail)) = names @ tail"
proof -
  obtain a b where ab: "token_text_is a ''DROP''" "token_text_is b ''TABLE''" "tk_type b = ''TABLE''"
    "pre = [a, b] \<or> (\<exists>c d. pre = [a, b, c, d] \<and> tk_type c = ''IF'' \<and> token_text_is d ''EXISTS'')"
    using assms(1) by (auto simp: drop_head_def)
  have "skip_if_exists_drop (c # d # names @ tail) = names @ tail"
    if "tk_type c = ''IF''" "token_text_is d ''EXISTS''" for c d
    using that by (simp add: skip_if_exists_drop_def)
  with ab skip_if_exists_names [OF assms(2), of tail]
  have "take 2 (pre @ names @ tail) = [a, b] \<and>
      skip_if_exists_drop (drop 2 (pre @ names @ tail)) = names @ tail"
    by (elim disjE exE conjE) simp_all
  with ab(1-3) show ?thesis by blast
qed

text \<open>The core of the scan, on a statement without its final semicolon.\<close>

lemma plain_core_iff:
  "length toks \<ge> 3 \<and> token_text_is (toks ! 0) ''DROP'' \<and> token_text_is (toks ! 1) ''TABLE'' \<and>
   tk_type (toks ! 1) = ''TABLE'' \<and>
   (case drop_names (skip_if_exists_drop (drop 2 toks)) of None \<Rightarrow> False | Some rest \<Rightarrow> drop_tail rest) \<longleftrightarrow>
   (\<exists>pre names tail. toks = pre @ names @ tail \<and> drop_head pre \<and>
      comma_separated name_run names \<and> plain_tail tail)" (is "?scan \<longleftrightarrow> ?grammar")
proof
  assume scan: ?scan
  then obtain a b ts where toks: "toks = a # b # ts"
    by (cases toks; cases "tl toks") auto
  with scan obtain names tail where nt: "skip_if_exists_drop ts = names @ tail"
    "comma_separated name_run names" "plain_tail tail"
    by (auto simp: plain_names_iff)
  have ab: "token_text_is a ''DROP''" "token_text_is b ''TABLE''" "tk_type b = ''TABLE''"
    using scan toks by simp_all
  show ?grammar
  proof (cases "\<exists>c d rest. ts = c # d # rest \<and> tk_type c = ''IF'' \<and> token_text_is d ''EXISTS''")
    case True
    then obtain c d rest where "ts = c # d # rest" "tk_type c = ''IF''" "token_text_is d ''EXISTS''"
      by blast
    with nt toks ab show ?thesis
      by (intro exI [of _ "[a, b, c, d]"] exI [of _ names] exI [of _ tail])
        (simp add: skip_if_exists_drop_def drop_head_def)
  next
    case False
    then have "skip_if_exists_drop ts = ts" by (auto simp: skip_if_exists_drop_def split: list.splits)
    with nt toks ab show ?thesis
      by (intro exI [of _ "[a, b]"] exI [of _ names] exI [of _ tail]) (auto simp: drop_head_def)
  qed
next
  assume ?grammar
  then obtain pre names tail where g: "toks = pre @ names @ tail" "drop_head pre"
    "comma_separated name_run names" "plain_tail tail" by blast
  obtain a b where ab: "token_text_is a ''DROP''" "token_text_is b ''TABLE''" "tk_type b = ''TABLE''"
    "take 2 toks = [a, b]" "skip_if_exists_drop (drop 2 toks) = names @ tail"
    using drop_head_names [OF g(2,3)] g(1) by blast
  from ab(4) obtain ts where ts: "toks = a # b # ts" by (cases toks; cases "tl toks") auto
  have "length pre \<ge> 2" "names \<noteq> []"
    using g(2) comma_separated_hd [OF g(3)] by (auto simp: drop_head_def)
  then have "length toks \<ge> 3" unfolding g(1) by (cases names) auto
  with ab ts g show ?scan using plain_names_iff [of "names @ tail"] by auto
qed

text \<open>
  C27. The storage-integrity drop gate accepts exactly the statements of the grammar
  \<open>DROP TABLE [IF EXISTS] name [, name ...] [SYNC | NO DELAY] [;]\<close>, each name \<open>table\<close> or
  \<open>database.table\<close>: no clause the AST would discard (ON CLUSTER, TEMPORARY, SETTINGS) can hide in it.
\<close>

theorem plain_drop_tokens_iff:
  "plain_drop_tokens toks \<longleftrightarrow>
     (\<exists>pre names tail semi. toks = pre @ names @ tail @ semi \<and> drop_head pre \<and>
        comma_separated name_run names \<and> plain_tail tail \<and> semicolon_opt semi)"
    (is "_ \<longleftrightarrow> ?grammar")
proof -
  let ?toks = "if toks \<noteq> [] \<and> tk_type (last toks) = ''SEMICOLON'' then butlast toks else toks"
  have guard: "(if (n::nat) < 3 \<or> \<not> a \<or> \<not> b \<or> t \<noteq> (u::gostring) then False else X) \<longleftrightarrow>
      n \<ge> 3 \<and> a \<and> b \<and> t = u \<and> X" for n a b t u X by auto
  have "plain_drop_tokens toks \<longleftrightarrow>
      (\<exists>pre names tail. ?toks = pre @ names @ tail \<and> drop_head pre \<and>
         comma_separated name_run names \<and> plain_tail tail)"
    unfolding plain_drop_tokens_def Let_def guard by (rule plain_core_iff)
  also have "\<dots> \<longleftrightarrow> ?grammar"
  proof
    assume "\<exists>pre names tail. ?toks = pre @ names @ tail \<and> drop_head pre \<and>
         comma_separated name_run names \<and> plain_tail tail"
    then obtain pre names tail where g: "?toks = pre @ names @ tail" "drop_head pre"
      "comma_separated name_run names" "plain_tail tail" by blast
    obtain semi where "toks = ?toks @ semi" "semicolon_opt semi"
    proof (cases "toks \<noteq> [] \<and> tk_type (last toks) = ''SEMICOLON''")
      case True
      then show ?thesis
        by (intro that [of "[last toks]"]) (simp_all add: semicolon_opt_def)
    next
      case False
      then show ?thesis by (intro that [of "[]"]) (auto simp: semicolon_opt_def)
    qed
    with g(1) have "toks = pre @ names @ tail @ semi" by simp
    with g \<open>semicolon_opt semi\<close> show ?grammar by blast
  next
    assume ?grammar
    then obtain pre names tail semi where g: "toks = pre @ names @ tail @ semi" "drop_head pre"
      "comma_separated name_run names" "plain_tail tail" "semicolon_opt semi" by blast
    have "names @ tail \<noteq> []" using comma_separated_hd [OF g(3)] by simp
    then have "tk_type (last (pre @ names @ tail)) \<noteq> ''SEMICOLON''"
      using plain_last [OF g(3,4)] by simp
    moreover have "toks = pre @ names @ tail \<or>
        (\<exists>s. toks = (pre @ names @ tail) @ [s] \<and> tk_type s = ''SEMICOLON'')"
      using g(1,5) by (auto simp: semicolon_opt_def)
    ultimately have "?toks = pre @ names @ tail"
    proof (elim disjE exE conjE)
      fix s assume "toks = (pre @ names @ tail) @ [s]" "tk_type s = ''SEMICOLON''"
      then show "?toks = pre @ names @ tail" by (simp only: last_snoc butlast_snoc) simp
    qed simp
    with g show "\<exists>pre names tail. ?toks = pre @ names @ tail \<and> drop_head pre \<and>
         comma_separated name_run names \<and> plain_tail tail" by blast
  qed
  finally show ?thesis .
qed

end
