(* ===== verification/Engine_Tokens_Facts.thy ===== *)
theory Engine_Tokens_Facts
  imports Engine_Tokens
begin

text \<open>
  The token stream the consumers see: spans are byte ranges of the statement on rune boundaries, in
  the order the engine gave them, and a token's source is the text of its span.
\<close>

section \<open>The rune table\<close>

lemma rune_to_byte_sorted: "sorted_wrt (<) (rune_offsets sql) \<and> (\<forall>j \<in> set (rune_offsets sql). j < length sql)"
  using rune_offsets_from_bounds [of 0 sql] by (simp add: rune_offsets_def)

lemma rune_to_byte_strict: "sorted_wrt (<) (rune_to_byte sql)"
  using rune_to_byte_sorted [of sql] by (simp add: rune_to_byte_def sorted_wrt_append)

lemma rune_to_byte_mono:
  assumes "i \<le> j" "j < length (rune_to_byte sql)"
  shows "rune_to_byte sql ! i \<le> rune_to_byte sql ! j"
proof (cases "i = j")
  case False
  with assms have "rune_to_byte sql ! i < rune_to_byte sql ! j"
    by (intro sorted_wrt_nth_less [OF rune_to_byte_strict]) simp_all
  then show ?thesis by simp
qed simp

lemma rune_to_byte_le: "i < length (rune_to_byte sql) \<Longrightarrow> rune_to_byte sql ! i \<le> length sql"
  using rune_to_byte_mono [of i "length (rune_to_byte sql) - 1" sql]
  by (simp add: rune_to_byte_def nth_append)

text \<open>Every span with \<open>0 \<le> start \<le> stop \<le> characters\<close> translates, and only those.\<close>

lemma byte_range_eq:
  "byte_range sql start stop =
     (if 0 \<le> start \<and> start \<le> stop \<and> stop \<le> int (characters sql)
      then Some (rune_to_byte sql ! nat start, rune_to_byte sql ! nat stop) else None)"
proof -
  have len: "int (characters sql) = int (length (rune_to_byte sql)) - 1"
    by (simp add: characters_def rune_to_byte_def)
  show ?thesis
  proof (cases "0 \<le> start \<and> start \<le> stop \<and> stop \<le> int (characters sql)")
    case True
    then have "nat start \<le> nat stop" "nat stop < length (rune_to_byte sql)" using len by auto
    then have "rune_to_byte sql ! nat start \<le> rune_to_byte sql ! nat stop"
      "rune_to_byte sql ! nat stop \<le> length sql"
      by (simp_all add: rune_to_byte_mono rune_to_byte_le)
    with True len show ?thesis by (auto simp: byte_range_def Let_def)
  next
    case False
    with len show ?thesis by (auto simp: byte_range_def)
  qed
qed

section \<open>Tokens\<close>

definition token_wf :: "gostring \<Rightarrow> raw_token \<Rightarrow> bool" where
  "token_wf sql tk \<longleftrightarrow>
     tk_start tk \<le> tk_end tk \<and> tk_end tk \<le> length sql \<and>
     tk_start tk \<in> set (rune_to_byte sql) \<and> tk_end tk \<in> set (rune_to_byte sql) \<and>
     tk_source tk = substring (tk_start tk) (tk_end tk) sql"

definition tokens_ordered :: "raw_token list \<Rightarrow> bool" where
  "tokens_ordered toks \<longleftrightarrow> sorted_wrt (\<lambda>a b. tk_end a \<le> tk_start b) toks"

definition wire_ordered :: "wire_token list \<Rightarrow> bool" where
  "wire_ordered ws \<longleftrightarrow> sorted_wrt (\<lambda>a b. wt_end a \<le> wt_start b) ws"

lemma decode_raw_token_text_span:
  "decode_raw_token_text tok raw = Inr tk \<Longrightarrow>
     tk_start tk = tk_start tok \<and> tk_end tk = tk_end tok \<and> tk_source tk = tk_source tok \<and>
     tk_type tk = tk_type tok"
  by (auto simp: decode_raw_token_text_def split: if_splits prod.splits quoted_decode.splits)

lemma normalize_token_Inr:
  assumes "normalize_token sql w = Inr tk"
  shows "0 \<le> wt_start w" "wt_start w \<le> wt_end w" "wt_end w \<le> int (characters sql)"
    and "tk_start tk = rune_to_byte sql ! nat (wt_start w)"
    and "tk_end tk = rune_to_byte sql ! nat (wt_end w)"
    and "tk_source tk = substring (tk_start tk) (tk_end tk) sql"
    and "tk_type tk = wt_type w"
proof -
  obtain start stop where range: "byte_range sql (wt_start w) (wt_end w) = Some (start, stop)"
    using assms by (cases "byte_range sql (wt_start w) (wt_end w)") (auto simp: normalize_token_def)
  from range show "0 \<le> wt_start w" "wt_start w \<le> wt_end w" "wt_end w \<le> int (characters sql)"
    by (auto simp: byte_range_eq split: if_splits)
  from range have pos: "start = rune_to_byte sql ! nat (wt_start w)"
    "stop = rune_to_byte sql ! nat (wt_end w)"
    by (auto simp: byte_range_eq split: if_splits)
  have "decode_raw_token_text \<lparr>tk_type = wt_type w, tk_text = wt_text w, tk_start = start,
      tk_end = stop, tk_source = substring start stop sql\<rparr> (substring start stop sql) = Inr tk"
    using assms range unfolding normalize_token_def Let_def by simp
  from decode_raw_token_text_span [OF this] pos
  show "tk_start tk = rune_to_byte sql ! nat (wt_start w)"
    "tk_end tk = rune_to_byte sql ! nat (wt_end w)"
    "tk_source tk = substring (tk_start tk) (tk_end tk) sql" "tk_type tk = wt_type w"
    by simp_all
qed

lemma normalize_token_wf:
  assumes "normalize_token sql w = Inr tk" shows "token_wf sql tk"
proof -
  note facts = normalize_token_Inr [OF assms]
  have bounds: "nat (wt_start w) \<le> nat (wt_end w)" "nat (wt_end w) < length (rune_to_byte sql)"
    using facts(1-3) by (auto simp: characters_def rune_to_byte_def)
  then show ?thesis
    unfolding token_wf_def facts(4-6)
    by (auto simp: rune_to_byte_mono rune_to_byte_le)
qed

lemma normalize_tokens_Inr:
  "normalize_tokens sql ws = Inr toks \<longleftrightarrow> list_all2 (\<lambda>w tk. normalize_token sql w = Inr tk) ws toks"
proof (induction ws arbitrary: toks)
  case (Cons w ws)
  show ?case
  proof (cases "normalize_token sql w")
    case (Inr tk)
    then show ?thesis
      using Cons.IH by (cases "normalize_tokens sql ws") (auto simp: list_all2_Cons1)
  qed (simp add: list_all2_Cons1)
qed auto

lemma tokenize_raw_wf:
  assumes "tokenize_raw e sql = Inr toks" shows "\<forall>tk \<in> set toks. token_wf sql tk"
proof -
  obtain ws where ws: "e_tokenize e sql = Inr ws" "normalize_tokens sql ws = Inr toks"
    using assms by (auto simp: tokenize_raw_def split: sum.splits)
  then have "list_all2 (\<lambda>w tk. normalize_token sql w = Inr tk) ws toks"
    by (simp add: normalize_tokens_Inr)
  then show ?thesis
    by (induction ws toks rule: list_all2_induct) (simp_all add: normalize_token_wf)
qed

lemma normalize_tokens_ordered:
  assumes "list_all2 (\<lambda>w tk. normalize_token sql w = Inr tk) ws toks" and "wire_ordered ws"
  shows "tokens_ordered toks"
  using assms unfolding wire_ordered_def tokens_ordered_def
proof (induction ws toks rule: list_all2_induct)
  case (Cons w ws tk toks)
  have "tk_end tk \<le> tk_start t" if "t \<in> set toks" for t
  proof -
    from that Cons.hyps(2) obtain v where v: "v \<in> set ws" "normalize_token sql v = Inr t"
      unfolding list_all2_conv_all_nth in_set_conv_nth by metis
    with Cons.prems have le: "wt_end w \<le> wt_start v" by simp
    note a = normalize_token_Inr [OF Cons.hyps(1)] and b = normalize_token_Inr [OF v(2)]
    have "nat (wt_end w) \<le> nat (wt_start v)" "nat (wt_start v) < length (rune_to_byte sql)"
      using le b(1-3) by (auto simp: characters_def rune_to_byte_def)
    then show ?thesis unfolding a(5) b(4) by (rule rune_to_byte_mono)
  qed
  with Cons show ?case by simp
qed simp

text \<open>
  C30. Tokens are slices of the statement: every token's span lies in the statement on rune boundaries,
  its source is the text of its span, and tokens that do not overlap in scalar values do not overlap
  in bytes, whatever multi-byte or invalid text stands between them.
\<close>

theorem tokenize_raw_spans:
  assumes "tokenize_raw e sql = Inr toks"
  shows "(\<forall>tk \<in> set toks. token_wf sql tk) \<and>
         (\<forall>ws. e_tokenize e sql = Inr ws \<longrightarrow> wire_ordered ws \<longrightarrow> tokens_ordered toks)"
  using assms tokenize_raw_wf [OF assms] normalize_tokens_ordered
  by (auto simp: tokenize_raw_def normalize_tokens_Inr)

text \<open>Tokenizing \<open>caf\'e, x\<close>: the scalar span [6,7) of the last token is the byte span [7,8).\<close>

definition accent_sql :: gostring where
  "accent_sql = ''caf'' @ [CHR 0xC3, CHR 0xA9] @ '', x''"

definition accent_engine :: engine where
  "accent_engine =
     \<lparr>e_tokenize = (\<lambda>_. Inr
        [\<lparr>wt_type = ''VAR'', wt_text = ''caf'' @ [CHR 0xC3, CHR 0xA9], wt_start = 0, wt_end = 4\<rparr>,
         \<lparr>wt_type = ''COMMA'', wt_text = '','', wt_start = 4, wt_end = 5\<rparr>,
         \<lparr>wt_type = ''VAR'', wt_text = ''x'', wt_start = 6, wt_end = 7\<rparr>]),
      e_parse_one = (\<lambda>_. Inl (EngineError [])), e_generate = (\<lambda>_. Inl (EngineError [])),
      e_parse_generic = (\<lambda>_. Inl (EngineError []))\<rparr>"

lemma tokenize_raw_spans_witness:
  "map (\<lambda>tk. (tk_start tk, tk_end tk, tk_source tk)) (projr (tokenize_raw accent_engine accent_sql)) =
     [(0, 5, ''caf'' @ [CHR 0xC3, CHR 0xA9]), (5, 6, '',''), (7, 8, ''x'')] \<and>
   list_all (token_wf accent_sql) (projr (tokenize_raw accent_engine accent_sql))"
proof -
  have eval: "map (\<lambda>tk. (tk_start tk, tk_end tk, tk_source tk))
      (projr (tokenize_raw accent_engine accent_sql)) =
        [(0, 5, ''caf'' @ [CHR 0xC3, CHR 0xA9]), (5, 6, '',''), (7, 8, ''x'')]"
    by code_simp
  have "\<not> isl (tokenize_raw accent_engine accent_sql)" by code_simp
  then have "tokenize_raw accent_engine accent_sql = Inr (projr (tokenize_raw accent_engine accent_sql))"
    by simp
  from tokenize_raw_spans [OF this] eval show ?thesis by (simp add: list_all_iff)
qed

end
