(* ===== verification/Raw_Splice.thy ===== *)
theory Raw_Splice
  imports Engine_Tokens_Facts
begin

text \<open>
  The raw write commands of \<open>writes.go\<close>: classifying a command by its leading keywords
  (\<open>classifyWriteCommand\<close>), locating its table names in the token stream (\<open>scanTableRefs\<close>), and
  splicing the replacements the caller decided into its text (\<open>SpliceRawTables\<close>, \<open>QuoteQualified\<close>).
\<close>

section \<open>Classification\<close>

datatype command_sub = CmdNone | CmdRename | CmdExchange | CmdAlterUpdate | CmdBareReject

definition contains_word :: "gostring \<Rightarrow> gostring \<Rightarrow> bool" where
  "contains_word haystack w = list_ex (\<lambda>f. f = w) (str_fields haystack)"

definition attach_detach_objects :: "gostring list" where
  "attach_detach_objects =
     [''TABLE '', ''TEMPORARY TABLE '', ''VIEW '', ''MATERIALIZED VIEW '', ''DATABASE '', ''DICTIONARY '']"

definition attach_detach_ddl :: "gostring \<Rightarrow> gostring \<Rightarrow> bool" where
  "attach_detach_ddl upperSQL verb =
     (if \<not> has_prefix upperSQL (verb @ '' '') then False
      else let rest = trim_space (trim_prefix upperSQL verb)
           in list_ex (has_prefix rest) attach_detach_objects)"

definition classify_write_command :: "gostring \<Rightarrow> command_sub" where
  "classify_write_command sql =
     (let u = to_upper (str_join '' '' (str_fields sql))
      in if has_prefix u ''RENAME TABLE'' then CmdRename
         else if has_prefix u ''RENAME '' then CmdBareReject
         else if has_prefix u ''EXCHANGE TABLE'' then CmdExchange
         else if has_prefix u ''EXCHANGE '' then CmdBareReject
         else if has_prefix u ''ALTER TABLE'' \<and> contains_word u ''UPDATE'' then CmdAlterUpdate
         else if attach_detach_ddl u ''DETACH'' then CmdBareReject
         else if attach_detach_ddl u ''ATTACH'' then CmdBareReject
         else if has_prefix u ''DROP DICTIONARY'' then CmdBareReject
         else if has_prefix u ''OPTIMIZE'' \<or> has_prefix u ''UNDROP'' \<or> has_prefix u ''MOVE''
              \<or> has_prefix u ''BACKUP'' \<or> has_prefix u ''RESTORE'' \<or> has_prefix u ''KILL''
           then CmdBareReject
         else CmdNone)"

section \<open>Table names in the token stream\<close>

record table_target =
  tt_db :: gostring
  tt_table :: gostring
  tt_alias :: gostring

definition identity :: "table_target \<Rightarrow> table_target" where
  "identity t = \<lparr>tt_db = tt_db t, tt_table = tt_table t, tt_alias = []\<rparr>"

record table_ref_span =
  rs_target :: table_target
  rs_start :: nat
  rs_end :: nat

definition dotted_span :: "raw_token \<Rightarrow> raw_token \<Rightarrow> table_ref_span" where
  "dotted_span a b =
     \<lparr>rs_target = \<lparr>tt_db = tk_text a, tt_table = tk_text b, tt_alias = []\<rparr>,
      rs_start = tk_start a, rs_end = tk_end b\<rparr>"

definition plain_span :: "raw_token \<Rightarrow> table_ref_span" where
  "plain_span a =
     \<lparr>rs_target = \<lparr>tt_db = [], tt_table = tk_text a, tt_alias = []\<rparr>,
      rs_start = tk_start a, rs_end = tk_end a\<rparr>"

definition first_run_only :: "command_sub \<Rightarrow> bool" where
  "first_run_only sub \<longleftrightarrow> sub = CmdAlterUpdate \<or> sub = CmdBareReject"

text \<open>The name-run starting at the name token \<open>t\<close>, and the tokens after it.\<close>

definition name_span :: "raw_token \<Rightarrow> raw_token list \<Rightarrow> table_ref_span \<times> raw_token list" where
  "name_span t ts =
     (case ts of
        d # n # rest \<Rightarrow>
          if tk_type d = ''DOT'' \<and> is_name_tok (tk_type n) then (dotted_span t n, rest)
          else (plain_span t, ts)
      | _ \<Rightarrow> (plain_span t, ts))"

lemma name_span_length: "length (snd (name_span t ts)) \<le> length ts"
  by (auto simp: name_span_def split: list.splits)

function scan_runs :: "command_sub \<Rightarrow> raw_token list \<Rightarrow> table_ref_span list" where
  "scan_runs sub [] = []"
| "scan_runs sub (t # ts) =
     (if \<not> is_name_tok (tk_type t) then scan_runs sub ts
      else fst (name_span t ts)
           # (if first_run_only sub then [] else scan_runs sub (snd (name_span t ts))))"
  by pat_completeness auto
termination
  by (relation "measure (length \<circ> snd)") (auto simp: le_imp_less_Suc name_span_length)

fun after_table_keyword :: "raw_token list \<Rightarrow> raw_token list option" where
  "after_table_keyword [] = None"
| "after_table_keyword (tk # tks) =
     (if equal_fold (tk_text tk) ''TABLE'' \<or> equal_fold (tk_text tk) ''TABLES'' then Some tks
      else after_table_keyword tks)"

definition scan_table_refs :: "raw_token list \<Rightarrow> command_sub \<Rightarrow> table_ref_span list" where
  "scan_table_refs toks sub =
     (case after_table_keyword toks of None \<Rightarrow> [] | Some ts \<Rightarrow> scan_runs sub ts)"

section \<open>Reading and splicing a raw command\<close>

definition command_text :: "json option \<Rightarrow> gostring" where
  "command_text body = (case body of None \<Rightarrow> [] | Some b \<Rightarrow> json_string (field ''this'' b))"

definition raw_table_refs :: "engine \<Rightarrow> json \<Rightarrow> engine_error + table_target list \<times> command_sub" where
  "raw_table_refs e ast =
     (case body_of ast of
        Inl err \<Rightarrow> Inl err
      | Inr (_, body) \<Rightarrow>
          (let raw = command_text body; sub = classify_write_command raw
           in if sub \<notin> {CmdRename, CmdExchange, CmdAlterUpdate, CmdBareReject} then Inr ([], sub)
              else case tokenize_raw e raw of
                     Inl err \<Rightarrow> Inl err
                   | Inr toks \<Rightarrow> Inr (map rs_target (scan_table_refs toks sub), sub)))"

type_synonym decisions = "(table_target \<times> gostring) list"

definition splice_step ::
    "gostring \<Rightarrow> decisions \<Rightarrow> table_ref_span \<Rightarrow> engine_error + gostring \<Rightarrow> engine_error + gostring" where
  "splice_step raw decisions s acc =
     (case acc of
        Inl err \<Rightarrow> Inl err
      | Inr out \<Rightarrow>
          (case map_of decisions (identity (rs_target s)) of
             None \<Rightarrow> Inl (RawTargetUndecided (substring (rs_start s) (rs_end s) raw))
           | Some nv \<Rightarrow>
               if nv = [] then Inr out
               else Inr (take (rs_start s) out @ nv @ drop (rs_end s) out)))"

text \<open>The loop runs over the spans from the last to the first.\<close>

definition splice_raw_tables :: "engine \<Rightarrow> json \<Rightarrow> decisions \<Rightarrow> engine_error + gostring" where
  "splice_raw_tables e ast decisions =
     (case body_of ast of
        Inl err \<Rightarrow> Inl err
      | Inr (_, body) \<Rightarrow>
          (let raw = command_text body; sub = classify_write_command raw
           in if sub \<notin> {CmdRename, CmdExchange, CmdAlterUpdate} then Inr raw
              else case tokenize_raw e raw of
                     Inl err \<Rightarrow> Inl err
                   | Inr toks \<Rightarrow> foldr (splice_step raw decisions) (scan_table_refs toks sub) (Inr raw)))"

section \<open>Rendering a qualified name\<close>

text \<open>\<open>needsQuoting\<close>: a multi-byte rune, or an invalid byte, is none of the plain characters.\<close>

definition needs_quoting :: "gostring \<Rightarrow> bool" where
  "needs_quoting s \<longleftrightarrow>
     s = [] \<or>
     list_ex (\<lambda>i. \<not> (s ! i = CHR ''_'' \<or> is_lower_byte (s ! i) \<or> is_upper_byte (s ! i) \<or>
                     is_digit_byte (s ! i) \<and> i > 0)) [0..<length s]"

definition quote_name :: "gostring \<Rightarrow> gostring" where
  "quote_name s = (if needs_quoting s then quote_identifier_sql s else s)"

definition quote_qualified :: "gostring \<Rightarrow> gostring \<Rightarrow> gostring" where
  "quote_qualified db table =
     (if db = [] then quote_name table else quote_name db @ ''.'' @ quote_name table)"

end
