(* ===== verification/Raw_Splice_Facts.thy ===== *)
theory Raw_Splice_Facts
  imports Raw_Splice Name_Escape_Facts
begin

text \<open>
  A splice replaces the spans of the table names and nothing else, it only succeeds when every table
  name has a decision, and two different tables are never rendered as the same qualified name.
\<close>

section \<open>The spans are in order\<close>

definition spans_within :: "nat \<Rightarrow> nat \<Rightarrow> table_ref_span list \<Rightarrow> bool" where
  "spans_within lo n spans \<longleftrightarrow>
     sorted_wrt (\<lambda>a b. rs_end a \<le> rs_start b) spans \<and>
     (\<forall>s \<in> set spans. lo \<le> rs_start s \<and> rs_start s \<le> rs_end s \<and> rs_end s \<le> n)"

lemma spans_within_Cons [simp]:
  "spans_within lo n (s # spans) \<longleftrightarrow>
     lo \<le> rs_start s \<and> rs_start s \<le> rs_end s \<and> rs_end s \<le> n \<and> spans_within (rs_end s) n spans"
  by (auto simp: spans_within_def)

lemma spans_within_Nil [simp]: "spans_within lo n []"
  by (simp add: spans_within_def)

lemma spans_within_mono: "spans_within lo n spans \<Longrightarrow> lo' \<le> lo \<Longrightarrow> spans_within lo' n spans"
  by (auto simp: spans_within_def)

definition tokens_within :: "nat \<Rightarrow> nat \<Rightarrow> raw_token list \<Rightarrow> bool" where
  "tokens_within lo n toks \<longleftrightarrow>
     tokens_ordered toks \<and> (\<forall>t \<in> set toks. lo \<le> tk_start t \<and> tk_start t \<le> tk_end t \<and> tk_end t \<le> n)"

lemma tokens_within_Cons [simp]:
  "tokens_within lo n (t # ts) \<longleftrightarrow>
     lo \<le> tk_start t \<and> tk_start t \<le> tk_end t \<and> tk_end t \<le> n \<and> tokens_within (tk_end t) n ts"
  by (auto simp: tokens_within_def tokens_ordered_def)

lemma tokens_within_mono: "tokens_within lo n ts \<Longrightarrow> lo' \<le> lo \<Longrightarrow> tokens_within lo' n ts"
  by (auto simp: tokens_within_def)

lemma name_span_within:
  assumes "tokens_within lo n (t # ts)"
  shows "lo \<le> rs_start (fst (name_span t ts))"
    and "rs_start (fst (name_span t ts)) \<le> rs_end (fst (name_span t ts))"
    and "rs_end (fst (name_span t ts)) \<le> n"
    and "tokens_within (rs_end (fst (name_span t ts))) n (snd (name_span t ts))"
  using assms by (auto simp: name_span_def dotted_span_def plain_span_def split: list.splits)

lemma scan_runs_within: "tokens_within lo n ts \<Longrightarrow> spans_within lo n (scan_runs sub ts)"
proof (induction sub ts arbitrary: lo rule: scan_runs.induct)
  case (2 sub t ts)
  show ?case
  proof (cases "is_name_tok (tk_type t)")
    case True
    note here = name_span_within [OF "2.prems"]
    have "spans_within (rs_end (fst (name_span t ts))) n
        (if first_run_only sub then [] else scan_runs sub (snd (name_span t ts)))"
      using "2.IH"(2) True here(4) by simp
    with True here show ?thesis by simp
  next
    case False
    have "tokens_within lo n ts" using "2.prems" by (auto intro: tokens_within_mono)
    with "2.IH"(1) False show ?thesis by simp
  qed
qed simp

lemma after_table_keyword_within:
  "after_table_keyword toks = Some ts \<Longrightarrow> tokens_within lo n toks \<Longrightarrow> tokens_within lo n ts"
  by (induction toks arbitrary: lo) (auto split: if_splits intro: tokens_within_mono)

lemma scan_table_refs_within:
  "tokens_within 0 n toks \<Longrightarrow> spans_within 0 n (scan_table_refs toks sub)"
  by (auto simp: scan_table_refs_def split: option.splits
      dest: after_table_keyword_within intro: scan_runs_within)

section \<open>The splice in document order\<close>

definition replacement :: "gostring \<Rightarrow> decisions \<Rightarrow> table_ref_span \<Rightarrow> gostring" where
  "replacement raw decisions s =
     (case map_of decisions (identity (rs_target s)) of
        Some nv \<Rightarrow> if nv = [] then substring (rs_start s) (rs_end s) raw else nv
      | None \<Rightarrow> substring (rs_start s) (rs_end s) raw)"

text \<open>From byte \<open>p\<close> on: the text between the spans as it is, each span replaced.\<close>

fun spliced :: "gostring \<Rightarrow> decisions \<Rightarrow> nat \<Rightarrow> table_ref_span list \<Rightarrow> gostring" where
  "spliced raw decisions p [] = drop p raw"
| "spliced raw decisions p (s # spans) =
     substring p (rs_start s) raw @ replacement raw decisions s @ spliced raw decisions (rs_end s) spans"

lemma substring_append:
  assumes "a \<le> b" "b \<le> c"
  shows "substring a b s @ substring b c s = substring a c s"
proof -
  have "drop b s = drop (b - a) (drop a s)" using assms by simp
  moreover have "c - b = (c - a) - (b - a)" using assms by simp
  ultimately show ?thesis
    using take_add [of "b - a" "c - b" "drop a s"] assms by (simp add: substring_def)
qed

lemma substring_drop: "a \<le> b \<Longrightarrow> substring a b s @ drop b s = drop a s"
  using append_take_drop_id [of "b - a" "drop a s"] by (simp add: substring_def)

lemma spliced_shift:
  assumes "spans_within q n spans" "p \<le> q"
  shows "substring p q raw @ spliced raw decisions q spans = spliced raw decisions p spans"
  using assms by (cases spans) (simp_all add: substring_drop substring_append flip: append_assoc)

lemma take_spliced:
  "p \<le> length raw \<Longrightarrow> take p (take p raw @ rest) = take p raw"
  by simp

lemma splice_step_Some:
  "map_of decisions (identity (rs_target s)) = Some nv \<Longrightarrow>
     splice_step raw decisions s (Inr out) =
       Inr (if nv = [] then out else take (rs_start s) out @ nv @ drop (rs_end s) out)"
  by (simp add: splice_step_def)

lemma splice_foldr:
  assumes "spans_within p (length raw) spans" "p \<le> length raw"
    and "\<forall>s \<in> set spans. map_of decisions (identity (rs_target s)) \<noteq> None"
  shows "foldr (splice_step raw decisions) spans (Inr raw) = Inr (take p raw @ spliced raw decisions p spans)"
  using assms
proof (induction spans arbitrary: p)
  case (Cons s spans)
  let ?a = "rs_start s" and ?b = "rs_end s"
  have ab: "p \<le> ?a" "?a \<le> ?b" "?b \<le> length raw" using Cons.prems by auto
  have IH: "foldr (splice_step raw decisions) spans (Inr raw) =
      Inr (take ?b raw @ spliced raw decisions ?b spans)"
    using Cons.prems ab by (intro Cons.IH) auto
  obtain nv where nv: "map_of decisions (identity (rs_target s)) = Some nv" using Cons.prems(3) by auto
  have head: "take p raw @ substring p ?a raw = take ?a raw"
    using substring_append [of 0 p ?a raw] ab by (simp add: substring_def)
  have kept: "take ?b raw = take ?a raw @ substring ?a ?b raw"
    using substring_append [of 0 ?a ?b raw] ab by (simp add: substring_def)
  show ?case
  proof (cases "nv = []")
    case True
    then show ?thesis
      using IH nv head [symmetric] kept by (simp add: splice_step_Some replacement_def)
  next
    case False
    have "take ?a (take ?b raw @ spliced raw decisions ?b spans) = take ?a raw"
      "drop ?b (take ?b raw @ spliced raw decisions ?b spans) = spliced raw decisions ?b spans"
      using ab by (simp_all add: min_def)
    then show ?thesis
      using IH nv False head [symmetric] by (simp add: splice_step_Some replacement_def)
  qed
qed simp

lemma splice_Inl: "foldr (splice_step raw decisions) spans (Inl err) = Inl err"
  by (induction spans) (simp_all add: splice_step_def)

lemma splice_decided:
  "foldr (splice_step raw decisions) spans (Inr raw) = Inr out \<Longrightarrow>
     \<forall>s \<in> set spans. map_of decisions (identity (rs_target s)) \<noteq> None"
  by (induction spans arbitrary: out)
    (auto simp: splice_step_def split: sum.splits option.splits if_splits)

lemma tokenize_raw_within:
  assumes "tokenize_raw e raw = Inr toks" "e_tokenize e raw = Inr ws" "wire_ordered ws"
  shows "tokens_within 0 (length raw) toks"
proof -
  have "tokens_ordered toks"
    using assms normalize_tokens_ordered by (simp add: tokenize_raw_def normalize_tokens_Inr)
  with tokenize_raw_wf [OF assms(1)] show ?thesis by (auto simp: tokens_within_def token_wf_def)
qed

lemma splice_raw_tables_shape:
  assumes "body_of ast = Inr (kind, body)"
    and "classify_write_command (command_text body) = sub" "sub \<in> {CmdRename, CmdExchange, CmdAlterUpdate}"
    and "\<forall>ws. e_tokenize e (command_text body) = Inr ws \<longrightarrow> wire_ordered ws"
    and "splice_raw_tables e ast decisions = Inr out"
  shows "\<exists>toks targets.
      tokenize_raw e (command_text body) = Inr toks \<and>
      raw_table_refs e ast = Inr (targets, sub) \<and>
      (\<forall>t \<in> set targets. map_of decisions (identity t) \<noteq> None) \<and>
      out = spliced (command_text body) decisions 0 (scan_table_refs toks sub)"
proof -
  let ?raw = "command_text body"
  obtain toks where toks: "tokenize_raw e ?raw = Inr toks"
    "foldr (splice_step ?raw decisions) (scan_table_refs toks sub) (Inr ?raw) = Inr out"
    using assms by (auto simp: splice_raw_tables_def Let_def split: sum.splits)
  obtain ws where ws: "e_tokenize e ?raw = Inr ws"
    using toks(1) by (auto simp: tokenize_raw_def split: sum.splits)
  have "spans_within 0 (length ?raw) (scan_table_refs toks sub)"
    using tokenize_raw_within [OF toks(1) ws] assms(4) ws by (simp add: scan_table_refs_within)
  moreover note decided = splice_decided [OF toks(2)]
  ultimately have "out = spliced ?raw decisions 0 (scan_table_refs toks sub)"
    using splice_foldr [of 0 ?raw "scan_table_refs toks sub" decisions] toks(2) by simp
  moreover have "raw_table_refs e ast = Inr (map rs_target (scan_table_refs toks sub), sub)"
    using assms(1-3) toks(1) by (auto simp: raw_table_refs_def Let_def)
  ultimately show ?thesis using toks(1) decided by auto
qed

text \<open>
  C17. \<open>SpliceRawTables\<close> fails closed and touches nothing else: when it returns a text for a RENAME, an
  EXCHANGE or an ALTER ... UPDATE, every table \<open>RawTableRefs\<close> reports for the same command has a
  decision, and the text is the command with each table name replaced by its decision, in document
  order, and every byte outside the names kept. The lexer's spans do not overlap, by hypothesis.
\<close>

theorem splice_raw_tables_spec:
  assumes "body_of ast = Inr (kind, body)"
    and "classify_write_command (command_text body) = sub" "sub \<in> {CmdRename, CmdExchange, CmdAlterUpdate}"
    and "\<forall>ws. e_tokenize e (command_text body) = Inr ws \<longrightarrow> wire_ordered ws"
    and "splice_raw_tables e ast decisions = Inr out"
  shows "\<exists>toks targets.
      tokenize_raw e (command_text body) = Inr toks \<and>
      raw_table_refs e ast = Inr (targets, sub) \<and>
      (\<forall>t \<in> set targets. map_of decisions (identity t) \<noteq> None) \<and>
      out = spliced (command_text body) decisions 0 (scan_table_refs toks sub)"
  using splice_raw_tables_shape [OF assms] .

definition rename_engine :: engine where
  "rename_engine =
     \<lparr>e_tokenize = (\<lambda>_. Inr (map (\<lambda>(ty, tx, a, b).
          \<lparr>wt_type = ty, wt_text = tx, wt_start = a, wt_end = b\<rparr>)
        [(''RENAME'', ''RENAME'', 0, 6), (''TABLE'', ''TABLE'', 7, 12), (''VAR'', ''a'', 13, 14),
         (''TO'', ''TO'', 15, 17), (''VAR'', ''b'', 18, 19)])),
      e_parse_one = (\<lambda>_. Inl (EngineError [])), e_generate = (\<lambda>_. Inl (EngineError [])),
      e_parse_generic = (\<lambda>_. Inl (EngineError []))\<rparr>"

definition rename_ast :: json where
  "rename_ast = JObject [(''command'', JObject [(''this'', JString ''RENAME TABLE a TO b'')])]"

definition rename_decisions :: decisions where
  "rename_decisions =
     [(\<lparr>tt_db = [], tt_table = ''a'', tt_alias = []\<rparr>, ''p.x''),
      (\<lparr>tt_db = [], tt_table = ''b'', tt_alias = []\<rparr>, [])]"

lemma splice_raw_tables_spec_witness:
  "splice_raw_tables rename_engine rename_ast rename_decisions = Inr ''RENAME TABLE p.x TO b'' \<and>
   (\<exists>toks. ''RENAME TABLE p.x TO b'' =
      spliced ''RENAME TABLE a TO b'' rename_decisions 0 (scan_table_refs toks CmdRename))"
proof -
  let ?body = "JObject [(''this'', JString ''RENAME TABLE a TO b'')]"
  have out: "splice_raw_tables rename_engine rename_ast rename_decisions = Inr ''RENAME TABLE p.x TO b''"
    by code_simp
  have body: "body_of rename_ast = Inr (''command'', Some ?body)"
    by (simp add: rename_ast_def body_of_def is_object_def)
  have raw: "command_text (Some ?body) = ''RENAME TABLE a TO b''"
    by (simp add: command_text_def field_def members_def json_string_def)
  have sub: "classify_write_command (command_text (Some ?body)) = CmdRename"
    unfolding raw by code_simp
  have wire: "\<forall>ws. e_tokenize rename_engine (command_text (Some ?body)) = Inr ws \<longrightarrow> wire_ordered ws"
    by (auto simp: rename_engine_def wire_ordered_def)
  show ?thesis
    using splice_raw_tables_spec [OF body sub _ wire out] out unfolding raw by auto
qed

section \<open>Qualified names\<close>

lemma hex_upper_inj: "h < 16 \<Longrightarrow> k < 16 \<Longrightarrow> hex_upper h = hex_upper k \<longleftrightarrow> h = k"
proof -
  have "\<forall>h \<in> set [0..<16]. \<forall>k \<in> set [0..<16]. hex_upper h = hex_upper k \<longleftrightarrow> h = k" by code_simp
  then show "h < 16 \<Longrightarrow> k < 16 \<Longrightarrow> hex_upper h = hex_upper k \<longleftrightarrow> h = k" by simp
qed

lemma hex_pair_inj:
  assumes "hex_upper (byte c div 16) = hex_upper (byte d div 16)"
    and "hex_upper (byte c mod 16) = hex_upper (byte d mod 16)"
  shows "c = d"
proof -
  have small: "byte c div 16 < 16" "byte d div 16 < 16" by (simp_all add: div16)
  have "byte c div 16 = byte d div 16" "byte c mod 16 = byte d mod 16"
    using assms hex_upper_inj small by simp_all
  then have "byte c = byte d" by (metis div_mult_mod_eq)
  then show ?thesis by (simp add: byte_inject)
qed

text \<open>The rendered bytes form a prefix code.\<close>

lemma quote_byte_prefix:
  assumes "quote_byte c @ x = quote_byte d @ y" shows "c = d \<and> x = y"
proof -
  have ne: "backquote \<noteq> backslash" "CHR ''x'' \<noteq> backslash" by (simp_all add: quote_chars)
  have spec: "byte backquote \<ge> 0x20" "byte backslash \<ge> 0x20" "byte backquote \<noteq> 0x7F" "byte backslash \<noteq> 0x7F"
    by (simp_all add: quote_chars byte_def)
  show ?thesis
  proof (cases "c = backquote \<or> d = backquote \<or> c = backslash \<or> d = backslash")
    case True
    with assms ne ne [symmetric] spec show ?thesis
      by (auto simp: quote_byte_def split: if_splits)
  next
    case False
    show ?thesis
    proof (cases "byte c < 0x20 \<or> byte c = 0x7F"; cases "byte d < 0x20 \<or> byte d = 0x7F")
      assume "byte c < 0x20 \<or> byte c = 0x7F" "byte d < 0x20 \<or> byte d = 0x7F"
      with False assms have "hex_upper (byte c div 16) = hex_upper (byte d div 16)"
        "hex_upper (byte c mod 16) = hex_upper (byte d mod 16)" "x = y"
        by (simp_all add: quote_byte_def)
      then show ?thesis using hex_pair_inj by blast
    qed (use False assms in \<open>auto simp: quote_byte_def\<close>)
  qed
qed

definition not_quote :: "gostring \<Rightarrow> bool" where
  "not_quote s \<longleftrightarrow> s = [] \<or> hd s \<noteq> backquote"

lemma quote_byte_head:
  "quote_byte c @ x = backquote # r \<Longrightarrow> \<exists>r'. r = backquote # r'"
  by (auto simp: quote_byte_def quote_chars split: if_splits)

lemma rendered_split:
  "concat (map quote_byte a) @ backquote # r = concat (map quote_byte b) @ backquote # r' \<Longrightarrow>
     not_quote r \<Longrightarrow> not_quote r' \<Longrightarrow> a = b \<and> r = r'"
proof (induction a arbitrary: b)
  case Nil
  show ?case
  proof (cases b)
    case (Cons d b')
    with Nil have "quote_byte d @ concat (map quote_byte b') @ backquote # r' = backquote # r" by simp
    from quote_byte_head [OF this] Nil(2) show ?thesis by (auto simp: not_quote_def)
  qed (use Nil in simp)
next
  case (Cons c a)
  show ?case
  proof (cases b)
    case Nil
    with Cons.prems(1) have "quote_byte c @ concat (map quote_byte a) @ backquote # r = backquote # r'" by simp
    from quote_byte_head [OF this] Cons.prems(3) show ?thesis by (auto simp: not_quote_def)
  next
    case (Cons d b')
    with Cons.prems(1) have "quote_byte c @ (concat (map quote_byte a) @ backquote # r) =
        quote_byte d @ (concat (map quote_byte b') @ backquote # r')" by simp
    from quote_byte_prefix [OF this] Cons.IH [of b'] Cons.prems(2,3) Cons show ?thesis by simp
  qed
qed

lemma plain_name:
  assumes "\<not> needs_quoting s"
  shows "s \<noteq> []" "CHR ''.'' \<notin> set s" "backquote \<notin> set s"
proof -
  have plain: "s ! i = CHR ''_'' \<or> is_lower_byte (s ! i) \<or> is_upper_byte (s ! i) \<or> is_digit_byte (s ! i)"
    if "i < length s" for i
    using assms that by (auto simp: needs_quoting_def list_ex_iff)
  have no: "\<not> (c = CHR ''_'' \<or> is_lower_byte c \<or> is_upper_byte c \<or> is_digit_byte c)"
    if "c = CHR ''.'' \<or> c = backquote" for c
    using that by (auto simp: byte_class_defs quote_chars less_eq_char_def)
  show "s \<noteq> []" using assms by (simp add: needs_quoting_def)
  show "CHR ''.'' \<notin> set s" "backquote \<notin> set s"
    using plain no by (auto simp: in_set_conv_nth)
qed

definition after_name :: "gostring \<Rightarrow> bool" where
  "after_name r \<longleftrightarrow> r = [] \<or> hd r = CHR ''.''"

lemma until_dot:
  assumes "CHR ''.'' \<notin> set a" "after_name r"
  shows "takeWhile (\<lambda>c. c \<noteq> CHR ''.'') (a @ r) = a \<and> dropWhile (\<lambda>c. c \<noteq> CHR ''.'') (a @ r) = r"
  using assms by (cases r) (auto simp: after_name_def takeWhile_append dropWhile_append)

lemma quote_name_split:
  assumes "quote_name a @ r = quote_name b @ r'" "after_name r" "after_name r'"
  shows "a = b \<and> r = r'"
proof -
  have quoted: "\<exists>t. quote_identifier_sql s = backquote # t" for s by (simp add: quote_identifier_sql_def)
  have plain: "\<exists>c t. s = c # t \<and> c \<noteq> backquote" if "\<not> needs_quoting s" for s
    using plain_name [OF that] by (cases s) auto
  have nq: "not_quote r" "not_quote r'"
    using assms(2,3) by (auto simp: after_name_def not_quote_def quote_chars)
  show ?thesis
  proof (cases "needs_quoting a"; cases "needs_quoting b")
    assume "needs_quoting a" "needs_quoting b"
    with assms(1) have "concat (map quote_byte a) @ backquote # r = concat (map quote_byte b) @ backquote # r'"
      by (simp add: quote_name_def quote_identifier_sql_def)
    from rendered_split [OF this nq] show ?thesis .
  next
    assume "\<not> needs_quoting a" "\<not> needs_quoting b"
    then have eq: "a @ r = b @ r'" and dots: "CHR ''.'' \<notin> set a" "CHR ''.'' \<notin> set b"
      using assms(1) plain_name(2) by (simp_all only: quote_name_def if_False)
    note sa = until_dot [OF dots(1) assms(2)] and sb = until_dot [OF dots(2) assms(3)]
    from sa sb show ?thesis unfolding eq by blast
  next
    assume "needs_quoting a" "\<not> needs_quoting b"
    with assms(1) quoted [of a] plain [of b] show ?thesis by (auto simp: quote_name_def)
  next
    assume "\<not> needs_quoting a" "needs_quoting b"
    with assms(1) quoted [of b] plain [of a] show ?thesis by (auto simp: quote_name_def)
  qed
qed

text \<open>
  C29. \<open>QuoteQualified\<close> is injective: two references render to the same SQL only when both their
  databases and their tables are the same, so the quoted single name \<open>a.b\<close> and the table \<open>b\<close> of \<open>a\<close> stay
  apart, and no name can reach out of its quotes.
\<close>

theorem quote_qualified_inj:
  "quote_qualified db1 t1 = quote_qualified db2 t2 \<longleftrightarrow> db1 = db2 \<and> t1 = t2"
proof
  assume eq: "quote_qualified db1 t1 = quote_qualified db2 t2"
  have one: "quote_name a @ [] = quote_name b @ r \<Longrightarrow> after_name r \<Longrightarrow> r = []" for a b r
    using quote_name_split [of a "[]" b r] by (simp add: after_name_def)
  show "db1 = db2 \<and> t1 = t2"
  proof (cases "db1 = []"; cases "db2 = []")
    assume "db1 = []" "db2 = []"
    with eq show ?thesis using quote_name_split [of t1 "[]" t2 "[]"]
      by (simp add: quote_qualified_def after_name_def)
  next
    assume "db1 \<noteq> []" "db2 \<noteq> []"
    with eq have "db1 = db2 \<and> CHR ''.'' # quote_name t1 = CHR ''.'' # quote_name t2"
      by (intro quote_name_split) (simp_all add: quote_qualified_def after_name_def)
    then show ?thesis using quote_name_split [of t1 "[]" t2 "[]"] by (simp add: after_name_def)
  next
    assume "db1 = []" "db2 \<noteq> []"
    with eq show ?thesis using one [of t1 db2 "CHR ''.'' # quote_name t2"]
      by (simp add: quote_qualified_def after_name_def)
  next
    assume "db1 \<noteq> []" "db2 = []"
    with eq show ?thesis using one [of t2 db1 "CHR ''.'' # quote_name t1"]
      by (simp add: quote_qualified_def after_name_def)
  qed
qed simp

end
