(* ===== verification/Statement_Gate.thy ===== *)
theory Statement_Gate
  imports Engine_Tokens
begin

text \<open>
  The gates a statement passes before any handler reads it: the bracket-nesting guard of
  \<open>guard.go\<close> and the whole-statement parse gate of \<open>wholestmt.go\<close>.
\<close>

section \<open>The nesting guard\<close>

text \<open>What follows the quoted run whose opening quote \<open>q\<close> has just been read.\<close>

fun skip_quoted :: "char \<Rightarrow> gostring \<Rightarrow> gostring" where
  "skip_quoted q [] = []"
| "skip_quoted q [c] = []"
| "skip_quoted q (c # d # s) =
     (if c = backslash then skip_quoted q s
      else if c = q then (if d = q then skip_quoted q s else d # s)
      else skip_quoted q (d # s))"

lemma skip_quoted_length: "length (skip_quoted q s) \<le> length s"
  by (induction q s rule: skip_quoted.induct) auto

definition max_parse_depth :: nat where
  "max_parse_depth = 100"

function nesting_scan :: "nat \<Rightarrow> nat \<Rightarrow> gostring \<Rightarrow> bool" where
  "nesting_scan limit depth [] = False"
| "nesting_scan limit depth (c # s) =
     (if c = squote \<or> c = dquote \<or> c = backquote then nesting_scan limit depth (skip_quoted c s)
      else if c = CHR ''('' \<or> c = CHR ''['' then
        (if depth + 1 > limit then True else nesting_scan limit (depth + 1) s)
      else if c = CHR '')'' \<or> c = CHR '']'' then nesting_scan limit (depth - 1) s
      else nesting_scan limit depth s)"
  by pat_completeness auto
termination
  by (relation "measure (\<lambda>(limit, depth, s). length s)") (auto simp: le_imp_less_Suc skip_quoted_length)

definition exceeds_nesting_depth :: "gostring \<Rightarrow> nat \<Rightarrow> bool" where
  "exceeds_nesting_depth sql limit = nesting_scan limit 0 sql"

text \<open>
  \<open>polyglotEngine.ParseOne\<close> and \<open>ParseGeneric\<close> run the guard before the foreign parser, which is the
  parameter \<open>parse\<close>.
\<close>

definition guarded_parse ::
    "(gostring \<Rightarrow> engine_error + json) \<Rightarrow> gostring \<Rightarrow> engine_error + json" where
  "guarded_parse parse sql =
     (if exceeds_nesting_depth sql max_parse_depth then Inl (NestingExceeded max_parse_depth)
      else parse sql)"

section \<open>The whole-statement gate\<close>

definition is_closing_bracket :: "gostring \<Rightarrow> bool" where
  "is_closing_bracket t \<longleftrightarrow> t = ''R_PAREN'' \<or> t = ''R_BRACKET'' \<or> t = ''R_BRACE''"

definition is_bracket_token :: "gostring \<Rightarrow> bool" where
  "is_bracket_token t \<longleftrightarrow>
     is_closing_bracket t \<or> t = ''L_PAREN'' \<or> t = ''L_BRACKET'' \<or> t = ''L_BRACE''"

definition closer_of :: "gostring \<Rightarrow> gostring" where
  "closer_of opening =
     (if opening = ''L_PAREN'' then ''R_PAREN''
      else if opening = ''L_BRACKET'' then ''R_BRACKET''
      else ''R_BRACE'')"

text \<open>\<open>excerpt\<close>: the first 40 runes; an invalid byte is re-encoded as U+FFFD, and the rest is an ellipsis.\<close>

definition excerpt :: "gostring \<Rightarrow> gostring" where
  "excerpt s =
     (if length (rune_texts s) \<le> 40 then s
      else concat (take 40 (rune_texts s)) @ [CHR 0xE2, CHR 0x80, CHR 0xA6])"

text \<open>The loop of \<open>checkBrackets\<close>: \<open>opened\<close> holds the unclosed opening tokens, innermost first.\<close>

fun check_brackets_from ::
    "gostring \<Rightarrow> raw_token list \<Rightarrow> raw_token list \<Rightarrow> engine_error option" where
  "check_brackets_from sql opened [] =
     (case opened of
        [] \<Rightarrow> None
      | tk # _ \<Rightarrow>
          Some (NotParsedInFull (UnclosedBracket (tk_text tk) (excerpt (drop (tk_start tk) sql)))))"
| "check_brackets_from sql opened (tk # tks) =
     (if is_closing_bracket (tk_type tk) then
        (case opened of
           [] \<Rightarrow>
             Some (NotParsedInFull (UnmatchedBracket (tk_text tk) (excerpt (drop (tk_start tk) sql))))
         | opening # rest \<Rightarrow>
             if closer_of (tk_type opening) \<noteq> tk_type tk
             then Some (NotParsedInFull (UnmatchedBracket (tk_text tk) (excerpt (drop (tk_start tk) sql))))
             else check_brackets_from sql rest tks)
      else if is_bracket_token (tk_type tk) then check_brackets_from sql (tk # opened) tks
      else check_brackets_from sql opened tks)"

definition check_brackets :: "gostring \<Rightarrow> raw_token list \<Rightarrow> engine_error option" where
  "check_brackets sql toks = check_brackets_from sql [] toks"

definition parses_alike :: "engine \<Rightarrow> gostring \<Rightarrow> json \<Rightarrow> bool" where
  "parses_alike e cutSQL ast =
     (case e_parse_one e cutSQL of
        Inl _ \<Rightarrow> False
      | Inr part \<Rightarrow>
          if same_ast part ast then True
          else if node_kind ast \<noteq> Inr NodeCommand then False
          else if node_kind part \<noteq> Inr NodeCommand then False
          else (case (polyglot_command_sql part, polyglot_command_sql ast) of
                  (Inr a, Inr b) \<Rightarrow> a = b
                | _ \<Rightarrow> False))"

text \<open>The binary search of \<open>firstIgnoredToken\<close>, and the closing brackets skipped after it.\<close>

function ignored_search :: "(nat \<Rightarrow> bool) \<Rightarrow> nat \<Rightarrow> nat \<Rightarrow> nat" where
  "ignored_search ignored lo hi =
     (if lo < hi then
        let mid = (lo + hi) div 2
        in if ignored mid then ignored_search ignored lo mid
           else ignored_search ignored (mid + 1) hi
      else hi)"
  by pat_completeness auto
termination by (relation "measure (\<lambda>(ignored, lo, hi). hi - lo)") auto

declare ignored_search.simps [simp del]

function skip_closers :: "raw_token list \<Rightarrow> nat \<Rightarrow> nat" where
  "skip_closers toks hi =
     (if hi + 1 < length toks \<and> is_closing_bracket (tk_type (toks ! hi))
      then skip_closers toks (hi + 1) else hi)"
  by pat_completeness auto
termination by (relation "measure (\<lambda>(toks, hi). length toks - hi)") auto

declare skip_closers.simps [simp del]

definition cut_at :: "gostring \<Rightarrow> raw_token list \<Rightarrow> nat \<Rightarrow> gostring" where
  "cut_at sql toks i = take (tk_start (toks ! i)) sql"

definition first_ignored_token :: "engine \<Rightarrow> gostring \<Rightarrow> json \<Rightarrow> raw_token list \<Rightarrow> nat" where
  "first_ignored_token e sql ast toks =
     skip_closers toks
       (ignored_search (\<lambda>mid. parses_alike e (cut_at sql toks mid) ast) 1 (length toks - 1))"

text \<open>\<open>throughFormatName\<close>, which \<open>CheckParsedInFull\<close> also writes out.\<close>

definition through_format_name :: "raw_token list \<Rightarrow> raw_token list" where
  "through_format_name toks =
     (case last_index (\<lambda>i. tk_type (toks ! i) = ''FORMAT'' \<and> i + 1 < length toks) (length toks) of
        None \<Rightarrow> toks
      | Some i \<Rightarrow> take (i + 2) toks)"

definition strip_semicolons :: "raw_token list \<Rightarrow> raw_token list" where
  "strip_semicolons toks = rev (dropWhile (\<lambda>tk. tk_type tk = ''SEMICOLON'') (rev toks))"

definition final_token :: "raw_token list \<Rightarrow> nat option" where
  "final_token toks =
     last_index (\<lambda>i. \<not> is_bracket_token (tk_type (toks ! i)) \<and> tk_end (toks ! i) > tk_start (toks ! i))
       (length toks)"

definition check_parsed_in_full :: "engine \<Rightarrow> gostring \<Rightarrow> json \<Rightarrow> engine_error option" where
  "check_parsed_in_full e sql ast =
     (case tokenize_raw e sql of
        Inl err \<Rightarrow> Some err
      | Inr toks0 \<Rightarrow>
          (let toks1 = (if insert_has_format_clause ast then through_format_name toks0 else toks0)
           in case reject_hash_glued_tokens toks1 (length toks1) of
                Some err \<Rightarrow> Some err
              | None \<Rightarrow>
                  (let toks = strip_semicolons toks1
                   in case check_brackets sql toks of
                        Some err \<Rightarrow> Some err
                      | None \<Rightarrow>
                          (case final_token toks of
                             None \<Rightarrow> None
                           | Some lst \<Rightarrow>
                               if lst = 0 then None
                               else if \<not> parses_alike e (cut_at sql toks lst) ast then None
                               else let stop = first_ignored_token e sql ast (take (lst + 1) toks)
                                    in Some (NotParsedInFull
                                         (StoppedBefore (excerpt (drop (tk_start (toks ! stop)) sql))))))))"

end
