(* ===== verification/Statement_Gate_Facts.thy ===== *)
theory Statement_Gate_Facts
  imports Statement_Gate
begin

text \<open>
  What the two gates decide: the nesting guard measures the bracket depth of the text outside
  quotes, the bracket check accepts exactly the balanced streams, and the parse gate's search names
  the first ignored token.
\<close>

section \<open>The nesting guard\<close>

lemma ex_nat_split: "(\<exists>k. P k) \<longleftrightarrow> P 0 \<or> (\<exists>k. P (Suc k))"
  by (metis not0_implies_Suc)

text \<open>The text outside quotes, as the guard sees quotes, and the depth it reaches.\<close>

function unquoted :: "gostring \<Rightarrow> gostring" where
  "unquoted [] = []"
| "unquoted (c # s) =
     (if c = squote \<or> c = dquote \<or> c = backquote then unquoted (skip_quoted c s) else c # unquoted s)"
  by pat_completeness auto
termination by (relation "measure length") (auto simp: le_imp_less_Suc skip_quoted_length)

fun depth_after :: "nat \<Rightarrow> gostring \<Rightarrow> nat" where
  "depth_after d [] = d"
| "depth_after d (c # s) =
     depth_after (if c = CHR ''('' \<or> c = CHR ''['' then d + 1
                  else if c = CHR '')'' \<or> c = CHR '']'' then d - 1 else d) s"

lemma nesting_scan_iff:
  "depth \<le> limit \<Longrightarrow>
     nesting_scan limit depth s \<longleftrightarrow> (\<exists>k. depth_after depth (take k (unquoted s)) > limit)"
proof (induction limit depth s rule: nesting_scan.induct)
  case (1 limit depth)
  then show ?case by simp
next
  case (2 limit depth c s)
  consider (quote) "c = squote \<or> c = dquote \<or> c = backquote"
    | (left) "\<not> (c = squote \<or> c = dquote \<or> c = backquote)" "c = CHR ''('' \<or> c = CHR ''[''"
    | (right) "\<not> (c = squote \<or> c = dquote \<or> c = backquote)"
        "\<not> (c = CHR ''('' \<or> c = CHR ''['')" "c = CHR '')'' \<or> c = CHR '']''"
    | (other) "\<not> (c = squote \<or> c = dquote \<or> c = backquote)"
        "\<not> (c = CHR ''('' \<or> c = CHR ''['')" "\<not> (c = CHR '')'' \<or> c = CHR '']'')"
    by blast
  then show ?case
  proof cases
    case quote
    with 2 show ?thesis by simp
  next
    case left
    have step: "(\<exists>k. depth_after depth (take k (c # unquoted s)) > limit) \<longleftrightarrow>
        (\<exists>k. depth_after (depth + 1) (take k (unquoted s)) > limit)"
      using left "2.prems" by (subst ex_nat_split) simp
    show ?thesis
    proof (cases "depth + 1 > limit")
      case True
      then have "\<exists>k. depth_after (depth + 1) (take k (unquoted s)) > limit"
        by (intro exI [of _ 0]) simp
      with True left step show ?thesis by simp
    next
      case False
      with 2 left step show ?thesis by simp
    qed
  next
    case right
    have "(\<exists>k. depth_after depth (take k (c # unquoted s)) > limit) \<longleftrightarrow>
        (\<exists>k. depth_after (depth - 1) (take k (unquoted s)) > limit)"
      using right "2.prems" by (subst ex_nat_split) simp
    with 2 right show ?thesis by simp
  next
    case other
    have "(\<exists>k. depth_after depth (take k (c # unquoted s)) > limit) \<longleftrightarrow>
        (\<exists>k. depth_after depth (take k (unquoted s)) > limit)"
      using other "2.prems" by (subst ex_nat_split) simp
    with 2 other show ?thesis by simp
  qed
qed

text \<open>
  The guard refuses a statement exactly when the bracket depth of its text outside quotes exceeds
  the limit somewhere, brackets closed before they open not counting against it.
\<close>

theorem exceeds_nesting_depth_iff:
  "exceeds_nesting_depth sql limit \<longleftrightarrow>
     (\<exists>k. depth_after 0 (take k (unquoted sql)) > limit)"
  by (simp add: exceeds_nesting_depth_def nesting_scan_iff)

text \<open>
  The guard does not know comments: an apostrophe in a comment opens a quote for it, so it counts
  none of the brackets after the comment, however many there are and whatever the limit. Its
  documentation says a miscount can never hide structural nesting.
\<close>

theorem comment_hides_nesting:
  "\<not> exceeds_nesting_depth (''/* it's */ SELECT '' @ replicate n CHR ''('') limit"
proof -
  have skip: "skip_quoted squote (s @ replicate n CHR ''('') = []"
    if "squote \<notin> set s" "backslash \<notin> set s" for s
    using that
  proof (induction s)
    case Nil
    show ?case
      by (induction n rule: induct_nat_012) (simp_all add: squote_def backslash_def)
  next
    case (Cons c s)
    then show ?case by (cases "s @ replicate n CHR ''(''") auto
  qed
  have "skip_quoted squote (''s */ SELECT '' @ replicate n CHR ''('') = []"
    by (rule skip) (simp_all add: squote_def backslash_def)
  then show ?thesis
    by (simp add: exceeds_nesting_depth_def squote_def dquote_def backquote_def)
qed

section \<open>Brackets\<close>

text \<open>Balanced sequences of token types: every opening bracket is closed by its own kind, in order.\<close>

inductive balanced :: "gostring list \<Rightarrow> bool" where
  balanced_Nil: "balanced []"
| balanced_skip: "\<not> is_bracket_token t \<Longrightarrow> balanced ts \<Longrightarrow> balanced (t # ts)"
| balanced_pair:
    "is_bracket_token t \<Longrightarrow> \<not> is_closing_bracket t \<Longrightarrow> balanced a \<Longrightarrow> balanced b \<Longrightarrow>
     balanced (t # a @ closer_of t # b)"

inductive_cases balanced_Cons: "balanced (t # ts)"

lemma closer_is_closing: "is_closing_bracket (closer_of t)"
  by (simp add: is_closing_bracket_def closer_of_def)

lemma closing_is_bracket: "is_closing_bracket t \<Longrightarrow> is_bracket_token t"
  by (simp add: is_bracket_token_def)

lemma balanced_closing: "is_closing_bracket t \<Longrightarrow> \<not> balanced (t # ts)"
  by (auto elim!: balanced_Cons dest: closing_is_bracket)

lemma balanced_skip_iff: "\<not> is_bracket_token t \<Longrightarrow> balanced (t # ts) \<longleftrightarrow> balanced ts"
  by (auto elim!: balanced_Cons intro: balanced_skip)

text \<open>What must follow inside the open brackets \<open>opened\<close>.\<close>

fun closes :: "gostring list \<Rightarrow> gostring list \<Rightarrow> bool" where
  "closes [] ts \<longleftrightarrow> balanced ts"
| "closes (t # opened) ts \<longleftrightarrow>
     (\<exists>a b. ts = a @ closer_of t # b \<and> balanced a \<and> closes opened b)"

lemma closes_skip:
  assumes "\<not> is_bracket_token t"
  shows "closes opened (t # ts) \<longleftrightarrow> closes opened ts"
proof (cases opened)
  case Nil
  with assms show ?thesis by (simp add: balanced_skip_iff)
next
  case (Cons o' os)
  have "closer_of o' \<noteq> t" using assms closer_is_closing closing_is_bracket by metis
  then have "(\<exists>a b. t # ts = a @ closer_of o' # b \<and> balanced a \<and> closes os b) \<longleftrightarrow>
      (\<exists>a b. ts = a @ closer_of o' # b \<and> balanced (t # a) \<and> closes os b)"
    by (auto simp: Cons_eq_append_conv)
  then show ?thesis using assms Cons by (simp add: balanced_skip_iff)
qed

lemma closes_open:
  assumes "is_bracket_token t" "\<not> is_closing_bracket t"
  shows "closes opened (t # ts) \<longleftrightarrow> closes (t # opened) ts"
proof (cases opened)
  case Nil
  with assms show ?thesis by (auto elim!: balanced_Cons intro: balanced_pair)
next
  case (Cons o' os)
  have ne: "closer_of o' \<noteq> t" using assms(2) closer_is_closing by metis
  have "(\<exists>a b. t # ts = a @ closer_of o' # b \<and> balanced a \<and> closes os b) \<longleftrightarrow>
      (\<exists>a b. ts = a @ closer_of o' # b \<and> balanced (t # a) \<and> closes os b)"
    using ne by (auto simp: Cons_eq_append_conv)
  also have "\<dots> \<longleftrightarrow> (\<exists>a b. ts = a @ closer_of t # b \<and> balanced a \<and> closes (o' # os) b)"
  proof
    assume "\<exists>a b. ts = a @ closer_of o' # b \<and> balanced (t # a) \<and> closes os b"
    then obtain a b where "ts = a @ closer_of o' # b" "balanced (t # a)" "closes os b" by blast
    moreover from this assms obtain c d where "a = c @ closer_of t # d" "balanced c" "balanced d"
      by (auto elim!: balanced_Cons)
    ultimately show "\<exists>a b. ts = a @ closer_of t # b \<and> balanced a \<and> closes (o' # os) b"
      by (intro exI [of _ c] exI [of _ "d @ closer_of o' # b"]) auto
  next
    assume "\<exists>a b. ts = a @ closer_of t # b \<and> balanced a \<and> closes (o' # os) b"
    then obtain a b c where "ts = (a @ closer_of t # b) @ closer_of o' # c" "balanced a"
      "balanced b" "closes os c" by auto
    with assms show "\<exists>a b. ts = a @ closer_of o' # b \<and> balanced (t # a) \<and> closes os b"
      using balanced_pair [of t a b] by blast
  qed
  finally show ?thesis using Cons by simp
qed

lemma closes_close:
  assumes "is_closing_bracket t"
  shows "closes opened (t # ts) \<longleftrightarrow>
     (case opened of [] \<Rightarrow> False | o' # os \<Rightarrow> closer_of o' = t \<and> closes os ts)"
proof (cases opened)
  case Nil
  then show ?thesis using balanced_closing [OF assms] by simp
next
  case (Cons o' os)
  have "(\<exists>a b. t # ts = a @ closer_of o' # b \<and> balanced a \<and> closes os b) \<longleftrightarrow>
      closer_of o' = t \<and> closes os ts"
    using balanced_closing [OF assms] by (force simp: Cons_eq_append_conv balanced_Nil)
  then show ?thesis using Cons by simp
qed

lemma closes_Nil: "closes opened [] \<longleftrightarrow> opened = []"
  by (cases opened) (simp_all add: balanced_Nil)

lemma check_brackets_from_iff:
  "check_brackets_from sql opened toks = None \<longleftrightarrow> closes (map tk_type opened) (map tk_type toks)"
  by (induction sql opened toks rule: check_brackets_from.induct)
    (auto simp: closes_Nil closes_close closes_open closes_skip closing_is_bracket
      split: list.splits)

text \<open>
  C26. The bracket check passes exactly the token streams whose brackets are balanced: each opening
  bracket closed by its own kind, in order, before the end of the statement.
\<close>

theorem check_brackets_iff: "check_brackets sql toks = None \<longleftrightarrow> balanced (map tk_type toks)"
  by (simp add: check_brackets_def check_brackets_from_iff)

section \<open>The first ignored token\<close>

lemma ignored_search_least:
  assumes "lo \<le> hi" "ignored hi" and "\<forall>i j. lo \<le> i \<longrightarrow> i \<le> j \<longrightarrow> j \<le> hi \<longrightarrow> ignored i \<longrightarrow> ignored j"
  shows "lo \<le> ignored_search ignored lo hi \<and> ignored_search ignored lo hi \<le> hi \<and>
    ignored (ignored_search ignored lo hi) \<and>
    (\<forall>i. lo \<le> i \<longrightarrow> i < ignored_search ignored lo hi \<longrightarrow> \<not> ignored i)"
  using assms
proof (induction ignored lo hi rule: ignored_search.induct)
  case (1 ignored lo hi)
  show ?case
  proof (cases "lo < hi")
    case False
    then have eq: "ignored_search ignored lo hi = hi" by (subst ignored_search.simps) simp
    show ?thesis unfolding eq using False "1.prems" by auto
  next
    case True
    let ?mid = "(lo + hi) div 2"
    have lo_le_mid: "lo \<le> ?mid" using True by simp
    show ?thesis
    proof (cases "ignored ?mid")
      case ign: True
      have "lo \<le> ignored_search ignored lo ?mid \<and> ignored_search ignored lo ?mid \<le> ?mid \<and>
          ignored (ignored_search ignored lo ?mid) \<and>
          (\<forall>i. lo \<le> i \<longrightarrow> i < ignored_search ignored lo ?mid \<longrightarrow> \<not> ignored i)"
        by (rule "1.IH"(1) [OF True refl ign]) (use True ign "1.prems"(3) in auto)
      moreover have "ignored_search ignored lo hi = ignored_search ignored lo ?mid"
        using True ign by (subst ignored_search.simps) (simp add: Let_def)
      ultimately show ?thesis using True by auto
    next
      case keep: False
      have before: "\<not> ignored i" if "lo \<le> i" "i \<le> ?mid" for i
        using that keep "1.prems"(3) True by auto
      have mono: "\<forall>i j. ?mid + 1 \<le> i \<longrightarrow> i \<le> j \<longrightarrow> j \<le> hi \<longrightarrow> ignored i \<longrightarrow> ignored j"
        using "1.prems"(3) lo_le_mid by (meson add_leD1 le_trans)
      let ?r = "ignored_search ignored (?mid + 1) hi"
      have IH: "?mid + 1 \<le> ?r \<and> ?r \<le> hi \<and> ignored ?r \<and>
          (\<forall>i. ?mid + 1 \<le> i \<longrightarrow> i < ?r \<longrightarrow> \<not> ignored i)"
        by (rule "1.IH"(2) [OF True refl keep _ "1.prems"(2) mono]) (use True in auto)
      have eq: "ignored_search ignored lo hi = ?r"
        using True keep by (subst ignored_search.simps) (simp add: Let_def)
      have "\<not> ignored i" if "lo \<le> i" "i < ?r" for i
        using that before [of i] IH by (cases "i \<le> ?mid") auto
      with IH lo_le_mid show ?thesis unfolding eq by auto
    qed
  qed
qed

lemma skip_closers_bounds:
  "hi < length toks \<Longrightarrow> hi \<le> skip_closers toks hi \<and> skip_closers toks hi < length toks \<and>
     (\<forall>k. hi \<le> k \<longrightarrow> k < skip_closers toks hi \<longrightarrow> is_closing_bracket (tk_type (toks ! k)))"
proof (induction toks hi rule: skip_closers.induct)
  case (1 toks hi)
  show ?case
  proof (cases "hi + 1 < length toks \<and> is_closing_bracket (tk_type (toks ! hi))")
    case True
    with "1.IH" have "hi + 1 \<le> skip_closers toks (hi + 1) \<and> skip_closers toks (hi + 1) < length toks \<and>
       (\<forall>k. hi + 1 \<le> k \<longrightarrow> k < skip_closers toks (hi + 1) \<longrightarrow> is_closing_bracket (tk_type (toks ! k)))"
      by blast
    moreover have "skip_closers toks hi = skip_closers toks (hi + 1)"
      using True by (simp add: skip_closers.simps [of toks hi])
    ultimately show ?thesis using True by (metis Suc_eq_plus1 Suc_leI le_neq_implies_less le_trans
          less_imp_le_nat lessI)
  next
    case False
    with "1.prems" show ?thesis by (auto simp: skip_closers.simps [of toks hi])
  qed
qed

text \<open>
  When ignoring a token implies ignoring every later one, the search names the token the parser
  stopped at: the first cut that leaves the AST unchanged, or a token after it that only closing
  brackets separate from it. Polyglot parses a prefix of its tokens, which is that hypothesis.
\<close>

theorem first_ignored_token_stop:
  assumes "2 \<le> length toks"
    and "parses_alike e (cut_at sql toks (length toks - 1)) ast"
    and "\<forall>i j. 1 \<le> i \<longrightarrow> i \<le> j \<longrightarrow> j < length toks \<longrightarrow>
           parses_alike e (cut_at sql toks i) ast \<longrightarrow> parses_alike e (cut_at sql toks j) ast"
  shows "\<exists>r. 1 \<le> r \<and> r \<le> first_ignored_token e sql ast toks \<and>
      first_ignored_token e sql ast toks < length toks \<and>
      parses_alike e (cut_at sql toks r) ast \<and>
      (\<forall>i. 1 \<le> i \<longrightarrow> i < r \<longrightarrow> \<not> parses_alike e (cut_at sql toks i) ast) \<and>
      (\<forall>k. r \<le> k \<longrightarrow> k < first_ignored_token e sql ast toks \<longrightarrow>
           is_closing_bracket (tk_type (toks ! k)))"
proof -
  let ?ignored = "\<lambda>mid. parses_alike e (cut_at sql toks mid) ast"
  let ?r = "ignored_search ?ignored 1 (length toks - 1)"
  have "1 \<le> ?r \<and> ?r \<le> length toks - 1 \<and> ?ignored ?r \<and> (\<forall>i. 1 \<le> i \<longrightarrow> i < ?r \<longrightarrow> \<not> ?ignored i)"
    using assms by (intro ignored_search_least) auto
  moreover from this assms(1) have "?r < length toks" by linarith
  ultimately show ?thesis
    unfolding first_ignored_token_def using skip_closers_bounds [of ?r toks] by blast
qed

text \<open>An engine whose parser reads the six bytes of \<open>SELECT\<close> and ignores the rest.\<close>

definition prefix_engine :: engine where
  "prefix_engine =
     \<lparr>e_tokenize = (\<lambda>_. Inl (EngineError [])),
      e_parse_one = (\<lambda>sql. Inr (JString (take 6 sql))), e_generate = (\<lambda>_. Inl (EngineError [])),
      e_parse_generic = (\<lambda>_. Inl (EngineError []))\<rparr>"

definition prefix_tokens :: "raw_token list" where
  "prefix_tokens =
     map (\<lambda>(t, a, b). \<lparr>tk_type = t, tk_text = [], tk_start = a, tk_end = b, tk_source = []\<rparr>)
       [(''SELECT'', 0, 3), (''NUMBER'', 4, 6), (''R_PAREN'', 7, 8), (''VAR'', 9, 10)]"

lemma first_ignored_token_stop_witness:
  "first_ignored_token prefix_engine ''sel 10 ) x'' (JString ''sel 10'') prefix_tokens = 3 \<and>
   (\<exists>r. 1 \<le> r \<and> r \<le> 3 \<and>
      parses_alike prefix_engine (cut_at ''sel 10 ) x'' prefix_tokens r) (JString ''sel 10''))"
proof -
  let ?alike = "\<lambda>i. parses_alike prefix_engine (cut_at ''sel 10 ) x'' prefix_tokens i) (JString ''sel 10'')"
  have len: "length prefix_tokens = 4" by code_simp
  have alike: "?alike (Suc 0) = False" "?alike 2" "?alike 3" by code_simp+
  have stop: "first_ignored_token prefix_engine ''sel 10 ) x'' (JString ''sel 10'') prefix_tokens = 3"
    by code_simp
  have mono: "\<forall>i j. 1 \<le> i \<longrightarrow> i \<le> j \<longrightarrow> j < length prefix_tokens \<longrightarrow> ?alike i \<longrightarrow> ?alike j"
  proof (intro allI impI)
    fix i j :: nat assume "1 \<le> i" "i \<le> j" "j < length prefix_tokens" "?alike i"
    then have "j = 2 \<or> j = 3" using len alike(1) by (cases "j = 1") auto
    then show "?alike j" using alike(2,3) by blast
  qed
  have "\<exists>r. 1 \<le> r \<and> r \<le> first_ignored_token prefix_engine ''sel 10 ) x'' (JString ''sel 10'') prefix_tokens \<and>
      first_ignored_token prefix_engine ''sel 10 ) x'' (JString ''sel 10'') prefix_tokens < length prefix_tokens \<and>
      ?alike r \<and> (\<forall>i. 1 \<le> i \<longrightarrow> i < r \<longrightarrow> \<not> ?alike i) \<and>
      (\<forall>k. r \<le> k \<longrightarrow> k < first_ignored_token prefix_engine ''sel 10 ) x'' (JString ''sel 10'') prefix_tokens \<longrightarrow>
           is_closing_bracket (tk_type (prefix_tokens ! k)))"
    by (rule first_ignored_token_stop) (use len alike mono in simp_all)
  with stop show ?thesis by auto
qed

end
