(* ===== verification/Precedence.thy ===== *)
theory Precedence
  imports Statement_Gate Lexeme
begin

text \<open>
  \<open>regenerated_precedence.go\<close>: where a respelling that changes an operator's precedence class cannot
  regroup its operands. A token position is an index into the token slice; the \<open>-1\<close> of the code is
  \<^const>\<open>None\<close>.
\<close>

section \<open>Operands\<close>

definition is_atomic_token :: "raw_token \<Rightarrow> bool" where
  "is_atomic_token tk =
     (if tk_type tk \<in> {''VAR'', ''QUOTED_IDENTIFIER'', ''NUMBER'', ''HEX_NUMBER'', ''NULL'', ''TRUE'', ''FALSE''}
      then True
      else if tk_type tk = ''IDENTIFIER'' then is_binary_literal (tk_text tk)
      else is_quoted_lexeme (tk_type tk))"

definition is_open_bracket :: "gostring \<Rightarrow> bool" where
  "is_open_bracket t \<longleftrightarrow> t = ''L_PAREN'' \<or> t = ''L_BRACKET'' \<or> t = ''L_BRACE''"

definition is_close_bracket :: "gostring \<Rightarrow> bool" where
  "is_close_bracket t \<longleftrightarrow> t = ''R_PAREN'' \<or> t = ''R_BRACKET'' \<or> t = ''R_BRACE''"

fun brace_before :: "raw_token list \<Rightarrow> nat \<Rightarrow> nat option" where
  "brace_before toks 0 = None"
| "brace_before toks (Suc k) =
     (let t = tk_type (toks ! k)
      in if t = ''L_BRACE'' then Some k
         else if is_open_bracket t \<or> is_close_bracket t then None
         else brace_before toks k)"

fun name_before :: "raw_token list \<Rightarrow> nat \<Rightarrow> nat" where
  "name_before toks (Suc (Suc j)) =
     (if tk_type (toks ! (j + 1)) = ''DOT'' \<and> is_name_tok (tk_type (toks ! j))
      then name_before toks j else j + 2)"
| "name_before toks j = j"

text \<open>\<open>operandBefore(toks, j)\<close>; the call with \<open>j = -1\<close> is left to the caller.\<close>

definition operand_before :: "raw_token list \<Rightarrow> nat \<Rightarrow> nat option" where
  "operand_before toks j =
     (if tk_type (toks ! j) = ''R_BRACE'' then brace_before toks j
      else if is_name_tok (tk_type (toks ! j)) then Some (name_before toks j)
      else if is_atomic_token (toks ! j) then Some j
      else None)"

function brace_after :: "raw_token list \<Rightarrow> nat \<Rightarrow> nat option" where
  "brace_after toks j =
     (if j \<ge> length toks then None
      else
        let t = tk_type (toks ! j)
        in if t = ''R_BRACE'' then Some (j + 1)
           else if is_open_bracket t \<or> is_close_bracket t then None
           else brace_after toks (j + 1))"
  by pat_completeness auto
termination by (relation "measure (\<lambda>(toks, j). length toks - j)") auto

function name_after :: "raw_token list \<Rightarrow> nat \<Rightarrow> nat" where
  "name_after toks k =
     (if k + 2 < length toks \<and> tk_type (toks ! (k + 1)) = ''DOT'' \<and> is_name_tok (tk_type (toks ! (k + 2)))
      then name_after toks (k + 2) else k + 1)"
  by pat_completeness auto
termination by (relation "measure (\<lambda>(toks, k). length toks - k)") auto

declare brace_after.simps [simp del] name_after.simps [simp del]

definition operand_after :: "raw_token list \<Rightarrow> nat \<Rightarrow> nat option" where
  "operand_after toks k =
     (if k \<ge> length toks then None
      else if tk_type (toks ! k) = ''L_BRACE'' then brace_after toks (k + 1)
      else if is_name_tok (tk_type (toks ! k)) then Some (name_after toks k)
      else if is_atomic_token (toks ! k) then Some (k + 1)
      else None)"

section \<open>Token classes\<close>

definition opens_expression :: "gostring list" where
  "opens_expression =
     [''L_PAREN'', ''COMMA'', ''SELECT'', ''DISTINCT'', ''WHERE'', ''PREWHERE'', ''HAVING'',
      ''WHEN'', ''THEN'', ''ELSE'', ''BY'', ''AND'', ''OR'']"

definition closes_expression :: "gostring list" where
  "closes_expression =
     [''R_PAREN'', ''COMMA'', ''SEMICOLON'', ''FROM'', ''WHERE'', ''PREWHERE'', ''GROUP'',
      ''ORDER'', ''HAVING'', ''LIMIT'', ''SETTINGS'', ''FORMAT'', ''AS'', ''WHEN'', ''THEN'',
      ''ELSE'', ''END'', ''AND'', ''OR'', ''ASC'', ''DESC'', ''UNION'']"

definition and_borders :: "gostring list" where
  "and_borders =
     [''COMMA'', ''SELECT'', ''WHERE'', ''PREWHERE'', ''HAVING'', ''WHEN'', ''THEN'', ''ELSE'',
      ''BY'', ''OR'', ''ON'', ''ARROW'']"

definition and_chain_operators :: "gostring list" where
  "and_chain_operators =
     [''DOT'', ''EQ'', ''NEQ'', ''LT'', ''GT'', ''LTE'', ''GTE'', ''NULLSAFE_EQ'', ''PLUS'',
      ''DASH'', ''STAR'', ''SLASH'', ''PERCENT'', ''D_PIPE'', ''NOT'', ''LIKE'', ''I_LIKE'',
      ''R_LIKE'', ''IN'', ''IS'', ''D_COLON'', ''INTERVAL'', ''CAST'', ''DATE'', ''EXISTS'']"

definition ternary_operators :: "gostring list" where
  "ternary_operators =
     [''EQ'', ''NEQ'', ''LT'', ''GT'', ''LTE'', ''GTE'', ''PLUS'', ''DASH'', ''STAR'', ''SLASH'',
      ''PERCENT'', ''D_PIPE'', ''AND'', ''OR'', ''NOT'', ''LIKE'', ''I_LIKE'', ''IN'',
      ''BETWEEN'', ''IS'', ''DOT'']"

definition ternary_else_rejects :: "gostring list" where
  "ternary_else_rejects =
     [''OR'']"

definition ternary_opens :: "gostring list" where
  "ternary_opens =
     [''COMMA'', ''SELECT'', ''DISTINCT'', ''WHERE'', ''PREWHERE'', ''HAVING'', ''WHEN'',
      ''THEN'', ''ELSE'', ''BY'', ''ARROW'']"

definition ternary_closes :: "gostring list" where
  "ternary_closes =
     [''COMMA'', ''SEMICOLON'', ''FROM'', ''WHERE'', ''PREWHERE'', ''GROUP'', ''ORDER'',
      ''HAVING'', ''LIMIT'', ''SETTINGS'', ''FORMAT'', ''AS'', ''WHEN'', ''THEN'', ''ELSE'',
      ''END'', ''ASC'', ''DESC'', ''UNION'']"

definition keyword_name_tokens :: "gostring list" where
  "keyword_name_tokens =
     [''ADD'', ''AFTER'', ''ALTER'', ''AND'', ''ANTI'', ''ANY'', ''APPLY'', ''AS'', ''ASC'',
      ''AS_OF'', ''AUTO_INCREMENT'', ''BY'', ''CASCADE'', ''CHECK'', ''CLUSTER'', ''COLLATE'',
      ''COLUMN'', ''COMMENT'', ''COMMIT'', ''CONSTRAINT'', ''COPY'', ''CREATE'', ''CROSS'',
      ''CUBE'', ''CURRENT'', ''DATABASE'', ''DATE'', ''DEFAULT'', ''DELETE'', ''DESC'',
      ''DESCRIBE'', ''DISTINCT'', ''DROP'', ''ELSE'', ''END'', ''ESCAPE'', ''EXCEPT'',
      ''EXECUTE'', ''FETCH'', ''FILTER'', ''FINAL'', ''FIRST'', ''FOLLOWING'', ''FOR'',
      ''FOREIGN_KEY'', ''FORMAT'', ''FROM'', ''FULL'', ''FUNCTION'', ''GRANT'', ''GROUPS'',
      ''HAVING'', ''INDEX'', ''INNER'', ''INTERSECT'', ''JOIN'', ''KEY'', ''KILL'', ''LANGUAGE'',
      ''LAST'', ''LEFT'', ''LIMIT'', ''LOCAL'', ''MATCH'', ''MATERIALIZED'', ''NATURAL'',
      ''NEXT'', ''NULLS'', ''OFFSET'', ''ON'', ''ONLY'', ''OR'', ''OUTER'', ''OVER'',
      ''PARTITION'', ''PLACING'', ''PRECEDING'', ''PREPARE'', ''PREWHERE'', ''PRIMARY_KEY'',
      ''QUALIFY'', ''RANGE'', ''RECURSIVE'', ''REFERENCES'', ''REFRESH'', ''RENAME'',
      ''REPLACE'', ''RESTRICT'', ''RETURNS'', ''REVOKE'', ''RIGHT'', ''ROLLBACK'', ''ROLLUP'',
      ''ROW'', ''ROWS'', ''SAMPLE'', ''SELECT'', ''SEMI'', ''SET'', ''SETTINGS'', ''SHOW'',
      ''SOME'', ''SYSTEM'', ''TABLE'', ''TEMPORARY'', ''TIMESTAMP'', ''TO'', ''TRANSACTION'',
      ''TRIGGER'', ''TRUNCATE'', ''TYPE'', ''UNBOUNDED'', ''UNION'', ''UNIQUE'', ''UPDATE'',
      ''USE'', ''VALUES'', ''VIEW'', ''WHEN'', ''WHERE'', ''WINDOW'', ''WITH'']"

section \<open>Logical ANDs\<close>

definition unit_closer :: "gostring \<Rightarrow> gostring" where
  "unit_closer opening = (if opening = ''CASE'' then ''END'' else closer_of opening)"

definition and_chain_token :: "raw_token list \<Rightarrow> nat \<Rightarrow> bool" where
  "and_chain_token toks k =
     (let tk = toks ! k;
          prev = (if k > 0 then tk_type (toks ! (k - 1)) else [])
      in if tk_type tk = ''DISTINCT'' then prev = ''SELECT'' \<or> prev = ''IS'' \<or> prev = ''NOT''
         else if tk_type tk = ''FROM'' then
           prev = ''DISTINCT'' \<and> k \<ge> 2 \<and>
           (tk_type (toks ! (k - 2)) = ''IS'' \<or> tk_type (toks ! (k - 2)) = ''NOT'')
         else if tk_type tk = ''IDENTIFIER'' then True
         else is_atomic_token tk \<or> tk_type tk \<in> set and_chain_operators)"

text \<open>
  The scan back over the AND's left operand chain. \<open>opened\<close> holds the closing tokens still to be matched,
  innermost first; \<open>chain\<close> the chain's own BETWEEN and AND tokens, leftmost first. \<^const>\<open>None\<close> is the
  early \<open>return false\<close>.
\<close>

fun and_scan :: "raw_token list \<Rightarrow> nat \<Rightarrow> gostring list \<Rightarrow> nat list \<Rightarrow> (gostring list \<times> nat list) option" where
  "and_scan toks 0 opened chain = Some (opened, chain)"
| "and_scan toks (Suc k) opened chain =
     (let t = tk_type (toks ! k)
      in if is_close_bracket t \<or> t = ''END'' then and_scan toks k (t # opened) chain
         else if is_open_bracket t \<or> t = ''CASE'' then
           (case opened of
              [] \<Rightarrow> Some (opened, chain)
            | closing # rest \<Rightarrow> if unit_closer t \<noteq> closing then None else and_scan toks k rest chain)
         else if opened \<noteq> [] then and_scan toks k opened chain
         else if t \<in> set and_borders then Some (opened, chain)
         else if t = ''BETWEEN'' \<or> t = ''AND'' then and_scan toks k opened (k # chain)
         else if \<not> and_chain_token toks k then None
         else and_scan toks k opened chain)"

text \<open>\<open>owned\<close>: a BETWEEN before this point still owns the next AND.\<close>

fun chain_owned :: "raw_token list \<Rightarrow> nat list \<Rightarrow> bool \<Rightarrow> bool" where
  "chain_owned toks [] owned = (\<not> owned)"
| "chain_owned toks (k # ks) owned =
     (if tk_type (toks ! k) = ''BETWEEN'' then (if owned then False else chain_owned toks ks True)
      else chain_owned toks ks False)"

definition is_logical_and :: "raw_token list \<Rightarrow> nat \<Rightarrow> bool" where
  "is_logical_and toks j =
     (case and_scan toks j [] [] of
        None \<Rightarrow> False
      | Some (opened, chain) \<Rightarrow> if opened \<noteq> [] then False else chain_owned toks chain False)"

section \<open>Isolated operators\<close>

definition isolated :: "raw_token list \<Rightarrow> nat \<Rightarrow> nat \<Rightarrow> bool" where
  "isolated toks first final =
     (case (if first = 0 then None else operand_before toks (first - 1), operand_after toks (final + 1)) of
        (Some start, Some stop) \<Rightarrow>
          if stop < length toks \<and> tk_type (toks ! stop) \<notin> set closes_expression then False
          else if start = 0 then True
          else
            let b = tk_type (toks ! (start - 1))
            in b \<in> set opens_expression \<and> (b \<noteq> ''AND'' \<or> is_logical_and toks (start - 1))
      | _ \<Rightarrow> False)"

section \<open>Ternaries\<close>

text \<open>The first token of the ternary, and one past its last.\<close>

fun ternary_start :: "raw_token list \<Rightarrow> nat \<Rightarrow> nat \<Rightarrow> nat" where
  "ternary_start toks 0 depth = 0"
| "ternary_start toks (Suc k) depth =
     (let t = tk_type (toks ! k)
      in if is_close_bracket t then ternary_start toks k (depth + 1)
         else if is_open_bracket t then
           (if depth = 0 then k + 1 else ternary_start toks k (depth - 1))
         else if depth = 0 \<and> t \<in> set ternary_opens then k + 1
         else ternary_start toks k depth)"

function ternary_end :: "raw_token list \<Rightarrow> nat \<Rightarrow> nat \<Rightarrow> nat" where
  "ternary_end toks k depth =
     (if k \<ge> length toks then length toks
      else
        let t = tk_type (toks ! k)
        in if is_open_bracket t then ternary_end toks (k + 1) (depth + 1)
           else if is_close_bracket t then
             (if depth = 0 then k else ternary_end toks (k + 1) (depth - 1))
           else if depth = 0 \<and> t \<in> set ternary_closes then k
           else ternary_end toks (k + 1) depth)"
  by pat_completeness auto
termination by (relation "measure (\<lambda>(toks, k, depth). length toks - k)") auto

declare ternary_end.simps [simp del]

fun ternary_scan ::
    "raw_token list \<Rightarrow> nat \<Rightarrow> nat list \<Rightarrow> int \<Rightarrow> nat option \<Rightarrow> bool \<Rightarrow> nat option" where
  "ternary_scan toks q [] depth colon afterOperand = (if afterOperand then colon else None)"
| "ternary_scan toks q (k # ks) depth colon afterOperand =
     (let tk = toks ! k; t = tk_type tk
      in if is_open_bracket t then
           (if depth = 0 \<and> afterOperand \<and> t \<noteq> ''L_BRACKET'' \<and>
               \<not> (t = ''L_PAREN'' \<and> is_name_tok (tk_type (toks ! (k - 1))))
            then None
            else ternary_scan toks q ks (depth + 1) colon afterOperand)
         else if is_close_bracket t then
           ternary_scan toks q ks (depth - 1) colon (if depth - 1 = 0 then True else afterOperand)
         else if depth > 0 then ternary_scan toks q ks depth colon afterOperand
         else if k = q \<or> (t = ''COLON'' \<and> colon = None \<and> k > q) then
           (if \<not> afterOperand then None
            else ternary_scan toks q ks depth (if k \<noteq> q then Some k else colon) False)
         else if is_atomic_token tk then
           (if afterOperand then None else ternary_scan toks q ks depth colon True)
         else if colon \<noteq> None \<and> t \<in> set ternary_else_rejects then None
         else if t \<in> set ternary_operators then ternary_scan toks q ks depth colon False
         else None)"

definition ternary_colon :: "raw_token list \<Rightarrow> nat \<Rightarrow> nat option" where
  "ternary_colon toks q =
     ternary_scan toks q [ternary_start toks q 0 ..< ternary_end toks (q + 1) 0] 0 None False"

section \<open>Keywords read as columns\<close>

text \<open>\<open>json.Number.Int64\<close>, on the integer texts JSON allows.\<close>

definition parse_int64 :: "gostring \<Rightarrow> int option" where
  "parse_int64 s =
     (let neg = has_prefix s ''-''; ds = (if neg then drop 1 s else s);
          v = (if neg then - int (digits_value 10 ds) else int (digits_value 10 ds))
      in if \<not> is_digits ds \<or> v < - (2 ^ 63) \<or> v \<ge> 2 ^ 63 then None else Some v)"

definition json_int :: "json \<Rightarrow> int option" where
  "json_int v = (case v of JNumber s \<Rightarrow> parse_int64 s | _ \<Rightarrow> None)"

definition unquoted_span :: "gostring \<Rightarrow> json \<Rightarrow> (nat \<times> nat) list" where
  "unquoted_span sql ident =
     (if field ''quoted'' ident \<noteq> JBool False then []
      else
        let span = field ''span'' ident
        in case (json_int (field ''start'' span), json_int (field ''end'' span)) of
             (Some start, Some stop) \<Rightarrow>
               (case byte_range sql start stop of Some r \<Rightarrow> [r] | None \<Rightarrow> [])
           | _ \<Rightarrow> [])"

text \<open>The spans of the unquoted names of the column nodes of the AST (\<open>walk\<close>).\<close>

fun column_spans :: "gostring \<Rightarrow> json \<Rightarrow> (nat \<times> nat) list" where
  "column_spans sql (JObject m) =
     (if is_object (field ''column'' (JObject m)) \<and> length m = 1
      then unquoted_span sql (field ''name'' (field ''column'' (JObject m)))
         @ unquoted_span sql (field ''table'' (field ''column'' (JObject m)))
      else [])
     @ concat (map (\<lambda>kv. column_spans sql (snd kv)) m)"
| "column_spans sql (JArray vs) = concat (map (column_spans sql) vs)"
| "column_spans sql _ = []"

definition keyword_as_name :: "(nat \<times> nat) list \<Rightarrow> raw_token \<Rightarrow> raw_token" where
  "keyword_as_name spans tk =
     (if tk_type tk \<notin> set keyword_name_tokens \<or> (tk_start tk, tk_end tk) \<notin> set spans
         \<or> \<not> is_word_start (tk_source tk)
      then tk else tk\<lparr>tk_type := ''VAR''\<rparr>)"

definition keyword_columns_as_names :: "gostring \<Rightarrow> raw_token list \<Rightarrow> json \<Rightarrow> raw_token list" where
  "keyword_columns_as_names sql toks ast =
     (if \<not> list_ex (\<lambda>tk. tk_type tk \<in> set keyword_name_tokens \<and> tk_source tk \<noteq> [] \<and>
                          is_word_start (tk_source tk)) toks then toks
      else let spans = column_spans sql ast
           in if spans = [] then toks else map (keyword_as_name spans) toks)"

end
