(* ===== verification/Fidelity.thy ===== *)
theory Fidelity
  imports Precedence
begin

text \<open>
  \<open>regenerated.go\<close>: the fidelity gate. The input and the regenerated SQL are tokenized and reduced to
  multisets of spellings, which must agree apart from neutral additions; column modifiers keep their
  order, and no regenerated bare token holds a \<open>#\<close>. \<open>upper\<close> is \<open>strings.ToUpper\<close> where its result is a
  key (see \<open>Lexeme\<close>).
\<close>

section \<open>Spelling one token\<close>

definition token_text :: "gostring \<Rightarrow> raw_token \<Rightarrow> gostring" where
  "token_text src tk = substring (tk_start tk) (tk_end tk) src"

definition number_spelling :: "gostring \<Rightarrow> raw_token \<Rightarrow> bool \<Rightarrow> spelling" where
  "number_spelling src tk input =
     (let raw = token_text src tk
      in if tk_end tk < length src \<and> engine_word_byte (src ! tk_end tk) then undecodable raw input
         else case number_key raw of
                None \<Rightarrow> undecodable raw input
              | Some k \<Rightarrow> mk_spelling (''N:'' @ k) raw)"

definition no_spelling :: spelling where
  "no_spelling = mk_spelling [] []"

definition spelling_of ::
    "(gostring \<Rightarrow> gostring) \<Rightarrow> gostring \<Rightarrow> raw_token \<Rightarrow> gostring \<Rightarrow> bool \<Rightarrow> bool \<Rightarrow> spelling" where
  "spelling_of upper src tk prev input quoted =
     (let raw = token_text src tk; t = tk_type tk
      in if t \<in> {''COMMA'', ''L_PAREN'', ''R_PAREN'', ''DOT'', ''SEMICOLON''} then no_spelling
         else if t = ''NUMBER'' \<or> t = ''HEX_NUMBER'' then number_spelling src tk input
         else if t = ''IDENTIFIER'' then
           (if is_number_like raw then number_spelling src tk input
            else mk_spelling (''O:IDENTIFIER:'' @ raw) raw)
         else if t = ''EQ'' \<or> t = ''NEQ'' then mk_spelling (''O:'' @ t) t
         else if is_quoted_lexeme t then
           (let sp = literal_spelling upper raw prev input
            in if quoted \<and> has_prefix (sp_key sp) ''W:'' \<and> is_quoted_identifier raw
               then mk_spelling (''Q:'' @ drop 2 (sp_key sp)) raw else sp)
         else if tk_text tk = [] then no_spelling
         else if t = ''VAR'' \<or> is_word_start (tk_text tk)
           then word_spelling (fold_class (upper (tk_text tk)))
         else mk_spelling (''O:'' @ t @ '':'' @ tk_text tk) t)"

section \<open>Reducing a token stream\<close>

definition negated_operators :: "gostring list" where
  "negated_operators = [''W:LIKE'', ''W:ILIKE'', ''W:IN'', ''W:BETWEEN'', ''W:REGEXP'']"

definition call_next :: "raw_token list \<Rightarrow> nat \<Rightarrow> bool" where
  "call_next toks i \<longleftrightarrow> i + 1 < length toks \<and> tk_type (toks ! (i + 1)) = ''L_PAREN''"

text \<open>The operators that the regeneration still spells the input's way, as a list of keys.\<close>

definition operator_kept :: "raw_token list \<Rightarrow> nat \<Rightarrow> gostring list" where
  "operator_kept toks i =
     (let tk = toks ! i; w = to_upper (tk_text tk)
      in if tk_type tk = ''NULLSAFE_EQ'' \<or> tk_type tk = ''PARAMETER'' \<and> tk_text tk = ''?'' then [tk_text tk]
         else if (w = ''DIV'' \<or> w = ''MOD'' \<or> w = ''REGEXP'') \<and> \<not> call_next toks i then [w]
         else if tk_type tk = ''NOT'' \<and> i + 1 < length toks \<and>
              (tk_type (toks ! (i + 1)) = ''LIKE'' \<or> tk_type (toks ! (i + 1)) = ''I_LIKE'')
           then [''NOT '' @ to_upper (tk_text (toks ! (i + 1)))]
         else [])"

definition operators_kept :: "raw_token list \<Rightarrow> gostring list" where
  "operators_kept toks = concat (map (operator_kept toks) [0..<length toks])"

text \<open>The key of the last spelling, or \<open>''''\<close>.\<close>

definition last_key :: "spelling list \<Rightarrow> gostring" where
  "last_key out = (if out = [] then [] else sp_key (last out))"

text \<open>
  One iteration of the loop: what it appends, how many further tokens it consumes, and the later
  token it marks to be skipped. The first definition is the switch that applies to both sides, and is
  \<^const>\<open>None\<close> when it drops the token.
\<close>

definition shared_spelling ::
    "(nat \<Rightarrow> gostring \<Rightarrow> spelling) \<Rightarrow> (gostring \<Rightarrow> gostring) \<Rightarrow> raw_token list \<Rightarrow> nat \<Rightarrow> spelling list
       \<Rightarrow> spelling option" where
  "shared_spelling spell upper toks i out =
     (let tk = toks ! i; sp = spell i (last_key out)
      in if sp_key sp = [] \<or> sp_key sp = ''W:TABLE'' then None
         else if last_key out = ''W:STRING'' \<and> tk_type tk = ''NUMBER'' \<and> i > 0 \<and>
              tk_type (toks ! (i - 1)) = ''L_PAREN'' then None
         else if tk_type tk = ''STRING'' \<and> has_prefix (sp_key sp) ''S:'' \<and> length out \<ge> 2 \<and>
              sp_key (out ! (length out - 2)) = ''W:DEFINER'' \<and> last_key out = ''O:EQ''
           then Some (word_spelling (upper (drop 2 (sp_key sp))))
         else if sp_key sp = ''W:NOT'' \<and> i + 1 < length toks then
           (let next = spell (i + 1) (sp_key sp)
            in if sp_key next \<in> set negated_operators
               then Some (word_spelling (''NOT '' @ drop 2 (sp_key next))) else Some sp)
         else Some sp)"

definition position_in :: "raw_token list \<Rightarrow> nat \<Rightarrow> nat list" where
  "position_in toks i =
     (case operand_after toks (i + 2) of
        None \<Rightarrow> []
      | Some n \<Rightarrow>
          if n < length toks \<and> tk_type (toks ! n) = ''IN'' then
            (case operand_after toks (n + 1) of
               None \<Rightarrow> []
             | Some stop \<Rightarrow>
                 if stop < length toks \<and> tk_type (toks ! stop) = ''R_PAREN'' then [n] else [])
          else [])"

definition input_respelling ::
    "(nat \<Rightarrow> gostring \<Rightarrow> spelling) \<Rightarrow> raw_token list \<Rightarrow> gostring list \<Rightarrow> nat \<Rightarrow> spelling list
       \<Rightarrow> spelling \<Rightarrow> spelling list \<times> nat \<times> nat list" where
  "input_respelling spell toks kept i out sp =
     (let tk = toks ! i; key = sp_key sp
      in if key = ''W:NULLS'' \<and> i + 1 < length toks \<and> sp_key (spell (i + 1) key) = ''W:LAST''
           then ([], 1, [])
         else if key = ''W:ALL'' \<and> last_key out = ''W:SELECT'' then ([], 0, [])
         else if key = ''W:TOP'' then ([word_spelling ''LIMIT''], 0, [])
         else if key = ''W:DIV'' \<and> ''DIV'' \<notin> set kept \<and> isolated toks i i
           then ([word_spelling ''INTDIV''], 0, [])
         else if key = ''W:MOD'' \<and> \<not> call_next toks i \<and> ''MOD'' \<notin> set kept \<and> isolated toks i i
           then ([mk_spelling ''O:PERCENT:%'' ''PERCENT''], 0, [])
         else if key = ''W:REGEXP'' \<and> \<not> call_next toks i \<and> ''REGEXP'' \<notin> set kept \<and> isolated toks i i
           then ([word_spelling ''MATCH''], 0, [])
         else if tk_type tk = ''NULLSAFE_EQ'' \<and> ''<=>'' \<notin> set kept \<and> isolated toks i i
           then (map word_spelling [''IS'', ''NOT'', ''DISTINCT'', ''FROM''], 0, [])
         else if (key = ''W:NOT LIKE'' \<or> key = ''W:NOT ILIKE'') \<and> drop 2 key \<notin> set kept \<and>
              isolated toks i (i + 1)
           then ([word_spelling ''NOT''], 0, [])
         else if tk_type tk = ''PARAMETER'' \<and> tk_text tk = ''?'' \<and> ''?'' \<notin> set kept then
           (case ternary_colon toks i of
              Some c \<Rightarrow> ([word_spelling ''IF''], 0, [c])
            | None \<Rightarrow> ([sp], 0, []))
         else if key = ''W:POSITION'' \<and> call_next toks i then ([sp], 0, position_in toks i)
         else if key = ''W:LIMIT'' \<and> i + 3 < length toks \<and> tk_type (toks ! (i + 2)) = ''COMMA''
           then ([sp, spell (i + 1) key, spell (i + 3) [], word_spelling ''OFFSET''], 3, [])
         else ([sp], 0, []))"

definition fidelity_step ::
    "(nat \<Rightarrow> gostring \<Rightarrow> spelling) \<Rightarrow> (gostring \<Rightarrow> gostring) \<Rightarrow> raw_token list \<Rightarrow> bool \<Rightarrow> gostring list
       \<Rightarrow> nat \<Rightarrow> spelling list \<Rightarrow> spelling list \<times> nat \<times> nat list" where
  "fidelity_step spell upper toks input kept i out =
     (case shared_spelling spell upper toks i out of
        None \<Rightarrow> ([], 0, [])
      | Some sp \<Rightarrow> if input then input_respelling spell toks kept i out sp else ([sp], 0, []))"

function fidelity_loop ::
    "(nat \<Rightarrow> gostring \<Rightarrow> spelling) \<Rightarrow> (gostring \<Rightarrow> gostring) \<Rightarrow> raw_token list \<Rightarrow> bool \<Rightarrow> gostring list
       \<Rightarrow> nat \<Rightarrow> spelling list \<Rightarrow> nat list \<Rightarrow> spelling list" where
  "fidelity_loop spell upper toks input kept i out skip =
     (if i \<ge> length toks then out
      else if i \<in> set skip then fidelity_loop spell upper toks input kept (i + 1) out skip
      else
        let step = fidelity_step spell upper toks input kept i out
        in fidelity_loop spell upper toks input kept (i + 1 + fst (snd step)) (out @ fst step)
             (skip @ snd (snd step)))"
  by pat_completeness auto
termination
  by (relation "measure (\<lambda>(spell, upper, toks, input, kept, i, out, skip). length toks - i)") auto

declare fidelity_loop.simps [simp del]

definition fidelity_spellings ::
    "(gostring \<Rightarrow> gostring) \<Rightarrow> gostring \<Rightarrow> raw_token list \<Rightarrow> bool \<Rightarrow> gostring list \<Rightarrow> bool \<Rightarrow> spelling list" where
  "fidelity_spellings upper src toks input kept quoted =
     fidelity_loop (\<lambda>i prev. spelling_of upper src (toks ! i) prev input quoted) upper toks input kept 0 [] []"

section \<open>The difference of two multisets of spellings\<close>

definition spelling_count :: "gostring \<Rightarrow> spelling list \<Rightarrow> nat" where
  "spelling_count k sps = length (filter (\<lambda>s. sp_key s = k) sps)"

definition spelling_balance :: "spelling list \<Rightarrow> spelling list \<Rightarrow> gostring \<Rightarrow> int" where
  "spelling_balance lhs rhs k = int (spelling_count k lhs) - int (spelling_count k rhs)"

text \<open>A comma join is printed as CROSS JOIN: that many CROSS and JOIN are added back.\<close>

definition adjusted_balance :: "spelling list \<Rightarrow> spelling list \<Rightarrow> gostring \<Rightarrow> int" where
  "adjusted_balance lhs rhs k =
     (let c = spelling_balance lhs rhs ''W:CROSS''; j = spelling_balance lhs rhs ''W:JOIN''
      in if c < 0 \<and> j < 0 \<and> (k = ''W:CROSS'' \<or> k = ''W:JOIN'')
         then spelling_balance lhs rhs k + min (- c) (- j)
         else spelling_balance lhs rhs k)"

text \<open>
  The text that names a key: that of its first spelling in the input, or, when the output has more of
  it than the input, of its last spelling in the output.
\<close>

definition shown :: "spelling list \<Rightarrow> spelling list \<Rightarrow> gostring \<Rightarrow> gostring" where
  "shown lhs rhs k =
     (let r = filter (\<lambda>s. sp_key s = k) rhs; l = filter (\<lambda>s. sp_key s = k) lhs
      in if length r > length l then sp_show (last r) else if l = [] then [] else sp_show (hd l))"

definition neutral_addition :: "gostring \<Rightarrow> bool" where
  "neutral_addition k \<longleftrightarrow> k = ''W:AS'' \<or> k = ''O:EQ''"

definition spelling_keys :: "spelling list \<Rightarrow> spelling list \<Rightarrow> gostring list" where
  "spelling_keys lhs rhs = sort (remdups (map sp_key (lhs @ rhs)))"

definition spelling_diff ::
    "spelling list \<Rightarrow> spelling list \<Rightarrow> gostring list \<times> gostring list" where
  "spelling_diff lhs rhs =
     (concat (map (\<lambda>k. replicate (nat (adjusted_balance lhs rhs k)) (shown lhs rhs k))
        (spelling_keys lhs rhs)),
      concat (map (\<lambda>k. if neutral_addition k then []
                        else replicate (nat (- adjusted_balance lhs rhs k)) (shown lhs rhs k))
        (spelling_keys lhs rhs)))"

section \<open>Column modifiers\<close>

definition bare_word :: "gostring \<Rightarrow> raw_token \<Rightarrow> gostring" where
  "bare_word src tk =
     (let raw = token_text src tk
      in if raw = [] \<or> \<not> is_word_start raw then [] else to_upper raw)"

text \<open>\<open>skipName\<close> and \<open>skipIfExists\<close>.\<close>

function skip_dots :: "raw_token list \<Rightarrow> nat \<Rightarrow> nat" where
  "skip_dots toks i =
     (if i + 1 < length toks \<and> tk_type (toks ! i) = ''DOT'' then skip_dots toks (i + 2) else i)"
  by pat_completeness auto
termination by (relation "measure (\<lambda>(toks, i). length toks - i)") auto

definition skip_name :: "raw_token list \<Rightarrow> nat \<Rightarrow> nat" where
  "skip_name toks i = skip_dots toks (i + 1)"

function skip_exists_words :: "gostring \<Rightarrow> raw_token list \<Rightarrow> nat \<Rightarrow> nat" where
  "skip_exists_words src toks i =
     (if i < length toks \<and> bare_word src (toks ! i) \<in> {''IF'', ''NOT'', ''EXISTS''}
      then skip_exists_words src toks (i + 1) else i)"
  by pat_completeness auto
termination by (relation "measure (\<lambda>(src, toks, i). length toks - i)") auto

declare skip_dots.simps [simp del] skip_exists_words.simps [simp del]

definition skip_if_exists :: "gostring \<Rightarrow> raw_token list \<Rightarrow> nat \<Rightarrow> nat" where
  "skip_if_exists src toks i =
     (if bare_word src (toks ! min i (length toks - 1)) = ''IF'' then skip_exists_words src toks i else i)"

lemma skip_dots_ge: "i \<le> skip_dots toks i"
proof (induction toks i rule: skip_dots.induct)
  case (1 toks i)
  then show ?case by (subst skip_dots.simps) auto
qed

lemma skip_exists_words_ge: "i \<le> skip_exists_words src toks i"
proof (induction src toks i rule: skip_exists_words.induct)
  case (1 src toks i)
  then show ?case by (subst skip_exists_words.simps) auto
qed

lemma skip_if_exists_ge: "i \<le> skip_if_exists src toks i"
  by (simp add: skip_if_exists_def skip_exists_words_ge)

lemma skip_name_gt: "i < skip_name toks i"
  using skip_dots_ge [of "i + 1" toks] by (simp add: skip_name_def)

text \<open>\<open>appendColumnEntry\<close>: the range of an entry of a column list, without the column's name.\<close>

function entry_name_end :: "raw_token list \<Rightarrow> nat \<Rightarrow> nat \<Rightarrow> nat" where
  "entry_name_end toks stop i =
     (if i + 1 < stop \<and> tk_type (toks ! i) = ''DOT'' then entry_name_end toks stop (i + 2) else i)"
  by pat_completeness auto
termination by (relation "measure (\<lambda>(toks, stop, i). stop - i)") auto

declare entry_name_end.simps [simp del]

definition column_entry :: "gostring \<Rightarrow> raw_token list \<Rightarrow> nat \<Rightarrow> nat \<Rightarrow> (nat \<times> nat) list" where
  "column_entry src toks start stop =
     (if start \<ge> stop then []
      else if bare_word src (toks ! start) \<in> {''INDEX'', ''PROJECTION'', ''CONSTRAINT'', ''PRIMARY''} then []
      else [(entry_name_end toks stop (start + 1), stop)])"

function column_entries ::
    "gostring \<Rightarrow> raw_token list \<Rightarrow> nat \<Rightarrow> nat \<Rightarrow> nat \<Rightarrow> (nat \<times> nat) list" where
  "column_entries src toks depth start j =
     (if j \<ge> length toks then []
      else
        let t = tk_type (toks ! j)
        in if t = ''L_PAREN'' then column_entries src toks (depth + 1) start (j + 1)
           else if t = ''R_PAREN'' then
             (if depth = 0 then column_entry src toks start j
              else column_entries src toks (depth - 1) start (j + 1))
           else if t = ''COMMA'' \<and> depth = 0 then
             column_entry src toks start j @ column_entries src toks depth (j + 1) (j + 1)
           else column_entries src toks depth start (j + 1))"
  by pat_completeness auto
termination by (relation "measure (\<lambda>(src, toks, depth, start, j). length toks - j)") auto

declare column_entries.simps [simp del]

text \<open>
  The header of a CREATE: the object keyword before any parenthesis, then the clauses between the name
  and the column list.
\<close>

function object_keyword :: "gostring \<Rightarrow> raw_token list \<Rightarrow> nat \<Rightarrow> nat" where
  "object_keyword src toks i =
     (if i < length toks \<and> tk_type (toks ! i) \<noteq> ''L_PAREN'' \<and>
         bare_word src (toks ! i) \<notin> {''TABLE'', ''VIEW'', ''DICTIONARY''}
      then object_keyword src toks (i + 1) else i)"
  by pat_completeness auto
termination by (relation "measure (\<lambda>(src, toks, i). length toks - i)") auto

function header_clauses :: "gostring \<Rightarrow> raw_token list \<Rightarrow> nat \<Rightarrow> nat" where
  "header_clauses src toks i =
     (if i \<ge> length toks then i
      else if bare_word src (toks ! i) = ''UUID'' then header_clauses src toks (i + 2)
      else if bare_word src (toks ! i) = ''ON'' then header_clauses src toks (i + 3)
      else if bare_word src (toks ! i) = ''TO'' then header_clauses src toks (skip_name toks (i + 1))
      else i)"
  by pat_completeness auto
termination
proof (relation "measure (\<lambda>(src, toks, i). length toks - i)", goal_cases)
  case (4 src toks i)
  then show ?case using skip_name_gt [of "i + 1" toks] by simp
qed auto

declare object_keyword.simps [simp del] header_clauses.simps [simp del]

definition create_declarations :: "gostring \<Rightarrow> raw_token list \<Rightarrow> (nat \<times> nat) list" where
  "create_declarations src toks =
     (let i = object_keyword src toks 1
      in if i \<ge> length toks \<or> tk_type (toks ! i) = ''L_PAREN'' then []
         else
           let i = skip_if_exists src toks (i + 1)
           in if i \<ge> length toks then []
              else
                let i = header_clauses src toks (skip_name toks i)
                in if i \<ge> length toks \<or> tk_type (toks ! i) \<noteq> ''L_PAREN'' then []
                   else column_entries src toks 0 (i + 1) (i + 1))"

text \<open>The end of an ALTER ... COLUMN declaration: the next comma outside parentheses.\<close>

function declaration_end :: "raw_token list \<Rightarrow> int \<Rightarrow> nat \<Rightarrow> nat" where
  "declaration_end toks d i =
     (if i \<ge> length toks then i
      else if tk_type (toks ! i) = ''L_PAREN'' then declaration_end toks (d + 1) (i + 1)
      else if tk_type (toks ! i) = ''R_PAREN'' then declaration_end toks (d - 1) (i + 1)
      else if tk_type (toks ! i) = ''COMMA'' \<and> d = 0 then i
      else declaration_end toks d (i + 1))"
  by pat_completeness auto
termination by (relation "measure (\<lambda>(toks, d, i). length toks - i)") auto

declare declaration_end.simps [simp del]

lemma declaration_end_ge: "i \<le> declaration_end toks d i"
proof (induction toks d i rule: declaration_end.induct)
  case (1 toks d i)
  then show ?case by (subst declaration_end.simps) auto
qed

function alter_declarations :: "gostring \<Rightarrow> raw_token list \<Rightarrow> int \<Rightarrow> nat \<Rightarrow> (nat \<times> nat) list" where
  "alter_declarations src toks depth i =
     (if i \<ge> length toks then []
      else if tk_type (toks ! i) = ''L_PAREN'' then alter_declarations src toks (depth + 1) (i + 1)
      else if tk_type (toks ! i) = ''R_PAREN'' then alter_declarations src toks (depth - 1) (i + 1)
      else if depth = 0 \<and> i + 1 < length toks \<and> bare_word src (toks ! i) \<in> {''ADD'', ''MODIFY''} \<and>
              bare_word src (toks ! (i + 1)) = ''COLUMN'' then
        (if skip_if_exists src toks (i + 2) \<ge> length toks then []
         else (skip_name toks (skip_if_exists src toks (i + 2)),
               declaration_end toks 0 (skip_name toks (skip_if_exists src toks (i + 2))))
              # alter_declarations src toks depth
                  (declaration_end toks 0 (skip_name toks (skip_if_exists src toks (i + 2)))))
      else alter_declarations src toks depth (i + 1))"
  by pat_completeness auto
termination
proof (relation "measure (\<lambda>(src, toks, depth, i). length toks - i)", goal_cases)
  case (4 src toks depth i)
  have "i < declaration_end toks 0 (skip_name toks (skip_if_exists src toks (i + 2)))"
    using skip_if_exists_ge [of "i + 2" src toks] skip_name_gt [of "skip_if_exists src toks (i + 2)" toks]
      declaration_end_ge [of "skip_name toks (skip_if_exists src toks (i + 2))" toks 0] by linarith
  with 4 show ?case by (auto intro: diff_less_mono2)
qed auto

declare alter_declarations.simps [simp del]

definition column_declarations :: "gostring \<Rightarrow> raw_token list \<Rightarrow> (nat \<times> nat) list" where
  "column_declarations src toks =
     (if toks = [] then []
      else if bare_word src (toks ! 0) \<in> {''CREATE'', ''ATTACH''} then create_declarations src toks
      else if bare_word src (toks ! 0) = ''ALTER'' then alter_declarations src toks 0 0
      else [])"

definition modifier_words :: "gostring list" where
  "modifier_words = [''DEFAULT'', ''MATERIALIZED'', ''ALIAS'', ''EPHEMERAL'', ''COMMENT'', ''CODEC'', ''TTL'']"

fun column_modifiers :: "gostring \<Rightarrow> raw_token list \<Rightarrow> nat \<Rightarrow> int \<Rightarrow> nat list \<Rightarrow> gostring list" where
  "column_modifiers src toks stop depth [] = []"
| "column_modifiers src toks stop depth (i # is) =
     (if tk_type (toks ! i) = ''L_PAREN'' then column_modifiers src toks stop (depth + 1) is
      else if tk_type (toks ! i) = ''R_PAREN'' then column_modifiers src toks stop (depth - 1) is
      else if depth \<noteq> 0 then column_modifiers src toks stop depth is
      else if bare_word src (toks ! i) \<in> set modifier_words
        then bare_word src (toks ! i) # column_modifiers src toks stop depth is
      else if bare_word src (toks ! i) = ''PRIMARY'' \<and> i + 1 < stop \<and>
              bare_word src (toks ! (i + 1)) = ''KEY''
        then ''PRIMARY KEY'' # column_modifiers src toks stop depth is
      else column_modifiers src toks stop depth is)"

definition column_modifier_order :: "gostring \<Rightarrow> raw_token list \<Rightarrow> gostring list" where
  "column_modifier_order src toks =
     sort (concat (map (\<lambda>(start, stop).
         let mods = column_modifiers src toks stop 0 [start..<stop]
         in if mods = [] then [] else [str_join '' '' mods])
       (column_declarations src toks)))"

section \<open>The data of an INSERT\<close>

text \<open>\<open>onlyComments\<close>.\<close>

lemma trim_left_space_length: "length (trim_left_space s) \<le> length s"
proof (induction s rule: trim_left_space.induct)
  case (1 s)
  then show ?case by (subst trim_left_space.simps) (auto intro: order_trans)
qed

lemma trim_right_space_length: "length (trim_right_space s) \<le> length s"
proof (induction s rule: trim_right_space.induct)
  case (1 s)
  then show ?case by (subst trim_right_space.simps) (auto intro: order_trans)
qed

lemma trim_space_length: "length (trim_space s) \<le> length s"
  unfolding trim_space_def
  using trim_right_space_length [of "trim_left_space s"] trim_left_space_length [of s] by linarith

datatype comment_step = NoComment | CommentToEnd | CommentThen gostring | CommentPanic nat nat

definition comment_rest :: "gostring \<Rightarrow> comment_step" where
  "comment_rest s =
     (if has_prefix s ''--'' then
        (case index_byte s (CHR 0x0A) of None \<Rightarrow> CommentToEnd | Some i \<Rightarrow> CommentThen (drop (i + 1) s))
      else if has_prefix s ''/*'' then
        (case str_index s ''*/'' of
           None \<Rightarrow> NoComment
         | Some i \<Rightarrow>
             if i < 2 then CommentPanic 2 i
             else if str_contains (substring 2 i s) ''/*'' then NoComment
             else CommentThen (drop (i + 2) s))
      else NoComment)"

function only_comments :: "gostring \<Rightarrow> engine_error + bool" where
  "only_comments s =
     (if trim_space s = [] then Inr True
      else case comment_rest (trim_space s) of
             NoComment \<Rightarrow> Inr False
           | CommentToEnd \<Rightarrow> Inr True
           | CommentThen rest \<Rightarrow> only_comments rest
           | CommentPanic i j \<Rightarrow> Inl (SliceOutOfRange i j))"
  by pat_completeness auto
termination
proof (relation "measure length", goal_cases)
  case (2 s rest)
  then have "length rest < length (trim_space s)"
    by (auto simp: comment_rest_def split: option.splits if_splits)
  with trim_space_length [of s] show ?case by simp
qed simp

declare only_comments.simps [simp del]

definition is_streamed_data_tail :: "gostring \<Rightarrow> bool" where
  "is_streamed_data_tail tail =
     (let t = trim_left (\<lambda>c. c = CHR '' '' \<or> c = CHR 0x09) tail
      in t = [] \<or> t = [CHR 0x0A])"

definition has_token_type :: "raw_token list \<Rightarrow> gostring \<Rightarrow> bool" where
  "has_token_type toks typ = list_ex (\<lambda>tk. tk_type tk = typ) toks"

fun reads_input :: "raw_token list \<Rightarrow> bool" where
  "reads_input (a # b # toks) =
     (if equal_fold (tk_text a) ''input'' \<and> tk_type b = ''L_PAREN'' then True
      else reads_input (b # toks))"
| "reads_input _ = False"

definition without_ignored_data ::
    "gostring \<Rightarrow> raw_token list \<Rightarrow> engine_error + raw_token list" where
  "without_ignored_data sql toks =
     (let n = length toks
      in if n < 3 \<or> tk_start (toks ! (n - 1)) \<noteq> tk_end (toks ! (n - 1))
            \<or> tk_type (toks ! (n - 3)) \<noteq> ''FORMAT'' then Inr toks
         else case only_comments (drop (tk_end (toks ! (n - 2))) sql) of
                Inl err \<Rightarrow> Inl err
              | Inr ok \<Rightarrow> Inr (if \<not> ok then toks else take (n - 1) toks))"

definition check_input_data :: "gostring \<Rightarrow> raw_token list \<Rightarrow> engine_error option" where
  "check_input_data sql toks =
     (let n0 = length toks;
          n = (if n0 > 0 \<and> tk_start (toks ! (n0 - 1)) = tk_end (toks ! (n0 - 1)) then n0 - 1 else n0)
      in if n \<ge> 3 \<and> tk_type (toks ! (n - 2)) = ''FORMAT'' \<and> tk_text (toks ! (n - 1)) \<noteq> [] \<and>
            is_word_start (tk_text (toks ! (n - 1))) \<and> has_token_type (take (n - 2) toks) ''SELECT''
         then
           (let tail = drop (tk_end (toks ! (n - 1))) sql
            in if \<not> is_streamed_data_tail tail then Some (NotRegenerated (InputDataLost tail)) else None)
         else if has_token_type (take n toks) ''FORMAT'' then Some (NotRegenerated InputDataUnknown)
         else None)"

section \<open>The gate\<close>

definition regenerated_text :: "engine \<Rightarrow> gostring \<Rightarrow> json \<Rightarrow> engine_error + gostring" where
  "regenerated_text e kind ast =
     (if kind = NodeCommand then polyglot_command_sql ast
      else if kind = NodeRaw then raw_sql ast
      else e_generate e ast)"

fun check_bare_tokens :: "gostring \<Rightarrow> raw_token list \<Rightarrow> engine_error option" where
  "check_bare_tokens gen [] = None"
| "check_bare_tokens gen (tk # tks) =
     (if is_quoted_lexeme (tk_type tk) then check_bare_tokens gen tks
      else if CHR ''#'' \<in> set (token_text gen tk) then Some (NotRegenerated (HashToken (token_text gen tk)))
      else check_bare_tokens gen tks)"

text \<open>The mark \<open>restoreFunctionSpellings\<close> leaves on a node whose spelling it could not restore.\<close>

definition unrestored_spelling_key :: gostring where
  "unrestored_spelling_key = ''_rewriter_go_unrestored_spelling''"

fun marks_unrestored :: "json \<Rightarrow> bool" where
  "marks_unrestored (JObject m) =
     list_ex (\<lambda>kv. fst kv = unrestored_spelling_key \<and> snd kv = JBool True \<or> marks_unrestored (snd kv)) m"
| "marks_unrestored (JArray vs) = list_ex marks_unrestored vs"
| "marks_unrestored _ = False"

text \<open>The token streams that are compared, after the data rules of an INSERT.\<close>

definition compared_tokens ::
    "gostring \<Rightarrow> json \<Rightarrow> gostring \<Rightarrow> raw_token list \<Rightarrow> raw_token list
       \<Rightarrow> engine_error + raw_token list \<times> raw_token list" where
  "compared_tokens kind ast sql tin tout =
     (if kind \<noteq> NodeInsert then Inr (tin, tout)
      else if insert_has_format_clause ast then Inr (through_format_name tin, through_format_name tout)
      else if reads_input tin then
        (case check_input_data sql tin of Some err \<Rightarrow> Inl err | None \<Rightarrow> Inr (tin, tout))
      else if insert_select_has_format ast then map_sum id (\<lambda>t. (t, tout)) (without_ignored_data sql tin)
      else Inr (tin, tout))"

definition compare_streams ::
    "(gostring \<Rightarrow> gostring) \<Rightarrow> gostring \<Rightarrow> json \<Rightarrow> gostring \<Rightarrow> raw_token list \<Rightarrow> gostring \<Rightarrow> raw_token list
       \<Rightarrow> engine_error option" where
  "compare_streams upper kind ast sql tin gen tout =
     (let quoted = (kind = NodeCommand \<or> kind = NodeRaw);
          operands = (if quoted then tin else keyword_columns_as_names sql tin ast);
          (lost, added) =
            spelling_diff (fidelity_spellings upper sql operands True (operators_kept tout) quoted)
              (fidelity_spellings upper gen tout False [] quoted);
          a = column_modifier_order sql tin; b = column_modifier_order gen tout
      in if lost \<noteq> [] \<or> added \<noteq> [] then Some (NotRegenerated (LostAdded lost added))
         else if a \<noteq> b then Some (NotRegenerated (ModifiersReordered a b))
         else None)"

definition check_regenerated ::
    "(gostring \<Rightarrow> gostring) \<Rightarrow> engine \<Rightarrow> gostring \<Rightarrow> json \<Rightarrow> engine_error option" where
  "check_regenerated upper e sql ast =
     (case node_kind ast of
        Inl err \<Rightarrow> Some err
      | Inr kind \<Rightarrow>
          if marks_unrestored ast then Some (NotRegenerated SpellingNotRestored)
          else case regenerated_text e kind ast of
            Inl err \<Rightarrow> Some err
          | Inr gen \<Rightarrow>
             (case tokenize_raw e sql of
                Inl err \<Rightarrow> Some err
              | Inr tin \<Rightarrow>
                 (case tokenize_raw e gen of
                    Inl err \<Rightarrow> Some err
                  | Inr tout \<Rightarrow>
                     (case check_bare_tokens gen tout of
                        Some err \<Rightarrow> Some err
                      | None \<Rightarrow>
                         (case compared_tokens kind ast sql tin tout of
                            Inl err \<Rightarrow> Some err
                          | Inr (tin', tout') \<Rightarrow> compare_streams upper kind ast sql tin' gen tout')))))"

end
