(* ===== verification/Fidelity_Facts.thy ===== *)
theory Fidelity_Facts
  imports Fidelity
begin

text \<open>
  What a statement that passes the fidelity gate satisfies, and the shapes its helpers accept.
\<close>

section \<open>The difference of spellings\<close>

definition keys_of :: "spelling list \<Rightarrow> gostring multiset" where
  "keys_of sps = mset (map sp_key sps)"

lemma spelling_count_eq: "spelling_count k sps = count (keys_of sps) k"
  by (induction sps) (simp_all add: spelling_count_def keys_of_def)

lemma balance_eq: "spelling_balance lhs rhs k = int (count (keys_of lhs) k) - int (count (keys_of rhs) k)"
  by (simp add: spelling_balance_def spelling_count_eq)

lemma keys_spelling_keys: "k \<in> set (spelling_keys lhs rhs) \<longleftrightarrow> k \<in># keys_of lhs + keys_of rhs"
  by (auto simp: spelling_keys_def keys_of_def)

lemma balance_outside: "k \<notin># keys_of lhs + keys_of rhs \<Longrightarrow> spelling_balance lhs rhs k = 0"
  by (simp add: balance_eq not_in_iff)

lemma adjusted_outside:
  assumes "k \<notin># keys_of lhs + keys_of rhs" shows "adjusted_balance lhs rhs k = 0"
proof -
  have "spelling_balance lhs rhs k = 0" by (rule balance_outside [OF assms])
  then show ?thesis by (auto simp: adjusted_balance_def Let_def)
qed

lemma concat_replicate_Nil:
  "concat (map (\<lambda>k. replicate (f k) (g k)) ks) = [] \<longleftrightarrow> (\<forall>k \<in> set ks. f k = 0)"
  by (induction ks) auto

lemma diff_empty_adjusted:
  "spelling_diff lhs rhs = ([], []) \<longleftrightarrow>
     (\<forall>k. adjusted_balance lhs rhs k = 0 \<or> neutral_addition k \<and> adjusted_balance lhs rhs k < 0)"
proof -
  have added: "(\<lambda>k. if neutral_addition k then []
        else replicate (nat (- adjusted_balance lhs rhs k)) (shown lhs rhs k)) =
      (\<lambda>k. replicate (if neutral_addition k then 0 else nat (- adjusted_balance lhs rhs k)) (shown lhs rhs k))"
    by (rule ext) simp
  have "spelling_diff lhs rhs = ([], []) \<longleftrightarrow>
      (\<forall>k \<in> set (spelling_keys lhs rhs). adjusted_balance lhs rhs k \<le> 0 \<and>
         (neutral_addition k \<or> adjusted_balance lhs rhs k \<ge> 0))"
    unfolding spelling_diff_def added prod.inject concat_replicate_Nil by auto
  also have "\<dots> \<longleftrightarrow> (\<forall>k. adjusted_balance lhs rhs k \<le> 0 \<and>
      (neutral_addition k \<or> adjusted_balance lhs rhs k \<ge> 0))"
  proof (intro iffI allI)
    fix k
    assume all: "\<forall>k \<in> set (spelling_keys lhs rhs). adjusted_balance lhs rhs k \<le> 0 \<and>
        (neutral_addition k \<or> adjusted_balance lhs rhs k \<ge> 0)"
    show "adjusted_balance lhs rhs k \<le> 0 \<and> (neutral_addition k \<or> adjusted_balance lhs rhs k \<ge> 0)"
    proof (cases "k \<in> set (spelling_keys lhs rhs)")
      case False
      then have "adjusted_balance lhs rhs k = 0"
        unfolding keys_spelling_keys by (rule adjusted_outside)
      then show ?thesis by simp
    qed (use all in blast)
  qed blast
  also have "\<dots> \<longleftrightarrow> (\<forall>k. adjusted_balance lhs rhs k = 0 \<or> neutral_addition k \<and> adjusted_balance lhs rhs k < 0)"
    by (metis linorder_not_less order_le_less order_less_le)
  finally show ?thesis .
qed

text \<open>The additions the generator may make: an alias's AS, an =, and CROSS JOIN for a comma join.\<close>

definition neutrally_extends :: "gostring multiset \<Rightarrow> gostring multiset \<Rightarrow> bool" where
  "neutrally_extends L R \<longleftrightarrow>
     (\<exists>n extra. R = L + replicate_mset n ''W:CROSS'' + replicate_mset n ''W:JOIN'' + extra \<and>
        (\<forall>k \<in># extra. neutral_addition k))"

lemma not_neutral: "\<not> neutral_addition ''W:CROSS''" "\<not> neutral_addition ''W:JOIN''"
  by (simp_all add: neutral_addition_def)

lemma adjusted_plain:
  "k \<noteq> ''W:CROSS'' \<Longrightarrow> k \<noteq> ''W:JOIN'' \<Longrightarrow> adjusted_balance lhs rhs k = spelling_balance lhs rhs k"
  by (simp add: adjusted_balance_def Let_def)

lemma extends_if_adjusted:
  assumes "\<forall>k. adjusted_balance lhs rhs k = 0 \<or> neutral_addition k \<and> adjusted_balance lhs rhs k < 0"
  shows "neutrally_extends (keys_of lhs) (keys_of rhs)"
proof -
  let ?L = "keys_of lhs" and ?R = "keys_of rhs"
  let ?c = "spelling_balance lhs rhs ''W:CROSS''" and ?j = "spelling_balance lhs rhs ''W:JOIN''"
  have plain: "spelling_balance lhs rhs k = 0"
    if "\<not> neutral_addition k" "k \<noteq> ''W:CROSS''" "k \<noteq> ''W:JOIN''" for k
    using assms [rule_format, of k] that by (simp add: adjusted_balance_def Let_def)
  have cj: "?c = ?j \<and> ?c \<le> 0"
  proof (cases "?c < 0 \<and> ?j < 0")
    case True
    then show ?thesis
      using assms [rule_format, of "''W:CROSS''"] assms [rule_format, of "''W:JOIN''"] not_neutral
      by (simp add: adjusted_balance_def Let_def min_def split: if_splits)
  next
    case False
    then show ?thesis
      using assms [rule_format, of "''W:CROSS''"] assms [rule_format, of "''W:JOIN''"] not_neutral
      by (auto simp: adjusted_balance_def Let_def)
  qed
  have neutral: "spelling_balance lhs rhs k \<le> 0 \<and> k \<noteq> ''W:CROSS'' \<and> k \<noteq> ''W:JOIN''"
    if "neutral_addition k" for k
  proof -
    have ne: "k \<noteq> ''W:CROSS''" "k \<noteq> ''W:JOIN''" using that not_neutral by auto
    with assms [rule_format, of k] show ?thesis unfolding adjusted_plain [OF ne] by auto
  qed
  let ?n = "nat (- ?c)" and ?extra = "filter_mset neutral_addition (?R - ?L)"
  have n: "count ?R ''W:CROSS'' = count ?L ''W:CROSS'' + ?n" "count ?R ''W:JOIN'' = count ?L ''W:JOIN'' + ?n"
    using cj unfolding balance_eq by linarith+
  have "?R = ?L + replicate_mset ?n ''W:CROSS'' + replicate_mset ?n ''W:JOIN'' + ?extra"
  proof (rule multiset_eqI)
    fix k
    consider "k = ''W:CROSS''" | "k = ''W:JOIN''" | (extra) "neutral_addition k"
      | (other) "\<not> neutral_addition k" "k \<noteq> ''W:CROSS''" "k \<noteq> ''W:JOIN''" by blast
    then show "count ?R k =
        count (?L + replicate_mset ?n ''W:CROSS'' + replicate_mset ?n ''W:JOIN'' + ?extra) k"
    proof cases
      case extra
      with neutral [OF extra] show ?thesis by (simp add: balance_eq)
    next
      case other
      with plain [OF other] show ?thesis by (simp add: balance_eq)
    next
      case 1
      with n not_neutral show ?thesis by simp
    next
      case 2
      with n not_neutral show ?thesis by simp
    qed
  qed
  moreover have "\<forall>k \<in># ?extra. neutral_addition k" by (simp only: set_mset_filter) simp
  ultimately show ?thesis unfolding neutrally_extends_def by blast
qed

lemma adjusted_if_extends:
  assumes "neutrally_extends (keys_of lhs) (keys_of rhs)"
  shows "adjusted_balance lhs rhs k = 0 \<or> neutral_addition k \<and> adjusted_balance lhs rhs k < 0"
proof -
  obtain n extra where R: "keys_of rhs =
      keys_of lhs + replicate_mset n ''W:CROSS'' + replicate_mset n ''W:JOIN'' + extra"
    and extra: "\<forall>k \<in># extra. neutral_addition k"
    using assms unfolding neutrally_extends_def by blast
  have none: "count extra k = 0" if "\<not> neutral_addition k" for k
    using extra that by (meson not_in_iff)
  have c: "spelling_balance lhs rhs ''W:CROSS'' = - int n"
    and j: "spelling_balance lhs rhs ''W:JOIN'' = - int n"
    using none [OF not_neutral(1)] none [OF not_neutral(2)] by (simp_all add: balance_eq R)
  show ?thesis
  proof (cases "k = ''W:CROSS'' \<or> k = ''W:JOIN''")
    case True
    then show ?thesis using c j by (auto simp: adjusted_balance_def Let_def)
  next
    case False
    then have "adjusted_balance lhs rhs k = - int (count extra k)"
      by (simp add: adjusted_plain balance_eq R)
    with none [of k] show ?thesis by (cases "neutral_addition k") (auto simp: not_in_iff)
  qed
qed

lemma spelling_diff_eq_Nil:
  "spelling_diff lhs rhs = ([], []) \<longleftrightarrow> neutrally_extends (keys_of lhs) (keys_of rhs)"
  using diff_empty_adjusted extends_if_adjusted adjusted_if_extends by blast

text \<open>
  The difference of two reduced streams is empty exactly when the output's spellings are the
  input's plus neutral additions: some AS and =, and as many CROSS as JOIN. A spelling lost, a literal
  changed, or a lone CROSS or JOIN added always shows.
\<close>

theorem spelling_diff_empty_iff:
  "spelling_diff lhs rhs = ([], []) \<longleftrightarrow>
     (\<exists>n extra. keys_of rhs =
          keys_of lhs + replicate_mset n ''W:CROSS'' + replicate_mset n ''W:JOIN'' + extra \<and>
        set_mset extra \<subseteq> {''W:AS'', ''O:EQ''})"
  by (auto simp: spelling_diff_eq_Nil neutrally_extends_def neutral_addition_def)

section \<open>The gate\<close>

text \<open>No unquoted token of the regenerated text holds a \<open>#\<close>.\<close>

definition no_hash_token :: "gostring \<Rightarrow> raw_token list \<Rightarrow> bool" where
  "no_hash_token gen toks \<longleftrightarrow>
     (\<forall>tk \<in> set toks. CHR ''#'' \<in> set (token_text gen tk) \<longrightarrow> is_quoted_lexeme (tk_type tk))"

lemma check_bare_tokens_None: "check_bare_tokens gen toks = None \<longleftrightarrow> no_hash_token gen toks"
  unfolding no_hash_token_def by (induction toks) auto

lemma compare_streams_None:
  "compare_streams upper kind ast sql tin gen tout = None \<longleftrightarrow>
     neutrally_extends
       (keys_of (fidelity_spellings upper sql
          (if kind = NodeCommand \<or> kind = NodeRaw then tin else keyword_columns_as_names sql tin ast)
          True (operators_kept tout) (kind = NodeCommand \<or> kind = NodeRaw)))
       (keys_of (fidelity_spellings upper gen tout False [] (kind = NodeCommand \<or> kind = NodeRaw))) \<and>
     column_modifier_order sql tin = column_modifier_order gen tout"
proof -
  have pair: "fst d = [] \<and> snd d = [] \<longleftrightarrow> d = ([], [])" for d :: "gostring list \<times> gostring list"
    by (cases d) simp
  show ?thesis
    unfolding spelling_diff_eq_Nil [symmetric] pair [symmetric]
    by (auto simp: compare_streams_def Let_def case_prod_beta)
qed

text \<open>
  C16. The fidelity gate passes a statement exactly when its AST is readable and unmarked, it and its
  regeneration tokenize, no unquoted regenerated token holds a \<open>#\<close>, the data of an INSERT is accounted
  for, and, on the tokens compared, the regeneration's spellings are the input's plus neutral
  additions and the column modifiers keep their order. Everything else is refused.
\<close>

theorem check_regenerated_iff:
  "check_regenerated upper e sql ast = None \<longleftrightarrow>
     (\<exists>kind gen tin tout tin' tout'.
        node_kind ast = Inr kind \<and> \<not> marks_unrestored ast \<and> regenerated_text e kind ast = Inr gen \<and>
        tokenize_raw e sql = Inr tin \<and> tokenize_raw e gen = Inr tout \<and>
        no_hash_token gen tout \<and>
        compared_tokens kind ast sql tin tout = Inr (tin', tout') \<and>
        neutrally_extends
          (keys_of (fidelity_spellings upper sql
             (if kind = NodeCommand \<or> kind = NodeRaw then tin' else keyword_columns_as_names sql tin' ast)
             True (operators_kept tout') (kind = NodeCommand \<or> kind = NodeRaw)))
          (keys_of (fidelity_spellings upper gen tout' False [] (kind = NodeCommand \<or> kind = NodeRaw))) \<and>
        column_modifier_order sql tin' = column_modifier_order gen tout')"
  unfolding check_regenerated_def compare_streams_None [symmetric] check_bare_tokens_None [symmetric]
  by (auto split: sum.splits option.splits if_splits prod.splits)

definition select_engine :: engine where
  "select_engine =
     \<lparr>e_tokenize = (\<lambda>_. Inr (map (\<lambda>(ty, tx, a, b).
          \<lparr>wt_type = ty, wt_text = tx, wt_start = a, wt_end = b\<rparr>)
        [(''SELECT'', ''SELECT'', 0, 6), (''VAR'', ''a'', 7, 8)])),
      e_parse_one = (\<lambda>_. Inl (EngineError [])), e_generate = (\<lambda>_. Inr ''select a''),
      e_parse_generic = (\<lambda>_. Inl (EngineError []))\<rparr>"

lemma check_regenerated_iff_witness:
  "check_regenerated to_upper select_engine ''SELECT a'' (JObject [(''select'', JNull)]) = None \<and>
   (\<exists>tout. tokenize_raw select_engine ''select a'' = Inr tout \<and> no_hash_token ''select a'' tout)"
proof -
  have pass: "check_regenerated to_upper select_engine ''SELECT a'' (JObject [(''select'', JNull)]) = None"
    by code_simp
  have kind: "node_kind (JObject [(''select'', JNull)]) = Inr ''select''" by (simp add: node_kind_def)
  have gen: "regenerated_text select_engine ''select'' (JObject [(''select'', JNull)]) = Inr ''select a''"
    by code_simp
  from pass [unfolded check_regenerated_iff] kind gen pass show ?thesis by auto
qed

section \<open>Comments after an INSERT\<close>

lemma only_comments_panics:
  assumes "has_prefix (trim_space s) ''/*/''"
  shows "only_comments s = Inl (SliceOutOfRange 2 1)"
proof -
  obtain t where t: "trim_space s = ''/*/'' @ t" using assms by (auto simp: has_prefix_iff)
  have "comment_rest (''/*/'' @ t) = CommentPanic 2 1"
    by (simp add: comment_rest_def has_prefix_def)
  then show ?thesis using t by (simp add: only_comments.simps [of s])
qed






text \<open>
  The rows of an INSERT that reads \<open>input()\<close> are taken for streamed exactly when the text after the
  format name is blanks and tabs and at most one final newline.
\<close>

theorem is_streamed_data_tail_iff:
  "is_streamed_data_tail tail \<longleftrightarrow>
     (\<exists>blanks. set blanks \<subseteq> {CHR '' '', CHR 0x09} \<and> (tail = blanks \<or> tail = blanks @ [CHR 0x0A]))"
proof (induction tail)
  case (Cons c tail)
  show ?case
  proof (cases "c = CHR '' '' \<or> c = CHR 0x09")
    case True
    then have "is_streamed_data_tail (c # tail) \<longleftrightarrow> is_streamed_data_tail tail"
      by (auto simp: is_streamed_data_tail_def)
    also note Cons.IH
    also have "(\<exists>blanks. set blanks \<subseteq> {CHR '' '', CHR 0x09} \<and> (tail = blanks \<or> tail = blanks @ [CHR 0x0A])) \<longleftrightarrow>
        (\<exists>blanks. set blanks \<subseteq> {CHR '' '', CHR 0x09} \<and>
           (c # tail = blanks \<or> c # tail = blanks @ [CHR 0x0A]))" (is "?l \<longleftrightarrow> ?r")
    proof
      assume ?l
      then obtain bs where "set bs \<subseteq> {CHR '' '', CHR 0x09}" "tail = bs \<or> tail = bs @ [CHR 0x0A]" by blast
      with True show ?r by (intro exI [of _ "c # bs"]) auto
    next
      assume ?r
      then obtain bs where "set bs \<subseteq> {CHR '' '', CHR 0x09}" "c # tail = bs \<or> c # tail = bs @ [CHR 0x0A]"
        by blast
      with True show ?l by (intro exI [of _ "tl bs"]) (cases bs; auto)
    qed
    finally show ?thesis .
  next
    case False
    then have "is_streamed_data_tail (c # tail) \<longleftrightarrow> c # tail = [CHR 0x0A]"
      by (auto simp: is_streamed_data_tail_def)
    also have "\<dots> \<longleftrightarrow> (\<exists>blanks. set blanks \<subseteq> {CHR '' '', CHR 0x09} \<and>
        (c # tail = blanks \<or> c # tail = blanks @ [CHR 0x0A]))" (is "?l \<longleftrightarrow> ?r")
    proof
      assume ?l
      then show ?r by (intro exI [of _ "[]"]) simp
    next
      assume ?r
      then obtain bs where "set bs \<subseteq> {CHR '' '', CHR 0x09}" "c # tail = bs \<or> c # tail = bs @ [CHR 0x0A]"
        by blast
      with False show ?l by (cases bs) auto
    qed
    finally show ?thesis .
  qed
qed (simp add: is_streamed_data_tail_def)

end
