(* ===== verification/Precedence_Facts.thy ===== *)
theory Precedence_Facts
  imports Precedence
begin

text \<open>
  The precedence helpers against grammars: the AND that borders an isolated operator owns no BETWEEN,
  and an isolated operator stands between two accepted operands.
\<close>

section \<open>Units\<close>

definition closes_unit :: "gostring \<Rightarrow> bool" where
  "closes_unit t \<longleftrightarrow> is_close_bracket t \<or> t = ''END''"

definition opens_unit :: "gostring \<Rightarrow> bool" where
  "opens_unit t \<longleftrightarrow> \<not> closes_unit t \<and> (is_open_bracket t \<or> t = ''CASE'')"

text \<open>Token types in which brackets and CASE ... END are matched, in order and by kind.\<close>

inductive units :: "gostring list \<Rightarrow> bool" where
  units_Nil: "units []"
| units_token: "\<not> closes_unit t \<Longrightarrow> \<not> opens_unit t \<Longrightarrow> units ts \<Longrightarrow> units (t # ts)"
| units_pair: "opens_unit t \<Longrightarrow> units a \<Longrightarrow> units b \<Longrightarrow> units (t # a @ unit_closer t # b)"

text \<open>
  An operand chain and its own BETWEEN and AND tokens: units and other tokens contribute none, a
  border ends it.
\<close>

inductive chain_text :: "gostring list \<Rightarrow> gostring list \<Rightarrow> bool" where
  chain_Nil: "chain_text [] []"
| chain_own: "t = ''BETWEEN'' \<or> t = ''AND'' \<Longrightarrow> chain_text ts own \<Longrightarrow> chain_text (t # ts) (t # own)"
| chain_token: "\<not> closes_unit t \<Longrightarrow> \<not> opens_unit t \<Longrightarrow> t \<notin> set and_borders \<Longrightarrow>
    t \<noteq> ''BETWEEN'' \<Longrightarrow> t \<noteq> ''AND'' \<Longrightarrow> chain_text ts own \<Longrightarrow> chain_text (t # ts) own"
| chain_unit: "opens_unit t \<Longrightarrow> units a \<Longrightarrow> chain_text b own \<Longrightarrow>
    chain_text (t # a @ unit_closer t # b) own"

text \<open>The text scanned so far, when the closing tokens \<open>opened\<close> are still to be matched.\<close>

fun open_text :: "gostring list \<Rightarrow> gostring list \<Rightarrow> gostring list \<Rightarrow> bool" where
  "open_text [] ts own \<longleftrightarrow> chain_text ts own"
| "open_text (c # cs) ts own \<longleftrightarrow> (\<exists>u rest. ts = u @ c # rest \<and> units u \<and> open_text cs rest own)"

lemma open_text_open:
  assumes "opens_unit t" "open_text (unit_closer t # opened) ts own"
  shows "open_text opened (t # ts) own"
proof -
  obtain u rest where u: "ts = u @ unit_closer t # rest" "units u" "open_text opened rest own"
    using assms(2) by auto
  show ?thesis
  proof (cases opened)
    case Nil
    with u assms(1) show ?thesis by (simp add: chain_unit)
  next
    case (Cons c cs)
    with u(3) obtain u' rest' where u': "rest = u' @ c # rest'" "units u'" "open_text cs rest' own"
      by auto
    have "units (t # u @ unit_closer t # u')" by (rule units_pair [OF assms(1) u(2) u'(2)])
    moreover have "t # ts = (t # u @ unit_closer t # u') @ c # rest'" using u(1) u'(1) by simp
    ultimately show ?thesis unfolding Cons open_text.simps using u'(3) by blast
  qed
qed

lemma open_text_inside:
  assumes "\<not> closes_unit t" "\<not> opens_unit t" "opened \<noteq> []" "open_text opened ts own"
  shows "open_text opened (t # ts) own"
proof -
  obtain c cs where opened: "opened = c # cs" using assms(3) by (cases opened) auto
  with assms(4) obtain u rest where u: "ts = u @ c # rest" "units u" "open_text cs rest own" by auto
  have "units (t # u)" by (rule units_token [OF assms(1,2) u(2)])
  moreover have "t # ts = (t # u) @ c # rest" using u(1) by simp
  ultimately show ?thesis unfolding opened open_text.simps using u(3) by blast
qed

definition starts_chain :: "gostring \<Rightarrow> bool" where
  "starts_chain t \<longleftrightarrow> opens_unit t \<or> t \<in> set and_borders"

definition types_between :: "raw_token list \<Rightarrow> nat \<Rightarrow> nat \<Rightarrow> gostring list" where
  "types_between toks b j = map (\<lambda>i. tk_type (toks ! i)) [b..<j]"

lemma types_between_step:
  "k < j \<Longrightarrow> types_between toks k j = tk_type (toks ! k) # types_between toks (Suc k) j"
  by (simp add: types_between_def upt_conv_Cons)

lemma own_not_unit:
  "t = ''BETWEEN'' \<or> t = ''AND'' \<Longrightarrow> \<not> closes_unit t \<and> \<not> opens_unit t"
  by (auto simp: opens_unit_def closes_unit_def is_close_bracket_def is_open_bracket_def)

lemma and_scan_text:
  assumes "and_scan toks k opened chain = Some ([], chain')" "k \<le> j"
    and "open_text opened (types_between toks k j) (map (\<lambda>i. tk_type (toks ! i)) chain)"
  shows "\<exists>b \<le> k. chain_text (types_between toks b j) (map (\<lambda>i. tk_type (toks ! i)) chain') \<and>
    (b = 0 \<or> starts_chain (tk_type (toks ! (b - 1))))"
  using assms
proof (induction toks k opened chain rule: and_scan.induct)
  case (1 toks opened chain)
  then show ?case by auto
next
  case (2 toks k opened chain)
  let ?t = "tk_type (toks ! k)" and ?own = "map (\<lambda>i. tk_type (toks ! i)) chain"
  have prefix: "types_between toks k j = ?t # types_between toks (Suc k) j"
    using "2.prems"(2) by (simp add: types_between_step)
  have kj: "k \<le> j" using "2.prems"(2) by simp
  have later: "\<exists>b \<le> k. P b \<Longrightarrow> \<exists>b \<le> Suc k. P b" for P by (meson le_SucI)
  consider (closing) "closes_unit ?t"
    | (opener) "\<not> closes_unit ?t" "opens_unit ?t"
    | (inside) "\<not> closes_unit ?t" "\<not> opens_unit ?t" "opened \<noteq> []"
    | (border) "\<not> closes_unit ?t" "\<not> opens_unit ?t" "opened = []" "?t \<in> set and_borders"
    | (own) "\<not> closes_unit ?t" "\<not> opens_unit ?t" "opened = []" "?t \<notin> set and_borders"
        "?t = ''BETWEEN'' \<or> ?t = ''AND''"
    | (other) "\<not> closes_unit ?t" "\<not> opens_unit ?t" "opened = []" "?t \<notin> set and_borders"
        "\<not> (?t = ''BETWEEN'' \<or> ?t = ''AND'')"
    by blast
  then show ?case
  proof cases
    case closing
    then have cond: "is_close_bracket ?t \<or> ?t = ''END''" by (simp add: closes_unit_def)
    have "open_text (?t # opened) (types_between toks k j) ?own"
      using "2.prems"(3) units_Nil unfolding prefix open_text.simps by (metis append_Nil)
    with "2.IH"(1) [OF refl cond] "2.prems"(1) cond kj show ?thesis
      by (intro later) (simp add: Let_def)
  next
    case opener
    then have cond: "\<not> (is_close_bracket ?t \<or> ?t = ''END'')" "is_open_bracket ?t \<or> ?t = ''CASE''"
      by (simp_all add: closes_unit_def opens_unit_def)
    show ?thesis
    proof (cases opened)
      case Nil
      then have "chain' = chain" using "2.prems"(1) cond by (simp add: Let_def)
      with Nil "2.prems"(3) opener show ?thesis
        by (intro exI [of _ "Suc k"]) (simp add: starts_chain_def)
    next
      case (Cons closer rest)
      with "2.prems"(1) cond have eq: "unit_closer ?t = closer" "and_scan toks k rest chain = Some ([], chain')"
        by (simp_all add: Let_def split: if_splits)
      have "open_text rest (types_between toks k j) ?own"
        unfolding prefix using "2.prems"(3) Cons eq(1) by (intro open_text_open [OF opener(2)]) simp
      with "2.IH"(2) [OF refl cond Cons] eq kj show ?thesis by (intro later) simp
    qed
  next
    case inside
    then have cond: "\<not> (is_close_bracket ?t \<or> ?t = ''END'')" "\<not> (is_open_bracket ?t \<or> ?t = ''CASE'')"
      by (auto simp: closes_unit_def opens_unit_def)
    have "open_text opened (types_between toks k j) ?own"
      unfolding prefix by (rule open_text_inside [OF inside "2.prems"(3)])
    with "2.IH"(3) [OF refl cond inside(3)] "2.prems"(1) cond inside(3) kj show ?thesis
      by (intro later) (simp add: Let_def)
  next
    case border
    then have cond: "\<not> (is_close_bracket ?t \<or> ?t = ''END'')" "\<not> (is_open_bracket ?t \<or> ?t = ''CASE'')"
      by (auto simp: closes_unit_def opens_unit_def)
    have "chain' = chain" using "2.prems"(1) cond border by (simp add: Let_def)
    with border "2.prems"(3) show ?thesis
      by (intro exI [of _ "Suc k"]) (simp add: starts_chain_def)
  next
    case own
    then have cond: "\<not> (is_close_bracket ?t \<or> ?t = ''END'')" "\<not> (is_open_bracket ?t \<or> ?t = ''CASE'')"
      by (auto simp: closes_unit_def opens_unit_def)
    have "open_text opened (types_between toks k j) (map (\<lambda>i. tk_type (toks ! i)) (k # chain))"
      using "2.prems"(3) own unfolding prefix by (simp add: chain_own)
    with "2.IH"(4) [OF refl cond _ own(4,5)] "2.prems"(1) cond own kj show ?thesis
      by (intro later) (simp add: Let_def)
  next
    case other
    then have cond: "\<not> (is_close_bracket ?t \<or> ?t = ''END'')" "\<not> (is_open_bracket ?t \<or> ?t = ''CASE'')"
      by (auto simp: closes_unit_def opens_unit_def)
    have known: "and_chain_token toks k"
      using "2.prems"(1) cond other by (auto simp: Let_def split: if_splits)
    have "open_text opened (types_between toks k j) ?own"
      using "2.prems"(3) other unfolding prefix by (simp add: chain_token)
    with "2.IH"(5) [OF refl cond _ other(4,5)] known "2.prems"(1) cond other kj show ?thesis
      by (intro later) (simp add: Let_def)
  qed
qed

section \<open>Pairing\<close>

text \<open>Every BETWEEN owns the AND right after it in the chain.\<close>

inductive paired :: "gostring list \<Rightarrow> bool" where
  paired_Nil: "paired []"
| paired_and: "paired ts \<Longrightarrow> paired (''AND'' # ts)"
| paired_between: "paired ts \<Longrightarrow> paired (''BETWEEN'' # ''AND'' # ts)"

inductive_cases paired_BetweenE: "paired (''BETWEEN'' # ts)"
inductive_simps paired_And: "paired (''AND'' # ts)"
inductive_simps paired_Between: "paired (''BETWEEN'' # ts)"
inductive_simps paired_Empty: "paired []"

lemma chain_own_types: "chain_text ts own \<Longrightarrow> set own \<subseteq> {''BETWEEN'', ''AND''}"
  by (induction rule: chain_text.induct) auto

lemma chain_owned_paired:
  assumes "set (map (\<lambda>i. tk_type (toks ! i)) chain) \<subseteq> {''BETWEEN'', ''AND''}"
  shows "chain_owned toks chain owned \<longleftrightarrow>
     paired ((if owned then [''BETWEEN''] else []) @ map (\<lambda>i. tk_type (toks ! i)) chain)"
  using assms
proof (induction chain arbitrary: owned)
  case Nil
  then show ?case by (simp add: paired_Empty paired_Between)
next
  case (Cons k chain)
  then consider "tk_type (toks ! k) = ''BETWEEN''" | "tk_type (toks ! k) = ''AND''" by auto
  then show ?case
    using Cons by cases (auto simp: paired_And paired_Between)
qed

text \<open>
  C24. An AND that the gate takes for a logical AND owns no BETWEEN: the tokens from the chain's start
  up to it form one operand chain, with brackets and CASE ... END matched, in which every BETWEEN is
  followed by an AND of its own.
\<close>

theorem is_logical_and_sound:
  assumes "is_logical_and toks j"
  shows "\<exists>b own. b \<le> j \<and> chain_text (types_between toks b j) own \<and> paired own \<and>
    (b = 0 \<or> starts_chain (tk_type (toks ! (b - 1))))"
proof -
  obtain chain where chain: "and_scan toks j [] [] = Some ([], chain)" "chain_owned toks chain False"
    using assms by (auto simp: is_logical_and_def split: option.splits if_splits)
  obtain b where b: "b \<le> j" "chain_text (types_between toks b j) (map (\<lambda>i. tk_type (toks ! i)) chain)"
    "b = 0 \<or> starts_chain (tk_type (toks ! (b - 1)))"
    using and_scan_text [OF chain(1), of j] by (auto simp: types_between_def chain_Nil)
  have "paired (map (\<lambda>i. tk_type (toks ! i)) chain)"
    using chain_owned_paired [OF chain_own_types [OF b(2)], of False] chain(2) by simp
  with b show ?thesis by blast
qed

definition typed_tokens :: "gostring list \<Rightarrow> raw_token list" where
  "typed_tokens ts = map (\<lambda>t. \<lparr>tk_type = t, tk_text = [], tk_start = 0, tk_end = 0, tk_source = []\<rparr>) ts"

lemma is_logical_and_sound_witness:
  "is_logical_and (typed_tokens [''WHERE'', ''VAR'', ''BETWEEN'', ''NUMBER'', ''AND'', ''NUMBER'', ''AND'', ''VAR'']) 6 \<and>
   \<not> is_logical_and (typed_tokens [''WHERE'', ''VAR'', ''BETWEEN'', ''NUMBER'', ''AND'', ''VAR'']) 4 \<and>
   (\<exists>b own. b \<le> 6 \<and> paired own \<and> chain_text (types_between
      (typed_tokens [''WHERE'', ''VAR'', ''BETWEEN'', ''NUMBER'', ''AND'', ''NUMBER'', ''AND'', ''VAR'']) b 6) own)"
proof -
  have and6: "is_logical_and
      (typed_tokens [''WHERE'', ''VAR'', ''BETWEEN'', ''NUMBER'', ''AND'', ''NUMBER'', ''AND'', ''VAR'']) 6"
    by code_simp
  have and4: "\<not> is_logical_and (typed_tokens [''WHERE'', ''VAR'', ''BETWEEN'', ''NUMBER'', ''AND'', ''VAR'']) 4"
    by code_simp
  from is_logical_and_sound [OF and6] and4 and6 show ?thesis by blast
qed

section \<open>Operands\<close>

text \<open>A dotted name, and an operand: an atomic token, a dotted name or a \<open>{name:Type}\<close> parameter.\<close>

inductive dotted_name :: "raw_token list \<Rightarrow> bool" where
  dotted_one: "is_name_tok (tk_type t) \<Longrightarrow> dotted_name [t]"
| dotted_more: "is_name_tok (tk_type t) \<Longrightarrow> tk_type d = ''DOT'' \<Longrightarrow> dotted_name ts \<Longrightarrow> dotted_name (t # d # ts)"

inductive operand :: "raw_token list \<Rightarrow> bool" where
  operand_atom: "is_atomic_token t \<Longrightarrow> operand [t]"
| operand_name: "dotted_name ts \<Longrightarrow> operand ts"
| operand_brace: "tk_type l = ''L_BRACE'' \<Longrightarrow> tk_type r = ''R_BRACE'' \<Longrightarrow>
    \<forall>t \<in> set inner. \<not> is_open_bracket (tk_type t) \<and> \<not> is_close_bracket (tk_type t) \<Longrightarrow>
    operand (l # inner @ [r])"

definition tokens_between :: "raw_token list \<Rightarrow> nat \<Rightarrow> nat \<Rightarrow> raw_token list" where
  "tokens_between toks b j = map ((!) toks) [b..<j]"

lemma tokens_between_Cons: "b < j \<Longrightarrow> tokens_between toks b j = toks ! b # tokens_between toks (Suc b) j"
  by (simp add: tokens_between_def upt_conv_Cons)

lemma tokens_between_snoc: "b \<le> j \<Longrightarrow> tokens_between toks b (Suc j) = tokens_between toks b j @ [toks ! j]"
  by (simp add: tokens_between_def)

lemma tokens_between_self [simp]: "tokens_between toks j j = []"
  by (simp add: tokens_between_def)

lemma brace_before_sound:
  "brace_before toks k = Some b \<Longrightarrow>
     b < k \<and> tk_type (toks ! b) = ''L_BRACE'' \<and>
     (\<forall>t \<in> set (tokens_between toks (Suc b) k). \<not> is_open_bracket (tk_type t) \<and> \<not> is_close_bracket (tk_type t))"
proof (induction toks k rule: brace_before.induct)
  case (2 toks k)
  show ?case
  proof (cases "tk_type (toks ! k) = ''L_BRACE''")
    case True
    with "2.prems" show ?thesis by (simp add: Let_def)
  next
    case False
    with "2.prems" have none: "\<not> (is_open_bracket (tk_type (toks ! k)) \<or> is_close_bracket (tk_type (toks ! k)))"
      and rest: "brace_before toks k = Some b" by (simp_all add: Let_def split: if_splits)
    from "2.IH" [OF refl False none rest] none show ?thesis
      by (auto simp: tokens_between_snoc)
  qed
qed simp

lemma brace_after_sound:
  "brace_after toks j = Some n \<Longrightarrow>
     j < n \<and> n \<le> length toks \<and> tk_type (toks ! (n - 1)) = ''R_BRACE'' \<and>
     (\<forall>t \<in> set (tokens_between toks j (n - 1)). \<not> is_open_bracket (tk_type t) \<and> \<not> is_close_bracket (tk_type t))"
proof (induction toks j rule: brace_after.induct)
  case (1 toks j)
  have len: "\<not> j \<ge> length toks" using "1.prems" by (auto simp: brace_after.simps [of toks j])
  show ?case
  proof (cases "tk_type (toks ! j) = ''R_BRACE''")
    case True
    with "1.prems" len have "n = j + 1" by (simp add: brace_after.simps [of toks j])
    with True len show ?thesis by simp
  next
    case False
    with "1.prems" len have none: "\<not> (is_open_bracket (tk_type (toks ! j)) \<or> is_close_bracket (tk_type (toks ! j)))"
      and rest: "brace_after toks (j + 1) = Some n"
      by (simp_all add: brace_after.simps [of toks j] Let_def split: if_splits)
    note IH = "1.IH" [OF len refl False none rest]
    have "j < n - 1" using IH by linarith
    then have "tokens_between toks j (n - 1) = toks ! j # tokens_between toks (Suc j) (n - 1)"
      by (rule tokens_between_Cons)
    with IH none show ?thesis by simp
  qed
qed

lemma name_before_sound:
  "is_name_tok (tk_type (toks ! j)) \<Longrightarrow>
   Suc j = n \<or> (Suc j < n \<and> tk_type (toks ! Suc j) = ''DOT'' \<and> dotted_name (tokens_between toks (j + 2) n)) \<Longrightarrow>
     name_before toks j \<le> j \<and> dotted_name (tokens_between toks (name_before toks j) n)"
proof (induction toks j rule: name_before.induct)
  case (1 toks j)
  have here: "dotted_name (tokens_between toks (j + 2) n)"
    using "1.prems"
    by (auto simp: tokens_between_Cons intro: dotted_name.intros)
  show ?case
  proof (cases "tk_type (toks ! (j + 1)) = ''DOT'' \<and> is_name_tok (tk_type (toks ! j))")
    case True
    have "j + 2 < n" using "1.prems"(2) by auto
    with "1.IH" [OF True] True here show ?thesis by auto
  next
    case False
    then have "name_before toks (Suc (Suc j)) = j + 2" by auto
    with here show ?thesis by simp
  qed
qed (auto simp: tokens_between_Cons intro: dotted_name.intros)

lemma operand_before_sound:
  assumes "operand_before toks j = Some b"
  shows "b \<le> j \<and> operand (tokens_between toks b (Suc j))"
proof -
  consider (brace) "tk_type (toks ! j) = ''R_BRACE''" "brace_before toks j = Some b"
    | (name) "is_name_tok (tk_type (toks ! j))" "b = name_before toks j"
    | (atom) "is_atomic_token (toks ! j)" "b = j"
    using assms by (auto simp: operand_before_def split: if_splits)
  then show ?thesis
  proof cases
    case brace
    note b = brace_before_sound [OF brace(2)]
    then have "tokens_between toks b (Suc j) = toks ! b # tokens_between toks (Suc b) j @ [toks ! j]"
      using tokens_between_Cons [of b "Suc j" toks] tokens_between_snoc [of "Suc b" j toks] by simp
    with b brace(1) show ?thesis by (auto intro: operand_brace)
  next
    case name
    with name_before_sound [of toks j "Suc j"] show ?thesis by (auto intro: operand_name)
  next
    case atom
    then show ?thesis by (simp add: tokens_between_Cons operand_atom)
  qed
qed

lemma name_after_sound:
  "k < length toks \<Longrightarrow> is_name_tok (tk_type (toks ! k)) \<Longrightarrow>
     k < name_after toks k \<and> name_after toks k \<le> length toks \<and>
     dotted_name (tokens_between toks k (name_after toks k))"
proof (induction toks k rule: name_after.induct)
  case (1 toks k)
  show ?case
  proof (cases "k + 2 < length toks \<and> tk_type (toks ! (k + 1)) = ''DOT'' \<and> is_name_tok (tk_type (toks ! (k + 2)))")
    case True
    have eq: "name_after toks k = name_after toks (k + 2)"
      using True by (subst name_after.simps) simp
    from "1.IH" [OF True] True have IH: "k + 2 < name_after toks (k + 2)"
      "name_after toks (k + 2) \<le> length toks"
      "dotted_name (tokens_between toks (k + 2) (name_after toks (k + 2)))" by blast+
    then have "tokens_between toks k (name_after toks (k + 2)) =
        toks ! k # toks ! Suc k # tokens_between toks (k + 2) (name_after toks (k + 2))"
      by (simp add: tokens_between_Cons)
    with IH True "1.prems"(2) show ?thesis unfolding eq by (simp add: dotted_more)
  next
    case False
    then have "name_after toks k = k + 1" by (subst name_after.simps) (simp only: if_False)
    with "1.prems" show ?thesis by (simp add: tokens_between_Cons dotted_one)
  qed
qed

lemma operand_after_sound:
  assumes "operand_after toks k = Some n"
  shows "k < n \<and> n \<le> length toks \<and> operand (tokens_between toks k n)"
proof -
  have len: "k < length toks" using assms by (auto simp: operand_after_def split: if_splits)
  consider (brace) "tk_type (toks ! k) = ''L_BRACE''" "brace_after toks (k + 1) = Some n"
    | (name) "is_name_tok (tk_type (toks ! k))" "n = name_after toks k"
    | (atom) "is_atomic_token (toks ! k)" "n = k + 1"
    using assms by (auto simp: operand_after_def split: if_splits)
  then show ?thesis
  proof cases
    case brace
    note n = brace_after_sound [OF brace(2)]
    moreover have "Suc k \<le> n - 1" "k < n" using n by linarith+
    ultimately have "tokens_between toks k n = toks ! k # tokens_between toks (Suc k) (n - 1) @ [toks ! (n - 1)]"
      using tokens_between_Cons [of k n toks] tokens_between_snoc [of "Suc k" "n - 1" toks] by simp
    with n brace(1) show ?thesis by (auto intro: operand_brace)
  next
    case name
    with name_after_sound [OF len] show ?thesis by (auto intro: operand_name)
  next
    case atom
    with len show ?thesis by (simp add: tokens_between_Cons operand_atom)
  qed
qed

text \<open>
  C25. The respellings that change precedence only apply to an isolated operator: a complete operand ends
  right before it and another starts right after it, what follows is the end or a closing border, and
  what precedes is the start or an opening border, an AND only when it is logical.
\<close>

theorem isolated_operands:
  assumes "isolated toks first final"
  shows "\<exists>b n. b < first \<and> operand (tokens_between toks b first) \<and>
    final + 1 < n \<and> n \<le> length toks \<and> operand (tokens_between toks (final + 1) n) \<and>
    (n = length toks \<or> tk_type (toks ! n) \<in> set closes_expression) \<and>
    (b = 0 \<or> tk_type (toks ! (b - 1)) \<in> set opens_expression \<and>
       (tk_type (toks ! (b - 1)) = ''AND'' \<longrightarrow> is_logical_and toks (b - 1)))"
proof -
  obtain b n where bn: "first \<noteq> 0" "operand_before toks (first - 1) = Some b"
    "operand_after toks (final + 1) = Some n"
    using assms by (auto simp: isolated_def split: option.splits if_splits)
  then have "n = length toks \<or> tk_type (toks ! n) \<in> set closes_expression"
    "b = 0 \<or> tk_type (toks ! (b - 1)) \<in> set opens_expression \<and>
       (tk_type (toks ! (b - 1)) = ''AND'' \<longrightarrow> is_logical_and toks (b - 1))"
    using assms operand_after_sound [OF bn(3)]
    by (auto simp: isolated_def Let_def split: if_splits)
  with operand_before_sound [OF bn(2)] operand_after_sound [OF bn(3)] bn(1) show ?thesis
    by (intro exI [of _ b] exI [of _ n]) auto
qed

lemma isolated_operands_witness:
  "isolated (typed_tokens [''WHERE'', ''VAR'', ''DOT'', ''VAR'', ''NULLSAFE_EQ'', ''NUMBER'', ''AND'', ''VAR'']) 4 4 \<and>
   \<not> isolated (typed_tokens [''WHERE'', ''VAR'', ''NULLSAFE_EQ'', ''VAR'', ''EQ'', ''VAR'']) 2 2 \<and>
   (\<exists>b n. b < 4 \<and> 4 + 1 < (n::nat) \<and> operand (tokens_between
      (typed_tokens [''WHERE'', ''VAR'', ''DOT'', ''VAR'', ''NULLSAFE_EQ'', ''NUMBER'', ''AND'', ''VAR'']) b 4))"
proof -
  have iso: "isolated (typed_tokens
      [''WHERE'', ''VAR'', ''DOT'', ''VAR'', ''NULLSAFE_EQ'', ''NUMBER'', ''AND'', ''VAR'']) 4 4" by code_simp
  have "\<not> isolated (typed_tokens [''WHERE'', ''VAR'', ''NULLSAFE_EQ'', ''VAR'', ''EQ'', ''VAR'']) 2 2" by code_simp
  with iso isolated_operands [OF iso] show ?thesis by blast
qed

end
