(* ===== verification/Reverse.thy ===== *)
theory Reverse
  imports Hidden_Names Lexeme
begin

text \<open>
  \<open>internal/reverse/reverse.go\<close>: putting the client's names back into an error text. The regular
  expressions of the source are built from a fixed set of shapes, so each is a list of items here and
  matching is RE2's leftmost-first search for that shape.
\<close>

section \<open>Patterns\<close>

text \<open>
  An item matches one rune in one of the given encodings, an optional byte (preferring to take it), or
  one or more whitespace bytes \<open>[\t\n\f\r ]\<close>.
\<close>

datatype item = OneOf "gostring list" | Optional char | Spaces

definition regex_space :: "char \<Rightarrow> bool" where
  "regex_space c \<longleftrightarrow> byte c \<in> {9, 10, 12, 13, 32}"

text \<open>
  The length of the preferred match at the start of a text. A pattern never has an item that matches
  whitespace after \<open>\s+\<close>, so taking the whole run loses no match.
\<close>

fun match_items :: "item list \<Rightarrow> gostring \<Rightarrow> nat option" where
  "match_items [] s = Some 0"
| "match_items (OneOf alts # items) s =
     (case find (has_prefix s) alts of
        None \<Rightarrow> None
      | Some a \<Rightarrow> map_option (\<lambda>n. length a + n) (match_items items (drop (length a) s)))"
| "match_items (Optional b # items) s =
     (if has_prefix s [b]
      then (case match_items items (tl s) of
              Some n \<Rightarrow> Some (n + 1)
            | None \<Rightarrow> match_items items s)
      else match_items items s)"
| "match_items (Spaces # items) s =
     (let n = length (takeWhile regex_space s)
      in if n = 0 then None else map_option (\<lambda>m. n + m) (match_items items (drop n s)))"

text \<open>
  \<open>(?i)\<close> with \<open>QuoteMeta\<close>: each rune in any encoding of its simple case-folding orbit. The orbits are the
  Unicode tables of \<open>package unicode\<close>, a parameter; \<open>ascii_orbit\<close> has the orbits of the ASCII letters.
\<close>

type_synonym orbits = "gostring \<Rightarrow> gostring list"

definition ascii_orbit :: orbits where
  "ascii_orbit r =
     (case r of
        [c] \<Rightarrow>
          if ascii_lower c = CHR ''k'' then [''k'', ''K'', kelvin_sign]
          else if ascii_lower c = CHR ''s'' then [''s'', ''S'', long_s]
          else if is_alpha_byte c then [[ascii_lower c], [ascii_upper c]]
          else [r]
      | _ \<Rightarrow> [r])"

definition literal_items :: "orbits \<Rightarrow> gostring \<Rightarrow> item list" where
  "literal_items orbit s = map (\<lambda>r. OneOf (orbit r)) (rune_texts s)"

definition ident_core :: "orbits \<Rightarrow> gostring \<Rightarrow> item list" where
  "ident_core orbit ident = Optional backquote # literal_items orbit ident @ [Optional backquote]"

definition qualified_core :: "orbits \<Rightarrow> gostring \<Rightarrow> item list" where
  "qualified_core orbit qualified =
     (case index_byte qualified (CHR ''.'') of
        None \<Rightarrow> ident_core orbit qualified
      | Some dot \<Rightarrow>
          (let db = take dot qualified; table = drop (dot + 1) qualified;
               tablePat =
                 (if CHR ''.'' \<in> set table
                  then OneOf [[backquote]] # literal_items orbit table @ [OneOf [[backquote]]]
                  else Optional backquote # literal_items orbit table @ [Optional backquote])
           in Optional backquote # literal_items orbit db
              @ [Optional backquote, OneOf [''.'']] @ tablePat))"

section \<open>Substitution\<close>

text \<open>
  \<open>substituteBoundary\<close>: the matches are the non-overlapping leftmost ones, each searched after the
  previous, and one that is not delimited is copied. \<open>before\<close> is the byte before the text that is left.
  The cores of the code never match an empty text.
\<close>

definition not_word :: "gostring \<Rightarrow> bool" where
  "not_word s \<longleftrightarrow> s = [] \<or> \<not> is_word_byte (hd s)"

function substitute_from :: "item list \<Rightarrow> gostring \<Rightarrow> gostring \<Rightarrow> gostring \<Rightarrow> gostring" where
  "substitute_from core repl before [] = []"
| "substitute_from core repl before (c # s) =
     (case match_items core (c # s) of
        Some (Suc n) \<Rightarrow>
          (if not_word before \<and> not_word (drop n s) then repl else take (Suc n) (c # s))
          @ substitute_from core repl [last (take (Suc n) (c # s))] (drop n s)
      | _ \<Rightarrow> c # substitute_from core repl [c] s)"
  by pat_completeness auto
termination by (relation "measure (\<lambda>(core, repl, before, s). length s)") auto

definition substitute_boundary :: "gostring \<Rightarrow> item list \<Rightarrow> gostring \<Rightarrow> gostring" where
  "substitute_boundary s core repl = substitute_from core repl [] s"

definition substitute_ident :: "orbits \<Rightarrow> gostring \<Rightarrow> gostring \<Rightarrow> gostring \<Rightarrow> gostring" where
  "substitute_ident orbit s target repl = substitute_boundary s (ident_core orbit target) repl"

definition substitute_qualified :: "orbits \<Rightarrow> gostring \<Rightarrow> gostring \<Rightarrow> gostring \<Rightarrow> gostring" where
  "substitute_qualified orbit s qualified repl = substitute_boundary s (qualified_core orbit qualified) repl"

section \<open>The whole statement\<close>

text \<open>
  \<open>flexibleSQLRegex\<close> quotes \<open>string(c)\<close> for each \<^emph>\<open>byte\<close> \<open>c\<close>: the conversion of a byte is the rune with
  that number, so a byte from 0x80 on becomes the two bytes of U+0080 to U+00FF.
\<close>

definition byte_as_rune :: "char \<Rightarrow> gostring" where
  "byte_as_rune c =
     (if byte c < 0x80 then [c] else [char_of (0xC0 + byte c div 64), char_of (0x80 + byte c mod 64)])"

fun flexible_items :: "orbits \<Rightarrow> bool \<Rightarrow> gostring \<Rightarrow> item list" where
  "flexible_items orbit inWS [] = []"
| "flexible_items orbit inWS (c # s) =
     (if byte c \<in> {9, 10, 11, 12, 13, 32}
      then (if inWS then [] else [Spaces]) @ flexible_items orbit True s
      else OneOf (orbit (byte_as_rune c)) # flexible_items orbit False s)"

function replace_all :: "item list \<Rightarrow> gostring \<Rightarrow> gostring \<Rightarrow> gostring" where
  "replace_all items repl [] = []"
| "replace_all items repl (c # s) =
     (case match_items items (c # s) of
        Some (Suc n) \<Rightarrow> repl @ replace_all items repl (drop n s)
      | _ \<Rightarrow> c # replace_all items repl s)"
  by pat_completeness auto
termination by (relation "measure (\<lambda>(items, repl, s). length s)") auto

definition flexible_sql_replace :: "orbits \<Rightarrow> gostring \<Rightarrow> gostring \<Rightarrow> gostring \<Rightarrow> gostring" where
  "flexible_sql_replace orbit s rewrittenSQL originalSQL =
     (if rewrittenSQL = [] then s
      else case str_index s rewrittenSQL of
             Some i \<Rightarrow> take i s @ originalSQL @ drop (i + length rewrittenSQL) s
           | None \<Rightarrow> replace_all (flexible_items orbit False rewrittenSQL) originalSQL s)"

section \<open>Positions\<close>

text \<open>\<open>buildOffsetMap\<close>: a forward Myers diff, its furthest points \<open>V\<close> indexed by diagonal.\<close>

definition diag :: "nat \<Rightarrow> int \<Rightarrow> nat" where
  "diag limit k = nat (k + int limit)"

function slide :: "gostring \<Rightarrow> gostring \<Rightarrow> int \<Rightarrow> int \<Rightarrow> int" where
  "slide rewritten original x y =
     (if x < int (length rewritten) \<and> y < int (length original) \<and> rewritten ! nat x = original ! nat y
      then slide rewritten original (x + 1) (y + 1) else x)"
  by pat_completeness auto
termination by (relation "measure (\<lambda>(r, u, x, y). nat (int (length r) - x))") auto

declare slide.simps [simp del]

definition goes_down :: "nat \<Rightarrow> int list \<Rightarrow> int \<Rightarrow> int \<Rightarrow> bool" where
  "goes_down limit V d k \<longleftrightarrow>
     k = - d \<or> (k \<noteq> d \<and> V ! diag limit (k - 1) < V ! diag limit (k + 1))"

text \<open>The loop over the diagonals of one distance \<open>d\<close>, and whether it reached the end.\<close>

fun diagonals :: "gostring \<Rightarrow> gostring \<Rightarrow> nat \<Rightarrow> int \<Rightarrow> int list \<Rightarrow> int list \<Rightarrow> int list \<times> bool" where
  "diagonals rewritten original limit d V [] = (V, False)"
| "diagonals rewritten original limit d V (k # ks) =
     (let x0 = (if goes_down limit V d k then V ! diag limit (k + 1) else V ! diag limit (k - 1) + 1);
          x = slide rewritten original x0 (x0 - k);
          V' = V[diag limit k := x]
      in if x \<ge> int (length rewritten) \<and> x - k \<ge> int (length original) then (V', True)
         else diagonals rewritten original limit d V' ks)"

definition diagonal_range :: "int \<Rightarrow> int list" where
  "diagonal_range d = map (\<lambda>i. - d + 2 * int i) [0 ..< nat d + 1]"

text \<open>The loop over \<open>d\<close>: the snapshots taken, and the distance found.\<close>

function distances ::
    "gostring \<Rightarrow> gostring \<Rightarrow> nat \<Rightarrow> nat \<Rightarrow> int list \<Rightarrow> int list list \<Rightarrow> int list list \<times> nat option" where
  "distances rewritten original limit d V trace =
     (if d > limit then (trace, None)
      else case diagonals rewritten original limit (int d) V (diagonal_range (int d)) of
             (V', done) \<Rightarrow>
               if done then (trace @ [V], Some d)
               else distances rewritten original limit (d + 1) V' (trace @ [V]))"
  by pat_completeness auto
termination by (relation "measure (\<lambda>(r, u, limit, d, V, trace). Suc limit - d)") auto

declare distances.simps [simp del]

definition set_below :: "nat \<Rightarrow> int \<Rightarrow> int \<Rightarrow> int list \<Rightarrow> int list" where
  "set_below n x v posMap = (if x < int n then posMap[nat x := v] else posMap)"

function walk_back :: "nat \<Rightarrow> int \<Rightarrow> int \<Rightarrow> int \<Rightarrow> int \<Rightarrow> int list \<Rightarrow> int \<times> int \<times> int list" where
  "walk_back n x y startX startY posMap =
     (if x > startX \<and> y > startY
      then walk_back n (x - 1) (y - 1) startX startY (set_below n (x - 1) (y - 1) posMap)
      else (x, y, posMap))"
  by pat_completeness auto
termination by (relation "measure (\<lambda>(n, x, y, startX, startY, posMap). nat (x - startX))") auto

declare walk_back.simps [simp del]

fun back_trace :: "nat \<Rightarrow> nat \<Rightarrow> int list list \<Rightarrow> nat \<Rightarrow> int \<Rightarrow> int \<Rightarrow> int list \<Rightarrow> int \<times> int \<times> int list" where
  "back_trace n limit trace 0 x y posMap = (x, y, posMap)"
| "back_trace n limit trace (Suc d) x y posMap =
     (let Vp = trace ! Suc d; k = x - y; down = goes_down limit Vp (int (Suc d)) k;
          prevK = (if down then k + 1 else k - 1);
          prevX = Vp ! diag limit prevK; prevY = prevX - prevK
      in case walk_back n x y (if down then prevX else prevX + 1) (if down then prevY + 1 else prevY) posMap of
           (x', y', posMap') \<Rightarrow>
             if down then back_trace n limit trace d x' prevY posMap'
             else back_trace n limit trace d prevX y' (set_below n prevX prevY posMap'))"

fun zero_prefix :: "nat \<Rightarrow> int list \<Rightarrow> int list" where
  "zero_prefix 0 posMap = posMap"
| "zero_prefix (Suc x) posMap = zero_prefix x (posMap[x := 0])"

definition build_offset_map :: "gostring \<Rightarrow> gostring \<Rightarrow> int list" where
  "build_offset_map rewritten original =
     (let n = length rewritten; m = length original; limit = n + m;
          posMap = replicate n 0 @ [int m]
      in if n = 0 \<or> m = 0 then posMap
         else case distances rewritten original limit 0 (replicate (2 * limit + 1) 0) [] of
                (trace, None) \<Rightarrow> replicate (n + 1) (int m)
              | (trace, Some foundD) \<Rightarrow>
                  (case back_trace n limit trace foundD (int n) (int m) posMap of
                     (x, y, posMap1) \<Rightarrow>
                       (case walk_back n x y 0 0 posMap1 of
                          (x', y', posMap2) \<Rightarrow> zero_prefix (nat x') posMap2)))"

text \<open>\<open>([Pp]osition\s+)(\d+)\<close> at the start of a text: the lengths of its two groups.\<close>

definition position_match :: "gostring \<Rightarrow> (nat \<times> nat) option" where
  "position_match s =
     (if \<not> (has_prefix s ''Position'' \<or> has_prefix s ''position'') then None
      else
        let w = length (takeWhile regex_space (drop 8 s));
            g = length (takeWhile is_digit_byte (drop (8 + w) s))
        in if w = 0 \<or> g = 0 then None else Some (8 + w, g))"

definition itoa :: "int \<Rightarrow> gostring" where
  "itoa n = (if n < 0 then ''-'' @ nat_dec (nat (- n)) else nat_dec (nat n))"

text \<open>The replacement of one match; \<open>strconv.Atoi\<close> fails from 2^63 on.\<close>

definition remap_position :: "int list \<Rightarrow> gostring \<Rightarrow> gostring \<Rightarrow> gostring" where
  "remap_position posMap word digits =
     (let pos1 = digits_value 10 digits; n = length posMap - 1
      in if pos1 \<ge> 2 ^ 63 \<or> pos1 = 0 \<or> pos1 > n then word @ digits
         else word @ itoa (posMap ! (pos1 - 1) + 1))"

function remap_from :: "int list \<Rightarrow> gostring \<Rightarrow> gostring" where
  "remap_from posMap [] = []"
| "remap_from posMap (c # s) =
     (case position_match (c # s) of
        Some (w, g) \<Rightarrow>
          if w + g = 0 then c # remap_from posMap s
          else remap_position posMap (take w (c # s)) (take g (drop w (c # s)))
               @ remap_from posMap (drop (w + g) (c # s))
      | None \<Rightarrow> c # remap_from posMap s)"
  by pat_completeness auto
termination
  by (relation "measure (\<lambda>(posMap, s). length s)") (auto simp: less_Suc_eq_le)

definition remap_error_positions :: "gostring \<Rightarrow> int list \<Rightarrow> gostring" where
  "remap_error_positions err posMap = (if length posMap \<le> 1 then err else remap_from posMap err)"

section \<open>Invert\<close>

definition max_remap_sql :: nat where
  "max_remap_sql = 256 * 1024"

text \<open>The substitutions of one map, in the order of the given keys.\<close>

definition invert_names ::
    "(gostring \<Rightarrow> gostring \<Rightarrow> gostring \<Rightarrow> gostring) \<Rightarrow> (gostring \<times> gostring) list \<Rightarrow> gostring list
       \<Rightarrow> gostring \<Rightarrow> gostring" where
  "invert_names substitute rewrites keys err =
     foldl (\<lambda>err origin.
         case map_of rewrites origin of
           None \<Rightarrow> err
         | Some rewritten \<Rightarrow>
             if origin = rewritten \<or> rewritten = [] then err else substitute err rewritten origin)
       err keys"

definition invert_sql :: "orbits \<Rightarrow> gostring \<Rightarrow> gostring \<Rightarrow> gostring \<Rightarrow> gostring" where
  "invert_sql orbit message originalSQL rewrittenSQL =
     (if rewrittenSQL = [] \<or> rewrittenSQL = originalSQL then message
      else
        let err = (if length rewrittenSQL \<le> max_remap_sql \<and> length originalSQL \<le> max_remap_sql
                   then remap_error_positions message (build_offset_map rewrittenSQL originalSQL)
                   else message)
        in flexible_sql_replace orbit err rewrittenSQL originalSQL)"

definition invert ::
    "orbits \<Rightarrow> gostring \<Rightarrow> gostring \<Rightarrow> gostring \<Rightarrow> (gostring \<times> gostring) list \<Rightarrow> (gostring \<times> gostring) list
       \<Rightarrow> gostring" where
  "invert orbit message originalSQL rewrittenSQL tableRewrites databaseRewrites =
     (if message = [] then message
      else
        invert_names (substitute_ident orbit) databaseRewrites (sorted_keys databaseRewrites)
          (invert_names (substitute_qualified orbit) tableRewrites (sorted_keys tableRewrites)
            (invert_sql orbit message originalSQL rewrittenSQL)))"

end
