(* ===== verification/Error_Session.thy ===== *)
theory Error_Session
  imports Reverse Engine_Tokens
begin

text \<open>
  The session of \<open>native.go\<close>: the record of the last rewrite on a connection, and what
  \<open>RewriteErrorMessage\<close> returns for an error text under it, in the per-connection \<open>NativeRewriter\<close> and in
  the stateless \<open>Service\<close> (\<open>service.go\<close>). The outcome of a rewrite, a Go error or a response, is an input
  here: what the session keeps and shows does not depend on how the pipeline computed it.
\<close>

section \<open>State\<close>

record call_context =
  cc_sql :: gostring
  cc_account :: gostring
  cc_code :: rewrite_code
  cc_sql_after :: gostring
  cc_table_rewrites :: "(gostring \<times> gostring) list"
  cc_database_rewrites :: "(gostring \<times> gostring) list"
  cc_options :: "rewrite_option list"

text \<open>The mutex makes each operation one step on the field \<open>last\<close>.\<close>

record session =
  ses_last :: "call_context option"
  ses_closed :: bool

definition new_session :: session where
  "new_session = \<lparr>ses_last = None, ses_closed = False\<rparr>"

definition withheld_message :: gostring where
  "withheld_message =
     ''Query failed. The error details were withheld: the rewriter could not map them '' @
     ''back to the original query within its limits.''"

definition withheld_reason_message :: "gostring \<Rightarrow> gostring" where
  "withheld_reason_message reason = ''error message withheld: '' @ reason"

section \<open>Operations of the connection\<close>

definition stash :: "gostring \<Rightarrow> gostring \<Rightarrow> rewrite_option list \<Rightarrow> response \<Rightarrow> session \<Rightarrow> session" where
  "stash sql account opts resp s =
     s\<lparr>ses_last := Some
         \<lparr>cc_sql = sql, cc_account = account, cc_code = r_code resp, cc_sql_after = r_sql_after_rewrite resp,
          cc_table_rewrites = r_table_rewrites resp, cc_database_rewrites = r_database_rewrites resp,
          cc_options = opts\<rparr>\<rparr>"

text \<open>\<open>Rewrite\<close>: a Go error leaves the session as it is.\<close>

definition session_rewrite ::
    "gostring \<Rightarrow> gostring \<Rightarrow> rewrite_option list \<Rightarrow> engine_error + response \<Rightarrow> session \<Rightarrow> session" where
  "session_rewrite sql account opts outcome s =
     (case outcome of Inl _ \<Rightarrow> s | Inr resp \<Rightarrow> stash sql account opts resp s)"

definition inverted_message :: "orbits \<Rightarrow> gostring \<Rightarrow> call_context \<Rightarrow> gostring" where
  "inverted_message orbit message ctx =
     invert orbit message (cc_sql ctx) (cc_sql_after ctx) (cc_table_rewrites ctx)
       (cc_database_rewrites ctx)"

definition session_error_message :: "orbits \<Rightarrow> gostring \<Rightarrow> session \<Rightarrow> gostring" where
  "session_error_message orbit message s =
     (case ses_last s of
        None \<Rightarrow> message
      | Some ctx \<Rightarrow>
          if message = [] then message
          else if cc_code ctx \<noteq> CodeSuccess then withheld_message
          else
            let inverted = inverted_message orbit message ctx;
                (identifiers, literals) = hidden_names (cc_options ctx)
            in if mentions_hidden inverted identifiers literals then withheld_message else inverted)"

definition session_close :: "session \<Rightarrow> session" where
  "session_close s = s\<lparr>ses_last := None, ses_closed := True\<rparr>"

section \<open>The stateless service\<close>

record error_response =
  er_code :: rewrite_code
  er_error_after :: gostring
  er_message :: gostring

text \<open>
  \<open>Service.RewriteErrorMessage\<close>; \<open>outcome\<close> is that of the rewrite it runs again on the request's SQL and
  options.
\<close>

definition service_error_message ::
    "orbits \<Rightarrow> gostring \<Rightarrow> gostring \<Rightarrow> rewrite_option list \<Rightarrow> engine_error + response \<Rightarrow> error_response" where
  "service_error_message orbit msg sql opts outcome =
     (let out = \<lparr>er_code = CodeSuccess, er_error_after = msg, er_message = []\<rparr>;
          withhold = (\<lambda>reason. out\<lparr>er_error_after := withheld_message,
                                    er_message := withheld_reason_message reason\<rparr>)
      in if msg = [] \<or> sql = [] then out
         else case outcome of
                Inl _ \<Rightarrow> withhold ''rewrite failed''
              | Inr resp \<Rightarrow>
                  if r_code resp \<noteq> CodeSuccess then withhold ''rewrite failed''
                  else
                    let inverted = invert orbit msg sql (r_sql_after_rewrite resp) (r_table_rewrites resp)
                          (r_database_rewrites resp);
                        (identifiers, literals) = hidden_names opts
                    in if mentions_hidden inverted identifiers literals
                       then withhold ''physical name remained''
                       else out\<lparr>er_error_after := inverted\<rparr>)"

section \<open>Statement types\<close>

definition classify_command :: "gostring \<Rightarrow> statement_type" where
  "classify_command sql =
     (let u = to_upper (trim_space sql)
      in if has_prefix u ''USE'' then StUse
         else if has_prefix u ''GRANT'' then StGrant
         else if has_prefix u ''REVOKE'' then StRevoke
         else if has_prefix u ''RENAME'' then StRenameTable
         else if has_prefix u ''EXISTS'' then StExistsTable
         else if has_prefix u ''SHOW CREATE'' then StShowCreateTable
         else if has_prefix u ''DESC'' then StDescribe
         else if has_prefix u ''SHOW DATABASES'' \<or> has_prefix u ''SHOW SCHEMAS'' then StShowDatabases
         else if has_prefix u ''SHOW TABLES'' \<or> has_prefix u ''SHOW'' then StShowTables
         else StUnspecified)"

definition classify :: "json \<Rightarrow> statement_type" where
  "classify ast =
     (case node_kind ast of
        Inl _ \<Rightarrow> StUnspecified
      | Inr kind \<Rightarrow>
          if kind \<in> {''select'', ''union'', ''intersect'', ''except''} then StSelect
          else if kind = NodeInsert then StInsert
          else if kind = ''create_table'' then StCreateTable
          else if kind = ''drop_table'' then StDropTable
          else if kind = ''alter_table'' then StAlterTable
          else if kind = ''create_database'' then StCreateDatabase
          else if kind = ''drop_database'' then StDropDatabase
          else if kind = ''truncate'' then StTruncateTable
          else if kind = ''delete'' then StDelete
          else if kind = NodeCommand then
            classify_command (case command_sql ast of Inr sql \<Rightarrow> sql | Inl _ \<Rightarrow> [])
          else StUnspecified)"

section \<open>The life of a connection\<close>

text \<open>What a client may do, each call with the outcome of its rewrite.\<close>

datatype session_call =
  CallRewrite gostring gostring "rewrite_option list" "engine_error + response"
| CallErrorMessage gostring
| CallClose

definition session_step :: "orbits \<Rightarrow> session \<Rightarrow> session_call \<Rightarrow> session \<times> gostring" where
  "session_step orbit s call =
     (case call of
        CallRewrite sql account opts outcome \<Rightarrow> (session_rewrite sql account opts outcome s, [])
      | CallErrorMessage message \<Rightarrow> (s, session_error_message orbit message s)
      | CallClose \<Rightarrow> (session_close s, []))"

end
