(* ===== verification/Error_Session_Facts.thy ===== *)
theory Error_Session_Facts
  imports Error_Session
begin

text \<open>
  An error text leaves a session only when it names nothing hidden, the two entry points agree, and
  two places where the documentation of the inversion does not hold.
\<close>

section \<open>What a session remembers\<close>

definition run_calls :: "orbits \<Rightarrow> session_call list \<Rightarrow> session" where
  "run_calls orbit calls = foldl (\<lambda>s call. fst (session_step orbit s call)) new_session calls"

text \<open>The rewrite an error text is inverted under: the last that returned a response, since the last close.\<close>

fun completed :: "session_call \<Rightarrow> bool" where
  "completed (CallRewrite sql account opts (Inr resp)) = True"
| "completed CallClose = True"
| "completed _ = False"

fun context_of :: "session_call \<Rightarrow> call_context option" where
  "context_of (CallRewrite sql account opts (Inr resp)) =
     Some \<lparr>cc_sql = sql, cc_account = account, cc_code = r_code resp, cc_sql_after = r_sql_after_rewrite resp,
           cc_table_rewrites = r_table_rewrites resp, cc_database_rewrites = r_database_rewrites resp,
           cc_options = opts\<rparr>"
| "context_of _ = None"

definition remembered :: "session_call list \<Rightarrow> call_context option" where
  "remembered calls =
     (if filter completed calls = [] then None else context_of (last (filter completed calls)))"

lemma remembered_snoc:
  "remembered (calls @ [call]) = (if completed call then context_of call else remembered calls)"
  by (simp add: remembered_def)

lemma run_calls_snoc: "run_calls orbit (calls @ [call]) = fst (session_step orbit (run_calls orbit calls) call)"
  by (simp add: run_calls_def)

lemma run_calls_last: "ses_last (run_calls orbit calls) = remembered calls"
proof (induction calls rule: rev_induct)
  case Nil
  then show ?case by (simp add: run_calls_def new_session_def remembered_def)
next
  case (snoc call calls)
  show ?case
  proof (cases call)
    case (CallRewrite sql account opts outcome)
    then show ?thesis
      using snoc by (cases outcome) (simp_all add: run_calls_snoc remembered_snoc session_step_def
          session_rewrite_def stash_def)
  qed (simp_all add: snoc run_calls_snoc remembered_snoc session_step_def session_close_def)
qed

lemma mentions_hidden_ident:
  "\<not> mentions_hidden s identifiers literals \<Longrightarrow> ident \<in> set identifiers \<Longrightarrow> \<not> contains_identifier s ident"
  by (auto simp: mentions_hidden_def list_ex_iff split: if_splits)

text \<open>
  C33. Whatever a client did on the connection, an error text answered under a dynamic policy either is
  the withheld message or mentions no protected database that the policy gives the client no name for.
\<close>

theorem session_hides_protected:
  assumes "remembered calls = Some ctx"
    and "find_active (cc_options ctx) = \<lparr>sel_mode = ModeDynamic, sel_static = None, sel_dynamic = Some a\<rparr>"
    and "protected_database db (Some a)" "db \<notin> fst ` set (da_database_map a)" "db \<noteq> da_logical_context a"
    and "message \<noteq> []"
  shows "session_error_message orbit message (run_calls orbit calls) = withheld_message \<or>
     \<not> contains_identifier (session_error_message orbit message (run_calls orbit calls)) db"
proof -
  have state: "ses_last (run_calls orbit calls) = Some ctx" using assms(1) by (simp add: run_calls_last)
  obtain ids lits where hidden: "hidden_names (cc_options ctx) = (ids, lits)" by fastforce
  have "db \<in> set ids" using hidden_of_dynamic [OF assms(2)] assms(3-5) hidden by simp
  then show ?thesis
    using mentions_hidden_ident [of _ ids lits db] assms(6) state hidden
    by (auto simp: session_error_message_def Let_def)
qed

definition sample_context :: call_context where
  "sample_context =
     \<lparr>cc_sql = ''SELECT 1'', cc_account = ''acc'', cc_code = CodeSuccess, cc_sql_after = ''SELECT 1'',
      cc_table_rewrites = [], cc_database_rewrites = [(''shop'', ''phys'')], cc_options = sample_options\<rparr>"

definition sample_response :: response where
  "sample_response =
     \<lparr>r_code = CodeSuccess, r_message = [], r_sql_after_rewrite = ''SELECT 1'', r_statement_type = StSelect,
      r_existence_clause = ExistenceUnspecified, r_si_contract_version = ContractUnspecified,
      r_table_rewrites = [], r_database_rewrites = [(''shop'', ''phys'')], r_accessed = [],
      r_failed_cte_aliases = [], r_privileges_deltas = []\<rparr>"

definition sample_calls :: "session_call list" where
  "sample_calls = [CallRewrite ''SELECT 1'' ''acc'' sample_options (Inr sample_response),
     CallRewrite ''SELECT 2'' ''acc'' sample_options (Inl (EngineError []))]"

lemma session_hides_protected_witness:
  "session_error_message ascii_orbit ''no phys.t'' (run_calls ascii_orbit sample_calls) = ''no shop.t'' \<and>
   session_error_message ascii_orbit ''no vault.t'' (run_calls ascii_orbit sample_calls) = withheld_message \<and>
   \<not> contains_identifier (session_error_message ascii_orbit ''no phys.t'' (run_calls ascii_orbit sample_calls)) ''vault''"
proof -
  have ctx: "remembered sample_calls = Some sample_context"
    by (simp add: remembered_def sample_calls_def sample_context_def sample_response_def)
  have sel: "find_active (cc_options sample_context) =
     \<lparr>sel_mode = ModeDynamic, sel_static = None, sel_dynamic = Some sample_args\<rparr>"
    by (simp add: find_active_def find_active_step_def sample_options_def sample_context_def)
  have vault: "protected_database ''vault'' (Some sample_args)" "''vault'' \<notin> fst ` set (da_database_map sample_args)"
    "''vault'' \<noteq> da_logical_context sample_args" by code_simp+
  have shown: "session_error_message ascii_orbit ''no phys.t'' (run_calls ascii_orbit sample_calls) = ''no shop.t''"
    by code_simp
  moreover have "session_error_message ascii_orbit ''no vault.t'' (run_calls ascii_orbit sample_calls) = withheld_message"
    by code_simp
  moreover have "''no shop.t'' \<noteq> withheld_message" by code_simp
  ultimately show ?thesis
    using session_hides_protected [OF ctx sel vault, of "''no phys.t''" ascii_orbit] by simp
qed

text \<open>
  The stateless service and the connection answer an error text alike: what the service returns
  under the outcome of a rewrite is what a connection returns right after it.
\<close>

theorem service_agrees_with_session:
  assumes "sql \<noteq> []"
  shows "er_error_after (service_error_message orbit msg sql opts (Inr resp)) =
     session_error_message orbit msg (session_rewrite sql account opts (Inr resp) s)"
  using assms
  by (simp add: service_error_message_def session_error_message_def session_rewrite_def stash_def
      inverted_message_def Let_def split: prod.split)

lemma service_agrees_with_session_witness:
  "er_error_after (service_error_message ascii_orbit ''no vault.t'' ''SELECT 1'' sample_options (Inr sample_response)) =
     withheld_message"
proof -
  have "session_error_message ascii_orbit ''no vault.t''
      (session_rewrite ''SELECT 1'' [] sample_options (Inr sample_response) new_session) = withheld_message"
    by code_simp
  then show ?thesis
    using service_agrees_with_session [of "''SELECT 1''" ascii_orbit "''no vault.t''" sample_options
        sample_response "[]" new_session] by simp
qed



section \<open>The inversion\<close>

text \<open>
  The order of the substitutions matters, though \<open>sortedKeys\<close> says it does not: with \<open>a\<close> routed to
  \<open>b\<close> and \<open>b\<close> to \<open>c\<close>, an error about the physical \<open>c\<close> reads \<open>b\<close> in the order the code uses, and \<open>a\<close> in
  the other.
\<close>

theorem invert_order_matters:
  "invert ascii_orbit ''db c'' ''Q'' ''Q'' [] [(''a'', ''b''), (''b'', ''c'')] = ''db b'' \<and>
   invert_names (substitute_ident ascii_orbit) [(''a'', ''b''), (''b'', ''c'')] [''b'', ''a''] ''db c'' = ''db a''"
  by (rule conjI) code_simp+

text \<open>
  The whitespace-flexible search does not find a statement with a non-ASCII letter: the text below
  is the rewritten statement but for one more blank, and stays; with an ASCII letter it is replaced.
\<close>

theorem flexible_replace_misses_non_ascii:
  "flexible_sql_replace ascii_orbit ([CHR 0xC3, CHR 0xA9] @ ''  x'') ([CHR 0xC3, CHR 0xA9] @ '' x'') ''Q'' =
     [CHR 0xC3, CHR 0xA9] @ ''  x'' \<and>
   flexible_sql_replace ascii_orbit ''e  x'' ''e x'' ''Q'' = ''Q''"
  by (rule conjI) code_simp+

lemma length_set_below [simp]: "length (set_below n x v posMap) = length posMap"
  by (simp add: set_below_def)

lemma length_walk_back: "length (snd (snd (walk_back n x y startX startY posMap))) = length posMap"
proof (induction n x y startX startY posMap rule: walk_back.induct)
  case (1 n x y startX startY posMap)
  then show ?case by (subst walk_back.simps) simp
qed

lemma length_back_trace: "length (snd (snd (back_trace n limit trace d x y posMap))) = length posMap"
proof (induction d arbitrary: x y posMap)
  case (Suc d)
  show ?case
    using length_walk_back [of n x y _ _ posMap]
    by (auto simp: Let_def Suc.IH split: prod.split if_splits) (metis snd_conv)+
qed simp

lemma length_zero_prefix: "length (zero_prefix x posMap) = length posMap"
  by (induction x arbitrary: posMap) simp_all

end
