(* ===== verification/Allowlists.thy ===== *)
theory Allowlists
  imports Engine_Tokens Lexeme
begin

text \<open>
  The closed lists of the policy: table functions, table engines, table settings and the deployment
  identity functions (\<open>engine/allowlists.go\<close>), the system tables (\<open>nameresolve/systemtables.go\<close>), and the
  system table each \<open>SHOW\<close> form reads (\<open>handlers/systemtables.go\<close>).
\<close>

section \<open>Table functions\<close>

datatype table_function_class =
  TableFunctionUnknown | TableFunctionRefused | TableFunctionDataOnly | TableFunctionExternal

definition refused_table_functions :: "gostring list" where
  "refused_table_functions =
     [''merge'', ''remote'', ''remotesecure'', ''cluster'', ''clusterallreplicas'', ''loop'', ''dictionary'',
      ''mergetreeindex'', ''mergetreeprojection'', ''timeseriesdata'', ''timeseriestags'', ''timeseriesmetrics'',
      ''timeseriesselector'', ''prometheusquery'', ''prometheusqueryrange'', ''clickhouse'', ''mysql'',
      ''postgresql'', ''mongodb'', ''jdbc'', ''odbc'', ''executable'', ''fuzzquery'', ''fuzzjson'']"

definition data_only_table_functions :: "gostring list" where
  "data_only_table_functions =
     [''numbers'', ''numbers_mt'', ''generate_series'', ''generateseries'', ''generaterandom'', ''zeros'',
      ''zeros_mt'', ''null'', ''values'', ''format'', ''input'', ''view'']"

definition external_table_functions :: "gostring list" where
  "external_table_functions =
     [''url'', ''s3'', ''gcs'', ''oss'', ''cosn'', ''file'', ''hdfs'', ''azureblobstorage'', ''iceberg'',
      ''deltalake'', ''hudi'', ''urlcluster'', ''s3cluster'', ''filecluster'', ''hdfscluster'',
      ''azureblobstoragecluster'', ''icebergcluster'', ''deltalakecluster'', ''hudicluster'', ''sqlite'', ''redis'']"

definition classify_table_function :: "gostring \<Rightarrow> table_function_class" where
  "classify_table_function name =
     (let lower = to_lower name
      in if lower \<in> set refused_table_functions \<or> has_prefix lower ''mergetree'' then TableFunctionRefused
         else if lower \<in> set data_only_table_functions then TableFunctionDataOnly
         else if lower \<in> set external_table_functions then TableFunctionExternal
         else TableFunctionUnknown)"

section \<open>Table engines\<close>

definition allowed_table_engines :: "gostring list" where
  "allowed_table_engines =
     [''MergeTree'', ''ReplacingMergeTree'', ''SummingMergeTree'', ''AggregatingMergeTree'',
      ''CollapsingMergeTree'', ''VersionedCollapsingMergeTree'', ''GraphiteMergeTree'', ''Memory'', ''Log'',
      ''TinyLog'', ''StripeLog'', ''Null'', ''Set'', ''Join'', ''View'', ''MaterializedView'', ''LiveView'']"

datatype table_engine_class = TableEngineRefused | TableEngineAllowedClass | TableEngineUnknown

definition classify_table_engine :: "gostring \<Rightarrow> int \<Rightarrow> table_engine_class" where
  "classify_table_engine name argCount =
     (if has_prefix name ''Replicated'' \<and> trim_prefix name ''Replicated'' \<in> set allowed_table_engines then
        (if argCount = 0 then TableEngineAllowedClass else TableEngineRefused)
      else if name \<in> set allowed_table_engines then TableEngineAllowedClass
      else if list_ex (\<lambda>allowed. to_lower allowed = to_lower name \<or>
                         ''replicated'' @ to_lower allowed = to_lower name) allowed_table_engines
        then TableEngineUnknown
      else TableEngineRefused)"

definition table_engine_allowed :: "gostring \<Rightarrow> int \<Rightarrow> bool" where
  "table_engine_allowed name argCount \<longleftrightarrow> classify_table_engine name argCount = TableEngineAllowedClass"

definition refused_table_settings :: "gostring list" where
  "refused_table_settings = [''disk'', ''storage_policy'']"

definition refused_table_setting :: "gostring \<Rightarrow> bool" where
  "refused_table_setting name \<longleftrightarrow> to_lower name \<in> set refused_table_settings"

section \<open>Messages\<close>

definition unsupported_statement_message :: gostring where
  "unsupported_statement_message = ''statement is not supported''"

definition table_function_refused_message :: "gostring \<Rightarrow> gostring" where
  "table_function_refused_message name = ''table function '' @ name @ '' is not accepted''"

definition table_function_unknown_message :: "gostring \<Rightarrow> gostring" where
  "table_function_unknown_message name = ''table function '' @ name @ '' is not recognised''"

definition table_engine_refused_message :: "gostring \<Rightarrow> gostring" where
  "table_engine_refused_message name = ''table engine '' @ name @ '' is not accepted''"

definition table_engine_unknown_message :: "gostring \<Rightarrow> gostring" where
  "table_engine_unknown_message name = ''table engine '' @ name @ '' is not recognised''"

definition table_setting_refused_message :: "gostring \<Rightarrow> gostring" where
  "table_setting_refused_message name = ''table setting '' @ name @ '' is not accepted''"

definition function_not_accessible_message :: "gostring \<Rightarrow> gostring" where
  "function_not_accessible_message name = ''function '' @ name @ '' is not accessible''"

section \<open>Deployment identity\<close>

definition deployment_identity_functions :: "gostring list" where
  "deployment_identity_functions =
     [''currentdatabase'', ''database'', ''schema'', ''current_database'', ''currentschemas'', ''current_schemas'',
      ''currentuser'', ''user'', ''current_user'', ''session_user'', ''hostname'', ''fqdn'', ''fullhostname'',
      ''serveruuid'', ''getmacro'']"

definition table_name_introducers :: "gostring list" where
  "table_name_introducers = [''into'', ''table'', ''exists'', ''view'', ''dictionary'', ''to'']"

definition bare_deployment_identity_names :: "gostring list" where
  "bare_deployment_identity_names = [''currentdatabase'', ''current_database'', ''currentuser'', ''current_user'']"

definition deployment_identity_function :: "gostring \<Rightarrow> bool" where
  "deployment_identity_function name \<longleftrightarrow> to_lower name \<in> set deployment_identity_functions"

text \<open>The token \<open>tk\<close> before an opening parenthesis, with the token before it: the call's name.\<close>

definition introduces_table :: "raw_token option \<Rightarrow> bool" where
  "introduces_table prev =
     (case prev of
        None \<Rightarrow> False
      | Some p \<Rightarrow> tk_type p = ''DOT'' \<or>
          (\<not> is_quoted_lexeme (tk_type p) \<and> to_lower (tk_source p) \<in> set table_name_introducers))"

definition identity_call_name :: "raw_token \<Rightarrow> gostring option" where
  "identity_call_name tk =
     (if is_quoted_lexeme (tk_type tk) then
        (if is_quoted_identifier (tk_source tk) then
           (let unquoted = (case clickhouse_unquote (tk_source tk) of Some s \<Rightarrow> s | None \<Rightarrow> tk_text tk)
            in if deployment_identity_function unquoted then Some unquoted else None)
         else None)
      else if is_word_start (tk_source tk) \<and> deployment_identity_function (tk_source tk)
        then Some (tk_source tk)
      else None)"

fun identity_call_from :: "raw_token option \<Rightarrow> raw_token list \<Rightarrow> gostring option" where
  "identity_call_from prev (tk # next # ts) =
     (case (if tk_type next \<noteq> ''L_PAREN'' \<or> tk_source tk = [] \<or> introduces_table prev then None
            else identity_call_name tk) of
        Some name \<Rightarrow> Some name
      | None \<Rightarrow> identity_call_from (Some tk) (next # ts))"
| "identity_call_from prev _ = None"

definition first_deployment_identity_call :: "engine \<Rightarrow> gostring \<Rightarrow> engine_error + gostring option" where
  "first_deployment_identity_call e sql = map_sum id (identity_call_from None) (tokenize_raw e sql)"

text \<open>The members of an object are walked in the order of their keys.\<close>

fun first_some :: "'a option list \<Rightarrow> 'a option" where
  "first_some [] = None"
| "first_some (x # xs) = (case x of Some v \<Rightarrow> Some v | None \<Rightarrow> first_some xs)"

definition bare_column_name :: "json \<Rightarrow> gostring option" where
  "bare_column_name n =
     (let col = field ''column'' n; nm = field ''name'' col
      in if \<not> is_object col \<or> field ''table'' col \<noteq> JNull then None
         else case field ''name'' nm of
                JString s \<Rightarrow> if to_lower s \<in> set bare_deployment_identity_names then Some s else None
              | _ \<Rightarrow> None)"

definition bare_function_name :: "json \<Rightarrow> gostring option" where
  "bare_function_name n =
     (let fn = field ''function'' n
      in if \<not> is_object fn \<or> field ''no_parens'' fn \<noteq> JBool True then None
         else case field ''name'' fn of
                JString s \<Rightarrow> if to_lower s \<in> set bare_deployment_identity_names then Some s else None
              | _ \<Rightarrow> None)"

fun first_bare_identity_name :: "json \<Rightarrow> gostring option" where
  "first_bare_identity_name (JArray vs) = first_some (map first_bare_identity_name vs)"
| "first_bare_identity_name (JObject m) =
     (case bare_column_name (JObject m) of
        Some s \<Rightarrow> Some s
      | None \<Rightarrow>
          (case bare_function_name (JObject m) of
             Some s \<Rightarrow> Some s
           | None \<Rightarrow>
               first_some (map snd (sort_key fst (map (\<lambda>(k, v). (k, first_bare_identity_name v)) m)))))"
| "first_bare_identity_name _ = None"

definition first_deployment_identity_name ::
    "engine \<Rightarrow> json \<Rightarrow> gostring \<Rightarrow> engine_error + gostring option" where
  "first_deployment_identity_name e ast sql =
     (case first_deployment_identity_call e sql of
        Inl err \<Rightarrow> Inl err
      | Inr (Some name) \<Rightarrow> Inr (Some name)
      | Inr None \<Rightarrow> Inr (first_bare_identity_name ast))"

section \<open>System tables\<close>

definition SystemDatabase :: gostring where "SystemDatabase = ''system''"

definition system_table_allowlist :: "gostring list" where
  "system_table_allowlist =
     [''aggregate_function_combinators'', ''azure_queue_settings'', ''build_options'', ''codecs'', ''collations'',
      ''contributors'', ''dashboards'', ''data_type_families'', ''database_engines'', ''formats'', ''functions'',
      ''jemalloc_bins'', ''jemalloc_stats'', ''keywords'', ''licenses'', ''merge_tree_settings'', ''numbers'',
      ''numbers_mt'', ''one'', ''primes'', ''privileges'', ''replicated_merge_tree_settings'',
      ''s3_queue_settings'', ''settings'', ''settings_changes'', ''table_engines'', ''table_functions'',
      ''time_zones'', ''tokenizers'', ''unicode'', ''warnings'', ''zeros'', ''zeros_mt'', ''clusters'', ''tables'',
      ''columns'', ''data_skipping_indices'', ''projections'', ''parts'', ''parts_columns'', ''projection_parts'',
      ''projection_parts_columns'', ''databases'', ''completions'', ''mutations'']"

definition system_table_allowed :: "gostring \<Rightarrow> bool" where
  "system_table_allowed table \<longleftrightarrow> table \<in> set system_table_allowlist"

definition sorted_system_tables :: "gostring list" where
  "sorted_system_tables = sort system_table_allowlist"

definition system_table_refused_message :: "gostring \<Rightarrow> gostring" where
  "system_table_refused_message table = ''system table '' @ SystemDatabase @ ''.'' @ table @ '' is not accessible''"

text \<open>
  What a \<open>SHOW\<close> form reads, from the fields \<open>ShowWhat\<close> and \<open>ShowWhatNext\<close> of its parse: a refused table, an
  allowed one (or a form handled elsewhere), or a form on neither list.
\<close>

datatype show_class = ShowReads gostring | ShowAllowed | ShowUnknown

definition system_table_show_refusal :: "gostring \<Rightarrow> gostring \<Rightarrow> show_class" where
  "system_table_show_refusal what next =
     (if what = ''PROCESSLIST'' then ShowReads ''processes''
      else if what = ''MERGES'' then ShowReads ''merges''
      else if what = ''DICTIONARIES'' then ShowReads ''dictionaries''
      else if what \<in> {''USERS'', ''ACCESS''} then ShowReads ''users''
      else if what = ''ROLES'' then ShowReads ''roles''
      else if what = ''GRANTS'' then ShowReads ''grants''
      else if what = ''PROFILES'' then ShowReads ''settings_profiles''
      else if what \<in> {''ROW'', ''POLICIES''} then ShowReads ''row_policies''
      else if what = ''QUOTA'' then ShowReads ''quota_usage''
      else if what = ''QUOTAS'' then ShowReads ''quotas''
      else if what \<in> {''FILESYSTEM'', ''CACHES''} then ShowReads ''filesystem_cache_settings''
      else if what = ''CURRENT'' then
        (if next = ''QUOTA'' then ShowReads ''quota_usage'' else ShowReads ''current_roles'')
      else if what = ''ENABLED'' then ShowReads ''enabled_roles''
      else if what = ''SETTINGS'' then
        (if next = ''PROFILES'' then ShowReads ''settings_profiles'' else ShowAllowed)
      else if what \<in> set [''CLUSTER'', ''CLUSTERS'', ''FUNCTIONS'', ''ENGINES'', ''CHANGED'', ''SETTING'',
                 ''PRIVILEGES'', ''TABLES'', ''DATABASES'', ''CREATE'', ''COLUMNS'', ''FIELDS'', ''INDEX'',
                 ''INDEXES'', ''INDICES'', ''KEYS''] then ShowAllowed
      else ShowUnknown)"

end
