(* ===== verification/Json_Edit.thy ===== *)
theory Json_Edit
  imports Engine_Tokens
begin

text \<open>
  Editing the decoded AST: the writes \<open>m[k] = v\<close> and \<open>delete(m, k)\<close> on a JSON object, and the node
  kinds of \<open>engine/ast.go\<close>. \<open>json.Marshal\<close> after an edit is the edited value itself: an object is
  compared without regard to the order of its keys.
\<close>

section \<open>Node kinds\<close>

definition NodeSelect :: gostring where "NodeSelect = ''select''"
definition NodeUnion :: gostring where "NodeUnion = ''union''"
definition NodeIntersect :: gostring where "NodeIntersect = ''intersect''"
definition NodeExcept :: gostring where "NodeExcept = ''except''"
definition NodeCreateTable :: gostring where "NodeCreateTable = ''create_table''"
definition NodeDropTable :: gostring where "NodeDropTable = ''drop_table''"
definition NodeAlterTable :: gostring where "NodeAlterTable = ''alter_table''"
definition NodeCreateDB :: gostring where "NodeCreateDB = ''create_database''"
definition NodeDropDB :: gostring where "NodeDropDB = ''drop_database''"
definition NodeTruncate :: gostring where "NodeTruncate = ''truncate''"
definition NodeDelete :: gostring where "NodeDelete = ''delete''"
definition NodeCreateView :: gostring where "NodeCreateView = ''create_view''"
definition NodeDropView :: gostring where "NodeDropView = ''drop_view''"
definition NodeUpdate :: gostring where "NodeUpdate = ''update''"
definition NodeCopy :: gostring where "NodeCopy = ''copy''"

lemmas node_kind_defs =
  NodeSelect_def NodeUnion_def NodeIntersect_def NodeExcept_def NodeInsert_def NodeCreateTable_def
  NodeDropTable_def NodeAlterTable_def NodeCreateDB_def NodeDropDB_def NodeTruncate_def NodeDelete_def
  NodeCreateView_def NodeDropView_def NodeUpdate_def NodeCommand_def NodeRaw_def NodeCopy_def

section \<open>Objects\<close>

text \<open>\<open>m[k] = v\<close> and \<open>delete(m, k)\<close>.\<close>

definition put :: "gostring \<Rightarrow> json \<Rightarrow> json \<Rightarrow> json" where
  "put k v j = JObject (filter (\<lambda>(k', _). k' \<noteq> k) (members j) @ [(k, v)])"

definition remove_key :: "gostring \<Rightarrow> json \<Rightarrow> json" where
  "remove_key k j = JObject (filter (\<lambda>(k', _). k' \<noteq> k) (members j))"

text \<open>\<open>b, _ := v.(bool)\<close>.\<close>

definition json_bool :: "json \<Rightarrow> bool" where
  "json_bool j \<longleftrightarrow> j = JBool True"

text \<open>\<open>identName\<close> of \<open>engine/nodes.go\<close>: the name of an identifier node.\<close>

definition ident_name :: "json \<Rightarrow> gostring" where
  "ident_name v = json_string (field ''name'' v)"

lemma members_JObject [simp]: "members (JObject m) = m"
  by (simp add: members_def)

lemma is_object_JObject [simp]: "is_object (JObject m)"
  by (simp add: is_object_def)

lemma is_object_iff: "is_object j \<longleftrightarrow> (\<exists>m. j = JObject m)"
  by (cases j) (simp_all add: is_object_def)

lemma map_of_filter_other:
  "map_of (filter (\<lambda>(k', _). k' \<noteq> k) m) k' = (if k' = k then None else map_of m k')"
  by (induction m) auto

lemma field_put [simp]: "field k' (put k v j) = (if k' = k then v else field k' j)"
  by (simp add: field_def put_def map_add_def map_of_filter_other split: option.split)

lemma is_object_put [simp]: "is_object (put k v j)"
  by (simp add: put_def)

lemma field_remove_key [simp]: "field k' (remove_key k j) = (if k' = k then JNull else field k' j)"
  by (simp add: field_def remove_key_def map_of_filter_other)

lemma has_key_put: "has_key (members (put k v j)) k' \<longleftrightarrow> k' = k \<or> has_key (members j) k'"
  by (auto simp: has_key_def put_def map_add_def map_of_filter_other split: option.split)

lemma size_map_of: "map_of m k = Some v \<Longrightarrow> size v < size (JObject m)"
  by (induction m) (auto split: if_splits)

lemma size_field: "is_object (field k j) \<Longrightarrow> size (field k j) < size j"
proof -
  assume obj: "is_object (field k j)"
  then obtain m v where "j = JObject m" "map_of m k = Some v" "field k j = v"
    by (cases j) (auto simp: field_def members_def is_object_def split: option.splits)
  then show ?thesis using size_map_of by simp
qed

section \<open>Well-formed values\<close>

text \<open>What \<open>json.Unmarshal\<close> into \<open>any\<close> yields: every object holds each of its keys once.\<close>

fun wf_json :: "json \<Rightarrow> bool" where
  "wf_json (JArray vs) \<longleftrightarrow> list_all wf_json vs"
| "wf_json (JObject m) \<longleftrightarrow> go_map m \<and> list_all (\<lambda>(_, v). wf_json v) m"
| "wf_json _ \<longleftrightarrow> True"

lemma wf_field: "wf_json j \<Longrightarrow> wf_json (field k j)"
proof (cases j)
  case (JObject m)
  assume "wf_json j"
  then show ?thesis
    using JObject by (auto simp: field_def list_all_iff split: option.split dest!: map_of_SomeD)
qed (simp_all add: field_def members_def)

lemma wf_remove_key: "wf_json j \<Longrightarrow> wf_json (remove_key k j)"
  by (cases j) (auto simp: remove_key_def members_def go_map_def list_all_iff distinct_map_filter)

lemma wf_put: "wf_json j \<Longrightarrow> wf_json v \<Longrightarrow> wf_json (put k v j)"
  by (cases j) (auto simp: put_def members_def go_map_def list_all_iff distinct_map_filter)

lemma wf_list_update: "list_all wf_json vs \<Longrightarrow> wf_json v \<Longrightarrow> list_all wf_json (vs[i := v])"
  using set_update_subset_insert [of vs i v] by (auto simp: list_all_iff)

end
