(* ===== verification/Settings_Gate.thy ===== *)
theory Settings_Gate
  imports Allowlists Json_Edit Proto_Options
begin

text \<open>
  The settings rules: the names and values of \<open>settings.go\<close> (the token side: session \<open>SET\<close>, the
  \<open>SETTINGS\<close> clauses of opaque texts, the two backstops) and the verdicts of \<open>handlers/preflight.go\<close>
  (\<open>settingsVerdict\<close>, \<open>CheckSessionSet\<close>). A position in the token slice is the list of the tokens from
  there on. The AST side (\<open>QuerySettings\<close>) is at the end.
\<close>

section \<open>Names and values\<close>

definition sql_bearing_settings :: "gostring list" where
  "sql_bearing_settings =
     [''additional_table_filters'', ''additional_result_filter'', ''parallel_replicas_custom_key'',
      ''dialect'', ''polyglot_dialect'', ''allow_experimental_polyglot_dialect'',
      ''allow_experimental_prql_dialect'', ''allow_experimental_kusto_dialect'',
      ''enable_global_with_statement'', ''compatibility'', ''implicit_table_at_top_level'',
      ''promql_table'', ''promql_database'', ''legacy_column_name_of_tuple_literal'', ''profile'']"

definition analyzer_settings :: "gostring list" where
  "analyzer_settings = [''enable_analyzer'', ''allow_experimental_analyzer'']"

definition sql_bearing_setting :: "gostring \<Rightarrow> bool" where
  "sql_bearing_setting name \<longleftrightarrow>
     to_lower name \<in> set sql_bearing_settings \<or> has_suffix (to_lower name) ''_dialect''"

definition analyzer_setting :: "gostring \<Rightarrow> bool" where
  "analyzer_setting name \<longleftrightarrow> to_lower name \<in> set analyzer_settings"

definition true_literal_spelling :: "gostring \<Rightarrow> bool" where
  "true_literal_spelling source \<longleftrightarrow>
     to_lower source \<in> {''1'', ''true'', squote # ''1'' @ [squote], squote # ''true'' @ [squote]}"

record setting_assignment =
  sa_name :: gostring
  sa_plain_value :: bool
  sa_true_literal :: bool
  sa_escaped_name :: bool

definition setting_refused :: "setting_assignment \<Rightarrow> bool" where
  "setting_refused a \<longleftrightarrow>
     sql_bearing_setting (sa_name a) \<or> (analyzer_setting (sa_name a) \<and> \<not> sa_true_literal a)"

definition opaque_keyword :: "raw_token \<Rightarrow> bool" where
  "opaque_keyword tok \<longleftrightarrow> tk_type tok \<noteq> ''STRING'' \<and> tk_type tok \<noteq> ''QUOTED_IDENTIFIER''"

text \<open>A token whose type is the keyword it spells.\<close>

definition mutation_probe_keyword_token :: "raw_token \<Rightarrow> bool" where
  "mutation_probe_keyword_token tok \<longleftrightarrow>
     tk_type tok \<noteq> ''VAR'' \<and> tk_type tok \<noteq> ''QUOTED_IDENTIFIER''
     \<and> list_all (\<lambda>c. c = CHR ''_'' \<or> is_upper_byte c) (tk_type tok)
     \<and> tk_type tok \<noteq> [] \<and> equal_fold (tk_type tok) (tk_text tok)"

definition setting_name_token :: "raw_token \<Rightarrow> bool" where
  "setting_name_token tok \<longleftrightarrow> is_name_tok (tk_type tok) \<or> mutation_probe_keyword_token tok"

definition true_literal_tokens :: "raw_token list \<Rightarrow> bool" where
  "true_literal_tokens value =
     (case value of
        [v] \<Rightarrow> tk_type v \<in> {''NUMBER'', ''TRUE'', ''STRING''} \<and> true_literal_spelling (tk_source v)
      | _ \<Rightarrow> False)"

definition plain_setting_value_tokens :: "raw_token list \<Rightarrow> bool" where
  "plain_setting_value_tokens value =
     (case value of
        [v] \<Rightarrow>
          if tk_type v \<in> {''NUMBER'', ''STRING'', ''VAR'', ''QUOTED_IDENTIFIER''} then True
          else if equal_fold (tk_text v) ''SELECT'' \<or> equal_fold (tk_text v) ''WITH'' then False
          else mutation_probe_keyword_token v
      | [s, v] \<Rightarrow> tk_type s \<in> {''DASH'', ''PLUS''} \<and> tk_type v = ''NUMBER''
      | _ \<Rightarrow> False)"

definition setting_name_verbatim :: "raw_token \<Rightarrow> bool" where
  "setting_name_verbatim tok =
     (let src = tk_source tok
      in if src = [] \<or> backslash \<in> set src then False
         else if src = tk_text tok then True
         else if length src < 2 then False
         else if (hd src \<noteq> backquote \<and> hd src \<noteq> dquote) \<or> last src \<noteq> hd src then False
         else let inner = butlast (tl src)
              in inner = tk_text tok \<and> hd src \<notin> set inner)"

definition settings_list_end :: "raw_token \<Rightarrow> bool" where
  "settings_list_end tok \<longleftrightarrow>
     opaque_keyword tok \<and> tk_type tok \<noteq> ''VAR''
     \<and> to_upper (tk_text tok) \<in> {''SELECT'', ''WITH'', ''VALUES'', ''FORMAT''}"

section \<open>Assignment lists\<close>

definition bracket_step :: "raw_token \<Rightarrow> int" where
  "bracket_step tok =
     (if tk_type tok \<in> {''L_PAREN'', ''L_BRACKET'', ''L_BRACE''} then 1
      else if tk_type tok \<in> {''R_PAREN'', ''R_BRACKET'', ''R_BRACE''} then - 1 else 0)"

definition value_end :: "raw_token \<Rightarrow> bool" where
  "value_end tok \<longleftrightarrow> tk_type tok = ''COMMA'' \<or> tk_type tok = ''SEMICOLON'' \<or> settings_list_end tok"

text \<open>The inner loop of \<open>parseSettingAssignments\<close>: the value, and the tokens from its end on.\<close>

fun setting_value :: "int \<Rightarrow> raw_token list \<Rightarrow> raw_token list \<times> raw_token list" where
  "setting_value depth [] = ([], [])"
| "setting_value depth (t # ts) =
     (let depth' = depth + bracket_step t
      in if depth' = 0 \<and> value_end t then ([], t # ts)
         else case setting_value depth' ts of (value, rest) \<Rightarrow> (t # value, rest))"

lemma setting_value_append: "fst (setting_value depth ts) @ snd (setting_value depth ts) = ts"
proof (induction ts arbitrary: depth)
  case (Cons t ts)
  then show ?case using Cons [of "depth + bracket_step t"] by (simp add: Let_def split_beta)
qed simp

lemma setting_value_length: "setting_value depth ts = (value, rest) \<Longrightarrow> length rest \<le> length ts"
  using setting_value_append [of depth ts] by (metis eq_imp_le le_add2 length_append snd_conv trans_le_add2)

definition new_assignment :: "raw_token \<Rightarrow> raw_token list \<Rightarrow> setting_assignment" where
  "new_assignment name value =
     \<lparr>sa_name = tk_text name, sa_plain_value = plain_setting_value_tokens value,
      sa_true_literal = true_literal_tokens value, sa_escaped_name = \<not> setting_name_verbatim name\<rparr>"

text \<open>The assignments, the tokens after the list, and whether every assignment is well formed.\<close>

function parse_setting_assignments ::
    "raw_token list \<Rightarrow> setting_assignment list \<times> raw_token list \<times> bool" where
  "parse_setting_assignments (name # eq # ts) =
     (if \<not> setting_name_token name \<or> tk_type eq \<noteq> ''EQ'' then ([], name # eq # ts, False)
      else case setting_value 0 ts of
             (value, rest) \<Rightarrow>
               if value = [] then ([], rest, False)
               else
                 let a = new_assignment name value
                 in case rest of
                      [] \<Rightarrow> ([a], [], True)
                    | t # rest' \<Rightarrow>
                        if settings_list_end t then ([a], rest, True)
                        else if tk_type t = ''SEMICOLON'' then ([a], rest', True)
                        else case parse_setting_assignments rest' of
                               (as, stop, ok) \<Rightarrow> (a # as, stop, ok))"
| "parse_setting_assignments [] = ([], [], False)"
| "parse_setting_assignments [t] = ([], [t], False)"
  by pat_completeness auto
termination
  by (relation "measure length") (auto dest!: setting_value_length [OF sym])

lemma parse_setting_length:
  "parse_setting_assignments ts = (as, rest, ok) \<Longrightarrow> length rest \<le> length ts"
proof (induction ts arbitrary: as rest ok rule: parse_setting_assignments.induct)
  case (1 name eq ts)
  then show ?case
    by (auto simp: Let_def split: if_splits prod.splits list.splits dest!: setting_value_length)
      (meson Suc_leD le_SucI le_trans)
qed auto

text \<open>Assignments, whether the text sets session settings, and whether the list is well formed.\<close>

definition session_setting_tokens :: "raw_token list \<Rightarrow> setting_assignment list \<times> bool \<times> bool" where
  "session_setting_tokens toks =
     (if length toks < 3 \<or> \<not> equal_fold (tk_text (toks ! 0)) ''SET'' then ([], False, False)
      else if \<not> is_name_tok (tk_type (toks ! 1)) \<or> equal_fold (tk_text (toks ! 1)) ''ROLE''
              \<or> equal_fold (tk_text (toks ! 1)) ''DEFAULT'' then ([], False, False)
      else if tk_type (toks ! 2) \<noteq> ''EQ'' then ([], False, False)
      else case parse_setting_assignments (drop 1 toks) of
             (assignments, rest, ok) \<Rightarrow> (assignments, True, ok \<and> rest = []))"

definition session_setting_assignments ::
    "engine \<Rightarrow> gostring \<Rightarrow> setting_assignment list \<times> bool \<times> bool" where
  "session_setting_assignments e stmt =
     (case tokenize_raw e stmt of
        Inl _ \<Rightarrow> ([], False, False)
      | Inr toks \<Rightarrow> session_setting_tokens toks)"

section \<open>SETTINGS clauses in opaque text\<close>

definition is_word_token :: "raw_token \<Rightarrow> gostring \<Rightarrow> bool" where
  "is_word_token tok w \<longleftrightarrow> opaque_keyword tok \<and> equal_fold (tk_text tok) w"

definition show_settings_keyword :: "raw_token list \<Rightarrow> nat \<Rightarrow> bool" where
  "show_settings_keyword toks i \<longleftrightarrow>
     (i = 1 \<and> is_word_token (toks ! 0) ''SHOW'') \<or>
     (i = 2 \<and> is_word_token (toks ! 0) ''SHOW'' \<and> is_word_token (toks ! 1) ''CHANGED'')"

text \<open>\<open>ts\<close> are the tokens after the \<open>SETTINGS\<close> keyword at position \<open>i\<close>.\<close>

definition settings_list_follows :: "raw_token list \<Rightarrow> nat \<Rightarrow> bool" where
  "settings_list_follows ts i =
     (case ts of
        [] \<Rightarrow> False
      | next # rest \<Rightarrow>
          if \<not> setting_name_token next then False
          else if is_word_token next ''LIKE'' \<or> is_word_token next ''ILIKE'' then False
          else if equal_fold (tk_text next) ''PROFILES'' \<and> i = 1
            then (case rest of [] \<Rightarrow> False | eq # _ \<Rightarrow> tk_type eq = ''EQ'')
          else True)"

text \<open>The loop of \<open>RawSettingsClauses\<close> from a position on; \<open>acc\<close> is what it has collected.\<close>

function raw_settings_from ::
    "raw_token list \<Rightarrow> int \<Rightarrow> setting_assignment list \<Rightarrow> raw_token list
       \<Rightarrow> setting_assignment list \<times> bool" where
  "raw_settings_from toks depth acc [] = (acc, True)"
| "raw_settings_from toks depth acc (t # ts) =
     (let i = length toks - length (t # ts)
      in if tk_type t = ''L_PAREN'' then raw_settings_from toks (depth + 1) acc ts
         else if tk_type t = ''R_PAREN'' then raw_settings_from toks (depth - 1) acc ts
         else if \<not> is_word_token t ''SETTINGS'' then raw_settings_from toks depth acc ts
         else if show_settings_keyword toks i \<and> \<not> settings_list_follows ts i
           then raw_settings_from toks depth acc ts
         else if ts \<noteq> [] \<and> \<not> setting_name_token (hd ts) then raw_settings_from toks depth acc ts
         else if depth \<noteq> 0 \<or> length ts < 2 \<or> tk_type (ts ! 1) \<noteq> ''EQ'' then (acc, False)
         else case parse_setting_assignments ts of
                (parsed, rest, ok) \<Rightarrow>
                  if \<not> ok then (acc @ parsed, False)
                  else raw_settings_from toks depth (acc @ parsed) rest)"
  by pat_completeness auto
termination
  by (relation "measure (\<lambda>(toks, depth, acc, ts). length ts)") (auto dest!: parse_setting_length [OF sym])

definition raw_settings_clauses :: "engine \<Rightarrow> gostring \<Rightarrow> setting_assignment list \<times> bool" where
  "raw_settings_clauses e stmt =
     (case tokenize_raw e stmt of
        Inl _ \<Rightarrow> ([], False)
      | Inr toks \<Rightarrow> raw_settings_from toks 0 [] toks)"

section \<open>Backstops\<close>

definition setting_value_ends :: "raw_token list \<Rightarrow> bool" where
  "setting_value_ends ts =
     (case ts of
        [] \<Rightarrow> True
      | t # _ \<Rightarrow>
          if tk_type t \<in> {''COMMA'', ''SEMICOLON'', ''R_PAREN''} then True
          else if \<not> opaque_keyword t then False
          else to_upper (tk_text t) \<in> {''FORMAT'', ''UNION'', ''EXCEPT'', ''INTERSECT'', ''INTO'',
                 ''SELECT'', ''WITH'', ''VALUES'', ''SETTINGS''})"

definition assigned :: "raw_token list \<Rightarrow> bool" where
  "assigned ts \<longleftrightarrow> ts \<noteq> [] \<and> tk_type (hd ts) = ''EQ''"

text \<open>The loop after the first \<open>SETTINGS\<close> keyword.\<close>

fun refused_assignment :: "raw_token list \<Rightarrow> gostring option" where
  "refused_assignment [] = None"
| "refused_assignment (tok # ts) =
     (if tk_type tok \<noteq> ''STRING'' \<and> sql_bearing_setting (tk_text tok) \<and> assigned ts then Some (tk_text tok)
      else if tk_type tok \<noteq> ''STRING'' \<and> analyzer_setting (tk_text tok) \<and> assigned ts
              \<and> \<not> (length ts > 1 \<and> true_literal_tokens [ts ! 1] \<and> setting_value_ends (drop 2 ts))
        then Some (tk_text tok)
      else refused_assignment ts)"

fun after_keyword :: "(raw_token \<Rightarrow> bool) \<Rightarrow> raw_token list \<Rightarrow> raw_token list" where
  "after_keyword P [] = []"
| "after_keyword P (t # ts) = (if P t then ts else after_keyword P ts)"

definition settings_backstop :: "engine \<Rightarrow> gostring \<Rightarrow> gostring option" where
  "settings_backstop e sql =
     (if \<not> str_contains (to_upper sql) ''SETTINGS'' then None
      else case tokenize_raw e sql of
             Inl _ \<Rightarrow> None
           | Inr toks \<Rightarrow> refused_assignment (after_keyword (\<lambda>t. is_word_token t ''SETTINGS'') toks))"

fun escaped_assignment :: "raw_token list \<Rightarrow> bool" where
  "escaped_assignment [] = False"
| "escaped_assignment (tok # ts) \<longleftrightarrow>
     (tk_type tok = ''QUOTED_IDENTIFIER'' \<and> assigned ts \<and> \<not> setting_name_verbatim tok)
     \<or> escaped_assignment ts"

definition settings_escape_backstop :: "engine \<Rightarrow> gostring \<Rightarrow> bool" where
  "settings_escape_backstop e sql =
     (if \<not> str_contains (to_upper sql) ''SETTING'' then False
      else case tokenize_raw e sql of
             Inl _ \<Rightarrow> False
           | Inr toks \<Rightarrow> escaped_assignment
               (after_keyword (\<lambda>t. is_word_token t ''SETTINGS'' \<or> is_word_token t ''SETTING'') toks))"

section \<open>Verdicts\<close>

fun settings_verdict :: "setting_assignment list \<Rightarrow> (rewrite_code \<times> gostring) option" where
  "settings_verdict [] = None"
| "settings_verdict (a # as) =
     (if setting_refused a then Some (CodeUnsupportedStatement, table_setting_refused_message (sa_name a))
      else if sa_escaped_name a \<or> \<not> sa_plain_value a
        then Some (CodeUnsupportedStatement, unsupported_statement_message)
      else settings_verdict as)"

datatype set_check = NotASet | SetRefused rewrite_code gostring | SetAdmitted

definition check_session_set :: "engine \<Rightarrow> gostring \<Rightarrow> set_check" where
  "check_session_set e stmt =
     (case session_setting_assignments e stmt of
        (assignments, isSet, wellFormed) \<Rightarrow>
          if \<not> isSet then NotASet
          else case settings_verdict assignments of
                 Some (code, msg) \<Rightarrow> SetRefused code msg
               | None \<Rightarrow>
                   if \<not> wellFormed then SetRefused CodeUnsupportedStatement unsupported_statement_message
                   else SetAdmitted)"

section \<open>Structured settings\<close>

text \<open>\<open>plainSettingValueNode\<close> and \<open>trueLiteralNode\<close> on an object of one key.\<close>

definition plain_setting_value_node :: "json \<Rightarrow> bool" where
  "plain_setting_value_node node =
     (case node of
        JObject [(kind, body)] \<Rightarrow>
          if kind \<in> {''literal'', ''boolean'', ''null''} then True
          else if kind = ''neg'' then
            (let l = field ''literal'' (field ''this'' body)
             in is_object l \<and> field ''literal_type'' l = JString ''number'')
          else if kind = ''column'' then field ''table'' body = JNull \<and> ident_name (field ''name'' body) \<noteq> []
          else if kind = ''identifier'' then ident_name body \<noteq> []
          else False
      | _ \<Rightarrow> False)"

definition true_literal_node :: "json \<Rightarrow> bool" where
  "true_literal_node node =
     (case node of
        JObject [(kind, body)] \<Rightarrow>
          if \<not> is_object body then False
          else if kind = ''boolean'' then field ''value'' body = JBool True
          else if kind = ''literal'' then
            (if field ''literal_type'' body = JString ''number'' then json_string (field ''value'' body) = ''1''
             else if field ''literal_type'' body = JString ''string'' then
               equal_fold (json_string (field ''value'' body)) ''1''
               \<or> equal_fold (json_string (field ''value'' body)) ''true''
             else False)
          else False
      | _ \<Rightarrow> False)"

definition decode_setting_assignment :: "json \<Rightarrow> setting_assignment" where
  "decode_setting_assignment item =
     (let eq = field ''eq'' item; left = field ''left'' eq; col = field ''column'' left;
          name = (if \<not> is_object left then []
                  else if is_object col \<and> field ''table'' col = JNull then ident_name (field ''name'' col)
                  else ident_name left)
      in if \<not> is_object eq
         then \<lparr>sa_name = [], sa_plain_value = False, sa_true_literal = False, sa_escaped_name = False\<rparr>
         else \<lparr>sa_name = name, sa_plain_value = name \<noteq> [] \<and> plain_setting_value_node (field ''right'' eq),
                sa_true_literal = true_literal_node (field ''right'' eq), sa_escaped_name = False\<rparr>)"

definition is_array :: "json \<Rightarrow> bool" where
  "is_array j \<longleftrightarrow> (case j of JArray _ \<Rightarrow> True | _ \<Rightarrow> False)"

definition elements :: "json \<Rightarrow> json list" where
  "elements j = (case j of JArray vs \<Rightarrow> vs | _ \<Rightarrow> [])"

text \<open>The members of an object are walked in the order of their keys.\<close>

fun query_settings :: "json \<Rightarrow> setting_assignment list" where
  "query_settings (JObject m) =
     concat (map snd (sort_key fst
       (map (\<lambda>(k, v). (k, if k = ''settings'' \<and> is_array v then map decode_setting_assignment (elements v)
                         else query_settings v)) m)))"
| "query_settings (JArray vs) = concat (map query_settings vs)"
| "query_settings _ = []"

end
