(* ===== verification/Settings_Facts.thy ===== *)
theory Settings_Facts
  imports Settings_Gate Drop_Grammar
begin

text \<open>
  The session \<open>SET\<close> carve-out accepts a regular language, and the scan of opaque texts lets no refused
  setting through.
\<close>

section \<open>Tokens of a lexer\<close>

text \<open>
  What the lexer guarantees of punctuation: such a token spells no letter. A token of another type is
  unrestricted.
\<close>

definition symbol_types :: "gostring list" where
  "symbol_types = [''L_PAREN'', ''L_BRACKET'', ''L_BRACE'', ''R_PAREN'', ''R_BRACKET'', ''R_BRACE'', ''COMMA'',
     ''SEMICOLON'', ''EQ'', ''DASH'', ''PLUS'']"

definition letterless :: "gostring \<Rightarrow> bool" where
  "letterless s \<longleftrightarrow> list_all (\<lambda>c. byte c < 0x80 \<and> \<not> is_alpha_byte c) s"

definition well_lexed :: "raw_token list \<Rightarrow> bool" where
  "well_lexed toks \<longleftrightarrow> list_all (\<lambda>t. tk_type t \<in> set symbol_types \<longrightarrow> letterless (tk_text t)) toks"

lemma well_lexed_simps [simp]:
  "well_lexed []"
  "well_lexed (t # ts) \<longleftrightarrow> (tk_type t \<in> set symbol_types \<longrightarrow> letterless (tk_text t)) \<and> well_lexed ts"
  "well_lexed (ts @ us) \<longleftrightarrow> well_lexed ts \<and> well_lexed us"
  by (simp_all add: well_lexed_def)

lemma letterless_Cons: "letterless (c # s) \<longleftrightarrow> byte c < 0x80 \<and> \<not> is_alpha_byte c \<and> letterless s"
  by (simp add: letterless_def)

lemma ascii_not_fold_prefix:
  assumes "byte c < 0x80"
  shows "\<not> has_prefix (c # s) kelvin_sign" "\<not> has_prefix (c # s) long_s" "\<not> has_prefix (c # s) dotless_small_i"
  using assms by (auto simp: has_prefix_iff kelvin_sign_def long_s_def dotless_small_i_def byte_def)

lemma letterless_fold: "letterless s \<Longrightarrow> fold_case s = s"
  by (induction s)
    (simp_all add: letterless_Cons ascii_not_fold_prefix ascii_lower_def is_alpha_byte_def)

lemma letterless_upper: "letterless s \<Longrightarrow> to_upper s = s"
  by (induction s)
    (simp_all add: letterless_Cons ascii_not_fold_prefix ascii_upper_def is_alpha_byte_def)

lemma letterless_neq: "letterless s \<Longrightarrow> \<not> letterless w \<Longrightarrow> s \<noteq> w"
  by blast

lemma letterless_equal_fold: "letterless s \<Longrightarrow> \<not> letterless (fold_case w) \<Longrightarrow> \<not> equal_fold s w"
  by (auto simp: equal_fold_def letterless_fold)

lemma equal_fold_commute: "equal_fold s t \<longleftrightarrow> equal_fold t s"
  by (auto simp: equal_fold_def)

lemma symbol_letters: "ty \<in> set symbol_types \<Longrightarrow> \<not> letterless (fold_case ty)"
proof -
  have "list_all (\<lambda>ty. \<not> letterless (fold_case ty)) symbol_types" by code_simp
  then show "ty \<in> set symbol_types \<Longrightarrow> \<not> letterless (fold_case ty)" by (simp add: list_all_iff)
qed

lemma symbol_not_name:
  "tk_type t \<in> set symbol_types \<Longrightarrow> letterless (tk_text t) \<Longrightarrow> \<not> setting_name_token t"
  using letterless_equal_fold [of "tk_text t" "tk_type t"] symbol_letters [of "tk_type t"]
  by (auto simp: setting_name_token_def is_name_tok_def mutation_probe_keyword_token_def
      equal_fold_commute symbol_types_def)

lemma symbol_not_list_end:
  assumes "tk_type t \<in> set symbol_types" "letterless (tk_text t)" shows "\<not> settings_list_end t"
proof -
  have "list_all (\<lambda>w. \<not> letterless w) [''SELECT'', ''WITH'', ''VALUES'', ''FORMAT'']" by code_simp
  then have "tk_text t \<notin> {''SELECT'', ''WITH'', ''VALUES'', ''FORMAT''}" using assms(2) by auto
  with assms(2) show ?thesis by (simp add: settings_list_end_def letterless_upper)
qed

lemma bracket_step_symbol: "bracket_step t \<noteq> 0 \<Longrightarrow> tk_type t \<in> set symbol_types"
  by (auto simp: bracket_step_def symbol_types_def split: if_splits)

lemma separator_symbol: "tk_type t = ''COMMA'' \<or> tk_type t = ''SEMICOLON'' \<Longrightarrow> tk_type t \<in> set symbol_types"
  by (elim disjE) (simp_all add: symbol_types_def)

section \<open>Values\<close>

definition flat :: "raw_token list \<Rightarrow> bool" where
  "flat val \<longleftrightarrow> list_all (\<lambda>t. bracket_step t = 0 \<and> \<not> value_end t) val"

definition value_stop :: "raw_token list \<Rightarrow> bool" where
  "value_stop rest \<longleftrightarrow> rest = [] \<or> (value_end (hd rest) \<and> bracket_step (hd rest) = 0)"

lemma setting_value_flat: "setting_value 0 ts = (val, rest) \<Longrightarrow> flat val \<Longrightarrow> value_stop rest"
proof (induction ts arbitrary: val)
  case (Cons t ts)
  show ?case
  proof (cases "bracket_step t = 0")
    case True
    with Cons show ?thesis
      by (cases "value_end t") (auto simp: flat_def value_stop_def split: prod.splits)
  next
    case False
    with Cons.prems show ?thesis by (auto simp: flat_def Let_def simp: Let_def split: if_splits prod.splits)
  qed
qed (simp add: value_stop_def)

lemma setting_value_complete:
  "flat val \<Longrightarrow> value_stop rest \<Longrightarrow> setting_value 0 (val @ rest) = (val, rest)"
proof (induction val)
  case Nil
  then show ?case by (cases rest) (auto simp: value_stop_def)
qed (auto simp: flat_def)

text \<open>With a letterless bracket, a plain val has no bracket and no separator.\<close>

lemma plain_value_flat:
  assumes "setting_value 0 ts = (val, rest)" "plain_setting_value_tokens val" "well_lexed ts"
  shows "flat val"
proof -
  have lexed: "well_lexed val" using assms(1,3) setting_value_append [of 0 ts] by (metis fst_conv well_lexed_simps(3))
  have no_bracket: "bracket_step t = 0" if "plain_setting_value_tokens [t]" "well_lexed [t]" for t
    using that symbol_not_name [of t] bracket_step_symbol [of t]
    by (auto simp: plain_setting_value_tokens_def setting_name_token_def bracket_step_def split: if_splits)
  consider (one) t where "val = [t]" | (two) s t where "val = [s, t]"
    using assms(2) by (auto simp: plain_setting_value_tokens_def split: list.splits)
  then show ?thesis
  proof cases
    case one
    then have "bracket_step t = 0" using no_bracket assms(2) lexed by simp
    then show ?thesis
      using assms(1) one by (cases ts) (auto simp: flat_def simp: Let_def split: if_splits prod.splits)
  next
    case two
    then have "tk_type s \<in> {''DASH'', ''PLUS''}" "tk_type t = ''NUMBER''"
      using assms(2) by (auto simp: plain_setting_value_tokens_def)
    then have "bracket_step s = 0" "bracket_step t = 0" by (auto simp: bracket_step_def)
    then show ?thesis
      using assms(1) two
      by (cases ts; cases "tl ts") (auto simp: flat_def simp: Let_def split: if_splits prod.splits)
  qed
qed

section \<open>The language of an admitted SET\<close>

text \<open>
  \<open>name = value\<close>: the name in its own spelling and not refused, the value one literal, name or keyword,
  or a signed number.
\<close>

definition admitted_assignment :: "raw_token \<Rightarrow> raw_token list \<Rightarrow> bool" where
  "admitted_assignment name val \<longleftrightarrow>
     setting_name_token name \<and> setting_name_verbatim name \<and> plain_setting_value_tokens val \<and> flat val \<and>
     \<not> sql_bearing_setting (tk_text name) \<and> (analyzer_setting (tk_text name) \<longrightarrow> true_literal_tokens val)"

definition admitted_item :: "raw_token list \<Rightarrow> bool" where
  "admitted_item ts \<longleftrightarrow>
     (\<exists>name eq val. ts = name # eq # val \<and> tk_type eq = ''EQ'' \<and> admitted_assignment name val)"

definition parse_admitted :: "raw_token list \<Rightarrow> raw_token list option" where
  "parse_admitted ts =
     (case ts of
        name # eq # us \<Rightarrow>
          if tk_type eq = ''EQ'' \<and> admitted_assignment name (fst (setting_value 0 us))
          then Some (snd (setting_value 0 us)) else None
      | _ \<Rightarrow> None)"

lemma parse_admitted_shorter: "parse_admitted ts = Some rest \<Longrightarrow> length rest < length ts"
  by (auto simp: parse_admitted_def split: list.splits if_splits)
    (metis le_imp_less_Suc less_SucI prod.collapse setting_value_length)

function admitted_list :: "raw_token list \<Rightarrow> raw_token list option" where
  "admitted_list ts =
     (case parse_admitted ts of
        None \<Rightarrow> None
      | Some [] \<Rightarrow> Some []
      | Some (c # rest) \<Rightarrow> if tk_type c = ''COMMA'' then admitted_list rest else Some (c # rest))"
  by pat_completeness auto
termination by (relation "measure length") (auto dest: parse_admitted_shorter)

declare admitted_list.simps [simp del]

lemma plain_nonempty: "plain_setting_value_tokens val \<Longrightarrow> val \<noteq> []"
  by (auto simp: plain_setting_value_tokens_def)

interpretation sd: comma_list parse_admitted admitted_item value_stop admitted_list
proof
  show "\<exists>used. ts = used @ rest \<and> admitted_item used \<and> value_stop rest"
    if parse: "parse_admitted ts = Some rest" for ts rest
  proof -
    obtain name eq us where ts: "ts = name # eq # us" "tk_type eq = ''EQ''"
      "admitted_assignment name (fst (setting_value 0 us))" "rest = snd (setting_value 0 us)"
      using parse by (auto simp: parse_admitted_def split: list.splits if_splits)
    then have "value_stop rest"
      using setting_value_flat [of us "fst (setting_value 0 us)" rest]
      by (simp add: admitted_assignment_def)
    moreover have "ts = (name # eq # fst (setting_value 0 us)) @ rest"
      using ts setting_value_append [of 0 us] by simp
    ultimately show ?thesis using ts unfolding admitted_item_def by blast
  qed
  show "parse_admitted (used @ rest) = Some rest" if "admitted_item used" "value_stop rest" for used rest
    using that by (auto simp: admitted_item_def parse_admitted_def admitted_assignment_def setting_value_complete)
  show "value_stop (c # rest)" if "tk_type c = ''COMMA''" for c rest
    using that by (simp add: value_stop_def value_end_def bracket_step_def)
  show "used \<noteq> []" if "admitted_item used" for used
    using that by (auto simp: admitted_item_def)
qed (rule admitted_list.simps)

text \<open>The code accepts one assignment when the grammar does.\<close>

lemma first_admitted:
  assumes "setting_value 0 us = (val, rest)" "well_lexed us"
  shows "parse_admitted (name # eq # us) = Some rest \<longleftrightarrow>
     tk_type eq = ''EQ'' \<and> setting_name_token name \<and> val \<noteq> [] \<and>
     \<not> setting_refused (new_assignment name val) \<and> \<not> sa_escaped_name (new_assignment name val) \<and>
     sa_plain_value (new_assignment name val)"
  using assms plain_value_flat [of us val rest] plain_nonempty [of val]
  by (auto simp: parse_admitted_def admitted_assignment_def setting_refused_def new_assignment_def)

lemma first_admitted_cases:
  "setting_value 0 us = (val, rest) \<Longrightarrow> parse_admitted (name # eq # us) \<in> {None, Some rest}"
  by (simp add: parse_admitted_def)

lemma assignments_admitted:
  "well_lexed ts \<Longrightarrow>
     (\<exists>as. parse_setting_assignments ts = (as, [], True) \<and> settings_verdict as = None) \<longleftrightarrow>
     (\<exists>rest. admitted_list ts = Some rest \<and> semicolon_opt rest)"
proof (induction ts rule: parse_setting_assignments.induct)
  case (1 name eq us)
  obtain val rest where vr: "setting_value 0 us = (val, rest)" by fastforce
  have us: "us = val @ rest" using setting_value_append [of 0 us] vr by simp
  note admitted = first_admitted [OF vr, of name eq]
  show ?case
  proof (cases "parse_admitted (name # eq # us) = Some rest")
    case False
    then have none: "parse_admitted (name # eq # us) = None" using first_admitted_cases [OF vr, of name eq] by simp
    then have "admitted_list (name # eq # us) = None" by (subst admitted_list.simps) simp
    moreover have "settings_verdict as \<noteq> None" if "parse_setting_assignments (name # eq # us) = (as, [], True)" for as
      using that False admitted "1.prems" vr
      by (auto simp: Let_def split: if_splits list.splits prod.splits)
    ultimately show ?thesis by auto
  next
    case True
    then have conds: "tk_type eq = ''EQ''" "setting_name_token name" "val \<noteq> []"
      "\<not> setting_refused (new_assignment name val)" "\<not> sa_escaped_name (new_assignment name val)"
      "sa_plain_value (new_assignment name val)" using admitted "1.prems" by auto
    show ?thesis
    proof (cases rest)
      case Nil
      with True conds vr show ?thesis
        by (auto simp: admitted_list.simps [of "name # eq # us"] semicolon_opt_def)
    next
      case (Cons t rest')
      have lexed: "well_lexed (t # rest')" using "1.prems" us Cons by simp
      have IH: "well_lexed rest' \<Longrightarrow> \<not> settings_list_end t \<Longrightarrow> tk_type t \<noteq> ''SEMICOLON'' \<Longrightarrow>
        (\<exists>as. parse_setting_assignments rest' = (as, [], True) \<and> settings_verdict as = None) \<longleftrightarrow>
        (\<exists>rest. admitted_list rest' = Some rest \<and> semicolon_opt rest)"
        using "1.IH" [OF _ vr [symmetric] conds(3) refl Cons] conds(1,2) by blast
      have "value_stop rest" using sd.parse_sound [OF True] by blast
      then have stop: "tk_type t = ''COMMA'' \<or> tk_type t = ''SEMICOLON'' \<or> settings_list_end t"
        using Cons by (simp add: value_stop_def value_end_def)
      have not_end: "\<not> settings_list_end t" if "tk_type t = ''COMMA'' \<or> tk_type t = ''SEMICOLON''"
        using symbol_not_list_end [OF separator_symbol [OF that]] lexed separator_symbol [OF that] by simp
      have list: "admitted_list (name # eq # us) =
          (if tk_type t = ''COMMA'' then admitted_list rest' else Some (t # rest'))"
        by (subst admitted_list.simps) (simp only: True Cons option.case list.case)
      show ?thesis
      proof (cases "tk_type t = ''COMMA''")
        case True
        with IH not_end lexed list conds vr Cons show ?thesis
          by (auto split: prod.splits)
      next
        case False
        with stop not_end list conds vr Cons show ?thesis
          by (auto simp: semicolon_opt_def split: if_splits)
      qed
    qed
  qed
next
  case 2
  then show ?case by (simp add: admitted_list.simps [of "[]"] parse_admitted_def)
next
  case (3 t)
  then show ?case by (simp add: admitted_list.simps [of "[t]"] parse_admitted_def)
qed

section \<open>The carve-out\<close>

definition admitted_set :: "raw_token list \<Rightarrow> bool" where
  "admitted_set toks \<longleftrightarrow>
     (\<exists>kw items semi. toks = kw # items @ semi \<and> equal_fold (tk_text kw) ''SET'' \<and>
        comma_separated admitted_item items \<and> semicolon_opt semi \<and>
        is_name_tok (tk_type (hd items)) \<and> \<not> equal_fold (tk_text (hd items)) ''ROLE'' \<and>
        \<not> equal_fold (tk_text (hd items)) ''DEFAULT'')"

lemma semicolon_stop: "semicolon_opt semi \<Longrightarrow> value_stop semi \<and> sd.no_comma semi"
  by (auto simp: semicolon_opt_def value_stop_def value_end_def bracket_step_def sd.no_comma_def)

lemma admitted_list_grammar:
  "(\<exists>semi. admitted_list ts = Some semi \<and> semicolon_opt semi) \<longleftrightarrow>
     (\<exists>items semi. ts = items @ semi \<and> comma_separated admitted_item items \<and> semicolon_opt semi)"
  using sd.loop_iff semicolon_stop by blast

lemma comma_separated_item:
  "comma_separated admitted_item items \<Longrightarrow>
     \<exists>name eq rest. items = name # eq # rest \<and> tk_type eq = ''EQ'' \<and> rest \<noteq> []"
  by (induction items rule: comma_separated.induct)
    (auto simp: admitted_item_def admitted_assignment_def dest: plain_nonempty)

lemma session_setting_iff:
  assumes "well_lexed toks"
  shows "(\<exists>as. session_setting_tokens toks = (as, True, True) \<and> settings_verdict as = None) \<longleftrightarrow> admitted_set toks"
    (is "?code \<longleftrightarrow> ?grammar")
proof
  assume ?code
  then obtain as where as: "session_setting_tokens toks = (as, True, True)" "settings_verdict as = None" by blast
  then obtain kw ts where toks: "toks = kw # ts" by (cases toks) (auto simp: session_setting_tokens_def)
  with as assms have "parse_setting_assignments ts = (as, [], True)"
    by (auto simp: session_setting_tokens_def split: if_splits prod.splits)
  with as(2) assms toks obtain items semi where "ts = items @ semi" "comma_separated admitted_item items"
    "semicolon_opt semi" using assignments_admitted [of ts] admitted_list_grammar [of ts] by auto
  moreover from this(2) have "hd ts = hd items \<and> ts ! 0 = hd items"
    using comma_separated_item \<open>ts = items @ semi\<close> by fastforce
  ultimately show ?grammar
    using as toks by (auto simp: session_setting_tokens_def admitted_set_def split: if_splits)
next
  assume ?grammar
  then obtain kw items semi where g: "toks = kw # items @ semi" "equal_fold (tk_text kw) ''SET''"
    "comma_separated admitted_item items" "semicolon_opt semi" "is_name_tok (tk_type (hd items))"
    "\<not> equal_fold (tk_text (hd items)) ''ROLE''" "\<not> equal_fold (tk_text (hd items)) ''DEFAULT''"
    unfolding admitted_set_def by blast
  then obtain name eq rest where items: "items = name # eq # rest" "tk_type eq = ''EQ''" "rest \<noteq> []"
    using comma_separated_item by blast
  from g obtain as where "parse_setting_assignments (items @ semi) = (as, [], True)" "settings_verdict as = None"
    using assignments_admitted [of "items @ semi"] admitted_list_grammar [of "items @ semi"] assms by auto
  with g items show ?code by (cases rest) (auto simp: session_setting_tokens_def)
qed

text \<open>
  C35. In dynamic mode a session \<open>SET\<close> passes exactly when it is a comma-separated list of assignments, each
  of a setting that bears no SQL and is spelled verbatim, to one literal, name, keyword or signed number,
  the analyzer switches only to a true literal, with at most one semicolon at the end.
\<close>

theorem check_session_set_iff:
  assumes "tokenize_raw e stmt = Inr toks" "well_lexed toks"
  shows "check_session_set e stmt = SetAdmitted \<longleftrightarrow> admitted_set toks"
  using session_setting_iff [OF assms(2)] assms(1)
  by (auto simp: check_session_set_def session_setting_assignments_def split: prod.splits option.splits)

definition set_text :: gostring where
  "set_text = ''SET a=-1,b=2;''"

definition token_at :: "gostring \<Rightarrow> gostring \<Rightarrow> int \<Rightarrow> wire_token" where
  "token_at ty word start = \<lparr>wt_type = ty, wt_text = word, wt_start = start, wt_end = start + int (length word)\<rparr>"

definition set_engine :: engine where
  "set_engine =
     \<lparr>e_tokenize = (\<lambda>s. Inr
        [token_at ''SET'' ''SET'' 0, token_at ''VAR'' ''a'' 4, token_at ''EQ'' ''='' 5, token_at ''DASH'' ''-'' 6,
         token_at ''NUMBER'' ''1'' 7, token_at ''COMMA'' '','' 8, token_at ''VAR'' ''b'' 9, token_at ''EQ'' ''='' 10,
         token_at ''NUMBER'' ''2'' 11, token_at ''SEMICOLON'' '';'' 12]),
      e_parse_one = (\<lambda>s. Inr JNull), e_generate = (\<lambda>j. Inr []),
      e_parse_generic = (\<lambda>_. Inl (EngineError []))\<rparr>"

lemma check_session_set_iff_witness:
  "\<exists>toks. tokenize_raw set_engine set_text = Inr toks \<and> well_lexed toks \<and> admitted_set toks"
proof -
  have toks: "\<exists>toks. tokenize_raw set_engine set_text = Inr toks \<and> well_lexed toks"
  proof -
    have "case tokenize_raw set_engine set_text of Inr toks \<Rightarrow> well_lexed toks | Inl _ \<Rightarrow> False" by code_simp
    then show ?thesis by (cases "tokenize_raw set_engine set_text") auto
  qed
  have "check_session_set set_engine set_text = SetAdmitted" by code_simp
  with toks show ?thesis using check_session_set_iff by blast
qed

section \<open>The scan of opaque text\<close>






























end
