(* ===== verification/Allowlists_Facts.thy ===== *)
theory Allowlists_Facts
  imports Allowlists
begin

text \<open>
  What the closed lists promise: the search for a deployment-identity call misses no call position, the
  classes of table functions do not overlap, and every \<open>SHOW\<close> form that is refused reads a table outside the
  system-table allowlist.
\<close>

section \<open>Deployment identity\<close>

text \<open>
  Position \<open>i\<close> of the tokens \<open>ts\<close>, read after the token \<open>prev\<close>, calls a deployment-identity function.
\<close>

definition identity_call_at :: "raw_token option \<Rightarrow> raw_token list \<Rightarrow> nat \<Rightarrow> bool" where
  "identity_call_at prev ts i \<longleftrightarrow>
     Suc i < length ts \<and> tk_type (ts ! Suc i) = ''L_PAREN'' \<and> tk_source (ts ! i) \<noteq> [] \<and>
     \<not> introduces_table (case i of 0 \<Rightarrow> prev | Suc j \<Rightarrow> Some (ts ! j)) \<and> identity_call_name (ts ! i) \<noteq> None"

lemma identity_call_at_0:
  "identity_call_at prev (tk # next # ts) 0 \<longleftrightarrow>
     tk_type next = ''L_PAREN'' \<and> tk_source tk \<noteq> [] \<and> \<not> introduces_table prev \<and> identity_call_name tk \<noteq> None"
  by (simp add: identity_call_at_def)

lemma identity_call_at_Suc:
  "identity_call_at prev (tk # next # ts) (Suc i) \<longleftrightarrow> identity_call_at (Some tk) (next # ts) i"
  by (cases i) (simp_all add: identity_call_at_def)

lemma identity_call_from_None:
  "identity_call_from prev ts = None \<longleftrightarrow> (\<nexists>i. identity_call_at prev ts i)"
proof (induction prev ts rule: identity_call_from.induct)
  case (1 prev tk nx ts)
  have split: "(\<exists>i. identity_call_at prev (tk # nx # ts) i) \<longleftrightarrow>
      identity_call_at prev (tk # nx # ts) 0 \<or> (\<exists>i. identity_call_at (Some tk) (nx # ts) i)"
    by (metis identity_call_at_Suc not0_implies_Suc)
  show ?case
    by (auto simp: split identity_call_at_0 1 split: option.splits)
qed (simp_all add: identity_call_at_def)

text \<open>
  The search for a call of a deployment-identity function misses nothing: it answers "none" exactly when
  the statement tokenizes and no position of its tokens is a name of the list, followed by an opening
  parenthesis and not after a dot or a word that introduces a table.
\<close>

theorem no_identity_call_iff:
  "first_deployment_identity_call e sql = Inr None \<longleftrightarrow>
     (\<exists>ts. tokenize_raw e sql = Inr ts \<and> (\<nexists>i. identity_call_at None ts i))"
  by (cases "tokenize_raw e sql")
    (simp_all add: first_deployment_identity_call_def identity_call_from_None)

section \<open>The lists\<close>

lemma table_function_lists_disjoint:
  "set data_only_table_functions \<inter> set external_table_functions = {} \<and>
   list_all (\<lambda>f. f \<notin> set refused_table_functions \<and> \<not> has_prefix f ''mergetree'')
     (data_only_table_functions @ external_table_functions)"
  by code_simp

lemma replicated_memory_allowed: "table_engine_allowed ''ReplicatedMemory'' 0"
  by code_simp

text \<open>Every system table a refused \<open>SHOW\<close> form reads is outside the allowlist of direct reads.\<close>

lemma show_reads_refused:
  assumes "system_table_show_refusal what next = ShowReads table"
  shows "\<not> system_table_allowed table"
proof -
  have "list_all (\<lambda>t. \<not> system_table_allowed t)
      [''processes'', ''merges'', ''dictionaries'', ''users'', ''roles'', ''grants'', ''settings_profiles'',
       ''row_policies'', ''quota_usage'', ''quotas'', ''filesystem_cache_settings'', ''current_roles'',
       ''enabled_roles'']"
    by code_simp
  then show ?thesis
    using assms unfolding system_table_show_refusal_def list.pred_inject
    by (elim conjE) (simp only: show_class.inject show_class.distinct simp_thms split: if_split_asm)
qed

end
