(* ===== verification/Create_Forms.thy ===== *)
theory Create_Forms
  imports Allowlists Json_Edit
begin

text \<open>
  The two spellings of \<open>CREATE\<close> the SQL engine cannot parse: \<open>CREATE TABLE ... EMPTY AS SELECT\<close>
  (\<open>create_empty.go\<close>) and \<open>CREATE VIEW ... AS (query) COMMENT 'text'\<close> (\<open>view_comment.go\<close>, with
  \<open>clickhouseQuote\<close> of \<open>view_columns.go\<close>). Each is taken off the statement and put back on the rewritten
  one. A JSON value is compared and encoded through its canonical form, as \<open>json.Marshal\<close> sorts keys; a number
  keeps its text, which is what decoding to \<open>float64\<close> and back does for the spans of the engine.
\<close>

section \<open>CREATE TABLE EMPTY\<close>

definition str_last_index :: "gostring \<Rightarrow> gostring \<Rightarrow> nat option" where
  "str_last_index s p = last_index (\<lambda>i. has_prefix (drop i s) p) (length s + 1)"

text \<open>The body of a statement that parses as a \<open>create_table\<close>.\<close>

definition create_table_body :: "engine_error + json \<Rightarrow> json option" where
  "create_table_body parsed =
     (case parsed of
        Inl _ \<Rightarrow> None
      | Inr ast \<Rightarrow>
          (case body_of ast of
             Inr (kind, Some body) \<Rightarrow> if kind = NodeCreateTable then Some body else None
           | _ \<Rightarrow> None))"

text \<open>The statement without the token \<open>tk\<close>, when it is the \<open>EMPTY\<close> of its body.\<close>

definition empty_candidate :: "engine \<Rightarrow> gostring \<Rightarrow> json \<Rightarrow> raw_token \<Rightarrow> gostring option" where
  "empty_candidate e sql name tk =
     (let candidate = take (tk_start tk) sql @ drop (tk_end tk) sql
      in case create_table_body (e_parse_one e candidate) of
           None \<Rightarrow> None
         | Some cbody \<Rightarrow>
             if is_object (field ''as_select'' cbody) \<and> same_ast name (field ''name'' cbody)
             then Some candidate else None)"

text \<open>The loop over the tokens: an \<open>EMPTY\<close> outside brackets with \<open>AS\<close> after it.\<close>

fun find_empty :: "engine \<Rightarrow> gostring \<Rightarrow> json \<Rightarrow> int \<Rightarrow> raw_token list \<Rightarrow> gostring option" where
  "find_empty e sql name depth (tk # next # ts) =
     (if tk_type tk = ''L_PAREN'' then find_empty e sql name (depth + 1) (next # ts)
      else if tk_type tk = ''R_PAREN'' then find_empty e sql name (depth - 1) (next # ts)
      else if depth \<noteq> 0 \<or> tk_type tk \<noteq> ''VAR'' \<or> \<not> equal_fold (tk_text tk) ''EMPTY'' \<or> tk_type next \<noteq> ''AS''
        then find_empty e sql name depth (next # ts)
      else case empty_candidate e sql name tk of
             Some candidate \<Rightarrow> Some candidate
           | None \<Rightarrow> find_empty e sql name depth (next # ts))"
| "find_empty e sql name depth _ = None"

text \<open>Not such a statement, the statement without the keyword, or a failure of the tokenizer.\<close>

datatype strip_result = NotEmptyForm | StrippedEmpty gostring | StripFailed engine_error

definition strip_create_table_empty :: "engine \<Rightarrow> gostring \<Rightarrow> strip_result" where
  "strip_create_table_empty e sql =
     (if \<not> str_contains (to_upper sql) ''EMPTY'' then NotEmptyForm
      else case create_table_body (e_parse_one e sql) of
             None \<Rightarrow> NotEmptyForm
           | Some body \<Rightarrow>
               if is_object (field ''as_select'' body) then NotEmptyForm
               else case tokenize_raw e sql of
                      Inl err \<Rightarrow> StripFailed err
                    | Inr toks \<Rightarrow>
                        (case find_empty e sql (field ''name'' body) 0 toks of
                           Some candidate \<Rightarrow> StrippedEmpty candidate
                         | None \<Rightarrow> NotEmptyForm))"

definition create_table_empty_sentinel :: gostring where
  "create_table_empty_sentinel = squote # ''hg_create_table_empty_sentinel'' @ [squote]"

datatype empty_error =
  EmptyReparse engine_error | EmptyNotCreateTable | EmptyLostBody | EmptySentinel engine_error
| EmptyProbe engine_error | EmptyUnlocated gostring

text \<open>The statement \<open>{kind: body}\<close> with the sentinel for its body.\<close>

definition empty_probe :: "gostring \<Rightarrow> json \<Rightarrow> json \<Rightarrow> json" where
  "empty_probe kind body sentinel = canonical (JObject [(kind, put ''as_select'' sentinel body)])"

definition insert_create_table_empty :: "engine \<Rightarrow> gostring \<Rightarrow> empty_error + gostring" where
  "insert_create_table_empty e generated =
     (case e_parse_one e generated of
        Inl err \<Rightarrow> Inl (EmptyReparse err)
      | Inr ast \<Rightarrow>
          (case create_table_body (Inr ast) of
             None \<Rightarrow> Inl EmptyNotCreateTable
           | Some body \<Rightarrow>
               if \<not> is_object (field ''as_select'' body) then Inl EmptyLostBody
               else case e_parse_one e (''SELECT '' @ create_table_empty_sentinel) of
                      Inl err \<Rightarrow> Inl (EmptySentinel err)
                    | Inr sentinel \<Rightarrow>
                        (case e_generate e (empty_probe NodeCreateTable body sentinel) of
                           Inl err \<Rightarrow> Inl (EmptyProbe err)
                         | Inr shape \<Rightarrow>
                             (let place = (case str_index shape create_table_empty_sentinel of
                                          None \<Rightarrow> None
                                        | Some mark \<Rightarrow> str_last_index (take mark shape) '' AS '')
                              in case place of
                                   None \<Rightarrow> Inl (EmptyUnlocated generated)
                                 | Some i \<Rightarrow>
                                     if \<not> has_prefix generated (take i shape)
                                        \<or> \<not> has_prefix (drop i generated) '' AS ''
                                     then Inl (EmptyUnlocated generated)
                                     else Inr (take i generated @ '' EMPTY'' @ drop i generated)))))"

section \<open>CREATE VIEW COMMENT\<close>

definition quote_replacement :: "char \<Rightarrow> gostring" where
  "quote_replacement c =
     (if c = backslash then [backslash, backslash] else if c = squote then [backslash, squote] else [c])"

definition clickhouse_quote :: "gostring \<Rightarrow> gostring" where
  "clickhouse_quote s = squote # concat (map quote_replacement s) @ [squote]"

text \<open>The next token is the bare word \<open>w\<close>.\<close>

definition next_word :: "gostring \<Rightarrow> raw_token list \<Rightarrow> raw_token list option" where
  "next_word w ts =
     (case ts of
        t # us \<Rightarrow> if \<not> is_quoted_lexeme (tk_type t) \<and> equal_fold (tk_source t) w then Some us else None
      | [] \<Rightarrow> None)"

definition optional_word :: "gostring \<Rightarrow> raw_token list \<Rightarrow> raw_token list" where
  "optional_word w ts = (case next_word w ts of Some us \<Rightarrow> us | None \<Rightarrow> ts)"

definition create_view_header :: "raw_token list \<Rightarrow> bool" where
  "create_view_header toks =
     (case next_word ''CREATE'' toks of
        None \<Rightarrow> False
      | Some ts \<Rightarrow>
          (case next_word ''OR'' ts of
             None \<Rightarrow> next_word ''VIEW'' (optional_word ''MATERIALIZED'' ts) \<noteq> None
           | Some us \<Rightarrow>
               (case next_word ''REPLACE'' us of
                  None \<Rightarrow> False
                | Some vs \<Rightarrow> next_word ''VIEW'' (optional_word ''MATERIALIZED'' vs) \<noteq> None)))"

definition bracket_depth :: "raw_token list \<Rightarrow> int" where
  "bracket_depth toks =
     sum_list (map (\<lambda>tk. if tk_type tk \<in> {''L_PAREN'', ''L_BRACKET'', ''L_BRACE''} then 1
                         else if tk_type tk \<in> {''R_PAREN'', ''R_BRACKET'', ''R_BRACE''} then - 1 else 0) toks)"

definition cut_blank :: "char \<Rightarrow> bool" where
  "cut_blank c \<longleftrightarrow> byte c \<in> {32, 9, 13, 10}"

definition cut_blank_semicolon :: "char \<Rightarrow> bool" where
  "cut_blank_semicolon c \<longleftrightarrow> cut_blank c \<or> c = CHR '';''"

text \<open>
  The tokens of \<open>... ) COMMENT 'text'\<close> without the final semicolons: those before the keyword, the keyword
  and the literal.
\<close>

definition split_comment :: "raw_token list \<Rightarrow> (raw_token list \<times> raw_token \<times> raw_token) option" where
  "split_comment toks =
     (let kept = rev (dropWhile (\<lambda>tk. tk_type tk = ''SEMICOLON'') (rev toks))
      in if length toks < 6 \<or> length kept < 6 then None
         else Some (take (length kept - 2) kept, kept ! (length kept - 2), kept ! (length kept - 1)))"

definition parenthesized_view :: "engine \<Rightarrow> gostring \<Rightarrow> bool" where
  "parenthesized_view e candidate =
     (case e_parse_one e candidate of
        Inl _ \<Rightarrow> False
      | Inr ast \<Rightarrow>
          (case body_of ast of
             Inr (kind, Some body) \<Rightarrow>
               kind = NodeCreateView \<and> field ''query_parenthesized'' body = JBool True
           | _ \<Rightarrow> False))"

text \<open>The statement without its comment, and the literal to put back.\<close>

definition view_comment_at ::
    "engine \<Rightarrow> gostring \<Rightarrow> raw_token list \<Rightarrow> raw_token \<Rightarrow> raw_token \<Rightarrow> (gostring \<times> gostring) option" where
  "view_comment_at e sql before kw lit =
     (if tk_type lit \<noteq> ''STRING'' \<or> \<not> has_prefix (tk_source lit) [squote]
         \<or> \<not> equal_fold (tk_source kw) ''COMMENT'' \<or> tk_type (last before) \<noteq> ''R_PAREN'' then None
      else if trim cut_blank_semicolon (drop (tk_end lit) sql) \<noteq> [] then None
      else if \<not> create_view_header (before @ [kw, lit]) then None
      else if bracket_depth before \<noteq> 0 then None
      else
        let candidate = trim_right cut_blank (take (tk_start kw) sql)
        in if \<not> parenthesized_view e candidate then None
           else case clickhouse_unquote (tk_source lit) of
                  None \<Rightarrow> None
                | Some val \<Rightarrow> Some (candidate, clickhouse_quote val))"

definition strip_view_comment :: "engine \<Rightarrow> gostring \<Rightarrow> (gostring \<times> gostring) option" where
  "strip_view_comment e sql =
     (if \<not> has_suffix (trim_right cut_blank_semicolon sql) [squote]
         \<or> \<not> str_contains (to_upper sql) ''COMMENT'' \<or> \<not> str_contains (to_upper sql) ''VIEW'' then None
      else case tokenize_raw e sql of
             Inl _ \<Rightarrow> None
           | Inr toks \<Rightarrow>
               (case split_comment toks of
                  None \<Rightarrow> None
                | Some (before, kw, lit) \<Rightarrow> view_comment_at e sql before kw lit))"

definition append_view_comment :: "gostring \<Rightarrow> gostring \<Rightarrow> gostring option" where
  "append_view_comment rewritten comment =
     (let out = trim_right cut_blank_semicolon rewritten
      in if \<not> has_suffix out '')'' then None else Some (out @ '' COMMENT '' @ comment))"

end
