(* ===== verification/Create_Forms_Facts.thy ===== *)
theory Create_Forms_Facts
  imports Create_Forms Engine_Tokens_Facts
begin

text \<open>
  What is taken off a \<open>CREATE\<close> is exactly the keyword or the comment, and what is put back is the same
  text in front of, or behind, the same query.
\<close>

section \<open>Trimming\<close>

lemma trim_left_split: "\<exists>t. s = t @ trim_left P s \<and> list_all P t"
proof (induction s)
  case (Cons c s)
  then obtain t where "s = t @ trim_left P s" "list_all P t" by blast
  then show ?case by (cases "P c") (auto intro: exI [of _ "c # t"])
qed simp

lemma trim_right_split: "\<exists>t. s = trim_right P s @ t \<and> list_all P t"
proof -
  obtain t where "rev s = t @ trim_left P (rev s)" "list_all P t" using trim_left_split by blast
  then have "s = trim_right P s @ rev t \<and> list_all P (rev t)"
    by (metis list_all_rev rev_append rev_rev_ident trim_right_def)
  then show ?thesis by blast
qed

lemma trim_empty: "trim P s = [] \<Longrightarrow> list_all P s"
proof -
  assume empty: "trim P s = []"
  obtain t where t: "s = t @ trim_left P s" "list_all P t" using trim_left_split by blast
  obtain u where u: "trim_left P s = trim P s @ u" "list_all P u" unfolding trim_def using trim_right_split by blast
  show ?thesis using t u empty by (metis append_Nil list_all_append)
qed

lemma substring_split: "i \<le> j \<Longrightarrow> take i s @ substring i j s @ drop j s = s"
  by (simp add: substring_def drop_take) (metis append_take_drop_id drop_drop le_add_diff_inverse2)

section \<open>Quoting\<close>

lemma unquote_replaced: "unquote_body squote (concat (map quote_replacement s)) = Some s"
proof (induction s)
  case (Cons c s)
  have ne: "squote \<noteq> backslash" "CHR ''x'' \<noteq> backslash" "CHR ''x'' \<noteq> squote" by (simp_all add: quote_chars)
  have esc: "unquote_byte backslash = [backslash]" "unquote_byte squote = [squote]" by code_simp+
  show ?case
    using Cons ne esc by (auto simp: quote_replacement_def)
qed simp

lemma quote_roundtrip: "clickhouse_unquote (clickhouse_quote s) = Some s"
  using unquote_replaced [of s] by (simp add: clickhouse_unquote_def clickhouse_quote_def)

text \<open>
  The value of a comment survives: the literal put back reads as the value of the literal that was
  taken off, whatever quotes, backslashes and bytes it holds.
\<close>

theorem clickhouse_quote_roundtrip: "clickhouse_unquote (clickhouse_quote s) = Some s"
  by (rule quote_roundtrip)

section \<open>EMPTY\<close>

lemma str_last_index_Some:
  assumes "str_last_index s p = Some i" shows "i \<le> length s \<and> (\<exists>rest. s = take i s @ p @ rest)"
proof -
  have i: "i \<le> length s" "has_prefix (drop i s) p"
    using assms [unfolded str_last_index_def last_index_Some] by simp_all
  then obtain rest where "drop i s = p @ rest" by (auto simp: has_prefix_iff)
  with i(1) show ?thesis by (metis append_take_drop_id)
qed

text \<open>The last step: the place found in the probe.\<close>

lemma insert_place:
  assumes "(case place of None \<Rightarrow> Inl err
     | Some i \<Rightarrow> if \<not> has_prefix gen (take i shape) \<or> \<not> has_prefix (drop i gen) opening then Inl err
               else Inr (take i gen @ kw @ drop i gen)) = Inr out"
  obtains i where "place = Some i" "has_prefix gen (take i shape)" "has_prefix (drop i gen) opening"
    "out = take i gen @ kw @ drop i gen"
  using assms by (cases place) (auto split: if_splits)

lemma insert_empty_shape:
  assumes "insert_create_table_empty e gen = Inr out"
  obtains body sentinel shape i where "create_table_body (e_parse_one e gen) = Some body"
    "is_object (field ''as_select'' body)" "e_generate e (empty_probe NodeCreateTable body sentinel) = Inr shape"
    "has_prefix gen (take i shape)" "has_prefix (drop i gen) '' AS ''"
    "out = take i gen @ '' EMPTY'' @ drop i gen" "\<exists>rest. shape = take i shape @ '' AS '' @ rest"
proof -
  obtain ast where ast: "e_parse_one e gen = Inr ast"
    using assms by (cases "e_parse_one e gen") (simp_all only: insert_create_table_empty_def sum.case sum.distinct)
  obtain body where body: "create_table_body (Inr ast) = Some body"
    using assms ast
    by (cases "create_table_body (Inr ast)") (simp_all only: insert_create_table_empty_def sum.case option.case sum.distinct)
  have query: "is_object (field ''as_select'' body)"
    using assms ast body by (simp only: insert_create_table_empty_def sum.case option.case split: if_splits) simp
  obtain sentinel where sentinel: "e_parse_one e (''SELECT '' @ create_table_empty_sentinel) = Inr sentinel"
    using assms ast body query
    by (cases "e_parse_one e (''SELECT '' @ create_table_empty_sentinel)")
      (simp_all only: insert_create_table_empty_def sum.case option.case not_True_eq_False if_False sum.distinct)
  obtain shape where shape: "e_generate e (empty_probe NodeCreateTable body sentinel) = Inr shape"
    using assms ast body query sentinel
    by (cases "e_generate e (empty_probe NodeCreateTable body sentinel)")
      (simp_all only: insert_create_table_empty_def sum.case option.case not_True_eq_False if_False sum.distinct)
  define place where "place = (case str_index shape create_table_empty_sentinel of None \<Rightarrow> None
      | Some mark \<Rightarrow> str_last_index (take mark shape) '' AS '')"
  obtain i where i: "place = Some i" "has_prefix gen (take i shape)" "has_prefix (drop i gen) '' AS ''"
    "out = take i gen @ '' EMPTY'' @ drop i gen"
    using assms ast body query sentinel shape
    by (simp only: insert_create_table_empty_def sum.case option.case not_True_eq_False if_False Let_def
        place_def [symmetric]) (erule insert_place)
  then obtain mark where mark: "str_last_index (take mark shape) '' AS '' = Some i"
    by (auto simp only: place_def split: option.splits)
  obtain rest where rest: "i \<le> length (take mark shape)" "take mark shape = take i (take mark shape) @ '' AS '' @ rest"
    using str_last_index_Some [OF mark] by blast
  then have "i \<le> mark" by simp
  then have "take i (take mark shape) = take i shape" by (simp add: min_def)
  with rest have "shape = take i shape @ '' AS '' @ rest @ drop mark shape"
    by (metis append.assoc append_take_drop_id)
  with ast body query shape i that show ?thesis by metis
qed

text \<open>
  \<open>EMPTY\<close> goes back exactly in front of the \<open>AS\<close> of the body: the statement is a \<open>create_table\<close> with a
  query, the text before the keyword is what the generator prints before any body, and nothing else of
  the statement changes.
\<close>

theorem insert_create_table_empty_exact:
  assumes "insert_create_table_empty e gen = Inr out"
  shows "\<exists>head query shape sentinel body rest.
     gen = head @ '' AS '' @ query \<and> out = head @ '' EMPTY AS '' @ query \<and>
     create_table_body (e_parse_one e gen) = Some body \<and> is_object (field ''as_select'' body) \<and>
     e_generate e (empty_probe NodeCreateTable body sentinel) = Inr shape \<and> shape = head @ '' AS '' @ rest"
proof -
  obtain body sentinel shape i where *: "create_table_body (e_parse_one e gen) = Some body"
    "is_object (field ''as_select'' body)" "e_generate e (empty_probe NodeCreateTable body sentinel) = Inr shape"
    "has_prefix gen (take i shape)" "has_prefix (drop i gen) '' AS ''"
    "out = take i gen @ '' EMPTY'' @ drop i gen" "\<exists>rest. shape = take i shape @ '' AS '' @ rest"
    using insert_empty_shape [OF assms] by blast
  obtain query where query: "drop i gen = '' AS '' @ query" using *(5) by (auto simp only: has_prefix_iff)
  obtain rest where rest: "shape = take i shape @ '' AS '' @ rest" using *(7) by blast
  have "i \<le> length shape" using arg_cong [OF rest, of length] by simp
  moreover have "i \<le> length gen" using arg_cong [OF query, of length] by simp
  ultimately have same: "take i gen = take i shape" using *(4) by (simp add: has_prefix_def min_absorb2)
  have "gen = take i shape @ '' AS '' @ query" by (metis same query append_take_drop_id)
  moreover have "out = take i shape @ '' EMPTY AS '' @ query" using *(6) same query by simp
  ultimately show ?thesis using *(1-3) rest by blast
qed

text \<open>Polyglot on the one statement of the example: it reads a body, and prints a query after the sentinel's place.\<close>

definition empty_body :: json where
  "empty_body = JObject [(''create_table'', JObject [(''as_select'', JObject [])])]"

definition empty_engine :: engine where
  "empty_engine =
     \<lparr>e_tokenize = (\<lambda>s. Inr []), e_parse_one = (\<lambda>s. Inr empty_body),
      e_generate = (\<lambda>j. Inr (''CREATE TABLE t AS SELECT '' @ create_table_empty_sentinel)),
      e_parse_generic = (\<lambda>_. Inl (EngineError []))\<rparr>"

lemma insert_create_table_empty_exact_witness:
  "insert_create_table_empty empty_engine ''CREATE TABLE t AS SELECT 1'' = Inr ''CREATE TABLE t EMPTY AS SELECT 1'' \<and>
   (\<exists>head query. ''CREATE TABLE t AS SELECT 1'' = head @ '' AS '' @ query)"
proof -
  have run: "insert_create_table_empty empty_engine ''CREATE TABLE t AS SELECT 1'' = Inr ''CREATE TABLE t EMPTY AS SELECT 1''"
    by code_simp
  with insert_create_table_empty_exact [OF run] show ?thesis by blast
qed

section \<open>Taking EMPTY off\<close>

lemma find_empty_Some:
  "find_empty e sql name depth toks = Some c \<Longrightarrow>
     \<exists>tk\<in>set toks. tk_type tk = ''VAR'' \<and> equal_fold (tk_text tk) ''EMPTY'' \<and> empty_candidate e sql name tk = Some c"
proof (induction e sql name depth toks rule: find_empty.induct)
  case (1 e sql name depth tk nxt ts)
  then show ?case
    by (simp only: find_empty.simps split: if_splits option.splits) (simp; blast)+
qed simp_all

text \<open>
  The statement handed to the pipeline is the client's without one bare word \<open>EMPTY\<close>: it parses as a
  \<open>create_table\<close> with a query, and the table keeps its name.
\<close>

theorem strip_create_table_empty_exact:
  assumes "strip_create_table_empty e sql = StrippedEmpty stripped"
  shows "\<exists>pre word post body stripped_body.
     sql = pre @ word @ post \<and> stripped = pre @ post \<and>
     (\<exists>toks tk. tokenize_raw e sql = Inr toks \<and> tk \<in> set toks \<and> tk_source tk = word \<and>
        tk_type tk = ''VAR'' \<and> equal_fold (tk_text tk) ''EMPTY'') \<and>
     create_table_body (e_parse_one e sql) = Some body \<and> \<not> is_object (field ''as_select'' body) \<and>
     create_table_body (e_parse_one e stripped) = Some stripped_body \<and>
     is_object (field ''as_select'' stripped_body) \<and> same_ast (field ''name'' body) (field ''name'' stripped_body)"
proof -
  obtain body toks where body: "create_table_body (e_parse_one e sql) = Some body" "\<not> is_object (field ''as_select'' body)"
    and toks: "tokenize_raw e sql = Inr toks"
    and found: "find_empty e sql (field ''name'' body) 0 toks = Some stripped"
    using assms unfolding strip_create_table_empty_def by (auto split: if_splits option.splits sum.splits)
  obtain tk where tk: "tk \<in> set toks" "tk_type tk = ''VAR''" "equal_fold (tk_text tk) ''EMPTY''"
    "empty_candidate e sql (field ''name'' body) tk = Some stripped"
    using find_empty_Some [OF found] by blast
  have wf: "tk_start tk \<le> tk_end tk" "tk_source tk = substring (tk_start tk) (tk_end tk) sql"
    using tokenize_raw_wf [OF toks] tk(1) by (auto simp: token_wf_def)
  then have "sql = take (tk_start tk) sql @ tk_source tk @ drop (tk_end tk) sql" by (simp add: substring_split)
  moreover obtain stripped_body where "create_table_body (e_parse_one e stripped) = Some stripped_body"
    "is_object (field ''as_select'' stripped_body)" "same_ast (field ''name'' body) (field ''name'' stripped_body)"
    "stripped = take (tk_start tk) sql @ drop (tk_end tk) sql"
    using tk(4) by (auto simp: empty_candidate_def Let_def split: option.splits if_splits)
  ultimately show ?thesis using body toks tk(1-3) by blast
qed

definition strip_sql :: gostring where
  "strip_sql = ''CREATE t EMPTY AS q''"

definition strip_engine :: engine where
  "strip_engine =
     \<lparr>e_tokenize = (\<lambda>s. Inr
        [\<lparr>wt_type = ''CREATE'', wt_text = ''CREATE'', wt_start = 0, wt_end = 6\<rparr>,
         \<lparr>wt_type = ''VAR'', wt_text = ''t'', wt_start = 7, wt_end = 8\<rparr>,
         \<lparr>wt_type = ''VAR'', wt_text = ''EMPTY'', wt_start = 9, wt_end = 14\<rparr>,
         \<lparr>wt_type = ''AS'', wt_text = ''AS'', wt_start = 15, wt_end = 17\<rparr>]),
      e_parse_one = (\<lambda>s. Inr (if s = strip_sql then JObject [(''create_table'', JObject [])] else empty_body)),
      e_generate = (\<lambda>j. Inr []),
      e_parse_generic = (\<lambda>_. Inl (EngineError []))\<rparr>"

lemma strip_create_table_empty_exact_witness:
  "strip_create_table_empty strip_engine strip_sql = StrippedEmpty ''CREATE t  AS q'' \<and>
   (\<exists>pre word post. strip_sql = pre @ word @ post \<and> ''CREATE t  AS q'' = pre @ post)"
proof -
  have run: "strip_create_table_empty strip_engine strip_sql = StrippedEmpty ''CREATE t  AS q''" by code_simp
  then obtain pre word post where "strip_sql = pre @ word @ post" "''CREATE t  AS q'' = pre @ post"
    using strip_create_table_empty_exact [OF run] by metis
  with run show ?thesis by metis
qed

section \<open>The comment of a view\<close>

lemma split_comment_Some:
  assumes "split_comment toks = Some (before, kw, lit)"
  shows "\<exists>semis. toks = before @ kw # lit # semis \<and> before \<noteq> [] \<and> list_all (\<lambda>t. tk_type t = ''SEMICOLON'') semis"
proof -
  define kept where "kept = rev (dropWhile (\<lambda>tk. tk_type tk = ''SEMICOLON'') (rev toks))"
  have parts: "6 \<le> length kept" "before = take (length kept - 2) kept" "kw = kept ! (length kept - 2)"
    "lit = kept ! (length kept - 1)"
    using assms by (auto simp: split_comment_def kept_def Let_def split: if_splits)
  define n where "n = length kept - 2"
  have n: "length kept = Suc (Suc n)" "n \<ge> 4" using parts(1) by (simp_all add: n_def)
  then have "drop n kept = kept ! n # kept ! Suc n # drop (Suc (Suc n)) kept"
    by (metis Cons_nth_drop_Suc Suc_lessD lessI)
  moreover have "drop (Suc (Suc n)) kept = []" using n(1) by simp
  moreover have "length kept - 1 = Suc n" using n(1) by simp
  then have "before = take n kept" "kw = kept ! n" "lit = kept ! Suc n"
    by (simp_all only: parts(2-4) n_def)
  ultimately have "kept = before @ [kw, lit]" by (metis append_take_drop_id)
  moreover have "rev toks = takeWhile (\<lambda>tk. tk_type tk = ''SEMICOLON'') (rev toks) @ rev kept"
    by (simp add: kept_def)
  then have "toks = kept @ rev (takeWhile (\<lambda>tk. tk_type tk = ''SEMICOLON'') (rev toks))"
    by (metis rev_append rev_rev_ident)
  moreover have "before \<noteq> []" using parts(2) n by auto
  ultimately show ?thesis
    by (intro exI [of _ "rev (takeWhile (\<lambda>tk. tk_type tk = ''SEMICOLON'') (rev toks))"])
      (auto simp: list_all_iff dest: set_takeWhileD)
qed

lemma view_comment_at_Some:
  "view_comment_at e sql before kw lit = Some (stripped, comment) \<longleftrightarrow>
     tk_type lit = ''STRING'' \<and> has_prefix (tk_source lit) [squote] \<and> equal_fold (tk_source kw) ''COMMENT'' \<and>
     tk_type (last before) = ''R_PAREN'' \<and> trim cut_blank_semicolon (drop (tk_end lit) sql) = [] \<and>
     create_view_header (before @ [kw, lit]) \<and> bracket_depth before = 0 \<and>
     stripped = trim_right cut_blank (take (tk_start kw) sql) \<and> parenthesized_view e stripped \<and>
     (\<exists>val. clickhouse_unquote (tk_source lit) = Some val \<and> comment = clickhouse_quote val)"
  unfolding view_comment_at_def Let_def
  by (cases "clickhouse_unquote (tk_source lit)") (simp_all only: option.case split: if_split, blast+)

lemma strip_view_comment_Some:
  assumes "strip_view_comment e sql = Some (stripped, comment)"
  obtains toks before kw lit where "tokenize_raw e sql = Inr toks" "split_comment toks = Some (before, kw, lit)"
    "view_comment_at e sql before kw lit = Some (stripped, comment)"
proof -
  obtain toks where toks: "tokenize_raw e sql = Inr toks"
    using assms unfolding strip_view_comment_def by (cases "tokenize_raw e sql") (simp_all split: if_splits)
  then obtain before kw lit where "split_comment toks = Some (before, kw, lit)"
    using assms unfolding strip_view_comment_def by (cases "split_comment toks") (auto split: if_splits)
  with toks assms that show ?thesis unfolding strip_view_comment_def by (simp split: if_splits)
qed

text \<open>
  The pipeline sees the client's statement up to the keyword \<open>COMMENT\<close>, a view whose parenthesised query
  ends there; what is cut off is that keyword, one string literal and blanks or semicolons, and the literal
  put back has the same value.
\<close>

theorem strip_view_comment_exact:
  assumes "strip_view_comment e sql = Some (stripped, comment)"
    and "e_tokenize e sql = Inr ws" "wire_ordered ws"
  shows "\<exists>gap word mid lit tail.
     sql = stripped @ gap @ word @ mid @ lit @ tail \<and> list_all cut_blank gap \<and> equal_fold word ''COMMENT'' \<and>
     list_all cut_blank_semicolon tail \<and> parenthesized_view e stripped \<and>
     clickhouse_unquote lit \<noteq> None \<and> clickhouse_unquote comment = clickhouse_unquote lit"
proof -
  obtain toks before kw lit where found: "tokenize_raw e sql = Inr toks" "split_comment toks = Some (before, kw, lit)"
    "view_comment_at e sql before kw lit = Some (stripped, comment)" using strip_view_comment_Some [OF assms(1)] by blast
  then obtain val where s: "tokenize_raw e sql = Inr toks" "split_comment toks = Some (before, kw, lit)"
    "equal_fold (tk_source kw) ''COMMENT''" "trim cut_blank_semicolon (drop (tk_end lit) sql) = []"
    "stripped = trim_right cut_blank (take (tk_start kw) sql)" "parenthesized_view e stripped"
    "clickhouse_unquote (tk_source lit) = Some val" "comment = clickhouse_quote val"
    unfolding view_comment_at_Some by blast
  obtain semis where toks: "toks = before @ kw # lit # semis" using split_comment_Some [OF s(2)] by blast
  have wf: "token_wf sql kw" "token_wf sql lit" using tokenize_raw_wf [OF s(1)] toks by auto
  have "tokens_ordered toks"
    using normalize_tokens_ordered [OF _ assms(3)] s(1) assms(2) by (auto simp: tokenize_raw_def normalize_tokens_Inr)
  then have order: "tk_end kw \<le> tk_start lit" using toks by (simp add: tokens_ordered_def sorted_wrt_append)
  obtain gap where gap: "take (tk_start kw) sql = stripped @ gap" "list_all cut_blank gap"
    using trim_right_split [of "take (tk_start kw) sql" cut_blank] s(5) by blast
  have "sql = take (tk_start kw) sql @ tk_source kw @ drop (tk_end kw) sql"
    using wf(1) by (simp add: token_wf_def substring_split)
  moreover have "drop (tk_end kw) sql = substring (tk_end kw) (tk_start lit) sql @ drop (tk_start lit) sql"
    using order substring_split [of "tk_end kw" "tk_start lit" sql]
    by (metis append_take_drop_id append_eq_append_conv append.assoc)
  moreover have "drop (tk_start lit) sql = tk_source lit @ drop (tk_end lit) sql"
    using wf(2) substring_split [of "tk_start lit" "tk_end lit" sql]
    by (metis append_take_drop_id append_eq_append_conv token_wf_def)
  ultimately have "sql = stripped @ gap @ tk_source kw @ substring (tk_end kw) (tk_start lit) sql @ tk_source lit
      @ drop (tk_end lit) sql" using gap(1) by simp
  moreover have "list_all cut_blank_semicolon (drop (tk_end lit) sql)" using trim_empty [OF s(4)] .
  moreover have "clickhouse_unquote comment = clickhouse_unquote (tk_source lit)" "clickhouse_unquote (tk_source lit) \<noteq> None"
    using s(7,8) by (simp_all add: quote_roundtrip)
  ultimately show ?thesis using gap(2) s(3,6) by blast
qed

definition view_sql :: gostring where
  "view_sql = ''CREATE VIEW v AS (q) COMMENT '' @ [squote, CHR ''c'', squote]"

definition view_tokens :: "wire_token list" where
  "view_tokens =
     [\<lparr>wt_type = ''CREATE'', wt_text = ''CREATE'', wt_start = 0, wt_end = 6\<rparr>,
      \<lparr>wt_type = ''VIEW'', wt_text = ''VIEW'', wt_start = 7, wt_end = 11\<rparr>,
      \<lparr>wt_type = ''VAR'', wt_text = ''v'', wt_start = 12, wt_end = 13\<rparr>,
      \<lparr>wt_type = ''AS'', wt_text = ''AS'', wt_start = 14, wt_end = 16\<rparr>,
      \<lparr>wt_type = ''L_PAREN'', wt_text = ''('', wt_start = 17, wt_end = 18\<rparr>,
      \<lparr>wt_type = ''VAR'', wt_text = ''q'', wt_start = 18, wt_end = 19\<rparr>,
      \<lparr>wt_type = ''R_PAREN'', wt_text = '')'', wt_start = 19, wt_end = 20\<rparr>,
      \<lparr>wt_type = ''VAR'', wt_text = ''COMMENT'', wt_start = 21, wt_end = 28\<rparr>,
      \<lparr>wt_type = ''STRING'', wt_text = ''c'', wt_start = 29, wt_end = 32\<rparr>]"

definition view_engine :: engine where
  "view_engine =
     \<lparr>e_tokenize = (\<lambda>s. Inr view_tokens),
      e_parse_one = (\<lambda>s. Inr (JObject [(''create_view'', JObject [(''query_parenthesized'', JBool True)])])),
      e_generate = (\<lambda>j. Inr []),
      e_parse_generic = (\<lambda>_. Inl (EngineError []))\<rparr>"

lemma strip_view_comment_exact_witness:
  "strip_view_comment view_engine view_sql = Some (''CREATE VIEW v AS (q)'', [squote, CHR ''c'', squote]) \<and>
   (\<exists>tail. list_all cut_blank_semicolon tail \<and> parenthesized_view view_engine ''CREATE VIEW v AS (q)'')"
proof -
  have run: "strip_view_comment view_engine view_sql = Some (''CREATE VIEW v AS (q)'', [squote, CHR ''c'', squote])"
    by code_simp
  have ws: "e_tokenize view_engine view_sql = Inr view_tokens" by (simp add: view_engine_def)
  have order: "wire_ordered view_tokens" by (simp add: wire_ordered_def view_tokens_def)
  show ?thesis using strip_view_comment_exact [OF run ws order] run by blast
qed

end
