(* ===== verification/Write_Slots.thy ===== *)
theory Write_Slots
  imports Json_Edit Raw_Splice
begin

text \<open>
  The AST side of \<open>engine/writes.go\<close>: the table references of a write statement (\<open>writeSlots\<close>), reading
  them (\<open>InspectWrite\<close>), rewriting them (\<open>RewriteWriteTargets\<close>), the IF [NOT] EXISTS clause, and the
  table references of an ALTER that reaches a second table; with the identifier nodes of \<open>engine/nodes.go\<close>.
\<close>

section \<open>Identifier nodes\<close>

definition ident :: "gostring \<Rightarrow> json" where
  "ident s = JObject [(''name'', JString s), (''quoted'', JBool (needs_quoting s)), (''trailing_comments'', JArray [])]"

definition opaque_identifier_parameter_key :: gostring where
  "opaque_identifier_parameter_key = ''_rewriter_go_opaque_identifier_parameter''"

definition looks_like_unresolved_identifier_name :: "gostring \<Rightarrow> bool" where
  "looks_like_unresolved_identifier_name name \<longleftrightarrow>
     (if length name < length ''{x: Identifier}'' \<or> name ! 0 \<noteq> CHR ''{'' \<or>
         name ! (length name - 1) \<noteq> CHR ''}'' then False
      else case last_index_byte name CHR '':'' of
             None \<Rightarrow> False
           | Some colon \<Rightarrow>
               colon > 1 \<and>
               equal_fold (trim_space (substring (colon + 1) (length name - 1) name)) ''Identifier'')"

definition unresolved_identifier_node :: "json \<Rightarrow> bool" where
  "unresolved_identifier_node node \<longleftrightarrow>
     (if \<not> is_object node then False
      else if json_bool (field opaque_identifier_parameter_key node) then True
      else if has_key (members node) ''parameter'' then True
      else if json_bool (field ''quoted'' node) then False
      else looks_like_unresolved_identifier_name (json_string (field ''name'' node)))"

definition concrete_identifier_name :: "json \<Rightarrow> gostring" where
  "concrete_identifier_name v = (if unresolved_identifier_node v then [] else ident_name v)"

definition parameter_table :: "json \<Rightarrow> bool" where
  "parameter_table tbl \<longleftrightarrow>
     unresolved_identifier_node (field ''name'' tbl) \<or>
     field ''schema'' tbl \<noteq> JNull \<and> unresolved_identifier_node (field ''schema'' tbl)"

definition no_target :: table_target where
  "no_target = \<lparr>tt_db = [], tt_table = [], tt_alias = []\<rparr>"

definition decode_table_target :: "json \<Rightarrow> table_target" where
  "decode_table_target tbl =
     (if parameter_table tbl then no_target
      else \<lparr>tt_db = ident_name (field ''schema'' tbl), tt_table = ident_name (field ''name'' tbl),
            tt_alias = concrete_identifier_name (field ''alias'' tbl)\<rparr>)"

section \<open>Slots\<close>

text \<open>The role \<open>drop#i\<close> is \<open>RoleDrop i\<close>; \<open>RoleDrop 0\<close> is \<open>drop\<close>.\<close>

datatype write_role =
  RoleCreate | RoleCloneSource | RoleViewTo | RoleDrop nat | RoleTruncate | RoleAlter | RoleInsert
| RoleUpdate | RoleDelete

record write_slot =
  ws_role :: write_role
  ws_target :: table_target

text \<open>Where in the body a table node sits.\<close>

datatype slot_path = Member gostring | Element gostring nat

definition slot_node :: "json \<Rightarrow> slot_path \<Rightarrow> json" where
  "slot_node body p =
     (case p of
        Member k \<Rightarrow> field k body
      | Element k i \<Rightarrow>
          (case field k body of JArray vs \<Rightarrow> if i < length vs then vs ! i else JNull | _ \<Rightarrow> JNull))"

definition set_slot :: "slot_path \<Rightarrow> json \<Rightarrow> json \<Rightarrow> json" where
  "set_slot p v body =
     (case p of
        Member k \<Rightarrow> put k v body
      | Element k i \<Rightarrow>
          (case field k body of JArray vs \<Rightarrow> put k (JArray (vs[i := v])) body | _ \<Rightarrow> body))"

definition candidate_slots :: "gostring \<Rightarrow> json \<Rightarrow> (write_role \<times> slot_path) list" where
  "candidate_slots kind body =
     (if kind = NodeDropTable then
        (case field ''names'' body of
           JArray names \<Rightarrow> map (\<lambda>i. (RoleDrop i, Element ''names'' i)) [0..<length names]
         | _ \<Rightarrow> [])
      else if kind = NodeDropView then [(RoleDrop 0, Member ''name'')]
      else if kind = NodeTruncate then [(RoleTruncate, Member ''table'')]
      else if kind = NodeUpdate then [(RoleUpdate, Member ''table'')]
      else if kind = NodeDelete then [(RoleDelete, Member ''table'')]
      else if kind = NodeCreateTable then [(RoleCreate, Member ''name''), (RoleCloneSource, Member ''clone_source'')]
      else if kind = NodeAlterTable then [(RoleAlter, Member ''name'')]
      else if kind = NodeInsert then [(RoleInsert, Member ''table'')]
      else if kind = NodeCreateView then [(RoleCreate, Member ''name''), (RoleViewTo, Member ''to_table'')]
      else [])"

text \<open>The nodes \<open>writeSlots\<close> visits, in document order: those that are objects.\<close>

definition write_slots :: "gostring \<Rightarrow> json \<Rightarrow> (write_role \<times> slot_path) list" where
  "write_slots kind body = filter (\<lambda>(_, p). is_object (slot_node body p)) (candidate_slots kind body)"

definition set_table_ref :: "gostring \<Rightarrow> gostring \<Rightarrow> json \<Rightarrow> json" where
  "set_table_ref newDB newTable tbl =
     (let t = put ''name'' (ident newTable) tbl
      in if newDB \<noteq> [] then put ''schema'' (ident newDB) t else t)"

section \<open>Decisions\<close>

record remote_spec =
  rsp_addr :: gostring
  rsp_db :: gostring
  rsp_table :: gostring
  rsp_user :: gostring
  rsp_password :: gostring

datatype table_decision =
  ActionSkip | ActionRename gostring gostring | ActionRemote remote_spec | ActionSubquery json

definition apply_slot :: "(write_slot \<Rightarrow> table_decision) \<Rightarrow> json \<Rightarrow> write_role \<times> slot_path \<Rightarrow> json" where
  "apply_slot decide body rp =
     (let (role, p) = rp; tbl = slot_node body p
      in case decide \<lparr>ws_role = role, ws_target = decode_table_target tbl\<rparr> of
           ActionRename newDB newTable \<Rightarrow> set_slot p (set_table_ref newDB newTable tbl) body
         | _ \<Rightarrow> body)"

definition rewrite_write_targets :: "json \<Rightarrow> (write_slot \<Rightarrow> table_decision) \<Rightarrow> engine_error + json" where
  "rewrite_write_targets ast decide =
     (case body_of ast of
        Inl err \<Rightarrow> Inl err
      | Inr (kind, None) \<Rightarrow> Inr ast
      | Inr (kind, Some body) \<Rightarrow>
          Inr (JObject [(kind, foldl (apply_slot decide) body (write_slots kind body))]))"

section \<open>Inspection\<close>

record write_info =
  wi_kind :: gostring
  wi_slots :: "write_slot list"
  wi_if_exists :: bool
  wi_if_not_exists :: bool
  wi_multi :: bool
  wi_cross_table :: bool
  wi_materialized :: bool
  wi_as_table_function :: bool
  wi_missing_table :: bool
  wi_is_view :: bool
  wi_has_view_body :: bool
  wi_truncate_target :: gostring
  wi_is_dictionary :: bool
  wi_sub :: command_sub
  wi_parameter_target :: bool

definition no_info :: "gostring \<Rightarrow> write_info" where
  "no_info kind =
     \<lparr>wi_kind = kind, wi_slots = [], wi_if_exists = False, wi_if_not_exists = False, wi_multi = False,
      wi_cross_table = False, wi_materialized = False, wi_as_table_function = False, wi_missing_table = False,
      wi_is_view = False, wi_has_view_body = False, wi_truncate_target = [], wi_is_dictionary = False,
      wi_sub = CmdNone, wi_parameter_target = False\<rparr>"

definition clone_source_is_table_function :: "json \<Rightarrow> bool" where
  "clone_source_is_table_function body \<longleftrightarrow>
     is_object (field ''clone_source'' body) \<and> field ''identifier_func'' (field ''clone_source'' body) \<noteq> JNull"

definition raw_action_is_cross_table :: "gostring \<Rightarrow> bool" where
  "raw_action_is_cross_table sql \<longleftrightarrow>
     (let u = to_upper (trim_space sql)
      in if has_prefix u ''ATTACH '' \<or> has_prefix u ''REPLACE '' then str_contains u '' FROM ''
         else if has_prefix u ''MOVE '' then str_contains u '' TO TABLE ''
         else False)"

definition structured_action_refs_table :: "json \<Rightarrow> bool" where
  "structured_action_refs_table payload \<longleftrightarrow>
     list_ex (\<lambda>key. is_object (field key payload) \<and> is_object (field ''table'' (field key payload)))
       [''source'', ''destination'']"

definition action_is_cross_table :: "json \<Rightarrow> bool" where
  "action_is_cross_table a \<longleftrightarrow>
     is_object a \<and>
     (if is_object (field ''Raw'' a) then raw_action_is_cross_table (json_string (field ''sql'' (field ''Raw'' a)))
      else list_ex (\<lambda>(_, v). is_object v \<and> structured_action_refs_table v) (members a))"

definition alter_has_cross_table_ref :: "json \<Rightarrow> bool" where
  "alter_has_cross_table_ref body \<longleftrightarrow>
     (case field ''actions'' body of JArray actions \<Rightarrow> list_ex action_is_cross_table actions | _ \<Rightarrow> False)"

text \<open>The flags of one statement kind.\<close>

definition inspect_flags :: "gostring \<Rightarrow> json \<Rightarrow> write_info" where
  "inspect_flags kind body =
     (let info = no_info kind
      in if kind = NodeDropTable then
           info\<lparr>wi_multi := (case field ''names'' body of JArray names \<Rightarrow> length names > 1 | _ \<Rightarrow> False),
                wi_if_exists := json_bool (field ''if_exists'' body)\<rparr>
         else if kind = NodeDropView then
           info\<lparr>wi_if_exists := json_bool (field ''if_exists'' body),
                wi_materialized := json_bool (field ''materialized'' body)\<rparr>
         else if kind = NodeTruncate then
           info\<lparr>wi_if_exists := json_bool (field ''if_exists'' body),
                wi_truncate_target := json_string (field ''target'' body)\<rparr>
         else if kind = NodeCreateTable then
           info\<lparr>wi_if_not_exists := json_bool (field ''if_not_exists'' body),
                wi_is_dictionary := (json_string (field ''table_modifier'' body) = ''DICTIONARY''),
                wi_as_table_function := clone_source_is_table_function body\<rparr>
         else if kind = NodeAlterTable then
           info\<lparr>wi_if_exists := json_bool (field ''if_exists'' body),
                wi_cross_table := alter_has_cross_table_ref body\<rparr>
         else if kind = NodeInsert then
           info\<lparr>wi_as_table_function := (field ''function_target'' body \<noteq> JNull),
                wi_missing_table := (\<not> is_object (field ''table'' body))\<rparr>
         else if kind = NodeCreateView then
           info\<lparr>wi_is_view := True, wi_materialized := json_bool (field ''materialized'' body),
                wi_if_not_exists := json_bool (field ''if_not_exists'' body),
                wi_has_view_body := is_object (field ''query'' body)\<rparr>
         else if kind = NodeCommand then
           info\<lparr>wi_sub := classify_write_command (json_string (field ''this'' body))\<rparr>
         else info)"

definition concrete_slots :: "gostring \<Rightarrow> json \<Rightarrow> write_slot list" where
  "concrete_slots kind body =
     map (\<lambda>(role, p). \<lparr>ws_role = role, ws_target = decode_table_target (slot_node body p)\<rparr>)
       (filter (\<lambda>(_, p). \<not> parameter_table (slot_node body p)) (write_slots kind body))"

definition inspect_write :: "json \<Rightarrow> engine_error + write_info" where
  "inspect_write ast =
     (case body_of ast of
        Inl err \<Rightarrow> Inl err
      | Inr (kind, None) \<Rightarrow> Inr (no_info kind)
      | Inr (kind, Some body) \<Rightarrow>
          (let info = inspect_flags kind body; slots = concrete_slots kind body
           in Inr (info\<lparr>wi_parameter_target :=
                          list_ex (\<lambda>(_, p). parameter_table (slot_node body p)) (write_slots kind body),
                        wi_slots := (if wi_as_table_function info
                                     then filter (\<lambda>s. tt_table (ws_target s) \<noteq> []) slots else slots)\<rparr>)))"

section \<open>IF [NOT] EXISTS\<close>

text \<open>The pair (IF NOT EXISTS, IF EXISTS).\<close>

definition existence_from_raw_sql :: "gostring \<Rightarrow> bool \<times> bool" where
  "existence_from_raw_sql sql =
     (let u = to_upper sql
      in case str_fields u of
           [] \<Rightarrow> (False, False)
         | w # _ \<Rightarrow>
             if w = ''CREATE'' then (str_contains u ''IF NOT EXISTS'', False)
             else if w \<in> {''DROP'', ''TRUNCATE'', ''DETACH''} then (False, str_contains u ''IF EXISTS'')
             else (False, False))"

definition existence_clause_of :: "json \<Rightarrow> engine_error + bool \<times> bool" where
  "existence_clause_of ast =
     (case body_of ast of
        Inl err \<Rightarrow> Inl err
      | Inr (kind, None) \<Rightarrow> Inr (False, False)
      | Inr (kind, Some body) \<Rightarrow>
          Inr (if kind \<in> {NodeCreateTable, NodeCreateDB, NodeCreateView}
                 then (json_bool (field ''if_not_exists'' body), False)
               else if kind \<in> {NodeDropTable, NodeDropView, NodeDropDB, NodeTruncate}
                 then (False, json_bool (field ''if_exists'' body))
               else if kind = NodeRaw then existence_from_raw_sql (case raw_sql ast of Inr s \<Rightarrow> s | Inl _ \<Rightarrow> [])
               else if kind = NodeCommand
                 then existence_from_raw_sql (case command_sql ast of Inr s \<Rightarrow> s | Inl _ \<Rightarrow> [])
               else (False, False)))"

section \<open>References beyond the slots\<close>

definition raw_token_table_target :: "raw_token list \<Rightarrow> table_target option" where
  "raw_token_table_target ts =
     (case ts of
        t # ts' \<Rightarrow> if is_name_tok (tk_type t) then Some (rs_target (fst (name_span t ts'))) else None
      | [] \<Rightarrow> None)"

fun raw_action_cross_table_target :: "raw_token list \<Rightarrow> table_target option" where
  "raw_action_cross_table_target [] = None"
| "raw_action_cross_table_target (t # ts) =
     (case (if tk_type t = ''FROM'' then raw_token_table_target ts
            else if tk_type t = ''TO'' then
              (case ts of u # us \<Rightarrow> if tk_type u = ''TABLE'' then raw_token_table_target us else None | [] \<Rightarrow> None)
            else None) of
        Some target \<Rightarrow> Some target
      | None \<Rightarrow> raw_action_cross_table_target ts)"

text \<open>The members of an object are visited in the order of the list, which Go leaves open.\<close>

fun nested_table_targets :: "json \<Rightarrow> table_target list" where
  "nested_table_targets (JObject m) =
     (let tbl = field ''table'' (JObject m)
      in if is_object tbl \<and> tt_table (decode_table_target tbl) \<noteq> [] then [decode_table_target tbl]
         else concat (map (\<lambda>(_, v). nested_table_targets v) m))"
| "nested_table_targets (JArray vs) = concat (map nested_table_targets vs)"
| "nested_table_targets _ = []"

definition action_targets :: "engine \<Rightarrow> json \<Rightarrow> engine_error + table_target list" where
  "action_targets e a =
     (if \<not> is_object a then Inr []
      else if is_object (field ''Raw'' a) then
        (let sql = json_string (field ''sql'' (field ''Raw'' a))
         in if \<not> raw_action_is_cross_table sql then Inr []
            else case tokenize_raw e sql of
                   Inl err \<Rightarrow> Inl err
                 | Inr toks \<Rightarrow>
                     Inr (case raw_action_cross_table_target toks of Some t \<Rightarrow> [t] | None \<Rightarrow> []))
      else Inr (nested_table_targets a))"

fun actions_targets :: "engine \<Rightarrow> json list \<Rightarrow> engine_error + table_target list" where
  "actions_targets e [] = Inr []"
| "actions_targets e (a # as) =
     (case action_targets e a of
        Inl err \<Rightarrow> Inl err
      | Inr ts \<Rightarrow> map_sum id ((@) ts) (actions_targets e as))"

definition alter_cross_table_targets :: "engine \<Rightarrow> json \<Rightarrow> engine_error + table_target list" where
  "alter_cross_table_targets e body =
     (case field ''actions'' body of JArray actions \<Rightarrow> actions_targets e actions | _ \<Rightarrow> Inr [])"

fun first_name_token :: "raw_token list \<Rightarrow> (raw_token \<times> raw_token list) option" where
  "first_name_token [] = None"
| "first_name_token (t # ts) = (if is_name_tok (tk_type t) then Some (t, ts) else first_name_token ts)"

definition database_target_of :: "raw_token \<Rightarrow> table_target" where
  "database_target_of t = \<lparr>tt_db = tk_text t, tt_table = [], tt_alias = []\<rparr>"

text \<open>The name after the first \<open>TO\<close> that has one.\<close>

fun after_to :: "raw_token list \<Rightarrow> table_target list" where
  "after_to (t # ts) =
     (if ts \<noteq> [] \<and> (tk_type t = ''TO'' \<or> equal_fold (tk_text t) ''TO'') then
        (case first_name_token ts of Some (n, _) \<Rightarrow> [database_target_of n] | None \<Rightarrow> after_to ts)
      else after_to ts)"
| "after_to [] = []"

definition raw_command_database_targets :: "engine \<Rightarrow> json \<Rightarrow> engine_error + table_target list" where
  "raw_command_database_targets e ast =
     (case body_of ast of
        Inl err \<Rightarrow> Inl err
      | Inr (_, body) \<Rightarrow>
          (case tokenize_raw e (command_text body) of
             Inl err \<Rightarrow> Inl err
           | Inr (t # database # ts) \<Rightarrow>
               (let head = to_upper (tk_text t)
                in if head \<notin> {''RENAME'', ''ATTACH'', ''DETACH''} then Inr []
                   else if \<not> equal_fold (tk_text database) ''DATABASE'' then Inr []
                   else Inr ((case first_name_token ts of Some (n, _) \<Rightarrow> [database_target_of n] | None \<Rightarrow> [])
                             @ (if head = ''RENAME'' then after_to ts else [])))
           | Inr _ \<Rightarrow> Inr []))"

text \<open>\<open>DatabaseTarget\<close>: the name and the flags IF NOT EXISTS and IF EXISTS.\<close>

definition database_target :: "json \<Rightarrow> engine_error + gostring \<times> bool \<times> bool" where
  "database_target ast =
     (case body_of ast of
        Inl err \<Rightarrow> Inl err
      | Inr (kind, None) \<Rightarrow> Inl (WrongKind kind)
      | Inr (kind, Some body) \<Rightarrow>
          if kind \<noteq> NodeCreateDB \<and> kind \<noteq> NodeDropDB then Inl (WrongKind kind)
          else Inr (ident_name (field ''name'' body), json_bool (field ''if_not_exists'' body),
                    json_bool (field ''if_exists'' body)))"

end
