(* ===== verification/Opaque_Text.thy ===== *)
theory Opaque_Text
  imports Settings_Gate Write_Slots Name_Contract
begin

text \<open>
  The scans of text the SQL engine leaves opaque (\<open>engine/ungoverned.go\<close>, the text half of
  \<open>engine/parameters.go\<close>, and the token tests they share with \<open>lexical.go\<close>, \<open>nodes.go\<close> and \<open>references.go\<close>):
  which texts a statement holds, and whether a text can read a table the rewriter does not see. The scans
  run over the tokens; a position of the Go loops is the list of the tokens from there on.
\<close>

section \<open>Token tests\<close>

definition is_string_literal_token :: "raw_token \<Rightarrow> bool" where
  "is_string_literal_token tok \<longleftrightarrow>
     tk_type tok \<in> {''STRING'', ''DOLLAR_STRING'', ''HEREDOC_STRING'', ''HEREDOC_STRING_ALTERNATIVE''}"

definition is_identifier_candidate :: "raw_token \<Rightarrow> bool" where
  "is_identifier_candidate tok \<longleftrightarrow>
     (if tk_type tok = ''QUOTED_IDENTIFIER'' then True
      else if is_string_literal_token tok \<or> tk_text tok = [] then False
      else simple_identifier_from 0 (tk_text tok))"

text \<open>The five tokens of \<open>{name:Identifier}\<close>; the tokens after them.\<close>

definition identifier_parameter_end :: "raw_token list \<Rightarrow> raw_token list option" where
  "identifier_parameter_end toks =
     (case toks of
        a # b # c # d # f # rest \<Rightarrow>
          if tk_type a = ''L_BRACE'' \<and> is_identifier_candidate b \<and> tk_type c = ''COLON'' \<and>
             tk_text d = ''Identifier'' \<and> tk_type f = ''R_BRACE''
          then Some rest else None
      | _ \<Rightarrow> None)"

fun tokens_hold_identifier_parameter :: "raw_token list \<Rightarrow> bool" where
  "tokens_hold_identifier_parameter [] = False"
| "tokens_hold_identifier_parameter (t # ts) \<longleftrightarrow>
     tk_type t = ''L_BRACE'' \<and> identifier_parameter_end (t # ts) \<noteq> None \<or> tokens_hold_identifier_parameter ts"

definition identifier_parameter_message :: gostring where
  "identifier_parameter_message = ''query parameters are not supported in a database or table position''"

definition command_scan_sentinel :: gostring where
  "command_scan_sentinel = ''_rewriter_go_command_scan_sentinel''"

definition identifier_parameter_in_text :: "engine \<Rightarrow> gostring \<Rightarrow> bool" where
  "identifier_parameter_in_text e sql =
     (case tokenize_raw e (sql @ [CHR 0x0A] @ command_scan_sentinel) of
        Inl _ \<Rightarrow> True
      | Inr toks \<Rightarrow>
          if toks = [] then True
          else if tk_type (last toks) \<noteq> ''VAR'' \<or> tk_text (last toks) \<noteq> command_scan_sentinel then True
          else tokens_hold_identifier_parameter (butlast toks))"

definition in_family_canonical :: "(gostring \<times> gostring) list" where
  "in_family_canonical =
     [(''in'', ''in''), (''notIn'', ''notin''), (''nullIn'', ''nullin''), (''notNullIn'', ''notnullin''),
      (''globalIn'', ''globalin''), (''globalNotIn'', ''globalnotin''), (''globalNullIn'', ''globalnullin''),
      (''globalNotNullIn'', ''globalnotnullin''),
      (''inIgnoreSet'', ''in''), (''notInIgnoreSet'', ''notin''), (''nullInIgnoreSet'', ''nullin''),
      (''notNullInIgnoreSet'', ''notnullin''), (''globalInIgnoreSet'', ''globalin''),
      (''globalNotInIgnoreSet'', ''globalnotin''), (''globalNullInIgnoreSet'', ''globalnullin''),
      (''globalNotNullInIgnoreSet'', ''globalnotnullin'')]"

definition canonical_callable_in_name :: "gostring \<Rightarrow> gostring option" where
  "canonical_callable_in_name name = map_of in_family_canonical name"

definition is_callable_in_name :: "raw_token \<Rightarrow> bool" where
  "is_callable_in_name tok \<longleftrightarrow>
     (if tk_type tok \<noteq> ''VAR'' \<and> tk_type tok \<noteq> ''QUOTED_IDENTIFIER'' then False
      else canonical_callable_in_name (tk_text tok) \<noteq> None)"

definition is_string_lookup :: "gostring \<Rightarrow> bool" where
  "is_string_lookup name \<longleftrightarrow>
     (let lower = to_lower name
      in lower \<in> {''joinget'', ''joingetornull''} \<or>
         list_ex (has_prefix lower)
           [''dictget'', ''dicthas'', ''dictgethierarchy'', ''dictisin'', ''dictgetchildren'',
            ''dictgetdescendants'', ''hascolumnintable''])"

definition opens_group :: "raw_token \<Rightarrow> bool" where
  "opens_group t \<longleftrightarrow> tk_type t = ''L_PAREN'' \<or> tk_type t = ''L_BRACKET''"

definition closes_group :: "raw_token \<Rightarrow> bool" where
  "closes_group t \<longleftrightarrow> tk_type t = ''R_PAREN'' \<or> tk_type t = ''R_BRACKET''"

section \<open>IN operands\<close>

definition sign_token :: "raw_token \<Rightarrow> bool" where
  "sign_token t \<longleftrightarrow> tk_type t = ''PLUS'' \<or> tk_type t = ''DASH''"

text \<open>From an opening bracket on: the tokens up to the bracket that closes it.\<close>

fun bracket_group :: "nat \<Rightarrow> raw_token list \<Rightarrow> raw_token list option" where
  "bracket_group depth [] = None"
| "bracket_group depth (t # ts) =
     (if opens_group t then map_option ((#) t) (bracket_group (depth + 1) ts)
      else if closes_group t then
        (if depth = 1 then Some [t] else map_option ((#) t) (bracket_group (depth - 1) ts))
      else map_option ((#) t) (bracket_group depth ts))"

text \<open>A \<open>tuple(\<close> or \<open>array(\<close> contributes its argument group.\<close>

definition skip_constructor :: "raw_token list \<Rightarrow> raw_token list" where
  "skip_constructor ts =
     (case ts of
        a # b # rest \<Rightarrow>
          if tk_type a = ''VAR'' \<and> (equal_fold (tk_text a) ''tuple'' \<or> equal_fold (tk_text a) ''array'') \<and>
             tk_type b = ''L_PAREN''
          then b # rest else ts
      | _ \<Rightarrow> ts)"

definition opaque_in_operand_region :: "raw_token list \<Rightarrow> raw_token list option" where
  "opaque_in_operand_region toks =
     (let signs = takeWhile sign_token toks
      in case skip_constructor (dropWhile sign_token toks) of
           [] \<Rightarrow> None
         | t # ts \<Rightarrow>
             if opens_group t then map_option ((@) signs) (bracket_group 0 (t # ts))
             else if closes_group t \<or> tk_type t = ''COMMA'' then None
             else Some (signs @ [t]))"

definition opaque_in_literal_token :: "raw_token \<Rightarrow> bool" where
  "opaque_in_literal_token tok \<longleftrightarrow>
     tk_type tok \<in> {''NUMBER'', ''STRING'', ''NULL'', ''TRUE'', ''FALSE'', ''COMMA'', ''DASH'', ''PLUS'',
       ''L_PAREN'', ''R_PAREN'', ''L_BRACKET'', ''R_BRACKET''}"

text \<open>The rule at the first of the tokens.\<close>

definition opaque_in_refused_at :: "raw_token list \<Rightarrow> bool" where
  "opaque_in_refused_at toks =
     (case toks of
        [] \<Rightarrow> False
      | tok # rest \<Rightarrow>
          if tk_type tok \<noteq> ''IN'' \<and> \<not> is_callable_in_name tok then False
          else case rest of
                 [] \<Rightarrow> True
               | n # _ \<Rightarrow>
                   if tk_type tok = ''IN'' \<and> is_word_token n ''PARTITION'' then False
                   else case opaque_in_operand_region rest of
                          None \<Rightarrow> True
                        | Some region \<Rightarrow> \<not> list_all opaque_in_literal_token region)"

section \<open>ALTER actions\<close>

text \<open>The top-level comma-separated actions; \<open>cur\<close> is the current one, reversed.\<close>

fun segments_from :: "nat \<Rightarrow> raw_token list \<Rightarrow> raw_token list \<Rightarrow> raw_token list list" where
  "segments_from depth cur [] = [rev cur]"
| "segments_from depth cur (t # ts) =
     (if opens_group t then segments_from (depth + 1) (t # cur) ts
      else if closes_group t then segments_from (depth - 1) (t # cur) ts
      else if tk_type t = ''COMMA'' \<and> depth = 0 then rev cur # segments_from depth [] ts
      else segments_from depth (t # cur) ts)"

definition opaque_action_segments :: "raw_token list \<Rightarrow> raw_token list list" where
  "opaque_action_segments toks = segments_from 0 [] toks"

fun refresh_depends_on :: "bool \<Rightarrow> raw_token list \<Rightarrow> bool" where
  "refresh_depends_on refresh [] = False"
| "refresh_depends_on refresh (t # ts) \<longleftrightarrow>
     (let refresh' = refresh \<or> is_word_token t ''REFRESH''
      in refresh' \<and> is_word_token t ''DEPENDS'' \<and> (case ts of n # _ \<Rightarrow> is_word_token n ''ON'' | [] \<Rightarrow> False) \<or>
         refresh_depends_on refresh' ts)"

fun holds_to_table :: "raw_token list \<Rightarrow> bool" where
  "holds_to_table (t # n # ts) \<longleftrightarrow>
     is_word_token t ''TO'' \<and> is_word_token n ''TABLE'' \<or> holds_to_table (n # ts)"
| "holds_to_table _ = False"

fun partition_cross_table :: "raw_token list \<Rightarrow> bool" where
  "partition_cross_table (t # n # ts) \<longleftrightarrow>
     (is_word_token n ''PARTITION'' \<or> is_word_token n ''PART'') \<and>
       (is_word_token t ''FETCH'' \<or>
        (is_word_token t ''ATTACH'' \<or> is_word_token t ''REPLACE'') \<and> list_ex (\<lambda>u. is_word_token u ''FROM'') ts \<or>
        is_word_token t ''MOVE'' \<and> holds_to_table ts) \<or>
     partition_cross_table (n # ts)"
| "partition_cross_table _ = False"

definition opaque_cross_table_action :: "raw_token list \<Rightarrow> bool" where
  "opaque_cross_table_action segment \<longleftrightarrow> refresh_depends_on False segment \<or> partition_cross_table segment"

definition opaque_projection_body :: "raw_token list \<Rightarrow> bool" where
  "opaque_projection_body toks =
     (case toks of
        a # b # rest \<Rightarrow>
          if equal_fold (tk_text a) ''PROJECTION'' then True
          else rest \<noteq> [] \<and> equal_fold (tk_text a) ''ADD'' \<and> equal_fold (tk_text b) ''PROJECTION''
      | _ \<Rightarrow> False)"

text \<open>A token that is the upper-cased keyword \<open>w\<close>.\<close>

definition upper_word :: "raw_token \<Rightarrow> gostring \<Rightarrow> bool" where
  "upper_word t w \<longleftrightarrow> opaque_keyword t \<and> to_upper (tk_text t) = w"

definition count_selects :: "raw_token list \<Rightarrow> nat" where
  "count_selects toks = length (filter (\<lambda>t. upper_word t ''SELECT'') toks)"

fun any_in_refused :: "raw_token list \<Rightarrow> bool" where
  "any_in_refused [] = False"
| "any_in_refused (t # ts) \<longleftrightarrow> opaque_in_refused_at (t # ts) \<or> any_in_refused ts"

definition opaque_projection_is_ungoverned :: "raw_token list \<Rightarrow> bool" where
  "opaque_projection_is_ungoverned toks \<longleftrightarrow>
     any_in_refused toks \<or>
     list_ex (\<lambda>t. upper_word t ''WITH'' \<or> upper_word t ''FROM'' \<or> upper_word t ''JOIN'') toks \<or>
     count_selects toks > 1"

text \<open>A \<open>WITH\<close> that is no \<open>FREEZE WITH NAME\<close>.\<close>

fun holds_with_clause :: "raw_token list \<Rightarrow> bool" where
  "holds_with_clause [] = False"
| "holds_with_clause (t # ts) \<longleftrightarrow>
     upper_word t ''WITH'' \<and> \<not> (case ts of n # _ \<Rightarrow> equal_fold (tk_text n) ''NAME'' | [] \<Rightarrow> False) \<or>
     holds_with_clause ts"

definition segment_is_ungoverned :: "raw_token list \<Rightarrow> bool" where
  "segment_is_ungoverned segment \<longleftrightarrow>
     (if opaque_projection_body segment then opaque_projection_is_ungoverned segment
      else any_in_refused segment \<or> list_ex (\<lambda>t. upper_word t ''SELECT'') segment \<or>
           holds_with_clause segment \<or> opaque_cross_table_action segment)"

fun explain_subquery :: "raw_token list \<Rightarrow> bool" where
  "explain_subquery (t # n # ts) \<longleftrightarrow>
     tk_type t = ''L_PAREN'' \<and> is_word_token n ''EXPLAIN'' \<or> explain_subquery (n # ts)"
| "explain_subquery _ = False"

definition opaque_tokens_ungoverned :: "raw_token list \<Rightarrow> bool" where
  "opaque_tokens_ungoverned toks \<longleftrightarrow>
     tokens_hold_identifier_parameter toks \<or> explain_subquery toks \<or>
     list_ex segment_is_ungoverned (opaque_action_segments toks)"

definition opaque_text_is_ungoverned :: "engine \<Rightarrow> gostring \<Rightarrow> bool" where
  "opaque_text_is_ungoverned e text =
     (case tokenize_raw e text of Inl _ \<Rightarrow> True | Inr toks \<Rightarrow> opaque_tokens_ungoverned toks)"

section \<open>Opaque INSERT queries\<close>

definition opaque_insert_query_text :: "json \<Rightarrow> engine_error + gostring option" where
  "opaque_insert_query_text ast =
     (case body_of ast of
        Inl err \<Rightarrow> Inl err
      | Inr (kind, None) \<Rightarrow> Inr None
      | Inr (kind, Some body) \<Rightarrow>
          if kind \<noteq> NodeInsert then Inr None
          else Inr (case field ''this'' (field ''command'' (field ''query'' body)) of
                      JString s \<Rightarrow> Some s | _ \<Rightarrow> None))"

fun lookup_call :: "raw_token list \<Rightarrow> bool" where
  "lookup_call (t # n # ts) \<longleftrightarrow>
     tk_type t \<noteq> ''STRING'' \<and> is_string_lookup (tk_text t) \<and> tk_type n = ''L_PAREN'' \<or> lookup_call (n # ts)"
| "lookup_call _ = False"

definition opaque_insert_tokens_ungoverned :: "raw_token list \<Rightarrow> bool" where
  "opaque_insert_tokens_ungoverned toks \<longleftrightarrow>
     tokens_hold_identifier_parameter toks \<or> any_in_refused toks \<or> lookup_call toks \<or>
     list_ex (\<lambda>t. upper_word t ''FROM'' \<or> upper_word t ''JOIN'' \<or> upper_word t ''WITH'') toks \<or>
     count_selects toks > 1"

definition opaque_insert_query_is_ungoverned :: "engine \<Rightarrow> gostring \<Rightarrow> bool" where
  "opaque_insert_query_is_ungoverned e text =
     (case tokenize_raw e text of Inl _ \<Rightarrow> True | Inr toks \<Rightarrow> opaque_insert_tokens_ungoverned toks)"

section \<open>Qualified names\<close>

text \<open>The \<open>name.name\<close> runs, the table half of a longer run left out; \<open>dot\<close> says the token before is a dot.\<close>

fun name_runs_from :: "bool \<Rightarrow> raw_token list \<Rightarrow> (raw_token \<times> raw_token) list" where
  "name_runs_from dot (a # b # c # ts) =
     (if is_name_tok (tk_type a) \<and> tk_type b = ''DOT'' \<and> is_name_tok (tk_type c) \<and> \<not> dot then [(a, c)] else [])
     @ name_runs_from (tk_type a = ''DOT'') (b # c # ts)"
| "name_runs_from dot _ = []"

text \<open>From index \<open>i\<close> on; a run at \<open>i\<close> looks at the token before it.\<close>

definition qualified_name_runs :: "raw_token list \<Rightarrow> nat \<Rightarrow> table_target list" where
  "qualified_name_runs toks i =
     map (\<lambda>(a, c). \<lparr>tt_db = tk_text a, tt_table = tk_text c, tt_alias = []\<rparr>)
       (name_runs_from (i > 0 \<and> i \<le> length toks \<and> tk_type (toks ! (i - 1)) = ''DOT'') (drop i toks))"

definition opaque_text_qualified_names :: "engine \<Rightarrow> gostring \<Rightarrow> table_target list option" where
  "opaque_text_qualified_names e text =
     (case tokenize_raw e text of Inl _ \<Rightarrow> None | Inr toks \<Rightarrow> Some (qualified_name_runs toks 0))"

definition opaque_text_databases :: "engine \<Rightarrow> gostring \<Rightarrow> gostring list option" where
  "opaque_text_databases e text =
     (case tokenize_raw e text of
        Inl _ \<Rightarrow> None
      | Inr toks \<Rightarrow> Some (map (\<lambda>(a, c). tk_text a) (name_runs_from False toks)))"

section \<open>The opaque texts of a statement\<close>

definition raw_action_text :: "json \<Rightarrow> gostring option" where
  "raw_action_text a = (case field ''sql'' (field ''Raw'' a) of JString s \<Rightarrow> Some s | _ \<Rightarrow> None)"

definition opaque_alter_texts :: "json \<Rightarrow> engine_error + gostring list" where
  "opaque_alter_texts ast =
     (case body_of ast of
        Inl err \<Rightarrow> Inl err
      | Inr (kind, body) \<Rightarrow>
          Inr (if kind = NodeCommand then
                 (if classify_write_command (command_text body) = CmdAlterUpdate then [command_text body] else [])
               else if kind = NodeAlterTable then
                 (case body of
                    None \<Rightarrow> []
                  | Some b \<Rightarrow>
                      (case field ''actions'' b of
                         JArray actions \<Rightarrow> List.map_filter raw_action_text actions
                       | _ \<Rightarrow> []))
               else []))"

definition view_header_name_position :: "raw_token option \<Rightarrow> bool" where
  "view_header_name_position prev =
     (case prev of
        None \<Rightarrow> False
      | Some p \<Rightarrow>
          tk_type p = ''DOT'' \<or>
          opaque_keyword p \<and> to_upper (tk_text p) \<in> {''VIEW'', ''EXISTS'', ''TO'', ''CLUSTER''})"

text \<open>The tokens after the first parenthesis of the header at depth 0.\<close>

fun column_list_open :: "raw_token option \<Rightarrow> int \<Rightarrow> raw_token list \<Rightarrow> raw_token list option" where
  "column_list_open prev depth [] = None"
| "column_list_open prev depth (t # ts) =
     (if opens_group t then
        (if depth = 0 \<and> tk_type t = ''L_PAREN'' then Some ts else column_list_open (Some t) (depth + 1) ts)
      else if closes_group t then column_list_open (Some t) (depth - 1) ts
      else if depth = 0 \<and> opaque_keyword t \<and> \<not> view_header_name_position prev \<and>
              to_upper (tk_text t) \<in> {''AS'', ''ENGINE'', ''POPULATE'', ''EMPTY'', ''SELECT'', ''WITH''} then None
      else column_list_open (Some t) depth ts)"

text \<open>The spans of the items; \<open>cur\<close> is the span of the current one, \<open>None\<close> when it is empty.\<close>

fun item_spans :: "nat \<Rightarrow> (nat \<times> nat) option \<Rightarrow> raw_token list \<Rightarrow> (nat \<times> nat) list option" where
  "item_spans depth cur [] = None"
| "item_spans depth cur (t # ts) =
     (let grown = Some (case cur of None \<Rightarrow> (tk_start t, tk_end t) | Some (s, _) \<Rightarrow> (s, tk_end t))
      in if opens_group t then item_spans (depth + 1) grown ts
         else if closes_group t then
           (if depth = 1 then map_option (\<lambda>sp. [sp]) cur else item_spans (depth - 1) grown ts)
         else if tk_type t = ''COMMA'' \<and> depth = 1 then
           (case cur of None \<Rightarrow> None | Some sp \<Rightarrow> map_option ((#) sp) (item_spans depth None ts))
         else item_spans depth grown ts)"

definition view_column_list_item_spans :: "raw_token list \<Rightarrow> (nat \<times> nat) list option" where
  "view_column_list_item_spans toks =
     (case column_list_open None 0 toks of None \<Rightarrow> None | Some ts \<Rightarrow> item_spans 1 None ts)"

fun item_texts :: "gostring \<Rightarrow> (nat \<times> nat) list \<Rightarrow> engine_error + gostring list" where
  "item_texts sql [] = Inr []"
| "item_texts sql ((start, stop) # spans) =
     (if stop \<le> start \<or> stop > length sql then Inl ViewColumnListMismatch
      else map_sum id ((#) (substring start stop sql)) (item_texts sql spans))"

definition raw_items :: "json list \<Rightarrow> nat list" where
  "raw_items items = filter (\<lambda>i. has_key (members (items ! i)) ''raw'') [0..<length items]"

definition view_column_list_raw_texts :: "engine \<Rightarrow> json \<Rightarrow> gostring \<Rightarrow> engine_error + gostring list" where
  "view_column_list_raw_texts e ast sql =
     (case body_of ast of
        Inl err \<Rightarrow> Inl err
      | Inr (kind, body) \<Rightarrow>
          if kind \<noteq> NodeCreateView then Inr []
          else
            let items = (case body of
                           None \<Rightarrow> []
                         | Some b \<Rightarrow> (case field ''expressions'' (field ''schema'' b) of JArray vs \<Rightarrow> vs | _ \<Rightarrow> []))
            in if raw_items items = [] then Inr []
               else case tokenize_raw e sql of
                      Inl err \<Rightarrow> Inl err
                    | Inr toks \<Rightarrow>
                        (case view_column_list_item_spans toks of
                           None \<Rightarrow> Inl ViewColumnListMismatch
                         | Some spans \<Rightarrow>
                             if length spans \<noteq> length items then Inl ViewColumnListMismatch
                             else item_texts sql (map ((!) spans) (raw_items items))))"

definition opaque_statement_texts :: "engine \<Rightarrow> json \<Rightarrow> gostring \<Rightarrow> engine_error + gostring list" where
  "opaque_statement_texts e ast sql =
     (case opaque_alter_texts ast of
        Inl err \<Rightarrow> Inl err
      | Inr texts \<Rightarrow> map_sum id ((@) texts) (view_column_list_raw_texts e ast sql))"

text \<open>
  \<open>DeclaredTypeTexts\<close>: the data types and codecs kept as text. The members of an object are visited in the
  order of their keys.
\<close>

definition sorted_members :: "(gostring \<times> 'a) list \<Rightarrow> (gostring \<times> 'a) list" where
  "sorted_members m = sort_key fst m"

definition own_type_texts :: "json \<Rightarrow> gostring list" where
  "own_type_texts n =
     (case field ''data_type'' n of
        JString kind \<Rightarrow>
          List.map_filter (\<lambda>(k, v). case v of JString s \<Rightarrow> if k \<noteq> ''data_type'' \<and> k \<noteq> ''name'' then Some s else None
                                    | _ \<Rightarrow> None) (sorted_members (members n))
          @ (case field ''name'' n of JString s \<Rightarrow> if kind = ''custom'' then [s] else [] | _ \<Rightarrow> [])
      | _ \<Rightarrow> [])
     @ (case field ''codec'' n of JString s \<Rightarrow> [s] | _ \<Rightarrow> [])"

fun declared_type_texts :: "json \<Rightarrow> gostring list" where
  "declared_type_texts (JArray vs) = concat (map declared_type_texts vs)"
| "declared_type_texts (JObject m) =
     own_type_texts (JObject m)
     @ concat (map snd (sorted_members (map (\<lambda>(k, v). (k, declared_type_texts v)) m)))"
| "declared_type_texts _ = []"

section \<open>Headers of CREATE and INSERT\<close>

fun inner_storage_from :: "raw_token option \<Rightarrow> int \<Rightarrow> raw_token list \<Rightarrow> bool" where
  "inner_storage_from prev depth [] = False"
| "inner_storage_from prev depth (t # ts) =
     (if tk_type t = ''L_PAREN'' then inner_storage_from (Some t) (depth + 1) ts
      else if tk_type t = ''R_PAREN'' then inner_storage_from (Some t) (depth - 1) ts
      else if depth \<noteq> 0 then inner_storage_from (Some t) depth ts
      else if is_word_token t ''SELECT'' \<or> is_word_token t ''WITH'' then False
      else if is_word_token t ''INNER'' \<and> (case prev of None \<Rightarrow> True | Some p \<Rightarrow> tk_type p \<noteq> ''DOT'') \<and>
              (case ts of n # _ \<Rightarrow> is_word_token n ''UUID'' \<or> is_word_token n ''ENGINE'' | [] \<Rightarrow> False) then True
      else inner_storage_from (Some t) depth ts)"

definition create_header_has_inner_storage :: "engine \<Rightarrow> gostring \<Rightarrow> bool" where
  "create_header_has_inner_storage e sql =
     (case tokenize_raw e sql of Inl _ \<Rightarrow> True | Inr toks \<Rightarrow> inner_storage_from None 0 toks)"

fun words_at :: "gostring list \<Rightarrow> raw_token list \<Rightarrow> bool" where
  "words_at [] ts = True"
| "words_at (w # ws) [] = False"
| "words_at (w # ws) (t # ts) \<longleftrightarrow> is_word_token t w \<and> words_at ws ts"

fun header_words_from :: "gostring list \<Rightarrow> int \<Rightarrow> raw_token list \<Rightarrow> bool" where
  "header_words_from ws depth [] = False"
| "header_words_from ws depth (t # ts) =
     (if tk_type t = ''L_PAREN'' then header_words_from ws (depth + 1) ts
      else if tk_type t = ''R_PAREN'' then header_words_from ws (depth - 1) ts
      else if depth \<noteq> 0 \<or> \<not> opaque_keyword t then header_words_from ws depth ts
      else if equal_fold (tk_text t) ''SELECT'' \<or> equal_fold (tk_text t) ''WITH'' then False
      else if words_at ws (t # ts) then True
      else header_words_from ws depth ts)"

definition insert_from_infile :: "engine \<Rightarrow> gostring \<Rightarrow> bool" where
  "insert_from_infile e sql =
     (case tokenize_raw e sql of
        Inl _ \<Rightarrow> True
      | Inr toks \<Rightarrow> header_words_from [''FROM'', ''INFILE''] 0 toks)"

definition drop_words :: "gostring list \<Rightarrow> raw_token list \<Rightarrow> raw_token list" where
  "drop_words ws toks = (if words_at ws toks then drop (length ws) toks else toks)"

definition header_name_token :: "raw_token \<Rightarrow> bool" where
  "header_name_token t \<longleftrightarrow> is_name_tok (tk_type t) \<or> mutation_probe_keyword_token t"

text \<open>
  \<open>nameRun\<close>: past a name and the name after its dot. The positions it marks are the ones it passes, which
  the scan never visits.
\<close>

definition skip_name_run :: "raw_token list \<Rightarrow> raw_token list" where
  "skip_name_run toks =
     (case toks of
        t # ts \<Rightarrow>
          if header_name_token t then
            (case ts of
               d # n # rest \<Rightarrow> if tk_type d = ''DOT'' \<and> header_name_token n then rest else ts
             | _ \<Rightarrow> ts)
          else toks
      | [] \<Rightarrow> [])"

lemma skip_name_run_length: "length (skip_name_run toks) \<le> length toks"
  by (auto simp: skip_name_run_def split: list.splits)

function refresh_from :: "int \<Rightarrow> raw_token list \<Rightarrow> bool" where
  "refresh_from depth [] = False"
| "refresh_from depth (t # ts) =
     (if tk_type t = ''L_PAREN'' then refresh_from (depth + 1) ts
      else if tk_type t = ''R_PAREN'' then refresh_from (depth - 1) ts
      else if depth \<noteq> 0 then refresh_from depth ts
      else if is_word_token t ''SELECT'' \<or> is_word_token t ''WITH'' then False
      else if is_word_token t ''TO'' then refresh_from depth (skip_name_run ts)
      else if is_word_token t ''REFRESH'' then True
      else refresh_from depth ts)"
  by pat_completeness auto
termination
  by (relation "measure (length \<circ> snd)") (auto simp: le_imp_less_Suc skip_name_run_length)

definition create_view_has_refresh :: "engine \<Rightarrow> gostring \<Rightarrow> bool" where
  "create_view_has_refresh e sql =
     (case tokenize_raw e sql of
        Inl _ \<Rightarrow> True
      | Inr toks \<Rightarrow>
          refresh_from 0 (skip_name_run (drop_words [''IF'', ''NOT'', ''EXISTS''] (drop_words [''VIEW'']
            (drop_words [''MATERIALIZED''] (drop_words [''OR'', ''REPLACE''] (drop_words [''CREATE''] toks)))))))"

end
