(* ===== verification/Embedded_Body.thy ===== *)
theory Embedded_Body
  imports Write_Slots
begin

text \<open>
  The embedded SELECT of a write statement (\<open>engine/writes.go\<close>): taking the body of a view, of an
  \<open>INSERT ... SELECT\<close> and of a \<open>CREATE TABLE ... AS SELECT\<close> out of its statement and putting the rewritten
  one back, through the parentheses the user wrote; and \<open>GenerateInsert\<close>, which restores an inline payload.
\<close>

section \<open>View bodies\<close>

definition stored_view_body_key :: gostring where
  "stored_view_body_key = ''_rewriter_go_stored_view_body''"

definition mark_stored_view_root :: "bool \<Rightarrow> json \<Rightarrow> json" where
  "mark_stored_view_root on q =
     JObject (map (\<lambda>(k, b). (k, if \<not> is_object b then b
                                else if on then put stored_view_body_key (JBool True) b
                                else remove_key stored_view_body_key b)) (members q))"

fun strip_stored_view_markers :: "json \<Rightarrow> json" where
  "strip_stored_view_markers (JObject m) =
     JObject (map (\<lambda>(k, v). (k, strip_stored_view_markers v)) (filter (\<lambda>(k, _). k \<noteq> stored_view_body_key) m))"
| "strip_stored_view_markers (JArray vs) = JArray (map strip_stored_view_markers vs)"
| "strip_stored_view_markers j = j"

definition extract_view_body :: "json \<Rightarrow> engine_error + json option" where
  "extract_view_body ast =
     (case body_of ast of
        Inl err \<Rightarrow> Inl err
      | Inr (_, None) \<Rightarrow> Inr None
      | Inr (_, Some body) \<Rightarrow>
          (let q = field ''query'' body
           in if is_object q then Inr (Some (mark_stored_view_root True q)) else Inr None))"

text \<open>\<open>json.Unmarshal\<close> into a \<open>map[string]any\<close>: \<open>null\<close> is the nil map.\<close>

definition decode_map :: "json \<Rightarrow> engine_error + json" where
  "decode_map j = (case j of JObject m \<Rightarrow> Inr (JObject m) | JNull \<Rightarrow> Inr JNull | _ \<Rightarrow> Inl AstUndecodable)"

text \<open>The write \<open>b[k] = v\<close> on the body \<open>b\<close> of the statement, which panics on a nil map.\<close>

definition put_in_body :: "gostring \<Rightarrow> json option \<Rightarrow> gostring \<Rightarrow> json \<Rightarrow> engine_error + json" where
  "put_in_body kind b k v =
     (case b of None \<Rightarrow> Inl NilMapWrite | Some body \<Rightarrow> Inr (JObject [(kind, put k v body)]))"

definition set_view_body :: "json \<Rightarrow> json \<Rightarrow> engine_error + json" where
  "set_view_body ast body =
     (case body_of ast of
        Inl err \<Rightarrow> Inl err
      | Inr (kind, b) \<Rightarrow>
          if kind \<noteq> NodeCreateView then Inl (WrongKind kind)
          else case decode_map body of
                 Inl err \<Rightarrow> Inl err
               | Inr node \<Rightarrow> put_in_body kind b ''query'' (strip_stored_view_markers node))"

section \<open>Parenthesised bodies\<close>

text \<open>The innermost node, and the shells around it, outermost first.\<close>

function subquery_shells :: "json \<Rightarrow> json \<times> json list" where
  "subquery_shells n =
     (let shell = field ''subquery'' n; this = field ''this'' shell
      in if is_object shell \<and> is_object this
         then (let (inner, shells) = subquery_shells this in (inner, shell # shells))
         else (n, []))"
  by pat_completeness auto
termination
proof (relation "measure size")
  fix n shell this :: json
  assume "shell = field ''subquery'' n" "this = field ''this'' shell" "is_object shell \<and> is_object this"
  then show "(this, n) \<in> measure size"
    using size_field [of "''subquery''" n] size_field [of "''this''" shell] by simp
qed simp

declare subquery_shells.simps [simp del]

definition rewrap_in_subquery_shells :: "json \<Rightarrow> json list \<Rightarrow> json" where
  "rewrap_in_subquery_shells body shells =
     foldr (\<lambda>shell b. JObject [(''subquery'', put ''this'' b shell)]) shells body"

definition is_read_body :: "json \<Rightarrow> bool" where
  "is_read_body n \<longleftrightarrow> list_ex (has_key (members n)) [NodeSelect, NodeUnion, NodeIntersect, NodeExcept]"

text \<open>
  \<open>ExtractInsertBody\<close> and \<open>ExtractCreateSelectBody\<close> differ in the statement kind and in the member that holds
  the body; so do \<open>SetInsertBody\<close> and \<open>SetCreateSelectBody\<close>.
\<close>

definition extract_read_body :: "gostring \<Rightarrow> gostring \<Rightarrow> json \<Rightarrow> engine_error + json option" where
  "extract_read_body want key ast =
     (case body_of ast of
        Inl err \<Rightarrow> Inl err
      | Inr (kind, None) \<Rightarrow> Inr None
      | Inr (kind, Some body) \<Rightarrow>
          if kind \<noteq> want then Inr None
          else
            let q = field key body
            in if \<not> is_object q then Inr None
               else let inner = fst (subquery_shells q)
                    in if \<not> is_read_body inner then Inr None else Inr (Some inner))"

definition set_read_body :: "gostring \<Rightarrow> gostring \<Rightarrow> json \<Rightarrow> json \<Rightarrow> engine_error + json" where
  "set_read_body want key ast body =
     (case body_of ast of
        Inl err \<Rightarrow> Inl err
      | Inr (kind, b) \<Rightarrow>
          if kind \<noteq> want then Inl (WrongKind kind)
          else case decode_map body of
                 Inl err \<Rightarrow> Inl err
               | Inr node \<Rightarrow>
                   (let q = (case b of Some m \<Rightarrow> field key m | None \<Rightarrow> JNull);
                        shells = (if is_object q then snd (subquery_shells q) else [])
                    in put_in_body kind b key
                         (if shells \<noteq> [] then rewrap_in_subquery_shells node shells else node)))"

definition extract_insert_body :: "json \<Rightarrow> engine_error + json option" where
  "extract_insert_body = extract_read_body NodeInsert ''query''"

definition set_insert_body :: "json \<Rightarrow> json \<Rightarrow> engine_error + json" where
  "set_insert_body = set_read_body NodeInsert ''query''"

definition extract_create_select_body :: "json \<Rightarrow> engine_error + json option" where
  "extract_create_select_body = extract_read_body NodeCreateTable ''as_select''"

definition set_create_select_body :: "json \<Rightarrow> json \<Rightarrow> engine_error + json" where
  "set_create_select_body = set_read_body NodeCreateTable ''as_select''"

section \<open>The payload of an INSERT\<close>

text \<open>The end of the token after the last \<open>FORMAT\<close> that has one.\<close>

fun format_boundary :: "raw_token list \<Rightarrow> nat option" where
  "format_boundary (t # n # ts) =
     (case format_boundary (n # ts) of
        Some b \<Rightarrow> Some b
      | None \<Rightarrow> if tk_type t = ''FORMAT'' then Some (tk_end n) else None)"
| "format_boundary _ = None"

definition insert_format_tail :: "engine \<Rightarrow> gostring \<Rightarrow> engine_error + gostring option" where
  "insert_format_tail e originalSQL =
     (case tokenize_raw e originalSQL of
        Inl err \<Rightarrow> Inl err
      | Inr toks \<Rightarrow>
          Inr (case format_boundary toks of
                 Some boundary \<Rightarrow> if boundary \<le> length originalSQL then Some (drop boundary originalSQL) else None
               | None \<Rightarrow> None))"

definition generate_insert :: "engine \<Rightarrow> gostring \<Rightarrow> json \<Rightarrow> engine_error + gostring" where
  "generate_insert e originalSQL rewritten =
     (case e_generate e rewritten of
        Inl err \<Rightarrow> Inl err
      | Inr prelude \<Rightarrow>
          if \<not> insert_has_format_clause rewritten then Inr prelude
          else case insert_format_tail e originalSQL of
                 Inl err \<Rightarrow> Inl err
               | Inr None \<Rightarrow> Inr prelude
               | Inr (Some tail) \<Rightarrow> Inr (prelude @ tail))"

end
