(* ===== verification/Write_Policy.thy ===== *)
theory Write_Policy
  imports Embedded_Body Name_Resolve Allowlists "HOL-Library.AList"
begin

text \<open>
  The decisions of the handlers (\<open>handlers/writes.go\<close>, with the bookkeeping of \<open>select.go\<close>, \<open>dblevel.go\<close> and
  \<open>storage_integrity_policy.go\<close>): what a response records, the policy of one write target, and the
  statements that need nothing but it. The response is a Go pointer the handlers update in place; here it
  is passed along and returned. \<open>engine_error + response option\<close> is the handlers' triple
  \<open>(resp, handled, err)\<close>, with \<open>None\<close> for a statement the handler leaves to the next one.
\<close>

section \<open>Responses\<close>

definition new_write_resp :: "statement_type \<Rightarrow> response" where
  "new_write_resp stmt =
     \<lparr>r_code = CodeSuccess, r_message = ''success'', r_sql_after_rewrite = [], r_statement_type = stmt,
      r_existence_clause = ExistenceUnspecified, r_si_contract_version = ContractUnspecified,
      r_table_rewrites = [], r_database_rewrites = [], r_accessed = [], r_failed_cte_aliases = [],
      r_privileges_deltas = []\<rparr>"

definition reject_with :: "rewrite_code \<Rightarrow> gostring \<Rightarrow> response \<Rightarrow> response" where
  "reject_with code msg resp =
     (if r_code resp = CodeSuccess then resp\<lparr>r_code := code, r_message := msg\<rparr> else resp)"

definition reject_unsupported :: "gostring \<Rightarrow> response \<Rightarrow> response" where
  "reject_unsupported = reject_with CodeUnsupportedStatement"

definition reject_invalid :: "gostring \<Rightarrow> response \<Rightarrow> response" where
  "reject_invalid = reject_with CodeInvalidRewriteRequest"

definition echo :: "gostring \<Rightarrow> response \<Rightarrow> response" where
  "echo sql resp = resp\<lparr>r_sql_after_rewrite := sql\<rparr>"

section \<open>Accessed tables\<close>

definition accessed_entry :: "table_target \<Rightarrow> selection \<Rightarrow> accessed_table" where
  "accessed_entry tt sel =
     (let a = resolve_accessed (tt_db tt) (tt_table tt) sel
      in \<lparr>at_original_database = tt_db tt, at_original_table = tt_table tt,
          at_logical_database = ac_logical_db a, at_physical_database = ac_physical_db a,
          at_is_remote = ac_is_remote a, at_is_storage_integrity = ac_is_si a\<rparr>)"

definition add_accessed :: "accessed_table \<Rightarrow> response \<Rightarrow> response" where
  "add_accessed a resp = resp\<lparr>r_accessed := r_accessed resp @ [a]\<rparr>"

definition record_accessed_write :: "table_target \<Rightarrow> selection \<Rightarrow> response \<Rightarrow> response" where
  "record_accessed_write tt sel resp =
     (if tt_table tt = [] then resp else add_accessed (accessed_entry tt sel) resp)"

definition same_original :: "gostring \<Rightarrow> gostring \<Rightarrow> accessed_table \<Rightarrow> bool" where
  "same_original db table a \<longleftrightarrow> at_original_database a = db \<and> at_original_table a = table"

definition record_accessed_write_unique :: "table_target \<Rightarrow> selection \<Rightarrow> response \<Rightarrow> response" where
  "record_accessed_write_unique tt sel resp =
     (if list_ex (same_original (tt_db tt) (tt_table tt)) (r_accessed resp) then resp
      else record_accessed_write tt sel
             (if tt_db tt \<noteq> [] then
                resp\<lparr>r_accessed := filter (\<lambda>a. \<not> same_original [] (tt_table tt) a) (r_accessed resp)\<rparr>
              else resp))"

definition record_accessed_database :: "gostring \<Rightarrow> dynamic_args option \<Rightarrow> response \<Rightarrow> response" where
  "record_accessed_database target dyn resp =
     (let (phys, logical, isSI) =
        (if dyn = None then ([], target, False)
         else if is_si_physical_database target dyn then (target, [], True)
         else case resolve_physical_database target dyn of
                Some p \<Rightarrow> (p, target, False)
              | None \<Rightarrow> ([], target, False))
      in add_accessed \<lparr>at_original_database = target, at_original_table = [], at_logical_database = logical,
           at_physical_database = phys, at_is_remote = False, at_is_storage_integrity = isSI\<rparr> resp)"

definition record_accessed_database_unique :: "gostring \<Rightarrow> dynamic_args option \<Rightarrow> response \<Rightarrow> response" where
  "record_accessed_database_unique db dyn resp =
     (if list_ex (same_original db []) (r_accessed resp) then resp else record_accessed_database db dyn resp)"

definition record_si_logical_database_unique :: "gostring \<Rightarrow> dynamic_args option \<Rightarrow> response \<Rightarrow> response" where
  "record_si_logical_database_unique db dyn resp =
     (if list_ex (\<lambda>a. same_original db [] a \<and> at_is_storage_integrity a) (r_accessed resp) then resp
      else add_accessed
             \<lparr>at_original_database = db, at_original_table = [], at_logical_database = db,
              at_physical_database = (case resolve_physical_database db dyn of Some p \<Rightarrow> p | None \<Rightarrow> []),
              at_is_remote = False, at_is_storage_integrity = True\<rparr> resp)"

definition touches_storage_integrity :: "accessed_table list \<Rightarrow> bool" where
  "touches_storage_integrity = list_ex at_is_storage_integrity"

text \<open>\<open>buildAccessed\<close>: the first reference of each identity, sorted by the written name, then database, then table.\<close>

fun first_identities :: "table_target set \<Rightarrow> table_target list \<Rightarrow> table_target list" where
  "first_identities seen [] = []"
| "first_identities seen (tt # tts) =
     (if identity tt \<in> seen then first_identities seen tts
      else tt # first_identities (insert (identity tt) seen) tts)"

definition written_order :: "table_target \<Rightarrow> gostring list" where
  "written_order tt = [qualify (tt_db tt) (tt_table tt), tt_db tt, tt_table tt]"

definition build_accessed :: "table_target list \<Rightarrow> selection \<Rightarrow> accessed_table list" where
  "build_accessed targets sel =
     map (\<lambda>tt. accessed_entry tt sel) (sort_key written_order (first_identities {} targets))"

section \<open>Rewrites\<close>

definition record_rewrite :: "table_target \<Rightarrow> gostring \<Rightarrow> gostring \<Rightarrow> (gostring \<times> gostring) list \<Rightarrow> (gostring \<times> gostring) list" where
  "record_rewrite tt newDB newTable rewrites =
     (let from = qualify (tt_db tt) (tt_table tt); to = qualify newDB newTable
      in if from \<noteq> to then AList.update from to rewrites else rewrites)"

definition add_rewrite :: "table_target \<Rightarrow> gostring \<Rightarrow> gostring \<Rightarrow> response \<Rightarrow> response" where
  "add_rewrite tt newDB newTable resp =
     resp\<lparr>r_table_rewrites := record_rewrite tt newDB newTable (r_table_rewrites resp)\<rparr>"

definition clear_on_unresolved :: "response \<Rightarrow> response" where
  "clear_on_unresolved resp =
     (if r_code resp \<noteq> CodeSuccess \<and> is_unresolved_unqualified_table_message (r_message resp)
      then resp\<lparr>r_table_rewrites := []\<rparr> else resp)"

definition merge_rewrites :: "(gostring \<times> gostring) list \<Rightarrow> (gostring \<times> gostring) list \<Rightarrow> (gostring \<times> gostring) list" where
  "merge_rewrites body dst = foldl (\<lambda>m (k, v). AList.update k v m) dst body"

definition merge_view_body :: "response \<Rightarrow> response \<Rightarrow> response" where
  "merge_view_body dst body =
     dst\<lparr>r_table_rewrites := merge_rewrites (r_table_rewrites body) (r_table_rewrites dst),
         r_accessed := r_accessed dst @ r_accessed body,
         r_failed_cte_aliases := r_failed_cte_aliases dst @ r_failed_cte_aliases body\<rparr>"

section \<open>One target\<close>

text \<open>The lenient decision of a SELECT source.\<close>

definition decide_table :: "table_target \<Rightarrow> outcome \<Rightarrow> (gostring \<times> gostring) list \<Rightarrow> table_decision \<times> (gostring \<times> gostring) list" where
  "decide_table tt oc rewrites =
     (case o_status oc of
        StatusRewrite \<Rightarrow>
          (ActionRename (o_physical_db oc) (o_new_table oc),
           record_rewrite tt (o_physical_db oc) (o_new_table oc) rewrites)
      | StatusRemote \<Rightarrow>
          (ActionRemote \<lparr>rsp_addr = o_remote_addr oc, rsp_db = o_physical_db oc, rsp_table = o_new_table oc,
             rsp_user = o_remote_user oc, rsp_password = o_remote_password oc\<rparr>,
           record_rewrite tt (o_physical_db oc) (o_new_table oc) rewrites)
      | _ \<Rightarrow> (ActionSkip, rewrites))"

definition remote_target_message :: "gostring \<Rightarrow> gostring" where
  "remote_target_message kind =
     kind @ '' target maps to a remote upstream; remote() can only appear as a SELECT-side table function''"

text \<open>The strict decision of a write target; \<open>None\<close> when it is refused.\<close>

definition decide_resolved :: "table_target \<Rightarrow> gostring \<Rightarrow> outcome \<Rightarrow> response \<Rightarrow> table_decision option \<times> response" where
  "decide_resolved tt kind oc resp =
     (case o_status oc of
        StatusRewrite \<Rightarrow>
          (Some (ActionRename (o_physical_db oc) (o_new_table oc)),
           add_rewrite tt (o_physical_db oc) (o_new_table oc) resp)
      | StatusRemote \<Rightarrow> (None, reject_unsupported (remote_target_message kind) resp)
      | StatusRemoteUnsupported \<Rightarrow> (None, reject_unsupported (remote_target_message kind) resp)
      | StatusInvalid \<Rightarrow> (None, reject_invalid (o_reject_reason oc) resp)
      | StatusPassthrough \<Rightarrow> (Some ActionSkip, resp))"

definition si_lane_only :: "gostring \<Rightarrow> selection \<Rightarrow> bool" where
  "si_lane_only kind sel \<longleftrightarrow>
     sel_mode sel = ModeDynamic \<and> kind \<noteq> NodeInsert \<and>
     \<not> (kind = NodeDropTable \<and> storage_integrity_drop_contract sel)"

definition decide_write_target :: "table_target \<Rightarrow> gostring \<Rightarrow> selection \<Rightarrow> response \<Rightarrow> table_decision option \<times> response" where
  "decide_write_target tt kind sel resp0 =
     (let resp = record_accessed_write tt sel resp0
      in case (if si_lane_only kind sel then lookup_storage_integrity (tt_db tt) (tt_table tt) (sel_dynamic sel)
               else None) of
           Some (_, key) \<Rightarrow> (None, reject_unsupported (si_write_reject_message key) resp)
         | None \<Rightarrow> decide_resolved tt kind (resolve (tt_db tt) (tt_table tt) sel) resp)"

section \<open>Structured statements\<close>

text \<open>The decisions of the slots in document order, stopping at the first refusal.\<close>

fun decide_slots ::
    "gostring \<Rightarrow> selection \<Rightarrow> write_slot list \<Rightarrow> (write_role \<times> table_decision) list \<Rightarrow> response \<Rightarrow>
     (write_role \<times> table_decision) list option \<times> response" where
  "decide_slots kind sel [] ds resp = (Some ds, resp)"
| "decide_slots kind sel (s # ss) ds resp =
     (case decide_write_target (ws_target s) kind sel resp of
        (None, resp') \<Rightarrow> (None, resp')
      | (Some d, resp') \<Rightarrow>
          decide_slots kind sel ss
            (case d of ActionRename _ _ \<Rightarrow> AList.update (ws_role s) d ds | _ \<Rightarrow> ds) resp')"

definition slot_decision :: "(write_role \<times> table_decision) list \<Rightarrow> write_slot \<Rightarrow> table_decision" where
  "slot_decision ds s = (case map_of ds (ws_role s) of Some d \<Rightarrow> d | None \<Rightarrow> ActionSkip)"

text \<open>The inner \<open>None\<close> is a refusal already in the response.\<close>

definition apply_structured_slots ::
    "json \<Rightarrow> write_info \<Rightarrow> selection \<Rightarrow> response \<Rightarrow> engine_error + json option \<times> response" where
  "apply_structured_slots ast info sel resp =
     (case decide_slots (wi_kind info) sel (wi_slots info) [] resp of
        (None, resp') \<Rightarrow> Inr (None, resp')
      | (Some ds, resp') \<Rightarrow>
          map_sum id (\<lambda>rewritten. (Some rewritten, resp')) (rewrite_write_targets ast (slot_decision ds)))"

definition finish_structured ::
    "engine \<Rightarrow> json \<Rightarrow> write_info \<Rightarrow> selection \<Rightarrow> response \<Rightarrow> engine_error + response option" where
  "finish_structured e ast info sel resp =
     (case apply_structured_slots ast info sel resp of
        Inl err \<Rightarrow> Inl err
      | Inr (None, resp') \<Rightarrow> Inr (Some resp')
      | Inr (Some rewritten, resp') \<Rightarrow>
          map_sum id (\<lambda>out. Some (echo out resp')) (e_generate e rewritten))"

definition dispatch_single ::
    "engine \<Rightarrow> json \<Rightarrow> write_info \<Rightarrow> selection \<Rightarrow> statement_type \<Rightarrow> engine_error + response option" where
  "dispatch_single e ast info sel stmt = finish_structured e ast info sel (new_write_resp stmt)"

definition dispatch_alter :: "engine \<Rightarrow> json \<Rightarrow> write_info \<Rightarrow> selection \<Rightarrow> engine_error + response option" where
  "dispatch_alter e ast info sel =
     (let resp = new_write_resp StAlterTable
      in if wi_cross_table info then
           Inr (Some (reject_unsupported
             (''ALTER TABLE with cross-table reference (ATTACH/REPLACE/FETCH PARTITION FROM, '' @
              ''MOVE PARTITION TO TABLE) is not supported'') resp))
         else finish_structured e ast info sel resp)"

text \<open>\<open>truncateObjectIsTable\<close>: the word after the first \<open>TRUNCATE\<close> and an optional \<open>TEMPORARY\<close>.\<close>

fun truncate_object :: "gostring list \<Rightarrow> bool" where
  "truncate_object [] = False"
| "truncate_object (f # fs) =
     (if f \<noteq> ''TRUNCATE'' then truncate_object fs
      else case fs of
             [] \<Rightarrow> False
           | g # gs \<Rightarrow> if g = ''TEMPORARY'' then (case gs of h # _ \<Rightarrow> h = ''TABLE'' | [] \<Rightarrow> False)
                       else g = ''TABLE'')"

definition truncate_object_is_table :: "gostring \<Rightarrow> bool" where
  "truncate_object_is_table sql = truncate_object (str_fields (to_upper sql))"

definition dispatch_drop_like ::
    "engine \<Rightarrow> json \<Rightarrow> gostring \<Rightarrow> write_info \<Rightarrow> selection \<Rightarrow> bool \<Rightarrow> engine_error + response option" where
  "dispatch_drop_like e ast sql info sel siDrop =
     (let resp = new_write_resp (if wi_kind info = NodeDropView then StDropView
                                 else if wi_kind info = NodeTruncate then StTruncateTable else StDropTable)
      in if wi_kind info = NodeTruncate \<and>
            (wi_truncate_target info \<noteq> [] \<and> wi_truncate_target info \<noteq> ''Table'' \<or>
             \<not> truncate_object_is_table sql) then
           Inr (Some (reject_unsupported
             (''TRUNCATE VIEW / DATABASE / ALL TABLES FROM is not supported; '' @
              ''only TRUNCATE TABLE is allowed'') resp))
         else if wi_multi info \<and> \<not> siDrop then
           Inr (Some (reject_unsupported ''multi-table DROP/TRUNCATE is not supported'' resp))
         else finish_structured e ast info sel resp)"

end
