(* ===== verification/Write_Dispatch.thy ===== *)
theory Write_Dispatch
  imports Write_Policy Opaque_Text Drop_Grammar
begin

text \<open>
  The handlers of \<open>handlers/writes.go\<close> that route a write statement: raw commands (RENAME, EXCHANGE, ALTER ...
  UPDATE and the refused ones), raw DDL, statements with an embedded SELECT, and the dispatcher itself. The
  SELECT pipeline (\<open>rewriteSelectCore\<close>) and the preflight of the storage-integrity writes walk the SELECT
  part of the AST; they are arguments here (\<open>core\<close> and \<open>preflight\<close>), so what is proved holds for any of them.
\<close>

section \<open>Raw commands\<close>

definition record_decision :: "table_target \<Rightarrow> table_decision \<Rightarrow> decisions \<Rightarrow> decisions" where
  "record_decision tt d ds =
     (case d of
        ActionRename newDB newTable \<Rightarrow> AList.update (identity tt) (quote_qualified newDB newTable) ds
      | _ \<Rightarrow> if has_key ds (identity tt) then ds else AList.update (identity tt) [] ds)"

fun decide_raw_targets ::
    "gostring \<Rightarrow> selection \<Rightarrow> table_target list \<Rightarrow> decisions \<Rightarrow> response \<Rightarrow> decisions option \<times> response" where
  "decide_raw_targets kind sel [] ds resp = (Some ds, resp)"
| "decide_raw_targets kind sel (tt # tts) ds resp =
     (case decide_write_target tt kind sel resp of
        (None, resp') \<Rightarrow> (None, resp')
      | (Some d, resp') \<Rightarrow> decide_raw_targets kind sel tts (record_decision tt d ds) resp')"

definition raw_kind :: "command_sub \<Rightarrow> statement_type \<times> gostring" where
  "raw_kind sub =
     (if sub = CmdExchange then (StRenameTable, ''EXCHANGE TABLES'')
      else if sub = CmdAlterUpdate then (StAlterTable, ''ALTER TABLE'')
      else (StRenameTable, ''RENAME TABLE''))"

definition dispatch_raw_tables ::
    "engine \<Rightarrow> json \<Rightarrow> gostring \<Rightarrow> write_info \<Rightarrow> selection \<Rightarrow> engine_error + response option" where
  "dispatch_raw_tables e ast sql info sel =
     (let (stmt, kind) = raw_kind (wi_sub info); resp = new_write_resp stmt
      in case raw_table_refs e ast of
           Inl err \<Rightarrow> Inl err
         | Inr (targets, _) \<Rightarrow>
             if targets = [] then Inr (Some (echo sql (reject_unsupported unsupported_statement_message resp)))
             else case decide_raw_targets kind sel targets [] resp of
                    (None, resp') \<Rightarrow> Inr (Some resp')
                  | (Some ds, resp') \<Rightarrow>
                      (case splice_raw_tables e ast ds of
                         Inr out \<Rightarrow> Inr (Some (echo out resp'))
                       | Inl (RawTargetUndecided _) \<Rightarrow>
                           Inr (Some (echo sql (reject_unsupported unsupported_statement_message resp')))
                       | Inl err \<Rightarrow> Inl err))"

definition dispatch_command ::
    "engine \<Rightarrow> json \<Rightarrow> gostring \<Rightarrow> write_info \<Rightarrow> selection \<Rightarrow> engine_error + response option" where
  "dispatch_command e ast sql info sel =
     (if wi_sub info \<in> {CmdRename, CmdExchange, CmdAlterUpdate} then dispatch_raw_tables e ast sql info sel
      else if wi_sub info = CmdBareReject then
        (case raw_table_refs e ast of
           Inl err \<Rightarrow> Inl err
         | Inr (targets, _) \<Rightarrow>
             let resp = foldl (\<lambda>r tt. record_accessed_write tt sel r) (new_write_resp StUnspecified) targets;
                 msg = (if sel_mode sel = ModeDynamic \<and> storage_integrity_surface_active (sel_dynamic sel)
                        then si_unmodelled_message else unsupported_statement_message)
             in Inr (Some (reject_unsupported msg resp)))
      else Inr None)"

section \<open>Raw DDL\<close>

definition raw_alter_is_non_table_ddl :: "gostring \<Rightarrow> bool" where
  "raw_alter_is_non_table_ddl u =
     (case str_fields u of
        a # b # rest \<Rightarrow>
          if a \<noteq> ''ALTER'' then False
          else if b = ''DATABASE'' then True
          else if b = ''LIVE'' then (case rest of c # _ \<Rightarrow> c = ''VIEW'' | [] \<Rightarrow> False)
          else False
      | _ \<Rightarrow> False)"

definition live_view_prefixes :: "gostring list" where
  "live_view_prefixes =
     [''CREATE LIVE VIEW'', ''CREATE WINDOW VIEW'', ''CREATE OR REPLACE LIVE VIEW'',
      ''CREATE OR REPLACE WINDOW VIEW'']"

definition dispatch_raw_reject :: "json \<Rightarrow> engine_error + response option" where
  "dispatch_raw_reject ast =
     (case raw_sql ast of
        Inl err \<Rightarrow> Inl err
      | Inr raw \<Rightarrow>
          let u = to_upper (trim_space raw)
          in if list_ex (has_prefix u) live_view_prefixes then
               Inr (Some (reject_unsupported ''CREATE LIVE VIEW / WINDOW VIEW is not supported''
                 (new_write_resp StUnspecified)))
             else if has_prefix u ''ALTER '' \<and> raw_alter_is_non_table_ddl u then
               Inr (Some (reject_unsupported ''only ALTER TABLE is supported'' (new_write_resp StUnspecified)))
             else Inr None)"

section \<open>Embedded bodies\<close>

type_synonym select_core =
  "json \<Rightarrow> rewrite_option list \<Rightarrow> gostring \<Rightarrow> engine_error + json \<times> response"

text \<open>The first body source that is an authorised logical storage-integrity table.\<close>

fun si_body_read :: "accessed_table list \<Rightarrow> dynamic_args option \<Rightarrow> gostring option" where
  "si_body_read [] dyn = None"
| "si_body_read (a # as) dyn =
     (case lookup_storage_integrity (at_original_database a) (at_original_table a) dyn of
        None \<Rightarrow> si_body_read as dyn
      | Some (_, key) \<Rightarrow>
          if snd (authorize_si_logical (at_original_database a) dyn) then Some key else si_body_read as dyn)"

definition reject_si_body_reads :: "response \<Rightarrow> response \<Rightarrow> selection \<Rightarrow> bool \<times> response" where
  "reject_si_body_reads resp bodyResp sel =
     (if sel_mode sel \<noteq> ModeDynamic then (False, resp)
      else case si_body_read (r_accessed bodyResp) (sel_dynamic sel) of
             Some key \<Rightarrow> (True, reject_unsupported (si_write_reject_message key) resp)
           | None \<Rightarrow> (False, resp))"

definition insert_target_is_si :: "write_info \<Rightarrow> selection \<Rightarrow> bool" where
  "insert_target_is_si info sel \<longleftrightarrow>
     sel_mode sel = ModeDynamic \<and>
     list_ex (\<lambda>s. lookup_storage_integrity (tt_db (ws_target s)) (tt_table (ws_target s)) (sel_dynamic sel) \<noteq> None)
       (wi_slots info)"

text \<open>The inner \<open>None\<close> is a refusal already in the response.\<close>

definition rewrite_embedded_body ::
    "select_core \<Rightarrow> json \<Rightarrow> gostring \<Rightarrow> rewrite_option list \<Rightarrow> (json \<Rightarrow> engine_error + json option) \<Rightarrow>
     (json \<Rightarrow> json \<Rightarrow> engine_error + json) \<Rightarrow> response \<Rightarrow> selection \<Rightarrow> bool \<Rightarrow>
     engine_error + json option \<times> response" where
  "rewrite_embedded_body core rewritten sql opts get_body set_body resp sel refuseSIReads =
     (case get_body rewritten of
        Inl err \<Rightarrow> Inl err
      | Inr None \<Rightarrow> Inr (Some rewritten, resp)
      | Inr (Some body) \<Rightarrow>
          (case core body opts sql of
             Inl err \<Rightarrow> Inl err
           | Inr (newBody, bodyResp) \<Rightarrow>
               let merged = merge_view_body resp bodyResp;
                   (refused, resp') = (if refuseSIReads then reject_si_body_reads merged bodyResp sel else (False, merged))
               in if refused then Inr (None, resp')
                  else if r_code bodyResp \<noteq> CodeSuccess then
                    Inr (None, clear_on_unresolved
                      (resp'\<lparr>r_code := CodeUnsupportedStatement, r_message := r_message bodyResp\<rparr>))
                  else map_sum id (\<lambda>out. (Some out, resp')) (set_body rewritten newBody)))"

section \<open>CREATE and INSERT\<close>

text \<open>The slots first, then the embedded body, then the regenerated text.\<close>

definition finish_with_body ::
    "engine_error + json option \<times> response \<Rightarrow> (json \<Rightarrow> response \<Rightarrow> engine_error + json option \<times> response) \<Rightarrow>
     (json \<Rightarrow> engine_error + gostring) \<Rightarrow> engine_error + response option" where
  "finish_with_body slots body gen =
     (case slots of
        Inl err \<Rightarrow> Inl err
      | Inr (None, resp) \<Rightarrow> Inr (Some resp)
      | Inr (Some rewritten, resp) \<Rightarrow>
          (case body rewritten resp of
             Inl err \<Rightarrow> Inl err
           | Inr (None, resp') \<Rightarrow> Inr (Some resp')
           | Inr (Some final, resp') \<Rightarrow> map_sum id (\<lambda>out. Some (echo out resp')) (gen final)))"

definition dispatch_create_table ::
    "select_core \<Rightarrow> engine \<Rightarrow> json \<Rightarrow> gostring \<Rightarrow> write_info \<Rightarrow> rewrite_option list \<Rightarrow> selection \<Rightarrow>
     engine_error + response option" where
  "dispatch_create_table core e ast sql info opts sel =
     (let resp = new_write_resp StCreateTable
      in if wi_as_table_function info then
           Inr (Some (reject_unsupported ''CREATE TABLE AS table_function(...) is not supported'' resp))
         else if wi_is_dictionary info then
           Inr (Some (reject_unsupported ''CREATE DICTIONARY is not supported'' resp))
         else if sel_mode sel = ModeDynamic \<and> create_header_has_inner_storage e sql then
           Inr (Some (echo sql (reject_unsupported unsupported_statement_message resp)))
         else finish_with_body (apply_structured_slots ast info sel resp)
                (\<lambda>rewritten r. rewrite_embedded_body core rewritten sql opts extract_create_select_body
                                 set_create_select_body r sel False)
                (e_generate e))"

definition dispatch_insert ::
    "select_core \<Rightarrow> engine \<Rightarrow> json \<Rightarrow> gostring \<Rightarrow> write_info \<Rightarrow> rewrite_option list \<Rightarrow> selection \<Rightarrow>
     engine_error + response option" where
  "dispatch_insert core e ast sql info opts sel =
     (let resp = new_write_resp StInsert
      in if sel_mode sel = ModeDynamic \<and> insert_from_infile e sql then
           Inr (Some (echo sql (reject_unsupported unsupported_statement_message resp)))
         else if wi_as_table_function info then
           Inr (Some (reject_unsupported ''INSERT INTO FUNCTION(...) is not supported'' resp))
         else if wi_missing_table info then
           Inr (Some (reject_unsupported ''INSERT target table is missing'' resp))
         else finish_with_body (apply_structured_slots ast info sel resp)
                (\<lambda>rewritten r. rewrite_embedded_body core rewritten sql opts extract_insert_body
                                 set_insert_body r sel (insert_target_is_si info sel))
                (generate_insert e sql))"

text \<open>The body of a view refuses every storage-integrity source, and keeps the code of the SELECT pipeline.\<close>

definition rewrite_view_body ::
    "select_core \<Rightarrow> json \<Rightarrow> gostring \<Rightarrow> rewrite_option list \<Rightarrow> write_info \<Rightarrow> response \<Rightarrow> selection \<Rightarrow>
     engine_error + json option \<times> response" where
  "rewrite_view_body core rewritten sql opts info resp sel =
     (if \<not> wi_has_view_body info then Inr (Some rewritten, resp)
      else case extract_view_body rewritten of
             Inl err \<Rightarrow> Inl err
           | Inr None \<Rightarrow> Inr (Some rewritten, resp)
           | Inr (Some body) \<Rightarrow>
               (case core body opts sql of
                  Inl err \<Rightarrow> Inl err
                | Inr (newBody, bodyResp) \<Rightarrow>
                    let (refused, resp') = reject_si_body_reads (merge_view_body resp bodyResp) bodyResp sel
                    in if refused then Inr (None, resp')
                       else if r_code bodyResp \<noteq> CodeSuccess then
                         Inr (None, clear_on_unresolved
                           (resp'\<lparr>r_code := r_code bodyResp, r_message := r_message bodyResp\<rparr>))
                       else map_sum id (\<lambda>out. (Some out, resp')) (set_view_body rewritten newBody)))"

definition dispatch_view ::
    "select_core \<Rightarrow> engine \<Rightarrow> json \<Rightarrow> gostring \<Rightarrow> write_info \<Rightarrow> rewrite_option list \<Rightarrow> selection \<Rightarrow>
     engine_error + response option" where
  "dispatch_view core e ast sql info opts sel =
     (let resp = new_write_resp (if wi_materialized info then StCreateMaterializedView else StCreateView)
      in if sel_mode sel = ModeDynamic \<and> create_view_has_refresh e sql then
           Inr (Some (echo sql (reject_unsupported unsupported_statement_message resp)))
         else if sel_mode sel = ModeDynamic \<and> create_header_has_inner_storage e sql then
           Inr (Some (echo sql (reject_unsupported unsupported_statement_message resp)))
         else finish_with_body (apply_structured_slots ast info sel resp)
                (\<lambda>rewritten r. rewrite_view_body core rewritten sql opts info r sel) (e_generate e))"

section \<open>The dispatcher\<close>

definition si_drop_allowed :: "engine \<Rightarrow> gostring \<Rightarrow> write_info \<Rightarrow> selection \<Rightarrow> engine_error + bool" where
  "si_drop_allowed e sql info sel =
     (if wi_kind info \<noteq> NodeDropTable \<or> \<not> storage_integrity_drop_contract sel then Inr False
      else plain_drop_table e sql)"

type_synonym write_preflight =
  "engine \<Rightarrow> json \<Rightarrow> gostring \<Rightarrow> write_info \<Rightarrow> selection \<Rightarrow> bool \<Rightarrow> engine_error + response option"

definition dispatch_write ::
    "select_core \<Rightarrow> engine \<Rightarrow> json \<Rightarrow> gostring \<Rightarrow> write_info \<Rightarrow> rewrite_option list \<Rightarrow> selection \<Rightarrow> bool \<Rightarrow>
     engine_error + response option" where
  "dispatch_write core e ast sql info opts sel siDrop =
     (let kind = wi_kind info
      in if kind = NodeCreateTable then dispatch_create_table core e ast sql info opts sel
         else if kind \<in> {NodeDropTable, NodeDropView, NodeTruncate} then dispatch_drop_like e ast sql info sel siDrop
         else if kind = NodeAlterTable then dispatch_alter e ast info sel
         else if kind = NodeUpdate then dispatch_single e ast info sel StUpdate
         else if kind = NodeDelete then dispatch_single e ast info sel StDelete
         else if kind = NodeCreateView then dispatch_view core e ast sql info opts sel
         else if kind = NodeInsert then dispatch_insert core e ast sql info opts sel
         else if kind = NodeCommand then dispatch_command e ast sql info sel
         else if kind = NodeRaw then dispatch_raw_reject ast
         else if kind = NodeCopy then
           Inr (Some (reject_unsupported ''COPY is not supported'' (new_write_resp StUnspecified)))
         else Inr None)"

definition rewrite_write ::
    "select_core \<Rightarrow> write_preflight \<Rightarrow> engine \<Rightarrow> json \<Rightarrow> gostring \<Rightarrow> rewrite_option list \<Rightarrow>
     engine_error + response option" where
  "rewrite_write core preflight e ast sql opts =
     (case inspect_write ast of
        Inl err \<Rightarrow> Inl err
      | Inr info \<Rightarrow>
          let sel = find_active opts
          in case si_drop_allowed e sql info sel of
               Inl err \<Rightarrow> Inl err
             | Inr siDrop \<Rightarrow>
                 (case preflight e ast sql info sel siDrop of
                    Inl err \<Rightarrow> Inl err
                  | Inr (Some resp) \<Rightarrow> Inr (Some resp)
                  | Inr None \<Rightarrow> dispatch_write core e ast sql info opts sel siDrop))"

end
