(* ===== verification/Write_Slots_Facts.thy ===== *)
theory Write_Slots_Facts
  imports Write_Slots
begin

text \<open>
  Reading and rewriting the table references of a write statement agree: what \<open>InspectWrite\<close> reads after
  \<open>RewriteWriteTargets\<close> is what it read before, with each reference replaced by its decision, and nothing else
  of the statement changes.
\<close>

section \<open>An addressable store\<close>

text \<open>
  The interface the rewrite uses: a state with cells that can be read and overwritten. Cells that are apart
  do not disturb each other.
\<close>

locale cell_store =
  fixes get :: "'s \<Rightarrow> 'p \<Rightarrow> 'v"
    and upd :: "'p \<Rightarrow> 'v \<Rightarrow> 's \<Rightarrow> 's"
    and present :: "'s \<Rightarrow> 'p \<Rightarrow> bool"
    and apart :: "'p \<Rightarrow> 'p \<Rightarrow> bool"
  assumes get_upd: "present s p \<Longrightarrow> get (upd p v s) p = v"
    and get_upd_apart: "apart p q \<Longrightarrow> get (upd p v s) q = get s q"
    and present_upd_apart: "apart p q \<Longrightarrow> present (upd p v s) q \<longleftrightarrow> present s q"
begin

definition visit :: "('p \<Rightarrow> 'v \<Rightarrow> 'v option) \<Rightarrow> 's \<Rightarrow> 'p \<Rightarrow> 's" where
  "visit f s p = (case f p (get s p) of Some v \<Rightarrow> upd p v s | None \<Rightarrow> s)"

lemma visit_apart:
  "apart p q \<Longrightarrow> get (visit f s p) q = get s q \<and> (present (visit f s p) q \<longleftrightarrow> present s q)"
  by (simp add: visit_def get_upd_apart present_upd_apart split: option.split)

lemma visit_self:
  "present s p \<Longrightarrow> get (visit f s p) p = (case f p (get s p) of Some v \<Rightarrow> v | None \<Rightarrow> get s p)"
  by (simp add: visit_def get_upd split: option.split)

text \<open>A visit of pairwise apart cells changes each cell once, from what it held before.\<close>

lemma visit_all_apart:
  "\<forall>p \<in> set ps. apart p q \<Longrightarrow>
     get (foldl (visit f) s ps) q = get s q \<and> (present (foldl (visit f) s ps) q \<longleftrightarrow> present s q)"
  by (induction ps arbitrary: s) (simp_all add: visit_apart)

lemma visit_all:
  assumes "sorted_wrt (\<lambda>p q. apart p q \<and> apart q p) ps" "\<forall>p \<in> set ps. present s p" "q \<in> set ps"
  shows "get (foldl (visit f) s ps) q = (case f q (get s q) of Some v \<Rightarrow> v | None \<Rightarrow> get s q)"
  using assms
proof (induction ps arbitrary: s)
  case (Cons p ps)
  show ?case
  proof (cases "q = p \<and> q \<notin> set ps")
    case True
    then have "get (foldl (visit f) (visit f s p) ps) q = get (visit f s p) q"
      using Cons.prems(1) by (intro conjunct1 [OF visit_all_apart]) auto
    moreover have qp: "q = p" using True by simp
    ultimately show ?thesis using Cons.prems(2) unfolding qp by (simp add: visit_self)
  next
    case False
    with Cons.prems have q: "q \<in> set ps" "apart p q" by auto
    have present: "\<forall>r \<in> set ps. present (visit f s p) r"
      using Cons.prems visit_apart by auto
    have same: "get (visit f s p) q = get s q" using visit_apart [OF q(2)] by blast
    show ?thesis
      using Cons.IH [OF _ present q(1)] Cons.prems(1) unfolding same by simp
  qed
qed simp

end

section \<open>The slots of a body\<close>

definition paths_apart :: "slot_path \<Rightarrow> slot_path \<Rightarrow> bool" where
  "paths_apart p q \<longleftrightarrow>
     (case (p, q) of
        (Member k, Member l) \<Rightarrow> k \<noteq> l
      | (Element k i, Element l j) \<Rightarrow> k \<noteq> l \<or> i \<noteq> j
      | (Member k, Element l _) \<Rightarrow> k \<noteq> l
      | (Element k _, Member l) \<Rightarrow> k \<noteq> l)"

definition slot_present :: "json \<Rightarrow> slot_path \<Rightarrow> bool" where
  "slot_present body p \<longleftrightarrow> is_object (slot_node body p)"

lemma slot_node_set_slot: "slot_present body p \<Longrightarrow> slot_node (set_slot p v body) p = v"
  by (auto simp: slot_present_def slot_node_def set_slot_def is_object_def
      split: slot_path.splits json.splits if_splits)

lemma slot_node_set_slot_apart: "paths_apart p q \<Longrightarrow> slot_node (set_slot p v body) q = slot_node body q"
  by (auto simp: paths_apart_def slot_node_def set_slot_def split: slot_path.splits json.splits)

interpretation ws: cell_store slot_node set_slot slot_present paths_apart
  by unfold_locales
    (simp_all add: slot_node_set_slot slot_node_set_slot_apart slot_present_def)

lemma paths_apart_sym: "paths_apart p q \<longleftrightarrow> paths_apart q p"
  by (auto simp: paths_apart_def split: slot_path.splits)

lemma candidate_slots_apart:
  "sorted_wrt (\<lambda>p q. paths_apart p q \<and> paths_apart q p) (map snd (candidate_slots kind body))"
proof -
  have elements: "sorted_wrt (\<lambda>p q. paths_apart p q \<and> paths_apart q p)
      (map (\<lambda>i. Element ''names'' i) [0..<n])" for n
    by (simp add: sorted_wrt_map paths_apart_def sorted_wrt_iff_nth_less)
  show ?thesis
    unfolding candidate_slots_def
    by (cases "field ''names'' body") (simp_all add: comp_def elements paths_apart_def [of "Member _"])
qed

lemma write_slots_apart:
  "sorted_wrt (\<lambda>p q. paths_apart p q \<and> paths_apart q p) (map snd (write_slots kind body))"
  using candidate_slots_apart [of kind body]
  by (simp add: write_slots_def sorted_wrt_map sorted_wrt_filter)

lemma write_slots_present: "(role, p) \<in> set (write_slots kind body) \<Longrightarrow> slot_present body p"
  by (simp add: write_slots_def slot_present_def)

text \<open>A role names one slot of a statement.\<close>

lemma distinct_roles: "distinct (map fst (write_slots kind body))"
proof -
  have "distinct (map fst (candidate_slots kind body))"
    by (auto simp: candidate_slots_def comp_def distinct_map inj_on_def split: json.split)
  then show ?thesis unfolding write_slots_def by (rule distinct_map_filter)
qed

section \<open>Rewriting\<close>

text \<open>What a decision makes of a table node, when it changes it.\<close>

definition decided_node ::
    "(write_slot \<Rightarrow> table_decision) \<Rightarrow> (slot_path \<Rightarrow> write_role) \<Rightarrow> slot_path \<Rightarrow> json \<Rightarrow> json option" where
  "decided_node decide role_at p tbl =
     (case decide \<lparr>ws_role = role_at p, ws_target = decode_table_target tbl\<rparr> of
        ActionRename newDB newTable \<Rightarrow> Some (set_table_ref newDB newTable tbl)
      | _ \<Rightarrow> None)"

lemma apply_slot_visit:
  "role_at p = role \<Longrightarrow> apply_slot decide body (role, p) = ws.visit (decided_node decide role_at) body p"
  by (simp add: apply_slot_def ws.visit_def decided_node_def Let_def split: table_decision.split)

definition role_of :: "gostring \<Rightarrow> json \<Rightarrow> slot_path \<Rightarrow> write_role" where
  "role_of kind body p = (case map_of (map (\<lambda>(r, p). (p, r)) (write_slots kind body)) p of
                            Some r \<Rightarrow> r | None \<Rightarrow> RoleCreate)"

lemma distinct_paths: "distinct (map snd (write_slots kind body))"
proof -
  have irrefl: "\<not> paths_apart p p" for p by (simp add: paths_apart_def split: slot_path.split)
  have "distinct ps" if "sorted_wrt (\<lambda>p q. paths_apart p q \<and> paths_apart q p) ps" for ps
    using that irrefl by (induction ps) auto
  then show ?thesis using write_slots_apart by blast
qed

lemma role_of_slot: "(role, p) \<in> set (write_slots kind body) \<Longrightarrow> role_of kind body p = role"
proof -
  assume "(role, p) \<in> set (write_slots kind body)"
  then have "(p, role) \<in> set (map (\<lambda>(r, p). (p, r)) (write_slots kind body))" by force
  moreover have "distinct (map fst (map (\<lambda>(r, p). (p, r)) (write_slots kind body)))"
    using distinct_paths by (simp add: comp_def case_prod_beta)
  ultimately show ?thesis by (simp add: role_of_def map_of_eq_Some_iff)
qed

lemma rewrite_as_visits:
  "foldl (apply_slot decide) body (write_slots kind body) =
     foldl (ws.visit (decided_node decide (role_of kind body))) body (map snd (write_slots kind body))"
proof -
  have "foldl (apply_slot decide) b rps =
      foldl (ws.visit (decided_node decide (role_of kind body))) b (map snd rps)"
    if "set rps \<subseteq> set (write_slots kind body)" for b rps
    using that
  proof (induction rps arbitrary: b)
    case (Cons rp rps)
    obtain role p where rp: "rp = (role, p)" by (cases rp)
    with Cons.prems have "role_of kind body p = role" by (auto intro: role_of_slot)
    with Cons rp show ?case by (simp add: apply_slot_visit [where role_at = "role_of kind body"])
  qed simp
  then show ?thesis by simp
qed

text \<open>Each slot holds its decided node.\<close>

lemma rewritten_slot:
  assumes "(role, p) \<in> set (write_slots kind body)"
  shows "slot_node (foldl (apply_slot decide) body (write_slots kind body)) p =
     (case decided_node decide (\<lambda>_. role) p (slot_node body p) of Some v \<Rightarrow> v | None \<Rightarrow> slot_node body p)"
proof -
  have "p \<in> set (map snd (write_slots kind body))" using assms by force
  moreover have "\<forall>q \<in> set (map snd (write_slots kind body)). slot_present body q"
    by (auto dest: write_slots_present)
  ultimately have "slot_node (foldl (apply_slot decide) body (write_slots kind body)) p =
      (case decided_node decide (role_of kind body) p (slot_node body p) of
         Some v \<Rightarrow> v | None \<Rightarrow> slot_node body p)"
    unfolding rewrite_as_visits by (intro ws.visit_all write_slots_apart)
  then show ?thesis using role_of_slot [OF assms] by (simp add: decided_node_def)
qed

text \<open>The members that hold no slot are untouched.\<close>

definition slot_keys :: "gostring \<Rightarrow> gostring set" where
  "slot_keys kind =
     (if kind = NodeDropTable then {''names''}
      else if kind = NodeDropView then {''name''}
      else if kind = NodeTruncate then {''table''}
      else if kind = NodeUpdate then {''table''}
      else if kind = NodeDelete then {''table''}
      else if kind = NodeCreateTable then {''name'', ''clone_source''}
      else if kind = NodeAlterTable then {''name''}
      else if kind = NodeInsert then {''table''}
      else if kind = NodeCreateView then {''name'', ''to_table''}
      else {})"

definition path_key :: "slot_path \<Rightarrow> gostring" where
  "path_key p = (case p of Member k \<Rightarrow> k | Element k _ \<Rightarrow> k)"

lemma candidate_slots_keys: "list_all (\<lambda>rp. path_key (snd rp) \<in> slot_keys kind) (candidate_slots kind body)"
  unfolding candidate_slots_def slot_keys_def
  by (cases "field ''names'' body") (simp_all add: path_key_def list_all_iff [of _ "map _ _"])

lemma write_slots_keys: "(role, p) \<in> set (write_slots kind body) \<Longrightarrow> path_key p \<in> slot_keys kind"
  using candidate_slots_keys [of kind body] by (force simp: write_slots_def list_all_iff)

lemma untouched_member:
  assumes "k \<notin> slot_keys kind"
  shows "field k (foldl (apply_slot decide) body (write_slots kind body)) = field k body"
proof -
  have set: "path_key p \<noteq> k \<Longrightarrow> field k (set_slot p v b) = field k b" for p v b
    by (cases p) (simp_all add: set_slot_def path_key_def split: json.split)
  have one: "path_key (snd rp) \<noteq> k \<Longrightarrow> field k (apply_slot decide b rp) = field k b" for b rp
    by (cases rp) (simp add: apply_slot_def Let_def set split: table_decision.split)
  have "field k (foldl (apply_slot decide) b rps) = field k b"
    if "\<forall>(role, p) \<in> set rps. path_key p \<noteq> k" for b rps
    using that by (induction rps arbitrary: b) (auto simp: one)
  moreover have "\<forall>(role, p) \<in> set (write_slots kind body). path_key p \<noteq> k"
    using assms write_slots_keys by fastforce
  ultimately show ?thesis by blast
qed

definition rewritten_body :: "(write_slot \<Rightarrow> table_decision) \<Rightarrow> gostring \<Rightarrow> json \<Rightarrow> json" where
  "rewritten_body decide kind body = foldl (apply_slot decide) body (write_slots kind body)"

lemma field_set_table_ref:
  "field k (set_table_ref newDB newTable tbl) =
     (if k = ''schema'' \<and> newDB \<noteq> [] then ident newDB
      else if k = ''name'' then ident newTable else field k tbl)"
  by (simp add: set_table_ref_def Let_def)

lemma is_object_set_table_ref [simp]: "is_object (set_table_ref newDB newTable tbl)"
  by (simp add: set_table_ref_def Let_def)

lemma sorted_wrt_pair:
  "sorted_wrt (\<lambda>p q. R p q \<and> R q p) xs \<Longrightarrow> p \<in> set xs \<Longrightarrow> q \<in> set xs \<Longrightarrow> p \<noteq> q \<Longrightarrow> R p q"
  by (induction xs) auto

lemma candidate_rewritten:
  assumes "(role, p) \<in> set (candidate_slots kind body)"
  shows "is_object (slot_node (rewritten_body decide kind body) p) \<longleftrightarrow> is_object (slot_node body p)"
    and "k \<noteq> ''name'' \<Longrightarrow> k \<noteq> ''schema'' \<Longrightarrow>
      field k (slot_node (rewritten_body decide kind body) p) = field k (slot_node body p)"
proof -
  have same: "slot_node (rewritten_body decide kind body) p = slot_node body p"
    if "\<not> is_object (slot_node body p)"
  proof -
    have "\<forall>q \<in> set (map snd (write_slots kind body)). paths_apart q p"
    proof
      fix q assume "q \<in> set (map snd (write_slots kind body))"
      then have q: "q \<in> set (map snd (candidate_slots kind body))" "q \<noteq> p"
        using that by (auto simp: write_slots_def)
      have p: "p \<in> set (map snd (candidate_slots kind body))" using assms by force
      show "paths_apart q p"
        by (rule sorted_wrt_pair [OF candidate_slots_apart q(1) p q(2)])
    qed
    then show ?thesis
      unfolding rewritten_body_def rewrite_as_visits by (intro conjunct1 [OF ws.visit_all_apart])
  qed
  have slot: "(role, p) \<in> set (write_slots kind body)" if "is_object (slot_node body p)"
    using assms that by (simp add: write_slots_def)
  show "is_object (slot_node (rewritten_body decide kind body) p) \<longleftrightarrow> is_object (slot_node body p)"
    using same rewritten_slot [OF slot, of decide]
    by (cases "is_object (slot_node body p)")
      (auto simp: rewritten_body_def decided_node_def split: table_decision.splits)
  show "field k (slot_node (rewritten_body decide kind body) p) = field k (slot_node body p)"
    if "k \<noteq> ''name''" "k \<noteq> ''schema''"
    using that same rewritten_slot [OF slot, of decide]
    by (cases "is_object (slot_node body p)")
      (auto simp: rewritten_body_def decided_node_def field_set_table_ref split: table_decision.splits)
qed

section \<open>The slots stay where they are\<close>

definition names_length :: "json \<Rightarrow> nat option" where
  "names_length body = (case field ''names'' body of JArray vs \<Rightarrow> Some (length vs) | _ \<Rightarrow> None)"

lemma candidate_slots_cong:
  "names_length b' = names_length b \<Longrightarrow> candidate_slots kind b' = candidate_slots kind b"
  unfolding candidate_slots_def names_length_def
  by (simp cong: if_cong split: json.splits)

lemma no_names_member: "list_all (\<lambda>rp. snd rp \<noteq> Member ''names'') (candidate_slots kind body)"
  unfolding candidate_slots_def
  by (cases "field ''names'' body") (simp_all add: list_all_iff [of _ "map _ _"])

lemma names_length_rewritten: "names_length (rewritten_body decide kind body) = names_length body"
proof -
  have set: "p \<noteq> Member ''names'' \<Longrightarrow> names_length (set_slot p v b) = names_length b" for p v b
    by (cases p) (auto simp: set_slot_def names_length_def split: json.split)
  have one: "snd rp \<noteq> Member ''names'' \<Longrightarrow> names_length (apply_slot decide b rp) = names_length b" for b rp
    by (cases rp) (simp add: apply_slot_def Let_def set split: table_decision.split)
  have "names_length (foldl (apply_slot decide) b rps) = names_length b"
    if "list_all (\<lambda>rp. snd rp \<noteq> Member ''names'') rps" for b rps
    using that by (induction rps arbitrary: b) (auto simp: one)
  moreover have "list_all (\<lambda>rp. snd rp \<noteq> Member ''names'') (write_slots kind body)"
    using no_names_member [of kind body] by (simp add: write_slots_def list_all_iff)
  ultimately show ?thesis by (simp add: rewritten_body_def)
qed

lemma write_slots_rewritten:
  "write_slots kind (rewritten_body decide kind body) = write_slots kind body"
proof -
  have "candidate_slots kind (rewritten_body decide kind body) = candidate_slots kind body"
    by (intro candidate_slots_cong names_length_rewritten)
  then show ?thesis
    unfolding write_slots_def using candidate_rewritten(1) by (auto intro: filter_cong)
qed

section \<open>The flags stay\<close>

lemma multi_names_length:
  "(case field ''names'' b of JArray names \<Rightarrow> length names > 1 | _ \<Rightarrow> False) \<longleftrightarrow>
     (case names_length b of Some n \<Rightarrow> n > 1 | None \<Rightarrow> False)"
  by (simp add: names_length_def split: json.split)

lemma inspect_flags_rewritten:
  "inspect_flags kind (rewritten_body decide kind body) = inspect_flags kind body"
proof -
  define b where "b = rewritten_body decide kind body"
  have keep: "field k b = field k body" if "k \<notin> {''names'', ''table'', ''name'', ''clone_source'', ''to_table''}" for k
    using untouched_member [of k kind decide body] that
    by (auto simp: b_def rewritten_body_def slot_keys_def split: if_split_asm)
  have names: "names_length b = names_length body" by (simp add: b_def names_length_rewritten)
  have clone: "clone_source_is_table_function b = clone_source_is_table_function body"
    if "kind = NodeCreateTable"
  proof -
    have "(RoleCloneSource, Member ''clone_source'') \<in> set (candidate_slots kind body)"
      using that by (simp add: candidate_slots_def node_kind_defs)
    from candidate_rewritten [OF this] show ?thesis
      by (simp add: clone_source_is_table_function_def slot_node_def b_def)
  qed
  have table: "is_object (field ''table'' b) = is_object (field ''table'' body)" if "kind = NodeInsert"
  proof -
    have "(RoleInsert, Member ''table'') \<in> set (candidate_slots kind body)"
      using that by (simp add: candidate_slots_def node_kind_defs)
    from candidate_rewritten(1) [OF this] show ?thesis by (simp add: slot_node_def b_def)
  qed
  consider "kind = NodeDropTable" | "kind = NodeDropView" | "kind = NodeTruncate" | "kind = NodeCreateTable"
    | "kind = NodeAlterTable" | "kind = NodeInsert" | "kind = NodeCreateView" | "kind = NodeCommand"
    | "kind \<notin> {NodeDropTable, NodeDropView, NodeTruncate, NodeCreateTable, NodeAlterTable, NodeInsert,
        NodeCreateView, NodeCommand}"
    by blast
  then have "inspect_flags kind b = inspect_flags kind body"
  proof cases
    case 1
    then show ?thesis by (simp add: inspect_flags_def keep multi_names_length names)
  next
    case 4
    then show ?thesis using clone by (simp add: inspect_flags_def keep node_kind_defs)
  next
    case 5
    then show ?thesis by (simp add: inspect_flags_def keep alter_has_cross_table_ref_def node_kind_defs)
  next
    case 6
    then show ?thesis using table by (simp add: inspect_flags_def keep node_kind_defs)
  qed (simp_all add: inspect_flags_def keep node_kind_defs)
  then show ?thesis by (simp add: b_def)
qed

section \<open>The references after the rewrite\<close>

lemma ident_name_ident [simp]: "ident_name (ident s) = s"
  by (simp add: ident_name_def ident_def field_def json_string_def)

lemma ident_concrete: "\<not> unresolved_identifier_node (ident s)"
proof -
  have "looks_like_unresolved_identifier_name s \<Longrightarrow> needs_quoting s"
    by (cases s) (auto simp: looks_like_unresolved_identifier_name_def needs_quoting_def list_ex_iff
        byte_class_defs intro!: bexI [of _ 0] split: if_splits)
  moreover have "field opaque_identifier_parameter_key (ident s) = JNull"
    by (simp add: ident_def field_def opaque_identifier_parameter_key_def)
  ultimately show ?thesis
    by (auto simp: unresolved_identifier_node_def ident_def has_key_def field_def json_bool_def json_string_def)
qed

text \<open>What a decision makes of a reference.\<close>

definition decided_target :: "table_decision \<Rightarrow> table_target \<Rightarrow> table_target" where
  "decided_target d t =
     (case d of
        ActionRename newDB newTable \<Rightarrow>
          t\<lparr>tt_db := (if newDB = [] then tt_db t else newDB), tt_table := newTable\<rparr>
      | _ \<Rightarrow> t)"

lemma parameter_table_set_table_ref:
  "\<not> parameter_table tbl \<Longrightarrow> \<not> parameter_table (set_table_ref newDB newTable tbl)"
  by (simp add: parameter_table_def field_set_table_ref ident_concrete)

lemma decode_set_table_ref:
  "\<not> parameter_table tbl \<Longrightarrow>
     decode_table_target (set_table_ref newDB newTable tbl) =
       decided_target (ActionRename newDB newTable) (decode_table_target tbl)"
  using parameter_table_set_table_ref [of tbl newDB newTable]
  by (simp add: decode_table_target_def decided_target_def field_set_table_ref)

definition decided_slot :: "(write_slot \<Rightarrow> table_decision) \<Rightarrow> write_slot \<Rightarrow> write_slot" where
  "decided_slot decide s = s\<lparr>ws_target := decided_target (decide s) (ws_target s)\<rparr>"

lemma rewritten_target:
  assumes "(role, p) \<in> set (write_slots kind body)" "\<not> parameter_table (slot_node body p)"
  defines "s \<equiv> \<lparr>ws_role = role, ws_target = decode_table_target (slot_node body p)\<rparr>"
  shows "\<not> parameter_table (slot_node (rewritten_body decide kind body) p)"
    and "decode_table_target (slot_node (rewritten_body decide kind body) p) =
      decided_target (decide s) (ws_target s)"
  using rewritten_slot [OF assms(1), of decide] assms(2)
  by (simp_all add: rewritten_body_def decided_node_def s_def [symmetric] parameter_table_set_table_ref
      decode_set_table_ref decided_target_def [of ActionSkip] decided_target_def [of "ActionRemote _"]
      decided_target_def [of "ActionSubquery _"] split: table_decision.split)
    (simp_all add: s_def)

lemma concrete_slots_rewritten:
  assumes "\<not> list_ex (\<lambda>(_, p). parameter_table (slot_node body p)) (write_slots kind body)"
  shows "concrete_slots kind (rewritten_body decide kind body) = map (decided_slot decide) (concrete_slots kind body)"
    and "\<not> list_ex (\<lambda>(_, p). parameter_table (slot_node (rewritten_body decide kind body) p))
          (write_slots kind (rewritten_body decide kind body))"
proof -
  have no_param: "\<not> parameter_table (slot_node body p)" if "(role, p) \<in> set (write_slots kind body)" for role p
    using assms that by (auto simp: list_ex_iff)
  note after = rewritten_target [OF _ no_param, where decide = decide]
  have all: "filter (\<lambda>(_, p). \<not> parameter_table (slot_node b p)) (write_slots kind body) = write_slots kind body"
    if "\<And>role p. (role, p) \<in> set (write_slots kind body) \<Longrightarrow> \<not> parameter_table (slot_node b p)" for b
    using that by (auto intro: filter_True)
  show "concrete_slots kind (rewritten_body decide kind body) = map (decided_slot decide) (concrete_slots kind body)"
    using after by (auto simp: concrete_slots_def write_slots_rewritten all [OF no_param] all [OF after(1)]
        decided_slot_def)
  show "\<not> list_ex (\<lambda>(_, p). parameter_table (slot_node (rewritten_body decide kind body) p))
          (write_slots kind (rewritten_body decide kind body))"
    using after(1) by (auto simp: write_slots_rewritten list_ex_iff)
qed

lemma body_of_single: "body_of (JObject [(kind, v)]) = Inr (kind, if is_object v then Some v else None)"
  by (simp add: body_of_def)

lemma is_object_rewritten: "is_object body \<Longrightarrow> is_object (rewritten_body decide kind body)"
proof -
  have "is_object b \<Longrightarrow> is_object (foldl (apply_slot decide) b rps)" for b rps
    by (induction rps arbitrary: b)
      (auto simp: apply_slot_def set_slot_def Let_def split: table_decision.split slot_path.split json.split)
  then show "is_object body \<Longrightarrow> ?thesis" by (simp add: rewritten_body_def)
qed

lemma body_of_Some: "body_of ast = Inr (kind, Some body) \<Longrightarrow> ast = JObject [(kind, body)] \<and> is_object body"
  by (auto simp: body_of_def split: json.splits list.splits if_splits)

lemma rewrite_targets_refines:
  assumes "inspect_write ast = Inr info" "\<not> wi_parameter_target info" "\<not> wi_as_table_function info"
    and "rewrite_write_targets ast decide = Inr ast'"
  shows "inspect_write ast' = Inr (info\<lparr>wi_slots := map (decided_slot decide) (wi_slots info)\<rparr>)"
proof (cases "\<exists>kind body. body_of ast = Inr (kind, Some body)")
  case True
  then obtain kind body where b: "body_of ast = Inr (kind, Some body)" by blast
  have ast': "body_of ast' = Inr (kind, Some (rewritten_body decide kind body))"
    using assms(4) b is_object_rewritten body_of_Some [OF b]
    by (auto simp: rewrite_write_targets_def body_of_single rewritten_body_def)
  have no_param: "\<not> list_ex (\<lambda>(_, p). parameter_table (slot_node body p)) (write_slots kind body)"
    and plain: "\<not> wi_as_table_function (inspect_flags kind body)"
    using assms(1-3) b by (auto simp: inspect_write_def Let_def)
  show ?thesis
    using assms(1) b ast' plain no_param concrete_slots_rewritten [OF no_param, of decide]
    by (auto simp: inspect_write_def Let_def inspect_flags_rewritten)
next
  case False
  then show ?thesis
    using assms by (auto simp: inspect_write_def rewrite_write_targets_def no_info_def split: sum.splits option.splits)
qed

text \<open>
  C20. Rewriting implements renaming: on a write statement without parameters in its table positions,
  what \<open>InspectWrite\<close> reads after \<open>RewriteWriteTargets\<close> is what it read before with every reference replaced by
  its decision, in the same order and role, and with every flag kept.
\<close>

theorem rewrite_write_targets_refines:
  assumes "inspect_write ast = Inr info" "\<not> wi_parameter_target info" "\<not> wi_as_table_function info"
    and "rewrite_write_targets ast decide = Inr ast'"
  shows "inspect_write ast' = Inr (info\<lparr>wi_slots := map (decided_slot decide) (wi_slots info)\<rparr>)"
  using rewrite_targets_refines [OF assms] .

definition move_ast :: json where
  "move_ast = JObject [(''create_view'', JObject [(''name'', JObject [(''name'', ident ''v''), (''schema'', ident ''shop'')]),
     (''materialized'', JBool True), (''to_table'', JObject [(''name'', ident ''t'')])])]"

definition move_decide :: "write_slot \<Rightarrow> table_decision" where
  "move_decide s = (if ws_role s = RoleViewTo then ActionRename ''phys'' ''shop.t'' else ActionSkip)"

lemma rewrite_write_targets_refines_witness:
  "\<exists>info ast' info'. inspect_write move_ast = Inr info \<and> rewrite_write_targets move_ast move_decide = Inr ast' \<and>
     inspect_write ast' = Inr info' \<and> wi_materialized info' \<and>
     map (\<lambda>s. (tt_db (ws_target s), tt_table (ws_target s))) (wi_slots info') =
       [(''shop'', ''v''), (''phys'', ''shop.t'')]"
proof -
  obtain info where info: "inspect_write move_ast = Inr info"
    "\<not> wi_parameter_target info" "\<not> wi_as_table_function info" "wi_materialized info"
    "map (\<lambda>s. (tt_db (ws_target s), tt_table (ws_target s))) (map (decided_slot move_decide) (wi_slots info)) =
       [(''shop'', ''v''), (''phys'', ''shop.t'')]"
  proof -
    have "case inspect_write move_ast of Inr info \<Rightarrow>
        \<not> wi_parameter_target info \<and> \<not> wi_as_table_function info \<and> wi_materialized info \<and>
        map (\<lambda>s. (tt_db (ws_target s), tt_table (ws_target s))) (map (decided_slot move_decide) (wi_slots info)) =
          [(''shop'', ''v''), (''phys'', ''shop.t'')] | Inl _ \<Rightarrow> False"
      by code_simp
    then show thesis using that by (auto split: sum.splits)
  qed
  have "case rewrite_write_targets move_ast move_decide of Inr _ \<Rightarrow> True | Inl _ \<Rightarrow> False" by code_simp
  then obtain ast' where ast': "rewrite_write_targets move_ast move_decide = Inr ast'" by (auto split: sum.splits)
  show ?thesis
    using info ast' rewrite_write_targets_refines [OF info(1-3) ast'] by simp
qed

section \<open>Well-formedness\<close>








end
