(* ===== verification/Embedded_Body_Facts.thy ===== *)
theory Embedded_Body_Facts
  imports Embedded_Body Write_Slots_Facts
begin

text \<open>
  The contract of an embedded body: what is put into a statement is what the next extraction reads, and the
  table references of the statement stay as they are. View, INSERT and CREATE TABLE bodies meet it.
\<close>

section \<open>The contract\<close>

locale embedded_body =
  fixes get_body :: "json \<Rightarrow> engine_error + json option"
    and set_body :: "json \<Rightarrow> json \<Rightarrow> engine_error + json"
    and hosts :: "json \<Rightarrow> bool"
    and readable :: "json \<Rightarrow> bool"
    and seen :: "json \<Rightarrow> json"
  assumes set_defined:
      "hosts ast \<Longrightarrow> get_body ast = Inr (Some b) \<Longrightarrow> readable b' \<Longrightarrow> \<exists>ast'. set_body ast b' = Inr ast'"
    and extract_set:
      "get_body ast = Inr (Some b) \<Longrightarrow> readable b' \<Longrightarrow> set_body ast b' = Inr ast' \<Longrightarrow>
         get_body ast' = Inr (Some (seen b'))"
    and references_set:
      "get_body ast = Inr (Some b) \<Longrightarrow> readable b' \<Longrightarrow> set_body ast b' = Inr ast' \<Longrightarrow>
         inspect_write ast' = inspect_write ast"

section \<open>Edits outside the slots\<close>

lemma slot_node_put: "path_key p \<noteq> k \<Longrightarrow> slot_node (put k v body) p = slot_node body p"
  by (simp add: slot_node_def path_key_def split: slot_path.splits)

lemma write_slots_put:
  assumes "k \<notin> slot_keys kind"
  shows "write_slots kind (put k v body) = write_slots kind body"
proof -
  have "candidate_slots kind (put k v body) = candidate_slots kind body"
  proof (cases "kind = NodeDropTable")
    case True
    with assms have "k \<noteq> ''names''" by (simp add: slot_keys_def)
    then show ?thesis by (intro candidate_slots_cong) (simp add: names_length_def)
  qed (simp add: candidate_slots_def)
  moreover have "\<forall>rp \<in> set (candidate_slots kind body). path_key (snd rp) \<noteq> k"
    using candidate_slots_keys [of kind body] assms by (auto simp: list_all_iff)
  ultimately show ?thesis
    unfolding write_slots_def by (auto intro!: filter_cong simp: slot_node_put)
qed

lemma slot_node_write_slots_put:
  assumes "k \<notin> slot_keys kind" "(role, p) \<in> set (write_slots kind body)"
  shows "slot_node (put k v body) p = slot_node body p"
  using write_slots_keys [OF assms(2)] assms(1) by (auto intro: slot_node_put)

lemma inspect_write_put:
  assumes "k \<notin> slot_keys kind" "is_object body" "inspect_flags kind (put k v body) = inspect_flags kind body"
  shows "inspect_write (JObject [(kind, put k v body)]) = inspect_write (JObject [(kind, body)])"
proof -
  have "concrete_slots kind (put k v body) = concrete_slots kind body"
    unfolding concrete_slots_def write_slots_put [OF assms(1)]
    by (auto simp: slot_node_write_slots_put [OF assms(1)] intro!: map_cong filter_cong)
  moreover have "list_ex (\<lambda>(_, p). parameter_table (slot_node (put k v body) p)) (write_slots kind body) =
      list_ex (\<lambda>(_, p). parameter_table (slot_node body p)) (write_slots kind body)"
    unfolding list_ex_iff by (intro bex_cong refl) (auto simp: slot_node_write_slots_put [OF assms(1)])
  ultimately show ?thesis
    using assms(2,3) by (simp add: inspect_write_def body_of_single write_slots_put [OF assms(1)] Let_def)
qed

section \<open>View bodies\<close>

definition hosts_view :: "json \<Rightarrow> bool" where
  "hosts_view ast \<longleftrightarrow> node_kind ast = Inr NodeCreateView"

definition seen_in_view :: "json \<Rightarrow> json" where
  "seen_in_view b = mark_stored_view_root True (strip_stored_view_markers b)"

lemma is_object_strip: "is_object j \<Longrightarrow> is_object (strip_stored_view_markers j)"
  by (cases j) (simp_all add: is_object_def)

lemma decode_map_object: "is_object j \<Longrightarrow> decode_map j = Inr j"
  by (cases j) (simp_all add: decode_map_def is_object_def)

lemma extract_view_Some:
  "extract_view_body ast = Inr (Some b) \<Longrightarrow>
     \<exists>kind body. ast = JObject [(kind, body)] \<and> is_object body \<and> is_object (field ''query'' body)"
  by (auto simp: extract_view_body_def Let_def dest!: body_of_Some split: sum.splits option.splits if_splits)

lemma set_view_body_eq:
  assumes "is_object body" "is_object b'"
  shows "set_view_body (JObject [(kind, body)]) b' =
     (if kind \<noteq> NodeCreateView then Inl (WrongKind kind)
      else Inr (JObject [(kind, put ''query'' (strip_stored_view_markers b') body)]))"
  using assms by (simp add: set_view_body_def body_of_single decode_map_object put_in_body_def)

interpretation view: embedded_body extract_view_body set_view_body hosts_view is_object seen_in_view
proof
  fix ast b b'
  assume "hosts_view ast" "extract_view_body ast = Inr (Some b)" "is_object b'"
  then show "\<exists>ast'. set_view_body ast b' = Inr ast'"
    using extract_view_Some by (fastforce simp: hosts_view_def node_kind_def set_view_body_eq)
next
  fix ast b b' ast'
  assume prems: "extract_view_body ast = Inr (Some b)" "is_object b'" "set_view_body ast b' = Inr ast'"
  then obtain kind body where ast: "ast = JObject [(kind, body)]" "is_object body" "is_object (field ''query'' body)"
    using extract_view_Some by blast
  then have kind: "kind = NodeCreateView"
    and ast': "ast' = JObject [(NodeCreateView, put ''query'' (strip_stored_view_markers b') body)]"
    using prems(2,3) by (auto simp: set_view_body_eq split: if_splits)
  show "extract_view_body ast' = Inr (Some (seen_in_view b'))"
    using prems(2) by (simp add: ast' extract_view_body_def body_of_single is_object_strip seen_in_view_def)
  have "''query'' \<notin> slot_keys NodeCreateView"
    by (simp add: slot_keys_def node_kind_defs)
  moreover have "inspect_flags NodeCreateView (put ''query'' (strip_stored_view_markers b') body) =
      inspect_flags NodeCreateView body"
    using ast(3) prems(2) by (simp add: inspect_flags_def is_object_strip node_kind_defs)
  ultimately show "inspect_write ast' = inspect_write ast"
    using ast(2) by (simp add: ast' ast(1) kind inspect_write_put)
qed

section \<open>Parenthesised bodies\<close>

definition plain_read_body :: "json \<Rightarrow> bool" where
  "plain_read_body b \<longleftrightarrow> is_object b \<and> is_read_body b \<and> \<not> is_object (field ''subquery'' b)"

lemma is_object_rewrap: "is_object b \<Longrightarrow> is_object (rewrap_in_subquery_shells b shells)"
  by (cases shells) (simp_all add: rewrap_in_subquery_shells_def)

text \<open>Peeling a rewrapped body gives the body back.\<close>

lemma shells_rewrap:
  assumes "plain_read_body b"
  shows "fst (subquery_shells (rewrap_in_subquery_shells b shells)) = b"
proof (induction shells)
  case Nil
  then show ?case
    using assms by (simp add: rewrap_in_subquery_shells_def subquery_shells.simps [of b] plain_read_body_def)
next
  case (Cons shell shells)
  let ?w = "rewrap_in_subquery_shells b shells"
  have "rewrap_in_subquery_shells b (shell # shells) = JObject [(''subquery'', put ''this'' ?w shell)]"
    by (simp add: rewrap_in_subquery_shells_def)
  moreover have "is_object ?w" using assms by (simp add: plain_read_body_def is_object_rewrap)
  moreover have "field ''subquery'' (JObject [(''subquery'', v)]) = v" for v by (simp add: field_def)
  ultimately show ?case
    using Cons.IH by (subst subquery_shells.simps) (simp add: Let_def case_prod_beta)
qed

definition hosts_kind :: "gostring \<Rightarrow> json \<Rightarrow> bool" where
  "hosts_kind kind ast \<longleftrightarrow> node_kind ast = Inr kind"

lemma extract_read_Some:
  "extract_read_body want key ast = Inr (Some b) \<Longrightarrow>
     \<exists>body. ast = JObject [(want, body)] \<and> is_object body \<and> is_object (field key body)"
  by (auto simp: extract_read_body_def Let_def dest!: body_of_Some split: sum.splits option.splits if_splits)

lemma set_read_body_eq:
  assumes "is_object body" "is_object (field key body)" "plain_read_body b'"
  shows "set_read_body want key (JObject [(want, body)]) b' =
     Inr (JObject [(want, put key (rewrap_in_subquery_shells b' (snd (subquery_shells (field key body)))) body)])"
  using assms
  by (simp add: set_read_body_def body_of_single decode_map_object plain_read_body_def put_in_body_def Let_def
      rewrap_in_subquery_shells_def)

lemma read_body_contract:
  assumes "key \<notin> slot_keys want"
    and "\<And>v body. is_object body \<Longrightarrow> is_object v \<Longrightarrow> is_object (field key body) \<Longrightarrow>
           inspect_flags want (put key v body) = inspect_flags want body"
  shows "embedded_body (extract_read_body want key) (set_read_body want key) (hosts_kind want) plain_read_body id"
proof
  fix ast b b'
  assume "extract_read_body want key ast = Inr (Some b)" "plain_read_body b'"
  then show "\<exists>ast'. set_read_body want key ast b' = Inr ast'"
    using extract_read_Some set_read_body_eq by metis
next
  fix ast b b' ast'
  assume prems: "extract_read_body want key ast = Inr (Some b)" "plain_read_body b'"
    "set_read_body want key ast b' = Inr ast'"
  then obtain body where ast: "ast = JObject [(want, body)]" "is_object body" "is_object (field key body)"
    using extract_read_Some by blast
  define w where "w = rewrap_in_subquery_shells b' (snd (subquery_shells (field key body)))"
  have w: "is_object w" "fst (subquery_shells w) = b'"
    using prems(2) by (simp_all add: w_def shells_rewrap is_object_rewrap plain_read_body_def)
  have ast': "ast' = JObject [(want, put key w body)]"
    using prems(2,3) ast set_read_body_eq by (simp add: w_def)
  show "extract_read_body want key ast' = Inr (Some (id b'))"
    using w prems(2) by (simp add: ast' extract_read_body_def body_of_single plain_read_body_def)
  show "inspect_write ast' = inspect_write ast"
    using ast w by (simp add: ast' inspect_write_put assms)
qed

interpretation insert_select: embedded_body extract_insert_body set_insert_body
  "hosts_kind NodeInsert" plain_read_body id
  unfolding extract_insert_body_def set_insert_body_def
  by (rule read_body_contract) (simp_all add: slot_keys_def inspect_flags_def node_kind_defs)

interpretation create_select: embedded_body extract_create_select_body set_create_select_body
  "hosts_kind NodeCreateTable" plain_read_body id
  unfolding extract_create_select_body_def set_create_select_body_def
  by (rule read_body_contract)
    (simp_all add: slot_keys_def inspect_flags_def clone_source_is_table_function_def node_kind_defs)

end
