(* ===== verification/Write_Dispatch_Facts.thy ===== *)
theory Write_Dispatch_Facts
  imports Write_Dispatch Embedded_Body_Facts Raw_Splice_Facts Name_Resolve_Facts
begin

text \<open>
  What a write that answers Success has gone through: every table it names was resolved, none is reserved for
  the signed lane, and the statement that is forwarded is the caller's with exactly those names and the
  rewritten body in place.
\<close>

section \<open>One target\<close>

lemma reject_with_code [simp]: "code \<noteq> CodeSuccess \<Longrightarrow> r_code (reject_with code msg resp) \<noteq> CodeSuccess"
  by (simp add: reject_with_def)

lemma reject_code [simp]:
  "r_code (reject_unsupported msg resp) \<noteq> CodeSuccess" "r_code (reject_invalid msg resp) \<noteq> CodeSuccess"
  by (simp_all add: reject_unsupported_def reject_invalid_def)

lemma record_accessed_write_code [simp]: "r_code (record_accessed_write tt sel resp) = r_code resp"
  by (simp add: record_accessed_write_def add_accessed_def)

text \<open>The decision an outcome asks for, when the target is admitted.\<close>

definition outcome_decision :: "outcome \<Rightarrow> table_decision" where
  "outcome_decision oc =
     (if o_status oc = StatusRewrite then ActionRename (o_physical_db oc) (o_new_table oc) else ActionSkip)"

definition resolved :: "selection \<Rightarrow> table_target \<Rightarrow> outcome" where
  "resolved sel tt = resolve (tt_db tt) (tt_table tt) sel"

definition admitted :: "gostring \<Rightarrow> selection \<Rightarrow> table_target \<Rightarrow> bool" where
  "admitted kind sel tt \<longleftrightarrow>
     o_status (resolved sel tt) \<in> {StatusRewrite, StatusPassthrough} \<and>
     (si_lane_only kind sel \<longrightarrow> lookup_storage_integrity (tt_db tt) (tt_table tt) (sel_dynamic sel) = None)"

lemma decide_write_target_cases:
  "(if admitted kind sel tt
    then fst (decide_write_target tt kind sel resp) = Some (outcome_decision (resolved sel tt)) \<and>
         r_code (snd (decide_write_target tt kind sel resp)) = r_code resp
    else fst (decide_write_target tt kind sel resp) = None \<and>
         r_code (snd (decide_write_target tt kind sel resp)) \<noteq> CodeSuccess)"
  by (cases "o_status (resolve (tt_db tt) (tt_table tt) sel)")
    (auto simp: decide_write_target_def admitted_def resolved_def outcome_decision_def decide_resolved_def
      Let_def add_rewrite_def split: option.split)

lemma decide_write_target_Some:
  assumes "decide_write_target tt kind sel resp = (Some d, resp')"
  shows "admitted kind sel tt" "d = outcome_decision (resolved sel tt)" "r_code resp' = r_code resp"
  using decide_write_target_cases [of kind sel tt resp] assms by (auto split: if_splits)

lemma decide_write_target_None:
  "decide_write_target tt kind sel resp = (None, resp') \<Longrightarrow> r_code resp' \<noteq> CodeSuccess"
  using decide_write_target_cases [of kind sel tt resp] by (auto split: if_splits)

section \<open>Raw commands\<close>

definition rendered :: "selection \<Rightarrow> table_target \<Rightarrow> gostring" where
  "rendered sel tt =
     (case outcome_decision (resolved sel tt) of ActionRename db t \<Rightarrow> quote_qualified db t | _ \<Rightarrow> [])"

lemma resolved_identity [simp]: "resolved sel (identity tt) = resolved sel tt"
  by (simp add: resolved_def identity_def)

lemma rendered_identity [simp]: "rendered sel (identity tt) = rendered sel tt"
  by (simp add: rendered_def)

text \<open>Every decision so far is the rendering of its own key.\<close>

definition consistent :: "selection \<Rightarrow> decisions \<Rightarrow> bool" where
  "consistent sel ds \<longleftrightarrow> (\<forall>k v. map_of ds k = Some v \<longrightarrow> v = rendered sel k)"

lemma record_decision_lookup:
  assumes "consistent sel ds" "d = outcome_decision (resolved sel tt)"
  shows "map_of (record_decision tt d ds) = (map_of ds)(identity tt \<mapsto> rendered sel tt)"
proof (cases "o_status (resolved sel tt) = StatusRewrite")
  case True
  then show ?thesis
    using assms(2) by (simp add: record_decision_def outcome_decision_def rendered_def update_conv')
next
  case False
  then show ?thesis
    using assms by (auto simp: record_decision_def outcome_decision_def rendered_def update_conv' has_key_def
        consistent_def fun_eq_iff resolved_identity [unfolded resolved_def] dest!: spec [of _ "identity tt"])
qed

text \<open>So each target's decision is its own resolution, whatever other target shares its name.\<close>

lemma decide_raw_targets_Some:
  assumes "decide_raw_targets kind sel tts ds resp = (Some ds', resp')" "consistent sel ds"
  shows "(\<forall>tt \<in> set tts. admitted kind sel tt) \<and>
     map_of ds' = (\<lambda>k. if k \<in> identity ` set tts then Some (rendered sel k) else map_of ds k) \<and>
     r_code resp' = r_code resp"
  using assms
proof (induction tts arbitrary: ds resp)
  case (Cons tt tts)
  obtain d r where d: "decide_write_target tt kind sel resp = (Some d, r)"
    "decide_raw_targets kind sel tts (record_decision tt d ds) r = (Some ds', resp')"
    using Cons.prems by (auto split: prod.splits option.splits)
  note here = decide_write_target_Some [OF d(1)]
  note lookup = record_decision_lookup [OF Cons.prems(2) refl, of tt]
  have "consistent sel (record_decision tt d ds)"
    using Cons.prems(2) by (auto simp: consistent_def here(2) lookup split: if_splits)
  from Cons.IH [OF d(2) this] here(1,3) show ?case by (auto simp: here(2) lookup fun_eq_iff)
qed simp

lemma decisions_of_targets:
  "decide_raw_targets kind sel tts [] resp = (Some ds, resp') \<Longrightarrow> tt \<in> set tts \<Longrightarrow>
     map_of ds (identity tt) = Some (rendered sel tt)"
  by (drule decide_raw_targets_Some) (auto simp: consistent_def)

lemma decide_raw_targets_None:
  "decide_raw_targets kind sel tts ds resp = (None, resp') \<Longrightarrow> r_code resp' \<noteq> CodeSuccess"
proof (induction tts arbitrary: ds resp)
  case (Cons tt tts)
  obtain dso r where d: "decide_write_target tt kind sel resp = (dso, r)" by fastforce
  show ?case
  proof (cases dso)
    case None
    with Cons.prems d show ?thesis by (auto dest: decide_write_target_None)
  next
    case (Some x)
    with Cons.prems d have "decide_raw_targets kind sel tts (record_decision tt x ds) r = (None, resp')" by simp
    then show ?thesis by (rule Cons.IH)
  qed
qed simp

lemma map_of_keyed:
  assumes "\<And>s t. key s = key t \<Longrightarrow> val s = val t" "x \<in> set xs"
  shows "map_of (map (\<lambda>s. (key s, val s)) xs) (key x) = Some (val x)"
  using assms(2)
proof (induction xs)
  case (Cons y ys)
  then show ?case using assms(1) [of x y] by (cases "key x = key y") auto
qed simp

text \<open>The renamed text: every name of the command replaced by its resolution.\<close>

lemma spliced_cong:
  "(\<And>s. s \<in> set spans \<Longrightarrow> map_of ds (identity (rs_target s)) = map_of ds' (identity (rs_target s))) \<Longrightarrow>
     spliced raw ds p spans = spliced raw ds' p spans"
  by (induction spans arbitrary: p) (simp_all add: replacement_def)

text \<open>The one path of the handler that answers Success.\<close>

lemma dispatch_raw_tables_Success:
  assumes "dispatch_raw_tables e ast sql info sel = Inr (Some resp)" "r_code resp = CodeSuccess"
  obtains targets s ds resp' out where
    "raw_table_refs e ast = Inr (targets, s)" "targets \<noteq> []"
    "decide_raw_targets (snd (raw_kind (wi_sub info))) sel targets []
       (new_write_resp (fst (raw_kind (wi_sub info)))) = (Some ds, resp')"
    "splice_raw_tables e ast ds = Inr out" "resp = echo out resp'"
proof (cases "raw_table_refs e ast")
  case (Inl err)
  with assms(1) show thesis by (simp add: dispatch_raw_tables_def case_prod_beta Let_def)
next
  case (Inr refs)
  obtain targets s where refs: "refs = (targets, s)" by (cases refs)
  obtain dso r where d: "decide_raw_targets (snd (raw_kind (wi_sub info))) sel targets []
       (new_write_resp (fst (raw_kind (wi_sub info)))) = (dso, r)" by fastforce
  have eq: "dispatch_raw_tables e ast sql info sel =
      (if targets = [] then
         Inr (Some (echo sql (reject_unsupported unsupported_statement_message
           (new_write_resp (fst (raw_kind (wi_sub info)))))))
       else case dso of
              None \<Rightarrow> Inr (Some r)
            | Some ds \<Rightarrow>
                (case splice_raw_tables e ast ds of
                   Inr out \<Rightarrow> Inr (Some (echo out r))
                 | Inl (RawTargetUndecided _) \<Rightarrow>
                     Inr (Some (echo sql (reject_unsupported unsupported_statement_message r)))
                 | Inl err \<Rightarrow> Inl err))"
    by (simp add: dispatch_raw_tables_def case_prod_beta Let_def Inr refs d split: option.split)
  have some: "targets \<noteq> []" using assms by (auto simp: eq echo_def)
  show thesis
  proof (cases dso)
    case None
    with assms some d show thesis by (auto simp: eq dest: decide_raw_targets_None)
  next
    case (Some ds)
    show thesis
    proof (cases "splice_raw_tables e ast ds")
      case (Inl err)
      with assms some Some show thesis by (cases err) (auto simp: eq echo_def)
    next
      case out: (Inr out)
      then show thesis using that Inr refs some d Some assms(1) by (simp add: eq)
    qed
  qed
qed

text \<open>
  C21. A raw RENAME, EXCHANGE or ALTER ... UPDATE that answers Success had every table name it holds resolved:
  each one is routed by the request or left as it is, and in dynamic mode none is a storage-integrity table;
  and the text forwarded is the command with each name replaced by its quoted resolution, in place, and no
  other byte changed.
\<close>

theorem raw_command_success:
  assumes "dispatch_raw_tables e ast sql info sel = Inr (Some resp)" "r_code resp = CodeSuccess"
    and "body_of ast = Inr (kind, body)"
    and "classify_write_command (command_text body) \<in> {CmdRename, CmdExchange, CmdAlterUpdate}"
    and "\<forall>ws. e_tokenize e (command_text body) = Inr ws \<longrightarrow> wire_ordered ws"
  shows "\<exists>toks spans.
     tokenize_raw e (command_text body) = Inr toks \<and>
     spans = scan_table_refs toks (classify_write_command (command_text body)) \<and> spans \<noteq> [] \<and>
     (\<forall>s \<in> set spans. admitted (snd (raw_kind (wi_sub info))) sel (rs_target s)) \<and>
     r_sql_after_rewrite resp =
       spliced (command_text body) (map (\<lambda>s. (identity (rs_target s), rendered sel (rs_target s))) spans) 0 spans"
proof -
  let ?raw = "command_text body" and ?sub = "classify_write_command (command_text body)"
  let ?kind = "snd (raw_kind (wi_sub info))"
  obtain targets s ds resp' out where
    refs: "raw_table_refs e ast = Inr (targets, s)" "targets \<noteq> []"
    and ds: "decide_raw_targets ?kind sel targets [] (new_write_resp (fst (raw_kind (wi_sub info)))) = (Some ds, resp')"
    and out: "splice_raw_tables e ast ds = Inr out" "resp = echo out resp'"
    using dispatch_raw_tables_Success [OF assms(1,2)] by metis
  obtain toks ts where toks: "tokenize_raw e ?raw = Inr toks" "raw_table_refs e ast = Inr (ts, ?sub)"
    and spliced: "out = spliced ?raw ds 0 (scan_table_refs toks ?sub)"
    using splice_raw_tables_shape [OF assms(3) refl assms(4,5) out(1)] by blast
  let ?spans = "scan_table_refs toks ?sub"
  have targets: "targets = map rs_target ?spans"
    using refs(1) toks assms(3,4) by (auto simp: raw_table_refs_def Let_def)
  have "map_of ds (identity (rs_target s)) = Some (rendered sel (rs_target s))" if "s \<in> set ?spans" for s
    using decisions_of_targets [OF ds] that targets by simp
  moreover have "map_of (map (\<lambda>s. (identity (rs_target s), rendered sel (rs_target s))) spans)
      (identity (rs_target s)) = Some (rendered sel (rs_target s))" if "s \<in> set spans"
      for s :: table_ref_span and spans
    using map_of_keyed [of "\<lambda>s. identity (rs_target s)" "\<lambda>s. rendered sel (rs_target s)" s spans] that
    by (metis rendered_identity)
  ultimately have "out = spliced ?raw (map (\<lambda>s. (identity (rs_target s), rendered sel (rs_target s))) ?spans) 0 ?spans"
    unfolding spliced by (intro spliced_cong) metis
  then show ?thesis
    using toks(1) targets refs(2) out(2) decide_raw_targets_Some [OF ds] by (auto simp: echo_def consistent_def)
qed

definition rename_info :: write_info where
  "rename_info = (no_info NodeCommand)\<lparr>wi_sub := CmdRename\<rparr>"

definition sample_selection :: selection where
  "sample_selection = \<lparr>sel_mode = ModeDynamic, sel_static = None, sel_dynamic = Some sample_args\<rparr>"

lemma raw_command_success_witness:
  "\<exists>resp. dispatch_raw_tables rename_engine rename_ast ''RENAME TABLE a TO b'' rename_info sample_selection = Inr (Some resp) \<and>
     r_code resp = CodeSuccess \<and>
     (\<exists>toks. r_sql_after_rewrite resp = spliced ''RENAME TABLE a TO b''
        (map (\<lambda>s. (identity (rs_target s), rendered sample_selection (rs_target s))) (scan_table_refs toks CmdRename)) 0
        (scan_table_refs toks CmdRename))"
proof -
  let ?body = "JObject [(''this'', JString ''RENAME TABLE a TO b'')]"
  have "case dispatch_raw_tables rename_engine rename_ast ''RENAME TABLE a TO b'' rename_info sample_selection of
      Inr (Some resp) \<Rightarrow> r_code resp = CodeSuccess | _ \<Rightarrow> False"
    by code_simp
  then obtain resp where resp:
    "dispatch_raw_tables rename_engine rename_ast ''RENAME TABLE a TO b'' rename_info sample_selection = Inr (Some resp)"
    "r_code resp = CodeSuccess"
    by (auto split: sum.splits option.splits)
  have body: "body_of rename_ast = Inr (''command'', Some ?body)"
    by (simp add: rename_ast_def body_of_def)
  have raw: "command_text (Some ?body) = ''RENAME TABLE a TO b''"
    by (simp add: command_text_def field_def json_string_def)
  have sub: "classify_write_command ''RENAME TABLE a TO b'' = CmdRename" by code_simp
  have "classify_write_command (command_text (Some ?body)) \<in> {CmdRename, CmdExchange, CmdAlterUpdate}"
    by (simp add: raw sub)
  moreover have "\<forall>ws. e_tokenize rename_engine (command_text (Some ?body)) = Inr ws \<longrightarrow> wire_ordered ws"
    by (auto simp: rename_engine_def wire_ordered_def)
  ultimately have "\<exists>toks. r_sql_after_rewrite resp = spliced ''RENAME TABLE a TO b''
        (map (\<lambda>s. (identity (rs_target s), rendered sample_selection (rs_target s))) (scan_table_refs toks CmdRename)) 0
        (scan_table_refs toks CmdRename)"
    using raw_command_success [OF resp body] unfolding raw sub by blast
  with resp show ?thesis by blast
qed

section \<open>Structured statements\<close>

definition resolved_slot :: "selection \<Rightarrow> write_slot \<Rightarrow> write_slot" where
  "resolved_slot sel s =
     s\<lparr>ws_target := decided_target (outcome_decision (resolved sel (ws_target s))) (ws_target s)\<rparr>"

lemma outcome_decision_cases:
  "(\<exists>db t. outcome_decision oc = ActionRename db t) \<or> outcome_decision oc = ActionSkip"
  by (simp add: outcome_decision_def)

lemma decide_slots_Some:
  assumes "decide_slots kind sel ss ds resp = (Some ds', resp')"
    and "distinct (map ws_role ss)" "\<forall>s \<in> set ss. map_of ds (ws_role s) = None"
  shows "(\<forall>s \<in> set ss. admitted kind sel (ws_target s) \<and>
            slot_decision ds' s = outcome_decision (resolved sel (ws_target s))) \<and>
     (\<forall>role. role \<notin> ws_role ` set ss \<longrightarrow> map_of ds' role = map_of ds role) \<and> r_code resp' = r_code resp"
  using assms
proof (induction ss arbitrary: ds resp)
  case (Cons s ss)
  obtain dso r where d: "decide_write_target (ws_target s) kind sel resp = (dso, r)" by fastforce
  obtain x where x: "dso = Some x" using Cons.prems(1) d by (cases dso) auto
  note here = decide_write_target_Some [OF d [unfolded x]]
  define ds1 where "ds1 = (case x of ActionRename _ _ \<Rightarrow> AList.update (ws_role s) x ds | _ \<Rightarrow> ds)"
  have rest: "decide_slots kind sel ss ds1 r = (Some ds', resp')"
    using Cons.prems(1) d x by (simp add: ds1_def)
  have others: "map_of ds1 role = map_of ds role" if "role \<noteq> ws_role s" for role
    using that by (simp add: ds1_def update_conv' split: table_decision.split)
  have mine: "slot_decision ds1 s = x"
    using outcome_decision_cases [of "resolved sel (ws_target s)"] Cons.prems(3) here(2)
    by (auto simp: slot_decision_def ds1_def update_conv')
  have fresh: "\<forall>t \<in> set ss. ws_role t \<noteq> ws_role s"
    using Cons.prems(2) by (simp add: image_iff) metis
  have "\<forall>t \<in> set ss. map_of ds1 (ws_role t) = None" using Cons.prems(3) others fresh by simp
  with Cons.IH [OF rest] Cons.prems(2)
  have IH: "\<forall>t \<in> set ss. admitted kind sel (ws_target t) \<and>
      slot_decision ds' t = outcome_decision (resolved sel (ws_target t))"
    "\<forall>role. role \<notin> ws_role ` set ss \<longrightarrow> map_of ds' role = map_of ds1 role" "r_code resp' = r_code r"
    by auto
  have "ws_role s \<notin> ws_role ` set ss" using Cons.prems(2) by simp
  with IH(2) have "slot_decision ds' s = slot_decision ds1 s" by (simp add: slot_decision_def)
  then show ?case using here mine IH others by simp
qed simp

lemma inspect_write_roles:
  assumes "inspect_write ast = Inr info"
  shows "distinct (map ws_role (wi_slots info))"
proof -
  have "distinct (map ws_role (concrete_slots kind body))" for kind body
  proof -
    have "map ws_role (concrete_slots kind body) =
        map fst (filter (\<lambda>(_, p). \<not> parameter_table (slot_node body p)) (write_slots kind body))"
      by (auto simp: concrete_slots_def)
    then show ?thesis using distinct_roles by (simp add: distinct_map_filter)
  qed
  then show ?thesis
    using assms by (auto simp: inspect_write_def Let_def no_info_def distinct_map_filter
        split: sum.splits option.splits)
qed

lemma decide_slots_None:
  "decide_slots kind sel ss ds resp = (None, resp') \<Longrightarrow> r_code resp' \<noteq> CodeSuccess"
proof (induction ss arbitrary: ds resp)
  case (Cons s ss)
  obtain dso r where d: "decide_write_target (ws_target s) kind sel resp = (dso, r)" by fastforce
  show ?case
  proof (cases dso)
    case None
    with Cons.prems d show ?thesis by (auto dest: decide_write_target_None)
  next
    case (Some x)
    with Cons.prems d show ?thesis by (simp add: Cons.IH)
  qed
qed simp

text \<open>The references of the statement after the decisions: each one resolved, none reserved.\<close>

lemma apply_structured_slots_Some:
  assumes "apply_structured_slots ast info sel resp = Inr (Some ast', resp')"
    and "inspect_write ast = Inr info" "\<not> wi_parameter_target info" "\<not> wi_as_table_function info"
  shows "inspect_write ast' = Inr (info\<lparr>wi_slots := map (resolved_slot sel) (wi_slots info)\<rparr>)"
    and "\<forall>s \<in> set (wi_slots info). admitted (wi_kind info) sel (ws_target s)"
    and "r_code resp' = r_code resp"
    and "\<exists>decide. rewrite_write_targets ast decide = Inr ast'"
proof -
  obtain dso r where d: "decide_slots (wi_kind info) sel (wi_slots info) [] resp = (dso, r)" by fastforce
  obtain ds where ds: "dso = Some ds" "rewrite_write_targets ast (slot_decision ds) = Inr ast'" "r = resp'"
    using assms(1) d by (cases dso; cases "rewrite_write_targets ast (slot_decision (the dso))")
      (auto simp: apply_structured_slots_def)
  note slots = decide_slots_Some [OF d [unfolded ds(1)] inspect_write_roles [OF assms(2)]]
  have "map (decided_slot (slot_decision ds)) (wi_slots info) = map (resolved_slot sel) (wi_slots info)"
    using slots by (simp add: decided_slot_def resolved_slot_def)
  then show "inspect_write ast' = Inr (info\<lparr>wi_slots := map (resolved_slot sel) (wi_slots info)\<rparr>)"
    using rewrite_targets_refines [OF assms(2-4) ds(2)] by simp
  show "\<forall>s \<in> set (wi_slots info). admitted (wi_kind info) sel (ws_target s)" "r_code resp' = r_code resp"
    using slots ds(3) by simp_all
  show "\<exists>decide. rewrite_write_targets ast decide = Inr ast'" using ds(2) by blast
qed

lemma apply_structured_slots_None:
  "apply_structured_slots ast info sel resp = Inr (None, resp') \<Longrightarrow> r_code resp' \<noteq> CodeSuccess"
proof -
  assume none: "apply_structured_slots ast info sel resp = Inr (None, resp')"
  obtain dso r where d: "decide_slots (wi_kind info) sel (wi_slots info) [] resp = (dso, r)" by fastforce
  show ?thesis
  proof (cases dso)
    case None
    with none d show ?thesis by (auto simp: apply_structured_slots_def dest: decide_slots_None)
  next
    case (Some ds)
    with none d show ?thesis
      by (cases "rewrite_write_targets ast (slot_decision ds)") (auto simp: apply_structured_slots_def)
  qed
qed

end
