(* ===== verification/Write_Body_Facts.thy ===== *)
theory Write_Body_Facts
  imports Write_Dispatch_Facts
begin

text \<open>
  Statements with an embedded SELECT: the statement that is forwarded has its own references resolved and its
  body replaced by what the SELECT pipeline made of it, and nothing is forwarded when that pipeline refused.
\<close>

section \<open>The step of the handlers over the contract\<close>

lemma merge_view_body_code [simp]: "r_code (merge_view_body dst body) = r_code dst"
  by (simp add: merge_view_body_def)

lemma reject_si_body_reads_False:
  "reject_si_body_reads resp bodyResp sel = (False, resp') \<Longrightarrow>
     resp' = resp \<and> (sel_mode sel = ModeDynamic \<longrightarrow> si_body_read (r_accessed bodyResp) (sel_dynamic sel) = None)"
  by (auto simp: reject_si_body_reads_def split: option.splits if_splits)

context embedded_body
begin

lemma rewrite_embedded_body_Some:
  assumes "rewrite_embedded_body core ast sql opts get_body set_body resp sel refuse = Inr (Some ast', resp')"
    and "\<And>b b' r. core b opts sql = Inr (b', r) \<Longrightarrow> readable b'"
  shows "r_code resp' = r_code resp \<and> inspect_write ast' = inspect_write ast \<and>
     (case get_body ast of
        Inr (Some body) \<Rightarrow>
          \<exists>newBody bodyResp. core body opts sql = Inr (newBody, bodyResp) \<and> r_code bodyResp = CodeSuccess \<and>
            get_body ast' = Inr (Some (seen newBody)) \<and>
            (refuse \<and> sel_mode sel = ModeDynamic \<longrightarrow>
               si_body_read (r_accessed bodyResp) (sel_dynamic sel) = None)
      | _ \<Rightarrow> ast' = ast)"
proof (cases "\<exists>body. get_body ast = Inr (Some body)")
  case False
  then have "get_body ast = Inr None" using assms(1)
    by (cases "get_body ast") (auto simp: rewrite_embedded_body_def)
  then show ?thesis using assms(1) by (simp add: rewrite_embedded_body_def)
next
  case True
  then obtain body where body: "get_body ast = Inr (Some body)" by blast
  obtain newBody bodyResp where core: "core body opts sql = Inr (newBody, bodyResp)"
    using assms(1) body by (cases "core body opts sql") (auto simp: rewrite_embedded_body_def)
  let ?merged = "merge_view_body resp bodyResp"
  obtain refused r where step:
    "(if refuse then reject_si_body_reads ?merged bodyResp sel else (False, ?merged)) = (refused, r)"
    by fastforce
  have pass: "\<not> refused" "r_code bodyResp = CodeSuccess" "set_body ast newBody = Inr ast'" "r = resp'"
    using assms(1) body core step
    by (auto simp: rewrite_embedded_body_def Let_def map_sum_def split: if_splits sum.splits)
  have merged: "r = ?merged" and no_si: "refuse \<and> sel_mode sel = ModeDynamic \<longrightarrow>
      si_body_read (r_accessed bodyResp) (sel_dynamic sel) = None"
    using step pass(1) reject_si_body_reads_False [of ?merged bodyResp sel r] by (auto split: if_splits)
  have "r_code resp' = r_code resp" using merged pass(4) by (metis merge_view_body_code)
  with pass body core no_si show ?thesis
    using extract_set [OF body assms(2) [OF core] pass(3)] references_set [OF body assms(2) [OF core] pass(3)]
    by simp
qed

end

section \<open>Renaming leaves the body alone\<close>


section \<open>CREATE TABLE AS SELECT\<close>


lemma clear_on_unresolved_code [simp]: "r_code (clear_on_unresolved resp) = r_code resp"
  by (simp add: clear_on_unresolved_def)







end
