(* ===== verification/SI_Policy.thy ===== *)
theory SI_Policy
  imports Write_Dispatch
begin

text \<open>
  The storage-integrity policy of the handlers: the reject of namespace references
  (\<open>handlers/storage_integrity_policy.go\<close>), the derived table that replaces a storage-integrity table
  (\<open>storage_integrity.go\<close>), the better message of a refusal (\<open>storage_integrity_reject.go\<close>), the system
  tables (\<open>systemtables.go\<close>) and the preflight of the writes (\<open>preflightStorageIntegrityWrite\<close> of \<open>writes.go\<close>,
  with \<open>AllWriteTargets\<close> of \<open>engine/writes.go\<close>). The collectors of \<open>nodes.go\<close>, \<open>references.go\<close>,
  \<open>systemrefs.go\<close> and \<open>mutation_reads.go\<close> walk the SELECT part of the AST; what they return is an argument here.
\<close>

section \<open>Namespace references (nodes.go, lexical.go)\<close>

datatype namespace_source =
  NamespaceTableFunction | NamespaceInTable | NamespaceTableEngine | NamespaceDictionarySource

record namespace_ref =
  nr_source :: namespace_source
  nr_name :: gostring
  nr_target :: table_target
  nr_resolved :: bool
  nr_current_database :: bool
  nr_database_identifier :: bool
  nr_table_identifier :: bool

definition decoded_ast_identifier :: "gostring \<Rightarrow> gostring \<times> bool" where
  "decoded_ast_identifier name = (name, True)"

definition read_source_name :: "gostring \<Rightarrow> bool \<Rightarrow> gostring \<times> bool" where
  "read_source_name name isIdentifier = (if \<not> isIdentifier then (name, True) else decoded_ast_identifier name)"

definition semantic_part :: "gostring \<Rightarrow> bool \<Rightarrow> gostring option" where
  "semantic_part name isIdentifier =
     (if name = [] then Some name
      else let (v, ok) = read_source_name name isIdentifier in if \<not> ok \<or> v = [] then None else Some v)"

definition semantic_namespace_ref :: "namespace_ref \<Rightarrow> namespace_ref option" where
  "semantic_namespace_ref ref =
     (case semantic_part (tt_db (nr_target ref)) (nr_database_identifier ref) of
        None \<Rightarrow> None
      | Some db \<Rightarrow>
          (case semantic_part (tt_table (nr_target ref)) (nr_table_identifier ref) of
             None \<Rightarrow> None
           | Some table \<Rightarrow> Some (ref\<lparr>nr_target := (nr_target ref)\<lparr>tt_db := db, tt_table := table\<rparr>\<rparr>)))"

section \<open>Messages\<close>

definition namespace_surface :: "namespace_ref \<Rightarrow> gostring" where
  "namespace_surface ref =
     (case nr_source ref of
        NamespaceInTable \<Rightarrow> nr_name ref @ '' table target''
      | NamespaceTableEngine \<Rightarrow> nr_name ref @ '' table engine''
      | NamespaceDictionarySource \<Rightarrow> nr_name ref @ '' dictionary source''
      | NamespaceTableFunction \<Rightarrow>
          if nr_name ref \<noteq> [] then nr_name ref @ '' table function'' else ''table function'')"

definition namespace_logical_message :: "namespace_ref \<Rightarrow> gostring \<Rightarrow> gostring" where
  "namespace_logical_message ref key =
     (if nr_source ref = NamespaceTableEngine then si_write_reject_message key
      else ''storage-integrity table '' @ key @ '' is not directly addressable through '' @ namespace_surface ref)"

definition namespace_logical_database_message :: "namespace_ref \<Rightarrow> gostring \<Rightarrow> gostring" where
  "namespace_logical_database_message ref db =
     ''storage-integrity logical database '' @ db @ '' is not directly addressable through '' @ namespace_surface ref"

definition namespace_database_message :: "namespace_ref \<Rightarrow> gostring \<Rightarrow> gostring" where
  "namespace_database_message ref db =
     (if nr_source ref = NamespaceTableFunction then si_function_namespace_reject_message db
      else ''storage-integrity '' @ namespace_surface ref @ '' namespace '' @ db @ '' is not directly addressable'')"

definition namespace_unresolved_message :: "namespace_ref \<Rightarrow> gostring" where
  "namespace_unresolved_message ref =
     (if nr_source ref = NamespaceTableFunction then si_unresolved_function_namespace_message
      else ''storage-integrity '' @ namespace_surface ref @ '' namespace is not statically resolvable'')"

section \<open>The policy of one reference\<close>

definition table_function_execution_database :: "dynamic_args option \<Rightarrow> gostring" where
  "table_function_execution_database dyn =
     (if get_physical_context dyn \<noteq> [] then get_physical_context dyn
      else let logical = get_logical_context dyn
           in if is_si_physical_database logical dyn then logical
              else case resolve_physical_database logical dyn of Some p \<Rightarrow> p | None \<Rightarrow> [])"

text \<open>The unconditional \<open>resp.Code = code; resp.Message = msg\<close>.\<close>

definition refuse :: "rewrite_code \<Rightarrow> gostring \<Rightarrow> response \<Rightarrow> response" where
  "refuse code msg resp = resp\<lparr>r_code := code, r_message := msg\<rparr>"

definition refuse_logical :: "dynamic_args option \<Rightarrow> gostring \<Rightarrow> rewrite_code \<Rightarrow> gostring \<Rightarrow> response \<Rightarrow> response" where
  "refuse_logical dyn db code msg resp =
     (let (logical, authorized) = authorize_si_logical db dyn
      in if \<not> authorized then refuse CodeInvalidRewriteRequest (si_unauthorized_message logical) resp
         else refuse code msg resp)"

definition reject_exact_key :: "selection \<Rightarrow> rewrite_code \<Rightarrow> namespace_ref \<Rightarrow> table_target \<Rightarrow> response \<Rightarrow> response option" where
  "reject_exact_key sel code ref target resp =
     (case lookup_storage_integrity (tt_db target) (tt_table target) (sel_dynamic sel) of
        Some (_, key) \<Rightarrow>
          Some (refuse_logical (sel_dynamic sel) (tt_db target) code (namespace_logical_message ref key)
                  (record_accessed_write_unique target sel resp))
      | None \<Rightarrow> None)"

definition reject_logical_database :: "selection \<Rightarrow> rewrite_code \<Rightarrow> namespace_ref \<Rightarrow> gostring \<Rightarrow> response \<Rightarrow> response option" where
  "reject_logical_database sel code ref db resp =
     (if is_si_logical_database db (sel_dynamic sel)
      then Some (refuse_logical (sel_dynamic sel) db code (namespace_logical_database_message ref db)
                   (record_si_logical_database_unique db (sel_dynamic sel) resp))
      else None)"

text \<open>A reference whose database and table are both known.\<close>

definition reject_resolved_ref :: "selection \<Rightarrow> rewrite_code \<Rightarrow> namespace_ref \<Rightarrow> table_target \<Rightarrow> response \<Rightarrow> response option" where
  "reject_resolved_ref sel code ref target resp =
     (if is_si_physical_database (tt_db target) (sel_dynamic sel) then
        Some (refuse code (si_physical_reject_message (qualify (tt_db target) (tt_table target)))
                (record_accessed_write_unique target sel resp))
      else case reject_exact_key sel code ref target resp of
             Some r \<Rightarrow> Some r
           | None \<Rightarrow> reject_logical_database sel code ref (tt_db target) resp)"

text \<open>A reference that is not resolved is always refused.\<close>

definition reject_unresolved_ref :: "selection \<Rightarrow> rewrite_code \<Rightarrow> namespace_ref \<Rightarrow> table_target \<Rightarrow> response \<Rightarrow> response" where
  "reject_unresolved_ref sel code ref target resp =
     (let dyn = sel_dynamic sel; db = tt_db target;
          unresolved = refuse code (namespace_unresolved_message ref)
             (foldl (\<lambda>r physical. record_accessed_database_unique physical dyn r) resp (si_physical_databases dyn))
      in if db = [] then unresolved
         else if is_si_physical_database db dyn then
           refuse code (namespace_database_message ref db) (record_accessed_database_unique db dyn resp)
         else case reject_logical_database sel code ref db resp of
                Some r \<Rightarrow> r
              | None \<Rightarrow> unresolved)"

definition semantic_or_unresolved :: "namespace_ref \<Rightarrow> namespace_ref" where
  "semantic_or_unresolved ref =
     (case semantic_namespace_ref ref of
        Some s \<Rightarrow> s
      | None \<Rightarrow> ref\<lparr>nr_target := no_target, nr_resolved := False, nr_current_database := False\<rparr>)"

text \<open>One turn of the loop: the refusal, or \<^const>\<open>None\<close> for \<open>continue\<close>.\<close>

definition reject_namespace_ref :: "selection \<Rightarrow> rewrite_code \<Rightarrow> namespace_ref \<Rightarrow> response \<Rightarrow> response option" where
  "reject_namespace_ref sel code ref0 resp =
     (let ref = semantic_or_unresolved ref0; target = nr_target ref;
          decide = (\<lambda>resolved target.
            if resolved then reject_resolved_ref sel code ref target resp
            else Some (reject_unresolved_ref sel code ref target resp))
      in if \<not> nr_current_database ref then decide (nr_resolved ref) target
         else let key = (if tt_table target \<noteq> [] \<and> nr_source ref \<noteq> NamespaceInTable
                         then (case lookup_storage_integrity [] (tt_table target) (sel_dynamic sel) of
                                 Some (_, key) \<Rightarrow>
                                   Some (refuse_logical (sel_dynamic sel) [] code (namespace_logical_message ref key)
                                           (record_accessed_write_unique target sel resp))
                               | None \<Rightarrow> None)
                         else None)
              in case key of
                   Some r \<Rightarrow> Some r
                 | None \<Rightarrow>
                     let there = target\<lparr>tt_db := table_function_execution_database (sel_dynamic sel)\<rparr>
                     in decide (tt_db there \<noteq> [] \<and> tt_table there \<noteq> []) there)"

fun reject_namespace_refs :: "selection \<Rightarrow> rewrite_code \<Rightarrow> namespace_ref list \<Rightarrow> response \<Rightarrow> bool \<times> response" where
  "reject_namespace_refs sel code [] resp = (False, resp)"
| "reject_namespace_refs sel code (ref # refs) resp =
     (case reject_namespace_ref sel code ref resp of
        Some r \<Rightarrow> (True, r)
      | None \<Rightarrow> reject_namespace_refs sel code refs resp)"

definition reject_si_namespaces :: "selection \<Rightarrow> rewrite_code \<Rightarrow> namespace_ref list \<Rightarrow> response \<Rightarrow> bool \<times> response" where
  "reject_si_namespaces sel code refs resp =
     (if sel_mode sel \<noteq> ModeDynamic \<or> \<not> storage_integrity_surface_active (sel_dynamic sel) then (False, resp)
      else reject_namespace_refs sel code refs resp)"

section \<open>The derived table of a storage-integrity table\<close>

definition split_physical_name :: "gostring \<Rightarrow> gostring \<times> gostring" where
  "split_physical_name name =
     (case index_byte name CHR ''.'' of Some i \<Rightarrow> (take i name, drop (i + 1) name) | None \<Rightarrow> ([], name))"

text \<open>\<open>strings.ReplaceAll\<close> of one byte by two of it.\<close>

definition double_byte :: "char \<Rightarrow> gostring \<Rightarrow> gostring" where
  "double_byte c s = concat (map (\<lambda>x. if x = c then [c, c] else [x]) s)"

definition escape_sql_literal :: "gostring \<Rightarrow> gostring" where
  "escape_sql_literal s = double_byte CHR 0x27 (double_byte CHR 0x5C s)"

definition sql_literal :: "gostring \<Rightarrow> gostring" where
  "sql_literal s = [CHR 0x27] @ escape_sql_literal s @ [CHR 0x27]"

fun join_with :: "gostring \<Rightarrow> gostring list \<Rightarrow> gostring" where
  "join_with sep [] = []"
| "join_with sep [x] = x"
| "join_with sep (x # xs) = x @ sep @ join_with sep xs"

definition row_id_sql :: "gostring \<Rightarrow> gostring" where
  "row_id_sql rid =
     (if rid \<noteq> default_reserved_row_id_column
      then [CHR 0x60] @ double_byte CHR 0x60 rid @ [CHR 0x60]
      else quote_qualified [] rid)"

definition si_surface_sql :: "si_table \<Rightarrow> si_args option \<Rightarrow> gostring" where
  "si_surface_sql tbl args =
     (let own = get_reserved_row_id_column args;
          rid = (if own = [] then default_reserved_row_id_column else own);
          project = ''SELECT * EXCEPT ('' @ row_id_sql rid @ '') FROM '';
          (sdb, st) = split_physical_name (safe_table tbl);
          (udb, ut) = split_physical_name (unsafe_table tbl);
          out = project @ quote_qualified sdb st;
          both = out @ '' UNION ALL '' @ project @ quote_qualified udb ut;
          parts = excluded_unsafe_parts tbl
      in if get_read_mode args \<noteq> ReadModeUnsafeLatest then out
         else if parts = [] then both
         else both @ '' WHERE _part NOT IN ('' @ join_with '', '' (map sql_literal parts) @ '')'')"

text \<open>\<open>engine.QuoteIdentifier\<close>: every name equal to \<open>rid\<close> is marked as quoted.\<close>

definition si_decision ::
    "(json \<Rightarrow> gostring \<Rightarrow> engine_error + json) \<Rightarrow> engine \<Rightarrow> table_target \<Rightarrow> si_table \<Rightarrow> si_args option \<Rightarrow>
     (gostring \<times> gostring) list \<Rightarrow> engine_error + table_decision \<times> (gostring \<times> gostring) list" where
  "si_decision quote_identifier e tt tbl args rewrites =
     (let rid = get_reserved_row_id_column args
      in case e_parse_one e (si_surface_sql tbl args) of
           Inl err \<Rightarrow> Inl err
         | Inr body \<Rightarrow>
             map_sum id (\<lambda>quoted. (ActionSubquery quoted, record_rewrite tt [] (safe_table tbl) rewrites))
               (if rid \<noteq> [] \<and> rid \<noteq> default_reserved_row_id_column then quote_identifier body rid else Inr body))"

section \<open>System tables\<close>

record object_ref =
  or_db :: gostring
  or_table :: gostring
  or_exact :: bool

definition is_system_database :: "gostring \<Rightarrow> gostring \<Rightarrow> bool" where
  "is_system_database db contextDB = ((if db = [] then contextDB else db) = SystemDatabase)"

text \<open>A reference to an object of the storage-integrity surface.\<close>

definition names_si_object :: "dynamic_args option \<Rightarrow> object_ref \<Rightarrow> bool" where
  "names_si_object dyn ref =
     (let db = (if or_db ref = [] then get_logical_context dyn else or_db ref)
      in is_si_physical_database db dyn \<or>
         \<not> or_exact ref \<and> is_si_logical_database db dyn \<or>
         lookup_storage_integrity (or_db ref) (or_table ref) dyn \<noteq> None)"

definition system_table_step :: "dynamic_args option \<Rightarrow> gostring option \<times> bool \<Rightarrow> object_ref \<Rightarrow> gostring option \<times> bool" where
  "system_table_step dyn found ref =
     (let (refused, siObject) = found
      in if is_system_database (or_db ref) (get_logical_context dyn) then
           (if refused = None \<and> \<not> (or_exact ref \<and> system_table_allowed (or_table ref))
            then Some (or_table ref) else refused, siObject)
         else if \<not> storage_integrity_surface_active dyn \<or> siObject then found
         else (refused, names_si_object dyn ref))"

text \<open>The refused table, if there is one, and whether the statement also names a storage-integrity object.\<close>

definition system_table_scan ::
    "(engine \<Rightarrow> json \<Rightarrow> gostring \<Rightarrow> engine_error + object_ref list) \<Rightarrow> engine \<Rightarrow> json \<Rightarrow> gostring \<Rightarrow> selection \<Rightarrow>
     engine_error + gostring option \<times> bool" where
  "system_table_scan object_refs e ast sql sel =
     (if sel_mode sel \<noteq> ModeDynamic then Inr (None, False)
      else map_sum id (foldl (system_table_step (sel_dynamic sel)) (None, False)) (object_refs e ast sql))"

definition clear_rewrites :: "response \<Rightarrow> response" where
  "clear_rewrites resp = resp\<lparr>r_table_rewrites := [], r_database_rewrites := [], r_privileges_deltas := []\<rparr>"

definition reject_system_table :: "gostring \<Rightarrow> selection \<Rightarrow> response \<Rightarrow> response" where
  "reject_system_table table sel resp =
     (let refused = clear_rewrites (refuse CodeUnsupportedStatement (system_table_refused_message table) resp)
      in if table \<noteq> [] then record_accessed_write_unique (no_target\<lparr>tt_db := SystemDatabase, tt_table := table\<rparr>) sel refused
         else refused)"

definition reject_system_tables_on_success ::
    "(engine \<Rightarrow> json \<Rightarrow> gostring \<Rightarrow> engine_error + object_ref list) \<Rightarrow> engine \<Rightarrow> json \<Rightarrow> gostring \<Rightarrow> selection \<Rightarrow>
     response \<Rightarrow> bool \<times> response" where
  "reject_system_tables_on_success object_refs e ast sql sel resp =
     (if sel_mode sel \<noteq> ModeDynamic \<or> \<not> storage_integrity_surface_active (sel_dynamic sel) then (False, resp)
      else case system_table_scan object_refs e ast sql sel of
             Inl _ \<Rightarrow> (True, echo sql (clear_rewrites (refuse CodeUnsupportedStatement si_unmodelled_message resp)))
           | Inr (None, _) \<Rightarrow> (False, resp)
           | Inr (Some table, _) \<Rightarrow> (True, echo sql (reject_system_table table sel resp)))"

section \<open>The better message of a refusal\<close>

datatype name_ref = DatabaseRef gostring | TableRef gostring gostring

text \<open>The message a reference proves, if any.\<close>

definition name_ref_message :: "dynamic_args option \<Rightarrow> name_ref \<Rightarrow> gostring option" where
  "name_ref_message dyn ref =
     (case ref of
        DatabaseRef db \<Rightarrow>
          if is_si_physical_database db dyn then Some (si_physical_database_reject_message db) else None
      | TableRef db table \<Rightarrow>
          (let physicalDB = (if db = [] then get_logical_context dyn else db)
           in if is_si_physical_database physicalDB dyn
              then Some (si_physical_reject_message (qualify physicalDB table))
              else map_option (\<lambda>(_, key). si_write_reject_message key) (lookup_storage_integrity db table dyn)))"

definition select_table_message :: "dynamic_args option \<Rightarrow> table_target \<Rightarrow> gostring option" where
  "select_table_message dyn tt =
     (if tt_db tt = [] then None
      else if is_si_physical_database (tt_db tt) dyn
      then Some (si_physical_reject_message (qualify (tt_db tt) (tt_table tt))) else None)"

definition annotate_message :: "gostring option \<Rightarrow> response \<Rightarrow> response" where
  "annotate_message msg resp = (case msg of Some m \<Rightarrow> resp\<lparr>r_message := m\<rparr> | None \<Rightarrow> resp)"

text \<open>\<open>AnnotateStorageIntegrityRejectAST\<close>; \<open>name_refs\<close> and \<open>select_tables\<close> are \<open>NameRefsFromAST\<close> and \<open>CollectSelectTables\<close>.\<close>

definition annotate_si_reject ::
    "(engine \<Rightarrow> json \<Rightarrow> gostring \<Rightarrow> engine_error + name_ref list) \<Rightarrow> (json \<Rightarrow> engine_error + table_target list) \<Rightarrow>
     engine \<Rightarrow> response \<Rightarrow> json \<Rightarrow> gostring \<Rightarrow> selection \<Rightarrow> response" where
  "annotate_si_reject name_refs select_tables e resp ast sql sel =
     (let dyn = sel_dynamic sel
      in if r_code resp = CodeSuccess then resp
         else if r_message resp = identifier_parameter_message then resp
         else if sel_mode sel \<noteq> ModeDynamic \<or> \<not> storage_integrity_surface_active dyn then resp
         else if touches_storage_integrity (r_accessed resp) then resp
         else case name_refs e ast sql of
                Inl _ \<Rightarrow> resp
              | Inr refs \<Rightarrow>
                  (case first_some (map (name_ref_message dyn) refs) of
                     Some m \<Rightarrow> resp\<lparr>r_message := m\<rparr>
                   | None \<Rightarrow>
                       (case node_kind ast of
                          Inl _ \<Rightarrow> resp
                        | Inr kind \<Rightarrow>
                            if kind = NodeCommand then resp
                            else case select_tables ast of
                                   Inl _ \<Rightarrow> resp
                                 | Inr tables \<Rightarrow> annotate_message (first_some (map (select_table_message dyn) tables)) resp)))"

section \<open>The preflight of the writes\<close>

text \<open>What the walks of the AST find; \<open>pc_mutation\<close> lists the assignments' reads before the predicate's.\<close>

datatype mutation_read = MutationTable table_target | MutationNamespace namespace_ref

record preflight_checks =
  pc_functions :: "json \<Rightarrow> engine_error + table_target list"
  pc_mutation :: "engine \<Rightarrow> json \<Rightarrow> gostring \<Rightarrow> engine_error + mutation_read list"
  pc_namespaces :: "json \<Rightarrow> engine_error + namespace_ref list"
  pc_carriers :: "engine \<Rightarrow> json \<Rightarrow> response \<Rightarrow> engine_error + bool \<times> response"
  pc_ungoverned :: "engine \<Rightarrow> json \<Rightarrow> gostring \<Rightarrow> selection \<Rightarrow> response \<Rightarrow> engine_error + bool \<times> response"

definition slot_targets :: "gostring \<Rightarrow> json \<Rightarrow> table_target list" where
  "slot_targets kind body =
     (if kind = NodeDropTable then
        (case field ''names'' body of
           JArray names \<Rightarrow> map decode_table_target (filter is_object names)
         | _ \<Rightarrow> [])
      else filter (\<lambda>t. tt_db t \<noteq> [] \<or> tt_table t \<noteq> [])
             (map (\<lambda>(_, p). decode_table_target (slot_node body p)) (write_slots kind body)))"

definition extra_targets ::
    "(json \<Rightarrow> engine_error + table_target list) \<Rightarrow> engine \<Rightarrow> gostring \<Rightarrow> json \<Rightarrow> json \<Rightarrow> engine_error + table_target list" where
  "extra_targets functions e kind ast body =
     (if kind = NodeAlterTable then alter_cross_table_targets e body
      else if kind = NodeCommand then
        (case raw_table_refs e ast of
           Inl err \<Rightarrow> Inl err
         | Inr (raw, _) \<Rightarrow> map_sum id (\<lambda>dbs. raw @ dbs) (raw_command_database_targets e ast))
      else if kind = NodeCreateDB \<or> kind = NodeDropDB then
        map_sum id (\<lambda>(db, _, _). [no_target\<lparr>tt_db := db\<rparr>]) (database_target ast)
      else if kind = NodeCreateTable \<or> kind = NodeInsert then functions ast
      else Inr [])"

definition all_write_targets ::
    "(json \<Rightarrow> engine_error + table_target list) \<Rightarrow> engine \<Rightarrow> json \<Rightarrow> engine_error + table_target list" where
  "all_write_targets functions e ast =
     (case body_of ast of
        Inl err \<Rightarrow> Inl err
      | Inr (kind, None) \<Rightarrow> Inr []
      | Inr (kind, Some body) \<Rightarrow>
          map_sum id (\<lambda>extra. slot_targets kind body @ extra) (extra_targets functions e kind ast body))"

text \<open>\<open>inspectTarget\<close>: the refusal of one target, if it is refused.\<close>

definition inspect_target :: "selection \<Rightarrow> table_target \<Rightarrow> bool \<Rightarrow> response option" where
  "inspect_target sel tt allowLogical =
     (let dyn = sel_dynamic sel; resp = new_write_resp StUnspecified; seen = record_accessed_write tt sel resp
      in if tt_table tt = [] then
           (if tt_db tt \<noteq> [] \<and> is_si_physical_database (tt_db tt) dyn
            then Some (reject_unsupported (si_physical_database_reject_message (tt_db tt))
                         (record_accessed_database (tt_db tt) dyn resp))
            else None)
         else if snd (lookup_si_physical (tt_db tt) (tt_table tt) dyn) then
           Some (reject_unsupported (si_physical_reject_message (qualify (tt_db tt) (tt_table tt))) seen)
         else case lookup_storage_integrity (tt_db tt) (tt_table tt) dyn of
                None \<Rightarrow> None
              | Some (_, key) \<Rightarrow>
                  (let (logical, authorized) = authorize_si_logical (tt_db tt) dyn
                   in if \<not> authorized then Some (reject_invalid (si_unauthorized_message logical) seen)
                      else if allowLogical then None
                      else Some (reject_unsupported (si_write_reject_message key) seen)))"

definition inspect_mutation_read :: "selection \<Rightarrow> mutation_read \<Rightarrow> response option" where
  "inspect_mutation_read sel read =
     (case read of
        MutationTable tt \<Rightarrow> inspect_target sel tt False
      | MutationNamespace ref \<Rightarrow>
          (let (rejected, resp) = reject_si_namespaces sel CodeUnsupportedStatement [ref] (new_write_resp StUnspecified)
           in if rejected then Some resp else None))"

definition inspect_mutation :: "preflight_checks \<Rightarrow> engine \<Rightarrow> json \<Rightarrow> gostring \<Rightarrow> selection \<Rightarrow> response option" where
  "inspect_mutation pc e ast sql sel =
     (if \<not> storage_integrity_surface_active (sel_dynamic sel) then None
      else case pc_mutation pc e ast sql of
             Inl _ \<Rightarrow> Some (echo sql (reject_unsupported ''statement is not supported'' (new_write_resp StUnspecified)))
           | Inr reads \<Rightarrow> map_option (echo sql) (first_some (map (inspect_mutation_read sel) reads)))"

definition inspect_allowlists ::
    "preflight_checks \<Rightarrow> engine \<Rightarrow> json \<Rightarrow> gostring \<Rightarrow> selection \<Rightarrow> response \<Rightarrow> engine_error + response option" where
  "inspect_allowlists pc e ast sql sel resp =
     (if \<not> storage_integrity_surface_active (sel_dynamic sel) then Inr None
      else case pc_carriers pc e ast resp of
             Inl err \<Rightarrow> Inl err
           | Inr (True, r) \<Rightarrow> Inr (Some r)
           | Inr (False, r) \<Rightarrow>
               map_sum id (\<lambda>(rejected, r'). if rejected then Some (echo sql r') else None)
                 (pc_ungoverned pc e ast sql sel r))"

definition preflight_si_write :: "preflight_checks \<Rightarrow> write_preflight" where
  "preflight_si_write pc e ast sql info sel siDrop =
     (if sel_mode sel \<noteq> ModeDynamic \<or> wi_kind info \<in> {NodeSelect, NodeUnion, NodeIntersect, NodeExcept} then Inr None
      else case all_write_targets (pc_functions pc) e ast of
             Inl err \<Rightarrow> Inl err
           | Inr targets \<Rightarrow>
               (case first_some (map (\<lambda>tt. inspect_target sel tt (wi_kind info = NodeInsert \<or> siDrop)) (first_identities {} targets)) of
                  Some resp \<Rightarrow> Inr (Some resp)
                | None \<Rightarrow>
                    (case inspect_mutation pc e ast sql sel of
                       Some resp \<Rightarrow> Inr (Some resp)
                     | None \<Rightarrow>
                         (case pc_namespaces pc ast of
                            Inl err \<Rightarrow> Inl err
                          | Inr refs \<Rightarrow>
                              (case reject_si_namespaces sel CodeUnsupportedStatement refs (new_write_resp StUnspecified) of
                                 (True, resp) \<Rightarrow> Inr (Some resp)
                               | (False, resp) \<Rightarrow> inspect_allowlists pc e ast sql sel resp)))))"

end
