(* ===== verification/SI_Policy_Facts.thy ===== *)
theory SI_Policy_Facts
  imports SI_Policy Write_Dispatch_Facts
begin

text \<open>
  What the storage-integrity policy guarantees: the namespace check passes exactly the references that reach no
  storage-integrity namespace, a refusal carries a flagged accessed table, a part name reads back from its
  literal, the system-table check passes exactly the allowed tables, and the preflight of a write lets no
  storage-integrity target or read through.
\<close>

section \<open>Namespace references\<close>

lemma semantic_or_unresolved_id [simp]: "semantic_or_unresolved ref = ref"
  by (cases ref) (simp add: semantic_or_unresolved_def semantic_namespace_ref_def semantic_part_def
      read_source_name_def decoded_ast_identifier_def)

text \<open>Where ClickHouse looks for the table of a reference.\<close>

definition ref_location :: "dynamic_args option \<Rightarrow> namespace_ref \<Rightarrow> gostring \<times> gostring" where
  "ref_location dyn ref =
     (if nr_current_database ref then table_function_execution_database dyn else tt_db (nr_target ref),
      tt_table (nr_target ref))"

definition located :: "dynamic_args option \<Rightarrow> namespace_ref \<Rightarrow> bool" where
  "located dyn ref \<longleftrightarrow>
     (if nr_current_database ref then fst (ref_location dyn ref) \<noteq> [] \<and> snd (ref_location dyn ref) \<noteq> []
      else nr_resolved ref)"

definition outside_si :: "dynamic_args option \<Rightarrow> gostring \<times> gostring \<Rightarrow> bool" where
  "outside_si dyn place \<longleftrightarrow>
     \<not> is_si_physical_database (fst place) dyn \<and> \<not> is_si_logical_database (fst place) dyn \<and>
     lookup_storage_integrity (fst place) (snd place) dyn = None"

text \<open>The session's own reading of an unqualified name, which does not count for an \<open>IN\<close> operand.\<close>

definition session_key_free :: "dynamic_args option \<Rightarrow> namespace_ref \<Rightarrow> bool" where
  "session_key_free dyn ref \<longleftrightarrow>
     nr_current_database ref \<and> nr_source ref \<noteq> NamespaceInTable \<longrightarrow>
     lookup_storage_integrity [] (tt_table (nr_target ref)) dyn = None"

definition ref_clear :: "dynamic_args option \<Rightarrow> namespace_ref \<Rightarrow> bool" where
  "ref_clear dyn ref \<longleftrightarrow> located dyn ref \<and> outside_si dyn (ref_location dyn ref) \<and> session_key_free dyn ref"

lemma lookup_no_table [simp]: "lookup_storage_integrity db [] dyn = None"
  by (simp add: lookup_storage_integrity_def Let_def)

lemma reject_resolved_ref_None:
  "reject_resolved_ref sel code ref target resp = None \<longleftrightarrow> outside_si (sel_dynamic sel) (tt_db target, tt_table target)"
  by (auto simp: reject_resolved_ref_def outside_si_def reject_exact_key_def reject_logical_database_def
      split: option.splits)

lemma reject_namespace_ref_None:
  "reject_namespace_ref sel code ref resp = None \<longleftrightarrow> ref_clear (sel_dynamic sel) ref"
  by (auto simp: reject_namespace_ref_def Let_def ref_clear_def located_def ref_location_def session_key_free_def
      reject_resolved_ref_None split: option.splits)

lemma reject_namespace_refs_pass:
  "reject_namespace_refs sel code refs resp = (rejected, resp') \<Longrightarrow>
     (rejected \<longleftrightarrow> \<not> list_all (ref_clear (sel_dynamic sel)) refs) \<and> (\<not> rejected \<longrightarrow> resp' = resp)"
proof (induction refs)
  case (Cons ref refs)
  then show ?case
    using reject_namespace_ref_None [of sel code ref resp]
    by (cases "reject_namespace_ref sel code ref resp") simp_all
qed simp

lemma reject_si_namespaces_pass:
  "reject_si_namespaces sel code refs resp = (False, resp') \<longleftrightarrow>
     resp' = resp \<and>
     (sel_mode sel = ModeDynamic \<and> storage_integrity_surface_active (sel_dynamic sel) \<longrightarrow>
        list_all (ref_clear (sel_dynamic sel)) refs)"
  using reject_namespace_refs_pass [of sel code refs resp]
  by (cases "reject_namespace_refs sel code refs resp") (auto simp: reject_si_namespaces_def)

text \<open>
  C10. The namespace check passes exactly the lists whose every reference is located (its database and table
  are known, with an unqualified one looked up where ClickHouse executes) outside the storage-integrity
  surface, and then leaves the response alone.
\<close>

theorem reject_si_namespaces_iff:
  "reject_si_namespaces sel code refs resp = (False, resp') \<longleftrightarrow>
     resp' = resp \<and>
     (sel_mode sel = ModeDynamic \<and> storage_integrity_surface_active (sel_dynamic sel) \<longrightarrow>
        list_all (\<lambda>ref. located (sel_dynamic sel) ref \<and> outside_si (sel_dynamic sel) (ref_location (sel_dynamic sel) ref) \<and>
                        session_key_free (sel_dynamic sel) ref) refs)"
  by (simp add: reject_si_namespaces_pass ref_clear_def [abs_def])

section \<open>A refusal is flagged\<close>

text \<open>
  The legacy gates behind the rewriter forward a refused statement unless an accessed table is flagged as
  storage-integrity. Entries recorded by the handlers are faithful: the flag of a table is what the policy says of
  its written name, and the flag of a database is set at least for a physical one.
\<close>

definition faithful_entry :: "selection \<Rightarrow> accessed_table \<Rightarrow> bool" where
  "faithful_entry sel a \<longleftrightarrow>
     (if at_original_table a \<noteq> []
      then at_is_storage_integrity a \<longleftrightarrow> ac_is_si (resolve_accessed (at_original_database a) (at_original_table a) sel)
      else is_si_physical_database (at_original_database a) (sel_dynamic sel) \<longrightarrow> at_is_storage_integrity a)"

definition faithful :: "selection \<Rightarrow> response \<Rightarrow> bool" where
  "faithful sel resp \<longleftrightarrow> list_all (faithful_entry sel) (r_accessed resp)"

definition flagged :: "response \<Rightarrow> bool" where
  "flagged resp \<longleftrightarrow> touches_storage_integrity (r_accessed resp)"

lemma flagged_refuse [simp]: "flagged (refuse code msg resp) = flagged resp"
  "faithful sel (refuse code msg resp) = faithful sel resp"
  by (simp_all add: flagged_def faithful_def refuse_def)

lemma flagged_refuse_logical [simp]: "flagged (refuse_logical dyn db code msg resp) = flagged resp"
  by (simp add: refuse_logical_def split: prod.splits)

lemma flagged_add [simp]: "flagged (add_accessed a resp) \<longleftrightarrow> flagged resp \<or> at_is_storage_integrity a"
  by (auto simp: flagged_def touches_storage_integrity_def add_accessed_def)

lemma faithful_add [simp]: "faithful sel (add_accessed a resp) \<longleftrightarrow> faithful sel resp \<and> faithful_entry sel a"
  by (auto simp: faithful_def add_accessed_def)

lemma flagged_exists: "a \<in> set (r_accessed resp) \<Longrightarrow> at_is_storage_integrity a \<Longrightarrow> flagged resp"
  by (auto simp: flagged_def touches_storage_integrity_def list_ex_iff)

lemma accessed_si:
  assumes "sel_mode sel = ModeDynamic" "table \<noteq> []"
    and "is_si_physical_database (if db = [] then get_logical_context (sel_dynamic sel) else db) (sel_dynamic sel) \<or>
         lookup_storage_integrity db table (sel_dynamic sel) \<noteq> None"
  shows "ac_is_si (resolve_accessed db table sel)"
  using assms by (auto simp: resolve_accessed_def Let_def lookup_si_physical_database accessed0_def split: if_splits)

lemma record_write_flagged:
  assumes "faithful sel resp" "tt_table tt \<noteq> []" "ac_is_si (resolve_accessed (tt_db tt) (tt_table tt) sel)"
  shows "flagged (record_accessed_write_unique tt sel resp)"
proof (cases "list_ex (same_original (tt_db tt) (tt_table tt)) (r_accessed resp)")
  case True
  then obtain a where "a \<in> set (r_accessed resp)" "same_original (tt_db tt) (tt_table tt) a"
    by (auto simp: list_ex_iff)
  then show ?thesis
    using assms True flagged_exists [of a resp]
    by (auto simp: record_accessed_write_unique_def faithful_def list_all_iff faithful_entry_def same_original_def)
next
  case False
  then show ?thesis
    using assms by (simp add: record_accessed_write_unique_def record_accessed_write_def accessed_entry_def Let_def)
qed

lemma record_database_flagged:
  assumes "faithful sel resp" "is_si_physical_database db (sel_dynamic sel)"
  shows "flagged (record_accessed_database_unique db (sel_dynamic sel) resp)"
proof (cases "list_ex (same_original db []) (r_accessed resp)")
  case True
  then obtain a where "a \<in> set (r_accessed resp)" "same_original db [] a" by (auto simp: list_ex_iff)
  then show ?thesis
    using assms True flagged_exists [of a resp]
    by (auto simp: record_accessed_database_unique_def faithful_def list_all_iff faithful_entry_def same_original_def)
next
  case False
  then show ?thesis
    using assms(2) by (auto simp: record_accessed_database_unique_def record_accessed_database_def
        is_si_physical_database_def)
qed

lemma record_database_keeps_flag:
  "flagged resp \<Longrightarrow> flagged (record_accessed_database_unique db dyn resp)"
  by (simp add: record_accessed_database_unique_def record_accessed_database_def split: prod.splits)

lemma record_databases_keep_flag:
  "flagged resp \<Longrightarrow> flagged (foldl (\<lambda>r db. record_accessed_database_unique db dyn r) resp dbs)"
  by (induction dbs arbitrary: resp) (simp_all add: record_database_keeps_flag)

lemma record_databases_flagged:
  assumes "faithful sel resp" "dbs \<noteq> []" "list_all (\<lambda>db. is_si_physical_database db (sel_dynamic sel)) dbs"
  shows "flagged (foldl (\<lambda>r db. record_accessed_database_unique db (sel_dynamic sel) r) resp dbs)"
  using assms by (cases dbs) (auto intro!: record_databases_keep_flag record_database_flagged)

lemma record_logical_flagged: "flagged (record_si_logical_database_unique db dyn resp)"
  by (auto simp: record_si_logical_database_unique_def list_ex_iff dest: flagged_exists)

text \<open>A reference as the collectors report it: resolved only with a table, unqualified only without a database.\<close>

definition wf_ref :: "namespace_ref \<Rightarrow> bool" where
  "wf_ref ref \<longleftrightarrow>
     (nr_resolved ref \<longrightarrow> tt_table (nr_target ref) \<noteq> []) \<and> (nr_current_database ref \<longrightarrow> tt_db (nr_target ref) = [])"

lemma reject_logical_database_flagged:
  "reject_logical_database sel code ref db resp = Some r \<Longrightarrow> flagged r"
  by (auto simp: reject_logical_database_def record_logical_flagged split: if_splits)

lemma reject_exact_key_flagged:
  assumes "reject_exact_key sel code ref target resp = Some r" "sel_mode sel = ModeDynamic" "faithful sel resp"
  shows "flagged r"
proof -
  obtain t key where hit: "lookup_storage_integrity (tt_db target) (tt_table target) (sel_dynamic sel) = Some (t, key)"
    using assms(1) by (auto simp: reject_exact_key_def split: option.splits)
  then have "tt_table target \<noteq> []" by auto
  then show ?thesis
    using assms hit accessed_si [OF assms(2), of "tt_table target" "tt_db target"]
      record_write_flagged [OF assms(3), of target]
    by (auto simp: reject_exact_key_def)
qed

lemma reject_resolved_ref_flagged:
  assumes "reject_resolved_ref sel code ref target resp = Some r" "sel_mode sel = ModeDynamic" "faithful sel resp"
    "tt_table target \<noteq> []"
  shows "flagged r"
proof (cases "is_si_physical_database (tt_db target) (sel_dynamic sel)")
  case True
  then have "tt_db target \<noteq> []" by (auto simp: is_si_physical_database_def)
  then show ?thesis
    using assms True accessed_si [OF assms(2,4), of "tt_db target"] record_write_flagged [OF assms(3,4)]
    by (auto simp: reject_resolved_ref_def)
next
  case False
  then show ?thesis
    using assms by (auto simp: reject_resolved_ref_def dest: reject_exact_key_flagged reject_logical_database_flagged
        split: option.splits)
qed

lemma reject_unresolved_ref_flagged:
  assumes "faithful sel resp" "si_physical_databases (sel_dynamic sel) \<noteq> []"
  shows "flagged (reject_unresolved_ref sel code ref target resp)"
proof -
  have "list_all (\<lambda>db. is_si_physical_database db (sel_dynamic sel)) (si_physical_databases (sel_dynamic sel))"
    by (auto simp: list_all_iff dest: si_physical_databases_sound)
  then show ?thesis
    using assms record_databases_flagged [OF assms(1,2)] record_database_flagged [OF assms(1)]
    by (auto simp: reject_unresolved_ref_def Let_def dest: reject_logical_database_flagged split: option.splits)
qed

lemma session_key_flagged:
  assumes "lookup_storage_integrity [] (tt_table target) (sel_dynamic sel) = Some hit" "sel_mode sel = ModeDynamic"
    "faithful sel resp" "tt_db target = []"
  shows "flagged (record_accessed_write_unique target sel resp)"
proof -
  have table: "tt_table target \<noteq> []" using assms(1) by auto
  show ?thesis
    using assms accessed_si [OF assms(2) table, of "[]"] record_write_flagged [OF assms(3) table] by simp
qed

lemma reject_namespace_ref_flagged:
  assumes "reject_namespace_ref sel code ref resp = Some r" "sel_mode sel = ModeDynamic" "faithful sel resp"
    and "wf_ref ref" "si_physical_databases (sel_dynamic sel) \<noteq> []"
  shows "flagged r"
proof -
  note unresolved = reject_unresolved_ref_flagged [OF assms(3,5)]
  note resolved = reject_resolved_ref_flagged [OF _ assms(2,3)]
  show ?thesis
  proof (cases "nr_current_database ref")
    case False
    then show ?thesis
      using assms(1,4) unresolved resolved [of code ref "nr_target ref" r]
      by (auto simp: reject_namespace_ref_def Let_def wf_ref_def split: if_splits)
  next
    case True
    then have "tt_db (nr_target ref) = []" using assms(4) by (simp add: wf_ref_def)
    then show ?thesis
      using assms(1) True unresolved
        resolved [of code ref "nr_target ref\<lparr>tt_db := table_function_execution_database (sel_dynamic sel)\<rparr>" r]
        session_key_flagged [OF _ assms(2,3), of "nr_target ref"]
      by (auto simp: reject_namespace_ref_def Let_def split: if_splits option.splits)
  qed
qed

lemma refuse_logical_code: "code \<noteq> CodeSuccess \<Longrightarrow> r_code (refuse_logical dyn db code msg resp) \<noteq> CodeSuccess"
  by (simp add: refuse_logical_def refuse_def split: prod.splits)

lemma reject_resolved_ref_code:
  "reject_resolved_ref sel code ref target resp = Some r \<Longrightarrow> code \<noteq> CodeSuccess \<Longrightarrow> r_code r \<noteq> CodeSuccess"
  by (auto simp: reject_resolved_ref_def reject_exact_key_def reject_logical_database_def refuse_logical_code
      split: if_splits option.splits) (simp add: refuse_def)

lemma reject_unresolved_ref_code:
  "code \<noteq> CodeSuccess \<Longrightarrow> r_code (reject_unresolved_ref sel code ref target resp) \<noteq> CodeSuccess"
  by (simp add: reject_unresolved_ref_def Let_def reject_logical_database_def refuse_logical_code)
    (simp add: refuse_def)

lemma reject_namespace_ref_code:
  "reject_namespace_ref sel code ref resp = Some r \<Longrightarrow> code \<noteq> CodeSuccess \<Longrightarrow> r_code r \<noteq> CodeSuccess"
  by (auto simp: reject_namespace_ref_def Let_def reject_unresolved_ref_code refuse_logical_code
      split: if_splits option.splits dest: reject_resolved_ref_code)

lemma reject_namespace_refs_flagged:
  assumes "reject_namespace_refs sel code refs resp = (True, r)" "sel_mode sel = ModeDynamic" "faithful sel resp"
    and "list_all wf_ref refs" "si_physical_databases (sel_dynamic sel) \<noteq> []" "code \<noteq> CodeSuccess"
  shows "r_code r \<noteq> CodeSuccess \<and> flagged r"
  using assms
  by (induction refs)
    (auto split: option.splits dest: reject_namespace_ref_code reject_namespace_ref_flagged)

text \<open>
  A refusal of the namespace check is never a Success and always carries an accessed table flagged as
  storage-integrity, so that a legacy gate that only looks at the flags cannot forward the statement; also where
  the statement proves no namespace, as long as the configuration has one.
\<close>

theorem reject_si_namespaces_flagged:
  assumes "reject_si_namespaces sel code refs resp = (True, resp')" "code \<noteq> CodeSuccess"
    and "faithful sel resp" "list_all wf_ref refs" "si_physical_databases (sel_dynamic sel) \<noteq> []"
  shows "r_code resp' \<noteq> CodeSuccess \<and> touches_storage_integrity (r_accessed resp')"
  using assms reject_namespace_refs_flagged [of sel code refs resp resp']
  by (auto simp: reject_si_namespaces_def flagged_def split: if_splits)

definition merge_ref :: namespace_ref where
  "merge_ref =
     \<lparr>nr_source = NamespaceTableFunction, nr_name = ''merge'', nr_target = no_target\<lparr>tt_table := ''.*''\<rparr>,
      nr_resolved = False, nr_current_database = True, nr_database_identifier = False, nr_table_identifier = False\<rparr>"

definition dictionary_ref :: namespace_ref where
  "dictionary_ref =
     \<lparr>nr_source = NamespaceDictionarySource, nr_name = ''CLICKHOUSE'', nr_target = no_target,
      nr_resolved = False, nr_current_database = False, nr_database_identifier = False, nr_table_identifier = False\<rparr>"

lemma reject_si_namespaces_iff_witness:
  "reject_si_namespaces sample_selection CodeUnsupportedStatement [merge_ref] (new_write_resp StUnspecified) =
     (False, new_write_resp StUnspecified)"
proof -
  have "list_all (\<lambda>ref. located (sel_dynamic sample_selection) ref \<and>
      outside_si (sel_dynamic sample_selection) (ref_location (sel_dynamic sample_selection) ref) \<and>
      session_key_free (sel_dynamic sample_selection) ref) [merge_ref]"
    by code_simp
  then show ?thesis by (simp add: reject_si_namespaces_iff)
qed

lemma reject_si_namespaces_flagged_witness:
  "\<exists>resp. reject_si_namespaces sample_selection CodeUnsupportedStatement [merge_ref, dictionary_ref] (new_write_resp StUnspecified) =
       (True, resp) \<and> r_code resp \<noteq> CodeSuccess \<and> touches_storage_integrity (r_accessed resp)"
proof -
  let ?run = "reject_si_namespaces sample_selection CodeUnsupportedStatement [merge_ref, dictionary_ref] (new_write_resp StUnspecified)"
  have "fst ?run" by code_simp
  moreover have "faithful sample_selection (new_write_resp StUnspecified)" by code_simp
  moreover have "list_all wf_ref [merge_ref, dictionary_ref]" by code_simp
  moreover have "si_physical_databases (sel_dynamic sample_selection) \<noteq> []" by code_simp
  ultimately show ?thesis
    using reject_si_namespaces_flagged
      [of sample_selection CodeUnsupportedStatement "[merge_ref, dictionary_ref]" "new_write_resp StUnspecified" "snd ?run"]
    by (cases ?run) auto
qed

section \<open>The literals of the derived table\<close>

lemma unquote_escaped: "unquote_body squote (escape_sql_literal s) = Some s"
proof (induction s)
  case (Cons c s)
  have ne: "squote \<noteq> backslash" "CHR ''x'' \<noteq> backslash" "backslash \<noteq> squote" by (simp_all add: quote_chars)
  have esc: "unquote_byte backslash = [backslash]" by code_simp
  have split: "escape_sql_literal (c # s) =
      (if c = backslash then [backslash, backslash] else if c = squote then [squote, squote] else [c]) @ escape_sql_literal s"
    by (simp add: escape_sql_literal_def double_byte_def quote_chars)
  show ?case unfolding split using Cons ne esc by auto
qed (simp add: escape_sql_literal_def double_byte_def)

text \<open>
  C39. Every part name of the configuration reads back from the literal the derived table holds it in, whatever
  quotes and backslashes it has: a part name cannot end its literal.
\<close>

theorem sql_literal_roundtrip: "clickhouse_unquote (sql_literal part) = Some part"
  using unquote_escaped [of part] by (simp add: clickhouse_unquote_def sql_literal_def quote_chars)

section \<open>System tables\<close>

definition system_ref_allowed :: "dynamic_args option \<Rightarrow> object_ref \<Rightarrow> bool" where
  "system_ref_allowed dyn ref \<longleftrightarrow>
     (is_system_database (or_db ref) (get_logical_context dyn) \<longrightarrow>
        or_exact ref \<and> system_table_allowed (or_table ref))"

lemma system_table_step_refused:
  "fst (system_table_step dyn found ref) = None \<longleftrightarrow> fst found = None \<and> system_ref_allowed dyn ref"
  by (cases found) (auto simp: system_table_step_def system_ref_allowed_def)

lemma system_table_steps_refused:
  "fst (foldl (system_table_step dyn) found refs) = None \<longleftrightarrow> fst found = None \<and> list_all (system_ref_allowed dyn) refs"
  by (induction refs arbitrary: found) (auto simp: system_table_step_refused)

lemma system_tables_pass_iff:
  "fst (reject_system_tables_on_success object_refs e ast sql sel resp) \<longleftrightarrow>
     sel_mode sel = ModeDynamic \<and> storage_integrity_surface_active (sel_dynamic sel) \<and>
     (case object_refs e ast sql of
        Inl _ \<Rightarrow> True
      | Inr refs \<Rightarrow> \<not> list_all (system_ref_allowed (sel_dynamic sel)) refs)"
proof (cases "sel_mode sel = ModeDynamic \<and> storage_integrity_surface_active (sel_dynamic sel)")
  case True
  show ?thesis
  proof (cases "object_refs e ast sql")
    case (Inr refs)
    obtain refused siObject where scan:
      "foldl (system_table_step (sel_dynamic sel)) (None, False) refs = (refused, siObject)"
      by fastforce
    have "refused = None \<longleftrightarrow> list_all (system_ref_allowed (sel_dynamic sel)) refs"
      using system_table_steps_refused [of "sel_dynamic sel" "(None, False)" refs] scan by simp
    then show ?thesis
      using True Inr scan
      by (cases refused) (simp_all add: reject_system_tables_on_success_def system_table_scan_def)
  qed (use True in \<open>simp add: reject_system_tables_on_success_def system_table_scan_def\<close>)
qed (auto simp: reject_system_tables_on_success_def)

text \<open>
  C38. While the storage-integrity surface is active, a Success stands exactly when every object reference of
  the caller's statement that names the system database names an allowed table exactly; a reference the
  statement does not prove, and a statement whose references cannot be read, are refused.
\<close>

theorem system_tables_on_success_iff:
  "fst (reject_system_tables_on_success object_refs e ast sql sel resp) \<longleftrightarrow>
     sel_mode sel = ModeDynamic \<and> storage_integrity_surface_active (sel_dynamic sel) \<and>
     (case object_refs e ast sql of
        Inl _ \<Rightarrow> True
      | Inr refs \<Rightarrow> \<not> list_all (system_ref_allowed (sel_dynamic sel)) refs)"
  by (rule system_tables_pass_iff)

section \<open>The preflight of a write\<close>

text \<open>A target the preflight admits.\<close>

definition admitted_target :: "selection \<Rightarrow> bool \<Rightarrow> table_target \<Rightarrow> bool" where
  "admitted_target sel allowLogical tt \<longleftrightarrow>
     (let dyn = sel_dynamic sel; db = (if tt_table tt = [] \<or> tt_db tt \<noteq> [] then tt_db tt else get_logical_context dyn)
      in \<not> is_si_physical_database db dyn \<and>
         (lookup_storage_integrity (tt_db tt) (tt_table tt) dyn \<noteq> None \<longrightarrow>
            snd (authorize_si_logical (tt_db tt) dyn) \<and> allowLogical))"

lemma inspect_target_None: "inspect_target sel tt allowLogical = None \<longleftrightarrow> admitted_target sel allowLogical tt"
proof (cases "tt_table tt = []")
  case True
  then show ?thesis
    by (auto simp: inspect_target_def admitted_target_def Let_def is_si_physical_database_def)
next
  case False
  then show ?thesis
    by (auto simp: inspect_target_def admitted_target_def Let_def lookup_si_physical_database
        split: option.splits prod.splits if_splits)
qed

lemma first_some_None: "first_some xs = None \<longleftrightarrow> list_all (\<lambda>x. x = None) xs"
  by (induction xs) (auto split: option.splits)

lemma first_identities_cover:
  "tt \<in> set tts \<Longrightarrow> identity tt \<in> seen \<or> (\<exists>t \<in> set (first_identities seen tts). identity t = identity tt)"
proof (induction tts arbitrary: seen)
  case (Cons a tts)
  show ?case
    using Cons.prems Cons.IH [of seen] Cons.IH [of "insert (identity a) seen"] by auto
qed simp

lemma admitted_identity:
  "identity t = identity tt \<Longrightarrow> admitted_target sel a t \<longleftrightarrow> admitted_target sel a tt"
  by (auto simp: identity_def admitted_target_def)

lemma admitted_all:
  "first_some (map (\<lambda>tt. inspect_target sel tt a) (first_identities {} tts)) = None \<Longrightarrow>
     list_all (admitted_target sel a) tts"
  unfolding first_some_None list_all_iff
  by (metis (no_types, lifting) admitted_identity empty_iff first_identities_cover imageI inspect_target_None list.set_map)

definition admitted_read :: "selection \<Rightarrow> mutation_read \<Rightarrow> bool" where
  "admitted_read sel read \<longleftrightarrow>
     (case read of MutationTable tt \<Rightarrow> admitted_target sel False tt
      | MutationNamespace ref \<Rightarrow> ref_clear (sel_dynamic sel) ref)"

lemma inspect_mutation_read_None:
  assumes "sel_mode sel = ModeDynamic" "storage_integrity_surface_active (sel_dynamic sel)"
  shows "inspect_mutation_read sel read = None \<longleftrightarrow> admitted_read sel read"
proof (cases read)
  case (MutationNamespace ref)
  then show ?thesis
    using assms reject_namespace_ref_None [of sel CodeUnsupportedStatement ref "new_write_resp StUnspecified"]
    by (auto simp: inspect_mutation_read_def admitted_read_def reject_si_namespaces_def split: option.splits)
qed (simp add: inspect_mutation_read_def admitted_read_def inspect_target_None)

lemma inspect_mutation_None:
  assumes "inspect_mutation pc e ast sql sel = None" "sel_mode sel = ModeDynamic"
    "storage_integrity_surface_active (sel_dynamic sel)"
  shows "\<exists>reads. pc_mutation pc e ast sql = Inr reads \<and> list_all (admitted_read sel) reads"
  using assms
  by (auto simp: inspect_mutation_def first_some_None inspect_mutation_read_None list_all_iff split: sum.splits)

lemma inspect_target_code: "inspect_target sel tt a = Some resp \<Longrightarrow> r_code resp \<noteq> CodeSuccess"
  by (auto simp: inspect_target_def Let_def reject_unsupported_def reject_invalid_def reject_with_def
      split: if_splits option.splits prod.splits)

lemma first_some_Some: "first_some xs = Some v \<Longrightarrow> Some v \<in> set xs"
  by (induction xs) (auto split: option.splits)

lemma inspect_mutation_read_code: "inspect_mutation_read sel read = Some resp \<Longrightarrow> r_code resp \<noteq> CodeSuccess"
  by (auto simp: inspect_mutation_read_def reject_si_namespaces_def split: mutation_read.splits prod.splits if_splits
      option.splits dest: inspect_target_code reject_namespace_ref_code)

lemma reject_si_namespaces_code:
  "reject_si_namespaces sel code refs resp = (True, r) \<Longrightarrow> code \<noteq> CodeSuccess \<Longrightarrow> r_code r \<noteq> CodeSuccess"
proof (induction refs)
  case (Cons ref refs)
  then show ?case
    by (auto simp: reject_si_namespaces_def split: if_splits option.splits dest: reject_namespace_ref_code)
qed (simp add: reject_si_namespaces_def split: if_splits)

lemma inspect_mutation_code: "inspect_mutation pc e ast sql sel = Some resp \<Longrightarrow> r_code resp \<noteq> CodeSuccess"
  by (auto simp: inspect_mutation_def reject_unsupported_def reject_with_def new_write_resp_def echo_def
      split: if_splits sum.splits dest!: first_some_Some dest: inspect_mutation_read_code [OF sym])

text \<open>What the two allowlist checks of the preflight promise: their refusals are refusals.\<close>

definition refusing :: "preflight_checks \<Rightarrow> bool" where
  "refusing pc \<longleftrightarrow>
     (\<forall>e ast r r'. pc_carriers pc e ast r = Inr (True, r') \<longrightarrow> r_code r' \<noteq> CodeSuccess) \<and>
     (\<forall>e ast sql sel r r'. pc_ungoverned pc e ast sql sel r = Inr (True, r') \<longrightarrow> r_code r' \<noteq> CodeSuccess)"

lemma inspect_allowlists_code:
  "inspect_allowlists pc e ast sql sel r = Inr (Some resp) \<Longrightarrow> refusing pc \<Longrightarrow> r_code resp \<noteq> CodeSuccess"
  by (auto simp: inspect_allowlists_def refusing_def echo_def map_sum_def split: if_splits sum.splits bool.splits)

lemma preflight_code:
  assumes "preflight_si_write pc e ast sql info sel siDrop = Inr (Some resp)" "refusing pc"
  shows "r_code resp \<noteq> CodeSuccess"
  using assms
  by (auto simp: preflight_si_write_def split: if_splits sum.splits option.splits prod.splits bool.splits
      dest: inspect_allowlists_code inspect_mutation_code reject_si_namespaces_code
      dest!: first_some_Some dest: inspect_target_code [OF sym])

text \<open>Everything a write statement touches is outside the storage-integrity surface, or admitted on it.\<close>

definition write_admitted :: "preflight_checks \<Rightarrow> engine \<Rightarrow> json \<Rightarrow> gostring \<Rightarrow> selection \<Rightarrow> bool \<Rightarrow> bool" where
  "write_admitted pc e ast sql sel allowLogical \<longleftrightarrow>
     (\<exists>targets. all_write_targets (pc_functions pc) e ast = Inr targets \<and>
        list_all (admitted_target sel allowLogical) targets) \<and>
     (storage_integrity_surface_active (sel_dynamic sel) \<longrightarrow>
        (\<exists>reads. pc_mutation pc e ast sql = Inr reads \<and> list_all (admitted_read sel) reads) \<and>
        (\<exists>refs. pc_namespaces pc ast = Inr refs \<and> list_all (ref_clear (sel_dynamic sel)) refs))"

lemma preflight_pass:
  assumes "preflight_si_write pc e ast sql info sel siDrop = Inr None" "sel_mode sel = ModeDynamic"
    "wi_kind info \<notin> {NodeSelect, NodeUnion, NodeIntersect, NodeExcept}"
  shows "write_admitted pc e ast sql sel (wi_kind info = NodeInsert \<or> siDrop)"
proof -
  obtain targets refs resp where run: "all_write_targets (pc_functions pc) e ast = Inr targets"
    "first_some (map (\<lambda>tt. inspect_target sel tt (wi_kind info = NodeInsert \<or> siDrop)) (first_identities {} targets)) = None"
    "inspect_mutation pc e ast sql sel = None" "pc_namespaces pc ast = Inr refs"
    "reject_si_namespaces sel CodeUnsupportedStatement refs (new_write_resp StUnspecified) = (False, resp)"
    using assms
    by (auto simp: preflight_si_write_def split: if_splits sum.splits option.splits prod.splits bool.splits)
  then show ?thesis
    using assms(2) admitted_all [OF run(2)] inspect_mutation_None [OF run(3) assms(2)]
    by (auto simp: write_admitted_def reject_si_namespaces_pass)
qed

text \<open>
  C9. In dynamic mode a write that answers Success touches no storage-integrity namespace: its targets are
  outside the physical ones, and a storage-integrity table among them is authorised and the target of an INSERT
  or of a plain DROP under the V2 contract; while the surface is active every read of a mutation and every
  namespace reference is clear of it too.
\<close>

theorem write_success_admitted:
  assumes "rewrite_write core (preflight_si_write pc) e ast sql opts = Inr (Some resp)" "r_code resp = CodeSuccess"
    and "sel_mode (find_active opts) = ModeDynamic" "refusing pc"
  shows "\<exists>info siDrop. inspect_write ast = Inr info \<and>
     si_drop_allowed e sql info (find_active opts) = Inr siDrop \<and>
     write_admitted pc e ast sql (find_active opts) (wi_kind info = NodeInsert \<or> siDrop)"
proof -
  obtain info siDrop where run: "inspect_write ast = Inr info"
    "si_drop_allowed e sql info (find_active opts) = Inr siDrop"
    and cases: "preflight_si_write pc e ast sql info (find_active opts) siDrop = Inr (Some resp) \<or>
      preflight_si_write pc e ast sql info (find_active opts) siDrop = Inr None \<and>
      dispatch_write core e ast sql info opts (find_active opts) siDrop = Inr (Some resp)"
    using assms(1) by (auto simp: rewrite_write_def Let_def split: sum.splits option.splits)
  then have pass: "preflight_si_write pc e ast sql info (find_active opts) siDrop = Inr None"
    "dispatch_write core e ast sql info opts (find_active opts) siDrop = Inr (Some resp)"
    using assms(2,4) preflight_code by blast+
  have "wi_kind info \<notin> {NodeSelect, NodeUnion, NodeIntersect, NodeExcept}"
    using pass(2) by (auto simp: dispatch_write_def Let_def node_kind_defs NodeInsert_def NodeCommand_def NodeRaw_def)
  then show ?thesis
    using run preflight_pass [OF pass(1) assms(3)] by blast
qed

definition empty_checks :: preflight_checks where
  "empty_checks =
     \<lparr>pc_functions = (\<lambda>_. Inr []), pc_mutation = (\<lambda>_ _ _. Inr []), pc_namespaces = (\<lambda>_. Inr [merge_ref]),
      pc_carriers = (\<lambda>_ _ r. Inr (False, r)), pc_ungoverned = (\<lambda>_ _ _ _ r. Inr (False, r))\<rparr>"

definition delete_ast :: json where
  "delete_ast = JObject [(''delete'', JObject [(''table'', JObject [(''name'', ident ''t'')])])]"

definition delete_engine :: engine where
  "delete_engine =
     \<lparr>e_tokenize = (\<lambda>_. Inr []), e_parse_one = (\<lambda>_. Inl (EngineError [])), e_generate = (\<lambda>_. Inr ''done''),
      e_parse_generic = (\<lambda>_. Inl (EngineError []))\<rparr>"

lemma write_success_admitted_witness:
  "\<exists>resp. rewrite_write (\<lambda>_ _ _. Inl (EngineError [])) (preflight_si_write empty_checks) delete_engine delete_ast ''sql''
       sample_options = Inr (Some resp) \<and>
     r_sql_after_rewrite resp = ''done'' \<and>
     write_admitted empty_checks delete_engine delete_ast ''sql'' sample_selection False"
proof -
  let ?run = "rewrite_write (\<lambda>_ _ _. Inl (EngineError [])) (preflight_si_write empty_checks) delete_engine delete_ast ''sql'' sample_options"
  have "case ?run of Inr (Some resp) \<Rightarrow> r_code resp = CodeSuccess \<and> r_sql_after_rewrite resp = ''done'' | _ \<Rightarrow> False"
    by code_simp
  then obtain resp where run: "?run = Inr (Some resp)" "r_code resp = CodeSuccess" "r_sql_after_rewrite resp = ''done''"
    by (auto split: sum.splits option.splits)
  have "sel_mode (find_active sample_options) = ModeDynamic" "find_active sample_options = sample_selection"
    by code_simp+
  moreover have "refusing empty_checks" by (simp add: refusing_def empty_checks_def)
  moreover have "map_sum id wi_kind (inspect_write delete_ast) = Inr NodeDelete" "NodeDelete \<noteq> NodeInsert"
    "NodeDelete \<noteq> NodeDropTable" by code_simp+
  ultimately show ?thesis
    using write_success_admitted [OF run(1,2)] run
    by (auto simp: si_drop_allowed_def map_sum_def split: sum.splits)
qed

end
