(* ===== verification/Grant.thy ===== *)
theory Grant
  imports SI_Policy
begin

text \<open>
  \<open>GRANT\<close> and \<open>REVOKE\<close>: the parse (\<open>engine/grant.go\<close>), which combines the tokens of the statement with the
  node of the engine's generic dialect, and the handler (\<open>handlers/grant.go\<close>), which executes nothing: it
  answers one privilege delta per privilege and a marker \<open>SELECT\<close> that carries the statement as a literal.
  Decoding the node into a struct is modelled on nodes whose keys are spelled as the struct's fields.
\<close>

section \<open>The parse (engine/grant.go)\<close>

record grant_privilege =
  gp_name :: gostring
  gp_columns :: "gostring list"

record grant_securable =
  gs_db :: gostring
  gs_table :: gostring
  gs_all_tables :: bool
  gs_any_database :: bool
  gs_unrepresentable :: bool

record grant_parse =
  gr_is_grant_verb :: bool
  gr_is_revoke :: bool
  gr_is_attach :: bool
  gr_has_replace :: bool
  gr_has_on :: bool
  gr_structured :: bool
  gr_privileges :: "grant_privilege list"
  gr_securable :: grant_securable
  gr_principals :: "gostring list"
  gr_grant_option :: bool
  gr_marker :: gostring

definition no_securable :: grant_securable where
  "no_securable =
     \<lparr>gs_db = [], gs_table = [], gs_all_tables = False, gs_any_database = False, gs_unrepresentable = False\<rparr>"

definition no_parse :: grant_parse where
  "no_parse =
     \<lparr>gr_is_grant_verb = False, gr_is_revoke = False, gr_is_attach = False, gr_has_replace = False,
      gr_has_on = False, gr_structured = False, gr_privileges = [], gr_securable = no_securable,
      gr_principals = [], gr_grant_option = False, gr_marker = []\<rparr>"

definition securable_flat :: "grant_securable \<Rightarrow> gostring" where
  "securable_flat s =
     (let table = (if gs_all_tables s then ''*'' else gs_table s);
          db = (if gs_any_database s then ''*'' else gs_db s)
      in if db = [] then table else db @ ''.'' @ table)"

definition quoted_part :: "gostring \<Rightarrow> bool \<Rightarrow> gostring" where
  "quoted_part name star =
     (if star then ''*'' else if needs_quoting name then quote_identifier_sql name else name)"

definition securable_quoted :: "grant_securable \<Rightarrow> gostring" where
  "securable_quoted s =
     (let table = quoted_part (gs_table s) (gs_all_tables s)
      in if gs_db s = [] \<and> \<not> gs_any_database s then table
         else quoted_part (gs_db s) (gs_any_database s) @ ''.'' @ table)"

text \<open>A part of the target: the name and whether it is an unquoted \<open>*\<close>.\<close>

definition read_part :: "raw_token \<Rightarrow> (gostring \<times> bool) option" where
  "read_part tk =
     (if tk_type tk \<noteq> ''QUOTED_IDENTIFIER'' \<and> tk_text tk = ''*'' then Some ([], True)
      else if \<not> is_name_tok (tk_type tk) then None
      else Some (tk_text tk, False))"

definition with_representable :: "grant_securable \<Rightarrow> grant_securable" where
  "with_representable s =
     s\<lparr>gs_unrepresentable := CHR ''*'' \<in> set (gs_db s) \<or> CHR ''*'' \<in> set (gs_table s)\<rparr>"

text \<open>The target after its \<open>ON\<close>.\<close>

definition securable_at :: "raw_token list \<Rightarrow> grant_securable" where
  "securable_at toks =
     (case toks of
        [] \<Rightarrow> no_securable
      | t # rest \<Rightarrow>
          (case read_part t of
             None \<Rightarrow> no_securable
           | Some (name, star) \<Rightarrow>
               let sec = (case rest of
                            d # u # _ \<Rightarrow>
                              if tk_type d = ''DOT''
                              then (case read_part u of
                                      Some (name2, star2) \<Rightarrow>
                                        no_securable\<lparr>gs_db := name, gs_any_database := star, gs_table := name2, gs_all_tables := star2\<rparr>
                                    | None \<Rightarrow> no_securable)
                              else no_securable
                          | _ \<Rightarrow> no_securable)
               in with_representable
                    (if sec = no_securable then no_securable\<lparr>gs_table := name, gs_all_tables := star\<rparr> else sec)))"

fun token_securable :: "raw_token list \<Rightarrow> grant_securable" where
  "token_securable [] = no_securable"
| "token_securable (t # ts) =
     (if tk_type t \<noteq> ''ON'' \<or> ts = [] \<or> tk_type (hd ts) = ''CLUSTER'' then token_securable ts
      else securable_at ts)"

fun tokens_have_securable_on :: "raw_token list \<Rightarrow> bool" where
  "tokens_have_securable_on [] = False"
| "tokens_have_securable_on (t # ts) \<longleftrightarrow>
     tk_type t = ''ON'' \<and> (ts = [] \<or> tk_type (hd ts) \<noteq> ''CLUSTER'') \<or> tokens_have_securable_on ts"

fun tokens_have_replace_option :: "raw_token list \<Rightarrow> bool" where
  "tokens_have_replace_option (t # u # ts) \<longleftrightarrow>
     equal_fold (tk_text t) ''WITH'' \<and> equal_fold (tk_text u) ''REPLACE'' \<or> tokens_have_replace_option (u # ts)"
| "tokens_have_replace_option _ = False"

fun strip_on_cluster :: "gostring \<Rightarrow> raw_token list \<Rightarrow> gostring" where
  "strip_on_cluster sql (t # u # v # ts) =
     (if tk_type t = ''ON'' \<and> tk_type u = ''CLUSTER'' \<and> tk_end v \<le> length sql \<and> tk_start t < tk_end v
      then take (tk_start t) sql @ drop (tk_end v) sql
      else strip_on_cluster sql (u # v # ts))"
| "strip_on_cluster sql _ = sql"

text \<open>Fields of the struct a node is decoded into: \<open>null\<close> and a missing key leave the zero value.\<close>

definition struct_string :: "json \<Rightarrow> gostring option" where
  "struct_string j = (case j of JString s \<Rightarrow> Some s | JNull \<Rightarrow> Some [] | _ \<Rightarrow> None)"

definition struct_bool :: "json \<Rightarrow> bool option" where
  "struct_bool j = (case j of JBool b \<Rightarrow> Some b | JNull \<Rightarrow> Some False | _ \<Rightarrow> None)"

definition is_struct :: "json \<Rightarrow> bool" where
  "is_struct j \<longleftrightarrow> is_object j \<or> j = JNull"

fun all_some :: "('a \<Rightarrow> 'b option) \<Rightarrow> 'a list \<Rightarrow> 'b list option" where
  "all_some f [] = Some []"
| "all_some f (x # xs) =
     (case f x of None \<Rightarrow> None | Some y \<Rightarrow> map_option ((#) y) (all_some f xs))"

definition struct_list :: "(json \<Rightarrow> 'a option) \<Rightarrow> json \<Rightarrow> 'a list option" where
  "struct_list f j = (case j of JArray vs \<Rightarrow> all_some f vs | JNull \<Rightarrow> Some [] | _ \<Rightarrow> None)"

definition decode_privilege :: "json \<Rightarrow> grant_privilege option" where
  "decode_privilege j =
     (if \<not> is_struct j then None
      else case (struct_string (field ''name'' j), struct_list struct_string (field ''columns'' j)) of
             (Some n, Some cs) \<Rightarrow> Some \<lparr>gp_name = n, gp_columns = cs\<rparr>
           | _ \<Rightarrow> None)"

definition struct_name :: "json \<Rightarrow> gostring option" where
  "struct_name j = (if \<not> is_struct j then None else struct_string (field ''name'' j))"

definition decode_principal :: "json \<Rightarrow> gostring option" where
  "decode_principal j = (if \<not> is_struct j then None else struct_name (field ''name'' j))"

definition grant_body :: "json \<Rightarrow> json option" where
  "grant_body node =
     (case map_of (members node) ''grant'' of Some b \<Rightarrow> Some b | None \<Rightarrow> map_of (members node) ''revoke'')"

text \<open>The flat name of the node and the parse with what the node adds; \<^const>\<open>None\<close> for an error.\<close>

definition decode_grant_node :: "json \<Rightarrow> grant_parse \<Rightarrow> (gostring \<times> grant_parse) option" where
  "decode_grant_node node gp =
     (case grant_body node of
        None \<Rightarrow> None
      | Some body \<Rightarrow>
          if \<not> is_struct body then None
          else case (struct_list decode_privilege (field ''privileges'' body), struct_name (field ''securable'' body),
                     struct_list decode_principal (field ''principals'' body), struct_bool (field ''grant_option'' body)) of
                 (Some privileges, Some flat, Some principals, Some opt) \<Rightarrow>
                   Some (flat, gp\<lparr>gr_privileges := gr_privileges gp @ privileges,
                                  gr_principals := gr_principals gp @ principals, gr_grant_option := opt\<rparr>)
               | _ \<Rightarrow> None)"

definition set_grant_securable_name :: "json \<Rightarrow> gostring \<Rightarrow> json option" where
  "set_grant_securable_name node name =
     (let edit = (\<lambda>key. let body = field key node; sec = field ''securable'' body
                        in if is_object sec then Some (put key (put ''securable'' (put ''name'' (JString name) sec) body) node)
                           else None)
      in if is_object (field ''grant'' node) then edit ''grant''
         else if is_object (field ''revoke'' node) then edit ''revoke'' else None)"

text \<open>The parse once the tokens have decided that the generic dialect is asked.\<close>

definition structured_grant :: "engine \<Rightarrow> gostring \<Rightarrow> grant_parse \<Rightarrow> grant_parse" where
  "structured_grant e cleaned gp =
     (case e_parse_generic e cleaned of
        Inl _ \<Rightarrow> gp
      | Inr node \<Rightarrow>
          (case decode_grant_node node gp of
             None \<Rightarrow> gp
           | Some (flat, gp') \<Rightarrow>
               if flat \<noteq> securable_flat (gr_securable gp') then gp'
               else case set_grant_securable_name node (securable_quoted (gr_securable gp')) of
                      None \<Rightarrow> gp'
                    | Some node' \<Rightarrow>
                        (case e_generate e node' of
                           Inl _ \<Rightarrow> gp'
                         | Inr marker \<Rightarrow> gp'\<lparr>gr_marker := marker, gr_structured := True\<rparr>)))"

definition grant_verb :: "raw_token list \<Rightarrow> grant_parse" where
  "grant_verb toks =
     (case toks of
        [] \<Rightarrow> no_parse
      | t # ts \<Rightarrow>
          (let verb = to_upper (tk_text t)
           in if verb = ''GRANT'' then no_parse\<lparr>gr_is_grant_verb := True\<rparr>
              else if verb = ''REVOKE'' then no_parse\<lparr>gr_is_grant_verb := True, gr_is_revoke := True\<rparr>
              else if verb = ''ATTACH'' \<and> ts \<noteq> [] \<and> equal_fold (tk_text (hd ts)) ''GRANT''
                then no_parse\<lparr>gr_is_grant_verb := True, gr_is_attach := True\<rparr>
              else no_parse))"

definition parse_grant :: "engine \<Rightarrow> gostring \<Rightarrow> engine_error + grant_parse" where
  "parse_grant e sql =
     (case tokenize_raw e sql of
        Inl err \<Rightarrow> Inl err
      | Inr toks \<Rightarrow>
          (let verb = grant_verb toks
           in if \<not> gr_is_grant_verb verb then Inr verb
              else let on = tokens_have_securable_on toks;
                       gp = verb\<lparr>gr_has_on := on, gr_has_replace := tokens_have_replace_option toks,
                                 gr_securable := (if on then token_securable toks else no_securable)\<rparr>
                   in if gr_is_attach gp \<or> \<not> on \<or> gr_has_replace gp then Inr gp
                      else Inr (structured_grant e (strip_on_cluster sql toks) gp)))"

section \<open>The handler (handlers/grant.go)\<close>

definition new_grant_resp :: "statement_type \<Rightarrow> response" where
  "new_grant_resp stmt = new_write_resp stmt"

fun grantees_of :: "gostring \<Rightarrow> gostring list \<Rightarrow> gostring + grantee list" where
  "grantees_of kw [] = Inr []"
| "grantees_of kw (name # names) =
     (if kw = ''REVOKE'' \<and> (equal_fold name ''ALL'' \<or> equal_fold name ''ANY'')
      then Inl (''REVOKE FROM '' @ to_upper name @ '' is not supported'')
      else map_sum id ((#) (if equal_fold name ''CURRENT_USER'' then \<lparr>gr_name = [], gr_is_current_user = True\<rparr>
                            else \<lparr>gr_name = name, gr_is_current_user = False\<rparr>)) (grantees_of kw names))"

definition build_grantees :: "gostring \<Rightarrow> gostring list \<Rightarrow> response \<Rightarrow> grantee list option \<times> response" where
  "build_grantees kw principals resp =
     (case grantees_of kw principals of
        Inl msg \<Rightarrow> (None, reject_unsupported msg resp)
      | Inr gs \<Rightarrow> if gs = [] then (None, reject_invalid (kw @ '' has no grantees'') resp) else (Some gs, resp))"

definition scope_database :: "grant_securable \<Rightarrow> bool" where
  "scope_database sec \<longleftrightarrow> gs_all_tables sec \<and> \<not> gs_any_database sec"

text \<open>The refusal of a target on the storage-integrity surface.\<close>

definition grant_si_refusal :: "selection \<Rightarrow> grant_parse \<Rightarrow> response \<Rightarrow> response option" where
  "grant_si_refusal sel gp resp =
     (let sec = gr_securable gp; dyn = sel_dynamic sel; db = gs_db sec; table = gs_table sec;
          scopeDB = (if db = [] then get_logical_context dyn else db);
          seen = record_accessed_write (no_target\<lparr>tt_db := db, tt_table := table\<rparr>) sel resp
      in if \<not> gr_has_on gp \<or> sel_mode sel \<noteq> ModeDynamic then None
         else if scope_database sec then
           (if is_si_physical_database scopeDB dyn
            then Some (reject_unsupported (si_physical_database_reject_message scopeDB) (record_accessed_database scopeDB dyn resp))
            else None)
         else if gs_any_database sec \<or> table = [] then None
         else if snd (lookup_si_physical db table dyn) then
           Some (reject_unsupported (si_physical_reject_message (qualify db table)) seen)
         else case lookup_storage_integrity db table dyn of
                None \<Rightarrow> None
              | Some (_, key) \<Rightarrow>
                  (let (logical, authorized) = authorize_si_logical db dyn
                   in Some (if \<not> authorized then reject_invalid (si_unauthorized_message logical) seen
                            else reject_unsupported (si_write_reject_message key) seen)))"

text \<open>The forms that are refused, in the order of the checks.\<close>

definition grant_form_refusal :: "gostring \<Rightarrow> grant_parse \<Rightarrow> gostring option" where
  "grant_form_refusal kw gp =
     (if gr_is_attach gp then Some ''ATTACH GRANT is not supported''
      else if \<not> gr_has_on gp then Some (kw @ '' of a role to a user/role (role-membership grant) is not supported'')
      else if gr_has_replace gp then Some (kw @ '' WITH REPLACE OPTION is not supported'')
      else if list_ex (\<lambda>p. equal_fold (gp_name p) ''CURRENT GRANTS'') (gr_privileges gp)
        then Some ''GRANT CURRENT GRANTS is not supported''
      else if \<not> gr_structured gp then Some (kw @ '' form is not supported'')
      else None)"

text \<open>The logical database, the physical one and the table prefix of the target.\<close>

definition resolve_grant_target ::
    "gostring \<Rightarrow> grant_securable \<Rightarrow> dynamic_args option \<Rightarrow> gostring + gostring \<times> gostring \<times> gostring" where
  "resolve_grant_target kw sec dyn =
     (let logical = (if gs_db sec = [] then get_logical_context dyn else gs_db sec)
      in if logical = [] then
           Inl (kw @ '' target '' @ [CHR 0x27] @ gs_table sec @
             [CHR 0x27] @ '' is unqualified and no upstream_logical_database_in_context is set; caller must send `USE <db>` or qualify the target'')
         else case resolve_physical_database logical dyn of
                None \<Rightarrow>
                  Inl (kw @ '' target references logical database '' @ [CHR 0x27] @ logical @
                    [CHR 0x27] @ '' which is not in database_map and not a known physical database; user does not have this database to grant on'')
              | Some physical \<Rightarrow> Inr (logical, physical, build_dynamic_table_prefix logical dyn))"

definition grant_delta ::
    "delta_action \<Rightarrow> grant_parse \<Rightarrow> grantee list \<Rightarrow> gostring \<times> gostring \<times> gostring \<Rightarrow> grant_privilege \<Rightarrow> privilege_delta" where
  "grant_delta action gp grantees target p =
     (let (logical, physical, prefix) = target; sec = gr_securable gp; db = scope_database sec
      in \<lparr>pd_action = action, pd_scope = (if db then ScopeDatabase else ScopeTable),
          pd_original_database = gs_db sec, pd_original_table = (if db then [] else gs_table sec),
          pd_logical_database = logical, pd_physical_database = physical,
          pd_physical_table = (if db then [] else prefix @ gs_table sec),
          pd_grant_option = gr_grant_option gp, pd_privileges = [gp_name p], pd_grantees = grantees\<rparr>)"

text \<open>The fan-out over the privileges; the target is resolved at the first one.\<close>

fun grant_deltas ::
    "gostring \<Rightarrow> (grant_privilege \<Rightarrow> gostring \<times> gostring \<times> gostring \<Rightarrow> privilege_delta) \<Rightarrow>
     gostring + gostring \<times> gostring \<times> gostring \<Rightarrow> grant_privilege list \<Rightarrow> response \<Rightarrow> bool \<times> response" where
  "grant_deltas kw delta target [] resp = (True, resp)"
| "grant_deltas kw delta target (p # ps) resp =
     (if gp_columns p \<noteq> [] then (False, reject_unsupported (kw @ '' with column-level granularity is not supported'') resp)
      else case target of
             Inl msg \<Rightarrow> (False, reject_invalid msg resp)
           | Inr t \<Rightarrow>
               grant_deltas kw delta target ps
                 (resp\<lparr>r_privileges_deltas := r_privileges_deltas resp @ [delta p t]\<rparr>))"

definition grant_marker :: "grant_parse \<Rightarrow> gostring" where
  "grant_marker gp = ''SELECT '' @ sql_literal (gr_marker gp) @ '' AS '' @ (if gr_is_revoke gp then ''rstmt'' else ''gstmt'')"

definition emit_grant :: "gostring \<Rightarrow> grant_parse \<Rightarrow> dynamic_args option \<Rightarrow> grantee list \<Rightarrow> response \<Rightarrow> response" where
  "emit_grant kw gp dyn grantees resp =
     (let sec = gr_securable gp; action = (if gr_is_revoke gp then ActionRevoke else ActionGrant)
      in if gs_unrepresentable sec then
           reject_unsupported (kw @ '' target names a database or table whose name contains '' @ [CHR 0x27] @ ''*'' @ [CHR 0x27] @ '', which a privilege delta cannot represent'') resp
         else if gs_any_database sec then reject_unsupported (kw @ '' ON *.* (global scope) is not supported'') resp
         else case grant_deltas kw (\<lambda>p t. grant_delta action gp grantees t p) (resolve_grant_target kw sec dyn)
                     (gr_privileges gp) resp of
                (False, r) \<Rightarrow> r
              | (True, r) \<Rightarrow> echo (grant_marker gp) r)"

definition rewrite_grant :: "engine \<Rightarrow> json \<Rightarrow> gostring \<Rightarrow> rewrite_option list \<Rightarrow> engine_error + response option" where
  "rewrite_grant e ast sql opts =
     (case node_kind ast of
        Inl err \<Rightarrow> Inl err
      | Inr kind \<Rightarrow>
          if kind \<noteq> NodeCommand then Inr None
          else case parse_grant e sql of
                 Inl err \<Rightarrow> Inl err
               | Inr gp \<Rightarrow>
                   if \<not> gr_is_grant_verb gp then Inr None
                   else let kw = (if gr_is_revoke gp then ''REVOKE'' else ''GRANT'');
                            resp = new_grant_resp (if gr_is_revoke gp then StRevoke else StGrant)
                        in Inr (Some
                             (case grant_si_refusal (find_active opts) gp resp of
                                Some r \<Rightarrow> r
                              | None \<Rightarrow>
                                  (case grant_form_refusal kw gp of
                                     Some msg \<Rightarrow> reject_unsupported msg resp
                                   | None \<Rightarrow>
                                       (case find_dynamic_args opts of
                                          None \<Rightarrow> reject_unsupported
                                            (kw @ '' requires a TableNameRewrite/dynamic_args option to validate against'') resp
                                        | Some dyn \<Rightarrow>
                                            (case build_grantees kw (gr_principals gp) resp of
                                               (None, r) \<Rightarrow> r
                                             | (Some gs, r) \<Rightarrow> emit_grant kw gp (Some dyn) gs r))))))"

end
