(* ===== verification/Grant_Facts.thy ===== *)
theory Grant_Facts
  imports Grant SI_Policy_Facts
begin

text \<open>
  What a \<open>GRANT\<close> that answers Success promises: the deltas are the privileges of the statement on the database
  the policy resolves, the answered SQL is one \<open>SELECT\<close> of a literal that reads back as the statement, and the
  target a marker names is the one the tokens named.
\<close>

section \<open>The rendered target\<close>

lemma quoted_part_cases: "quoted_part name star = (if star then ''*'' else quote_name name)"
  by (simp add: quoted_part_def quote_name_def)

lemma quote_name_not_star: "quote_name name @ r \<noteq> ''*'' @ r'"
proof (cases "needs_quoting name")
  case True
  then show ?thesis by (simp add: quote_name_def quote_identifier_sql_def quote_chars)
next
  case False
  have ne: "name \<noteq> []" using plain_name(1) [OF False] .
  have head: "name ! 0 = CHR ''_'' \<or> is_lower_byte (name ! 0) \<or> is_upper_byte (name ! 0)"
    using False ne by (auto simp: needs_quoting_def list_ex_iff)
  have star: "\<not> (CHR ''*'' = CHR ''_'' \<or> is_lower_byte CHR ''*'' \<or> is_upper_byte CHR ''*'')"
    by (simp add: byte_class_defs less_eq_char_def)
  from ne obtain c cs where "name = c # cs" by (cases name) auto
  then show ?thesis using False head star by (auto simp: quote_name_def)
qed

lemma quoted_part_split:
  assumes "quoted_part n st @ r = quoted_part n' st' @ r'" "after_name r" "after_name r'"
    and "st \<longrightarrow> n = []" "st' \<longrightarrow> n' = []"
  shows "n = n' \<and> st = st' \<and> r = r'"
proof (cases "st = st'")
  case True
  then show ?thesis
    using assms quote_name_split [of n r n' r'] by (auto simp: quoted_part_cases split: if_splits)
next
  case False
  then show ?thesis
    using assms(1) quote_name_not_star [of n r r'] quote_name_not_star [of n' r' r]
    by (auto simp: quoted_part_cases split: if_splits)
qed

definition wf_securable :: "grant_securable \<Rightarrow> bool" where
  "wf_securable s \<longleftrightarrow>
     (gs_all_tables s \<longrightarrow> gs_table s = []) \<and> (gs_any_database s \<longrightarrow> gs_db s = []) \<and>
     (gs_unrepresentable s \<longleftrightarrow> CHR ''*'' \<in> set (gs_db s) \<or> CHR ''*'' \<in> set (gs_table s))"

lemma read_part_star: "read_part tk = Some (name, True) \<Longrightarrow> name = []"
  by (simp add: read_part_def split: if_splits)

lemma securable_at_wf: "wf_securable (securable_at toks)"
  by (auto simp: securable_at_def wf_securable_def with_representable_def no_securable_def Let_def
      split: list.splits option.splits prod.splits if_splits dest: read_part_star)

lemma token_securable_wf: "wf_securable (token_securable toks)"
  by (induction toks) (simp_all add: securable_at_wf, simp add: wf_securable_def no_securable_def)

lemma securable_quoted_inj:
  assumes "wf_securable s" "wf_securable s'" "securable_quoted s = securable_quoted s'"
  shows "s = s'"
proof -
  define shown where "shown = (\<lambda>s :: grant_securable. gs_db s \<noteq> [] \<or> gs_any_database s)"
  define tail where "tail = (\<lambda>s :: grant_securable. quoted_part (gs_table s) (gs_all_tables s))"
  have quoted: "securable_quoted s =
      (if shown s then quoted_part (gs_db s) (gs_any_database s) @ ''.'' @ tail s else tail s @ [])" for s
    by (auto simp: securable_quoted_def shown_def tail_def Let_def)
  have ends: "after_name []" "after_name (''.'' @ x)" for x by (simp_all add: after_name_def)
  have same: "shown s = shown s'"
    using assms quoted_part_split [OF _ ends(2) ends(1), of "gs_db s" "gs_any_database s" "tail s"]
      quoted_part_split [OF _ ends(1) ends(2), of "gs_table s" "gs_all_tables s" "gs_db s'" "gs_any_database s'" "tail s'"]
    by (auto simp: quoted tail_def wf_securable_def split: if_splits)
  have db: "gs_db s = gs_db s' \<and> gs_any_database s = gs_any_database s' \<and> tail s = tail s'"
  proof (cases "shown s")
    case True
    then show ?thesis
      using assms same quoted_part_split [OF _ ends(2) ends(2), of "gs_db s" "gs_any_database s" "tail s" "gs_db s'" "gs_any_database s'" "tail s'"]
      by (auto simp: quoted wf_securable_def)
  next
    case False
    then show ?thesis using assms(3) same by (simp add: quoted shown_def)
  qed
  moreover have "gs_table s = gs_table s' \<and> gs_all_tables s = gs_all_tables s'"
    using db assms(1,2) quoted_part_split [OF _ ends(1) ends(1), of "gs_table s" "gs_all_tables s" "gs_table s'" "gs_all_tables s'"]
    by (simp add: tail_def wf_securable_def)
  ultimately show ?thesis
    using assms(1,2) by (simp add: wf_securable_def grant_securable.equality)
qed

text \<open>
  The rendering of a target in the marker is unambiguous: two statements whose tokens name different
  targets, be it by a wildcard, by a quoted dot or by a quoted star, have different renderings.
\<close>

theorem token_securable_quoted_inj:
  "securable_quoted (token_securable a) = securable_quoted (token_securable b) \<longleftrightarrow> token_securable a = token_securable b"
  using securable_quoted_inj [OF token_securable_wf token_securable_wf] by auto

section \<open>A granted statement\<close>

lemma grant_deltas_True:
  assumes "grant_deltas kw delta target ps resp = (True, r)"
  shows "list_all (\<lambda>p. gp_columns p = []) ps \<and> (ps \<noteq> [] \<longrightarrow> target = Inr (projr target)) \<and>
     r = resp\<lparr>r_privileges_deltas := r_privileges_deltas resp @ map (\<lambda>p. delta p (projr target)) ps\<rparr>"
  using assms
proof (induction ps arbitrary: resp)
  case (Cons p ps)
  show ?case
  proof (cases "gp_columns p = [] \<and> (\<exists>t. target = Inr t)")
    case True
    then obtain t where t: "gp_columns p = []" "target = Inr t" by blast
    then have "grant_deltas kw delta target ps (resp\<lparr>r_privileges_deltas := r_privileges_deltas resp @ [delta p t]\<rparr>) = (True, r)"
      using Cons.prems by simp
    from Cons.IH [OF this] t show ?thesis by simp
  next
    case False
    then show ?thesis using Cons.prems by (cases target) (auto split: if_splits)
  qed
qed simp

lemma grant_deltas_False:
  assumes "grant_deltas kw delta target ps resp = (False, r)" "r_code resp = CodeSuccess"
  shows "r_code r \<noteq> CodeSuccess"
  using assms
proof (induction ps arbitrary: resp)
  case (Cons p ps)
  then show ?case
    by (cases target) (auto simp: reject_unsupported_def reject_invalid_def reject_with_def split: if_splits)
qed simp

lemma build_grantees_Some:
  "build_grantees kw principals resp = (Some gs, r) \<Longrightarrow> r = resp \<and> gs \<noteq> [] \<and> grantees_of kw principals = Inr gs"
  by (auto simp: build_grantees_def split: sum.splits if_splits)

lemma build_grantees_None:
  "build_grantees kw principals resp = (None, r) \<Longrightarrow> r_code resp = CodeSuccess \<Longrightarrow> r_code r \<noteq> CodeSuccess"
  by (auto simp: build_grantees_def reject_unsupported_def reject_invalid_def reject_with_def split: sum.splits if_splits)

lemma grant_si_refusal_code:
  "grant_si_refusal sel gp resp = Some r \<Longrightarrow> r_code r \<noteq> CodeSuccess"
  by (auto simp: grant_si_refusal_def Let_def reject_unsupported_def reject_invalid_def reject_with_def
      split: if_splits option.splits prod.splits)

text \<open>The target of a grant outside the storage-integrity surface.\<close>

definition grant_target_outside :: "selection \<Rightarrow> grant_securable \<Rightarrow> bool" where
  "grant_target_outside sel sec \<longleftrightarrow>
     (let dyn = sel_dynamic sel; db = (if gs_db sec = [] then get_logical_context dyn else gs_db sec)
      in \<not> gs_any_database sec \<longrightarrow> scope_database sec \<or> gs_table sec \<noteq> [] \<longrightarrow>
         \<not> is_si_physical_database db dyn \<and>
         (\<not> scope_database sec \<longrightarrow> lookup_storage_integrity (gs_db sec) (gs_table sec) dyn = None))"

lemma grant_si_refusal_None:
  assumes "grant_si_refusal sel gp resp = None" "gr_has_on gp" "sel_mode sel = ModeDynamic"
  shows "grant_target_outside sel (gr_securable gp)"
  using assms
  by (auto simp: grant_si_refusal_def grant_target_outside_def Let_def lookup_si_physical_database scope_database_def
      split: if_splits option.splits prod.splits)

text \<open>The answer of a grant: one delta per privilege, all on the resolved target.\<close>

definition grant_answer :: "engine \<Rightarrow> gostring \<Rightarrow> rewrite_option list \<Rightarrow> response \<Rightarrow> bool" where
  "grant_answer e sql opts resp \<longleftrightarrow>
     (\<exists>gp dyn gs kw target.
        parse_grant e sql = Inr gp \<and> gr_structured gp \<and> find_dynamic_args opts = Some dyn \<and>
        kw = (if gr_is_revoke gp then ''REVOKE'' else ''GRANT'') \<and> grantees_of kw (gr_principals gp) = Inr gs \<and> gs \<noteq> [] \<and>
        list_all (\<lambda>p. gp_columns p = []) (gr_privileges gp) \<and>
        \<not> gs_any_database (gr_securable gp) \<and> \<not> gs_unrepresentable (gr_securable gp) \<and>
        (gr_privileges gp \<noteq> [] \<longrightarrow> resolve_grant_target kw (gr_securable gp) (Some dyn) = Inr target) \<and>
        r_privileges_deltas resp =
          map (grant_delta (if gr_is_revoke gp then ActionRevoke else ActionGrant) gp gs target) (gr_privileges gp) \<and>
        r_sql_after_rewrite resp = grant_marker gp \<and>
        (sel_mode (find_active opts) = ModeDynamic \<longrightarrow> grant_target_outside (find_active opts) (gr_securable gp)))"

lemma emit_grant_Success:
  assumes "r_code (emit_grant kw gp dyn gs resp) = CodeSuccess" "r_code resp = CodeSuccess" "r_privileges_deltas resp = []"
  obtains r where "\<not> gs_any_database (gr_securable gp)" "\<not> gs_unrepresentable (gr_securable gp)"
    "grant_deltas kw (\<lambda>p t. grant_delta (if gr_is_revoke gp then ActionRevoke else ActionGrant) gp gs t p)
       (resolve_grant_target kw (gr_securable gp) dyn) (gr_privileges gp) resp = (True, r)"
    "emit_grant kw gp dyn gs resp = echo (grant_marker gp) r"
proof -
  have reps: "\<not> gs_any_database (gr_securable gp)" "\<not> gs_unrepresentable (gr_securable gp)"
    using assms(1,2) by (auto simp: emit_grant_def reject_unsupported_def reject_with_def Let_def split: if_splits)
  obtain b r where run: "grant_deltas kw (\<lambda>p t. grant_delta (if gr_is_revoke gp then ActionRevoke else ActionGrant) gp gs t p)
       (resolve_grant_target kw (gr_securable gp) dyn) (gr_privileges gp) resp = (b, r)"
    by fastforce
  have out: "emit_grant kw gp dyn gs resp = (if b then echo (grant_marker gp) r else r)"
    using reps run by (simp add: emit_grant_def Let_def)
  have b using assms(1,2) out run grant_deltas_False by (cases b) auto
  with reps run out that show thesis by simp
qed

lemma grant_form_refusal_None:
  "grant_form_refusal kw gp = None \<Longrightarrow> gr_has_on gp \<and> gr_structured gp"
  by (auto simp: grant_form_refusal_def split: if_splits)

lemma rewrite_grant_Some:
  assumes "rewrite_grant e ast sql opts = Inr (Some resp)" "r_code resp = CodeSuccess"
  obtains gp kw stmt dyn gs where "parse_grant e sql = Inr gp" "kw = (if gr_is_revoke gp then ''REVOKE'' else ''GRANT'')"
    "grant_si_refusal (find_active opts) gp (new_grant_resp stmt) = None" "grant_form_refusal kw gp = None"
    "find_dynamic_args opts = Some dyn" "grantees_of kw (gr_principals gp) = Inr gs" "gs \<noteq> []"
    "resp = emit_grant kw gp (Some dyn) gs (new_grant_resp stmt)"
proof -
  obtain gp where gp: "parse_grant e sql = Inr gp" "gr_is_grant_verb gp"
    using assms(1) by (auto simp: rewrite_grant_def split: sum.splits if_splits)
  define kw where "kw = (if gr_is_revoke gp then ''REVOKE'' else ''GRANT'')"
  define r0 where "r0 = new_grant_resp (if gr_is_revoke gp then StRevoke else StGrant)"
  have code: "r_code r0 = CodeSuccess" by (simp add: r0_def new_grant_resp_def new_write_resp_def)
  have refused: "r_code (reject_unsupported msg r0) \<noteq> CodeSuccess" for msg
    using code by (simp add: reject_unsupported_def reject_with_def)
  have run: "resp = (case grant_si_refusal (find_active opts) gp r0 of Some r \<Rightarrow> r
      | None \<Rightarrow> (case grant_form_refusal kw gp of Some msg \<Rightarrow> reject_unsupported msg r0
      | None \<Rightarrow> (case find_dynamic_args opts of
            None \<Rightarrow> reject_unsupported (kw @ '' requires a TableNameRewrite/dynamic_args option to validate against'') r0
          | Some dyn \<Rightarrow> (case build_grantees kw (gr_principals gp) r0 of (None, r) \<Rightarrow> r
              | (Some gs, r) \<Rightarrow> emit_grant kw gp (Some dyn) gs r))))"
    using assms(1) gp unfolding kw_def r0_def
    by (auto simp: rewrite_grant_def Let_def split: sum.splits if_splits)
  have si: "grant_si_refusal (find_active opts) gp r0 = None"
    using run assms(2) grant_si_refusal_code by (cases "grant_si_refusal (find_active opts) gp r0") auto
  have form: "grant_form_refusal kw gp = None"
    using run si assms(2) refused by (cases "grant_form_refusal kw gp") auto
  obtain dyn where dyn: "find_dynamic_args opts = Some dyn"
    using run si form assms(2) refused by (cases "find_dynamic_args opts") auto
  obtain gs r where gs: "build_grantees kw (gr_principals gp) r0 = (Some gs, r)"
    using run si form dyn assms(2) build_grantees_None [OF _ code]
    by (cases "build_grantees kw (gr_principals gp) r0"; cases "fst (build_grantees kw (gr_principals gp) r0)") auto
  show thesis
    using that [OF gp(1) kw_def si [unfolded r0_def] form dyn] run si form dyn gs build_grantees_Some [OF gs]
    by (simp add: r0_def)
qed

text \<open>
  C11. A GRANT or REVOKE that answers Success is structured, names grantees, and has one delta per privilege of the
  statement, in order, each on the database the policy resolves for the target the tokens named; the answered SQL
  is one SELECT of a literal that reads back as the canonical statement; and in dynamic mode the target is outside
  the storage-integrity surface.
\<close>

theorem grant_success:
  assumes "rewrite_grant e ast sql opts = Inr (Some resp)" "r_code resp = CodeSuccess"
  shows "grant_answer e sql opts resp"
proof -
  obtain gp kw stmt dyn gs where run: "parse_grant e sql = Inr gp" "kw = (if gr_is_revoke gp then ''REVOKE'' else ''GRANT'')"
    "grant_si_refusal (find_active opts) gp (new_grant_resp stmt) = None" "grant_form_refusal kw gp = None"
    "find_dynamic_args opts = Some dyn" "grantees_of kw (gr_principals gp) = Inr gs" "gs \<noteq> []"
    "resp = emit_grant kw gp (Some dyn) gs (new_grant_resp stmt)"
    by (rule rewrite_grant_Some [OF assms])
  have fresh: "r_code (new_grant_resp stmt) = CodeSuccess" "r_privileges_deltas (new_grant_resp stmt) = []"
    by (simp_all add: new_grant_resp_def new_write_resp_def)
  obtain r where emit: "\<not> gs_any_database (gr_securable gp)" "\<not> gs_unrepresentable (gr_securable gp)"
    "grant_deltas kw (\<lambda>p t. grant_delta (if gr_is_revoke gp then ActionRevoke else ActionGrant) gp gs t p)
       (resolve_grant_target kw (gr_securable gp) (Some dyn)) (gr_privileges gp) (new_grant_resp stmt) = (True, r)"
    "emit_grant kw gp (Some dyn) gs (new_grant_resp stmt) = echo (grant_marker gp) r"
    using emit_grant_Success [OF _ fresh] assms(2) run(8) by metis
  note deltas = grant_deltas_True [OF emit(3)]
  define target where "target = projr (resolve_grant_target kw (gr_securable gp) (Some dyn))"
  have "gr_privileges gp \<noteq> [] \<longrightarrow> resolve_grant_target kw (gr_securable gp) (Some dyn) = Inr target"
    using deltas by (auto simp: target_def)
  then show ?thesis
    unfolding grant_answer_def
    using run emit deltas fresh grant_form_refusal_None [OF run(4)] grant_si_refusal_None [OF run(3)]
    by (intro exI [of _ gp] exI [of _ dyn] exI [of _ gs] exI [of _ kw] exI [of _ target])
      (simp add: target_def echo_def)
qed

definition grant_sql :: gostring where
  "grant_sql = ''GRANT SELECT ON shop.t TO u''"

definition grant_node :: json where
  "grant_node = JObject [(''grant'', JObject [(''privileges'', JArray [JObject [(''name'', JString ''SELECT'')]]),
     (''securable'', JObject [(''name'', JString ''shop.t'')]),
     (''principals'', JArray [JObject [(''name'', JObject [(''name'', JString ''u'')])]])])]"

definition grant_engine :: engine where
  "grant_engine =
     \<lparr>e_tokenize = (\<lambda>_. Inr
       [\<lparr>wt_type = ''GRANT'', wt_text = ''GRANT'', wt_start = 0, wt_end = 5\<rparr>,
        \<lparr>wt_type = ''SELECT'', wt_text = ''SELECT'', wt_start = 6, wt_end = 12\<rparr>,
        \<lparr>wt_type = ''ON'', wt_text = ''ON'', wt_start = 13, wt_end = 15\<rparr>,
        \<lparr>wt_type = ''VAR'', wt_text = ''shop'', wt_start = 16, wt_end = 20\<rparr>,
        \<lparr>wt_type = ''DOT'', wt_text = ''.'', wt_start = 20, wt_end = 21\<rparr>,
        \<lparr>wt_type = ''VAR'', wt_text = ''t'', wt_start = 21, wt_end = 22\<rparr>,
        \<lparr>wt_type = ''TO'', wt_text = ''TO'', wt_start = 23, wt_end = 25\<rparr>,
        \<lparr>wt_type = ''VAR'', wt_text = ''u'', wt_start = 26, wt_end = 27\<rparr>]),
      e_parse_one = (\<lambda>_. Inl (EngineError [])), e_generate = (\<lambda>_. Inr grant_sql),
      e_parse_generic = (\<lambda>_. Inr grant_node)\<rparr>"

definition grant_ast :: json where
  "grant_ast = JObject [(''command'', JObject [(''this'', JString grant_sql)])]"

lemma grant_success_witness:
  "\<exists>resp. rewrite_grant grant_engine grant_ast grant_sql sample_options = Inr (Some resp) \<and>
     grant_answer grant_engine grant_sql sample_options resp \<and>
     map pd_physical_database (r_privileges_deltas resp) = [''phys''] \<and>
     map pd_physical_table (r_privileges_deltas resp) = [''shop_t1.t'']"
proof -
  let ?run = "rewrite_grant grant_engine grant_ast grant_sql sample_options"
  have "case ?run of
      Inr (Some resp) \<Rightarrow> r_code resp = CodeSuccess \<and>
        map pd_physical_database (r_privileges_deltas resp) = [''phys''] \<and>
        map pd_physical_table (r_privileges_deltas resp) = [''shop_t1.t'']
    | _ \<Rightarrow> False"
    by code_simp
  then obtain resp where run: "?run = Inr (Some resp)" "r_code resp = CodeSuccess"
    "map pd_physical_database (r_privileges_deltas resp) = [''phys'']"
    "map pd_physical_table (r_privileges_deltas resp) = [''shop_t1.t'']"
    by (auto split: sum.splits option.splits)
  show ?thesis
    by (rule exI [of _ resp]) (intro conjI run(1,3,4) grant_success [OF run(1,2)])
qed

end
