(* ===== verification/Db_Level.thy ===== *)
theory Db_Level
  imports SI_Policy
begin

text \<open>
  Database-level statements: the parse of \<open>USE\<close> and \<open>SHOW\<close> from the tokens (\<open>engine/dblevel.go\<close>) and the
  handlers of \<open>USE\<close>, \<open>SHOW\<close>, \<open>CREATE DATABASE\<close> and \<open>DROP DATABASE\<close> (\<open>handlers/dblevel.go\<close>). Names in object
  position are read by the SQL engine: \<open>parsedIdentifierAt\<close> parses a probe \<open>SELECT\<close> and takes the table it reads,
  so the reader of the tables of a \<open>SELECT\<close> (\<open>CollectSelectTables\<close>) is a parameter, \<open>collect\<close>.
\<close>

section \<open>The parse (engine/dblevel.go)\<close>

type_synonym table_reader = "json \<Rightarrow> engine_error + table_target list"

datatype db_level_kind = DBNone | DBUse | DBShow

record db_level_info =
  dl_kind :: db_level_kind
  dl_show_what :: gostring
  dl_show_what_next :: gostring
  dl_extended :: bool
  dl_full :: bool
  dl_temporary :: bool
  dl_table :: gostring
  dl_table_resolved :: bool
  dl_has_table :: bool
  dl_db :: gostring
  dl_has_db :: bool
  dl_db_resolved :: bool
  dl_has_like :: bool
  dl_like :: gostring
  dl_like_raw :: gostring
  dl_like_not :: bool
  dl_like_ci :: bool
  dl_trailing :: bool
  dl_multi_part :: bool

definition no_db_level :: db_level_info where
  "no_db_level =
     \<lparr>dl_kind = DBNone, dl_show_what = [], dl_show_what_next = [], dl_extended = False, dl_full = False,
      dl_temporary = False, dl_table = [], dl_table_resolved = False, dl_has_table = False, dl_db = [],
      dl_has_db = False, dl_db_resolved = False, dl_has_like = False, dl_like = [], dl_like_raw = [],
      dl_like_not = False, dl_like_ci = False, dl_trailing = False, dl_multi_part = False\<rparr>"

definition name_probe_db :: gostring where
  "name_probe_db = ''__storage_integrity_name_probe''"

definition parsed_identifier_at :: "table_reader \<Rightarrow> engine \<Rightarrow> gostring \<Rightarrow> raw_token \<Rightarrow> gostring option" where
  "parsed_identifier_at collect e sql tok =
     (if tk_end tok \<le> tk_start tok \<or> tk_end tok > length sql then None
      else case e_parse_one e (''SELECT * FROM '' @ name_probe_db @ ''.'' @ substring (tk_start tok) (tk_end tok) sql) of
             Inl _ \<Rightarrow> None
           | Inr ast \<Rightarrow>
               (case collect ast of
                  Inr [tt] \<Rightarrow> if tt_db tt \<noteq> name_probe_db \<or> tt_table tt = [] then None else Some (tt_table tt)
                | _ \<Rightarrow> None))"

definition is_unquoted_db_keyword :: "raw_token \<Rightarrow> gostring \<Rightarrow> bool" where
  "is_unquoted_db_keyword tok keyword \<longleftrightarrow>
     tk_type tok \<noteq> ''QUOTED_IDENTIFIER'' \<and> tk_type tok \<noteq> ''STRING'' \<and> equal_fold (tk_text tok) keyword"

definition is_name_token :: "gostring \<Rightarrow> bool" where
  "is_name_token tt \<longleftrightarrow> tt = ''VAR'' \<or> tt = ''QUOTED_IDENTIFIER'' \<or> tt = ''IDENTIFIER''"

definition is_show_table_target_kind :: "gostring \<Rightarrow> bool" where
  "is_show_table_target_kind kind \<longleftrightarrow>
     kind \<in> set [''COLUMNS'', ''FIELDS'', ''INDEX'', ''INDEXES'', ''INDICES'', ''KEYS'']"

definition is_show_tail_token :: "gostring \<Rightarrow> bool" where
  "is_show_tail_token tt \<longleftrightarrow>
     tt \<in> set [''NOT'', ''LIKE'', ''I_LIKE'', ''WHERE'', ''LIMIT'', ''SETTINGS'', ''FORMAT'', ''INTO'', ''PARALLEL'']"

definition tokens_remain :: "raw_token list \<Rightarrow> bool" where
  "tokens_remain toks \<longleftrightarrow> list_ex (\<lambda>t. tk_type t \<noteq> ''SEMICOLON'') toks"

definition is_like :: "raw_token \<Rightarrow> bool" where
  "is_like t \<longleftrightarrow> tk_type t = ''LIKE'' \<or> tk_type t = ''I_LIKE''"

definition after_like_clause :: "raw_token list \<Rightarrow> raw_token list" where
  "after_like_clause toks =
     (let rest = (case toks of t # ts \<Rightarrow> if tk_type t = ''NOT'' then ts else toks | [] \<Rightarrow> [])
      in case rest of
           l # s # ts \<Rightarrow> if is_like l \<and> tk_type s = ''STRING'' then ts else toks
         | _ \<Rightarrow> toks)"

definition is_from_or_in :: "raw_token \<Rightarrow> bool" where
  "is_from_or_in t \<longleftrightarrow> tk_type t = ''FROM'' \<or> tk_type t = ''IN''"

text \<open>A name in object position; an empty one is no name.\<close>

definition object_name :: "table_reader \<Rightarrow> engine \<Rightarrow> gostring \<Rightarrow> raw_token \<Rightarrow> gostring option" where
  "object_name collect e sql tok =
     (case parsed_identifier_at collect e sql tok of Some name \<Rightarrow> if name \<noteq> [] then Some name else None | None \<Rightarrow> None)"

text \<open>The database after its \<open>FROM\<close> or \<open>IN\<close>, shared by both target grammars, and the tokens after it.\<close>

definition database_clause ::
    "(raw_token \<Rightarrow> gostring option) \<Rightarrow> raw_token list \<Rightarrow> db_level_info \<Rightarrow> db_level_info \<times> raw_token list" where
  "database_clause name_at toks info =
     (case toks of
        t # ts \<Rightarrow> (case name_at t of
                     Some name \<Rightarrow> (info\<lparr>dl_has_db := True, dl_db := name, dl_db_resolved := True\<rparr>, ts)
                   | None \<Rightarrow> (info\<lparr>dl_has_db := True, dl_db := [], dl_db_resolved := False\<rparr>, toks))
      | [] \<Rightarrow> (info\<lparr>dl_has_db := True, dl_db := [], dl_db_resolved := False\<rparr>, []))"

text \<open>The parts of a compound table target after the second one.\<close>

fun more_parts ::
    "(raw_token \<Rightarrow> gostring option) \<Rightarrow> raw_token list \<Rightarrow> db_level_info \<Rightarrow> db_level_info \<times> raw_token list" where
  "more_parts name_at (d # p # ts) info =
     (if tk_type d \<noteq> ''DOT'' then (info, d # p # ts)
      else case name_at p of
             Some part \<Rightarrow> more_parts name_at ts (info\<lparr>dl_multi_part := True, dl_table := part\<rparr>)
           | None \<Rightarrow> (info\<lparr>dl_multi_part := True, dl_table_resolved := False\<rparr>, d # p # ts))"
| "more_parts name_at toks info = (info, toks)"

text \<open>The table target, and \<^const>\<open>None\<close> when the tokens do not reduce to a name.\<close>

definition table_clause ::
    "(raw_token \<Rightarrow> gostring option) \<Rightarrow> raw_token list \<Rightarrow> db_level_info \<Rightarrow> (db_level_info \<times> raw_token list) option" where
  "table_clause name_at toks info =
     (case toks of
        [] \<Rightarrow> None
      | t # ts \<Rightarrow>
          (case name_at t of
             None \<Rightarrow> None
           | Some name \<Rightarrow>
               (case ts of
                  d # u # rest \<Rightarrow>
                    if tk_type d \<noteq> ''DOT'' then Some (info\<lparr>dl_table := name, dl_table_resolved := True\<rparr>, ts)
                    else (case name_at u of
                            None \<Rightarrow> None
                          | Some table \<Rightarrow>
                              Some (more_parts name_at rest
                                (info\<lparr>dl_db := name, dl_db_resolved := True, dl_has_db := True,
                                      dl_table := table, dl_table_resolved := True\<rparr>)))
                | _ \<Rightarrow> Some (info\<lparr>dl_table := name, dl_table_resolved := True\<rparr>, ts))))"

definition parse_show_table_then_database ::
    "(raw_token \<Rightarrow> gostring option) \<Rightarrow> raw_token list \<Rightarrow> db_level_info \<Rightarrow> db_level_info \<times> raw_token list" where
  "parse_show_table_then_database name_at toks info0 =
     (case toks of
        [] \<Rightarrow> (info0, [])
      | f # ts \<Rightarrow>
          if \<not> is_from_or_in f then (info0, toks)
          else let (info, rest) =
                     (case table_clause name_at ts (info0\<lparr>dl_has_table := True\<rparr>) of
                        Some r \<Rightarrow> r
                      | None \<Rightarrow> (info0\<lparr>dl_has_table := True\<rparr>,
                                 dropWhile (\<lambda>t. \<not> is_show_tail_token (tk_type t) \<and> \<not> is_from_or_in t) ts))
               in case rest of
                    g # us \<Rightarrow> if is_from_or_in g then database_clause name_at us info else (info, rest)
                  | [] \<Rightarrow> (info, []))"

text \<open>The \<open>LIKE\<close> clause, looked for up to the first keyword of a later clause.\<close>

definition like_lexeme :: "gostring \<Rightarrow> raw_token \<Rightarrow> gostring" where
  "like_lexeme sql s =
     (if tk_start s < tk_end s \<and> tk_end s \<le> length sql then substring (tk_start s) (tk_end s) sql else [])"

fun like_clause :: "gostring \<Rightarrow> raw_token list \<Rightarrow> db_level_info \<Rightarrow> db_level_info" where
  "like_clause sql [] info = info"
| "like_clause sql (t # ts) info =
     (if tk_type t = ''NOT'' then like_clause sql ts (info\<lparr>dl_like_not := True\<rparr>)
      else if is_like t then
        (let found = info\<lparr>dl_has_like := True, dl_like_ci := (tk_type t = ''I_LIKE'')\<rparr>
         in case ts of
              s # _ \<Rightarrow> if tk_type s = ''STRING'' then found\<lparr>dl_like := tk_text s, dl_like_raw := like_lexeme sql s\<rparr> else found
            | [] \<Rightarrow> found)
      else if tk_type t \<in> set [''WHERE'', ''LIMIT'', ''SETTINGS'', ''FORMAT'', ''INTO'', ''PARALLEL''] then info
      else like_clause sql ts info)"

text \<open>One of the optional prefixes of the \<open>SHOW\<close> kind.\<close>

definition show_prefix :: "gostring \<Rightarrow> raw_token list \<Rightarrow> bool \<times> raw_token list" where
  "show_prefix keyword toks =
     (case toks of
        t # ts \<Rightarrow> if is_unquoted_db_keyword t keyword then (True, ts) else (False, toks)
      | [] \<Rightarrow> (False, []))"

definition show_head :: "raw_token list \<Rightarrow> db_level_info \<times> raw_token list" where
  "show_head toks =
     (let (extended, t1) = show_prefix ''EXTENDED'' toks;
          (full, t2) = show_prefix ''FULL'' t1;
          (temporary, t3) = show_prefix ''TEMPORARY'' t2;
          info = no_db_level\<lparr>dl_kind := DBShow, dl_extended := extended, dl_full := full, dl_temporary := temporary\<rparr>
      in case t3 of
           [] \<Rightarrow> (info, [])
         | t # ts \<Rightarrow> (info\<lparr>dl_show_what := to_upper (tk_text t),
                           dl_show_what_next := (case ts of n # _ \<Rightarrow> to_upper (tk_text n) | [] \<Rightarrow> [])\<rparr>, ts))"

definition parse_show :: "(raw_token \<Rightarrow> gostring option) \<Rightarrow> gostring \<Rightarrow> raw_token list \<Rightarrow> db_level_info" where
  "parse_show name_at sql toks =
     (let (head, rest) = show_head toks;
          (info, tail) =
            (if is_show_table_target_kind (dl_show_what head) then parse_show_table_then_database name_at rest head
             else case rest of
                    t # ts \<Rightarrow> if is_from_or_in t then database_clause name_at ts head else (head, rest)
                  | [] \<Rightarrow> (head, []))
      in like_clause sql tail (info\<lparr>dl_trailing := tokens_remain (after_like_clause tail)\<rparr>))"

definition parse_use :: "raw_token list \<Rightarrow> db_level_info" where
  "parse_use toks =
     no_db_level\<lparr>dl_kind := DBUse,
       dl_db := (case toks of t # _ \<Rightarrow> if is_name_token (tk_type t) then tk_text t else [] | [] \<Rightarrow> []),
       dl_trailing := tokens_remain (drop 1 toks)\<rparr>"

definition parse_db_level :: "table_reader \<Rightarrow> engine \<Rightarrow> gostring \<Rightarrow> engine_error + db_level_info" where
  "parse_db_level collect e sql =
     (case tokenize_raw e sql of
        Inl err \<Rightarrow> Inl err
      | Inr [] \<Rightarrow> Inr no_db_level
      | Inr (t # ts) \<Rightarrow>
          (let head = to_upper (tk_text t)
           in if head = ''USE'' then Inr (parse_use ts)
              else if head = ''SHOW'' then Inr (parse_show (object_name collect e sql) sql ts)
              else Inr no_db_level))"

section \<open>The body of a forwarded SHOW\<close>

definition show_forwarded_verbatim :: "db_level_info \<Rightarrow> bool" where
  "show_forwarded_verbatim info \<longleftrightarrow>
     dl_kind info = DBShow \<and> dl_show_what info \<notin> {''TABLES'', ''DATABASES'', ''CREATE''}"

definition show_body_keyword :: "raw_token \<Rightarrow> bool" where
  "show_body_keyword t \<longleftrightarrow>
     opaque_keyword t \<and>
     to_upper (tk_text t) \<in> set [''WHERE'', ''LIKE'', ''ILIKE'', ''LIMIT'', ''OFFSET'', ''SETTINGS'', ''FORMAT'', ''INTO'']"

text \<open>The tokens before the first trailing clause at bracket depth zero.\<close>

fun show_head_length :: "int \<Rightarrow> raw_token list \<Rightarrow> nat" where
  "show_head_length depth [] = 0"
| "show_head_length depth (t # ts) =
     (if tk_type t = ''L_PAREN'' then Suc (show_head_length (depth + 1) ts)
      else if tk_type t = ''R_PAREN'' then Suc (show_head_length (depth - 1) ts)
      else if depth = 0 \<and> show_body_keyword t then 0
      else Suc (show_head_length depth ts))"

definition show_body_start :: "raw_token list \<Rightarrow> nat" where
  "show_body_start toks = min 2 (length toks) + show_head_length 0 (drop 2 toks)"

text \<open>What is refused at the head of a suffix of the body.\<close>

definition show_token_refused :: "raw_token list \<Rightarrow> bool" where
  "show_token_refused toks =
     (case toks of
        [] \<Rightarrow> False
      | t # ts \<Rightarrow>
          is_name_tok (tk_type t) \<and> ts \<noteq> [] \<and> tk_type (hd ts) = ''L_PAREN'' \<or>
          opaque_keyword t \<and> (equal_fold (tk_text t) ''SELECT'' \<or> equal_fold (tk_text t) ''WITH'') \<or>
          tk_type t = ''QUOTED_IDENTIFIER'' \<and> CHR ''.'' \<in> set (tk_text t) \<or>
          tk_type t = ''L_BRACE'' \<or> opaque_in_refused_at toks)"

fun show_body_refused :: "raw_token list \<Rightarrow> bool" where
  "show_body_refused [] = False"
| "show_body_refused (t # ts) \<longleftrightarrow> show_token_refused (t # ts) \<or> show_body_refused ts"

definition show_body_is_ungoverned :: "engine \<Rightarrow> db_level_info \<Rightarrow> gostring \<Rightarrow> bool" where
  "show_body_is_ungoverned e info sql \<longleftrightarrow>
     show_forwarded_verbatim info \<and>
     (case tokenize_raw e sql of Inl _ \<Rightarrow> True | Inr toks \<Rightarrow> show_body_refused (drop (show_body_start toks) toks))"

definition show_body_qualified_names :: "engine \<Rightarrow> db_level_info \<Rightarrow> gostring \<Rightarrow> table_target list" where
  "show_body_qualified_names e info sql =
     (if \<not> show_forwarded_verbatim info then []
      else case tokenize_raw e sql of Inl _ \<Rightarrow> [] | Inr toks \<Rightarrow> qualified_name_runs toks (show_body_start toks))"

definition show_body_databases :: "engine \<Rightarrow> db_level_info \<Rightarrow> gostring \<Rightarrow> gostring list" where
  "show_body_databases e info sql = map tt_db (show_body_qualified_names e info sql)"

text \<open>\<open>SpliceShowTable\<close>: the first \<open>FROM\<close> or \<open>IN\<close> that a token follows.\<close>

fun show_table_token :: "raw_token list \<Rightarrow> engine_error + raw_token" where
  "show_table_token (f # t # ts) =
     (if \<not> is_from_or_in f then show_table_token (t # ts)
      else if \<not> is_name_tok (tk_type t) \<or> ts \<noteq> [] \<and> tk_type (hd ts) = ''DOT'' then Inl ShowTableNotSingle
      else Inr t)"
| "show_table_token _ = Inl ShowTableAbsent"

definition splice_show_table :: "engine \<Rightarrow> gostring \<Rightarrow> gostring \<Rightarrow> engine_error + gostring" where
  "splice_show_table e sql replacement =
     (case tokenize_raw e sql of
        Inl err \<Rightarrow> Inl err
      | Inr toks \<Rightarrow>
          map_sum id (\<lambda>t. take (tk_start t) sql @ replacement @ drop (tk_end t) sql) (show_table_token toks))"

end
