(* ===== verification/Db_Level_Handlers.thy ===== *)
theory Db_Level_Handlers
  imports Db_Level
begin

text \<open>
  The handlers of \<open>handlers/dblevel.go\<close>. \<open>CREATE DATABASE\<close> and \<open>DROP DATABASE\<close> are checked and answered by a
  \<open>SELECT\<close> of the statement as a literal; \<open>USE\<close> is routed to the physical database; \<open>SHOW TABLES\<close> and
  \<open>SHOW DATABASES\<close> are answered by a synthetic \<open>SELECT\<close>; every other \<open>SHOW\<close> is classified and, when it is
  admitted, forwarded as it is written.
\<close>

section \<open>Responses\<close>

definition new_db_resp :: "statement_type \<Rightarrow> response" where
  "new_db_resp stmt = new_write_resp stmt"

definition record_database_rewrite :: "gostring \<Rightarrow> gostring \<Rightarrow> response \<Rightarrow> response" where
  "record_database_rewrite origin newDB resp =
     (if origin = [] \<or> origin = newDB then resp
      else resp\<lparr>r_database_rewrites := AList.update origin newDB (r_database_rewrites resp)\<rparr>)"

abbreviation reject_db_invalid :: "gostring \<Rightarrow> response \<Rightarrow> response" where
  "reject_db_invalid \<equiv> refuse CodeInvalidRewriteRequest"

abbreviation reject_db_unsupported :: "gostring \<Rightarrow> response \<Rightarrow> response" where
  "reject_db_unsupported \<equiv> refuse CodeUnsupportedStatement"

definition passthrough_db :: "engine \<Rightarrow> json \<Rightarrow> gostring \<Rightarrow> response \<Rightarrow> response" where
  "passthrough_db e ast sql resp =
     (case e_generate e ast of Inr gen \<Rightarrow> if gen \<noteq> [] then echo gen resp else echo sql resp | Inl _ \<Rightarrow> echo sql resp)"

text \<open>A refusal that leaves the statement unclassified and as it was written.\<close>

definition reject_show :: "gostring \<Rightarrow> gostring \<Rightarrow> response \<Rightarrow> response" where
  "reject_show sql msg resp = refuse CodeUnsupportedStatement msg (echo sql (resp\<lparr>r_statement_type := StUnspecified\<rparr>))"

section \<open>CREATE DATABASE and DROP DATABASE\<close>

definition create_database_refusal :: "gostring \<Rightarrow> bool \<Rightarrow> dynamic_args option \<Rightarrow> (rewrite_code \<times> gostring) option" where
  "create_database_refusal target ifNotExists dyn =
     (let phys = get_physical_context dyn
      in if is_si_physical_database target dyn
         then Some (CodeUnsupportedStatement, si_physical_database_reject_message target)
         else case (if ifNotExists then None else map_of (get_database_map dyn) target) of
                Some p \<Rightarrow> Some (CodeInvalidRewriteRequest,
                  ''CREATE DATABASE target '' @ [CHR 0x27] @ target @ [CHR 0x27] @ '' already exists (mapped to physical '' @
                  [CHR 0x27] @ p @ [CHR 0x27] @ ''); use IF NOT EXISTS to suppress this error'')
              | None \<Rightarrow>
                  if phys \<noteq> [] \<and> phys \<notin> set (get_known_physical_databases dyn)
                  then Some (CodeInvalidRewriteRequest,
                    ''CREATE DATABASE: upstream_physical_database_in_context '' @ [CHR 0x27] @ phys @ [CHR 0x27] @
                    '' is not in known_physical_databases'')
                  else None)"

definition dispatch_create_database :: "engine \<Rightarrow> json \<Rightarrow> dynamic_args option \<Rightarrow> engine_error + response option" where
  "dispatch_create_database e ast dyn =
     (let resp = new_db_resp StCreateDatabase
      in case database_target ast of
           Inl err \<Rightarrow> Inl err
         | Inr (target, ifNotExists, _) \<Rightarrow>
             if dyn = None then
               Inr (Some (reject_db_unsupported
                 ''CREATE DATABASE requires a TableNameRewrite/dynamic_args option to validate against'' resp))
             else let seen = record_accessed_database target dyn resp
                  in case create_database_refusal target ifNotExists dyn of
                       Some (code, msg) \<Rightarrow> Inr (Some (refuse code msg seen))
                     | None \<Rightarrow>
                         map_sum id (\<lambda>gen. Some (echo (''SELECT '' @ sql_literal gen @ '' AS cdstmt'') seen)) (e_generate e ast))"

definition drop_database_refusal :: "gostring \<Rightarrow> bool \<Rightarrow> dynamic_args option \<Rightarrow> (rewrite_code \<times> gostring) option" where
  "drop_database_refusal target ifExists dyn =
     (if is_si_physical_database target dyn
      then Some (CodeUnsupportedStatement, si_physical_database_reject_message target)
      else if map_of (get_database_map dyn) target = None \<and> \<not> ifExists
      then Some (CodeInvalidRewriteRequest,
        ''DROP DATABASE target '' @ [CHR 0x27] @ target @ [CHR 0x27] @
        '' is not in database_map; use IF EXISTS to suppress this error'')
      else None)"

definition dispatch_drop_database :: "engine \<Rightarrow> json \<Rightarrow> dynamic_args option \<Rightarrow> engine_error + response option" where
  "dispatch_drop_database e ast dyn =
     (let resp = new_db_resp StDropDatabase
      in case database_target ast of
           Inl err \<Rightarrow> Inl err
         | Inr (target, _, ifExists) \<Rightarrow>
             if dyn = None then
               Inr (Some (reject_db_unsupported
                 ''DROP DATABASE requires a TableNameRewrite/dynamic_args option to validate against'' resp))
             else let seen = record_accessed_database target dyn resp
                  in case drop_database_refusal target ifExists dyn of
                       Some (code, msg) \<Rightarrow> Inr (Some (refuse code msg seen))
                     | None \<Rightarrow>
                         let routed = (case map_of (get_database_map dyn) target of
                                         Some phys \<Rightarrow> record_database_rewrite target phys seen | None \<Rightarrow> seen)
                         in map_sum id (\<lambda>gen. Some (echo (''SELECT '' @ sql_literal gen @ '' AS ddstmt'') routed)) (e_generate e ast))"

section \<open>USE\<close>

definition quoted_name :: "gostring \<Rightarrow> gostring" where
  "quoted_name s = [CHR 0x27] @ s @ [CHR 0x27]"

definition dispatch_use :: "engine \<Rightarrow> json \<Rightarrow> gostring \<Rightarrow> db_level_info \<Rightarrow> dynamic_args option \<Rightarrow> response" where
  "dispatch_use e ast sql info dyn =
     (let resp = new_db_resp StUse; origin = dl_db info; seen = record_accessed_database origin dyn resp
      in if dyn = None then passthrough_db e ast sql resp
         else if is_si_physical_database origin dyn
           then reject_db_unsupported (si_physical_database_reject_message origin) seen
         else if protected_database origin dyn
           then reject_db_invalid (protected_reject_message origin) seen
         else case resolve_physical_database origin dyn of
                None \<Rightarrow> reject_db_invalid (''USE target '' @ quoted_name origin @
                  '' is not in database_map and not a known physical database; user does not have this database'') resp
              | Some physical \<Rightarrow>
                  if is_logical_remote_mapped origin dyn then
                    reject_db_unsupported (''USE target '' @ quoted_name origin @
                      '' is mapped to a remote upstream via dynamic_args.logical_database_to_remote_upstream_index; '' @
                      ''USE has no remote analog'') resp
                  else if physical = origin then passthrough_db e ast sql resp
                  else if dl_trailing info then reject_db_unsupported unsupported_statement_message resp
                  else record_database_rewrite origin physical (echo (''USE '' @ physical) resp))"

section \<open>The kinds of SHOW\<close>

datatype show_kind = KindUnknown | KindRewritten | KindTargetBearing | KindTargetLess

definition show_kind_class :: "gostring \<Rightarrow> show_kind" where
  "show_kind_class kind =
     (if kind = ''TABLES'' then KindRewritten
      else if kind \<in> set [''DICTIONARIES'', ''COLUMNS'', ''FIELDS'', ''INDEX'', ''INDEXES'', ''INDICES'', ''KEYS'']
        then KindTargetBearing
      else if kind \<in> set [''CLUSTER'', ''CLUSTERS'', ''SETTINGS'', ''MERGES'', ''CACHES'', ''PROCESSLIST'', ''FUNCTIONS'',
                          ''GRANTS'', ''USERS'', ''ROLES'', ''ROW'', ''QUOTA'', ''QUOTAS'', ''PROFILES'', ''POLICIES'',
                          ''ACCESS'', ''ENGINES'', ''FILESYSTEM''] then KindTargetLess
      else KindUnknown)"

definition show_class_of :: "db_level_info \<Rightarrow> show_class" where
  "show_class_of info = system_table_show_refusal (dl_show_what info) (dl_show_what_next info)"

definition record_si_physical_table :: "gostring \<Rightarrow> gostring \<Rightarrow> response \<Rightarrow> response" where
  "record_si_physical_table db table resp =
     add_accessed \<lparr>at_original_database = db, at_original_table = table, at_logical_database = [],
       at_physical_database = db, at_is_remote = False, at_is_storage_integrity = True\<rparr> resp"

text \<open>The database a \<open>SHOW\<close> runs in: none, one the parser cannot name, or a name.\<close>

datatype show_target = NoTarget | UnresolvedTarget | ResolvedTarget gostring

definition show_database_target :: "db_level_info \<Rightarrow> gostring \<Rightarrow> show_target" where
  "show_database_target info logicalContext =
     (if dl_has_db info then
        (if \<not> dl_db_resolved info \<or> dl_db info = [] then UnresolvedTarget else ResolvedTarget (dl_db info))
      else if logicalContext = [] then NoTarget else ResolvedTarget logicalContext)"

definition unresolved_show_message :: "gostring \<Rightarrow> gostring" where
  "unresolved_show_message what = ''storage-integrity SHOW '' @ what @ '' database is not statically resolvable''"

text \<open>\<open>rejectShowTargetStorageIntegrityNamespace\<close>, on the resolved target, and the whole of it.\<close>

definition reject_show_si_target ::
    "gostring \<Rightarrow> db_level_info \<Rightarrow> dynamic_args option \<Rightarrow> gostring \<Rightarrow> response \<Rightarrow> response option" where
  "reject_show_si_target sql info dyn target resp =
     (let (logical, authorized) = authorize_si_logical target dyn
      in if is_si_physical_database target dyn then
           (if dl_has_table info \<and> dl_table_resolved info
            then Some (reject_show sql (si_physical_reject_message (qualify target (dl_table info)))
                   (record_si_physical_table target (dl_table info) resp))
            else Some (reject_show sql (si_physical_database_reject_message target) (record_accessed_database target dyn resp)))
         else if \<not> is_si_logical_database target dyn then None
         else let seen = (record_si_logical_database_unique target dyn resp)\<lparr>r_statement_type := StUnspecified\<rparr>
              in Some (if \<not> authorized then reject_db_invalid (si_unauthorized_message logical) (echo sql seen)
                       else reject_db_unsupported (si_logical_database_reject_message logical) (echo sql seen)))"

definition reject_show_si_namespace ::
    "gostring \<Rightarrow> db_level_info \<Rightarrow> dynamic_args option \<Rightarrow> response \<Rightarrow> response option" where
  "reject_show_si_namespace sql info dyn resp =
     (let physical = get_physical_context dyn
      in if \<not> storage_integrity_surface_active dyn then None
         else if \<not> dl_has_db info \<and> is_si_physical_database physical dyn then
           Some (reject_show sql (si_physical_database_reject_message physical) (record_accessed_database physical dyn resp))
         else case show_database_target info (get_logical_context dyn) of
                NoTarget \<Rightarrow> None
              | UnresolvedTarget \<Rightarrow> Some (reject_show sql (unresolved_show_message (dl_show_what info)) resp)
              | ResolvedTarget target \<Rightarrow> reject_show_si_target sql info dyn target resp)"

definition show_body_rejection ::
    "engine \<Rightarrow> db_level_info \<Rightarrow> gostring \<Rightarrow> dynamic_args option \<Rightarrow> response \<Rightarrow> response option" where
  "show_body_rejection e info sql dyn resp =
     (case (if storage_integrity_surface_active dyn
            then find (\<lambda>tt. is_si_physical_database (tt_db tt) dyn) (show_body_qualified_names e info sql) else None) of
        Some tt \<Rightarrow> Some (reject_show sql (si_physical_reject_message (qualify (tt_db tt) (tt_table tt)))
                          (record_si_physical_table (tt_db tt) (tt_table tt) resp))
      | None \<Rightarrow>
          if show_body_is_ungoverned e info sql then Some (reject_show sql unsupported_statement_message resp) else None)"

text \<open>An unqualified table of the column and index family is resolved like a table of \<open>FROM\<close>.\<close>

definition dispatch_show_unqualified_table ::
    "engine \<Rightarrow> gostring \<Rightarrow> db_level_info \<Rightarrow> dynamic_args option \<Rightarrow> response \<Rightarrow> engine_error + response option" where
  "dispatch_show_unqualified_table e sql info dyn resp0 =
     (let sel = \<lparr>sel_mode = ModeDynamic, sel_static = None, sel_dynamic = dyn\<rparr>
      in case decide_write_target (no_target\<lparr>tt_table := dl_table info\<rparr>) (''SHOW '' @ dl_show_what info) sel resp0 of
           (Some (ActionRename db table), resp) \<Rightarrow>
             map_sum id (\<lambda>out. Some (echo out resp)) (splice_show_table e sql (quote_qualified db table))
         | (_, resp) \<Rightarrow> Inr (Some (echo sql resp)))"

section \<open>SHOW TABLES\<close>

definition show_tables_source :: "gostring \<Rightarrow> dynamic_args option \<Rightarrow> gostring option" where
  "show_tables_source logical dyn =
     (case map_of (get_remote_index dyn) logical of
        None \<Rightarrow> Some ''system.tables''
      | Some key \<Rightarrow>
          (case map_of (get_remote_upstreams dyn) key of
             None \<Rightarrow> None
           | Some up \<Rightarrow> Some (''remote('' @ sql_literal (get_addr up) @ '', system, tables, '' @ sql_literal (get_user up) @
                              '', '' @ sql_literal (get_password up) @ '')'')))"

definition show_tables_sql :: "gostring \<Rightarrow> gostring \<Rightarrow> gostring \<Rightarrow> gostring" where
  "show_tables_sql source prefix physical =
     (let p = sql_literal prefix
      in ''SELECT multiIf(startsWith(name, '' @ p @ ''), substring(name, length('' @ p @
         '') + 1), name) AS name FROM (SELECT name FROM '' @ source @ '' WHERE database = '' @ sql_literal physical @
         '' AND startsWith(name, '' @ p @ ''))'')"

definition show_tables_variant :: "db_level_info \<Rightarrow> bool" where
  "show_tables_variant info \<longleftrightarrow>
     dl_trailing info \<or> dl_has_like info \<or> dl_extended info \<or> dl_full info \<or> dl_temporary info"

text \<open>The enumeration of one logical database.\<close>

definition show_tables_of :: "db_level_info \<Rightarrow> dynamic_args option \<Rightarrow> gostring \<Rightarrow> response \<Rightarrow> response" where
  "show_tables_of info dyn logical resp =
     (if is_si_physical_database logical dyn
      then reject_db_unsupported (si_physical_database_reject_message logical) (record_accessed_database logical dyn resp)
      else case resolve_physical_database logical dyn of
             None \<Rightarrow> reject_db_invalid (''SHOW TABLES target logical database '' @ quoted_name logical @
               '' is not in database_map and not a known physical database; user does not have this database'') resp
           | Some physical \<Rightarrow>
               if show_tables_variant info then reject_db_unsupported unsupported_statement_message resp
               else case show_tables_source logical dyn of
                      None \<Rightarrow> reject_db_invalid (''SHOW TABLES target logical database '' @ quoted_name logical @
                        '' is mapped to remote upstream key '' @
                        quoted_name (case map_of (get_remote_index dyn) logical of Some key \<Rightarrow> key | None \<Rightarrow> []) @
                        '' but that key is not in remote_upstreams'') resp
                    | Some source \<Rightarrow>
                        record_database_rewrite logical physical
                          (echo (show_tables_sql source (build_dynamic_table_prefix logical dyn) physical) resp))"

definition enumerate_tables :: "gostring \<Rightarrow> db_level_info \<Rightarrow> dynamic_args option \<Rightarrow> response \<Rightarrow> response" where
  "enumerate_tables sql info dyn resp =
     (case show_database_target info (get_logical_context dyn) of
        UnresolvedTarget \<Rightarrow>
          if storage_integrity_surface_active dyn then reject_show sql (unresolved_show_message (dl_show_what info)) resp
          else reject_db_invalid ''SHOW TABLES target database is not statically resolvable'' resp
      | NoTarget \<Rightarrow>
          reject_db_invalid
            (''SHOW TABLES has no FROM clause and no upstream_logical_database_in_context is set; caller must send '' @
             ''`USE <db>` or use `SHOW TABLES FROM <db>`'') resp
      | ResolvedTarget target \<Rightarrow>
          show_tables_of info dyn (if dl_has_db info then takeWhile (\<lambda>c. c \<noteq> CHR ''.'') target else target) resp)"

section \<open>SHOW\<close>

definition forward_target_bearing ::
    "engine \<Rightarrow> json \<Rightarrow> gostring \<Rightarrow> db_level_info \<Rightarrow> dynamic_args option \<Rightarrow> response \<Rightarrow> engine_error + response option" where
  "forward_target_bearing e ast sql info dyn resp =
     (case reject_show_si_namespace sql info dyn resp of
        Some r \<Rightarrow> Inr (Some r)
      | None \<Rightarrow>
          (case show_body_rejection e info sql dyn resp of
             Some r \<Rightarrow> Inr (Some r)
           | None \<Rightarrow>
               (case show_class_of info of
                  ShowReads table \<Rightarrow> Inr (Some (reject_show sql (system_table_refused_message table) resp))
                | _ \<Rightarrow>
                    if dl_multi_part info then Inr (Some (reject_show sql unsupported_statement_message resp))
                    else if dl_show_what info = ''DICTIONARIES'' \<and> (dl_full info \<or> dl_temporary info)
                      then Inr (Some (echo sql resp))
                    else if dl_has_table info \<and> dl_table_resolved info \<and> \<not> dl_has_db info \<and> dl_show_what info \<noteq> ''DICTIONARIES''
                      then dispatch_show_unqualified_table e sql info dyn resp
                    else if dl_has_table info then Inr (Some (echo sql resp))
                    else Inr (Some (passthrough_db e ast sql resp)))))"

definition forward_target_less ::
    "engine \<Rightarrow> json \<Rightarrow> gostring \<Rightarrow> db_level_info \<Rightarrow> dynamic_args option \<Rightarrow> response \<Rightarrow> response" where
  "forward_target_less e ast sql info dyn resp =
     (case show_body_rejection e info sql dyn resp of
        Some r \<Rightarrow> r
      | None \<Rightarrow>
          (case show_class_of info of
             ShowReads table \<Rightarrow> reject_show sql (system_table_refused_message table) resp
           | _ \<Rightarrow> passthrough_db e ast sql resp))"

text \<open>A kind on no list is left to the storage-integrity refusal while the surface is active.\<close>

definition forward_unknown ::
    "engine \<Rightarrow> json \<Rightarrow> gostring \<Rightarrow> db_level_info \<Rightarrow> dynamic_args option \<Rightarrow> response \<Rightarrow> response option" where
  "forward_unknown e ast sql info dyn resp =
     (if storage_integrity_surface_active dyn then None
      else if show_body_is_ungoverned e info sql then Some (reject_show sql unsupported_statement_message resp)
      else Some (case show_class_of info of
                   ShowReads table \<Rightarrow> reject_show sql (system_table_refused_message table) resp
                 | ShowUnknown \<Rightarrow> reject_show sql unsupported_statement_message resp
                 | ShowAllowed \<Rightarrow> passthrough_db e ast sql resp))"

definition dispatch_show_tables ::
    "engine \<Rightarrow> json \<Rightarrow> gostring \<Rightarrow> db_level_info \<Rightarrow> dynamic_args option \<Rightarrow> engine_error + response option" where
  "dispatch_show_tables e ast sql info dyn =
     (let resp = new_db_resp StShowTables
      in if dyn = None then
           Inr (Some (if dl_show_what info = ''DICTIONARIES'' \<and> (dl_full info \<or> dl_temporary info) then echo sql resp
                      else passthrough_db e ast sql resp))
         else case show_kind_class (dl_show_what info) of
                KindTargetBearing \<Rightarrow> forward_target_bearing e ast sql info dyn resp
              | KindTargetLess \<Rightarrow> Inr (Some (forward_target_less e ast sql info dyn resp))
              | KindUnknown \<Rightarrow> Inr (forward_unknown e ast sql info dyn resp)
              | KindRewritten \<Rightarrow> Inr (Some (enumerate_tables sql info dyn resp)))"

section \<open>SHOW DATABASES\<close>

definition build_like_clause :: "db_level_info \<Rightarrow> gostring" where
  "build_like_clause info =
     (if \<not> dl_has_like info then []
      else '' WHERE name '' @ (if dl_like_not info then ''NOT '' else []) @
           (if dl_like_ci info then ''ILIKE'' else ''LIKE'') @ '' '' @ dl_like_raw info)"

definition visible_databases :: "dynamic_args option \<Rightarrow> (gostring \<times> gostring) list" where
  "visible_databases dyn =
     filter (\<lambda>(_, physical). physical \<in> set (get_known_physical_databases dyn)) (sort_key fst (get_database_map dyn))"

definition show_databases_sql :: "db_level_info \<Rightarrow> gostring list \<Rightarrow> gostring" where
  "show_databases_sql info names =
     ''SELECT name FROM ('' @
     (if names = [] then ''SELECT '' @ sql_literal [] @ '' AS name WHERE 0''
      else join_with '' UNION ALL '' (map (\<lambda>n. ''SELECT '' @ sql_literal n @ '' AS name'') names)) @
     '')'' @ build_like_clause info @ '' ORDER BY name''"

definition show_databases_variant :: "db_level_info \<Rightarrow> bool" where
  "show_databases_variant info \<longleftrightarrow>
     dl_trailing info \<or> dl_has_db info \<or> dl_extended info \<or> dl_full info \<or> dl_temporary info \<or>
     (dl_has_like info \<and> \<not> has_prefix (dl_like_raw info) [CHR 0x27])"

definition dispatch_show_databases :: "engine \<Rightarrow> json \<Rightarrow> gostring \<Rightarrow> db_level_info \<Rightarrow> dynamic_args option \<Rightarrow> response" where
  "dispatch_show_databases e ast sql info dyn =
     (let resp = new_db_resp StShowDatabases; visible = visible_databases dyn
      in if dyn = None then passthrough_db e ast sql resp
         else if show_databases_variant info then reject_db_unsupported unsupported_statement_message resp
         else echo (show_databases_sql info (map fst visible))
                (foldl (\<lambda>r (logical, physical). record_database_rewrite logical physical r) resp visible))"

section \<open>The handler\<close>

definition dispatch_db_command ::
    "table_reader \<Rightarrow> engine \<Rightarrow> json \<Rightarrow> gostring \<Rightarrow> dynamic_args option \<Rightarrow> engine_error + response option" where
  "dispatch_db_command collect e ast sql dyn =
     (case parse_db_level collect e sql of
        Inl err \<Rightarrow> Inl err
      | Inr info \<Rightarrow>
          (case dl_kind info of
             DBUse \<Rightarrow> Inr (Some (dispatch_use e ast sql info dyn))
           | DBShow \<Rightarrow>
               if dl_show_what info = ''DATABASES'' then Inr (Some (dispatch_show_databases e ast sql info dyn))
               else if dl_show_what info = ''CREATE'' then Inr None
               else dispatch_show_tables e ast sql info dyn
           | DBNone \<Rightarrow> Inr None))"

definition rewrite_db_level ::
    "table_reader \<Rightarrow> engine \<Rightarrow> json \<Rightarrow> gostring \<Rightarrow> rewrite_option list \<Rightarrow> engine_error + response option" where
  "rewrite_db_level collect e ast sql opts =
     (let dyn = find_dynamic_args opts
      in case node_kind ast of
           Inl err \<Rightarrow> Inl err
         | Inr kind \<Rightarrow>
             if kind = NodeCreateDB then dispatch_create_database e ast dyn
             else if kind = NodeDropDB then dispatch_drop_database e ast dyn
             else if kind = NodeCommand then dispatch_db_command collect e ast sql dyn
             else Inr None)"

end
