(* ===== verification/Object_Target.thy ===== *)
theory Object_Target
  imports Db_Level_Handlers
begin

text \<open>
  Statements about one object: the parse of \<open>EXISTS\<close>, \<open>SHOW CREATE\<close> and \<open>DESCRIBE\<close> from the tokens
  (\<open>engine/objtarget.go\<close>) and their handlers (\<open>handlers/exists.go\<close>, \<open>handlers/describe.go\<close>). A target that is
  admitted is written again in canonical form with its physical name; one on the storage-integrity surface is
  answered from its safe table, or refused.
\<close>

section \<open>The parse (engine/objtarget.go)\<close>

datatype object_verb = VerbNone | VerbExists | VerbShowCreate | VerbDescribe

datatype object_target_shape = ObjectTargetNone | ObjectTargetName | ObjectTargetCall | ObjectTargetSubquery

record object_target =
  ob_verb :: object_verb
  ob_temporary :: bool
  ob_type :: gostring
  ob_db :: gostring
  ob_table :: gostring
  ob_shape :: object_target_shape
  ob_trailing :: bool
  ob_access_entity :: bool
  ob_subquery_start :: nat

definition no_object_target :: object_target where
  "no_object_target =
     \<lparr>ob_verb = VerbNone, ob_temporary = False, ob_type = [], ob_db = [], ob_table = [],
      ob_shape = ObjectTargetNone, ob_trailing = False, ob_access_entity = False, ob_subquery_start = 0\<rparr>"

text \<open>The verb and the tokens after it, for both readers of the statement.\<close>

definition object_verb_of :: "raw_token list \<Rightarrow> (object_verb \<times> raw_token list) option" where
  "object_verb_of toks =
     (case toks of
        [] \<Rightarrow> None
      | t # ts \<Rightarrow>
          (let head = to_upper (tk_text t)
           in if head = ''EXISTS'' then Some (VerbExists, ts)
              else if head = ''SHOW'' then
                (case ts of
                   c # us \<Rightarrow> if equal_fold (tk_text c) ''CREATE'' then Some (VerbShowCreate, us) else None
                 | [] \<Rightarrow> None)
              else if head = ''DESCRIBE'' \<or> head = ''DESC'' then Some (VerbDescribe, ts)
              else None))"

definition skip_temporary :: "raw_token list \<Rightarrow> bool \<times> raw_token list" where
  "skip_temporary toks =
     (case toks of
        t # ts \<Rightarrow> if equal_fold (tk_text t) ''TEMPORARY'' then (True, ts) else (False, toks)
      | [] \<Rightarrow> (False, []))"

definition object_type_word :: "raw_token list \<Rightarrow> (gostring \<times> raw_token list) option" where
  "object_type_word toks =
     (case toks of
        t # ts \<Rightarrow>
          (let word = to_upper (tk_text t)
           in if word \<in> {''TABLE'', ''DATABASE'', ''VIEW'', ''DICTIONARY''} then Some (word, ts) else None)
      | [] \<Rightarrow> None)"

definition is_access_entity_word :: "raw_token \<Rightarrow> bool" where
  "is_access_entity_word tok \<longleftrightarrow>
     tk_type tok \<noteq> ''QUOTED_IDENTIFIER'' \<and> tk_type tok \<noteq> ''STRING'' \<and>
     to_upper (tk_text tok) \<in> set [''USER'', ''USERS'', ''ROLE'', ''ROLES'', ''QUOTA'', ''QUOTAS'', ''PROFILE'',
       ''PROFILES'', ''POLICY'', ''POLICIES'', ''ROW'', ''SETTINGS'', ''MASKING'']"

text \<open>The name run, with the tokens after it.\<close>

definition object_name_run :: "raw_token list \<Rightarrow> (gostring \<times> gostring \<times> raw_token list) option" where
  "object_name_run toks =
     (case toks of
        [] \<Rightarrow> None
      | a # ts \<Rightarrow>
          if \<not> is_name_tok (tk_type a) then None
          else case ts of
                 d # b # us \<Rightarrow> if tk_type d = ''DOT'' \<and> is_name_tok (tk_type b) then Some (tk_text a, tk_text b, us)
                                else Some ([], tk_text a, ts)
               | _ \<Rightarrow> Some ([], tk_text a, ts))"

definition opens_paren :: "raw_token list \<Rightarrow> bool" where
  "opens_paren toks \<longleftrightarrow> toks \<noteq> [] \<and> tk_type (hd toks) = ''L_PAREN''"

definition read_object_name :: "raw_token list \<Rightarrow> object_target \<Rightarrow> object_target" where
  "read_object_name toks out =
     (case object_name_run toks of
        Some (db, table, rest) \<Rightarrow>
          out\<lparr>ob_db := db, ob_table := table,
              ob_shape := (if opens_paren rest then ObjectTargetCall else ObjectTargetName),
              ob_trailing := tokens_remain rest\<rparr>
      | None \<Rightarrow>
          if opens_paren toks then out\<lparr>ob_shape := ObjectTargetSubquery, ob_subquery_start := tk_start (hd toks)\<rparr> else out)"

definition object_target_of :: "raw_token list \<Rightarrow> object_target" where
  "object_target_of toks =
     (case object_verb_of toks of
        None \<Rightarrow> no_object_target
      | Some (verb, t1) \<Rightarrow>
          (let (temporary, t2) = skip_temporary t1;
               (typed, rest) = (case object_type_word t2 of Some (word, t3) \<Rightarrow> (Some word, t3) | None \<Rightarrow> (None, t2));
               out = no_object_target
                 \<lparr>ob_verb := verb, ob_temporary := temporary,
                  ob_type := (case typed of Some word \<Rightarrow> word | None \<Rightarrow> ''TABLE''),
                  ob_access_entity :=
                    (verb = VerbShowCreate \<and> typed = None \<and> rest \<noteq> [] \<and> is_access_entity_word (hd rest))\<rparr>
           in read_object_name rest out))"

definition parse_object_target :: "engine \<Rightarrow> gostring \<Rightarrow> engine_error + object_target" where
  "parse_object_target e sql = map_sum id object_target_of (tokenize_raw e sql)"

section \<open>A target that is a function call\<close>

definition bare_identifier_byte :: "char \<Rightarrow> bool" where
  "bare_identifier_byte c \<longleftrightarrow> c = CHR ''_'' \<or> is_alpha_byte c"

definition looks_like_bare_identifier_text :: "gostring \<Rightarrow> bool" where
  "looks_like_bare_identifier_text s \<longleftrightarrow>
     s \<noteq> [] \<and> bare_identifier_byte (hd s) \<and> list_all (\<lambda>c. bare_identifier_byte c \<or> is_digit_byte c) (tl s)"

definition first_dot_segment :: "gostring \<Rightarrow> gostring" where
  "first_dot_segment s = takeWhile (\<lambda>c. c \<noteq> CHR ''.'') s"

text \<open>What one argument of the call names.\<close>

definition argument_database :: "raw_token list \<Rightarrow> gostring list" where
  "argument_database arg =
     (case arg of
        [t] \<Rightarrow> if tk_type t = ''STRING'' then [first_dot_segment (tk_text t)]
               else if is_name_tok (tk_type t) then [tk_text t] else []
      | [a, d, b] \<Rightarrow>
          if is_name_tok (tk_type a) \<and> tk_type d = ''DOT'' \<and> is_name_tok (tk_type b) then [tk_text a] else []
      | _ \<Rightarrow> [])"

text \<open>The arguments up to the closing bracket; \<open>arg\<close> is the argument read so far, reversed.\<close>

fun call_arg_databases :: "nat \<Rightarrow> raw_token list \<Rightarrow> raw_token list \<Rightarrow> gostring list option" where
  "call_arg_databases depth arg [] = None"
| "call_arg_databases depth arg (t # ts) =
     (if tk_type t = ''L_PAREN'' then call_arg_databases (depth + 1) (t # arg) ts
      else if tk_type t = ''R_PAREN'' then
        (if depth = 0 then Some (argument_database (rev arg)) else call_arg_databases (depth - 1) (t # arg) ts)
      else if tk_type t = ''COMMA'' \<and> depth = 0 then
        map_option ((@) (argument_database (rev arg))) (call_arg_databases 0 [] ts)
      else call_arg_databases depth (t # arg) ts)"

definition object_target_call :: "raw_token list \<Rightarrow> (object_verb \<times> gostring \<times> gostring list) option" where
  "object_target_call toks =
     (case object_verb_of toks of
        None \<Rightarrow> None
      | Some (verb, t1) \<Rightarrow>
          (let (_, t2) = skip_temporary t1;
               rest = (case object_type_word t2 of Some (_, t3) \<Rightarrow> t3 | None \<Rightarrow> t2)
           in case rest of
                n # p # ts \<Rightarrow>
                  if looks_like_bare_identifier_text (tk_text n) \<and> tk_type p = ''L_PAREN''
                  then map_option (\<lambda>dbs. (verb, tk_text n, dbs)) (call_arg_databases 0 [] ts) else None
              | _ \<Rightarrow> None))"

section \<open>Rendering\<close>

definition build_object_sql :: "gostring \<Rightarrow> bool \<Rightarrow> gostring \<Rightarrow> gostring \<Rightarrow> gostring" where
  "build_object_sql keyword temporary db table =
     keyword @ '' '' @ (if temporary then ''TEMPORARY '' else []) @ ''TABLE '' @ quote_qualified db table"

definition rejects_rerender :: "object_target \<Rightarrow> table_decision \<Rightarrow> bool" where
  "rejects_rerender t d \<longleftrightarrow>
     ob_trailing t \<or> (ob_temporary t \<and> (case d of ActionRename _ _ \<Rightarrow> True | _ \<Rightarrow> False))"

definition describe_metadata_sql :: "gostring \<Rightarrow> gostring \<Rightarrow> gostring" where
  "describe_metadata_sql safeTable rid =
     (let (db, table) = split_physical_name safeTable
      in ''SELECT name, type, default_kind AS default_type, default_expression, comment, '' @ sql_literal [] @
         '' AS codec_expression, '' @ sql_literal [] @ '' AS ttl_expression FROM system.columns WHERE database = '' @
         sql_literal db @ '' AND table = '' @ sql_literal table @ '' AND name != '' @ sql_literal rid @
         '' ORDER BY position'')"

section \<open>The namespaces both handlers refuse\<close>

definition object_ref_of :: "object_target \<Rightarrow> table_target" where
  "object_ref_of t = no_target\<lparr>tt_db := ob_db t, tt_table := ob_table t\<rparr>"

definition object_namespace_refusal :: "object_target \<Rightarrow> selection \<Rightarrow> response \<Rightarrow> response option" where
  "object_namespace_refusal t sel resp =
     (let dyn = sel_dynamic sel; effectiveDB = (if ob_db t = [] then get_logical_context dyn else ob_db t)
      in if sel_mode sel \<noteq> ModeDynamic then None
         else if ob_type t = ''DATABASE'' \<and> is_si_physical_database (ob_table t) dyn then
           Some (reject_unsupported (si_physical_database_reject_message (ob_table t))
                  (record_accessed_database (ob_table t) dyn resp))
         else if ob_type t \<noteq> ''DATABASE'' \<and> is_si_physical_database effectiveDB dyn then
           Some (reject_unsupported (si_physical_reject_message (qualify effectiveDB (ob_table t)))
                  (record_accessed_write (object_ref_of t) sel resp))
         else None)"

text \<open>The end both share: the target decided like a write target, and written again.\<close>

definition rerender_target ::
    "gostring \<Rightarrow> object_target \<Rightarrow> selection \<Rightarrow> response \<Rightarrow> response" where
  "rerender_target keyword t sel resp0 =
     (case decide_write_target (object_ref_of t) (keyword @ '' TABLE'') sel resp0 of
        (None, resp) \<Rightarrow> resp
      | (Some d, resp) \<Rightarrow>
          if rejects_rerender t d then reject_unsupported unsupported_statement_message resp
          else let (db, table) = (case d of ActionRename db table \<Rightarrow> (db, table) | _ \<Rightarrow> (ob_db t, ob_table t))
               in echo (build_object_sql keyword (ob_temporary t) db table) resp)"

section \<open>EXISTS and SHOW CREATE (handlers/exists.go)\<close>

text \<open>The answer for a target of the storage-integrity lane.\<close>

definition exists_si ::
    "gostring \<Rightarrow> object_target \<Rightarrow> selection \<Rightarrow> si_table \<Rightarrow> gostring \<Rightarrow> response \<Rightarrow> response" where
  "exists_si keyword t sel tbl key resp0 =
     (let tt = object_ref_of t; resp = record_accessed_write tt sel resp0;
          (logical, authorized) = authorize_si_logical (ob_db t) (sel_dynamic sel);
          (db, table) = split_physical_name (safe_table tbl)
      in if \<not> authorized then reject_invalid (si_unauthorized_message logical) resp
         else if ob_verb t = VerbShowCreate then
           reject_unsupported (''SHOW CREATE TABLE on storage-integrity table '' @ key @ '' is not supported'') resp
         else if ob_trailing t \<or> ob_temporary t then reject_unsupported unsupported_statement_message resp
         else echo (build_object_sql keyword (ob_temporary t) db table) (add_rewrite tt db table resp))"

definition exists_target :: "gostring \<Rightarrow> object_target \<Rightarrow> selection \<Rightarrow> response \<Rightarrow> response" where
  "exists_target keyword t sel resp =
     (let dyn = sel_dynamic sel
      in if sel_mode sel = ModeDynamic \<and> snd (lookup_si_physical (ob_db t) (ob_table t) dyn) then
           reject_unsupported (si_physical_reject_message (qualify (ob_db t) (ob_table t)))
             (record_accessed_write (object_ref_of t) sel resp)
         else case (if sel_mode sel = ModeDynamic then lookup_storage_integrity (ob_db t) (ob_table t) dyn else None) of
                Some (tbl, key) \<Rightarrow> exists_si keyword t sel tbl key resp
              | None \<Rightarrow> rerender_target keyword t sel resp)"

definition exists_response :: "object_target \<Rightarrow> selection \<Rightarrow> response" where
  "exists_response t sel =
     (let showCreate = (ob_verb t = VerbShowCreate);
          keyword = (if showCreate then ''SHOW CREATE'' else ''EXISTS'');
          resp = new_write_resp (if showCreate then StShowCreateTable else StExistsTable)
      in if ob_access_entity t then reject_unsupported unsupported_statement_message resp
         else if sel_mode sel = ModeDynamic \<and> ob_table t = [] then reject_unsupported unsupported_statement_message resp
         else case object_namespace_refusal t sel resp of
                Some refused \<Rightarrow> refused
              | None \<Rightarrow>
                  if ob_type t \<noteq> ''TABLE'' then
                    reject_unsupported (keyword @ '' '' @ ob_type t @ '' is not supported; only '' @ keyword @
                      '' TABLE is allowed'') resp
                  else if ob_table t = [] then reject_unsupported unsupported_statement_message resp
                  else exists_target keyword t sel resp)"

definition rewrite_exists_show_create ::
    "engine \<Rightarrow> json \<Rightarrow> gostring \<Rightarrow> rewrite_option list \<Rightarrow> engine_error + response option" where
  "rewrite_exists_show_create e ast sql opts =
     (case node_kind ast of
        Inl err \<Rightarrow> Inl err
      | Inr kind \<Rightarrow>
          if kind \<noteq> NodeCommand then Inr None
          else case parse_object_target e sql of
                 Inl err \<Rightarrow> Inl err
               | Inr t \<Rightarrow>
                   if ob_verb t \<noteq> VerbExists \<and> ob_verb t \<noteq> VerbShowCreate then Inr None
                   else Inr (Some (exists_response t (find_active opts))))"

section \<open>DESCRIBE (handlers/describe.go)\<close>

definition describe_subquery_si_table ::
    "table_reader \<Rightarrow> engine \<Rightarrow> gostring \<Rightarrow> selection \<Rightarrow> table_target option" where
  "describe_subquery_si_table collect e body sel =
     (case e_parse_one e body of
        Inl _ \<Rightarrow> None
      | Inr ast \<Rightarrow>
          (case collect ast of
             Inl _ \<Rightarrow> None
           | Inr tables \<Rightarrow> find (\<lambda>tt. tt_db tt \<noteq> [] \<and> is_si_physical_database (tt_db tt) (sel_dynamic sel)) tables))"

definition describe_no_name_message ::
    "table_reader \<Rightarrow> engine \<Rightarrow> gostring \<Rightarrow> object_target \<Rightarrow> selection \<Rightarrow> gostring" where
  "describe_no_name_message collect e sql t sel =
     (if \<not> storage_integrity_surface_active (sel_dynamic sel) then unsupported_statement_message
      else case (if ob_shape t = ObjectTargetSubquery
                 then describe_subquery_si_table collect e (drop (ob_subquery_start t) sql) sel else None) of
             Some tt \<Rightarrow> si_physical_reject_message (qualify (tt_db tt) (tt_table tt))
           | None \<Rightarrow> si_unmodelled_message)"

definition describe_si :: "object_target \<Rightarrow> selection \<Rightarrow> si_table \<Rightarrow> response \<Rightarrow> response" where
  "describe_si t sel tbl resp =
     (let (logical, authorized) = authorize_si_logical (ob_db t) (sel_dynamic sel)
      in if \<not> authorized then reject_invalid (si_unauthorized_message logical) resp
         else if ob_trailing t \<or> ob_temporary t then reject_unsupported unsupported_statement_message resp
         else echo (describe_metadata_sql (safe_table tbl) (reserved_row_id (sel_dynamic sel))) resp)"

text \<open>The target of a \<open>DESCRIBE TABLE\<close>; \<open>resp\<close> has recorded it.\<close>

definition describe_table :: "gostring \<Rightarrow> object_target \<Rightarrow> selection \<Rightarrow> response \<Rightarrow> response" where
  "describe_table sql t sel resp =
     (let dyn = sel_dynamic sel
      in if sel_mode sel = ModeDynamic \<and> snd (lookup_si_physical (ob_db t) (ob_table t) dyn) then
           reject_unsupported (si_physical_reject_message (qualify (ob_db t) (ob_table t))) resp
         else case (if sel_mode sel = ModeDynamic then lookup_storage_integrity (ob_db t) (ob_table t) dyn else None) of
                Some (tbl, _) \<Rightarrow> describe_si t sel tbl resp
              | None \<Rightarrow>
                  if sel_mode sel = ModeDynamic \<and> ob_shape t = ObjectTargetName \<and> ob_db t = [] then
                    rerender_target ''DESCRIBE'' t sel (resp\<lparr>r_accessed := []\<rparr>)
                  else echo sql resp)"

definition describe_response ::
    "table_reader \<Rightarrow> engine \<Rightarrow> gostring \<Rightarrow> object_target \<Rightarrow> selection \<Rightarrow> response" where
  "describe_response collect e sql t sel =
     (let resp = new_write_resp StDescribe
      in if sel_mode sel = ModeDynamic \<and> (ob_shape t = ObjectTargetSubquery \<or> ob_shape t = ObjectTargetNone) then
           reject_unsupported (describe_no_name_message collect e sql t sel) resp
         else case object_namespace_refusal t sel resp of
                Some refused \<Rightarrow> refused
              | None \<Rightarrow>
                  if ob_type t \<noteq> ''TABLE'' then
                    reject_unsupported (''DESCRIBE '' @ ob_type t @ '' is not supported; only DESCRIBE TABLE is allowed'') resp
                  else describe_table sql t sel (record_accessed_write (object_ref_of t) sel resp))"

definition rewrite_describe ::
    "table_reader \<Rightarrow> engine \<Rightarrow> json \<Rightarrow> gostring \<Rightarrow> rewrite_option list \<Rightarrow> engine_error + response option" where
  "rewrite_describe collect e ast sql opts =
     (case node_kind ast of
        Inl err \<Rightarrow> Inl err
      | Inr kind \<Rightarrow>
          if kind \<noteq> NodeCommand then Inr None
          else case parse_object_target e sql of
                 Inl err \<Rightarrow> Inl err
               | Inr t \<Rightarrow>
                   if ob_verb t \<noteq> VerbDescribe then Inr None
                   else Inr (Some (describe_response collect e sql t (find_active opts))))"

end
