(* ===== verification/Echo_Facts.thy ===== *)
theory Echo_Facts
  imports Grant_Facts
begin

text \<open>
  The text a refusing handler leaves in its response: nothing or the caller's statement. Every operation on a
  response keeps its text, and a text the engine generated is only stored in a response that is a Success.
\<close>

named_theorems keeps_text

definition text_ok :: "gostring \<Rightarrow> response \<Rightarrow> bool" where
  "text_ok sql resp \<longleftrightarrow> r_code resp = CodeSuccess \<or> r_sql_after_rewrite resp \<in> {[], sql}"

lemma text_ok_echo [simp]: "text_ok sql (echo sql resp)"
  by (simp add: text_ok_def echo_def)

lemma text_ok_empty: "r_sql_after_rewrite resp = [] \<Longrightarrow> text_ok sql resp"
  by (simp add: text_ok_def)

lemma keeps_basic [keeps_text]:
  "r_sql_after_rewrite (reject_with code msg resp) = r_sql_after_rewrite resp"
  "r_sql_after_rewrite (refuse code msg resp) = r_sql_after_rewrite resp"
  "r_sql_after_rewrite (add_accessed a resp) = r_sql_after_rewrite resp"
  "r_sql_after_rewrite (add_rewrite tt db t resp) = r_sql_after_rewrite resp"
  "r_sql_after_rewrite (clear_on_unresolved resp) = r_sql_after_rewrite resp"
  "r_sql_after_rewrite (merge_view_body resp body) = r_sql_after_rewrite resp"
  "r_sql_after_rewrite (new_write_resp stmt) = []"
  by (simp_all add: reject_with_def refuse_def add_accessed_def add_rewrite_def clear_on_unresolved_def
      merge_view_body_def new_write_resp_def)

lemma keeps_derived [keeps_text]:
  "r_sql_after_rewrite (reject_unsupported msg resp) = r_sql_after_rewrite resp"
  "r_sql_after_rewrite (reject_invalid msg resp) = r_sql_after_rewrite resp"
  "r_sql_after_rewrite (record_accessed_write tt sel resp) = r_sql_after_rewrite resp"
  "r_sql_after_rewrite (record_accessed_write_unique tt sel resp) = r_sql_after_rewrite resp"
  "r_sql_after_rewrite (record_accessed_database db dyn resp) = r_sql_after_rewrite resp"
  "r_sql_after_rewrite (record_accessed_database_unique db dyn resp) = r_sql_after_rewrite resp"
  "r_sql_after_rewrite (record_si_logical_database_unique db dyn resp) = r_sql_after_rewrite resp"
  "r_sql_after_rewrite (refuse_logical dyn db code msg resp) = r_sql_after_rewrite resp"
  by (simp_all add: reject_unsupported_def reject_invalid_def record_accessed_write_def
      record_accessed_write_unique_def record_accessed_database_def record_accessed_database_unique_def
      record_si_logical_database_unique_def refuse_logical_def keeps_basic split: prod.splits)

lemma keeps_code [simp]:
  "r_code (add_accessed a resp) = r_code resp"
  "r_code (record_accessed_write tt sel resp) = r_code resp"
  "r_code (add_rewrite tt db t resp) = r_code resp"
  "r_code (merge_view_body resp body) = r_code resp"
  "r_code (new_write_resp stmt) = CodeSuccess"
  "r_code (echo sql resp) = r_code resp"
  by (simp_all add: add_accessed_def record_accessed_write_def add_rewrite_def merge_view_body_def
      new_write_resp_def echo_def)

section \<open>The namespace check\<close>

lemma keeps_databases:
  "r_sql_after_rewrite (foldl (\<lambda>r db. record_accessed_database_unique db dyn r) resp dbs) = r_sql_after_rewrite resp"
  by (induction dbs arbitrary: resp) (simp_all add: keeps_text)

lemma reject_resolved_ref_text:
  "reject_resolved_ref sel code ref target resp = Some r \<Longrightarrow> r_sql_after_rewrite r = r_sql_after_rewrite resp"
  by (auto simp: reject_resolved_ref_def reject_exact_key_def reject_logical_database_def keeps_text
      split: if_splits option.splits)

lemma reject_unresolved_ref_text:
  "r_sql_after_rewrite (reject_unresolved_ref sel code ref target resp) = r_sql_after_rewrite resp"
  by (simp add: reject_unresolved_ref_def Let_def reject_logical_database_def keeps_text keeps_databases)

lemma reject_namespace_ref_text:
  "reject_namespace_ref sel code ref resp = Some r \<Longrightarrow> r_sql_after_rewrite r = r_sql_after_rewrite resp"
  by (auto simp: reject_namespace_ref_def Let_def keeps_text reject_unresolved_ref_text
      split: if_splits option.splits dest: reject_resolved_ref_text)

lemma reject_si_namespaces_text:
  "reject_si_namespaces sel code refs resp = (b, r) \<Longrightarrow> r_sql_after_rewrite r = r_sql_after_rewrite resp"
  by (induction refs) (auto simp: reject_si_namespaces_def split: if_splits option.splits
      dest: reject_namespace_ref_text)

section \<open>Targets\<close>

lemma decide_write_target_text:
  assumes "decide_write_target tt kind sel resp = (d, r)"
  shows "r_sql_after_rewrite r = r_sql_after_rewrite resp \<and> (d \<noteq> None \<longrightarrow> r_code r = r_code resp)"
proof -
  define seen where "seen = record_accessed_write tt sel resp"
  have seen: "r_sql_after_rewrite seen = r_sql_after_rewrite resp" "r_code seen = r_code resp"
    by (simp_all add: seen_def keeps_text)
  have resolved: "r_sql_after_rewrite r = r_sql_after_rewrite seen \<and> (d \<noteq> None \<longrightarrow> r_code r = r_code seen)"
    if "decide_resolved tt kind oc seen = (d, r)" for oc
    using that by (auto simp: decide_resolved_def keeps_text split: status.splits)
  show ?thesis
    using assms seen resolved unfolding decide_write_target_def Let_def seen_def [symmetric]
    by (cases "if si_lane_only kind sel then lookup_storage_integrity (tt_db tt) (tt_table tt) (sel_dynamic sel) else None")
      (auto simp: keeps_text)
qed

lemma decide_slots_text:
  "decide_slots kind sel ss ds resp = (d, r) \<Longrightarrow>
     r_sql_after_rewrite r = r_sql_after_rewrite resp \<and> (d \<noteq> None \<longrightarrow> r_code r = r_code resp)"
proof (induction ss arbitrary: ds resp)
  case (Cons s ss)
  obtain d1 r1 where one: "decide_write_target (ws_target s) kind sel resp = (d1, r1)" by fastforce
  show ?case
  proof (cases d1)
    case None
    then show ?thesis using Cons.prems decide_write_target_text [OF one] one by auto
  next
    case (Some d')
    then show ?thesis
      using Cons.prems decide_write_target_text [OF one] one Cons.IH by (auto split: table_decision.splits)
  qed
qed simp

lemma decide_raw_targets_text:
  "decide_raw_targets kind sel tts ds resp = (d, r) \<Longrightarrow>
     r_sql_after_rewrite r = r_sql_after_rewrite resp \<and> (d \<noteq> None \<longrightarrow> r_code r = r_code resp)"
proof (induction tts arbitrary: ds resp)
  case (Cons tt tts)
  obtain d1 r1 where one: "decide_write_target tt kind sel resp = (d1, r1)" by fastforce
  show ?case
  proof (cases d1)
    case None
    then show ?thesis using Cons.prems decide_write_target_text [OF one] one by auto
  next
    case (Some d')
    then show ?thesis
      using Cons.prems decide_write_target_text [OF one] one Cons.IH by (auto split: table_decision.splits)
  qed
qed simp

lemma apply_structured_slots_text:
  assumes "apply_structured_slots ast info sel resp = Inr (d, r)"
  shows "r_sql_after_rewrite r = r_sql_after_rewrite resp \<and> (d \<noteq> None \<longrightarrow> r_code r = r_code resp)"
proof -
  obtain ds r1 where run: "decide_slots (wi_kind info) sel (wi_slots info) [] resp = (ds, r1)" by fastforce
  show ?thesis
    using assms decide_slots_text [OF run] run
    by (cases ds) (auto simp: apply_structured_slots_def map_sum_def split: sum.splits)
qed

section \<open>Statements\<close>

lemma finish_structured_text:
  assumes "finish_structured e ast info sel (new_write_resp stmt) = Inr (Some r)"
  shows "text_ok sql r"
proof (cases "apply_structured_slots ast info sel (new_write_resp stmt)")
  case (Inr p)
  then show ?thesis
    using assms apply_structured_slots_text [of ast info sel "new_write_resp stmt" "fst p" "snd p"]
    by (cases p; cases "fst p")
      (auto simp: finish_structured_def map_sum_def text_ok_def keeps_text split: sum.splits)
qed (use assms in \<open>simp add: finish_structured_def\<close>)

lemma finish_with_body_text:
  assumes "finish_with_body slots body gen = Inr (Some r)"
    and "\<And>d r. slots = Inr (d, r) \<Longrightarrow> r_sql_after_rewrite r = [] \<and> (d \<noteq> None \<longrightarrow> r_code r = CodeSuccess)"
    and "\<And>ast r d r'. body ast r = Inr (d, r') \<Longrightarrow>
           r_sql_after_rewrite r' = r_sql_after_rewrite r \<and> (d \<noteq> None \<longrightarrow> r_code r' = r_code r)"
  shows "text_ok sql r"
proof -
  obtain d r1 where slots: "slots = Inr (d, r1)"
    using assms(1) by (cases slots) (auto simp: finish_with_body_def)
  show ?thesis
  proof (cases d)
    case None
    then show ?thesis using assms(1) assms(2) [OF slots] slots by (simp add: finish_with_body_def text_ok_def)
  next
    case (Some rewritten)
    then obtain d2 r2 where body: "body rewritten r1 = Inr (d2, r2)"
      using assms(1) slots by (cases "body rewritten r1") (auto simp: finish_with_body_def)
    show ?thesis
      using assms(1) assms(2) [OF slots] assms(3) [OF body] slots Some body
      by (cases d2) (auto simp: finish_with_body_def text_ok_def map_sum_def split: sum.splits)
  qed
qed

lemma reject_si_body_reads_text:
  "reject_si_body_reads resp body sel = (b, r) \<Longrightarrow>
     r_sql_after_rewrite r = r_sql_after_rewrite resp \<and> (\<not> b \<longrightarrow> r_code r = r_code resp)"
  by (auto simp: reject_si_body_reads_def keeps_text split: if_splits option.splits)

lemma rewrite_embedded_body_text:
  assumes "rewrite_embedded_body core ast sql opts get_body set_body resp sel flag = Inr (d, r)"
  shows "r_sql_after_rewrite r = r_sql_after_rewrite resp \<and> (d \<noteq> None \<longrightarrow> r_code r = r_code resp)"
proof (cases "get_body ast")
  case (Inr body)
  show ?thesis
  proof (cases body)
    case None
    then show ?thesis using assms Inr by (simp add: rewrite_embedded_body_def)
  next
    case (Some b)
    obtain newBody bodyResp where core: "core b opts sql = Inr (newBody, bodyResp)"
      using assms Inr Some by (cases "core b opts sql") (auto simp: rewrite_embedded_body_def)
    obtain refused r1 where step: "(if flag then reject_si_body_reads (merge_view_body resp bodyResp) bodyResp sel
        else (False, merge_view_body resp bodyResp)) = (refused, r1)" by fastforce
    have r1: "r_sql_after_rewrite r1 = r_sql_after_rewrite resp \<and> (\<not> refused \<longrightarrow> r_code r1 = r_code resp)"
      using step reject_si_body_reads_text [of "merge_view_body resp bodyResp" bodyResp sel refused r1]
      by (auto simp: keeps_text split: if_splits)
    show ?thesis
      using assms Inr Some core step r1
      by (auto simp: rewrite_embedded_body_def Let_def keeps_text map_sum_def split: if_splits sum.splits)
  qed
qed (use assms in \<open>simp add: rewrite_embedded_body_def\<close>)

lemma rewrite_view_body_text:
  assumes "rewrite_view_body core ast sql opts info resp sel = Inr (d, r)"
  shows "r_sql_after_rewrite r = r_sql_after_rewrite resp \<and> (d \<noteq> None \<longrightarrow> r_code r = r_code resp)"
proof (cases "wi_has_view_body info")
  case True
  then have "rewrite_view_body core ast sql opts info resp sel = Inr (d, r)" "wi_has_view_body info" using assms by auto
  then show ?thesis
    by (auto simp: rewrite_view_body_def Let_def keeps_text map_sum_def
        split: if_splits sum.splits option.splits prod.splits dest!: reject_si_body_reads_text)
qed (use assms in \<open>simp add: rewrite_view_body_def\<close>)

lemma dispatch_write_text:
  assumes "dispatch_write core e ast sql info opts sel siDrop = Inr (Some r)"
  shows "text_ok sql r"
proof -
  have slots: "apply_structured_slots ast info sel (new_write_resp stmt) = Inr (d, r') \<Longrightarrow>
      r_sql_after_rewrite r' = [] \<and> (d \<noteq> None \<longrightarrow> r_code r' = CodeSuccess)" for stmt d r'
    using apply_structured_slots_text [of ast info sel "new_write_resp stmt" d r'] by (simp add: keeps_text)
  note body = finish_with_body_text [OF _ slots rewrite_embedded_body_text]
  note view = finish_with_body_text [OF _ slots rewrite_view_body_text]
  note single = finish_structured_text [of e ast info sel _ r sql]
  have create: "dispatch_create_table core e ast sql info opts sel = Inr (Some r) \<Longrightarrow> text_ok sql r"
    by (auto simp: dispatch_create_table_def Let_def text_ok_empty keeps_text split: if_splits intro: body)
  have insert: "dispatch_insert core e ast sql info opts sel = Inr (Some r) \<Longrightarrow> text_ok sql r"
    by (auto simp: dispatch_insert_def Let_def text_ok_empty keeps_text split: if_splits intro: body)
  have views: "dispatch_view core e ast sql info opts sel = Inr (Some r) \<Longrightarrow> text_ok sql r"
    by (auto simp: dispatch_view_def Let_def text_ok_empty keeps_text split: if_splits intro: view)
  have drops: "dispatch_drop_like e ast sql info sel siDrop = Inr (Some r) \<Longrightarrow> text_ok sql r"
    by (auto simp: dispatch_drop_like_def Let_def text_ok_empty keeps_text split: if_splits intro: single)
  have alters: "dispatch_alter e ast info sel = Inr (Some r) \<Longrightarrow> text_ok sql r"
    by (auto simp: dispatch_alter_def Let_def text_ok_empty keeps_text split: if_splits intro: single)
  have tables: "dispatch_raw_tables e ast sql info sel = Inr (Some r) \<Longrightarrow> text_ok sql r"
  proof -
    assume run: "dispatch_raw_tables e ast sql info sel = Inr (Some r)"
    obtain stmt kind where kind: "raw_kind (wi_sub info) = (stmt, kind)" by fastforce
    show "text_ok sql r"
    proof (cases "raw_table_refs e ast")
      case (Inr refs)
      obtain targets sub where refs: "refs = (targets, sub)" by fastforce
      obtain ds r1 where ds: "decide_raw_targets kind sel targets [] (new_write_resp stmt) = (ds, r1)" by fastforce
      note kept = decide_raw_targets_text [OF ds]
      show ?thesis
      proof (cases "targets = [] \<or> ds = None")
        case True
        then show ?thesis
          using run Inr refs kind ds kept by (auto simp: dispatch_raw_tables_def Let_def text_ok_empty keeps_text split: if_splits)
      next
        case False
        then obtain ds' where some: "ds = Some ds'" and ne: "targets \<noteq> []" by auto
        show ?thesis
        proof (cases "splice_raw_tables e ast ds'")
          case (Inl err)
          then show ?thesis
            using run \<open>raw_table_refs e ast = Inr refs\<close> refs kind ds some ne
            by (cases err) (auto simp: dispatch_raw_tables_def Let_def)
        next
          case (Inr out)
          then show ?thesis
            using run \<open>raw_table_refs e ast = Inr refs\<close> refs kind ds some ne kept
            by (auto simp: dispatch_raw_tables_def Let_def text_ok_def)
        qed
      qed
    qed (use run kind in \<open>simp add: dispatch_raw_tables_def\<close>)
  qed
  have folds: "r_sql_after_rewrite (foldl (\<lambda>r tt. record_accessed_write tt sel r) r0 tts) = r_sql_after_rewrite r0" for r0 tts
    by (induction tts arbitrary: r0) (simp_all add: keeps_text)
  have commands: "dispatch_command e ast sql info sel = Inr (Some r) \<Longrightarrow> text_ok sql r"
    by (auto simp: dispatch_command_def text_ok_empty keeps_text folds Let_def split: if_splits sum.splits intro: tables)
  have raws: "dispatch_raw_reject ast = Inr (Some r) \<Longrightarrow> text_ok sql r"
    by (auto simp: dispatch_raw_reject_def Let_def text_ok_empty keeps_text split: if_splits sum.splits)
  show ?thesis
    using assms unfolding dispatch_write_def Let_def
    by (auto simp: text_ok_empty keeps_text dispatch_single_def split: if_splits
        intro: create insert views drops alters commands raws single)
qed

text \<open>What the two allowlist checks promise of the text of their responses.\<close>

definition quiet :: "preflight_checks \<Rightarrow> bool" where
  "quiet pc \<longleftrightarrow>
     (\<forall>e ast r b r'. pc_carriers pc e ast r = Inr (b, r') \<longrightarrow> r_sql_after_rewrite r' = r_sql_after_rewrite r)"

lemma inspect_target_text: "inspect_target sel tt a = Some r \<Longrightarrow> r_sql_after_rewrite r = []"
  by (auto simp: inspect_target_def Let_def keeps_text split: if_splits option.splits prod.splits)

lemma preflight_si_write_text:
  assumes "preflight_si_write pc e ast sql info sel siDrop = Inr (Some r)" "quiet pc"
  shows "text_ok sql r"
proof -
  have target: "text_ok sql r" if "first_some (map (\<lambda>tt. inspect_target sel tt a) tts) = Some r" for a tts
  proof -
    from first_some_Some [OF that] obtain tt where "inspect_target sel tt a = Some r" by auto
    then show ?thesis by (rule text_ok_empty [OF inspect_target_text])
  qed
  have mutation: "inspect_mutation pc e ast sql sel = Some r \<Longrightarrow> text_ok sql r"
    by (auto simp: inspect_mutation_def split: if_splits sum.splits)
  have refs: "reject_si_namespaces sel CodeUnsupportedStatement refs (new_write_resp StUnspecified) = (b, r') \<Longrightarrow>
      r_sql_after_rewrite r' = []" for refs b r'
    by (auto simp: keeps_text dest: reject_si_namespaces_text)
  have lists: "inspect_allowlists pc e ast sql sel r' = Inr (Some r) \<Longrightarrow> r_sql_after_rewrite r' = [] \<Longrightarrow> text_ok sql r" for r'
    using assms(2)
    by (auto simp: inspect_allowlists_def quiet_def map_sum_def text_ok_def echo_def
        split: if_splits sum.splits bool.splits)
  show ?thesis
    using assms(1)
    by (auto simp: preflight_si_write_def split: if_splits sum.splits option.splits prod.splits bool.splits
        intro: target mutation text_ok_empty dest: refs lists)
qed

lemma rewrite_write_text:
  assumes "rewrite_write core (preflight_si_write pc) e ast sql opts = Inr (Some r)" "quiet pc"
  shows "text_ok sql r"
  using assms
  by (auto simp: rewrite_write_def Let_def split: sum.splits option.splits
      intro: dispatch_write_text preflight_si_write_text)

section \<open>Grants\<close>

lemma grant_deltas_text:
  "grant_deltas kw delta target ps resp = (b, r) \<Longrightarrow> r_sql_after_rewrite r = r_sql_after_rewrite resp"
proof (induction ps arbitrary: resp)
  case (Cons p ps)
  then show ?case by (cases target) (auto simp: keeps_text split: if_splits)
qed simp

lemma rewrite_grant_text:
  assumes "rewrite_grant e ast sql opts = Inr (Some r)"
  shows "text_ok sql r"
proof (cases "r_code r = CodeSuccess")
  case False
  have emit: "r_code (emit_grant kw gp dyn gs resp) = CodeSuccess \<or> r_sql_after_rewrite (emit_grant kw gp dyn gs resp) = []"
    if "r_code resp = CodeSuccess" "r_sql_after_rewrite resp = []" for kw gp dyn gs resp
  proof -
    obtain b r1 where run: "grant_deltas kw (\<lambda>p t. grant_delta (if gr_is_revoke gp then ActionRevoke else ActionGrant) gp gs t p)
       (resolve_grant_target kw (gr_securable gp) dyn) (gr_privileges gp) resp = (b, r1)"
      by fastforce
    show ?thesis
      using that run grant_deltas_text [OF run] grant_deltas_True
      by (cases b) (auto simp: emit_grant_def Let_def keeps_text dest!: grant_deltas_True)
  qed
  have fresh: "r_code (new_grant_resp stmt) = CodeSuccess" "r_sql_after_rewrite (new_grant_resp stmt) = []" for stmt
    by (simp_all add: new_grant_resp_def new_write_resp_def)
  have si: "grant_si_refusal sel gp resp = Some r' \<Longrightarrow> r_sql_after_rewrite r' = r_sql_after_rewrite resp" for sel gp resp r'
    by (auto simp: grant_si_refusal_def Let_def keeps_text split: if_splits option.splits prod.splits)
  have gs: "build_grantees kw ps resp = (x, r') \<Longrightarrow> r_sql_after_rewrite r' = r_sql_after_rewrite resp \<and> (x \<noteq> None \<longrightarrow> r' = resp)"
    for kw ps resp x r'
    by (auto simp: build_grantees_def keeps_text split: sum.splits if_splits)
  have emitted: "r_code (emit_grant kw gp dyn gs (new_grant_resp stmt)) \<noteq> CodeSuccess \<Longrightarrow>
      r_sql_after_rewrite (emit_grant kw gp dyn gs (new_grant_resp stmt)) = []" for kw gp dyn gs stmt
    using emit fresh by blast
  have "r_sql_after_rewrite r = []"
    using assms False
    by (auto simp: rewrite_grant_def Let_def keeps_text fresh emitted split: sum.splits if_splits option.splits prod.splits
        dest!: si gs)
  then show ?thesis by (rule text_ok_empty)
qed (simp add: text_ok_def)

end
