(* ===== verification/Object_Facts.thy ===== *)
theory Object_Facts
  imports Object_Target Echo_Facts
begin

text \<open>
  What the handlers of the database-level statements and of the statements about one object leave in a response,
  and what a Success of theirs means.
\<close>

section \<open>The text of a refusal\<close>

lemma keeps_db_level [keeps_text]:
  "r_sql_after_rewrite (new_db_resp stmt) = []"
  "r_sql_after_rewrite (record_database_rewrite a b resp) = r_sql_after_rewrite resp"
  "r_sql_after_rewrite (record_si_physical_table db t resp) = r_sql_after_rewrite resp"
  by (simp_all add: new_db_resp_def record_database_rewrite_def record_si_physical_table_def keeps_text)

lemma text_ok_reject_show [simp]: "text_ok sql (reject_show sql msg resp)"
  by (simp add: text_ok_def reject_show_def keeps_text echo_def)

lemma code_reject_show [simp]: "r_code (reject_show sql msg resp) = CodeUnsupportedStatement"
  by (simp add: reject_show_def refuse_def)

lemma code_refuse [simp]: "r_code (refuse code msg resp) = code"
  by (simp add: refuse_def)

lemma code_db_level [simp]:
  "r_code (new_db_resp stmt) = CodeSuccess"
  "r_code (record_database_rewrite a b resp) = r_code resp"
  "r_code (passthrough_db e ast sql resp) = r_code resp"
  by (simp_all add: new_db_resp_def record_database_rewrite_def passthrough_db_def split: sum.splits)

lemma keeps_echo [keeps_text]: "r_sql_after_rewrite (echo s resp) = s"
  by (simp add: echo_def)

lemma keeps_reject_show [keeps_text]: "r_sql_after_rewrite (reject_show sql msg resp) = sql"
  by (simp add: reject_show_def keeps_text)

lemma code_record_accessed_database [simp]: "r_code (record_accessed_database db dyn resp) = r_code resp"
  by (simp add: record_accessed_database_def Let_def split: prod.splits)

lemma text_ok_Success: "r_code resp = CodeSuccess \<Longrightarrow> text_ok sql resp"
  by (simp add: text_ok_def)

lemma create_database_text:
  "dispatch_create_database e ast dyn = Inr (Some r) \<Longrightarrow> text_ok sql r"
  by (auto simp: dispatch_create_database_def Let_def map_sum_def keeps_text
      simp: text_ok_def split: sum.splits if_splits option.splits)

lemma drop_database_text:
  assumes "dispatch_drop_database e ast dyn = Inr (Some r)"
  shows "text_ok sql r"
proof -
  have routed: "r_code (case m of None \<Rightarrow> record_accessed_database t dyn (new_db_resp s)
      | Some p \<Rightarrow> record_database_rewrite t p (record_accessed_database t dyn (new_db_resp s))) = CodeSuccess" for m t s
    by (simp split: option.splits)
  show ?thesis
    using assms
    by (auto simp: dispatch_drop_database_def Let_def map_sum_def keeps_text routed
        simp: text_ok_def split: sum.splits if_splits option.splits)
qed

lemma dispatch_use_text: "text_ok sql (dispatch_use e ast sql info dyn)"
  by (auto simp: dispatch_use_def Let_def keeps_text simp: text_ok_def split: option.splits)

lemma reject_show_si_target_text:
  "reject_show_si_target sql info dyn target resp = Some r \<Longrightarrow> text_ok sql r \<and> r_code r \<noteq> CodeSuccess"
  by (auto simp: reject_show_si_target_def Let_def text_ok_def keeps_text echo_def split: if_splits prod.splits)

lemma reject_show_si_namespace_text:
  "reject_show_si_namespace sql info dyn resp = Some r \<Longrightarrow> text_ok sql r \<and> r_code r \<noteq> CodeSuccess"
  by (auto simp: reject_show_si_namespace_def Let_def dest: reject_show_si_target_text split: if_splits show_target.splits)

lemma show_body_rejection_text:
  "show_body_rejection e info sql dyn resp = Some r \<Longrightarrow> text_ok sql r \<and> r_code r \<noteq> CodeSuccess"
  by (auto simp: show_body_rejection_def split: if_splits option.splits)

lemma show_unqualified_text:
  "dispatch_show_unqualified_table e sql info dyn resp = Inr (Some r) \<Longrightarrow> r_code resp = CodeSuccess \<Longrightarrow> text_ok sql r"
  by (auto simp: dispatch_show_unqualified_table_def Let_def map_sum_def text_ok_Success dest: decide_write_target_text
      split: prod.splits option.splits table_decision.splits sum.splits)

lemma forward_target_bearing_text:
  "forward_target_bearing e ast sql info dyn resp = Inr (Some r) \<Longrightarrow> r_code resp = CodeSuccess \<Longrightarrow> text_ok sql r"
  by (auto simp: forward_target_bearing_def text_ok_Success
      dest: reject_show_si_namespace_text show_body_rejection_text show_unqualified_text
      split: option.splits show_class.splits if_splits)

lemma forward_target_less_text:
  "r_code resp = CodeSuccess \<Longrightarrow> text_ok sql (forward_target_less e ast sql info dyn resp)"
  by (auto simp: forward_target_less_def text_ok_Success dest: show_body_rejection_text
      split: option.splits show_class.splits)

lemma forward_unknown_text:
  "forward_unknown e ast sql info dyn resp = Some r \<Longrightarrow> r_code resp = CodeSuccess \<Longrightarrow> text_ok sql r"
  by (auto simp: forward_unknown_def text_ok_Success split: show_class.splits if_splits)

lemma show_tables_of_text:
  "r_sql_after_rewrite resp = [] \<Longrightarrow> r_code resp = CodeSuccess \<Longrightarrow> text_ok sql (show_tables_of info dyn logical resp)"
  by (auto simp: show_tables_of_def keeps_text simp: text_ok_def split: option.splits)

lemma enumerate_tables_text:
  assumes "r_sql_after_rewrite resp = []" "r_code resp = CodeSuccess"
  shows "text_ok sql (enumerate_tables sql info dyn resp)"
  using show_tables_of_text [OF assms] assms(1)
  by (cases "show_database_target info (get_logical_context dyn)")
    (auto simp: enumerate_tables_def, simp_all add: text_ok_def keeps_text)

lemma dispatch_show_tables_text:
  "dispatch_show_tables e ast sql info dyn = Inr (Some r) \<Longrightarrow> text_ok sql r"
  by (auto simp: dispatch_show_tables_def Let_def text_ok_Success forward_target_less_text enumerate_tables_text keeps_text
      dest: forward_target_bearing_text forward_unknown_text split: if_splits show_kind.splits)

lemma fold_database_rewrites_code:
  "r_code (foldl (\<lambda>r (l, p). record_database_rewrite l p r) resp ps) = r_code resp"
  by (induction ps arbitrary: resp) (simp_all add: case_prod_beta)

lemma dispatch_show_databases_text: "text_ok sql (dispatch_show_databases e ast sql info dyn)"
  by (simp add: dispatch_show_databases_def Let_def text_ok_Success text_ok_empty keeps_text fold_database_rewrites_code)

lemma rewrite_db_level_text:
  assumes "rewrite_db_level collect e ast sql opts = Inr (Some r)"
  shows "text_ok sql r"
  using assms
  by (auto simp: rewrite_db_level_def Let_def dispatch_db_command_def dispatch_use_text dispatch_show_databases_text
      dest: create_database_text drop_database_text dispatch_show_tables_text
      split: sum.splits if_splits db_level_kind.splits)

lemma object_namespace_refusal_text:
  "object_namespace_refusal t sel resp = Some r \<Longrightarrow> r_sql_after_rewrite resp = [] \<Longrightarrow> text_ok sql r"
  by (auto simp: object_namespace_refusal_def Let_def keeps_text simp: text_ok_def split: if_splits)

lemma rerender_target_text:
  assumes "r_sql_after_rewrite resp = []" "r_code resp = CodeSuccess"
  shows "text_ok sql (rerender_target keyword t sel resp)"
proof -
  obtain d r where run: "decide_write_target (object_ref_of t) (keyword @ '' TABLE'') sel resp = (d, r)" by fastforce
  note kept = decide_write_target_text [OF run]
  show ?thesis
  proof (cases d)
    case None
    then show ?thesis using run kept assms by (simp add: rerender_target_def text_ok_empty)
  next
    case (Some d')
    then show ?thesis
      using run kept assms
      by (auto simp: rerender_target_def Let_def keeps_text simp: text_ok_def
          split: table_decision.splits)
  qed
qed

lemma object_namespace_refusal_text_new:
  "object_namespace_refusal t sel (new_write_resp s) = Some r \<Longrightarrow> text_ok sql r"
  by (erule object_namespace_refusal_text) (simp add: keeps_text)

lemma rerender_target_text_new: "text_ok sql (rerender_target keyword t sel (new_write_resp s))"
  by (rule rerender_target_text) (simp_all add: keeps_text)

lemma exists_si_text: "text_ok sql (exists_si keyword t sel tbl key (new_write_resp s))"
  by (simp add: exists_si_def Let_def keeps_text text_ok_def split: prod.splits)

lemma exists_target_text: "text_ok sql (exists_target keyword t sel (new_write_resp s))"
proof (cases "if sel_mode sel = ModeDynamic then lookup_storage_integrity (ob_db t) (ob_table t) (sel_dynamic sel) else None")
  case None
  then show ?thesis by (simp add: exists_target_def Let_def rerender_target_text_new) (simp add: text_ok_def keeps_text)
next
  case (Some hit)
  then show ?thesis
    by (cases hit) (simp add: exists_target_def Let_def exists_si_text, simp add: text_ok_def keeps_text)
qed

lemma exists_response_text: "text_ok sql (exists_response t sel)"
proof (cases "object_namespace_refusal t sel (new_write_resp (if ob_verb t = VerbShowCreate then StShowCreateTable else StExistsTable))")
  case None
  then show ?thesis
    by (simp add: exists_response_def Let_def exists_target_text) (simp add: text_ok_def keeps_text)
next
  case (Some refused)
  with object_namespace_refusal_text_new [OF Some] show ?thesis
    by (simp add: exists_response_def Let_def) (simp add: text_ok_def keeps_text)
qed

lemma describe_table_text:
  "text_ok sql (describe_table sql t sel (record_accessed_write tt sel (new_write_resp s)))"
proof (cases "if sel_mode sel = ModeDynamic then lookup_storage_integrity (ob_db t) (ob_table t) (sel_dynamic sel) else None")
  case None
  have "text_ok sql (rerender_target ''DESCRIBE'' t sel (record_accessed_write tt sel (new_write_resp s)\<lparr>r_accessed := []\<rparr>))"
    by (rule rerender_target_text) (simp_all add: record_accessed_write_def add_accessed_def new_write_resp_def)
  with None show ?thesis by (simp add: describe_table_def Let_def) (simp add: text_ok_def keeps_text)
next
  case (Some hit)
  then show ?thesis
    by (cases hit) (simp add: describe_table_def describe_si_def Let_def text_ok_def keeps_text split: prod.splits)
qed

lemma describe_response_text: "text_ok sql (describe_response collect e sql t sel)"
proof (cases "object_namespace_refusal t sel (new_write_resp StDescribe)")
  case None
  then show ?thesis
    by (simp add: describe_response_def Let_def describe_table_text) (simp add: text_ok_def keeps_text)
next
  case (Some refused)
  with object_namespace_refusal_text_new [OF Some] show ?thesis
    by (simp add: describe_response_def Let_def) (simp add: text_ok_def keeps_text)
qed

lemma rewrite_describe_text: "rewrite_describe collect e ast sql opts = Inr (Some r) \<Longrightarrow> text_ok sql r"
  by (auto simp: rewrite_describe_def describe_response_text split: sum.splits if_splits)

lemma rewrite_exists_show_create_text: "rewrite_exists_show_create e ast sql opts = Inr (Some r) \<Longrightarrow> text_ok sql r"
  by (auto simp: rewrite_exists_show_create_def exists_response_text split: sum.splits if_splits)

end
