(* ===== verification/Show_Facts.thy ===== *)
theory Show_Facts
  imports Object_Facts Name_Resolve_Facts
begin

text \<open>
  What a Success of the database-level handlers and of the handlers of one object means: the database a \<open>USE\<close>
  enters, the databases a \<open>SHOW DATABASES\<close> lists, the text a forwarded \<open>SHOW\<close> can hold, and the table an
  \<open>EXISTS\<close> or a \<open>SHOW CREATE\<close> names.
\<close>

section \<open>USE\<close>

text \<open>What the request says of the database that may be entered under a name.\<close>

definition may_enter :: "dynamic_args \<Rightarrow> gostring \<Rightarrow> gostring \<Rightarrow> bool" where
  "may_enter d origin physical \<longleftrightarrow>
     map_of (da_database_map d) origin = Some physical \<or>
     (map_of (da_database_map d) origin = None \<and> physical = origin \<and> origin \<in> set (da_known_physical_databases d))"

lemma resolve_may_enter:
  "resolve_physical_database origin (Some d) = Some physical \<Longrightarrow> may_enter d origin physical"
  by (auto simp: resolve_physical_database_def may_enter_def split: if_splits option.splits dest: known_physical_loop_Some)

text \<open>
  C14. In a dynamic request a \<open>USE\<close> that answers Success names a database that is neither protected nor on the
  storage-integrity surface nor remote, and enters the physical database the request maps it to, or the name
  itself when the request declares it: the answer is exactly \<open>USE\<close> with the mapped name and nothing after it,
  and the mapping is reported, or the statement as the engine writes it when the name is its own mapping.
\<close>

theorem use_authorised:
  assumes "r_code (dispatch_use e ast sql info (Some d)) = CodeSuccess"
  shows "\<exists>physical. may_enter d (dl_db info) physical \<and> \<not> protected_database (dl_db info) (Some d) \<and>
     \<not> is_si_physical_database (dl_db info) (Some d) \<and> \<not> has_key (da_remote_index d) (dl_db info) \<and>
     (let resp = dispatch_use e ast sql info (Some d)
      in if physical = dl_db info then resp = passthrough_db e ast sql (new_db_resp StUse)
         else \<not> dl_trailing info \<and> r_sql_after_rewrite resp = ''USE '' @ physical \<and>
              r_database_rewrites resp = [(dl_db info, physical)])"
proof -
  obtain physical where p: "resolve_physical_database (dl_db info) (Some d) = Some physical"
    using assms by (fastforce simp: dispatch_use_def Let_def split: if_splits option.splits)
  have nonempty: "dl_db info \<noteq> []" using p by (auto simp: resolve_physical_database_def)
  have open_db: "\<not> is_si_physical_database (dl_db info) (Some d)" "\<not> protected_database (dl_db info) (Some d)"
    "\<not> is_logical_remote_mapped (dl_db info) (Some d)" "physical = dl_db info \<or> \<not> dl_trailing info"
    using assms p by (auto simp: dispatch_use_def Let_def split: if_splits)
  then have "dispatch_use e ast sql info (Some d) =
      (if physical = dl_db info then passthrough_db e ast sql (new_db_resp StUse)
       else record_database_rewrite (dl_db info) physical (echo (''USE '' @ physical) (new_db_resp StUse)))"
    using p by (auto simp: dispatch_use_def Let_def)
  then show ?thesis
    using resolve_may_enter [OF p] open_db nonempty
    by (intro exI [of _ physical]) (auto simp: is_logical_remote_mapped_def record_database_rewrite_def echo_def
        new_db_resp_def new_write_resp_def)
qed

section \<open>SHOW DATABASES\<close>

text \<open>The logical names a request makes visible.\<close>

definition visible_names :: "dynamic_args \<Rightarrow> gostring set" where
  "visible_names d =
     {logical. \<exists>physical. map_of (da_database_map d) logical = Some physical \<and>
                          physical \<in> set (da_known_physical_databases d)}"

lemma visible_databases_names:
  assumes "distinct (map fst (da_database_map d))"
  shows "map fst (visible_databases (Some d)) = sorted_list_of_set (visible_names d)"
proof -
  let ?sorted = "sort_key fst (da_database_map d)"
  let ?known = "\<lambda>p. p \<in> set (da_known_physical_databases d)"
  have distinct: "distinct (map fst ?sorted)"
    using assms by (metis distinct_map mset_sort set_sort distinct_sort)
  have names: "set (map fst (visible_databases (Some d))) = visible_names d"
    using assms by (force simp: visible_databases_def visible_names_def image_iff)
  have sorted: "sorted (map fst (visible_databases (Some d)))"
    unfolding visible_databases_def by (simp add: sorted_filter)
  have "distinct (map fst (visible_databases (Some d)))"
    using distinct unfolding visible_databases_def by (simp add: distinct_map_filter)
  with sorted names show ?thesis
    by (metis sorted_list_of_set.idem_if_sorted_distinct)
qed

text \<open>
  A \<open>SHOW DATABASES\<close> that answers Success lists exactly the logical names whose physical database the request
  declares known, in order and each once; the answer depends on nothing else of the request, so it reveals no
  physical name, and it carries the caller's pattern as it was written.
\<close>

theorem show_databases_lists_visible:
  assumes "distinct (map fst (da_database_map d))"
    and "r_code (dispatch_show_databases e ast sql info (Some d)) = CodeSuccess"
  shows "r_sql_after_rewrite (dispatch_show_databases e ast sql info (Some d)) =
     show_databases_sql info (sorted_list_of_set (visible_names d))"
proof -
  have "\<not> show_databases_variant info" using assms(2) by (auto simp: dispatch_show_databases_def Let_def)
  then show ?thesis
    by (simp add: dispatch_show_databases_def Let_def keeps_text visible_databases_names [OF assms(1)])
qed


section \<open>A forwarded SHOW\<close>

text \<open>What the trailing clauses of a \<open>SHOW\<close> that is forwarded may hold.\<close>

definition show_body_free :: "raw_token list \<Rightarrow> bool" where
  "show_body_free toks \<longleftrightarrow>
     (\<forall>a t n rest. toks = a @ t # n # rest \<longrightarrow> is_name_tok (tk_type t) \<longrightarrow> tk_type n \<noteq> ''L_PAREN'') \<and>
     (\<forall>t \<in> set toks. opaque_keyword t \<longrightarrow> \<not> equal_fold (tk_text t) ''SELECT'' \<and> \<not> equal_fold (tk_text t) ''WITH'') \<and>
     (\<forall>t \<in> set toks. tk_type t \<noteq> ''L_BRACE'' \<and> (tk_type t = ''QUOTED_IDENTIFIER'' \<longrightarrow> CHR ''.'' \<notin> set (tk_text t))) \<and>
     (\<forall>a t rest. toks = a @ t # rest \<longrightarrow> \<not> opaque_in_refused_at (t # rest))"

lemma show_body_refused_split:
  "show_body_refused toks \<longleftrightarrow> (\<exists>a t rest. toks = a @ t # rest \<and> show_token_refused (t # rest))"
proof (induction toks)
  case (Cons t ts)
  show ?case (is "?l \<longleftrightarrow> ?r")
  proof
    assume ?l
    then show ?r
    proof (cases "show_token_refused (t # ts)")
      case True then show ?thesis by (intro exI [of _ "[]"]) auto
    next
      case False
      then obtain a u rest where "ts = a @ u # rest" "show_token_refused (u # rest)" using \<open>?l\<close> Cons by auto
      then show ?thesis by (intro exI [of _ "t # a"]) auto
    qed
  next
    assume ?r
    then obtain a u rest where split: "t # ts = a @ u # rest" "show_token_refused (u # rest)" by blast
    then show ?l using Cons by (cases a) auto
  qed
qed simp

lemma show_body_refused_iff: "\<not> show_body_refused toks \<longleftrightarrow> show_body_free toks"
proof
  assume free: "\<not> show_body_refused toks"
  have at: "\<not> show_token_refused (t # rest)" if "toks = a @ t # rest" for a t rest
    using free that by (auto simp: show_body_refused_split)
  have each: "\<exists>rest. \<not> show_token_refused (t # rest)" if "t \<in> set toks" for t
    using split_list [OF that] at by blast
  show "show_body_free toks"
    unfolding show_body_free_def
  proof (intro conjI allI impI ballI)
    fix a t n rest assume "toks = a @ t # n # rest" "is_name_tok (tk_type t)"
    then show "tk_type n \<noteq> ''L_PAREN''" using at [of a t "n # rest"] by (simp add: show_token_refused_def)
  next
    fix a t rest assume "toks = a @ t # rest"
    then show "\<not> opaque_in_refused_at (t # rest)" using at [of a t rest] by (simp add: show_token_refused_def)
  qed (use each in \<open>fastforce simp: show_token_refused_def\<close>)+
next
  assume free: "show_body_free toks"
  have "\<not> show_token_refused (t # rest)" if split: "toks = a @ t # rest" for a t rest
  proof (cases rest)
    case Nil
    then show ?thesis using free split by (auto simp: show_token_refused_def show_body_free_def)
  next
    case (Cons n ns)
    then show ?thesis using free split by (auto simp: show_token_refused_def show_body_free_def)
  qed
  then show "\<not> show_body_refused toks" by (auto simp: show_body_refused_split)
qed

text \<open>The target of a statement of the families that name one is no storage-integrity database.\<close>

definition show_target_outside :: "dynamic_args \<Rightarrow> db_level_info \<Rightarrow> bool" where
  "show_target_outside d info \<longleftrightarrow>
     (case show_database_target info (da_logical_context d) of
        NoTarget \<Rightarrow> True
      | UnresolvedTarget \<Rightarrow> False
      | ResolvedTarget db \<Rightarrow> \<not> is_si_physical_database db (Some d) \<and> \<not> is_si_logical_database db (Some d))"

lemma reject_show_si_namespace_None:
  "reject_show_si_namespace sql info (Some d) resp = None \<Longrightarrow> storage_integrity_surface_active (Some d) \<Longrightarrow>
     show_target_outside d info"
  by (auto simp: reject_show_si_namespace_def reject_show_si_target_def show_target_outside_def Let_def
      split: if_splits show_target.splits prod.splits)

lemma show_body_rejection_None:
  assumes "show_body_rejection e info sql (Some d) resp = None"
  shows "\<not> show_body_is_ungoverned e info sql \<and>
    (storage_integrity_surface_active (Some d) \<longrightarrow>
       (\<forall>tt \<in> set (show_body_qualified_names e info sql). \<not> is_si_physical_database (tt_db tt) (Some d)))"
  using assms by (auto simp: show_body_rejection_def find_None_iff split: if_splits option.splits)

lemma show_kind_allowed:
  assumes "show_kind_class (dl_show_what info) \<in> {KindTargetBearing, KindTargetLess}"
  shows "show_class_of info \<noteq> ShowUnknown"
  using assms unfolding show_kind_class_def show_class_of_def system_table_show_refusal_def
  by (simp split: if_splits) (elim disjE; simp)+

definition forwarded_show_ok :: "engine \<Rightarrow> gostring \<Rightarrow> db_level_info \<Rightarrow> dynamic_args \<Rightarrow> bool" where
  "forwarded_show_ok e sql info d \<longleftrightarrow>
     (\<exists>toks. tokenize_raw e sql = Inr toks \<and> show_body_free (drop (show_body_start toks) toks) \<and>
        show_class_of info = ShowAllowed \<and>
        (storage_integrity_surface_active (Some d) \<longrightarrow>
           show_kind_class (dl_show_what info) \<noteq> KindUnknown \<and>
           (show_kind_class (dl_show_what info) = KindTargetBearing \<longrightarrow> show_target_outside d info) \<and>
           (\<forall>tt \<in> set (qualified_name_runs toks (show_body_start toks)). \<not> is_si_physical_database (tt_db tt) (Some d))))"

lemma not_ungoverned:
  assumes "\<not> show_body_is_ungoverned e info sql" "show_forwarded_verbatim info"
  obtains toks where "tokenize_raw e sql = Inr toks" "show_body_free (drop (show_body_start toks) toks)"
    "show_body_qualified_names e info sql = qualified_name_runs toks (show_body_start toks)"
  using assms by (cases "tokenize_raw e sql")
    (auto simp: show_body_is_ungoverned_def show_body_refused_iff show_body_qualified_names_def)

lemma forward_target_bearing_Success:
  assumes "forward_target_bearing e ast sql info (Some d) resp0 = Inr (Some resp)" "r_code resp = CodeSuccess"
  shows "reject_show_si_namespace sql info (Some d) resp0 = None \<and> show_body_rejection e info sql (Some d) resp0 = None \<and>
    (\<forall>table. show_class_of info \<noteq> ShowReads table)"
proof -
  have si: "reject_show_si_namespace sql info (Some d) resp0 = None"
    using assms reject_show_si_namespace_text by (fastforce simp: forward_target_bearing_def split: option.splits)
  have body: "show_body_rejection e info sql (Some d) resp0 = None"
    using assms si show_body_rejection_text by (fastforce simp: forward_target_bearing_def split: option.splits)
  have "show_class_of info \<noteq> ShowReads table" for table
    using assms si body by (auto simp: forward_target_bearing_def)
  with si body show ?thesis by blast
qed

lemma forward_target_less_Success:
  assumes "r_code (forward_target_less e ast sql info (Some d) resp0) = CodeSuccess"
  shows "show_body_rejection e info sql (Some d) resp0 = None \<and> (\<forall>table. show_class_of info \<noteq> ShowReads table)"
proof -
  have body: "show_body_rejection e info sql (Some d) resp0 = None"
    using assms show_body_rejection_text by (fastforce simp: forward_target_less_def split: option.splits)
  have "show_class_of info \<noteq> ShowReads table" for table
    using assms body by (auto simp: forward_target_less_def)
  with body show ?thesis by blast
qed

text \<open>
  C13. A \<open>SHOW\<close> of a dynamic request that answers Success, \<open>SHOW TABLES\<close> and \<open>SHOW DATABASES\<close> apart, reads only a
  system table on the list of allowed ones; its trailing clauses hold no \<open>SELECT\<close> or \<open>WITH\<close>, no call, no
  parameter, no quoted dotted name and no \<open>IN\<close> whose operand is not literal; and while the storage-integrity
  surface is active it is of a known kind, its target is on no storage-integrity database, and no qualified name
  in its clauses is.
\<close>

theorem forwarded_show_admitted:
  assumes "dispatch_show_tables e ast sql info (Some d) = Inr (Some resp)" "r_code resp = CodeSuccess"
    and "show_forwarded_verbatim info"
  shows "forwarded_show_ok e sql info d"
proof -
  have allowed: "show_class_of info = ShowAllowed" if "\<forall>table. show_class_of info \<noteq> ShowReads table" "show_class_of info \<noteq> ShowUnknown"
    using that by (cases "show_class_of info") auto
  show ?thesis
  proof (cases "show_kind_class (dl_show_what info)")
    case KindTargetBearing
    then have run: "forward_target_bearing e ast sql info (Some d) (new_db_resp StShowTables) = Inr (Some resp)"
      using assms(1) by (simp add: dispatch_show_tables_def Let_def)
    note ok = forward_target_bearing_Success [OF run assms(2)]
    obtain toks where "tokenize_raw e sql = Inr toks" "show_body_free (drop (show_body_start toks) toks)"
      "show_body_qualified_names e info sql = qualified_name_runs toks (show_body_start toks)"
      using not_ungoverned [OF _ assms(3)] show_body_rejection_None ok by blast
    then show ?thesis
      using ok KindTargetBearing allowed show_kind_allowed [of info] reject_show_si_namespace_None show_body_rejection_None
      unfolding forwarded_show_ok_def by (intro exI [of _ toks]) fastforce
  next
    case KindTargetLess
    then have "resp = forward_target_less e ast sql info (Some d) (new_db_resp StShowTables)"
      using assms(1) by (simp add: dispatch_show_tables_def Let_def)
    with assms(2) have ok: "show_body_rejection e info sql (Some d) (new_db_resp StShowTables) = None \<and>
        (\<forall>table. show_class_of info \<noteq> ShowReads table)"
      using forward_target_less_Success by blast
    obtain toks where "tokenize_raw e sql = Inr toks" "show_body_free (drop (show_body_start toks) toks)"
      "show_body_qualified_names e info sql = qualified_name_runs toks (show_body_start toks)"
      using not_ungoverned [OF _ assms(3)] show_body_rejection_None ok by blast
    then show ?thesis
      using ok KindTargetLess allowed show_kind_allowed [of info] show_body_rejection_None
      unfolding forwarded_show_ok_def by (intro exI [of _ toks]) fastforce
  next
    case KindUnknown
    then have run: "forward_unknown e ast sql info (Some d) (new_db_resp StShowTables) = Some resp"
      using assms(1) by (simp add: dispatch_show_tables_def Let_def)
    then have ok: "\<not> storage_integrity_surface_active (Some d)" "\<not> show_body_is_ungoverned e info sql" "show_class_of info = ShowAllowed"
      using assms(2) by (auto simp: forward_unknown_def split: if_splits show_class.splits)
    then show ?thesis
      using not_ungoverned [OF ok(2) assms(3)] unfolding forwarded_show_ok_def by metis
  next
    case KindRewritten
    then have "dl_show_what info = ''TABLES''" by (simp add: show_kind_class_def split: if_splits)
    then show ?thesis using assms(3) by (simp add: show_forwarded_verbatim_def)
  qed
qed

section \<open>EXISTS and SHOW CREATE\<close>

text \<open>The table a statement about one object is answered with.\<close>

definition object_answer :: "selection \<Rightarrow> object_target \<Rightarrow> gostring \<Rightarrow> gostring \<Rightarrow> bool" where
  "object_answer sel t db table \<longleftrightarrow>
     (case lookup_storage_integrity (ob_db t) (ob_table t) (sel_dynamic sel) of
        Some (tbl, key) \<Rightarrow>
          ob_verb t \<noteq> VerbShowCreate \<and> snd (authorize_si_logical (ob_db t) (sel_dynamic sel)) \<and>
          (db, table) = split_physical_name (safe_table tbl)
      | None \<Rightarrow>
          (case outcome_decision (resolve (ob_db t) (ob_table t) sel) of
             ActionRename db' table' \<Rightarrow> db = db' \<and> table = table' \<and> \<not> ob_temporary t
           | _ \<Rightarrow> db = ob_db t \<and> table = ob_table t) \<and>
          o_status (resolve (ob_db t) (ob_table t) sel) \<in> {StatusRewrite, StatusPassthrough})"

lemma rerender_target_Success:
  assumes "r_code (rerender_target keyword t sel resp) = CodeSuccess" "lookup_storage_integrity (ob_db t) (ob_table t) (sel_dynamic sel) = None"
  shows "\<not> ob_trailing t \<and> (\<exists>db table. object_answer sel t db table \<and>
     r_sql_after_rewrite (rerender_target keyword t sel resp) = build_object_sql keyword (ob_temporary t) db table)"
proof -
  obtain d r where run: "decide_write_target (object_ref_of t) (keyword @ '' TABLE'') sel resp = (d, r)" by fastforce
  show ?thesis
  proof (cases d)
    case None
    then show ?thesis using assms(1) run decide_write_target_None [of "object_ref_of t" "keyword @ '' TABLE''" sel resp r]
      by (simp add: rerender_target_def)
  next
    case (Some d')
    note one = decide_write_target_Some [OF run [unfolded Some]]
    have status: "o_status (resolve (ob_db t) (ob_table t) sel) \<in> {StatusRewrite, StatusPassthrough}"
      using one(1) by (simp add: admitted_def resolved_def object_ref_of_def no_target_def)
    have dec: "d' = outcome_decision (resolve (ob_db t) (ob_table t) sel)"
      using one(2) by (simp add: resolved_def object_ref_of_def no_target_def)
    have kept: "\<not> rejects_rerender t d'"
      using assms(1) run Some by (auto simp: rerender_target_def)
    define db where "db = (case d' of ActionRename x _ \<Rightarrow> x | _ \<Rightarrow> ob_db t)"
    define table where "table = (case d' of ActionRename _ y \<Rightarrow> y | _ \<Rightarrow> ob_table t)"
    have pair: "(case d' of ActionRename x y \<Rightarrow> (x, y) | _ \<Rightarrow> (ob_db t, ob_table t)) = (db, table)"
      by (cases d') (simp_all add: db_def table_def)
    have "object_answer sel t db table"
      using assms(2) status kept unfolding object_answer_def dec [symmetric]
      by (cases d') (auto simp: db_def table_def rejects_rerender_def)
    moreover have "r_sql_after_rewrite (rerender_target keyword t sel resp) = build_object_sql keyword (ob_temporary t) db table"
      using run Some kept by (simp add: rerender_target_def Let_def pair keeps_text)
    ultimately show ?thesis using kept by (auto simp: rejects_rerender_def)
  qed
qed

text \<open>
  C15. A dynamic \<open>EXISTS\<close> or \<open>SHOW CREATE\<close> that answers Success is about a table and has nothing after its name, and the
  answer is the canonical statement on one table: the safe table when the name is on the storage-integrity lane,
  which only an authorised \<open>EXISTS\<close> may ask about, and otherwise the table the policy resolves the name to. No
  byte of the caller's text is forwarded, and the written database is no storage-integrity physical one.
\<close>

theorem exists_success:
  assumes "r_code (exists_response t sel) = CodeSuccess" "sel_mode sel = ModeDynamic"
  shows "ob_type t = ''TABLE'' \<and> ob_table t \<noteq> [] \<and> \<not> ob_trailing t \<and> \<not> ob_access_entity t \<and>
     \<not> is_si_physical_database (if ob_db t = [] then get_logical_context (sel_dynamic sel) else ob_db t) (sel_dynamic sel) \<and>
     (\<exists>db table. object_answer sel t db table \<and>
        r_sql_after_rewrite (exists_response t sel) =
          build_object_sql (if ob_verb t = VerbShowCreate then ''SHOW CREATE'' else ''EXISTS'') (ob_temporary t) db table)"
proof -
  define kw where "kw = (if ob_verb t = VerbShowCreate then ''SHOW CREATE'' else ''EXISTS'')"
  define r0 where "r0 = new_write_resp (if ob_verb t = VerbShowCreate then StShowCreateTable else StExistsTable)"
  have si: "object_namespace_refusal t sel r0 = None"
    using assms by (auto simp: exists_response_def Let_def r0_def object_namespace_refusal_def
        split: option.splits if_splits)
  have head: "ob_type t = ''TABLE''" "ob_table t \<noteq> []" "\<not> ob_access_entity t" "exists_response t sel = exists_target kw t sel r0"
    using assms si by (auto simp: exists_response_def Let_def r0_def kw_def split: if_splits)
  have outside: "\<not> is_si_physical_database (if ob_db t = [] then get_logical_context (sel_dynamic sel) else ob_db t) (sel_dynamic sel)"
    using si head(1) assms(2) by (auto simp: object_namespace_refusal_def Let_def split: if_splits)
  then have physical: "\<not> snd (lookup_si_physical (ob_db t) (ob_table t) (sel_dynamic sel))"
    by (simp add: lookup_si_physical_database)
  have answer: "\<not> ob_trailing t \<and> (\<exists>db table. object_answer sel t db table \<and>
      r_sql_after_rewrite (exists_target kw t sel r0) = build_object_sql kw (ob_temporary t) db table)"
  proof (cases "lookup_storage_integrity (ob_db t) (ob_table t) (sel_dynamic sel)")
    case None
    then have "exists_target kw t sel r0 = rerender_target kw t sel r0"
      using physical by (simp add: exists_target_def Let_def)
    then show ?thesis using rerender_target_Success [OF _ None, of kw r0] assms(1) head(4) by simp
  next
    case (Some hit)
    obtain tbl key where hit: "hit = (tbl, key)" by fastforce
    obtain logical authorized where auth: "authorize_si_logical (ob_db t) (sel_dynamic sel) = (logical, authorized)" by fastforce
    obtain db table where safe: "split_physical_name (safe_table tbl) = (db, table)" by fastforce
    have "exists_target kw t sel r0 = exists_si kw t sel tbl key r0"
      using Some hit physical assms(2) by (simp add: exists_target_def Let_def)
    then show ?thesis
      using assms(1) head(4) Some hit auth safe
      by (auto simp: exists_si_def Let_def object_answer_def keeps_text split: if_splits)
  qed
  then show ?thesis using head outside by (simp add: kw_def)
qed


section \<open>Worked examples\<close>

definition use_info :: db_level_info where
  "use_info = no_db_level\<lparr>dl_kind := DBUse, dl_db := ''shop''\<rparr>"

lemma use_authorised_witness:
  "\<exists>physical. may_enter sample_args ''shop'' physical \<and>
     r_sql_after_rewrite (dispatch_use grant_engine grant_ast ''USE shop'' use_info (Some sample_args)) = ''USE phys''"
proof -
  have run: "r_code (dispatch_use grant_engine grant_ast ''USE shop'' use_info (Some sample_args)) = CodeSuccess"
    "r_sql_after_rewrite (dispatch_use grant_engine grant_ast ''USE shop'' use_info (Some sample_args)) = ''USE phys''"
    "dl_db use_info = ''shop''"
    by code_simp+
  then show ?thesis using use_authorised [OF run(1)] by auto
qed

definition show_databases_info :: db_level_info where
  "show_databases_info = no_db_level\<lparr>dl_kind := DBShow, dl_show_what := ''DATABASES''\<rparr>"

definition listed_args :: dynamic_args where
  "listed_args =
     sample_args\<lparr>da_database_map := [(''web'', ''p2''), (''shop'', ''p1''), (''old'', ''p3'')],
                 da_known_physical_databases := [''p1'', ''p2'']\<rparr>"

lemma show_databases_lists_visible_witness:
  "r_sql_after_rewrite (dispatch_show_databases grant_engine grant_ast ''SHOW DATABASES'' show_databases_info (Some listed_args)) =
     show_databases_sql show_databases_info (sorted_list_of_set (visible_names listed_args)) \<and>
   map fst (visible_databases (Some listed_args)) = [''shop'', ''web'']"
proof -
  have "distinct (map fst (da_database_map listed_args))"
    "r_code (dispatch_show_databases grant_engine grant_ast ''SHOW DATABASES'' show_databases_info (Some listed_args)) = CodeSuccess"
    "map fst (visible_databases (Some listed_args)) = [''shop'', ''web'']"
    by code_simp+
  then show ?thesis using show_databases_lists_visible by blast
qed

definition clusters_engine :: engine where
  "clusters_engine =
     grant_engine\<lparr>e_tokenize := (\<lambda>_. Inr
       [\<lparr>wt_type = ''SHOW'', wt_text = ''SHOW'', wt_start = 0, wt_end = 4\<rparr>,
        \<lparr>wt_type = ''VAR'', wt_text = ''CLUSTERS'', wt_start = 5, wt_end = 13\<rparr>,
        \<lparr>wt_type = ''LIKE'', wt_text = ''LIKE'', wt_start = 14, wt_end = 18\<rparr>,
        \<lparr>wt_type = ''STRING'', wt_text = ''c'', wt_start = 19, wt_end = 22\<rparr>])\<rparr>"

definition clusters_sql :: gostring where
  "clusters_sql = ''SHOW CLUSTERS LIKE ccc''"

definition clusters_info :: db_level_info where
  "clusters_info = no_db_level\<lparr>dl_kind := DBShow, dl_show_what := ''CLUSTERS'', dl_has_like := True\<rparr>"

lemma forwarded_show_admitted_witness:
  "forwarded_show_ok clusters_engine clusters_sql clusters_info sample_args \<and>
   storage_integrity_surface_active (Some sample_args)"
proof -
  let ?run = "dispatch_show_tables clusters_engine grant_ast clusters_sql clusters_info (Some sample_args)"
  have "case ?run of Inr (Some resp) \<Rightarrow> r_code resp = CodeSuccess | _ \<Rightarrow> False" by code_simp
  then obtain resp where run: "?run = Inr (Some resp)" "r_code resp = CodeSuccess"
    by (auto split: sum.splits option.splits)
  have "show_forwarded_verbatim clusters_info" "storage_integrity_surface_active (Some sample_args)" by code_simp+
  then show ?thesis using forwarded_show_admitted [OF run] by blast
qed

definition exists_example :: object_target where
  "exists_example = no_object_target\<lparr>ob_verb := VerbExists, ob_type := ''TABLE'', ob_db := ''shop'', ob_table := ''orders'',
     ob_shape := ObjectTargetName\<rparr>"

lemma exists_success_witness:
  "\<exists>db table. object_answer (find_active sample_options) exists_example db table \<and>
     r_sql_after_rewrite (exists_response exists_example (find_active sample_options)) = build_object_sql ''EXISTS'' False db table \<and>
     r_sql_after_rewrite (exists_response exists_example (find_active sample_options)) = ''EXISTS TABLE si_safe.orders''"
proof -
  have "r_code (exists_response exists_example (find_active sample_options)) = CodeSuccess"
    "sel_mode (find_active sample_options) = ModeDynamic"
    "r_sql_after_rewrite (exists_response exists_example (find_active sample_options)) = ''EXISTS TABLE si_safe.orders''"
    "ob_verb exists_example = VerbExists" "ob_temporary exists_example = False"
    by code_simp+
  then show ?thesis using exists_success [of exists_example "find_active sample_options"] by auto
qed

end
