(* ===== verification/Node_Refs.thy ===== *)
theory Node_Refs
  imports SI_Policy
begin

text \<open>
  The decoders of \<open>engine/nodes.go\<close> that read a database and a table from one AST node: string literals and
  identifiers as arguments, the operand of \<open>IN\<close>, the table functions, table engines and dictionary sources that
  address a namespace, and the properties of a \<open>CREATE TABLE\<close> the allowlists check.
\<close>

section \<open>Sizes\<close>

lemma size_field_le: "size (field k j) \<le> size j"
  by (cases j) (auto simp: field_def members_def dest: size_map_of [of _ k] split: option.splits)

lemma size_member: "is_object j \<Longrightarrow> size (field k j) < size j"
  by (auto simp: field_def members_def is_object_def dest: size_map_of [of _ k] split: option.splits json.splits)

lemma size_field2: "is_object j \<Longrightarrow> size (field k (field l j)) < size j"
  using size_member [of j l] size_field_le [of k "field l j"] by linarith

section \<open>Arguments\<close>

datatype value_origin = OriginUnknown | OriginLiteral | OriginIdentifier

definition opaque_derived_table_key :: gostring where
  "opaque_derived_table_key = ''_rewriter_go_opaque_derived_table''"

definition decode_string_literal_value :: "json \<Rightarrow> gostring \<times> bool" where
  "decode_string_literal_value lit =
     (case field ''value'' lit of
        JString value \<Rightarrow>
          if field ''literal_type'' lit = JString ''string'' then (value, True)
          else if field ''literal_type'' lit = JString ''dollar_string'' then
            (case index_byte value CHR 0x00 of Some nul \<Rightarrow> (drop (nul + 1) value, True) | None \<Rightarrow> (value, True))
          else ([], False)
      | _ \<Rightarrow> ([], False))"

text \<open>\<open>tableFunctionArgValue\<close>: the value, its origin, and whether it is known.\<close>

function table_function_arg_value :: "json \<Rightarrow> gostring \<times> value_origin \<times> bool" where
  "table_function_arg_value m =
     (if \<not> is_object m then ([], OriginUnknown, False)
      else if is_object (field ''literal'' m) then
        (let (value, ok) = decode_string_literal_value (field ''literal'' m) in (value, OriginLiteral, ok \<and> value \<noteq> []))
      else if is_object (field ''column'' m) then
        (let col = field ''column'' m; name = ident_name (field ''name'' col); table = ident_name (field ''table'' col)
         in if unresolved_identifier_node (field ''name'' col) \<or> unresolved_identifier_node (field ''table'' col)
            then ([], OriginUnknown, False)
            else if name = [] then ([], OriginUnknown, False)
            else if table \<noteq> [] then (table @ ''.'' @ name, OriginIdentifier, True)
            else (name, OriginIdentifier, True))
      else
        let dot = field ''dot'' m; right = ident_name (field ''field'' dot);
            (left, origin, lok) = (if is_object dot then table_function_arg_value (field ''this'' dot) else ([], OriginUnknown, False))
        in if is_object dot \<and> unresolved_identifier_node (field ''field'' dot) then ([], OriginUnknown, False)
           else if lok \<and> origin = OriginIdentifier \<and> right \<noteq> [] then (left @ ''.'' @ right, OriginIdentifier, True)
           else if unresolved_identifier_node m then ([], OriginUnknown, False)
           else if ident_name m \<noteq> [] then (ident_name m, OriginIdentifier, True)
           else ([], OriginUnknown, False))"
  by pat_completeness auto
termination by (relation "measure size") (auto intro: size_field2)

declare table_function_arg_value.simps [simp del]

definition exact_function_qualified :: "gostring \<Rightarrow> (gostring \<times> gostring) option" where
  "exact_function_qualified s =
     (if length (filter (\<lambda>c. c = CHR ''.'') s) \<noteq> 1 then None
      else let db = takeWhile (\<lambda>c. c \<noteq> CHR ''.'') s; table = drop (length db + 1) s
           in if db \<noteq> [] \<and> table \<noteq> [] then Some (db, table) else None)"

definition name_of :: "json \<Rightarrow> gostring" where
  "name_of fn = json_string (field ''name'' fn)"

definition function_name :: "json \<Rightarrow> gostring" where
  "function_name fn = (case decode_identifier_escapes (name_of fn) of Some decoded \<Rightarrow> decoded | None \<Rightarrow> name_of fn)"

definition is_current_database_arg :: "json \<Rightarrow> bool" where
  "is_current_database_arg arg \<longleftrightarrow>
     is_object (field ''function'' arg) \<and> equal_fold (name_of (field ''function'' arg)) ''currentDatabase''"

section \<open>Columns\<close>

datatype column_decode = ColumnParameter | ColumnNone | ColumnTarget table_target

definition decode_column_identifier :: "json \<Rightarrow> column_decode" where
  "decode_column_identifier col =
     (if unresolved_identifier_node (field ''name'' col) \<or> unresolved_identifier_node (field ''table'' col)
      then ColumnParameter
      else if ident_name (field ''name'' col) = [] then ColumnNone
      else ColumnTarget (no_target\<lparr>tt_db := ident_name (field ''table'' col), tt_table := ident_name (field ''name'' col)\<rparr>))"

definition qualified_column_arg_target :: "json \<Rightarrow> table_target option" where
  "qualified_column_arg_target arg =
     (if \<not> is_object (field ''column'' arg) then None
      else case decode_column_identifier (field ''column'' arg) of
             ColumnTarget tt \<Rightarrow> if tt_db tt = [] then None else Some tt
           | _ \<Rightarrow> None)"

section \<open>Namespaces\<close>

record ref_detail =
  rd_ref :: namespace_ref
  rd_database_origin :: value_origin
  rd_table_origin :: value_origin

definition new_ref :: "namespace_source \<Rightarrow> gostring \<Rightarrow> bool \<Rightarrow> namespace_ref" where
  "new_ref source name current =
     \<lparr>nr_source = source, nr_name = name, nr_target = no_target, nr_resolved = False,
      nr_current_database = current, nr_database_identifier = False, nr_table_identifier = False\<rparr>"

definition plain_detail :: "namespace_ref \<Rightarrow> ref_detail" where
  "plain_detail ref = \<lparr>rd_ref = ref, rd_database_origin = OriginUnknown, rd_table_origin = OriginUnknown\<rparr>"

definition ref_with_origins :: "ref_detail \<Rightarrow> namespace_ref" where
  "ref_with_origins d =
     (rd_ref d)\<lparr>nr_database_identifier := (nr_database_identifier (rd_ref d) \<or> rd_database_origin d = OriginIdentifier),
                nr_table_identifier := (nr_table_identifier (rd_ref d) \<or> rd_table_origin d = OriginIdentifier)\<rparr>"

definition resolved_detail :: "namespace_ref \<Rightarrow> table_target \<Rightarrow> value_origin \<Rightarrow> ref_detail" where
  "resolved_detail ref target origin =
     \<lparr>rd_ref = ref\<lparr>nr_target := target, nr_resolved := True, nr_current_database := False\<rparr>,
      rd_database_origin = origin, rd_table_origin = origin\<rparr>"

definition decode_namespace_single_detail :: "namespace_source \<Rightarrow> gostring \<Rightarrow> json \<Rightarrow> ref_detail" where
  "decode_namespace_single_detail source name arg =
     (let ref = new_ref source name True; (value, origin, ok) = table_function_arg_value arg
      in if is_current_database_arg arg then plain_detail ref
         else case qualified_column_arg_target arg of
                Some target \<Rightarrow> resolved_detail ref target OriginIdentifier
              | None \<Rightarrow>
                  if \<not> ok then plain_detail ref
                  else case exact_function_qualified value of
                         Some (db, table) \<Rightarrow> resolved_detail ref (no_target\<lparr>tt_db := db, tt_table := table\<rparr>) origin
                       | None \<Rightarrow> \<lparr>rd_ref = ref\<lparr>nr_target := no_target\<lparr>tt_table := value\<rparr>\<rparr>,
                                   rd_database_origin = OriginUnknown, rd_table_origin = origin\<rparr>)"

text \<open>The pair of arguments after the first \<open>first\<close> ones.\<close>

definition decode_namespace_pair_detail :: "namespace_source \<Rightarrow> gostring \<Rightarrow> json list \<Rightarrow> nat \<Rightarrow> ref_detail" where
  "decode_namespace_pair_detail source name args first =
     (let ref = new_ref source name False
      in case drop first args of
           [] \<Rightarrow> plain_detail ref
         | arg1 # rest \<Rightarrow>
             (let (value1, origin1, ok1) = table_function_arg_value arg1;
                  (value2, origin2, ok2) = (case rest of arg2 # _ \<Rightarrow> table_function_arg_value arg2 | [] \<Rightarrow> ([], OriginUnknown, False))
              in if is_current_database_arg arg1 then
                   \<lparr>rd_ref = ref\<lparr>nr_current_database := True, nr_target := no_target\<lparr>tt_table := value2\<rparr>\<rparr>,
                    rd_database_origin = OriginUnknown, rd_table_origin = origin2\<rparr>
                 else case (if ok1 then exact_function_qualified value1 else None) of
                        Some (db, table) \<Rightarrow> resolved_detail ref (no_target\<lparr>tt_db := db, tt_table := table\<rparr>) origin1
                      | None \<Rightarrow>
                          let target = no_target\<lparr>tt_db := (if ok1 then value1 else []), tt_table := (if ok2 then value2 else [])\<rparr>
                          in \<lparr>rd_ref = ref\<lparr>nr_target := target,
                                          nr_resolved := (ok1 \<and> ok2 \<and> value1 \<noteq> [] \<and> value2 \<noteq> [])\<rparr>,
                              rd_database_origin = (if ok1 then origin1 else OriginUnknown),
                              rd_table_origin = (if ok2 then origin2 else OriginUnknown)\<rparr>))"

definition decode_namespace_single :: "namespace_source \<Rightarrow> gostring \<Rightarrow> json \<Rightarrow> namespace_ref" where
  "decode_namespace_single source name arg = ref_with_origins (decode_namespace_single_detail source name arg)"

definition decode_namespace_pair :: "namespace_source \<Rightarrow> gostring \<Rightarrow> json list \<Rightarrow> nat \<Rightarrow> namespace_ref" where
  "decode_namespace_pair source name args first = ref_with_origins (decode_namespace_pair_detail source name args first)"

definition arg_at :: "json list \<Rightarrow> nat \<Rightarrow> json" where
  "arg_at args i = (if i < length args then args ! i else JNull)"

section \<open>The operand of IN\<close>

datatype in_operand = OperandValue | OperandParameter | OperandTable ref_detail

function in_operand_holds_parameter :: "json \<Rightarrow> bool" where
  "in_operand_holds_parameter arg =
     (let dot = field ''dot'' arg
      in if is_object (field ''column'' arg) then
           unresolved_identifier_node (field ''name'' (field ''column'' arg)) \<or>
           unresolved_identifier_node (field ''table'' (field ''column'' arg))
         else if is_object dot \<and> unresolved_identifier_node (field ''field'' dot) then True
         else if is_object dot \<and> is_object (field ''this'' dot) then in_operand_holds_parameter (field ''this'' dot)
         else unresolved_identifier_node arg)"
  by pat_completeness auto
termination
proof (relation "measure size")
  fix arg x assume "x = field ''dot'' arg" "\<not> is_object (field ''column'' arg)"
    "\<not> (is_object x \<and> unresolved_identifier_node (field ''field'' x))" "is_object x \<and> is_object (field ''this'' x)"
  then show "(field ''this'' x, arg) \<in> measure size"
    using size_member [of x "''this''"] size_field_le [of "''dot''" arg] by simp
qed simp

declare in_operand_holds_parameter.simps [simp del]

definition in_operand_alias :: "json \<Rightarrow> bool" where
  "in_operand_alias node \<longleftrightarrow> is_object (field ''alias'' node) \<and> field ''this'' (field ''alias'' node) \<noteq> JNull"

text \<open>The operand without its parentheses and aliases.\<close>

function unwrap_operand :: "json \<Rightarrow> json" where
  "unwrap_operand node =
     (if \<not> is_object node then JNull
      else if is_object (field ''paren'' node) then unwrap_operand (field ''this'' (field ''paren'' node))
      else if in_operand_alias node then unwrap_operand (field ''this'' (field ''alias'' node))
      else node)"
  by pat_completeness auto
termination by (relation "measure size") (auto intro: size_field2)

declare unwrap_operand.simps [simp del]

definition no_parens_keyword_name :: "json \<Rightarrow> gostring option" where
  "no_parens_keyword_name node =
     (let fn = field ''function'' node; name = name_of fn
      in if \<not> is_object fn \<or> length (members node) \<noteq> 1 then None
         else if \<not> json_bool (field ''no_parens'' fn) then None
         else if elements (field ''args'' fn) \<noteq> [] then None
         else if name = [] then None else Some name)"

definition bare_identifier_operand_name :: "json \<Rightarrow> gostring option" where
  "bare_identifier_operand_name node =
     (let name = json_string (field ''name'' (field ''identifier'' node))
      in if length (members node) \<noteq> 1 \<or> \<not> is_object (field ''identifier'' node) \<or> name = [] then None else Some name)"

definition in_operand_from_single :: "ref_detail \<Rightarrow> in_operand" where
  "in_operand_from_single d =
     (if tt_table (nr_target (rd_ref d)) = [] \<and> \<not> nr_resolved (rd_ref d) then OperandValue else OperandTable d)"

definition current_table_detail :: "gostring \<Rightarrow> ref_detail" where
  "current_table_detail name =
     \<lparr>rd_ref = (new_ref NamespaceInTable [] True)\<lparr>nr_target := no_target\<lparr>tt_table := name\<rparr>\<rparr>,
      rd_database_origin = OriginUnknown, rd_table_origin = OriginIdentifier\<rparr>"

definition column_operand :: "json \<Rightarrow> in_operand" where
  "column_operand col =
     (case decode_column_identifier col of
        ColumnParameter \<Rightarrow> OperandParameter
      | ColumnNone \<Rightarrow> OperandValue
      | ColumnTarget tt \<Rightarrow>
          OperandTable
            (if tt_db tt \<noteq> [] then
               \<lparr>rd_ref = (new_ref NamespaceInTable [] False)\<lparr>nr_target := tt, nr_resolved := True\<rparr>,
                rd_database_origin = OriginIdentifier, rd_table_origin = OriginIdentifier\<rparr>
             else current_table_detail (tt_table tt)))"

definition decode_in_operand :: "json \<Rightarrow> bool \<Rightarrow> in_operand" where
  "decode_in_operand operand literalIsTable =
     (let node = unwrap_operand operand
      in if \<not> is_object node then OperandValue
         else if has_key (members node) ''parameter'' then OperandParameter
         else if is_object (field ''column'' node) then column_operand (field ''column'' node)
         else if has_key (members node) ''dot'' then
           (if in_operand_holds_parameter node then OperandParameter
            else in_operand_from_single (decode_namespace_single_detail NamespaceInTable [] node))
         else if has_key (members node) ''literal'' then
           (if \<not> literalIsTable then OperandValue
            else in_operand_from_single (decode_namespace_single_detail NamespaceInTable [] node))
         else if unresolved_identifier_node node then OperandParameter
         else case no_parens_keyword_name node of
                Some name \<Rightarrow> OperandTable (current_table_detail name)
              | None \<Rightarrow> (case bare_identifier_operand_name node of
                           Some name \<Rightarrow> OperandTable (current_table_detail name)
                         | None \<Rightarrow> OperandValue))"

definition named_detail :: "gostring \<Rightarrow> ref_detail \<Rightarrow> ref_detail" where
  "named_detail name d = d\<lparr>rd_ref := (rd_ref d)\<lparr>nr_name := name\<rparr>\<rparr>"

definition decode_in_node_operand :: "json \<Rightarrow> in_operand" where
  "decode_in_node_operand inNode =
     (case elements (field ''expressions'' inNode) of
        [operand] \<Rightarrow>
          (case decode_in_operand operand (json_bool (field ''is_field'' inNode)) of
             OperandTable d \<Rightarrow>
               OperandTable (named_detail ((if json_bool (field ''global'' inNode) then ''GLOBAL '' else []) @
                                           (if json_bool (field ''not'' inNode) then ''NOT IN'' else ''IN'')) d)
           | other \<Rightarrow> other)
      | _ \<Rightarrow> OperandValue)"

definition callable_in_display_names :: "(gostring \<times> gostring) list" where
  "callable_in_display_names =
     [(''in'', ''IN''), (''notin'', ''NOT IN''), (''nullin'', ''NULL IN''), (''notnullin'', ''NOT NULL IN''),
      (''globalin'', ''GLOBAL IN''), (''globalnotin'', ''GLOBAL NOT IN''), (''globalnullin'', ''GLOBAL NULL IN''),
      (''globalnotnullin'', ''GLOBAL NOT NULL IN'')]"

definition decode_callable_in :: "gostring \<Rightarrow> json list \<Rightarrow> ref_detail option" where
  "decode_callable_in key args =
     (if length args \<noteq> 2 then None
      else case decode_in_operand (args ! 1) False of
             OperandTable d \<Rightarrow>
               Some (named_detail (case map_of callable_in_display_names key of Some n \<Rightarrow> n | None \<Rightarrow> []) d)
           | _ \<Rightarrow> None)"

section \<open>Functions, engines and dictionary sources\<close>

text \<open>The table functions that take either one argument or a pair, with the number of arguments of the former.\<close>

definition single_arity :: "(gostring \<times> nat) list" where
  "single_arity =
     [(''merge'', 1), (''loop'', 1), (''dictionary'', 1), (''timeseriesdata'', 1), (''timeseriestags'', 1),
      (''timeseriesmetrics'', 1), (''timeseriesselector'', 4), (''prometheusquery'', 3), (''prometheusqueryrange'', 5)]"

definition decode_namespace_function_ref_detail :: "json \<Rightarrow> ref_detail option" where
  "decode_namespace_function_ref_detail fn =
     (let name = function_name fn; args = elements (field ''args'' fn); lower = to_lower name;
          pair = (\<lambda>first. Some (decode_namespace_pair_detail NamespaceTableFunction name args first));
          single = (\<lambda>arg. Some (decode_namespace_single_detail NamespaceTableFunction name arg))
      in case canonical_callable_in_name name of
           Some key \<Rightarrow> decode_callable_in key args
         | None \<Rightarrow>
             if lower \<in> {''remote'', ''remotesecure'', ''cluster'', ''clusterallreplicas''} then pair 1
             else case map_of single_arity lower of
                    Some n \<Rightarrow> if length args = n then single (hd args) else pair 0
                  | None \<Rightarrow>
                      if has_prefix lower ''mergetree'' then pair 0
                      else if lower = ''mysql'' \<or> lower = ''postgresql'' then pair 1
                      else if lower = ''mongodb'' then (if length args \<ge> 6 then pair 1 else single (arg_at args 1))
                      else if lower = ''jdbc'' \<or> lower = ''odbc'' then
                        (if length args = 3 then pair 1 else single (arg_at args 1))
                      else None)"

definition decode_table_engine_namespace_ref :: "json \<Rightarrow> namespace_ref option" where
  "decode_table_engine_namespace_ref property =
     (let anon = field ''anonymous'' (field ''this'' property);
          name = ident_name (field ''identifier'' (field ''this'' anon));
          args = elements (field ''expressions'' anon); lower = to_lower name
      in if lower \<in> {''remote'', ''distributed''} then Some (decode_namespace_pair NamespaceTableEngine name args 1)
         else if lower \<in> {''merge'', ''buffer''} then Some (decode_namespace_pair NamespaceTableEngine name args 0)
         else None)"

text \<open>The settings of a dictionary source: the database, the table, and whether another setting can change them.\<close>

definition dictionary_setting :: "json \<Rightarrow> (gostring \<times> json) option" where
  "dictionary_setting pair =
     (case elements (field ''expressions'' (field ''tuple'' pair)) of
        [k, v] \<Rightarrow> Some (to_upper (ident_name (field ''identifier'' k)), v)
      | _ \<Rightarrow> None)"

definition dictionary_args :: "json list \<Rightarrow> json option \<times> json option \<times> bool" where
  "dictionary_args pairs =
     foldl (\<lambda>(db, table, opaque) pair.
         case dictionary_setting pair of
           None \<Rightarrow> (db, table, opaque)
         | Some (key, v) \<Rightarrow>
             if key \<in> {''DB'', ''DATABASE''} then (if v = JNull then None else Some v, table, opaque)
             else if key = ''TABLE'' then (db, if v = JNull then None else Some v, opaque)
             else if key \<in> {''QUERY'', ''WHERE'', ''INVALIDATE_QUERY'', ''NAME''} then (db, table, True)
             else (db, table, opaque))
       (None, None, False) pairs"

definition arg_or_null :: "json option \<Rightarrow> json" where
  "arg_or_null a = (case a of Some v \<Rightarrow> v | None \<Rightarrow> JNull)"

definition decode_dictionary_source_namespace_ref :: "json \<Rightarrow> namespace_ref option" where
  "decode_dictionary_source_namespace_ref property =
     (if \<not> equal_fold (ident_name (field ''identifier'' (field ''this'' property))) ''SOURCE'' then None
      else if \<not> equal_fold (json_string (field ''kind'' property)) ''CLICKHOUSE'' then None
      else
        let ref = new_ref NamespaceDictionarySource ''CLICKHOUSE'' False;
            (db, table, opaque) =
              dictionary_args (elements (field ''expressions'' (field ''tuple'' (field ''settings'' property))));
            pair = decode_namespace_pair NamespaceDictionarySource ''CLICKHOUSE'' [arg_or_null db, arg_or_null table] 0
        in Some (if opaque then
                   (if db \<noteq> None then pair\<lparr>nr_resolved := False, nr_current_database := False\<rparr>
                    else if table \<noteq> None then
                      ref\<lparr>nr_target := no_target\<lparr>tt_table := fst (table_function_arg_value (arg_or_null table))\<rparr>\<rparr>
                    else ref)
                 else if db = None \<and> table = None then ref
                 else if db = None then
                   (decode_namespace_single NamespaceDictionarySource ''CLICKHOUSE'' (arg_or_null table))
                     \<lparr>nr_current_database := True\<rparr>
                 else pair))"

section \<open>The storage of a CREATE TABLE\<close>

record storage_engine =
  se_name :: gostring
  se_arg_count :: nat

definition decode_engine_property :: "json \<Rightarrow> gostring \<times> nat" where
  "decode_engine_property property =
     (let outer = field ''this'' property; anon = field ''anonymous'' outer
      in if \<not> is_object outer then ([], 0)
         else if is_object anon then
           (ident_name (field ''identifier'' (field ''this'' anon)), length (elements (field ''expressions'' anon)))
         else (ident_name (field ''identifier'' outer), 0))"

definition settings_property_keys :: "json \<Rightarrow> gostring list" where
  "settings_property_keys property =
     filter (\<lambda>name. name \<noteq> [])
       (map (\<lambda>e. let eq = field ''eq'' e; left = field ''left'' eq; col = field ''column'' left
                 in if is_object eq \<and> is_object left \<and> is_object col then ident_name (field ''name'' col) else [])
         (elements (field ''expressions'' property)))"

end
