(* ===== verification/Node_Walk.thy ===== *)
theory Node_Walk
  imports Node_Refs
begin

text \<open>
  The ordered object walk of \<open>engine/nodes.go\<close> (\<open>walkStatementObjects\<close> and everything below it, with
  \<open>walkGenericExpression\<close> of \<open>ungoverned.go\<close>): the one traversal behind every collector of table references and
  behind the rewrite of a \<open>SELECT\<close>. Go's visitor callbacks are the events of the walk, each with the path of its
  node, in the order in which the callbacks run. Every walker of the source is one production of \<open>expand\<close>: the list
  of what it does at its node, which is to emit an event, to walk a part of the node with another walker, or to
  fail because a part no walker models holds a read. \<open>walk\<close> runs a production with fuel; the size of the node is
  enough.
\<close>

section \<open>Paths\<close>

datatype path_step = Key gostring | Index nat

type_synonym path = "path_step list"

definition child :: "path_step \<Rightarrow> json \<Rightarrow> json" where
  "child s j = (case s of Key k \<Rightarrow> field k j | Index i \<Rightarrow> if i < length (elements j) then elements j ! i else JNull)"

fun node_at :: "path \<Rightarrow> json \<Rightarrow> json" where
  "node_at [] j = j"
| "node_at (s # p) j = node_at p (child s j)"

section \<open>Scopes\<close>

record read_scope =
  sc_ctes :: "gostring list"
  sc_aliases :: "gostring list"
  sc_projection :: "gostring list"
  sc_stored_view :: bool
  sc_unbound :: bool

definition no_scope :: read_scope where
  "no_scope = \<lparr>sc_ctes = [], sc_aliases = [], sc_projection = [], sc_stored_view = False, sc_unbound = False\<rparr>"

definition unbound_scope :: read_scope where
  "unbound_scope = no_scope\<lparr>sc_unbound := True\<rparr>"

section \<open>Events and productions\<close>

datatype read_event =
  SeenTable bool table_target
| SeenFunction ref_detail
| SeenInTable ref_detail
| SeenNamespace ref_detail
| SeenParameter
| SeenSourceFunction gostring

text \<open>Which walker runs on a node. \<open>SeenTable\<close> says whether the table is the member \<open>table\<close> of the node.\<close>

datatype role =
  WalkStatement | WalkQuery | WalkExpression | WalkTableSource | WalkJoin | WalkNamedWindow | WalkWindowSpec
| WalkGeneric | WalkCreateProperty

datatype walk_item = Emit path read_event | Walk role read_scope path | Fail engine_error

definition walk_fields :: "path \<Rightarrow> gostring list \<Rightarrow> read_scope \<Rightarrow> walk_item list" where
  "walk_fields pre keys sc = map (\<lambda>k. Walk WalkExpression sc (pre @ [Key k])) keys"

definition walk_elements :: "role \<Rightarrow> read_scope \<Rightarrow> path \<Rightarrow> json \<Rightarrow> walk_item list" where
  "walk_elements r sc pre j = map (\<lambda>i. Walk r sc (pre @ [Index i])) [0..<length (elements j)]"

section \<open>Read-bearing nodes\<close>

definition query_kinds :: "gostring list" where
  "query_kinds = [NodeSelect, NodeUnion, NodeIntersect, NodeExcept]"

definition is_table_ref_payload :: "json \<Rightarrow> bool" where
  "is_table_ref_payload node \<longleftrightarrow> is_object (field ''name'' node) \<and> ident_name (field ''name'' node) \<noteq> []"

definition opaque_subquery :: "json \<Rightarrow> bool" where
  "opaque_subquery node \<longleftrightarrow> json_bool (field opaque_derived_table_key (field ''subquery'' node))"

definition read_bearing_head :: "json \<Rightarrow> bool" where
  "read_bearing_head n \<longleftrightarrow>
     list_ex (\<lambda>k. is_object (field k n)) query_kinds \<or>
     is_object (field ''subquery'' n) \<and> field ''this'' (field ''subquery'' n) \<noteq> JNull \<or>
     is_object (field ''in'' n) \<and> field ''this'' (field ''in'' n) \<noteq> JNull \<or>
     is_object (field ''table'' n) \<and> is_table_ref_payload (field ''table'' n) \<or>
     is_object (field ''engine_property'' n) \<or> is_object (field ''dict_property'' n) \<or>
     is_object (field ''function'' n) \<and> decode_namespace_function_ref_detail (field ''function'' n) \<noteq> None"

fun contains_read_bearing_node :: "json \<Rightarrow> bool" where
  "contains_read_bearing_node (JArray vs) \<longleftrightarrow> True \<in> set (map contains_read_bearing_node vs)"
| "contains_read_bearing_node (JObject m) \<longleftrightarrow>
     \<not> opaque_subquery (JObject m) \<and>
     (read_bearing_head (JObject m) \<or> True \<in> set (map (\<lambda>(k, v). contains_read_bearing_node v) m))"
| "contains_read_bearing_node _ \<longleftrightarrow> False"

definition reject_carrier :: "json \<Rightarrow> gostring \<Rightarrow> walk_item list" where
  "reject_carrier node ctx = (if contains_read_bearing_node node then [Fail (UnmodelledRead ctx)] else [])"

definition reject_fields :: "json \<Rightarrow> gostring list \<Rightarrow> gostring \<Rightarrow> walk_item list" where
  "reject_fields node handled ctx =
     (if list_ex (\<lambda>(k, v). k \<notin> set handled \<and> contains_read_bearing_node v) (members node)
      then [Fail (UnmodelledRead ctx)] else [])"

section \<open>Read queries\<close>

text \<open>Whether \<open>walkReadQuery\<close> handles a node.\<close>

function is_read_query :: "json \<Rightarrow> bool" where
  "is_read_query m =
     (if \<not> is_object m then False
      else if list_ex (\<lambda>k. is_object (field k m)) query_kinds then True
      else if is_object (field ''subquery'' m) then
        (if opaque_subquery m then True else is_read_query (field ''this'' (field ''subquery'' m)))
      else if is_object (field ''paren'' m) then is_read_query (field ''this'' (field ''paren'' m))
      else False)"
  by pat_completeness auto
termination by (relation "measure size") (auto intro: size_field2)

declare is_read_query.simps [simp del]

function cte_body_is_read_query :: "json \<Rightarrow> bool" where
  "cte_body_is_read_query m =
     (if \<not> is_object m then False
      else if list_ex (has_key (members m)) query_kinds then True
      else if is_object (field ''subquery'' m) then
        (if opaque_subquery m then False else cte_body_is_read_query (field ''this'' (field ''subquery'' m)))
      else if is_object (field ''paren'' m) then cte_body_is_read_query (field ''this'' (field ''paren'' m))
      else False)"
  by pat_completeness auto
termination by (relation "measure size") (auto intro: size_field2)

declare cte_body_is_read_query.simps [simp del]

definition stored_view_root_marked :: "json \<Rightarrow> bool" where
  "stored_view_root_marked m \<longleftrightarrow> list_ex (\<lambda>(k, body). json_bool (field stored_view_body_key body)) (members m)"

section \<open>The bindings of WITH\<close>

definition lexed_number_column :: "json \<Rightarrow> bool" where
  "lexed_number_column m \<longleftrightarrow>
     (let col = field ''column'' m; name = field ''name'' col; word = json_string (field ''name'' name)
      in is_object col \<and> length (members m) = 1 \<and> field ''table'' col = JNull \<and> \<not> json_bool (field ''quoted'' name) \<and>
         (to_lower word \<in> {''inf'', ''nan''} \<or>
          length word > 2 \<and> has_prefix word ''0b'' \<and> list_all (\<lambda>c. c = CHR ''0'' \<or> c = CHR ''1'') (drop 2 word)))"

definition name_reference_keys :: "gostring list" where
  "name_reference_keys =
     [''column'', ''identifier'', ''dot'', ''parameter'', ''star'', ''lambda'', ''table'', ''subquery''] @ query_kinds"

definition bare_keyword_call :: "gostring \<Rightarrow> json \<Rightarrow> bool" where
  "bare_keyword_call k v \<longleftrightarrow> (k = ''function'' \<or> k = ''aggregate_function'') \<and> json_bool (field ''no_parens'' v)"

fun contains_name_reference :: "json \<Rightarrow> bool" where
  "contains_name_reference (JObject m) \<longleftrightarrow>
     True \<in> set (map (\<lambda>(k, v). k \<in> set name_reference_keys \<or> contains_name_reference v \<or> bare_keyword_call k v) m)"
| "contains_name_reference (JArray vs) \<longleftrightarrow> True \<in> set (map contains_name_reference vs)"
| "contains_name_reference _ \<longleftrightarrow> False"

text \<open>A node without its parentheses; \<^const>\<open>JNull\<close> when a wrapper holds anything else beside them.\<close>

function unwrap_value :: "json \<Rightarrow> json" where
  "unwrap_value node =
     (if \<not> is_object node \<or> length (members node) \<noteq> 1 then JNull
      else if is_object (field ''paren'' node) then unwrap_value (field ''this'' (field ''paren'' node))
      else node)"
  by pat_completeness auto
termination by (relation "measure size") (auto intro: size_field2)

declare unwrap_value.simps [simp del]

definition with_value_is_not_table_reference :: "json \<Rightarrow> bool" where
  "with_value_is_not_table_reference node =
     (let m = unwrap_value node; neg = field ''neg'' m
      in if \<not> is_object m then False
         else if cte_body_is_read_query m \<or> lexed_number_column m then True
         else if is_object neg \<and> lexed_number_column (field ''this'' neg) then True
         else if is_object (field ''function'' m) then \<not> json_bool (field ''no_parens'' (field ''function'' m))
         else if is_object (field ''aggregate_function'' m) then
           \<not> json_bool (field ''no_parens'' (field ''aggregate_function'' m))
         else \<not> contains_name_reference m)"

definition literal_type_in :: "json \<Rightarrow> gostring list \<Rightarrow> bool" where
  "literal_type_in lit types \<longleftrightarrow> (case field ''literal_type'' lit of JString t \<Rightarrow> t \<in> set types | _ \<Rightarrow> False)"

definition stored_view_scalar_literal :: "json \<Rightarrow> bool" where
  "stored_view_scalar_literal m =
     (let lit = field ''literal'' m; neg = field ''neg'' m; inner = field ''this'' neg
      in if length (members m) \<noteq> 1 then False
         else if is_object lit then
           literal_type_in lit [''number'', ''hex_number'', ''string'', ''hex_string'', ''dollar_string'']
         else if has_key (members m) ''null'' \<or> has_key (members m) ''boolean'' \<or> lexed_number_column m then True
         else if is_object neg then
           (if length (members inner) \<noteq> 1 then False
            else if is_object (field ''literal'' inner) then literal_type_in (field ''literal'' inner) [''number'', ''hex_number'']
            else lexed_number_column inner)
         else False)"

text \<open>\<open>unwrapParenNodes\<close>, which keeps a wrapper that holds more than its parentheses.\<close>

function unwrap_paren_nodes :: "json \<Rightarrow> json" where
  "unwrap_paren_nodes m =
     (if length (members m) \<noteq> 1 \<or> \<not> is_object m then m
      else if \<not> is_object (field ''paren'' m) then m
      else if \<not> is_object (field ''this'' (field ''paren'' m)) then JNull
      else unwrap_paren_nodes (field ''this'' (field ''paren'' m)))"
  by pat_completeness auto
termination by (relation "measure size") (auto intro: size_field2)

declare unwrap_paren_nodes.simps [simp del]

definition all_stored_view_scalar_literals :: "json \<Rightarrow> bool" where
  "all_stored_view_scalar_literals node \<longleftrightarrow> elements node \<noteq> [] \<and> list_all stored_view_scalar_literal (elements node)"

definition with_value_is_stored_view_literal :: "json \<Rightarrow> bool" where
  "with_value_is_stored_view_literal m =
     (if \<not> is_object m \<or> length (members m) \<noteq> 1 then False
      else if stored_view_scalar_literal (unwrap_paren_nodes m) then True
      else if is_object (field ''tuple'' m) then
        all_stored_view_scalar_literals (field ''expressions'' (field ''tuple'' m))
      else json_bool (field ''bracket_notation'' (field ''array_func'' m)) \<and>
           all_stored_view_scalar_literals (field ''expressions'' (field ''array_func'' m)))"

definition declare_cte_binding :: "json \<Rightarrow> read_scope \<Rightarrow> read_scope" where
  "declare_cte_binding cte sc =
     (let name = concrete_identifier_name (field ''alias'' cte); value = field ''this'' cte;
          binds = (if sc_stored_view sc then with_value_is_stored_view_literal value
                   else with_value_is_not_table_reference value)
      in if name = [] \<or> sc_unbound sc then sc
         else if json_bool (field ''alias_first'' cte) \<and> cte_body_is_read_query value then
           sc\<lparr>sc_ctes := name # sc_ctes sc\<rparr>
         else if binds then sc\<lparr>sc_aliases := name # sc_aliases sc\<rparr>
         else sc\<lparr>sc_aliases := removeAll name (sc_aliases sc), sc_ctes := removeAll name (sc_ctes sc)\<rparr>)"

definition is_scoped_current_database_ref :: "namespace_ref \<Rightarrow> read_scope \<Rightarrow> bool" where
  "is_scoped_current_database_ref ref sc \<longleftrightarrow>
     (let name = tt_table (nr_target ref)
      in nr_current_database ref \<and> tt_db (nr_target ref) = [] \<and> name \<noteq> [] \<and>
         (name \<in> set (sc_ctes sc) \<or> name \<in> set (sc_aliases sc) \<or> name \<in> set (sc_projection sc)))"

definition collect_projection_aliases :: "json \<Rightarrow> gostring list" where
  "collect_projection_aliases node =
     filter (\<lambda>n. n \<noteq> []) (map (\<lambda>e. concrete_identifier_name (field ''alias'' (field ''alias'' e))) (elements node))"

definition select_alias_scope :: "json \<Rightarrow> read_scope \<Rightarrow> read_scope" where
  "select_alias_scope selectNode sc =
     (if sc_unbound sc then sc
      else sc\<lparr>sc_projection :=
        (if sc_stored_view sc then [] else collect_projection_aliases (field ''expressions'' selectNode))\<rparr>)"

text \<open>The items of the \<open>CTE\<close>s, each in the scope of the ones before it (of all of them when the clause is recursive).\<close>

fun cte_items :: "path \<Rightarrow> bool \<Rightarrow> read_scope \<Rightarrow> nat \<Rightarrow> json list \<Rightarrow> walk_item list \<times> read_scope" where
  "cte_items pre recursive sc i [] = ([], sc)"
| "cte_items pre recursive sc i (cte # ctes) =
     (let sc' = (if recursive then sc else declare_cte_binding cte sc);
          (items, final) = cte_items pre recursive sc' (Suc i) ctes
      in (Walk WalkExpression sc (pre @ [Index i, Key ''this'']) #
          reject_fields cte [''alias'', ''this'', ''columns'', ''materialized'', ''key_expressions'', ''alias_first'', ''comments''] ''CTE'' @
          items, final))"

definition with_items :: "path \<Rightarrow> json \<Rightarrow> read_scope \<Rightarrow> walk_item list \<times> read_scope" where
  "with_items pre0 withNode0 parent0 =
     (let wrapped = is_object (field ''with'' withNode0);
          withNode = (if wrapped then field ''with'' withNode0 else withNode0);
          pre = (if wrapped then pre0 @ [Key ''with''] else pre0);
          parent = parent0\<lparr>sc_projection := []\<rparr>; ctes = elements (field ''ctes'' withNode);
          search = Walk WalkExpression;
          recursive = json_bool (field ''recursive'' withNode);
          start = (if recursive then fold declare_cte_binding ctes parent else parent);
          (items, sc) = cte_items (pre @ [Key ''ctes'']) recursive start 0 ctes
      in if ctes = [] then ([search parent (pre @ [Key ''search''])], parent)
         else (items @ [search sc (pre @ [Key ''search''])] @
               reject_fields withNode [''ctes'', ''recursive'', ''leading_comments'', ''search''] ''WITH'', sc))"

section \<open>Sources\<close>

definition query_bodied_table_function :: "gostring \<Rightarrow> bool" where
  "query_bodied_table_function name \<longleftrightarrow> to_lower name \<in> {''view'', ''viewifpermitted'', ''viewexplain''}"

definition table_function_arg_scope :: "json \<Rightarrow> read_scope \<Rightarrow> read_scope" where
  "table_function_arg_scope fn sc =
     (if query_bodied_table_function (name_of fn) then no_scope\<lparr>sc_stored_view := sc_stored_view sc\<rparr> else sc)"

definition table_source_items :: "path \<Rightarrow> bool \<Rightarrow> json \<Rightarrow> read_scope \<Rightarrow> walk_item list" where
  "table_source_items pre wrapped table sc =
     (let target = decode_table_target table
      in if parameter_table table then [Emit pre SeenParameter]
         else if tt_table target = [] \<or> tt_db target = [] \<and> tt_table target \<in> set (sc_ctes sc) then []
         else [Emit pre (SeenTable wrapped target)])"

text \<open>A function in a source role; \<open>read\<close> says whether the role also reports it as a read source.\<close>

definition source_function_items :: "path \<Rightarrow> bool \<Rightarrow> json \<Rightarrow> read_scope \<Rightarrow> walk_item list" where
  "source_function_items pre read fn sc =
     Emit pre (SeenSourceFunction (name_of fn)) #
     (case decode_namespace_function_ref_detail fn of
        Some d \<Rightarrow> if nr_source (rd_ref d) = NamespaceTableFunction
                  then Emit pre (SeenNamespace d) # (if read then [Emit pre (SeenFunction d)] else []) else []
      | None \<Rightarrow> []) @
     [Walk WalkExpression (table_function_arg_scope fn sc) (pre @ [Key ''args''])]"

section \<open>Scalar nodes\<close>

text \<open>An operand of \<open>IN\<close> that names a table, unless the scope binds its name.\<close>

definition in_table_items :: "path \<Rightarrow> ref_detail \<Rightarrow> read_scope \<Rightarrow> walk_item list" where
  "in_table_items pre d sc =
     (if is_scoped_current_database_ref (rd_ref d) sc then []
      else (if rd_table_origin d \<noteq> OriginIdentifier \<or> nr_current_database (rd_ref d) then [Emit pre (SeenNamespace d)] else [])
           @ [Emit pre (SeenInTable d)])"

definition in_items :: "path \<Rightarrow> json \<Rightarrow> read_scope \<Rightarrow> walk_item list" where
  "in_items pre inNode sc =
     Walk WalkExpression sc (pre @ [Key ''this'']) #
     (case decode_in_node_operand inNode of
        OperandParameter \<Rightarrow> [Emit pre SeenParameter]
      | OperandTable d \<Rightarrow> in_table_items pre d sc
      | OperandValue \<Rightarrow> walk_fields pre [''expressions'', ''query''] sc) @
     Walk WalkExpression sc (pre @ [Key ''unnest'']) #
     reject_fields inNode [''this'', ''expressions'', ''query'', ''not'', ''global'', ''unnest'', ''is_field''] ''IN''"

definition function_fields :: "gostring list" where
  "function_fields =
     [''name'', ''args'', ''distinct'', ''trailing_comments'', ''use_bracket_syntax'', ''no_parens'', ''quoted'',
      ''span'', ''inferred_type'']"

definition function_items :: "path \<Rightarrow> json \<Rightarrow> read_scope \<Rightarrow> walk_item list" where
  "function_items pre fn sc =
     (let args = elements (field ''args'' fn)
      in (if canonical_callable_in_name (function_name fn) \<noteq> None \<and> length args = 2 \<and>
             decode_in_operand (args ! 1) False = OperandParameter
          then [Emit pre SeenParameter] else []) @
         (case decode_namespace_function_ref_detail fn of
            Some d \<Rightarrow>
              if nr_source (rd_ref d) = NamespaceInTable then
                (if args \<noteq> [] then [Walk WalkExpression sc (pre @ [Key ''args'', Index 0])] else []) @ in_table_items pre d sc
              else walk_elements WalkExpression sc (pre @ [Key ''args'']) (field ''args'' fn)
          | None \<Rightarrow> walk_elements WalkExpression sc (pre @ [Key ''args'']) (field ''args'' fn)) @
         reject_fields fn function_fields ''scalar function'')"

definition frame_bound_items :: "path \<Rightarrow> json \<Rightarrow> read_scope \<Rightarrow> walk_item list" where
  "frame_bound_items pre bound sc =
     (if \<not> is_object bound then []
      else case find (has_key (members bound)) [''preceding'', ''following'', ''value''] of
             Some k \<Rightarrow> [Walk WalkExpression sc (pre @ [Key k])]
           | None \<Rightarrow> reject_carrier bound ''window frame bound'')"

definition window_frame_items :: "path \<Rightarrow> json \<Rightarrow> read_scope \<Rightarrow> walk_item list" where
  "window_frame_items pre frame sc =
     (if \<not> is_object frame then []
      else frame_bound_items (pre @ [Key ''start'']) (field ''start'' frame) sc @
           frame_bound_items (pre @ [Key ''end'']) (field ''end'' frame) sc @
           reject_fields frame [''kind'', ''start'', ''end'', ''exclude'', ''kind_text'', ''start_side_text'', ''end_side_text'']
             ''window frame'')"

definition window_spec_items :: "path \<Rightarrow> json \<Rightarrow> read_scope \<Rightarrow> walk_item list" where
  "window_spec_items pre0 node sc =
     (let key = (if is_object (field ''window'' node) then [Key ''window'']
                 else if is_object (field ''over'' node) then [Key ''over''] else []);
          pre = pre0 @ key; spec = node_at key node
      in if \<not> is_object spec then []
         else walk_fields pre [''partition_by'', ''order_by''] sc @
              window_frame_items (pre @ [Key ''frame'']) (field ''frame'' spec) sc @
              reject_fields spec [''window_name'', ''partition_by'', ''order_by'', ''frame'', ''alias''] ''window specification'')"

definition ordered_items :: "path \<Rightarrow> json \<Rightarrow> read_scope \<Rightarrow> walk_item list" where
  "ordered_items pre ordered sc =
     (let fill = field ''with_fill'' ordered; parts = [''from_'', ''to'', ''step'', ''staleness'', ''interpolate'']
      in Walk WalkExpression sc (pre @ [Key ''this'']) #
         (if is_object fill then walk_fields (pre @ [Key ''with_fill'']) parts sc @ reject_fields fill parts ''WITH FILL'' else []) @
         reject_fields ordered [''this'', ''desc'', ''nulls_first'', ''explicit_asc'', ''with_fill'', ''comments''] ''ordered expression'')"

definition expression_fields :: "path \<Rightarrow> json \<Rightarrow> read_scope \<Rightarrow> gostring \<Rightarrow> gostring list \<Rightarrow> walk_item list" where
  "expression_fields pre body sc ctx keys =
     walk_fields pre keys sc @
     reject_fields body (keys @ [''inferred_type'', ''trailing_comments'', ''comments'', ''distinct'', ''not'', ''kind'', ''quoted'',
       ''literal_type'', ''value'', ''name'', ''alias'']) ctx"

definition binary_expression_kinds :: "gostring list" where
  "binary_expression_kinds =
     [''and'', ''or'', ''add'', ''sub'', ''mul'', ''div'', ''mod'', ''eq'', ''neq'', ''lt'', ''lte'', ''gt'',
      ''gte'', ''match'', ''bitwise_and'', ''bitwise_or'', ''bitwise_xor'', ''concat'', ''adjacent'', ''ts_match'',
      ''property_eq'', ''array_contains_all'', ''array_contained_by'', ''array_overlaps'',
      ''jsonb_contains_all_top_keys'', ''jsonb_contains_any_top_keys'', ''jsonb_delete_at_path'', ''extends_left'',
      ''extends_right'', ''is'', ''member_of'', ''null_safe_eq'', ''null_safe_neq'', ''glob'', ''similar_to'',
      ''overlaps'', ''bitwise_left_shift'', ''bitwise_right_shift'']"

definition unary_expression_kinds :: "gostring list" where
  "unary_expression_kinds =
     [''alias'', ''paren'', ''annotated'', ''braced_wildcard'', ''not'', ''neg'', ''bitwise_not'', ''is_null'',
      ''is_true'', ''is_false'', ''is_json'', ''exists'', ''pre_where'', ''where'', ''having'', ''qualify'',
      ''prior'', ''connect_by_root'', ''collation'', ''upper'', ''lower'', ''length'', ''ltrim'', ''rtrim'',
      ''reverse'', ''abs'', ''floor'', ''ceil'', ''sqrt'', ''cbrt'', ''ln'', ''exp'', ''sign'', ''array_length'',
      ''array_size'', ''cardinality'', ''array_reverse'', ''array_distinct'', ''array_flatten'', ''array_compact'',
      ''to_array'', ''json_array_length'', ''json_keys'', ''json_type'', ''parse_json'', ''to_json'']"

definition expression_list_kinds :: "gostring list" where
  "expression_list_kinds =
     [''array'', ''struct'', ''tuple'', ''coalesce'', ''greatest'', ''least'', ''group_by'', ''order_by'',
      ''distribute_by'', ''cluster_by'', ''sort_by'', ''from'', ''hint'', ''array_func'', ''map_func'',
      ''json_array'', ''json_object'', ''named_struct'']"

definition typed_aggregate_expression_kinds :: "gostring list" where
  "typed_aggregate_expression_kinds =
     [''count'', ''sum'', ''avg'', ''min'', ''max'', ''group_concat'', ''string_agg'', ''list_agg'', ''array_agg'',
      ''count_if'', ''sum_if'', ''stddev'', ''stddev_pop'', ''stddev_samp'', ''variance'', ''var_pop'', ''var_samp'',
      ''median'', ''mode'', ''first'', ''last'', ''any_value'', ''approx_distinct'', ''approx_count_distinct'',
      ''approx_percentile'', ''percentile'', ''logical_and'', ''logical_or'', ''skewness'', ''array_concat_agg'',
      ''array_unique_agg'', ''bool_xor_agg'', ''percentile_cont'', ''percentile_disc'']"

definition typed_window_expression_kinds :: "gostring list" where
  "typed_window_expression_kinds =
     [''rank'', ''dense_rank'', ''n_tile'', ''lead'', ''lag'', ''first_value'', ''last_value'', ''nth_value'',
      ''percent_rank'', ''cume_dist'']"

definition scalar_field_expression_kinds :: "gostring list" where
  "scalar_field_expression_kinds =
     [''substring'', ''trim'', ''replace'', ''left'', ''right'', ''repeat'', ''lpad'', ''rpad'', ''split'',
      ''regexp_like'', ''regexp_replace'', ''regexp_extract'', ''overlay'', ''round'', ''power'', ''log'',
      ''at_time_zone'', ''date_add'', ''date_sub'', ''date_diff'', ''date_trunc'', ''extract'', ''to_date'',
      ''to_timestamp'', ''null_if'', ''if_null'', ''nvl'', ''nvl2'', ''contains'', ''starts_with'', ''ends_with'',
      ''position'', ''array_contains'', ''array_position'', ''array_append'', ''array_prepend'', ''array_concat'',
      ''array_sort'', ''array_join'', ''array_to_string'', ''array_intersect'', ''array_union'', ''array_except'',
      ''array_remove'', ''array_zip'', ''sequence'', ''generate'', ''struct_extract'', ''map_from_entries'',
      ''map_from_arrays'', ''map_keys'', ''map_values'', ''map_contains_key'', ''map_concat'', ''element_at'',
      ''transform_keys'', ''transform_values'', ''json_extract'', ''json_extract_scalar'', ''json_extract_path'',
      ''json_query'', ''json_value'', ''json_set'', ''json_insert'', ''json_remove'', ''json_merge_patch'',
      ''named_argument'', ''subscript'', ''dot'', ''method_call'', ''array_slice'', ''lambda'', ''interval'']"

text \<open>The kinds whose members are all walked in one way, with those members.\<close>

definition kind_fields :: "gostring \<Rightarrow> gostring list option" where
  "kind_fields kind =
     (if kind = ''between'' then Some [''this'', ''low'', ''high'']
      else if kind \<in> {''like'', ''i_like''} then Some [''left'', ''right'', ''escape'']
      else if kind \<in> {''cast'', ''try_cast'', ''safe_cast''} then Some [''this'', ''format'', ''default'']
      else if kind = ''values'' then Some [''rows'', ''expressions'']
      else if kind \<in> set binary_expression_kinds then Some [''left'', ''right'']
      else if kind \<in> set unary_expression_kinds then Some [''this'']
      else if kind \<in> set expression_list_kinds then Some [''expressions'']
      else if kind \<in> set typed_aggregate_expression_kinds then
        Some [''this'', ''condition'', ''filter'', ''order_by'', ''separator'', ''limit'', ''percentile'', ''accuracy'', ''having_max'']
      else if kind \<in> set typed_window_expression_kinds then
        Some [''this'', ''num_buckets'', ''offset'', ''default'', ''order_by'', ''args'']
      else if kind \<in> set scalar_field_expression_kinds then
        Some [''this'', ''expression'', ''expressions'', ''args'', ''start'', ''length'', ''replacement'', ''position'',
              ''format'', ''default'', ''separator'', ''condition'', ''true_value'', ''false_value'']
      else None)"

definition case_items :: "path \<Rightarrow> json \<Rightarrow> read_scope \<Rightarrow> walk_item list" where
  "case_items pre node sc =
     walk_fields pre [''operand'', ''whens'', ''else_''] sc @
     reject_fields node [''operand'', ''whens'', ''else_'', ''comments'', ''inferred_type''] ''CASE''"

definition if_items :: "path \<Rightarrow> json \<Rightarrow> read_scope \<Rightarrow> walk_item list" where
  "if_items pre node sc =
     walk_fields pre [''condition'', ''true_value'', ''false_value''] sc @
     reject_fields node [''condition'', ''true_value'', ''false_value'', ''original_name'', ''inferred_type''] ''IF''"

definition aggregate_items :: "path \<Rightarrow> json \<Rightarrow> read_scope \<Rightarrow> walk_item list" where
  "aggregate_items pre node sc =
     walk_fields pre [''args'', ''filter'', ''order_by'', ''limit''] sc @
     reject_fields node [''name'', ''args'', ''distinct'', ''filter'', ''order_by'', ''limit'', ''ignore_nulls'', ''inferred_type'']
       ''aggregate function''"

definition window_function_items :: "path \<Rightarrow> json \<Rightarrow> read_scope \<Rightarrow> walk_item list" where
  "window_function_items pre node sc =
     [Walk WalkExpression sc (pre @ [Key ''this'']), Walk WalkWindowSpec sc (pre @ [Key ''over''])] @
     (if is_object (field ''keep'' node) then [Walk WalkExpression sc (pre @ [Key ''keep'', Key ''order_by''])] else []) @
     reject_fields node [''this'', ''over'', ''keep'', ''inferred_type'', ''comments''] ''window function''"

text \<open>An expression with a single tag.\<close>

definition tagged_items :: "json \<Rightarrow> gostring \<Rightarrow> read_scope \<Rightarrow> walk_item list" where
  "tagged_items n kind sc =
     (let pre = [Key kind]; body = field kind n
      in if kind = ''in'' then in_items pre body sc
         else if kind = ''function'' then function_items pre body sc
         else if kind = ''aggregate_function'' then aggregate_items pre body sc
         else if kind = ''window_function'' then window_function_items pre body sc
         else if kind = ''case'' then case_items pre body sc
         else if kind = ''if_func'' then if_items pre body sc
         else if kind = ''ordered'' then ordered_items pre body sc
         else if kind = ''window'' \<or> kind = ''over'' then window_spec_items pre body sc
         else case kind_fields kind of
                Some keys \<Rightarrow> expression_fields pre body sc kind keys
              | None \<Rightarrow> reject_carrier n (''expression '' @ kind))"

text \<open>The clauses that reach an expression through named members, in the order in which they are tried.\<close>

definition clause_items :: "json \<Rightarrow> read_scope \<Rightarrow> walk_item list option" where
  "clause_items n sc =
     (let has = has_key (members n); go = (\<lambda>keys. walk_fields [] keys sc)
      in if has ''this'' then
           Some (go [''this'', ''expressions'', ''format'', ''default'', ''value'', ''on'', ''order_by''] @
             reject_fields n [''this'', ''expressions'', ''format'', ''default'', ''value'', ''on'', ''order_by'', ''all'', ''totals'',
               ''siblings'', ''percent'', ''rows'', ''comments'', ''count'', ''direction'', ''with_ties'', ''parenthesized'',
               ''table_alias'', ''column_aliases'', ''outer'', ''temporary'', ''unlogged'', ''bulk_collect''] ''clause expression'')
         else if has ''expressions'' then
           Some (go [''expressions''] @
             reject_fields n [''expressions'', ''all'', ''totals'', ''siblings'', ''comments''] ''expression list clause'')
         else if has ''count'' then
           Some (go [''count''] @ reject_fields n [''count'', ''direction'', ''percent'', ''rows'', ''with_ties''] ''FETCH'')
         else if has ''size'' then
           Some (go [''size'', ''seed'', ''offset'', ''bucket_numerator'', ''bucket_denominator'', ''bucket_field''] @
             reject_fields n [''method'', ''size'', ''seed'', ''offset'', ''unit_after_size'', ''use_sample_keyword'',
               ''explicit_method'', ''method_before_size'', ''use_seed_keyword'', ''bucket_numerator'', ''bucket_denominator'',
               ''bucket_field'', ''is_using_sample'', ''is_percent'', ''suppress_method_output''] ''SAMPLE'')
         else if has ''connect'' then
           Some (go [''start'', ''connect''] @ reject_fields n [''start'', ''connect'', ''nocycle''] ''CONNECT'')
         else if has ''columns'' then
           Some (go [''columns'', ''into_table''] @ reject_fields n [''columns'', ''into_table''] ''OUTPUT'')
         else None)"

definition expression_node_kind :: "json \<Rightarrow> gostring" where
  "expression_node_kind n =
     (case filter (\<lambda>k. \<not> has_prefix k ''_rewriter_go_'') (map fst (members n)) of [k] \<Rightarrow> k | _ \<Rightarrow> [])"

section \<open>Queries\<close>

definition select_items :: "path \<Rightarrow> json \<Rightarrow> read_scope \<Rightarrow> walk_item list" where
  "select_items pre selectNode parent =
     (let (withs, sc0) = with_items (pre @ [Key ''with'']) (field ''with'' selectNode) parent;
          sc = select_alias_scope selectNode sc0;
          windows = [Walk WalkNamedWindow sc (pre @ [Key ''windows''])]; qualify = walk_fields pre [''qualify''] sc
      in withs @ walk_fields pre [''expressions''] sc @
         [Walk WalkTableSource sc (pre @ [Key ''from'']), Walk WalkJoin sc (pre @ [Key ''joins''])] @
         walk_fields pre [''lateral_views'', ''prewhere'', ''where_clause'', ''group_by'', ''having''] sc @
         (if json_bool (field ''qualify_after_window'' selectNode) then windows @ qualify else qualify @ windows) @
         walk_fields pre
           [''order_by'', ''distribute_by'', ''cluster_by'', ''sort_by'', ''limit_by'', ''limit'', ''offset'', ''fetch'',
      ''distinct_on'', ''top'', ''sample'', ''settings'', ''format'', ''hint'', ''connect'', ''into'', ''locks'',
      ''for_xml'', ''for_json'', ''exclude''] sc @
         reject_fields selectNode
           [''expressions'', ''from'', ''joins'', ''lateral_views'', ''prewhere'', ''where_clause'', ''group_by'',
      ''having'', ''qualify'', ''order_by'', ''distribute_by'', ''cluster_by'', ''sort_by'', ''limit'', ''offset'',
      ''limit_by'', ''fetch'', ''distinct'', ''distinct_on'', ''top'', ''with'', ''sample'', ''settings'',
      ''format'', ''windows'', ''hint'', ''connect'', ''into'', ''locks'', ''for_xml'', ''for_json'',
      ''leading_comments'', ''post_select_comments'', ''kind'', ''operation_modifiers'', ''qualify_after_window'',
      ''option'', ''exclude''] ''SELECT'')"

definition set_items :: "path \<Rightarrow> json \<Rightarrow> read_scope \<Rightarrow> walk_item list" where
  "set_items pre setNode parent =
     (let (withs, sc) = with_items (pre @ [Key ''with'']) (field ''with'' setNode) parent
      in withs @
         walk_fields pre [''left'', ''right'', ''order_by'', ''limit'', ''offset'', ''distribute_by'', ''sort_by'', ''cluster_by'', ''on_columns''] sc @
         reject_fields setNode
           [''left'', ''right'', ''all'', ''distinct'', ''with'', ''order_by'', ''limit'', ''offset'', ''distribute_by'',
      ''sort_by'', ''cluster_by'', ''by_name'', ''side'', ''kind'', ''corresponding'', ''strict'', ''on_columns''] ''set operation'')"

definition query_items :: "json \<Rightarrow> read_scope \<Rightarrow> walk_item list" where
  "query_items m parent =
     (let sc = parent\<lparr>sc_projection := [], sc_stored_view := (sc_stored_view parent \<or> stored_view_root_marked m)\<rparr>;
          keys = [''order_by'', ''limit'', ''offset'', ''distribute_by'', ''sort_by'', ''cluster_by'']
      in if is_object (field NodeSelect m) then select_items [Key NodeSelect] (field NodeSelect m) sc
         else case find (\<lambda>k. is_object (field k m)) [NodeUnion, NodeIntersect, NodeExcept] of
                Some k \<Rightarrow> set_items [Key k] (field k m) sc
              | None \<Rightarrow>
                  if is_object (field ''subquery'' m) then
                    (if opaque_subquery m then []
                     else Walk WalkQuery sc [Key ''subquery'', Key ''this''] # walk_fields [Key ''subquery''] keys sc @
                          reject_fields (field ''subquery'' m)
                            (opaque_derived_table_key #
                             [''this'', ''alias'', ''column_aliases'', ''alias_explicit_as'', ''alias_keyword'', ''order_by'', ''limit'',
      ''offset'', ''distribute_by'', ''sort_by'', ''cluster_by'', ''lateral'', ''pattern'', ''quoted'']) ''subquery'')
                  else if is_object (field ''paren'' m) then
                    Walk WalkQuery sc [Key ''paren'', Key ''this''] #
                    reject_fields (field ''paren'' m) [''this'', ''trailing_comments''] ''parenthesized query''
                  else [])"

section \<open>The productions\<close>

definition expression_items :: "json \<Rightarrow> read_scope \<Rightarrow> walk_item list" where
  "expression_items n sc =
     (if \<not> is_object n then walk_elements WalkExpression sc [] n
      else if opaque_subquery n then []
      else if is_read_query n then query_items n sc
      else if has_key (members n) ''with_fill'' \<or> field ''desc'' n \<noteq> JNull \<or> field ''nulls_first'' n \<noteq> JNull then
        ordered_items [] n sc
      else case clause_items n sc of
             Some items \<Rightarrow> items
           | None \<Rightarrow> if expression_node_kind n = [] then reject_carrier n ''expression carrier''
                     else tagged_items n (expression_node_kind n) sc)"

definition table_source_walk :: "json \<Rightarrow> read_scope \<Rightarrow> walk_item list" where
  "table_source_walk n sc =
     (let go = (\<lambda>p. Walk WalkTableSource sc p); pivots = [''pivot'', ''pivot_alias'', ''unpivot'']
      in if \<not> is_object n then walk_elements WalkTableSource sc [] n
         else if opaque_subquery n then []
         else if is_read_query n then query_items n sc
         else if is_object (field ''from'' n) then [go [Key ''from'', Key ''expressions'']]
         else if is_array (field ''expressions'' n) then [go [Key ''expressions'']]
         else if is_object (field ''table'' n) then table_source_items [] True (field ''table'' n) sc
         else if is_table_ref_payload n then table_source_items [] False n sc
         else if is_object (field ''function'' n) then source_function_items [Key ''function''] True (field ''function'' n) sc
         else if is_object (field ''alias'' n) then [go [Key ''alias'', Key ''this'']]
         else if is_object (field ''paren'' n) then [go [Key ''paren'', Key ''this'']]
         else if is_object (field ''joined_table'' n) then
           [go [Key ''joined_table'', Key ''left''], Walk WalkJoin sc [Key ''joined_table'', Key ''joins''],
            Walk WalkExpression sc [Key ''joined_table'', Key ''lateral_views'']]
         else case find (\<lambda>k. is_object (field k n)) pivots of
                Some k \<Rightarrow> [go [Key k, Key ''this''], Walk WalkExpression sc [Key k, Key ''expressions'']]
              | None \<Rightarrow>
                  if is_object (field ''rows_from'' n) then [go [Key ''rows_from'', Key ''expressions'']]
                  else reject_carrier n ''table source'')"

definition join_items :: "json \<Rightarrow> read_scope \<Rightarrow> walk_item list" where
  "join_items n sc =
     (let pre = (if is_object (field ''join'' n) then [Key ''join''] else []); join = node_at pre n
      in if \<not> is_object n then walk_elements WalkJoin sc [] n
         else Walk WalkTableSource sc (pre @ [Key ''this'']) # walk_fields pre [''on'', ''using'', ''pivots'', ''sample''] sc @
              reject_fields join [''this'', ''on'', ''using'', ''kind'', ''pivots'', ''sample''] ''JOIN'')"

definition named_window_items :: "json \<Rightarrow> read_scope \<Rightarrow> walk_item list" where
  "named_window_items n sc =
     (if \<not> is_object n then walk_elements WalkNamedWindow sc [] n
      else Walk WalkWindowSpec sc [Key ''spec''] # reject_fields n [''name'', ''spec''] ''named WINDOW'')"

definition generic_items :: "json \<Rightarrow> read_scope \<Rightarrow> walk_item list" where
  "generic_items n sc =
     (if \<not> is_object n then walk_elements WalkGeneric sc [] n
      else if opaque_subquery n then []
      else if is_read_query n then query_items n sc
      else if has_key (members n) NodeCommand then [Fail EmbeddedStatement]
      else if is_object (field ''subquery'' n) \<and> field ''this'' (field ''subquery'' n) \<noteq> JNull then [Fail EmbeddedStatement]
      else if is_object (field ''in'' n) \<and> length (members n) = 1 then in_items [Key ''in''] (field ''in'' n) sc
      else if is_object (field ''function'' n) \<and> length (members n) = 1 then
        function_items [Key ''function''] (field ''function'' n) sc
      else if is_object (field ''table'' n) \<and> is_table_ref_payload (field ''table'' n) then
        table_source_items [] True (field ''table'' n) sc
      else map (\<lambda>k. Walk WalkGeneric sc [Key k]) (sort (map fst (members n))))"

definition create_property_items :: "json \<Rightarrow> read_scope \<Rightarrow> walk_item list" where
  "create_property_items n sc =
     (let namespace = (\<lambda>k r. case r of Some ref \<Rightarrow> [Emit [Key k] (SeenNamespace (plain_detail ref))] | None \<Rightarrow> [])
      in if \<not> is_object n then walk_elements WalkCreateProperty sc [] n
         else if is_object (field ''engine_property'' n) then
           namespace ''engine_property'' (decode_table_engine_namespace_ref (field ''engine_property'' n)) @
           reject_fields n [''engine_property''] ''CREATE engine property'' @ [Walk WalkGeneric sc [Key ''engine_property'']]
         else if is_object (field ''dict_property'' n) then
           namespace ''dict_property'' (decode_dictionary_source_namespace_ref (field ''dict_property'' n)) @
           reject_fields n [''dict_property''] ''CREATE dictionary property''
         else generic_items n sc)"

section \<open>Statements\<close>

definition insert_target_items :: "path \<Rightarrow> json \<Rightarrow> read_scope \<Rightarrow> walk_item list" where
  "insert_target_items pre target sc =
     (if \<not> is_object target then []
      else if is_object (field ''function'' target) then
        source_function_items (pre @ [Key ''function'']) False (field ''function'' target) sc @
        reject_fields (field ''function'' target) function_fields ''INSERT FUNCTION target''
      else reject_carrier target ''INSERT FUNCTION target'')"

definition insert_items :: "path \<Rightarrow> json \<Rightarrow> read_scope \<Rightarrow> walk_item list" where
  "insert_items pre body parent =
     (let (withs, sc) = with_items (pre @ [Key ''with'']) (field ''with'' body) parent
      in withs @ insert_target_items (pre @ [Key ''function_target'']) (field ''function_target'' body) sc @
         walk_fields pre [''values''] unbound_scope @
         walk_fields pre [''query'', ''partition'', ''returning'', ''output'', ''on_conflict'', ''replace_where'', ''source'',
           ''partition_by'', ''settings'', ''hint''] sc @
         reject_fields body
           [''table'', ''columns'', ''values'', ''query'', ''overwrite'', ''partition'', ''directory'', ''returning'',
      ''output'', ''on_conflict'', ''leading_comments'', ''if_exists'', ''with'', ''ignore'', ''source_alias'',
      ''alias'', ''alias_explicit_as'', ''default_values'', ''by_name'', ''conflict_action'', ''is_replace'',
      ''hint'', ''replace_where'', ''source'', ''function_target'', ''partition_by'', ''settings''] ''INSERT'')"

definition create_source_items :: "path \<Rightarrow> json \<Rightarrow> read_scope \<Rightarrow> walk_item list" where
  "create_source_items pre source sc =
     (let call = field ''identifier_func'' source
      in if \<not> is_object call then []
         else if \<not> is_object (field ''function'' call) then reject_carrier call ''CREATE AS table function''
         else source_function_items (pre @ [Key ''identifier_func'', Key ''function'']) False (field ''function'' call) sc)"

definition create_table_items :: "path \<Rightarrow> json \<Rightarrow> read_scope \<Rightarrow> walk_item list" where
  "create_table_items pre body parent =
     (let (withs, sc) = with_items (pre @ [Key ''with_cte'']) (field ''with_cte'' body) parent
      in withs @ create_source_items (pre @ [Key ''clone_source'']) (field ''clone_source'' body) sc @
         walk_fields pre [''as_select'', ''clone_at_clause'', ''partition_of'', ''using_template''] sc @
         [Walk WalkGeneric unbound_scope (pre @ [Key ''columns'']), Walk WalkGeneric unbound_scope (pre @ [Key ''constraints'']),
          Walk WalkCreateProperty unbound_scope (pre @ [Key ''properties'']),
          Walk WalkCreateProperty unbound_scope (pre @ [Key ''post_table_properties''])])"

definition create_view_items :: "path \<Rightarrow> read_scope \<Rightarrow> walk_item list" where
  "create_view_items pre sc =
     [Walk WalkExpression (sc\<lparr>sc_stored_view := True\<rparr>) (pre @ [Key ''query'']), Walk WalkExpression sc (pre @ [Key ''options'']),
      Walk WalkGeneric unbound_scope (pre @ [Key ''columns'']), Walk WalkGeneric unbound_scope (pre @ [Key ''schema'']),
      Walk WalkCreateProperty unbound_scope (pre @ [Key ''table_properties''])]"

definition delete_items :: "path \<Rightarrow> json \<Rightarrow> walk_item list" where
  "delete_items pre body =
     (let (withs, sc) = with_items (pre @ [Key ''with'']) (field ''with'' body) unbound_scope
      in withs @ [Walk WalkTableSource sc (pre @ [Key ''using'']), Walk WalkJoin sc (pre @ [Key ''joins''])] @
         walk_fields pre [''where_clause'', ''output'', ''limit'', ''order_by'', ''returning'', ''hint''] sc)"

definition update_items :: "path \<Rightarrow> json \<Rightarrow> walk_item list" where
  "update_items pre body =
     (let (withs, sc) = with_items (pre @ [Key ''with'']) (field ''with'' body) unbound_scope;
          sets = walk_fields pre [''set''] sc;
          from = [Walk WalkTableSource sc (pre @ [Key ''from_clause'']), Walk WalkJoin sc (pre @ [Key ''from_joins''])]
      in withs @ (if json_bool (field ''from_before_set'' body) then from @ sets else sets @ from) @
         walk_fields pre [''where_clause'', ''returning'', ''output'', ''limit'', ''order_by'', ''hint''] sc)"

definition unread_kinds :: "gostring list" where
  "unread_kinds = [NodeRaw, NodeCommand, NodeDropTable, NodeDropView, NodeTruncate, NodeCreateDB, NodeDropDB]"

definition statement_items :: "json \<Rightarrow> read_scope \<Rightarrow> walk_item list" where
  "statement_items n sc =
     (let is = (\<lambda>k. is_object (field k n)); body = (\<lambda>k. field k n)
      in if \<not> is_object n then walk_elements WalkStatement sc [] n
         else if is_read_query n then query_items n sc
         else if is NodeInsert then insert_items [Key NodeInsert] (body NodeInsert) sc
         else if is NodeCreateTable then create_table_items [Key NodeCreateTable] (body NodeCreateTable) sc
         else if is NodeCreateView then create_view_items [Key NodeCreateView] sc
         else if is NodeAlterTable then
           [Walk WalkGeneric unbound_scope [Key NodeAlterTable, Key ''actions''],
            Walk WalkGeneric unbound_scope [Key NodeAlterTable, Key ''partition'']]
         else if is NodeDelete then delete_items [Key NodeDelete] (body NodeDelete)
         else if is NodeUpdate then update_items [Key NodeUpdate] (body NodeUpdate)
         else if is NodeCopy then walk_fields [Key NodeCopy] [''this'', ''files'', ''params''] sc
         else if list_ex (\<lambda>k. field k n \<noteq> JNull) unread_kinds then []
         else reject_carrier n ''statement'')"

definition expand :: "role \<Rightarrow> read_scope \<Rightarrow> json \<Rightarrow> walk_item list" where
  "expand r sc n =
     (case r of
        WalkStatement \<Rightarrow> statement_items n sc
      | WalkQuery \<Rightarrow> if is_read_query n then query_items n sc else []
      | WalkExpression \<Rightarrow> expression_items n sc
      | WalkTableSource \<Rightarrow> table_source_walk n sc
      | WalkJoin \<Rightarrow> join_items n sc
      | WalkNamedWindow \<Rightarrow> named_window_items n sc
      | WalkWindowSpec \<Rightarrow> window_spec_items [] n sc
      | WalkGeneric \<Rightarrow> generic_items n sc
      | WalkCreateProperty \<Rightarrow> create_property_items n sc)"

section \<open>The walk\<close>

type_synonym seen = "path \<times> read_event"

fun run_items ::
    "(role \<Rightarrow> read_scope \<Rightarrow> path \<Rightarrow> engine_error + seen list) \<Rightarrow> walk_item list \<Rightarrow> engine_error + seen list" where
  "run_items rec [] = Inr []"
| "run_items rec (Emit p ev # items) = map_sum id ((#) (p, ev)) (run_items rec items)"
| "run_items rec (Fail err # items) = Inl err"
| "run_items rec (Walk r sc p # items) =
     (case rec r sc p of
        Inl err \<Rightarrow> Inl err
      | Inr seen \<Rightarrow> map_sum id ((@) (map (\<lambda>(q, ev). (p @ q, ev)) seen)) (run_items rec items))"

primrec walk :: "nat \<Rightarrow> role \<Rightarrow> read_scope \<Rightarrow> json \<Rightarrow> engine_error + seen list" where
  "walk 0 r sc n = Inl WalkOutOfFuel"
| "walk (Suc fuel) r sc n = run_items (\<lambda>r' sc' p. walk fuel r' sc' (node_at p n)) (expand r sc n)"

text \<open>\<open>walkStatementObjects\<close> on a whole statement.\<close>

definition walk_statement_objects :: "json \<Rightarrow> engine_error + seen list" where
  "walk_statement_objects stmt = walk (Suc (size stmt)) WalkStatement no_scope stmt"

end
