(* ===== verification/Node_Walk_Facts.thy ===== *)
theory Node_Walk_Facts
  imports Node_Walk
begin

text \<open>
  The object walk ends: every production walks only parts of its node that lie strictly below it, so the size of a
  statement is enough fuel, more fuel changes nothing, and a walk never reports that it ran out.
\<close>

section \<open>What a production walks\<close>

fun keyed :: "path \<Rightarrow> bool" where
  "keyed (Key k # q) \<longleftrightarrow> True"
| "keyed _ \<longleftrightarrow> False"

definition rooted :: "path \<Rightarrow> bool" where
  "rooted pre \<longleftrightarrow> pre = [] \<or> keyed pre"

lemma keyed_append [simp]: "keyed pre \<Longrightarrow> keyed (pre @ q)"
  by (cases pre rule: keyed.cases) auto

lemma rooted_Nil [simp]: "rooted []"
  by (simp add: rooted_def)

lemma rooted_keyed [simp]: "keyed pre \<Longrightarrow> rooted pre"
  by (simp add: rooted_def)

lemma rooted_append [simp]: "rooted pre \<Longrightarrow> keyed (pre @ Key k # q)"
  by (auto simp: rooted_def)

lemma keyed_rooted_append [simp]: "rooted pre \<Longrightarrow> keyed q \<Longrightarrow> keyed (pre @ q)"
  by (cases q rule: keyed.cases) auto

definition sound_item :: "walk_item \<Rightarrow> bool" where
  "sound_item it =
     (case it of Walk _ _ p \<Rightarrow> keyed p | Fail err \<Rightarrow> err \<noteq> WalkOutOfFuel | Emit _ _ \<Rightarrow> True)"

lemma sound_item_simps [simp]:
  "sound_item (Walk r sc p) \<longleftrightarrow> keyed p"
  "sound_item (Emit p ev)"
  "sound_item (Fail err) \<longleftrightarrow> err \<noteq> WalkOutOfFuel"
  by (simp_all add: sound_item_def)

abbreviation sound :: "walk_item list \<Rightarrow> bool" where
  "sound items \<equiv> list_all sound_item items"

lemma sound_fields [simp]: "rooted pre \<Longrightarrow> sound (walk_fields pre keys sc)"
  by (auto simp: walk_fields_def list_all_iff)

lemma sound_reject [simp]: "sound (reject_carrier node ctx)" "sound (reject_fields node handled ctx)"
  by (simp_all add: reject_carrier_def reject_fields_def)

lemma sound_elements [simp]: "keyed pre \<Longrightarrow> sound (walk_elements r sc pre j)"
  by (auto simp: walk_elements_def list_all_iff)

lemma sound_cte_items [simp]: "keyed pre \<Longrightarrow> sound (fst (cte_items pre rec sc i ctes))"
  by (induction ctes arbitrary: sc i) (auto simp: Let_def case_prod_unfold)

lemma sound_with_items [simp]: "keyed pre \<Longrightarrow> sound (fst (with_items pre node sc))"
  by (simp add: with_items_def Let_def case_prod_unfold)

lemma sound_table_source [simp]: "sound (table_source_items pre wrapped table sc)"
  by (simp add: table_source_items_def Let_def)

lemma sound_source_function [simp]: "rooted pre \<Longrightarrow> sound (source_function_items pre read fn sc)"
  by (auto simp: source_function_items_def split: option.splits)

lemma sound_in_table [simp]: "sound (in_table_items pre d sc)"
  by (simp add: in_table_items_def)

lemma sound_in_items [simp]: "rooted pre \<Longrightarrow> sound (in_items pre n sc)"
  by (simp add: in_items_def split: in_operand.splits)

lemma sound_function_items [simp]: "rooted pre \<Longrightarrow> sound (function_items pre fn sc)"
  by (auto simp: function_items_def Let_def split: option.splits)

lemma sound_frame_bound [simp]: "rooted pre \<Longrightarrow> sound (frame_bound_items pre bound sc)"
  by (simp add: frame_bound_items_def split: option.splits)

lemma sound_window_frame [simp]: "rooted pre \<Longrightarrow> sound (window_frame_items pre frame sc)"
  by (simp add: window_frame_items_def)

lemma sound_window_spec [simp]: "rooted pre \<Longrightarrow> sound (window_spec_items pre node sc)"
  by (simp add: window_spec_items_def Let_def)

lemma sound_ordered [simp]: "rooted pre \<Longrightarrow> sound (ordered_items pre node sc)"
  by (simp add: ordered_items_def Let_def)

lemma sound_tagged [simp]: "sound (tagged_items n kind sc)"
  by (simp add: tagged_items_def Let_def aggregate_items_def window_function_items_def case_items_def if_items_def
      expression_fields_def split: option.splits)

lemma sound_clause: "clause_items n sc = Some items \<Longrightarrow> sound items"
  by (auto simp: clause_items_def Let_def split: if_splits)

lemma sound_select [simp]: "keyed pre \<Longrightarrow> sound (select_items pre node sc)"
  by (simp add: select_items_def Let_def case_prod_unfold)

lemma sound_set [simp]: "keyed pre \<Longrightarrow> sound (set_items pre node sc)"
  by (simp add: set_items_def Let_def case_prod_unfold)

lemma sound_query [simp]: "sound (query_items n sc)"
  by (simp add: query_items_def Let_def split: option.splits)


lemma sound_insert_target [simp]: "keyed pre \<Longrightarrow> sound (insert_target_items pre target sc)"
  by (simp add: insert_target_items_def)

lemma sound_create_source [simp]: "keyed pre \<Longrightarrow> sound (create_source_items pre source sc)"
  by (simp add: create_source_items_def Let_def)

lemma sound_statement_parts [simp]:
  "keyed pre \<Longrightarrow> sound (insert_items pre body sc)"
  "keyed pre \<Longrightarrow> sound (create_table_items pre body sc)"
  "keyed pre \<Longrightarrow> sound (create_view_items pre sc)"
  "keyed pre \<Longrightarrow> sound (delete_items pre body)"
  "keyed pre \<Longrightarrow> sound (update_items pre body)"
  by (simp_all add: insert_items_def create_table_items_def create_view_items_def delete_items_def update_items_def
      Let_def case_prod_unfold)

lemma sound_member_walks: "sound (map (\<lambda>k. Walk r sc [Key k]) ks)"
  by (simp add: list_all_iff)

lemma sound_generic: "is_object n \<Longrightarrow> sound (generic_items n sc)"
  by (simp add: generic_items_def sound_member_walks)

lemma sound_create_property: "is_object n \<Longrightarrow> sound (create_property_items n sc)"
  by (simp add: create_property_items_def Let_def sound_generic split: option.splits)

lemma sound_statement: "is_object n \<Longrightarrow> sound (statement_items n sc)"
  by (simp add: statement_items_def Let_def)

lemma sound_expression: "is_object n \<Longrightarrow> sound (expression_items n sc)"
  by (simp add: expression_items_def sound_clause split: option.splits)

lemma sound_table_walk: "is_object n \<Longrightarrow> sound (table_source_walk n sc)"
  by (simp add: table_source_walk_def Let_def split: option.splits)

lemma sound_join: "is_object n \<Longrightarrow> sound (join_items n sc)"
  by (simp add: join_items_def Let_def)

text \<open>On an object a production walks below a member of it; on anything else it walks the elements, or nothing.\<close>

lemma sound_expand: "is_object n \<Longrightarrow> sound (expand r sc n)"
  by (cases r) (simp_all add: expand_def sound_statement sound_expression sound_table_walk sound_join sound_generic
      sound_create_property named_window_items_def)

lemma is_read_query_object: "is_read_query n \<Longrightarrow> is_object n"
  by (subst (asm) is_read_query.simps) (simp split: if_splits)

lemma field_not_object: "\<not> is_object n \<Longrightarrow> field k n = JNull"
  by (cases n) (auto simp: field_def members_def is_object_def)

lemma is_object_JNull [simp]: "\<not> is_object JNull"
  by (simp add: is_object_def)

lemma window_spec_not_object: "\<not> is_object n \<Longrightarrow> window_spec_items [] n sc = []"
  by (simp add: window_spec_items_def Let_def field_not_object)

lemma expand_not_object:
  "\<not> is_object n \<Longrightarrow> expand r sc n = walk_elements r sc [] n \<or> expand r sc n = []"
  using is_read_query_object [of n]
  by (cases r) (auto simp: expand_def statement_items_def expression_items_def table_source_walk_def join_items_def
      generic_items_def create_property_items_def named_window_items_def window_spec_not_object Let_def)

section \<open>The parts are smaller\<close>

lemma size_child_le: "size (child s j) \<le> size j"
proof (cases s)
  case (Key k)
  then show ?thesis by (simp add: child_def size_field_le)
next
  case (Index i)
  show ?thesis
  proof (cases "i < length (elements j)")
    case True
    then have "elements j ! i \<in> set (elements j)" by simp
    then have "size (elements j ! i) < size j"
      by (cases j) (auto simp: elements_def dest: size_list_estimation' [of _ _ _ size, OF _ order_refl])
    with Index True show ?thesis by (simp add: child_def)
  qed (use Index in \<open>simp add: child_def\<close>)
qed

lemma size_node_at_le: "size (node_at p j) \<le> size j"
  by (induction p arbitrary: j) (auto intro: order_trans size_child_le)

lemma size_element: "i < length (elements j) \<Longrightarrow> size (elements j ! i) < size j"
  by (cases j) (auto simp: elements_def dest!: nth_mem [of i] dest: size_list_estimation' [of _ _ _ size, OF _ order_refl])

lemma size_keyed: "is_object j \<Longrightarrow> keyed p \<Longrightarrow> size (node_at p j) < size j"
  by (cases p rule: keyed.cases) (auto simp: child_def intro: le_less_trans [OF size_node_at_le] size_member)

lemma expand_smaller: "Walk r' sc' p \<in> set (expand r sc n) \<Longrightarrow> size (node_at p n) < size n"
proof (cases "is_object n")
  case True
  assume "Walk r' sc' p \<in> set (expand r sc n)"
  with sound_expand [OF True, of r sc] have "keyed p" by (auto simp: list_all_iff)
  with True show ?thesis by (rule size_keyed)
next
  case False
  assume "Walk r' sc' p \<in> set (expand r sc n)"
  with expand_not_object [OF False, of r sc] show ?thesis
    by (auto simp: walk_elements_def child_def size_element)
qed

lemma expand_fail: "Fail err \<in> set (expand r sc n) \<Longrightarrow> err \<noteq> WalkOutOfFuel"
proof (cases "is_object n")
  case True
  assume "Fail err \<in> set (expand r sc n)"
  with sound_expand [OF True, of r sc] show ?thesis by (auto simp: list_all_iff)
next
  case False
  assume "Fail err \<in> set (expand r sc n)"
  with expand_not_object [OF False, of r sc] show ?thesis by (auto simp: walk_elements_def)
qed

section \<open>Fuel\<close>

lemma run_items_cong:
  "(\<And>r sc p. Walk r sc p \<in> set items \<Longrightarrow> rec r sc p = rec' r sc p) \<Longrightarrow> run_items rec items = run_items rec' items"
proof (induction items)
  case (Cons it items)
  then show ?case by (cases it) (auto split: sum.splits)
qed simp

lemma run_items_fuel:
  assumes "\<And>r sc p. Walk r sc p \<in> set items \<Longrightarrow> rec r sc p \<noteq> Inl WalkOutOfFuel"
    and "\<And>err. Fail err \<in> set items \<Longrightarrow> err \<noteq> WalkOutOfFuel"
  shows "run_items rec items \<noteq> Inl WalkOutOfFuel"
  using assms
proof (induction items)
  case (Cons it items)
  then have rest: "run_items rec items \<noteq> Inl WalkOutOfFuel" by simp
  show ?case
  proof (cases it)
    case (Emit p ev)
    with rest show ?thesis by (cases "run_items rec items") auto
  next
    case (Walk r sc p)
    with Cons.prems(1) [of r sc p] rest show ?thesis
      by (cases "run_items rec items"; cases "rec r sc p") auto
  next
    case (Fail err)
    with Cons.prems(2) [of err] show ?thesis by auto
  qed
qed simp

lemma walk_fuel_irrelevant: "size n < f \<Longrightarrow> size n < g \<Longrightarrow> walk f r sc n = walk g r sc n"
proof (induction f arbitrary: g r sc n)
  case (Suc f)
  then obtain g' where g: "g = Suc g'" by (cases g) auto
  have "walk f r' sc' (node_at p n) = walk g' r' sc' (node_at p n)" if "Walk r' sc' p \<in> set (expand r sc n)" for r' sc' p
    using expand_smaller [OF that] Suc.prems g by (intro Suc.IH) auto
  then show ?case unfolding g walk.simps by (rule run_items_cong)
qed simp

lemma walk_returns: "size n < f \<Longrightarrow> walk f r sc n \<noteq> Inl WalkOutOfFuel"
proof (induction f arbitrary: r sc n)
  case (Suc f)
  have "walk f r' sc' (node_at p n) \<noteq> Inl WalkOutOfFuel" if "Walk r' sc' p \<in> set (expand r sc n)" for r' sc' p
    using expand_smaller [OF that] Suc.prems by (intro Suc.IH) auto
  then show ?case unfolding walk.simps by (rule run_items_fuel) (auto dest: expand_fail)
qed simp

text \<open>
  C12. The walk of a statement always ends, with its events or with an error of the source: no fuel above the size of the
  statement changes its result, and it never runs out.\<close>
theorem statement_walk_terminates:
  "walk_statement_objects stmt \<noteq> Inl WalkOutOfFuel \<and>
   walk (Suc (size stmt) + extra) WalkStatement no_scope stmt = walk_statement_objects stmt"
  using walk_returns [of stmt "Suc (size stmt)"] walk_fuel_irrelevant [of stmt "Suc (size stmt) + extra" "Suc (size stmt)"]
  by (auto simp: walk_statement_objects_def simp del: walk.simps)

end
