(* ===== verification/Node_Edit.thy ===== *)
theory Node_Edit
  imports Node_Walk
begin

text \<open>
  The rewrite of a read in \<open>engine/nodes.go\<close>. \<open>RewriteSelectTables\<close> edits the decoded tree while it walks it: its
  callbacks replace a table expression or the operand of an \<open>IN\<close>. Here the walk lists its events first and the
  edits are applied at the paths of the events, in their order. Both agree because a callback changes only its own
  node, at members the walk does not enter after it, and no later test of the walk reads those members. The edits
  of the outermost \<open>SELECT\<close> (\<open>LIMIT\<close>, \<open>OFFSET\<close>, \<open>SETTINGS\<close>, injected \<open>CTE\<close>s) follow.
\<close>

section \<open>Editing at a path\<close>

text \<open>An entry replaced in place: the key or the index is there, the paths come from a walk of the tree.\<close>

definition set_child :: "path_step \<Rightarrow> json \<Rightarrow> json \<Rightarrow> json" where
  "set_child s v j =
     (case s of
        Key k \<Rightarrow> if has_key (members j) k then JObject (map (\<lambda>(k', x). (k', if k' = k then v else x)) (members j)) else j
      | Index i \<Rightarrow> if is_array j then JArray ((elements j)[i := v]) else j)"

fun edit_at :: "path \<Rightarrow> (json \<Rightarrow> json) \<Rightarrow> json \<Rightarrow> json" where
  "edit_at [] f j = f j"
| "edit_at (s # p) f j = set_child s (edit_at p f (child s j)) j"

section \<open>Synthesised nodes\<close>

definition no_nodes :: json where
  "no_nodes = JArray []"

definition lit_str :: "gostring \<Rightarrow> json" where
  "lit_str s = JObject [(''literal'', JObject [(''literal_type'', JString ''string''), (''value'', JString s)])]"

definition col_bare :: "gostring \<Rightarrow> json" where
  "col_bare s =
     JObject [(''column'', JObject [(''name'', ident s), (''table'', JNull), (''join_mark'', JBool False),
       (''trailing_comments'', no_nodes)])]"

definition remote_func :: "remote_spec \<Rightarrow> json" where
  "remote_func r =
     JObject [(''name'', JString ''remote''),
       (''args'', JArray (map lit_str [rsp_addr r, rsp_db r, rsp_table r, rsp_user r, rsp_password r])),
       (''distinct'', JBool False), (''trailing_comments'', no_nodes), (''use_bracket_syntax'', JBool False),
       (''no_parens'', JBool False), (''quoted'', JBool False)]"

definition origin_name :: "table_target \<Rightarrow> gostring" where
  "origin_name tt = (if tt_db tt \<noteq> [] then tt_db tt @ ''.'' @ tt_table tt else tt_table tt)"

definition alias_name :: "table_target \<Rightarrow> gostring" where
  "alias_name tt = (if tt_alias tt = [] then origin_name tt else tt_alias tt)"

section \<open>A table expression\<close>

definition rename_table :: "gostring \<Rightarrow> gostring \<Rightarrow> table_target \<Rightarrow> json \<Rightarrow> json" where
  "rename_table newDB newTable tt tbl =
     (let named = put ''name'' (ident newTable) tbl;
          placed = (if newDB \<noteq> [] then put ''schema'' (ident newDB) named else named)
      in if tt_alias tt \<noteq> [] then placed else put ''alias'' (ident (origin_name tt)) placed)"

definition aliased_remote :: "remote_spec \<Rightarrow> table_target \<Rightarrow> json" where
  "aliased_remote r tt =
     JObject [(''alias'', ident (alias_name tt)), (''alias_explicit_as'', JBool True), (''alias_keyword'', JString ''AS''),
       (''column_aliases'', no_nodes), (''pre_alias_comments'', no_nodes),
       (''this'', JObject [(''function'', remote_func r)]), (''trailing_comments'', no_nodes)]"

definition derived_table :: "json \<Rightarrow> table_target \<Rightarrow> json" where
  "derived_table body tt =
     JObject [(''this'', body), (''alias'', ident (alias_name tt)), (''alias_explicit_as'', JBool True),
       (''alias_keyword'', JString ''AS''), (''column_aliases'', no_nodes), (''lateral'', JBool False),
       (''limit'', JNull), (''modifiers_inside'', JBool False), (''offset'', JNull), (''order_by'', JNull),
       (''trailing_comments'', no_nodes), (opaque_derived_table_key, JBool True)]"

text \<open>
  \<open>applyDecision\<close> on the expression; \<open>wrapped\<close> says that the table is its member \<open>table\<close>, and otherwise the
  expression is the table. A decision always carries its remote call or its derived table here, so the guards for a
  misconfigured decision have no branch.
\<close>

definition apply_decision :: "bool \<Rightarrow> table_target \<Rightarrow> table_decision \<Rightarrow> json \<Rightarrow> json" where
  "apply_decision wrapped tt d expr =
     (case d of
        ActionRename newDB newTable \<Rightarrow>
          if wrapped then put ''table'' (rename_table newDB newTable tt (field ''table'' expr)) expr
          else rename_table newDB newTable tt expr
      | ActionRemote r \<Rightarrow> put ''alias'' (aliased_remote r tt) (remove_key ''table'' expr)
      | ActionSubquery body \<Rightarrow> put ''subquery'' (derived_table body tt) (remove_key ''table'' expr)
      | ActionSkip \<Rightarrow> expr)"

section \<open>The operand of an IN\<close>

definition operand_subquery :: "json \<Rightarrow> json" where
  "operand_subquery body =
     JObject [(''subquery'', JObject [(''this'', body), (''alias'', JNull), (''alias_explicit_as'', JBool False),
       (''column_aliases'', no_nodes), (''order_by'', JNull), (''limit'', JNull), (''offset'', JNull),
       (''lateral'', JBool False), (''modifiers_inside'', JBool False), (''trailing_comments'', no_nodes),
       (opaque_derived_table_key, JBool True)])]"

definition set_operand :: "json \<Rightarrow> json \<Rightarrow> json" where
  "set_operand node container =
     (if has_key (members container) ''expressions'' then put ''expressions'' (JArray [node]) container
      else case field ''args'' container of
             JArray [a, _] \<Rightarrow> put ''args'' (JArray [a, node]) container
           | _ \<Rightarrow> container)"

definition apply_in_operand_decision :: "table_decision \<Rightarrow> json \<Rightarrow> json" where
  "apply_in_operand_decision d container =
     (case d of
        ActionRename newDB newTable \<Rightarrow>
          set_operand (JObject [(''column'', JObject ((''name'', ident newTable) #
            (if newDB \<noteq> [] then [(''table'', ident newDB)] else [])))]) container
      | ActionSubquery body \<Rightarrow>
          if has_key (members container) ''expressions''
          then put ''query'' body (put ''is_field'' (JBool False) (put ''expressions'' no_nodes container))
          else set_operand (operand_subquery body) container
      | ActionRemote r \<Rightarrow> set_operand (JObject [(''function'', remote_func r)]) container
      | ActionSkip \<Rightarrow> container)"

section \<open>RewriteSelectTables\<close>

text \<open>The table an event asks a decision for.\<close>

definition event_target :: "read_event \<Rightarrow> table_target option" where
  "event_target ev =
     (case ev of
        SeenTable _ tt \<Rightarrow> Some tt
      | SeenInTable d \<Rightarrow>
          if tt_table (nr_target (rd_ref d)) \<noteq> [] \<and> rd_table_origin d = OriginIdentifier
          then Some (nr_target (rd_ref d)) else None
      | _ \<Rightarrow> None)"

definition apply_event :: "read_event \<Rightarrow> table_decision \<Rightarrow> json \<Rightarrow> json" where
  "apply_event ev d expr =
     (case ev of
        SeenTable wrapped tt \<Rightarrow> apply_decision wrapped tt d expr
      | SeenInTable _ \<Rightarrow> apply_in_operand_decision d expr
      | _ \<Rightarrow> expr)"

text \<open>
  The callback of the caller keeps a state, so a decision is a function of the state and the table; the decisions
  are asked for in the order of the events.
\<close>

fun rewrite_events :: "('s \<Rightarrow> table_target \<Rightarrow> table_decision \<times> 's) \<Rightarrow> seen list \<Rightarrow> json \<Rightarrow> 's \<Rightarrow> json \<times> 's" where
  "rewrite_events decide [] tree s = (tree, s)"
| "rewrite_events decide ((p, ev) # evs) tree s =
     (case event_target ev of
        None \<Rightarrow> rewrite_events decide evs tree s
      | Some tt \<Rightarrow>
          (let (d, s') = decide s tt in rewrite_events decide evs (edit_at p (apply_event ev d) tree) s'))"

text \<open>\<open>json.Unmarshal\<close> into a map: \<open>null\<close> is the nil map, anything but an object is an error.\<close>

definition decode_root :: "json \<Rightarrow> engine_error + json" where
  "decode_root ast = (case ast of JObject m \<Rightarrow> Inr ast | JNull \<Rightarrow> Inr ast | _ \<Rightarrow> Inl AstUndecodable)"

definition rewrite_select_tables ::
    "('s \<Rightarrow> table_target \<Rightarrow> table_decision \<times> 's) \<Rightarrow> json \<Rightarrow> 's \<Rightarrow> engine_error + json \<times> 's" where
  "rewrite_select_tables decide ast s =
     (case decode_root ast of
        Inl err \<Rightarrow> Inl err
      | Inr tree \<Rightarrow> map_sum id (\<lambda>evs. rewrite_events decide evs tree s) (walk_statement_objects tree))"

section \<open>The outermost SELECT\<close>

fun nat_text :: "nat \<Rightarrow> gostring" where
  "nat_text n = (if n < 10 then [char_of (48 + n)] else nat_text (n div 10) @ [char_of (48 + n mod 10)])"

declare nat_text.simps [simp del]

text \<open>\<open>strconv.FormatInt\<close>.\<close>

definition int_text :: "int \<Rightarrow> gostring" where
  "int_text i = (if i < 0 then ''-'' @ nat_text (nat (- i)) else nat_text (nat i))"

definition decimal_value :: "gostring \<Rightarrow> nat" where
  "decimal_value ds = foldl (\<lambda>n c. n * 10 + (of_char c - 48)) 0 ds"

text \<open>\<open>strconv.ParseInt\<close> with base 10 and 64 bits.\<close>

definition parse_int64 :: "gostring \<Rightarrow> int option" where
  "parse_int64 s =
     (let (negative, ds) = (case s of c # cs \<Rightarrow> if c = CHR ''-'' then (True, cs) else if c = CHR ''+'' then (False, cs)
                                                else (False, s) | [] \<Rightarrow> (False, []));
          n = int (decimal_value ds); i = (if negative then - n else n)
      in if ds = [] \<or> \<not> list_all is_digit_byte ds \<or> i < - (2 ^ 63) \<or> i \<ge> 2 ^ 63 then None else Some i)"

definition num_literal :: "int \<Rightarrow> json" where
  "num_literal n = JObject [(''literal'', JObject [(''literal_type'', JString ''number''), (''value'', JString (int_text n))])]"

definition edit_outer_select :: "(json \<Rightarrow> json) \<Rightarrow> json \<Rightarrow> engine_error + json" where
  "edit_outer_select f ast =
     (case decode_root ast of
        Inl err \<Rightarrow> Inl err
      | Inr tree \<Rightarrow>
          if is_object (field NodeSelect tree) then Inr (put NodeSelect (f (field NodeSelect tree)) tree)
          else Inl (WrongKind NodeSelect))"

text \<open>The numeric \<open>LIMIT\<close> of the outermost \<open>SELECT\<close>; \<open>None\<close> when there is none or it is no literal.\<close>

definition get_limit :: "json \<Rightarrow> engine_error + int option" where
  "get_limit ast =
     (case edit_outer_select id ast of
        Inl err \<Rightarrow> Inl err
      | Inr tree \<Rightarrow>
          (let lit = field ''literal'' (field ''this'' (field ''limit'' (field NodeSelect tree)))
           in Inr (if is_object lit then parse_int64 (json_string (field ''value'' lit)) else None)))"

definition set_limit :: "int \<Rightarrow> json \<Rightarrow> engine_error + json" where
  "set_limit n = edit_outer_select (put ''limit'' (JObject [(''this'', num_literal n)]))"

definition set_offset :: "int \<Rightarrow> json \<Rightarrow> engine_error + json" where
  "set_offset n = edit_outer_select (put ''offset'' (JObject [(''this'', num_literal n)]))"

definition injected_cte :: "gostring \<Rightarrow> json \<Rightarrow> json" where
  "injected_cte alias body =
     JObject [(''alias'', ident alias), (''this'', body), (''columns'', no_nodes), (''materialized'', JNull),
       (''alias_first'', JBool True)]"

definition add_ctes :: "(gostring \<times> json) list \<Rightarrow> json \<Rightarrow> json" where
  "add_ctes bodies sel =
     (let withNode = (if is_object (field ''with'' sel) then field ''with'' sel
                      else JObject [(''ctes'', no_nodes), (''recursive'', JBool False), (''leading_comments'', no_nodes)]);
          ctes = elements (field ''ctes'' withNode) @
                 map (\<lambda>alias. injected_cte alias (case map_of bodies alias of Some b \<Rightarrow> b | None \<Rightarrow> JNull)) (sorted_keys bodies)
      in put ''with'' (put ''ctes'' (JArray ctes) withNode) sel)"

definition inject_ctes :: "(gostring \<times> json) list \<Rightarrow> json \<Rightarrow> engine_error + json" where
  "inject_ctes bodies ast = (if bodies = [] then Inr ast else edit_outer_select (add_ctes bodies) ast)"

record engine_setting =
  es_key :: gostring
  es_literal_type :: gostring
  es_value :: gostring

definition setting_node :: "engine_setting \<Rightarrow> json" where
  "setting_node s =
     JObject [(''eq'', JObject [(''left'', col_bare (es_key s)),
       (''right'', JObject [(''literal'', JObject [(''literal_type'', JString (es_literal_type s)), (''value'', JString (es_value s))])]),
       (''left_comments'', no_nodes), (''operator_comments'', no_nodes), (''trailing_comments'', no_nodes)])]"

definition set_settings :: "engine_setting list \<Rightarrow> json \<Rightarrow> engine_error + json" where
  "set_settings settings =
     edit_outer_select (\<lambda>sel. put ''settings'' (JArray (elements (field ''settings'' sel) @ map setting_node settings)) sel)"

section \<open>QuoteIdentifier\<close>

text \<open>The decoded values are visited in any order: an edit of one object is independent of the others.\<close>

fun quote_identifier_walk :: "gostring \<Rightarrow> json \<Rightarrow> json" where
  "quote_identifier_walk name (JObject m) =
     (let node = JObject (map (\<lambda>(k, v). (k, quote_identifier_walk name v)) m)
      in if field ''name'' (JObject m) = JString name then put ''quoted'' (JBool True) node else node)"
| "quote_identifier_walk name (JArray vs) = JArray (map (quote_identifier_walk name) vs)"
| "quote_identifier_walk name j = j"

definition quote_identifier :: "json \<Rightarrow> gostring \<Rightarrow> engine_error + json" where
  "quote_identifier ast name = Inr (quote_identifier_walk name ast)"

end
