(* ===== verification/Node_Collect.thy ===== *)
theory Node_Collect
  imports Node_Edit Opaque_Text Db_Level
begin

text \<open>
  The collectors over the object walk (\<open>engine/nodes.go\<close>): each keeps the events it asks for, in their order. Then
  the storage clauses of a \<open>CREATE\<close> and of an \<open>ALTER\<close>, and the wrappers of a table expression that a derived table
  cannot preserve.
\<close>

section \<open>Tables and namespaces\<close>

definition collect :: "(read_event \<Rightarrow> 'a list) \<Rightarrow> json \<Rightarrow> engine_error + 'a list" where
  "collect f tree = map_sum id (\<lambda>evs. concat (map (f \<circ> snd) evs)) (walk_statement_objects tree)"

definition select_table_of :: "read_event \<Rightarrow> table_target list" where
  "select_table_of ev = (case event_target ev of Some tt \<Rightarrow> [tt] | None \<Rightarrow> [])"

definition collect_select_tables :: table_reader where
  "collect_select_tables ast = (case decode_root ast of Inl err \<Rightarrow> Inl err | Inr tree \<Rightarrow> collect select_table_of tree)"

definition namespace_of_event :: "read_event \<Rightarrow> namespace_ref list" where
  "namespace_of_event ev = (case ev of SeenNamespace d \<Rightarrow> [ref_with_origins d] | _ \<Rightarrow> [])"

definition in_table_of_event :: "read_event \<Rightarrow> namespace_ref list" where
  "in_table_of_event ev =
     (case ev of SeenInTable d \<Rightarrow> if rd_table_origin d = OriginIdentifier then [ref_with_origins d] else [] | _ \<Rightarrow> [])"

definition collect_namespace_refs :: "json \<Rightarrow> engine_error + namespace_ref list" where
  "collect_namespace_refs ast = collect namespace_of_event ast"

definition collect_in_table_identifier_refs :: "json \<Rightarrow> engine_error + namespace_ref list" where
  "collect_in_table_identifier_refs ast = collect in_table_of_event ast"

definition collect_namespace_and_in_table_refs :: "json \<Rightarrow> engine_error + namespace_ref list" where
  "collect_namespace_and_in_table_refs ast =
     (case collect_namespace_refs ast of
        Inl err \<Rightarrow> Inl err
      | Inr namespaces \<Rightarrow> map_sum id ((@) namespaces) (collect_in_table_identifier_refs ast))"

record table_function_ref =
  tf_target :: table_target
  tf_resolved :: bool
  tf_current_database :: bool

definition collect_table_function_refs :: "json \<Rightarrow> engine_error + table_function_ref list" where
  "collect_table_function_refs ast =
     map_sum id (\<lambda>refs. map (\<lambda>r. \<lparr>tf_target = nr_target r, tf_resolved = nr_resolved r, tf_current_database = nr_current_database r\<rparr>)
         (filter (\<lambda>r. nr_source r = NamespaceTableFunction) refs))
       (collect_namespace_refs ast)"

definition collect_table_function_targets :: "json \<Rightarrow> engine_error + table_target list" where
  "collect_table_function_targets ast = map_sum id (map tf_target \<circ> filter tf_resolved) (collect_table_function_refs ast)"

definition source_function_of :: "read_event \<Rightarrow> gostring list" where
  "source_function_of ev = (case ev of SeenSourceFunction name \<Rightarrow> if name \<noteq> [] then [name] else [] | _ \<Rightarrow> [])"

definition collect_source_function_names :: "json \<Rightarrow> engine_error + gostring list" where
  "collect_source_function_names ast = collect source_function_of ast"

datatype read_source_kind = ReadSourceTable | ReadSourceTableFunction | ReadSourceInTable

record read_source =
  rsr_kind :: read_source_kind
  rsr_target :: table_target
  rsr_resolved :: bool
  rsr_current_database :: bool
  rsr_database_identifier :: bool
  rsr_table_identifier :: bool

definition source_of_detail :: "read_source_kind \<Rightarrow> ref_detail \<Rightarrow> read_source" where
  "source_of_detail kind d =
     \<lparr>rsr_kind = kind, rsr_target = nr_target (rd_ref d), rsr_resolved = nr_resolved (rd_ref d),
      rsr_current_database = nr_current_database (rd_ref d),
      rsr_database_identifier = (rd_database_origin d = OriginIdentifier),
      rsr_table_identifier = (rd_table_origin d = OriginIdentifier)\<rparr>"

definition read_source_of :: "read_event \<Rightarrow> read_source list" where
  "read_source_of ev =
     (case ev of
        SeenTable _ tt \<Rightarrow>
          [\<lparr>rsr_kind = ReadSourceTable, rsr_target = tt, rsr_resolved = True, rsr_current_database = False,
            rsr_database_identifier = (tt_db tt \<noteq> []), rsr_table_identifier = True\<rparr>]
      | SeenFunction d \<Rightarrow> [source_of_detail ReadSourceTableFunction d]
      | SeenInTable d \<Rightarrow> [source_of_detail ReadSourceInTable d]
      | _ \<Rightarrow> [])"

definition collect_embedded_read_sources :: "json \<Rightarrow> engine_error + read_source list" where
  "collect_embedded_read_sources ast = collect read_source_of ast"

section \<open>Nodes of any kind\<close>

text \<open>Every object of a value, before its parts.\<close>

fun object_nodes :: "json \<Rightarrow> json list" where
  "object_nodes (JObject m) = JObject m # concat (map (\<lambda>(_, v). object_nodes v) m)"
| "object_nodes (JArray vs) = concat (map object_nodes vs)"
| "object_nodes _ = []"

text \<open>\<open>BareTableNames\<close>; a name may be listed more than once, its caller only asks which names occur.\<close>

fun bare_tables :: "json \<Rightarrow> gostring list" where
  "bare_tables (JObject m) =
     (if is_object (field ''table'' (JObject m)) then
        (let tt = decode_table_target (field ''table'' (JObject m))
         in if tt_table tt \<noteq> [] \<and> tt_db tt = [] then [tt_table tt] else [])
      else concat (map (\<lambda>(_, v). bare_tables v) m))"
| "bare_tables (JArray vs) = concat (map bare_tables vs)"
| "bare_tables _ = []"

definition bare_table_names :: "json \<Rightarrow> engine_error + gostring list" where
  "bare_table_names ast = map_sum id (remdups \<circ> bare_tables) (decode_root ast)"

definition star_names :: "json \<Rightarrow> json list" where
  "star_names star =
     elements (field ''except'' star) @ map (field ''alias'') (filter is_object (elements (field ''replace'' star))) @
     concat (map elements (filter is_array (elements (field ''rename'' star))))"

text \<open>\<open>unqualifiedIdentifierHit\<close> of \<open>engine/scope.go\<close>, the tests \<open>refWalk\<close> makes as well.\<close>

definition unqualified_identifier_hit :: "gostring \<Rightarrow> json \<Rightarrow> bool" where
  "unqualified_identifier_hit name n \<longleftrightarrow>
     field ''name'' n = JString name \<and> has_key (members n) ''quoted'' \<or>
     list_ex (\<lambda>x. ident_name x = name) (elements (field ''using'' n)) \<or>
     is_object (field ''star'' n) \<and> list_ex (\<lambda>x. ident_name x = name) (star_names (field ''star'' n))"

definition identifier_hit :: "gostring \<Rightarrow> json \<Rightarrow> bool" where
  "identifier_hit name n \<longleftrightarrow>
     is_object (field ''column'' n) \<and> ident_name (field ''name'' (field ''column'' n)) = name \<or>
     is_object (field ''dot'' n) \<and> ident_name (field ''field'' (field ''dot'' n)) = name \<or>
     unqualified_identifier_hit name n"

definition references_identifier :: "json \<Rightarrow> gostring \<Rightarrow> bool" where
  "references_identifier ast name \<longleftrightarrow> list_ex (identifier_hit name) (object_nodes ast)"

section \<open>Storage clauses\<close>

definition unparsed_settings :: "gostring \<Rightarrow> engine_error + 'a" where
  "unparsed_settings sql = Inl (SettingListUnparsed sql)"

text \<open>The keys of a \<open>MODIFY SETTING\<close> or \<open>RESET SETTING\<close> list, after the keyword.\<close>

fun setting_keys :: "gostring \<Rightarrow> bool \<Rightarrow> bool \<Rightarrow> nat \<Rightarrow> raw_token list \<Rightarrow> engine_error + gostring list" where
  "setting_keys sql reset True depth [] = unparsed_settings sql"
| "setting_keys sql reset False depth [] = Inr []"
| "setting_keys sql reset True depth (t # ts) =
     (let next_type = (case ts of u # _ \<Rightarrow> tk_type u | [] \<Rightarrow> [])
      in if \<not> is_name_tok (tk_type t) \<and> \<not> mutation_probe_keyword_token t then unparsed_settings sql
         else if \<not> setting_name_verbatim t then Inl (SettingNeedsDecoding (tk_source t))
         else if reset \<and> next_type \<noteq> [] \<and> next_type \<noteq> ''COMMA'' \<or> \<not> reset \<and> next_type \<noteq> ''EQ'' then unparsed_settings sql
         else map_sum id ((#) (tk_text t)) (setting_keys sql reset False depth ts))"
| "setting_keys sql reset False depth (t # ts) =
     (if tk_type t = ''L_PAREN'' then setting_keys sql reset False (depth + 1) ts
      else if tk_type t = ''R_PAREN'' then setting_keys sql reset False (depth - 1) ts
      else setting_keys sql reset (tk_type t = ''COMMA'' \<and> depth = 0) depth ts)"

definition is_setting_keyword :: "raw_token \<Rightarrow> bool" where
  "is_setting_keyword t \<longleftrightarrow> equal_fold (tk_text t) ''SETTING'' \<or> equal_fold (tk_text t) ''SETTINGS''"

definition modify_setting_keys :: "engine \<Rightarrow> gostring \<Rightarrow> engine_error + gostring list" where
  "modify_setting_keys e sql =
     (case tokenize_raw e sql of
        Inl err \<Rightarrow> Inl err
      | Inr toks \<Rightarrow>
          (let before = takeWhile (\<lambda>t. \<not> is_setting_keyword t) toks
           in case drop (length before) toks of
                [] \<Rightarrow> Inr []
              | _ # list \<Rightarrow>
                  setting_keys sql (before \<noteq> [] \<and> equal_fold (tk_text (last before)) ''RESET'') True 0 list))"

record create_storage =
  cs_engines :: "(gostring \<times> nat) list"
  cs_settings :: "gostring list"

text \<open>The clauses of the properties in their order; an engine clause without a name is an error.\<close>

fun property_storage :: "json list \<Rightarrow> engine_error + create_storage" where
  "property_storage [] = Inr \<lparr>cs_engines = [], cs_settings = []\<rparr>"
| "property_storage (p # ps) =
     (let engine = field ''engine_property'' p; settings = field ''settings_property'' p; (name, n) = decode_engine_property engine
      in if is_object engine \<and> name = [] then Inl UndecodableEngine
         else map_sum id (\<lambda>s. s\<lparr>cs_engines := (if is_object engine then [(name, n)] else []) @ cs_engines s,
                               cs_settings := (if is_object settings then settings_property_keys settings else []) @ cs_settings s\<rparr>)
                (property_storage ps))"

fun alter_storage :: "engine \<Rightarrow> json list \<Rightarrow> engine_error + gostring list" where
  "alter_storage e [] = Inr []"
| "alter_storage e (a # rest) =
     (let raw = field ''Raw'' a; sql = json_string (field ''sql'' raw); head = to_upper (trim_space sql)
      in if \<not> is_object raw \<or> \<not> has_prefix head ''MODIFY SETTING'' \<and> \<not> has_prefix head ''RESET SETTING''
         then alter_storage e rest
         else case modify_setting_keys e sql of
                Inl err \<Rightarrow> Inl err
              | Inr keys \<Rightarrow> map_sum id ((@) keys) (alter_storage e rest))"

definition nonempty_storage :: "create_storage \<Rightarrow> create_storage option" where
  "nonempty_storage s = (if cs_engines s = [] \<and> cs_settings s = [] then None else Some s)"

definition create_table_storage :: "engine \<Rightarrow> json \<Rightarrow> engine_error + create_storage option" where
  "create_table_storage e ast =
     (case decode_root ast of
        Inl err \<Rightarrow> Inl err
      | Inr tree \<Rightarrow>
          if is_object (field NodeCreateTable tree) then
            map_sum id nonempty_storage (property_storage (elements (field ''properties'' (field NodeCreateTable tree))))
          else if is_object (field NodeCreateView tree) then
            map_sum id nonempty_storage (property_storage (elements (field ''table_properties'' (field NodeCreateView tree))))
          else if is_object (field NodeAlterTable tree) then
            map_sum id (\<lambda>keys. nonempty_storage \<lparr>cs_engines = [], cs_settings = keys\<rparr>)
              (alter_storage e (elements (field ''actions'' (field NodeAlterTable tree))))
          else Inr None)"

section \<open>Wrappers a derived table cannot preserve\<close>

definition has_table_wrapper :: "json \<Rightarrow> bool" where
  "has_table_wrapper tbl \<longleftrightarrow>
     json_bool (field ''final_'' tbl) \<or> field ''table_sample'' tbl \<noteq> JNull \<or> elements (field ''column_aliases'' tbl) \<noteq> []"

definition wrapper_target :: "json \<Rightarrow> seen \<Rightarrow> table_target list" where
  "wrapper_target tree ev =
     (case ev of
        (p, SeenTable wrapped tt) \<Rightarrow>
          (let expr = node_at p tree
           in if has_table_wrapper (if wrapped then field ''table'' expr else expr) then [tt] else [])
      | _ \<Rightarrow> [])"

definition first_table :: "seen list \<Rightarrow> table_target list" where
  "first_table evs = take 1 (concat (map (\<lambda>(_, ev). case ev of SeenTable _ tt \<Rightarrow> [tt] | _ \<Rightarrow> []) evs))"

text \<open>The first table of the \<open>FROM\<close> of one \<open>SELECT\<close> that is sampled as a whole.\<close>

definition sample_target :: "json \<Rightarrow> engine_error + table_target list" where
  "sample_target n =
     (let sel = field NodeSelect n; from = field ''from'' sel
      in if is_object sel \<and> field ''sample'' sel \<noteq> JNull \<and> is_object from
         then map_sum id first_table (walk (Suc (size from)) WalkTableSource no_scope from) else Inr [])"

fun sum_concat :: "(engine_error + 'a list) list \<Rightarrow> engine_error + 'a list" where
  "sum_concat [] = Inr []"
| "sum_concat (r # rs) = (case r of Inl err \<Rightarrow> Inl err | Inr xs \<Rightarrow> map_sum id ((@) xs) (sum_concat rs))"

text \<open>The targets, each once; their order is that of Go's maps, and the caller only asks whether one is protected.\<close>

definition unsupported_table_wrapper_targets :: "json \<Rightarrow> engine_error + table_target list" where
  "unsupported_table_wrapper_targets ast =
     (case decode_root ast of
        Inl err \<Rightarrow> Inl err
      | Inr tree \<Rightarrow>
          (case walk_statement_objects tree of
             Inl err \<Rightarrow> Inl err
           | Inr evs \<Rightarrow>
               map_sum id (\<lambda>sampled. remdups (concat (map (wrapper_target tree) evs) @ sampled))
                 (sum_concat (map sample_target (object_nodes tree)))))"

text \<open>
  The token just before position \<open>i\<close> where the source list of a clause starts, searched backwards: \<open>stop\<close> tells
  the keyword, and a group that is closed on the way is skipped. The tokens after that keyword.
\<close>

fun clause_start :: "(raw_token \<Rightarrow> bool) \<Rightarrow> nat \<Rightarrow> raw_token list \<Rightarrow> raw_token list \<Rightarrow> raw_token list option" where
  "clause_start stop nesting [] after = None"
| "clause_start stop nesting (t # before) after =
     (if tk_text t = '')'' then clause_start stop (nesting + 1) before (t # after)
      else if tk_text t = ''('' \<and> nesting > 0 then clause_start stop (nesting - 1) before (t # after)
      else if nesting = 0 \<and> stop t then Some after
      else clause_start stop nesting before (t # after))"

text \<open>The tables of the modifiers in their order: \<open>before\<close> holds the tokens already read, the last one first.\<close>

fun with_offset_from :: "raw_token list \<Rightarrow> raw_token list \<Rightarrow> table_target list" where
  "with_offset_from before (w # o' # ts) =
     (if tk_type w = ''WITH'' \<and> tk_type o' = ''OFFSET'' then
        (case clause_start (\<lambda>t. tk_type t \<in> {''FROM'', ''JOIN'', ''COMMA''}) 0 before (w # o' # ts) of
           None \<Rightarrow> []
         | Some source \<Rightarrow> (case raw_token_table_target source of Some tt \<Rightarrow> [tt] | None \<Rightarrow> []))
      else []) @ with_offset_from (w # before) (o' # ts)"
| "with_offset_from before _ = []"

definition with_offset_targets :: "engine \<Rightarrow> gostring \<Rightarrow> engine_error + table_target list" where
  "with_offset_targets e sql = map_sum id (with_offset_from []) (tokenize_raw e sql)"

end
