(* ===== verification/Read_Scope.thy ===== *)
theory Read_Scope
  imports Node_Collect
begin

text \<open>
  Two walks of a \<open>SELECT\<close> by query block: whether a column is addressed where it can belong to a protected table
  (\<open>engine/scope.go\<close>), and the promotion of joins and of \<open>IN\<close> to their \<open>GLOBAL\<close> forms where one side is remote
  (\<open>engine/global.go\<close>). Go visits the members of an object in an unspecified order; the order of the value is the
  order here, and \<open>scope_order_matters\<close> of the lemmas shows where it shows through.
\<close>

section \<open>CTE scopes (engine/nodes.go)\<close>

text \<open>\<open>forkCTEScope\<close>: the names bound by a \<open>SELECT\<close> and by the blocks around it.\<close>

definition fork_cte_scope :: "json \<Rightarrow> gostring list \<Rightarrow> gostring list" where
  "fork_cte_scope sel parent =
     parent @ filter (\<lambda>n. n \<noteq> [])
       (map (\<lambda>c. concrete_identifier_name (field ''alias'' c))
         (filter (\<lambda>c. json_bool (field ''alias_first'' c) \<and> cte_body_is_read_query (field ''this'' c))
           (elements (field ''ctes'' (field ''with'' sel)))))"

section \<open>The reserved column (engine/scope.go)\<close>

text \<open>The tables a block reads itself; a nested block is not entered.\<close>

fun block_tables :: "gostring list \<Rightarrow> json \<Rightarrow> table_target list" where
  "block_tables ctes (JObject m) =
     (if has_key m NodeSelect \<or> has_key m ''subquery'' then []
      else let table = field ''table'' (JObject m); tt = decode_table_target table
           in if is_object table \<and> tt_table tt \<noteq> [] then (if tt_db tt = [] \<and> tt_table tt \<in> set ctes then [] else [tt])
              else concat (map (\<lambda>(_, v). block_tables ctes v) m))"
| "block_tables ctes (JArray vs) = concat (map (block_tables ctes) vs)"
| "block_tables ctes _ = []"

text \<open>
  The walk only finds the references and the tables their answer depends on; which tables are protected is asked
  afterwards, in the order of the walk. \<open>Judge\<close> is the question \<open>blockScope\<close> asks of a table it finds, \<open>Reference\<close> a
  mention of the column, with the tables of which one must be protected for it to count.
\<close>

datatype scope_event = Judge table_target | Reference "table_target list"

type_synonym bindings = "(gostring \<times> table_target) list"

definition bind_table :: "table_target \<Rightarrow> bindings \<Rightarrow> bindings" where
  "bind_table tt bs =
     (if tt_alias tt \<noteq> [] then AList.update (tt_alias tt) tt bs
      else if tt_table tt \<noteq> [] then AList.update (tt_table tt) tt bs else bs)"

text \<open>\<open>blockScope\<close>: the qualifiers bound in the block, over those of the enclosing ones.\<close>

definition block_bindings :: "table_target list \<Rightarrow> bindings \<Rightarrow> bindings" where
  "block_bindings tables parent = fold bind_table tables parent"

text \<open>What the answer for one reference depends on: its qualifier's table when that is bound, the block otherwise.\<close>

definition judged :: "bindings \<Rightarrow> table_target list \<Rightarrow> gostring \<Rightarrow> table_target list" where
  "judged bs block qualifier =
     (if qualifier = [] then block
      else case map_of bs qualifier of Some tt \<Rightarrow> [tt] | None \<Rightarrow> block)"

lemma size_member_of: "(k, v) \<in> set (members j) \<Longrightarrow> size v < size j"
  by (cases j) (auto simp: members_def dest: size_list_estimation' [of _ _ _ "size_prod (\<lambda>_. 0) size", OF _ order_refl])

lemma size_members_field: "(k, v) \<in> set (members (field l j)) \<Longrightarrow> size v < size j"
  using size_member_of [of k v "field l j"] size_field_le [of l j] by linarith

function scope_walk :: "gostring \<Rightarrow> bindings \<Rightarrow> table_target list \<Rightarrow> gostring list \<Rightarrow> json \<Rightarrow> scope_event list" where
  "scope_walk name bs block ctes n =
     (if \<not> is_object n then
        (case n of JArray vs \<Rightarrow> concat (map (scope_walk name bs block ctes) vs) | _ \<Rightarrow> [])
      else let fn = field ''function'' n; sel = field NodeSelect n; col = field ''column'' n; dot = field ''dot'' n
           in if is_object fn \<and> query_bodied_table_function (name_of fn) then
                concat (map (\<lambda>(_, v). scope_walk name [] [] [] v) (members fn))
              else if is_object sel then
                (let scope = fork_cte_scope sel ctes; tables = block_tables scope sel; bs' = block_bindings tables bs
                 in map Judge tables @ concat (map (\<lambda>(_, v). scope_walk name bs' tables scope v) (members sel)))
              else if is_object col \<and> ident_name (field ''name'' col) = name then
                [Reference (judged bs block (ident_name (field ''table'' col)))]
              else if is_object dot \<and> ident_name (field ''field'' dot) = name then
                [Reference (judged bs block (ident_name (field ''this'' dot)))]
              else if unqualified_identifier_hit name n then [Reference block]
              else concat (map (\<lambda>(_, v). scope_walk name bs block ctes v) (members n)))"
  by pat_completeness auto
termination
proof (relation "measure (\<lambda>(_, _, _, _, n). size n)", goal_cases)
  case 2
  then show ?case by (auto dest: size_list_estimation' [of _ _ _ size, OF _ order_refl])
qed (auto dest: size_members_field size_member_of)

declare scope_walk.simps [simp del]

text \<open>
  The walk up to the first reference that counts. A table that cannot be decoded counts as unprotected and leaves
  its error, which outranks the answer.
\<close>

fun scope_answer :: "(table_target \<Rightarrow> engine_error + bool) \<Rightarrow> engine_error option \<Rightarrow> scope_event list \<Rightarrow> engine_error + bool" where
  "scope_answer protected err [] = (case err of Some x \<Rightarrow> Inl x | None \<Rightarrow> Inr False)"
| "scope_answer protected err (Judge tt # es) =
     scope_answer protected (case protected tt of Inl x \<Rightarrow> Some x | Inr _ \<Rightarrow> err) es"
| "scope_answer protected err (Reference tables # es) =
     (if list_ex (\<lambda>tt. protected tt = Inr True) tables then (case err of Some x \<Rightarrow> Inl x | None \<Rightarrow> Inr True)
      else scope_answer protected err es)"

definition references_identifier_in_scope ::
    "json \<Rightarrow> gostring \<Rightarrow> (table_target \<Rightarrow> engine_error + bool) \<Rightarrow> engine_error + bool" where
  "references_identifier_in_scope ast name protected =
     (case decode_root ast of
        Inl err \<Rightarrow> Inl err
      | Inr tree \<Rightarrow> scope_answer protected None (scope_walk name [] [] [] tree))"

section \<open>GLOBAL (engine/global.go)\<close>

definition remote_func_names :: "gostring list" where
  "remote_func_names = [''remote'', ''remoteSecure'', ''cluster'', ''clusterAllReplicas'']"

definition subtree_has_remote_source :: "json \<Rightarrow> bool" where
  "subtree_has_remote_source node \<longleftrightarrow>
     list_ex (\<lambda>n. is_object (field ''function'' n) \<and> name_of (field ''function'' n) \<in> set remote_func_names) (object_nodes node)"

definition local_table :: "gostring list \<Rightarrow> json \<Rightarrow> bool" where
  "local_table ctes n \<longleftrightarrow>
     (let tt = decode_table_target (field ''table'' n)
      in is_object (field ''table'' n) \<and> tt_table tt \<noteq> [] \<and> \<not> (tt_db tt = [] \<and> tt_table tt \<in> set ctes))"

definition subtree_has_local_source :: "gostring list \<Rightarrow> json \<Rightarrow> bool" where
  "subtree_has_local_source ctes node \<longleftrightarrow> list_ex (local_table ctes) (object_nodes node)"

definition global_alias :: json where
  "global_alias =
     JObject [(''name'', JString ''GLOBAL''), (''quoted'', JBool False), (''trailing_comments'', no_nodes)]"

text \<open>\<open>markJoinGlobalAt\<close>: the plain table on the left of a join takes the alias, when it has none.\<close>

definition left_table_path :: "nat \<Rightarrow> path" where
  "left_table_path i =
     (if i = 0 then [Key ''from'', Key ''expressions'', Index 0, Key ''table'']
      else [Key ''joins'', Index (i - 1), Key ''this'', Key ''table''])"

definition mark_join_global_at :: "nat \<Rightarrow> json \<Rightarrow> json" where
  "mark_join_global_at i sel =
     (let left = node_at (left_table_path i) sel
      in if \<not> is_object left \<or> field ''alias'' left \<noteq> JNull then sel
         else edit_at (left_table_path i) (put ''alias'' global_alias) sel)"

text \<open>
  The joins where the sources to the left and the source of the join are of different places, from the accumulated
  places of the left. An alias that is set does not change the places.
\<close>

fun asymmetric_joins :: "gostring list \<Rightarrow> bool \<Rightarrow> bool \<Rightarrow> nat \<Rightarrow> json list \<Rightarrow> nat list" where
  "asymmetric_joins ctes accRemote accLocal i [] = []"
| "asymmetric_joins ctes accRemote accLocal i (j # js) =
     (if \<not> is_object j then asymmetric_joins ctes accRemote accLocal (Suc i) js
      else let r = subtree_has_remote_source (field ''this'' j); l = subtree_has_local_source ctes (field ''this'' j)
           in (if accRemote \<and> l \<or> accLocal \<and> r then [i] else []) @
              asymmetric_joins ctes (accRemote \<or> r) (accLocal \<or> l) (Suc i) js)"

definition promote_joins :: "gostring list \<Rightarrow> json \<Rightarrow> json" where
  "promote_joins ctes sel =
     (let from = field ''from'' sel; joins = elements (field ''joins'' sel); exprs = elements (field ''expressions'' from)
      in if \<not> is_object from \<or> joins = [] then sel
         else fold mark_join_global_at
                (asymmetric_joins ctes (list_ex subtree_has_remote_source exprs) (list_ex (subtree_has_local_source ctes) exprs) 0 joins)
                sel)"

definition in_reads_local :: "gostring list \<Rightarrow> json \<Rightarrow> bool" where
  "in_reads_local ctes inNode \<longleftrightarrow>
     is_object inNode \<and>
     (list_ex (subtree_has_local_source ctes) (elements (field ''expressions'' inNode)) \<or>
      subtree_has_local_source ctes (field ''query'' inNode))"

fun global_in_walk :: "gostring list \<Rightarrow> json \<Rightarrow> json" where
  "global_in_walk ctes (JObject m) =
     (if has_key m NodeSelect then JObject m
      else JObject (map (\<lambda>(k, v).
             (k, if k = ''in'' \<and> in_reads_local ctes v then put ''global'' (JBool True) (global_in_walk ctes v)
                 else global_in_walk ctes v)) m))"
| "global_in_walk ctes (JArray vs) = JArray (map (global_in_walk ctes) vs)"
| "global_in_walk ctes j = j"

definition promote_ins :: "gostring list \<Rightarrow> json \<Rightarrow> json" where
  "promote_ins ctes sel =
     (if \<not> subtree_has_remote_source (field ''from'' sel) \<and> \<not> subtree_has_remote_source (field ''joins'' sel) then sel
      else JObject (map (\<lambda>(k, v). (k, if k \<in> {''from'', ''joins'', ''with''} then v else global_in_walk ctes v)) (members sel)))"

function global_walk :: "gostring list \<Rightarrow> json \<Rightarrow> json" where
  "global_walk ctes n =
     (case n of
        JArray vs \<Rightarrow> JArray (map (global_walk ctes) vs)
      | JObject m \<Rightarrow>
          (let sel = field NodeSelect n; fn = field ''function'' n
           in if is_object sel then
                (let scope = fork_cte_scope sel ctes
                 in set_child (Key NodeSelect)
                      (promote_ins scope (promote_joins scope (JObject (map (\<lambda>(k, v). (k, global_walk scope v)) (members sel))))) n)
              else if is_object fn \<and> query_bodied_table_function (name_of fn) then
                set_child (Key ''function'') (JObject (map (\<lambda>(k, v). (k, global_walk [] v)) (members fn))) n
              else JObject (map (\<lambda>(k, v). (k, global_walk ctes v)) m))
      | _ \<Rightarrow> n)"
  by pat_completeness auto
termination
proof (relation "measure (\<lambda>(_, n). size n)", goal_cases)
  case 2
  then show ?case by (auto dest: size_list_estimation' [of _ _ _ size, OF _ order_refl])
next
  case 5
  then show ?case using size_member_of by (fastforce simp: members_def)
qed (auto dest: size_members_field)

declare global_walk.simps [simp del]

definition force_global_for_remote_asymmetry :: "json \<Rightarrow> engine_error + json" where
  "force_global_for_remote_asymmetry ast = map_sum id (global_walk []) (decode_root ast)"

end
