(* ===== verification/Scope_Facts.thy ===== *)
theory Scope_Facts
  imports Read_Scope
begin

text \<open>
  Which references to a reserved column count, and where the order in which Go visits the members of an object shows
  through the answer.
\<close>

lemma scope_answer_Inr:
  "scope_answer (\<lambda>tt. Inr (P tt)) None evs = Inr (\<exists>tables. Reference tables \<in> set evs \<and> list_ex P tables)"
proof (induction evs)
  case (Cons ev evs)
  have "list_ex (\<lambda>tt. (Inr (P tt) :: engine_error + bool) = Inr True) tables = list_ex P tables" for tables by simp
  then show ?case using Cons by (cases ev) auto
qed simp

text \<open>
  A reference counts exactly when one of the tables it can belong to is protected: the table its qualifier is bound
  to, or any table of its own query block.
\<close>

lemma references_iff_protected:
  "decode_root ast = Inr tree \<Longrightarrow>
     references_identifier_in_scope ast name (\<lambda>tt. Inr (P tt)) =
       Inr (\<exists>tables. Reference tables \<in> set (scope_walk name [] [] [] tree) \<and> list_ex P tables)"
  by (simp add: references_identifier_in_scope_def scope_answer_Inr)

lemma unqualified_any: "judged bs block [] = block"
  by (simp add: judged_def)

lemma qualified_own: "q \<noteq> [] \<Longrightarrow> map_of bs q = Some tt \<Longrightarrow> judged bs block q = [tt]"
  by (simp add: judged_def)

section \<open>Two tables with one name\<close>

definition twin_table :: "gostring \<Rightarrow> json" where
  "twin_table db = JObject [(''table'', JObject [(''name'', ident ''events''), (''schema'', ident db)])]"

definition twin_from :: "gostring \<times> json" where
  "twin_from = (''from'', JObject [(''expressions'', JArray [twin_table ''db1''])])"

definition twin_joins :: "gostring \<times> json" where
  "twin_joins = (''joins'', JArray [JObject [(''this'', twin_table ''db2'')]])"

definition twin_column :: "gostring \<times> json" where
  "twin_column =
     (''expressions'', JArray [JObject [(''column'', JObject [(''name'', ident ''_row''), (''table'', ident ''events'')])]])"

text \<open>
  The same object with its members in two orders, which Go does not distinguish: the qualifier is bound to the table
  visited last, so a reference to the reserved column of the protected \<open>db1.events\<close> counts or does not.
\<close>

lemma scope_order_matters:
  "references_identifier_in_scope (JObject [(''select'', JObject [twin_from, twin_joins, twin_column])]) ''_row''
      (\<lambda>tt. Inr (tt_db tt = ''db1'')) = Inr False"
  "references_identifier_in_scope (JObject [(''select'', JObject [twin_joins, twin_from, twin_column])]) ''_row''
      (\<lambda>tt. Inr (tt_db tt = ''db1'')) = Inr True"
  by code_simp+

end
