(* ===== verification/References.thy ===== *)
theory References
  imports Node_Collect Object_Target Lexeme
begin

text \<open>
  Every database and every object a statement names (\<open>engine/references.go\<close>, \<open>engine/systemrefs.go\<close>): the write
  targets, the reads of the object walk, the qualified names of opaque text and the arguments of the string lookups
  (\<open>joinGet\<close>, \<open>dictGet\<close> and \<open>hasColumnInTable\<close> families), in the order of the source; and the rewrite of a
  lookup's arguments.
\<close>

definition dedup :: "'a list \<Rightarrow> 'a list" where
  "dedup xs = rev (remdups (rev xs))"

lemma set_dedup [simp]: "set (dedup xs) = set xs"
  by (simp add: dedup_def)

section \<open>String lookups\<close>

definition unwrap_quoted :: "gostring \<Rightarrow> gostring" where
  "unwrap_quoted s =
     (if length s \<ge> 2 \<and> (hd s = CHR 0x60 \<and> last s = CHR 0x60 \<or> hd s = CHR 0x22 \<and> last s = CHR 0x22)
      then butlast (tl s) else s)"

definition is_has_column_in_table :: "gostring \<Rightarrow> bool" where
  "is_has_column_in_table name \<longleftrightarrow> has_prefix (to_lower name) ''hascolumnintable''"

text \<open>The argument at a distance from the end.\<close>

definition arg_from_end :: "nat \<Rightarrow> 'a list \<Rightarrow> 'a" where
  "arg_from_end n args = args ! (length args - n)"

definition string_lookup_database :: "gostring \<Rightarrow> gostring \<Rightarrow> gostring option" where
  "string_lookup_database name literal =
     (if is_has_column_in_table name then (let db = unwrap_quoted literal in if db \<noteq> [] then Some db else None)
      else case index_byte literal CHR ''.'' of
             None \<Rightarrow> None
           | Some i \<Rightarrow> (let db = unwrap_quoted (take i literal) in if db \<noteq> [] then Some db else None))"

definition string_lookup_arg_database :: "gostring \<Rightarrow> json list \<Rightarrow> gostring option" where
  "string_lookup_arg_database name args =
     (let has = is_has_column_in_table name
      in if has \<and> length args < 3 \<or> args = [] then None
         else let arg = (if has then arg_from_end 3 args else hd args)
              in case qualified_column_arg_target arg of
                   Some target \<Rightarrow> if tt_db target \<noteq> [] then Some (tt_db target) else None
                 | None \<Rightarrow>
                     (case table_function_arg_value arg of
                        (v, origin, ok) \<Rightarrow> if ok \<and> origin = OriginLiteral then string_lookup_database name v else None))"

definition node_lookup_database :: "json \<Rightarrow> gostring list" where
  "node_lookup_database n =
     (let fn = field ''function'' n; name = function_name fn
      in if is_object fn \<and> is_string_lookup name then
           (case string_lookup_arg_database name (elements (field ''args'' fn)) of Some db \<Rightarrow> [db] | None \<Rightarrow> [])
         else [])"

text \<open>The databases of the lookups of a value; Go visits the members of an object in any order.\<close>

definition collect_string_lookup_databases :: "json \<Rightarrow> gostring list" where
  "collect_string_lookup_databases tree = concat (map node_lookup_database (object_nodes tree))"

record string_lookup =
  sl_function :: gostring
  sl_arg :: gostring
  sl_db :: gostring
  sl_table :: gostring
  sl_literal :: bool
  sl_in_select :: bool

definition unresolved_lookup :: "gostring \<Rightarrow> string_lookup" where
  "unresolved_lookup name =
     \<lparr>sl_function = name, sl_arg = [], sl_db = [], sl_table = [], sl_literal = False, sl_in_select = False\<rparr>"

definition literal_string_arg :: "json \<Rightarrow> gostring option" where
  "literal_string_arg arg =
     (if is_object (field ''literal'' arg) then
        (case decode_string_literal_value (field ''literal'' arg) of (v, ok) \<Rightarrow> if ok then Some v else None)
      else None)"

definition pair_lookup :: "gostring \<Rightarrow> gostring \<Rightarrow> gostring \<Rightarrow> string_lookup" where
  "pair_lookup name db table =
     (unresolved_lookup name)\<lparr>sl_arg := db @ ''.'' @ table, sl_db := db, sl_table := table, sl_literal := True\<rparr>"

definition decode_string_lookup_call :: "gostring \<Rightarrow> json list \<Rightarrow> string_lookup" where
  "decode_string_lookup_call name args =
     (if is_has_column_in_table name then
        (if length args < 3 then unresolved_lookup name
         else case (literal_string_arg (arg_from_end 3 args), literal_string_arg (arg_from_end 2 args)) of
                (Some db, Some table) \<Rightarrow> pair_lookup name db table
              | _ \<Rightarrow> unresolved_lookup name)
      else case table_function_arg_value (hd args) of
             (v, origin, ok) \<Rightarrow>
               if ok then (unresolved_lookup name)\<lparr>sl_arg := v, sl_literal := (origin = OriginLiteral)\<rparr>
               else unresolved_lookup name)"

section \<open>The walk of the lookups\<close>

definition string_lookup_clause_order :: "(gostring \<times> nat) list" where
  "string_lookup_clause_order =
     zip [''with'', ''expressions'', ''from'', ''joins'', ''where_clause'', ''group_by'', ''having'', ''qualify'', ''windows'',
          ''order_by'', ''sort_by'', ''distribute_by'', ''cluster_by'', ''limit'', ''offset'', ''sample'', ''top'',
          ''distinct_on'', ''fetch'', ''into'', ''hint'', ''lateral_views'', ''connect'', ''locks''] [0..<24]"

text \<open>The clauses by their rank, then every other key in alphabetical order.\<close>

definition walk_rank :: "gostring \<Rightarrow> gostring list" where
  "walk_rank k =
     (case map_of string_lookup_clause_order k of
        Some r \<Rightarrow> [[char_of r]] | None \<Rightarrow> [[char_of (24 :: nat)], k])"

definition lookup_order :: "(gostring \<times> 'a) list \<Rightarrow> (gostring \<times> 'a) list" where
  "lookup_order m = sort_key (walk_rank \<circ> fst) m"

definition own_lookup :: "bool \<Rightarrow> json \<Rightarrow> (path \<times> string_lookup) list" where
  "own_lookup inside n =
     (let fn = field ''function'' n; name = function_name fn; args = elements (field ''args'' fn)
      in if is_object fn \<and> is_string_lookup name \<and> args \<noteq> []
         then [([Key ''function''], (decode_string_lookup_call name args)\<lparr>sl_in_select := inside\<rparr>)] else [])"

definition under :: "path_step \<Rightarrow> (path \<times> 'a) list \<Rightarrow> (path \<times> 'a) list" where
  "under s = map (\<lambda>(p, x). (s # p, x))"

text \<open>The member \<open>elevated\<close> of this object is the body of a \<open>SELECT\<close> the pipeline rewrites, and so is all below it.\<close>

fun lookups_in :: "bool \<Rightarrow> gostring \<Rightarrow> json \<Rightarrow> (path \<times> string_lookup) list" where
  "lookups_in inside elevated (JObject m) =
     own_lookup inside (JObject m) @
     concat (map (\<lambda>(k, occ). under (Key k) occ)
       (lookup_order (map (\<lambda>(k, v). (k, lookups_in (inside \<or> k = elevated) [] v)) m)))"
| "lookups_in inside elevated (JArray vs) =
     concat (map (\<lambda>(i, occ). under (Index i) occ) (enumerate 0 (map (lookups_in inside []) vs)))"
| "lookups_in inside elevated _ = []"

definition select_body_root_field :: "gostring \<Rightarrow> json \<Rightarrow> gostring" where
  "select_body_root_field kind body =
     (let k = (if kind = NodeInsert \<or> kind = NodeCreateView then ''query''
               else if kind = NodeCreateTable then ''as_select'' else [])
      in if k \<noteq> [] \<and> is_object (field k body) \<and> is_read_body (fst (subquery_shells (field k body))) then k else [])"

definition string_lookup_occurrences :: "json \<Rightarrow> (path \<times> string_lookup) list" where
  "string_lookup_occurrences tree =
     (case members tree of
        [(kind, body)] \<Rightarrow>
          under (Key kind)
            (if kind \<in> set query_kinds then lookups_in True [] body
             else lookups_in False (select_body_root_field kind body) body)
      | _ \<Rightarrow> lookups_in False [] tree)"

definition string_lookup_calls :: "json \<Rightarrow> string_lookup list" where
  "string_lookup_calls ast = map snd (string_lookup_occurrences ast)"

text \<open>\<open>RewriteStringLookups\<close>: the accepted calls take their new arguments; the callback keeps a state.\<close>

definition apply_string_lookup_replacement :: "gostring \<Rightarrow> json list \<Rightarrow> gostring \<Rightarrow> json list" where
  "apply_string_lookup_replacement name args replacement =
     (if is_has_column_in_table name then
        (if length args < 3 then args
         else let (db, table) = (case index_byte replacement CHR ''.'' of
                                   Some i \<Rightarrow> (take i replacement, drop (i + 1) replacement) | None \<Rightarrow> (replacement, []))
              in args[length args - 3 := lit_str db, length args - 2 := lit_str table])
      else if args \<noteq> [] then args[0 := lit_str replacement] else args)"

fun rewrite_occurrences ::
    "('s \<Rightarrow> string_lookup \<Rightarrow> gostring option \<times> 's) \<Rightarrow> json \<Rightarrow> (path \<times> string_lookup) list \<Rightarrow> json \<Rightarrow> 's \<Rightarrow> json \<times> 's" where
  "rewrite_occurrences decide orig [] tree s = (tree, s)"
| "rewrite_occurrences decide orig ((p, call) # occ) tree s =
     (case decide s call of
        (None, s') \<Rightarrow> rewrite_occurrences decide orig occ tree s'
      | (Some replacement, s') \<Rightarrow>
          (let args = elements (field ''args'' (node_at p orig))
           in rewrite_occurrences decide orig occ
                (edit_at p (put ''args'' (JArray (apply_string_lookup_replacement (sl_function call) args replacement))) tree) s'))"

definition rewrite_string_lookup_calls ::
    "('s \<Rightarrow> string_lookup \<Rightarrow> gostring option \<times> 's) \<Rightarrow> json \<Rightarrow> 's \<Rightarrow> json \<times> 's" where
  "rewrite_string_lookup_calls decide ast s =
     rewrite_occurrences decide ast (string_lookup_occurrences ast) ast s"

section \<open>Lookups in raw text\<close>

text \<open>The top-level arguments of a call, from the token after its bracket; \<open>None\<close> when it never closes.\<close>

fun raw_call_arg_groups :: "nat \<Rightarrow> raw_token list \<Rightarrow> raw_token list \<Rightarrow> raw_token list list option" where
  "raw_call_arg_groups depth grp [] = None"
| "raw_call_arg_groups depth grp (t # ts) =
     (if tk_type t = ''L_PAREN'' then raw_call_arg_groups (depth + 1) (grp @ [t]) ts
      else if tk_type t = ''R_PAREN'' then
        (if depth = 0 then Some [grp] else raw_call_arg_groups (depth - 1) (grp @ [t]) ts)
      else if tk_type t = ''COMMA'' \<and> depth = 0 then map_option ((#) grp) (raw_call_arg_groups 0 [] ts)
      else raw_call_arg_groups depth (grp @ [t]) ts)"

definition raw_string_arg :: "raw_token list \<Rightarrow> gostring option" where
  "raw_string_arg grp = (case grp of [t] \<Rightarrow> if tk_type t = ''STRING'' then Some (tk_text t) else None | _ \<Rightarrow> None)"

fun raw_qualified_name_arg :: "raw_token list \<Rightarrow> gostring option" where
  "raw_qualified_name_arg [] = None"
| "raw_qualified_name_arg [t] = (if is_name_tok (tk_type t) then Some (tk_text t) else None)"
| "raw_qualified_name_arg (t # d # ts) =
     (if is_name_tok (tk_type t) \<and> tk_type d = ''DOT''
      then map_option (\<lambda>rest. tk_text t @ ''.'' @ rest) (raw_qualified_name_arg ts) else None)"

definition raw_lookup :: "gostring \<Rightarrow> raw_token list list \<Rightarrow> string_lookup" where
  "raw_lookup name groups =
     (if is_has_column_in_table name then
        (if length groups < 3 then unresolved_lookup name
         else case (raw_string_arg (arg_from_end 3 groups), raw_string_arg (arg_from_end 2 groups)) of
                (Some db, Some table) \<Rightarrow> pair_lookup name db table
              | _ \<Rightarrow> unresolved_lookup name)
      else case groups of
             [] \<Rightarrow> unresolved_lookup name
           | g # _ \<Rightarrow>
               (case raw_string_arg g of
                  Some v \<Rightarrow> (unresolved_lookup name)\<lparr>sl_arg := v, sl_literal := True\<rparr>
                | None \<Rightarrow>
                    (case raw_qualified_name_arg g of
                       Some v \<Rightarrow> (unresolved_lookup name)\<lparr>sl_arg := v\<rparr> | None \<Rightarrow> unresolved_lookup name)))"

fun lookup_calls_in_raw_tokens :: "raw_token list \<Rightarrow> string_lookup list" where
  "lookup_calls_in_raw_tokens (t # p # ts) =
     (if tk_type t \<noteq> ''STRING'' \<and> is_string_lookup (tk_text t) \<and> tk_type p = ''L_PAREN'' then
        [case raw_call_arg_groups 0 [] ts of
           Some groups \<Rightarrow> raw_lookup (tk_text t) groups | None \<Rightarrow> unresolved_lookup (tk_text t)]
      else []) @ lookup_calls_in_raw_tokens (p # ts)"
| "lookup_calls_in_raw_tokens _ = []"

record command_text_findings =
  cf_lookup_calls :: "string_lookup list"
  cf_target_call :: "(object_verb \<times> gostring \<times> gostring list) option"

definition collect_command_text_findings :: "engine \<Rightarrow> gostring \<Rightarrow> command_text_findings option" where
  "collect_command_text_findings e sql =
     (case tokenize_raw e sql of
        Inl _ \<Rightarrow> None
      | Inr toks \<Rightarrow> Some \<lparr>cf_lookup_calls = lookup_calls_in_raw_tokens toks, cf_target_call = object_target_call toks\<rparr>)"

fun raw_action_texts :: "json \<Rightarrow> gostring list" where
  "raw_action_texts (JObject m) =
     (case raw_action_text (JObject m) of Some sql \<Rightarrow> [sql] | None \<Rightarrow> []) @
     concat (map snd (sorted_members (map (\<lambda>(k, v). (k, raw_action_texts v)) m)))"
| "raw_action_texts (JArray vs) = concat (map raw_action_texts vs)"
| "raw_action_texts _ = []"

definition collect_raw_action_string_lookup_calls :: "engine \<Rightarrow> json \<Rightarrow> gostring \<Rightarrow> string_lookup list option" where
  "collect_raw_action_string_lookup_calls e ast sql =
     (case view_column_list_raw_texts e ast sql of
        Inl _ \<Rightarrow> None
      | Inr view \<Rightarrow>
          (case sum_concat (map (\<lambda>text'. map_sum id lookup_calls_in_raw_tokens (tokenize_raw e text')) (raw_action_texts ast @ view)) of
             Inl _ \<Rightarrow> None
           | Inr calls \<Rightarrow> Some calls))"

section \<open>The databases a statement names\<close>

text \<open>The opaque texts of a statement, with the query an \<open>INSERT\<close> keeps as text.\<close>

definition opaque_texts :: "engine \<Rightarrow> json \<Rightarrow> gostring \<Rightarrow> engine_error + gostring list" where
  "opaque_texts e ast sql =
     (case opaque_statement_texts e ast sql of
        Inl err \<Rightarrow> Inl err
      | Inr texts \<Rightarrow>
          map_sum id (\<lambda>query. texts @ (case query of Some t \<Rightarrow> [t] | None \<Rightarrow> [])) (opaque_insert_query_text ast))"

definition opaque_alter_databases :: "engine \<Rightarrow> json \<Rightarrow> gostring \<Rightarrow> engine_error + gostring list" where
  "opaque_alter_databases e ast sql =
     (case opaque_texts e ast sql of
        Inl err \<Rightarrow> Inl err
      | Inr texts \<Rightarrow>
          sum_concat (map (\<lambda>t. case opaque_text_databases e t of Some dbs \<Rightarrow> Inr dbs | None \<Rightarrow> Inl OpaqueUntokenized) texts))"

definition sum_list_or_empty :: "engine_error + 'a list \<Rightarrow> 'a list" where
  "sum_list_or_empty r = (case r of Inr xs \<Rightarrow> xs | Inl _ \<Rightarrow> [])"

text \<open>A command: what its own parsers name; one that fails names nothing.\<close>

definition command_databases :: "engine \<Rightarrow> json \<Rightarrow> gostring \<Rightarrow> gostring list" where
  "command_databases e ast sql =
     sum_list_or_empty (map_sum id (\<lambda>info. dl_db info # show_body_databases e info sql)
       (parse_db_level collect_select_tables e sql)) @
     sum_list_or_empty (map_sum id (\<lambda>t. [if ob_type t = ''DATABASE'' then ob_table t else ob_db t]) (parse_object_target e sql)) @
     sum_list_or_empty (map_sum id (\<lambda>(raw, _). map tt_db raw) (raw_table_refs e ast))"

definition event_database :: "read_event \<Rightarrow> gostring list" where
  "event_database ev =
     (case ev of
        SeenTable _ tt \<Rightarrow> [tt_db tt]
      | SeenInTable d \<Rightarrow> [tt_db (nr_target (rd_ref d))]
      | SeenNamespace d \<Rightarrow> [tt_db (nr_target (rd_ref d))]
      | _ \<Rightarrow> [])"

definition statement_databases :: "engine \<Rightarrow> json \<Rightarrow> engine_error + gostring list" where
  "statement_databases e ast =
     (case all_write_targets collect_table_function_targets e ast of
        Inl err \<Rightarrow> Inl err
      | Inr targets \<Rightarrow> map_sum id ((@) (map tt_db targets)) (collect event_database ast))"

text \<open>
  \<open>CollectDatabaseReferenceSets\<close>: every database, and those named only where no storage-integrity handler reads a
  table reference.
\<close>

definition collect_database_reference_sets ::
    "engine \<Rightarrow> json \<Rightarrow> gostring \<Rightarrow> engine_error + gostring list \<times> gostring list" where
  "collect_database_reference_sets e ast sql =
     (case node_kind ast of
        Inl err \<Rightarrow> Inl err
      | Inr kind \<Rightarrow>
          (let named = (if kind = NodeCommand then Inr (command_databases e ast sql) else statement_databases e ast);
               blind = (if kind = NodeCommand then [] else collect_string_lookup_databases ast);
               known = (\<lambda>dbs. dedup (filter (\<lambda>db. db \<noteq> []) dbs))
           in case named of
                Inl err \<Rightarrow> Inl err
              | Inr dbs \<Rightarrow>
                  map_sum id (\<lambda>opaque. (known (dbs @ opaque @ blind), known blind)) (opaque_alter_databases e ast sql)))"

section \<open>The objects a statement names (engine/systemrefs.go)\<close>

definition clickhouse_identifier_value :: "gostring \<Rightarrow> gostring" where
  "clickhouse_identifier_value name =
     (if CHR 0x5C \<notin> set name then name
      else case clickhouse_unquote ([CHR 0x60] @ double_byte CHR 0x60 name @ [CHR 0x60]) of Some v \<Rightarrow> v | None \<Rightarrow> name)"

text \<open>A token read as a name from its source bytes.\<close>

definition source_name_value :: "gostring \<Rightarrow> raw_token \<Rightarrow> gostring option" where
  "source_name_value sql tok =
     (let raw = substring (tk_start tok) (tk_end tok) sql
      in if tk_end tok > length sql \<or> tk_start tok \<ge> tk_end tok then None
         else if hd raw = CHR 0x60 \<or> hd raw = CHR 0x22 then clickhouse_unquote raw
         else if has_prefix raw left_double_quote then unicode_quoted raw left_double_quote right_double_quote
         else if bare_identifier_byte (hd raw) \<and>
                 list_all (\<lambda>c. bare_identifier_byte c \<or> is_digit_byte c \<or> c = CHR ''$'') (tl raw) then Some raw
         else None)"

definition found_object :: "gostring \<Rightarrow> gostring \<Rightarrow> bool \<Rightarrow> object_ref" where
  "found_object db table exact = \<lparr>or_db = db, or_table = table, or_exact = exact\<rparr>"

text \<open>The last part of a run of three parts or more, from the tokens after its second part.\<close>

fun longer_run :: "gostring \<Rightarrow> gostring \<Rightarrow> raw_token list \<Rightarrow> object_ref list" where
  "longer_run sql db (d # n # ts) =
     (if tk_type d \<noteq> ''DOT'' then []
      else case source_name_value sql n of
             None \<Rightarrow> [found_object db (tk_text n) False]
           | Some part \<Rightarrow>
               (case ts of
                  u # _ \<Rightarrow> if tk_type u = ''DOT'' then longer_run sql db ts else [found_object db part True]
                | [] \<Rightarrow> [found_object db part True]))"
| "longer_run sql db _ = []"

definition source_run :: "gostring \<Rightarrow> raw_token \<Rightarrow> raw_token list \<Rightarrow> object_ref list" where
  "source_run sql t rest =
     (case source_name_value sql t of
        None \<Rightarrow> []
      | Some db \<Rightarrow>
          (case rest of
             [] \<Rightarrow> [found_object db [] False]
           | u # us \<Rightarrow>
               (case source_name_value sql u of
                  Some table \<Rightarrow> longer_run sql db us @ [found_object db table True]
                | None \<Rightarrow> [found_object db (tk_text u) False])))"

fun source_runs_from :: "gostring \<Rightarrow> bool \<Rightarrow> raw_token list \<Rightarrow> object_ref list" where
  "source_runs_from sql after_dot (t # d # ts) =
     (if tk_type d = ''DOT'' \<and> \<not> after_dot then source_run sql t ts else []) @
     source_runs_from sql (tk_type t = ''DOT'') (d # ts)"
| "source_runs_from sql after_dot _ = []"

definition qualified_source_runs :: "engine \<Rightarrow> gostring \<Rightarrow> engine_error + object_ref list" where
  "qualified_source_runs e sql =
     (case tokenize_raw e sql of Inl _ \<Rightarrow> Inl OpaqueUntokenized | Inr toks \<Rightarrow> Inr (source_runs_from sql False toks))"

definition target_object :: "table_target \<Rightarrow> object_ref list" where
  "target_object tt =
     (if tt_table tt = [] then []
      else [found_object (clickhouse_identifier_value (tt_db tt)) (clickhouse_identifier_value (tt_table tt)) True])"

definition named_table :: "gostring \<Rightarrow> gostring \<Rightarrow> table_target" where
  "named_table db table = no_target\<lparr>tt_db := db, tt_table := table\<rparr>"

definition command_objects :: "engine \<Rightarrow> gostring \<Rightarrow> object_ref list" where
  "command_objects e sql =
     (case parse_db_level collect_select_tables e sql of
        Inl _ \<Rightarrow> []
      | Inr info \<Rightarrow>
          if dl_kind info = DBShow \<and> is_show_table_target_kind (dl_show_what info) \<and> dl_has_table info \<and> dl_table_resolved info
          then target_object (named_table (dl_db info) (dl_table info)) else []) @
     (case parse_object_target e sql of
        Inl _ \<Rightarrow> []
      | Inr t \<Rightarrow>
          if ob_verb t \<noteq> VerbNone \<and> ob_type t \<noteq> ''DATABASE'' \<and> ob_shape t = ObjectTargetName \<and> ob_db t = []
          then target_object (named_table [] (ob_table t)) else [])"

text \<open>A namespace carrier: a pattern or an unknown name is never exact.\<close>

definition namespace_object :: "ref_detail \<Rightarrow> object_ref list" where
  "namespace_object d =
     (let ref = rd_ref d; target = nr_target ref; table = tt_table target;
          exact = (nr_resolved ref \<and> table \<noteq> [] \<and> \<not> equal_fold (nr_name ref) ''merge'')
      in if tt_db target = [] \<and> \<not> nr_current_database ref then
           (if nr_source ref = NamespaceInTable then target_object target else [])
         else [found_object (clickhouse_identifier_value (tt_db target))
                 (if exact then clickhouse_identifier_value table else table) exact])"

definition event_object :: "read_event \<Rightarrow> object_ref list" where
  "event_object ev =
     (case ev of
        SeenTable _ tt \<Rightarrow> target_object tt
      | SeenInTable d \<Rightarrow> namespace_object d
      | SeenNamespace d \<Rightarrow> namespace_object d
      | _ \<Rightarrow> [])"

definition lookup_object :: "string_lookup \<Rightarrow> object_ref list" where
  "lookup_object call =
     (if sl_db call \<noteq> [] \<or> sl_table call \<noteq> [] then target_object (named_table (sl_db call) (sl_table call))
      else case index_byte (sl_arg call) CHR ''.'' of
             Some (Suc i) \<Rightarrow>
               target_object (named_table (unwrap_quoted (take (Suc i) (sl_arg call))) (unwrap_quoted (drop (i + 2) (sl_arg call))))
           | _ \<Rightarrow> [])"

definition statement_objects :: "engine \<Rightarrow> json \<Rightarrow> gostring \<Rightarrow> engine_error + object_ref list" where
  "statement_objects e ast sql =
     (case all_write_targets collect_table_function_targets e ast of
        Inl err \<Rightarrow> Inl err
      | Inr targets \<Rightarrow>
          (case collect event_object ast of
             Inl err \<Rightarrow> Inl err
           | Inr reads \<Rightarrow>
               (case opaque_texts e ast sql of
                  Inl err \<Rightarrow> Inl err
                | Inr texts \<Rightarrow>
                    map_sum id (\<lambda>runs. concat (map target_object targets) @ reads @ runs @
                                       concat (map lookup_object (string_lookup_calls ast)))
                      (sum_concat (map (qualified_source_runs e) texts)))))"

definition collect_object_refs :: "engine \<Rightarrow> json \<Rightarrow> gostring \<Rightarrow> engine_error + object_ref list" where
  "collect_object_refs e ast sql =
     (case node_kind ast of
        Inl err \<Rightarrow> Inl err
      | Inr kind \<Rightarrow>
          if kind = NodeCommand then map_sum id (\<lambda>runs. runs @ command_objects e sql) (qualified_source_runs e sql)
          else statement_objects e ast sql)"

end
