(* ===== verification/Preflight.thy ===== *)
theory Preflight
  imports References Grant
begin

text \<open>
  The preflight of \<open>handlers/preflight.go\<close>, which every statement of a dynamic request passes before a handler runs:
  parameters in a table position, commands no handler models, protected databases, system tables, the lists of
  table functions, engines and settings, the text of a command, the string lookups, and the reads in positions no
  pipeline rewrites. The scans it uses of \<open>engine/parameters.go\<close> and \<open>engine/ungoverned.go\<close> come first.
\<close>

section \<open>Positions (engine/parameters.go, engine/ungoverned.go)\<close>

definition parameter_in_walk :: "json \<Rightarrow> engine_error + bool" where
  "parameter_in_walk ast = map_sum id (list_ex (\<lambda>(_, ev). ev = SeenParameter)) (walk_statement_objects ast)"

definition parameter_in_texts :: "engine \<Rightarrow> json \<Rightarrow> gostring \<Rightarrow> engine_error + bool" where
  "parameter_in_texts e ast sql =
     (case opaque_texts e ast sql of
        Inl err \<Rightarrow> Inl err
      | Inr texts \<Rightarrow>
          if list_ex (identifier_parameter_in_text e) texts then Inr True
          else map_sum id wi_parameter_target (inspect_write ast))"

definition table_position_parameter :: "engine \<Rightarrow> json \<Rightarrow> gostring \<Rightarrow> engine_error + bool" where
  "table_position_parameter e ast sql =
     (case node_kind ast of
        Inl err \<Rightarrow> Inl err
      | Inr kind \<Rightarrow>
          if kind = NodeCommand then Inr (identifier_parameter_in_text e sql)
          else if kind = NodeCreateDB \<or> kind = NodeDropDB then
            map_sum id (\<lambda>(db, _, _). db = [] \<or> looks_like_unresolved_identifier_name db) (database_target ast)
          else case parameter_in_walk ast of
                 Inl err \<Rightarrow> Inl err
               | Inr True \<Rightarrow> Inr True
               | Inr False \<Rightarrow> parameter_in_texts e ast sql)"

text \<open>The storage properties whose expressions are scanned; a dictionary source is the namespace policy's.\<close>

definition storage_expression_properties :: "json \<Rightarrow> json" where
  "storage_expression_properties node =
     JArray (filter (\<lambda>p. is_object p \<and> \<not> has_key (members p) ''dict_property'') (elements node))"

definition generic_events :: "json list \<Rightarrow> engine_error + seen list" where
  "generic_events nodes = walk (Suc (size (JArray nodes))) WalkGeneric unbound_scope (JArray nodes)"

definition body_events :: "json \<Rightarrow> walk_item list \<Rightarrow> engine_error + seen list" where
  "body_events tree = run_items (\<lambda>r sc p. walk (Suc (size tree)) r sc (node_at p tree))"

definition expression_position_events :: "json \<Rightarrow> engine_error + seen list" where
  "expression_position_events tree =
     (let is = (\<lambda>k. is_object (field k tree)); part = (\<lambda>k l. field l (field k tree))
      in if is NodeUpdate then body_events tree (update_items [Key NodeUpdate] (field NodeUpdate tree))
         else if is NodeDelete then body_events tree (delete_items [Key NodeDelete] (field NodeDelete tree))
         else if is NodeInsert then
           walk (Suc (size tree)) WalkGeneric unbound_scope (part NodeInsert ''values'')
         else if is NodeCreateTable then
           generic_events [part NodeCreateTable ''columns'', part NodeCreateTable ''constraints'',
             storage_expression_properties (part NodeCreateTable ''properties''),
             storage_expression_properties (part NodeCreateTable ''post_table_properties'')]
         else if is NodeCreateView then
           generic_events [part NodeCreateView ''columns'', part NodeCreateView ''schema'',
             storage_expression_properties (part NodeCreateView ''table_properties'')]
         else if is NodeAlterTable then generic_events [part NodeAlterTable ''actions'', part NodeAlterTable ''partition'']
         else Inr [])"

definition expression_position_has_reads :: "json \<Rightarrow> engine_error + bool" where
  "expression_position_has_reads ast =
     (case decode_root ast of Inl err \<Rightarrow> Inl err | Inr tree \<Rightarrow> map_sum id (\<lambda>evs. evs \<noteq> []) (expression_position_events tree))"

section \<open>Checks\<close>

text \<open>A check refuses in the response it is given, or passes it on as it was.\<close>

type_synonym check = "response \<Rightarrow> engine_error + bool \<times> response"

definition refuse_with :: "(rewrite_code \<times> gostring) option \<Rightarrow> check" where
  "refuse_with verdict resp = (case verdict of Some (code, msg) \<Rightarrow> Inr (True, refuse code msg resp) | None \<Rightarrow> Inr (False, resp))"

definition unsupported :: "gostring option \<Rightarrow> check" where
  "unsupported msg = refuse_with (map_option (\<lambda>m. (CodeUnsupportedStatement, m)) msg)"

definition unsupported_if :: "bool \<Rightarrow> check" where
  "unsupported_if refused = unsupported (if refused then Some unsupported_statement_message else None)"

definition with_result :: "(engine_error + 'a) \<Rightarrow> ('a \<Rightarrow> check) \<Rightarrow> check" where
  "with_result r f resp = (case r of Inl err \<Rightarrow> Inl err | Inr x \<Rightarrow> f x resp)"

fun run_checks :: "check list \<Rightarrow> check" where
  "run_checks [] resp = Inr (False, resp)"
| "run_checks (c # cs) resp =
     (case c resp of
        Inl err \<Rightarrow> Inl err
      | Inr (True, r) \<Rightarrow> Inr (True, r)
      | Inr (False, r) \<Rightarrow> run_checks cs r)"

subsection \<open>rejectDisallowedCarriers\<close>

definition table_function_refusal :: "gostring \<Rightarrow> gostring option" where
  "table_function_refusal name =
     (case classify_table_function name of
        TableFunctionRefused \<Rightarrow> Some (table_function_refused_message name)
      | TableFunctionUnknown \<Rightarrow> Some (table_function_unknown_message name)
      | _ \<Rightarrow> None)"

definition table_engine_refusal :: "gostring \<times> nat \<Rightarrow> gostring option" where
  "table_engine_refusal eng =
     (case classify_table_engine (fst eng) (int (snd eng)) of
        TableEngineRefused \<Rightarrow> Some (table_engine_refused_message (fst eng))
      | TableEngineUnknown \<Rightarrow> Some (table_engine_unknown_message (fst eng))
      | TableEngineAllowedClass \<Rightarrow> None)"

definition table_setting_refusal :: "gostring \<Rightarrow> gostring option" where
  "table_setting_refusal s = (if refused_table_setting s then Some (table_setting_refused_message s) else None)"

definition storage_refusal :: "create_storage option \<Rightarrow> gostring option" where
  "storage_refusal st =
     (case st of
        None \<Rightarrow> None
      | Some s \<Rightarrow> first_some (map table_engine_refusal (cs_engines s) @ map table_setting_refusal (cs_settings s)))"

definition reject_disallowed_carriers :: "engine \<Rightarrow> json \<Rightarrow> check" where
  "reject_disallowed_carriers e ast =
     run_checks
       [with_result (collect_source_function_names ast) (\<lambda>names. unsupported (first_some (map table_function_refusal names))),
        with_result (create_table_storage e ast) (\<lambda>st. unsupported (storage_refusal st))]"

subsection \<open>rejectSQLBearingSettings\<close>

text \<open>The texts whose \<open>SETTINGS\<close> clauses are read from tokens.\<close>

definition settings_texts :: "engine \<Rightarrow> json \<Rightarrow> gostring \<Rightarrow> engine_error + gostring list" where
  "settings_texts e ast sql =
     (case node_kind ast of
        Inl err \<Rightarrow> Inl err
      | Inr kind \<Rightarrow>
          if kind = NodeCommand then
            map_sum id (\<lambda>t. if fst (snd (session_setting_assignments e t)) then [] else [t]) (command_sql ast)
          else opaque_texts e ast sql)"

definition text_assignments :: "engine \<Rightarrow> gostring \<Rightarrow> setting_assignment list" where
  "text_assignments e t =
     (let (raw, ok) = raw_settings_clauses e t
      in raw @ (if ok then []
                else [\<lparr>sa_name = [], sa_plain_value = False, sa_true_literal = False, sa_escaped_name = False\<rparr>]))"

definition reject_sql_bearing_settings :: "engine \<Rightarrow> json \<Rightarrow> gostring \<Rightarrow> check" where
  "reject_sql_bearing_settings e ast sql =
     run_checks
       [unsupported (if sql \<noteq> [] then map_option table_setting_refused_message (settings_backstop e sql) else None),
        unsupported_if (sql \<noteq> [] \<and> settings_escape_backstop e sql),
        with_result (settings_texts e ast sql)
          (\<lambda>texts. refuse_with (settings_verdict (query_settings ast @ concat (map (text_assignments e) texts))))]"

subsection \<open>rejectUngovernedReads\<close>

text \<open>Whether a command is of a class a handler models; a text that cannot be read is not.\<close>

definition command_class_modelled :: "engine \<Rightarrow> json \<Rightarrow> gostring \<Rightarrow> selection \<Rightarrow> bool" where
  "command_class_modelled e ast sql sel =
     (case parse_object_target e sql of
        Inl _ \<Rightarrow> False
      | Inr t \<Rightarrow>
          if ob_verb t \<noteq> VerbNone then True
          else case parse_db_level collect_select_tables e sql of
                 Inl _ \<Rightarrow> False
               | Inr info \<Rightarrow>
                   if dl_kind info \<noteq> DBNone then True
                   else case inspect_write ast of
                          Inl _ \<Rightarrow> False
                        | Inr wi \<Rightarrow>
                            if wi_sub wi \<in> {CmdRename, CmdExchange, CmdAlterUpdate} then True
                            else case parse_grant e sql of
                                   Inl _ \<Rightarrow> False
                                 | Inr gp \<Rightarrow>
                                     if gr_is_grant_verb gp then True
                                     else if storage_integrity_surface_active (sel_dynamic sel) then False
                                     else fst (snd (session_setting_assignments e sql)))"

definition unmodelled_command :: "engine \<Rightarrow> json \<Rightarrow> gostring \<Rightarrow> selection \<Rightarrow> engine_error + bool" where
  "unmodelled_command e ast sql sel =
     map_sum id (\<lambda>kind. kind = NodeCommand \<and> \<not> command_class_modelled e ast sql sel) (node_kind ast)"

text \<open>A storage-integrity database named in opaque text; the inner \<open>None\<close> is a text that cannot be read.\<close>

fun reserved_qualifier :: "engine \<Rightarrow> dynamic_args option \<Rightarrow> gostring list \<Rightarrow> table_target option option" where
  "reserved_qualifier e dyn [] = None"
| "reserved_qualifier e dyn (t # ts) =
     (case opaque_text_qualified_names e t of
        None \<Rightarrow> Some None
      | Some names \<Rightarrow>
          (case find (\<lambda>tt. is_si_physical_database (tt_db tt) dyn) names of
             Some tt \<Rightarrow> Some (Some tt)
           | None \<Rightarrow> reserved_qualifier e dyn ts))"

definition refuse_qualifier :: "selection \<Rightarrow> table_target option option \<Rightarrow> check" where
  "refuse_qualifier sel hit resp =
     (case hit of
        None \<Rightarrow> Inr (False, resp)
      | Some None \<Rightarrow> Inr (True, refuse CodeUnsupportedStatement unsupported_statement_message resp)
      | Some (Some tt) \<Rightarrow>
          Inr (True, refuse CodeUnsupportedStatement (si_physical_reject_message (qualify (tt_db tt) (tt_table tt)))
                       (record_accessed_write tt sel resp)))"

definition reject_opaque_reserved_qualifiers :: "engine \<Rightarrow> json \<Rightarrow> gostring \<Rightarrow> selection \<Rightarrow> check" where
  "reject_opaque_reserved_qualifiers e ast sql sel resp =
     (if sel_mode sel \<noteq> ModeDynamic \<or> \<not> storage_integrity_surface_active (sel_dynamic sel) then Inr (False, resp)
      else with_result (opaque_texts e ast sql) (\<lambda>texts. refuse_qualifier sel (reserved_qualifier e (sel_dynamic sel) texts)) resp)"

definition reject_ungoverned_reads :: "engine \<Rightarrow> json \<Rightarrow> gostring \<Rightarrow> selection \<Rightarrow> check" where
  "reject_ungoverned_reads e ast sql sel =
     run_checks
       [with_result (unmodelled_command e ast sql sel)
          (\<lambda>other. if other then unsupported None else reject_sql_bearing_settings e ast sql),
        reject_opaque_reserved_qualifiers e ast sql sel,
        with_result (expression_position_has_reads ast) unsupported_if,
        with_result (opaque_statement_texts e ast sql)
          (\<lambda>texts. unsupported_if (texts \<noteq> [] \<and> opaque_text_is_ungoverned e (join_with '', '' texts))),
        unsupported_if (list_ex (opaque_text_is_ungoverned e) (declared_type_texts ast)),
        with_result (opaque_insert_query_text ast)
          (\<lambda>query. unsupported_if (case query of Some t \<Rightarrow> opaque_insert_query_is_ungoverned e t | None \<Rightarrow> False))]"

section \<open>PreflightTableReferences\<close>

text \<open>What a step decides: go on, answer the request, or leave the statement to the handlers.\<close>

datatype verdict = Continue | Answer response | LeaveToHandlers

fun run_steps :: "(engine_error + verdict) list \<Rightarrow> engine_error + response option" where
  "run_steps [] = Inr None"
| "run_steps (s # ss) =
     (case s of
        Inl err \<Rightarrow> Inl err
      | Inr Continue \<Rightarrow> run_steps ss
      | Inr (Answer resp) \<Rightarrow> Inr (Some resp)
      | Inr LeaveToHandlers \<Rightarrow> Inr None)"

definition fresh_resp :: response where
  "fresh_resp = new_write_resp StUnspecified"

definition answer_invalid :: "gostring \<Rightarrow> gostring \<Rightarrow> verdict" where
  "answer_invalid sql msg = Answer (echo sql (reject_invalid msg fresh_resp))"

definition answer_unsupported :: "gostring \<Rightarrow> gostring \<Rightarrow> verdict" where
  "answer_unsupported sql msg = Answer (echo sql (reject_unsupported msg fresh_resp))"

definition answer_check :: "gostring \<Rightarrow> bool \<times> response \<Rightarrow> verdict" where
  "answer_check sql r = (case r of (rejected, resp) \<Rightarrow> if rejected then Answer (echo sql resp) else Continue)"

definition parameter_step :: "engine \<Rightarrow> json \<Rightarrow> gostring \<Rightarrow> engine_error + verdict" where
  "parameter_step e ast sql =
     map_sum id (\<lambda>hit. if hit then answer_invalid sql identifier_parameter_message else Continue)
       (table_position_parameter e ast sql)"

definition unmodelled_step :: "engine \<Rightarrow> json \<Rightarrow> gostring \<Rightarrow> selection \<Rightarrow> engine_error + verdict" where
  "unmodelled_step e ast sql sel =
     map_sum id
       (\<lambda>other.
          if \<not> other then Continue
          else if storage_integrity_surface_active (sel_dynamic sel) then LeaveToHandlers
          else Answer (echo sql (reject_unsupported unsupported_statement_message
                 (fold (\<lambda>tt. record_accessed_write tt sel) (sum_list_or_empty (map_sum id fst (raw_table_refs e ast))) fresh_resp))))
       (unmodelled_command e ast sql sel)"

text \<open>A protected database; a storage-integrity one is the handlers' while they can see it.\<close>

definition refused_database :: "dynamic_args option \<Rightarrow> gostring list \<Rightarrow> gostring \<Rightarrow> bool" where
  "refused_database dyn blind db \<longleftrightarrow> protected_database db dyn \<and> (is_si_physical_database db dyn \<longrightarrow> db \<in> set blind)"

definition with_context :: "dynamic_args option \<Rightarrow> gostring list \<Rightarrow> gostring list" where
  "with_context dyn dbs = dbs @ (let ctx = get_logical_context dyn in if ctx \<noteq> [] then [ctx] else [])"

definition answer_protected :: "gostring \<Rightarrow> dynamic_args option \<Rightarrow> gostring option \<Rightarrow> verdict" where
  "answer_protected sql dyn db =
     (case db of
        None \<Rightarrow> Continue
      | Some db \<Rightarrow>
          Answer (echo sql (reject_invalid (protected_reject_message db) (record_accessed_database db dyn fresh_resp))))"

definition protected_step :: "engine \<Rightarrow> json \<Rightarrow> gostring \<Rightarrow> selection \<Rightarrow> engine_error + verdict" where
  "protected_step e ast sql sel =
     map_sum id (\<lambda>(dbs, blind). answer_protected sql (sel_dynamic sel)
         (find (refused_database (sel_dynamic sel) blind) (with_context (sel_dynamic sel) dbs)))
       (collect_database_reference_sets e ast sql)"

definition system_step :: "engine \<Rightarrow> json \<Rightarrow> gostring \<Rightarrow> selection \<Rightarrow> engine_error + verdict" where
  "system_step e ast sql sel =
     map_sum id
       (\<lambda>(refused, siObject).
          case refused of
            Some table \<Rightarrow> if siObject then Continue else Answer (echo sql (reject_system_table table sel fresh_resp))
          | None \<Rightarrow> Continue)
       (system_table_scan collect_object_refs e ast sql sel)"

text \<open>A check that runs here only while the storage-integrity surface is inactive.\<close>

definition inactive_step :: "gostring \<Rightarrow> selection \<Rightarrow> check \<Rightarrow> engine_error + verdict" where
  "inactive_step sql sel check =
     (if storage_integrity_surface_active (sel_dynamic sel) then Inr Continue
      else map_sum id (answer_check sql) (check fresh_resp))"

definition string_lookup_unresolved_message :: "string_lookup \<Rightarrow> gostring" where
  "string_lookup_unresolved_message call =
     sl_function call @ '' target '' @ [CHR 0x22] @ sl_arg call @ [CHR 0x22] @
     '' does not resolve through the caller'' @ [CHR 0x27] @ ''s databases''"

definition answer_lookup :: "gostring \<Rightarrow> string_lookup list \<Rightarrow> verdict" where
  "answer_lookup sql calls =
     (case calls of [] \<Rightarrow> Continue | call # _ \<Rightarrow> answer_invalid sql (string_lookup_unresolved_message call))"

text \<open>The call a \<open>DESCRIBE\<close>, \<open>EXISTS\<close> or \<open>SHOW CREATE\<close> has in the place of a name.\<close>

definition answer_target_call ::
    "gostring \<Rightarrow> dynamic_args option \<Rightarrow> (object_verb \<times> gostring \<times> gostring list) option \<Rightarrow> verdict" where
  "answer_target_call sql dyn call =
     (case call of
        None \<Rightarrow> Continue
      | Some (_, name, dbs) \<Rightarrow>
          (case table_function_refusal name of
             Some msg \<Rightarrow> answer_unsupported sql msg
           | None \<Rightarrow> answer_protected sql dyn (find (\<lambda>db. protected_database db dyn) dbs)))"

definition command_text_verdict :: "engine \<Rightarrow> gostring \<Rightarrow> selection \<Rightarrow> gostring \<Rightarrow> verdict" where
  "command_text_verdict e sql sel command =
     (case collect_command_text_findings e command of
        None \<Rightarrow> answer_unsupported sql unsupported_statement_message
      | Some f \<Rightarrow>
          (case answer_lookup sql (cf_lookup_calls f) of
             Continue \<Rightarrow> answer_target_call sql (sel_dynamic sel) (cf_target_call f)
           | answered \<Rightarrow> answered))"

definition command_text_step :: "engine \<Rightarrow> json \<Rightarrow> gostring \<Rightarrow> selection \<Rightarrow> engine_error + verdict" where
  "command_text_step e ast sql sel =
     (case node_kind ast of
        Inl err \<Rightarrow> Inl err
      | Inr kind \<Rightarrow>
          if kind = NodeCommand then map_sum id (command_text_verdict e sql sel) (command_sql ast) else Inr Continue)"

definition raw_lookup_step :: "engine \<Rightarrow> json \<Rightarrow> gostring \<Rightarrow> engine_error + verdict" where
  "raw_lookup_step e ast sql =
     Inr (case collect_raw_action_string_lookup_calls e ast sql of
            None \<Rightarrow> answer_unsupported sql unsupported_statement_message
          | Some calls \<Rightarrow> answer_lookup sql calls)"

text \<open>A \<open>hasColumnInTable\<close> below a \<open>SELECT\<close> the pipeline rewrites is resolved there.\<close>

definition refused_lookup :: "string_lookup \<Rightarrow> bool" where
  "refused_lookup call \<longleftrightarrow> \<not> (is_has_column_in_table (sl_function call) \<and> sl_in_select call)"

definition ast_lookup_step :: "json \<Rightarrow> gostring \<Rightarrow> engine_error + verdict" where
  "ast_lookup_step ast sql = Inr (answer_lookup sql (filter refused_lookup (string_lookup_calls ast)))"

definition preflight_steps :: "engine \<Rightarrow> json \<Rightarrow> gostring \<Rightarrow> selection \<Rightarrow> (engine_error + verdict) list" where
  "preflight_steps e ast sql sel =
     [parameter_step e ast sql, unmodelled_step e ast sql sel, protected_step e ast sql sel, system_step e ast sql sel,
      inactive_step sql sel (reject_disallowed_carriers e ast), command_text_step e ast sql sel, raw_lookup_step e ast sql,
      ast_lookup_step ast sql, inactive_step sql sel (reject_ungoverned_reads e ast sql sel)]"

definition preflight_table_references ::
    "engine \<Rightarrow> json \<Rightarrow> gostring \<Rightarrow> rewrite_option list \<Rightarrow> engine_error + response option" where
  "preflight_table_references e ast sql opts =
     (let sel = find_active opts
      in if sel_mode sel \<noteq> ModeDynamic then Inr None else run_steps (preflight_steps e ast sql sel))"

end
