(* ===== verification/Name_Grammar.thy ===== *)
theory Name_Grammar
  imports References
begin

text \<open>
  Names at a proven position of a token stream (\<open>engine/lexical.go\<close>): keywords, optional clauses, a table and a
  database read through the parser of the SQL engine, and the tables that own a \<open>PREWHERE\<close>. A parser takes the
  tokens from its position on and answers the tokens after what it read.
\<close>

section \<open>Keywords and clauses\<close>

fun keywords_at :: "gostring list \<Rightarrow> raw_token list \<Rightarrow> raw_token list option" where
  "keywords_at [] toks = Some toks"
| "keywords_at (w # ws) [] = None"
| "keywords_at (w # ws) (t # ts) =
     (if \<not> is_string_literal_token t \<and> tk_type t \<noteq> ''QUOTED_IDENTIFIER'' \<and> tk_type t \<noteq> ''NUMBER'' \<and>
         equal_fold (tk_text t) w
      then keywords_at ws ts else None)"

definition optional_words :: "gostring list \<Rightarrow> raw_token list \<Rightarrow> raw_token list" where
  "optional_words ws toks = (case keywords_at ws toks of Some rest \<Rightarrow> rest | None \<Rightarrow> toks)"

definition if_exists_end :: "raw_token list \<Rightarrow> raw_token list" where
  "if_exists_end = optional_words [''IF'', ''EXISTS'']"

definition if_not_exists_end :: "raw_token list \<Rightarrow> raw_token list" where
  "if_not_exists_end = optional_words [''IF'', ''NOT'', ''EXISTS'']"

definition only_statement_end :: "raw_token list \<Rightarrow> bool" where
  "only_statement_end = list_all (\<lambda>t. tk_type t = ''SEMICOLON'' \<or> tk_text t = '';'')"

text \<open>The value of a string literal token; a dollar string carries its tag before a NUL byte.\<close>

definition live_view_string_literal_value :: "raw_token \<Rightarrow> gostring option" where
  "live_view_string_literal_value tok =
     (if tk_type tok \<in> {''STRING'', ''HEREDOC_STRING'', ''HEREDOC_STRING_ALTERNATIVE''} then Some (tk_text tok)
      else if tk_type tok = ''DOLLAR_STRING'' then
        Some (case index_byte (tk_text tok) CHR 0x00 of Some i \<Rightarrow> drop (i + 1) (tk_text tok) | None \<Rightarrow> tk_text tok)
      else None)"

definition non_empty_string_literal :: "raw_token \<Rightarrow> bool" where
  "non_empty_string_literal tok \<longleftrightarrow> (case live_view_string_literal_value tok of Some v \<Rightarrow> v \<noteq> [] | None \<Rightarrow> False)"

text \<open>A cluster name after its keywords.\<close>

definition cluster_name :: "raw_token list \<Rightarrow> raw_token list option" where
  "cluster_name toks =
     (case toks of
        [] \<Rightarrow> None
      | t # ts \<Rightarrow>
          if is_string_literal_token t then (if non_empty_string_literal t then Some ts else None)
          else if is_identifier_candidate t then Some ts else None)"

text \<open>The tokens after the clause; \<open>None\<close> when there is none or it is malformed.\<close>

definition skip_on_cluster :: "raw_token list \<Rightarrow> raw_token list option" where
  "skip_on_cluster toks =
     (case keywords_at [''ON'', ''CLUSTER''] toks of
        None \<Rightarrow> None
      | Some rest \<Rightarrow> (case identifier_parameter_end rest of Some after \<Rightarrow> Some after | None \<Rightarrow> cluster_name rest))"

text \<open>The concrete clause of \<open>SYSTEM\<close>, which admits no parameter; \<open>None\<close> only when it is malformed.\<close>

definition system_cluster_end :: "raw_token list \<Rightarrow> raw_token list option" where
  "system_cluster_end toks =
     (case keywords_at [''ON'', ''CLUSTER''] toks of
        None \<Rightarrow> Some toks
      | Some rest \<Rightarrow> if identifier_parameter_end rest \<noteq> None then None else cluster_name rest)"

section \<open>Names read by the SQL engine\<close>

text \<open>One or two identifiers, and the tokens after them.\<close>

definition name_run_end :: "raw_token list \<Rightarrow> (raw_token list \<times> raw_token list) option" where
  "name_run_end toks =
     (case toks of
        t # d # n # rest \<Rightarrow>
          if \<not> is_identifier_candidate t then None
          else if tk_type d = ''DOT'' \<and> is_identifier_candidate n then Some ([t, d, n], rest)
          else Some ([t], d # n # rest)
      | t # rest \<Rightarrow> if is_identifier_candidate t then Some ([t], rest) else None
      | [] \<Rightarrow> None)"

definition opaque_name :: "raw_token list \<Rightarrow> bool" where
  "opaque_name toks \<longleftrightarrow>
     identifier_parameter_end toks \<noteq> None \<or>
     (case toks of _ # d # rest \<Rightarrow> tk_type d = ''DOT'' \<and> identifier_parameter_end rest \<noteq> None | _ \<Rightarrow> False)"

definition span_text :: "gostring \<Rightarrow> nat \<Rightarrow> nat \<Rightarrow> gostring option" where
  "span_text sql i j = (if j \<le> i \<or> j > length sql then None else Some (substring i j sql))"

text \<open>The table of a one- or two-part name, asked from the parser as the only source of a \<open>SELECT\<close>.\<close>

definition probed_table :: "engine \<Rightarrow> gostring \<Rightarrow> table_target option" where
  "probed_table e source =
     (case e_parse_one e (''SELECT * FROM '' @ source) of
        Inl _ \<Rightarrow> None
      | Inr ast \<Rightarrow> (case collect_select_tables ast of Inr [tt] \<Rightarrow> if tt_table tt \<noteq> [] then Some tt else None | _ \<Rightarrow> None))"

definition string_table :: "gostring \<Rightarrow> name_ref option" where
  "string_table name =
     (if name = [] then None
      else case index_byte name CHR ''.'' of
             None \<Rightarrow> Some (TableRef [] name)
           | Some dot \<Rightarrow>
               if dot = 0 \<or> dot = length name - 1 then None
               else Some (TableRef (take dot name) (drop (dot + 1) name)))"

text \<open>The parts read one by one, when the parser does not take the name as a source.\<close>

definition parts_table :: "engine \<Rightarrow> gostring \<Rightarrow> raw_token list \<Rightarrow> name_ref option" where
  "parts_table e sql run =
     (let part = parsed_identifier_at collect_select_tables e sql
      in case run of
           [t] \<Rightarrow> map_option (TableRef []) (part t)
         | [t, _, n] \<Rightarrow> (case (part t, part n) of (Some db, Some table) \<Rightarrow> Some (TableRef db table) | _ \<Rightarrow> None)
         | _ \<Rightarrow> None)"

definition table_ref_at ::
    "engine \<Rightarrow> gostring \<Rightarrow> bool \<Rightarrow> raw_token list \<Rightarrow> (name_ref \<times> raw_token list) option" where
  "table_ref_at e sql allowString toks =
     (case toks of
        [] \<Rightarrow> None
      | t # ts \<Rightarrow>
          if opaque_name toks then None
          else if allowString \<and> is_string_literal_token t then
            map_option (\<lambda>ref. (ref, ts)) (case live_view_string_literal_value t of Some v \<Rightarrow> string_table v | None \<Rightarrow> None)
          else case name_run_end toks of
                 None \<Rightarrow> None
               | Some (run, rest) \<Rightarrow>
                   (case span_text sql (tk_start t) (tk_end (last run)) of
                      None \<Rightarrow> None
                    | Some source \<Rightarrow>
                        (case probed_table e source of
                           Some tt \<Rightarrow> Some (TableRef (tt_db tt) (tt_table tt), rest)
                         | None \<Rightarrow> map_option (\<lambda>ref. (ref, rest)) (parts_table e sql run))))"

text \<open>A table target with a parameter in one of its parts: known as a target, without a name.\<close>

definition opaque_table_ref_end :: "raw_token list \<Rightarrow> raw_token list option" where
  "opaque_table_ref_end toks =
     (case identifier_parameter_end toks of
        Some rest \<Rightarrow>
          (case rest of
             d # after \<Rightarrow>
               if tk_type d \<noteq> ''DOT'' then Some rest
               else (case identifier_parameter_end after of
                       Some end' \<Rightarrow> Some end'
                     | None \<Rightarrow> (case after of n # ns \<Rightarrow> if is_identifier_candidate n then Some ns else None | [] \<Rightarrow> None))
           | [] \<Rightarrow> Some rest)
      | None \<Rightarrow>
          (case toks of
             t # d # rest \<Rightarrow> if is_identifier_candidate t \<and> tk_type d = ''DOT'' then identifier_parameter_end rest else None
           | _ \<Rightarrow> None))"

text \<open>The database of a name, asked from the parser before a neutral table.\<close>

definition database_ref_at :: "engine \<Rightarrow> gostring \<Rightarrow> raw_token list \<Rightarrow> (name_ref \<times> raw_token list) option" where
  "database_ref_at e sql toks =
     (case toks of
        [] \<Rightarrow> None
      | t # ts \<Rightarrow>
          if \<not> is_identifier_candidate t then None
          else case span_text sql (tk_start t) (tk_end t) of
                 None \<Rightarrow> None
               | Some source \<Rightarrow>
                   (case probed_table e (source @ ''.'' @ name_probe_db) of
                      Some tt \<Rightarrow>
                        if tt_db tt \<noteq> [] \<and> tt_table tt = name_probe_db then Some (DatabaseRef (tt_db tt), ts)
                        else map_option (\<lambda>db. (DatabaseRef db, ts)) (parsed_identifier_at collect_select_tables e sql t)
                    | None \<Rightarrow> map_option (\<lambda>db. (DatabaseRef db, ts)) (parsed_identifier_at collect_select_tables e sql t)))"

section \<open>PREWHERE\<close>

definition prewhere_table :: "engine \<Rightarrow> gostring \<Rightarrow> raw_token list \<Rightarrow> raw_token list \<Rightarrow> table_target list" where
  "prewhere_table e sql before rest =
     (case clause_start (\<lambda>t. tk_type t = ''FROM'') 0 before rest of
        None \<Rightarrow> []
      | Some source \<Rightarrow>
          (case table_ref_at e sql False source of
             Some (TableRef db table, _) \<Rightarrow> [named_table db table] | _ \<Rightarrow> []))"

fun prewhere_from :: "engine \<Rightarrow> gostring \<Rightarrow> raw_token list \<Rightarrow> raw_token list \<Rightarrow> table_target list" where
  "prewhere_from e sql before [] = []"
| "prewhere_from e sql before (t # ts) =
     (if keywords_at [''PREWHERE''] (t # ts) \<noteq> None then prewhere_table e sql before (t # ts) else []) @
     prewhere_from e sql (t # before) ts"

definition prewhere_targets :: "engine \<Rightarrow> gostring \<Rightarrow> engine_error + table_target list" where
  "prewhere_targets e sql = map_sum id (prewhere_from e sql []) (tokenize_raw e sql)"

text \<open>The names of the read sources of an embedded query.\<close>

definition source_name_refs :: "read_source \<Rightarrow> name_ref list" where
  "source_name_refs s =
     (let db = tt_db (rsr_target s); table = tt_table (rsr_target s)
      in if rsr_kind s = ReadSourceTable then (if table \<noteq> [] then [TableRef db table] else [])
         else if rsr_resolved s \<and> db \<noteq> [] \<and> table \<noteq> [] then [TableRef db table]
         else if rsr_current_database s \<and> table \<noteq> [] then [TableRef [] table]
         else if \<not> rsr_resolved s \<and> db \<noteq> [] then [DatabaseRef db] else [])"

definition read_source_name_refs :: "read_source list \<Rightarrow> name_ref list" where
  "read_source_name_refs sources = concat (map source_name_refs sources)"

end
