(* ===== verification/Select_Core.thy ===== *)
theory Select_Core
  imports Preflight Read_Scope Name_Grammar
begin

text \<open>
  The read side of the handlers: the options of a request (\<open>handlers/options.go\<close>), the string lookups of a \<open>SELECT\<close>
  (\<open>handlers/lookups.go\<close>) and the \<open>SELECT\<close> pipeline itself (\<open>handlers/select.go\<close>), which the write handlers run on
  an embedded body as well.
\<close>

section \<open>Options\<close>

record pending_options =
  po_force :: "int option"
  po_replace :: "(int \<times> int) option"
  po_offset :: "int option"
  po_settings :: "engine_setting list"

definition setting_to_engine :: "gostring \<times> setting_payload \<Rightarrow> engine_setting" where
  "setting_to_engine s =
     (case snd s of
        SettingString v \<Rightarrow> \<lparr>es_key = fst s, es_literal_type = ''string'', es_value = v\<rparr>
      | SettingBool b \<Rightarrow> \<lparr>es_key = fst s, es_literal_type = ''number'', es_value = (if b then ''1'' else ''0'')\<rparr>
      | SettingInt i \<Rightarrow> \<lparr>es_key = fst s, es_literal_type = ''number'', es_value = int_text i\<rparr>
      | SettingUint n \<Rightarrow> \<lparr>es_key = fst s, es_literal_type = ''number'', es_value = nat_text n\<rparr>
      | SettingUnset \<Rightarrow> \<lparr>es_key = fst s, es_literal_type = ''string'', es_value = []\<rparr>)"

text \<open>One turn of the loop over the options: the last limit of each form and the last offset win.\<close>

definition take_option :: "pending_options \<Rightarrow> rewrite_option \<Rightarrow> pending_options" where
  "take_option p opt =
     (if ro_op opt = OpLimitRewrite then
        (case ro_limit opt of
           LimitForce n \<Rightarrow> p\<lparr>po_force := Some n\<rparr>
         | LimitReplace threshold to \<Rightarrow> p\<lparr>po_replace := Some (threshold, to)\<rparr>
         | LimitUnset \<Rightarrow> p)
      else if ro_op opt = OpOffsetRewrite then p\<lparr>po_offset := Some (ro_offset opt)\<rparr>
      else if ro_op opt = OpSettingsRewrite then p\<lparr>po_settings := po_settings p @ map setting_to_engine (ro_settings opt)\<rparr>
      else p)"

definition pending :: "rewrite_option list \<Rightarrow> pending_options" where
  "pending opts = foldl take_option \<lparr>po_force = None, po_replace = None, po_offset = None, po_settings = []\<rparr> opts"

definition apply_limit :: "pending_options \<Rightarrow> json \<Rightarrow> engine_error + json" where
  "apply_limit p ast =
     (case (po_force p, po_replace p) of
        (Some n, _) \<Rightarrow> set_limit n ast
      | (None, None) \<Rightarrow> Inr ast
      | (None, Some (threshold, to)) \<Rightarrow>
          (case get_limit ast of
             Inl err \<Rightarrow> Inl err
           | Inr (Some cur) \<Rightarrow> if cur = 0 \<or> cur > threshold then set_limit to ast else Inr ast
           | Inr None \<Rightarrow> set_limit to ast))"

definition apply_offset :: "pending_options \<Rightarrow> json \<Rightarrow> engine_error + json" where
  "apply_offset p ast =
     (case po_offset p of Some n \<Rightarrow> if n > 0 then set_offset n ast else Inr ast | None \<Rightarrow> Inr ast)"

definition bind_result :: "engine_error + 'a \<Rightarrow> ('a \<Rightarrow> engine_error + 'b) \<Rightarrow> engine_error + 'b" where
  "bind_result r f = (case r of Inl err \<Rightarrow> Inl err | Inr x \<Rightarrow> f x)"

definition apply_options :: "rewrite_option list \<Rightarrow> json \<Rightarrow> engine_error + json" where
  "apply_options opts ast =
     (let p = pending opts
      in bind_result (apply_limit p ast) (\<lambda>limited.
         bind_result (apply_offset p limited) (\<lambda>moved.
           if po_settings p = [] then Inr moved else set_settings (po_settings p) moved)))"

section \<open>String lookups\<close>

text \<open>The resolution of a \<open>hasColumnInTable\<close>; \<open>None\<close> when it refuses the statement.\<close>

definition decide_string_lookup :: "selection \<Rightarrow> string_lookup \<Rightarrow> outcome option" where
  "decide_string_lookup sel call =
     (let db = sl_db call; table = sl_table call; oc = resolve db table sel
      in if \<not> is_has_column_in_table (sl_function call) \<or> \<not> sl_literal call then None
         else if db = [] \<or> table = [] \<or> CHR ''.'' \<in> set db \<or> CHR ''.'' \<in> set table then None
         else if lookup_storage_integrity db table (sel_dynamic sel) \<noteq> None then None
         else if o_status oc = StatusRewrite then Some oc else None)"

definition accept_lookup :: "selection \<Rightarrow> response \<Rightarrow> string_lookup \<Rightarrow> gostring option \<times> response" where
  "accept_lookup sel resp call =
     (if \<not> is_has_column_in_table (sl_function call) then (None, resp)
      else case decide_string_lookup sel call of
             None \<Rightarrow> (None, resp)
           | Some oc \<Rightarrow>
               (let orig = named_table (sl_db call) (sl_table call);
                    rewritten = add_rewrite orig (o_physical_db oc) (o_new_table oc) resp
                in (Some (o_physical_db oc @ ''.'' @ o_new_table oc),
                    if list_ex (same_original (sl_db call) (sl_table call)) (r_accessed rewritten) then rewritten
                    else record_accessed_write orig sel rewritten)))"

definition refusing_lookup :: "selection \<Rightarrow> string_lookup \<Rightarrow> bool" where
  "refusing_lookup sel call \<longleftrightarrow>
     is_has_column_in_table (sl_function call) \<and> decide_string_lookup sel call = None"

text \<open>Whether the statement is refused, the tree and the response.\<close>

definition rewrite_string_lookups :: "selection \<Rightarrow> json \<Rightarrow> response \<Rightarrow> bool \<times> json \<times> response" where
  "rewrite_string_lookups sel ast resp =
     (if sel_mode sel \<noteq> ModeDynamic then (False, ast, resp)
      else case find (refusing_lookup sel) (string_lookup_calls ast) of
             Some call \<Rightarrow>
               (True, ast, refuse CodeInvalidRewriteRequest (string_lookup_unresolved_message call) resp)
           | None \<Rightarrow> (False, rewrite_string_lookup_calls (accept_lookup sel) ast resp))"

section \<open>CTE injection\<close>

text \<open>
  The bodies of one option that parse, and the aliases of those that do not. A Go map is visited in any order: the
  failures are sorted at the end, and of two options the later sees the query of the earlier.
\<close>

definition parsed_bodies :: "engine \<Rightarrow> (gostring \<times> gostring) list \<Rightarrow> (gostring \<times> json) list" where
  "parsed_bodies e ctes =
     concat (map (\<lambda>(alias, sql). case e_parse_one e sql of Inr body \<Rightarrow> [(alias, body)] | Inl _ \<Rightarrow> []) ctes)"

definition failed_aliases :: "engine \<Rightarrow> (gostring \<times> gostring) list \<Rightarrow> gostring list" where
  "failed_aliases e ctes = map fst (filter (\<lambda>(_, sql). case e_parse_one e sql of Inr _ \<Rightarrow> False | Inl _ \<Rightarrow> True) ctes)"

fun inject_options :: "engine \<Rightarrow> rewrite_option list \<Rightarrow> json \<Rightarrow> engine_error + json" where
  "inject_options e [] ast = Inr ast"
| "inject_options e (opt # opts) ast =
     (if ro_op opt \<noteq> OpCommonTableExprRewrite then inject_options e opts ast
      else bind_result (bare_table_names ast) (\<lambda>names.
           bind_result (inject_ctes (filter (\<lambda>(alias, _). alias \<in> set names) (parsed_bodies e (ro_ctes opt))) ast)
             (inject_options e opts)))"

definition all_failed_aliases :: "engine \<Rightarrow> rewrite_option list \<Rightarrow> gostring list" where
  "all_failed_aliases e opts =
     sort (concat (map (\<lambda>opt. failed_aliases e (ro_ctes opt)) (filter (\<lambda>opt. ro_op opt = OpCommonTableExprRewrite) opts)))"

section \<open>The checks of a dynamic SELECT\<close>

definition si_active :: "selection \<Rightarrow> bool" where
  "si_active sel \<longleftrightarrow> sel_mode sel = ModeDynamic \<and> storage_integrity_surface_active (sel_dynamic sel)"

definition semantic_table_target :: "table_target \<Rightarrow> engine_error + table_target" where
  "semantic_table_target tt =
     (case (decoded_ast_identifier (tt_db tt), decoded_ast_identifier (tt_table tt)) of
        ((db, dbOK), (table, tableOK)) \<Rightarrow>
          if dbOK \<and> tableOK \<and> table \<noteq> [] then Inr (tt\<lparr>tt_db := db, tt_table := table\<rparr>)
          else Inl (TargetUndecoded (qualify (tt_db tt) (tt_table tt))))"

definition select_originals :: "selection \<Rightarrow> json \<Rightarrow> engine_error + table_target list" where
  "select_originals sel ast =
     bind_result (collect_select_tables ast) (\<lambda>originals.
       if si_active sel then sum_concat (map (\<lambda>tt. map_sum id (\<lambda>t. [t]) (semantic_table_target tt)) originals)
       else Inr originals)"

text \<open>The refusal of one table: a physical name, or a logical one the request may not read.\<close>

definition original_refusal :: "selection \<Rightarrow> table_target \<Rightarrow> (rewrite_code \<times> gostring) option" where
  "original_refusal sel tt =
     (let dyn = sel_dynamic sel
      in if snd (lookup_si_physical (tt_db tt) (tt_table tt) dyn)
         then Some (CodeRewriteError, si_physical_reject_message (qualify (tt_db tt) (tt_table tt)))
         else if lookup_storage_integrity (tt_db tt) (tt_table tt) dyn \<noteq> None then
           (case authorize_si_logical (tt_db tt) dyn of
              (logical, authorized) \<Rightarrow>
                if authorized then None else Some (CodeInvalidRewriteRequest, si_unauthorized_message logical))
         else None)"

definition wrapper_reject_message :: gostring where
  "wrapper_reject_message =
     ''FINAL/SAMPLE/PREWHERE/WITH OFFSET/column aliases on storage-integrity tables are not supported''"

definition reserved_column_message :: "gostring \<Rightarrow> gostring" where
  "reserved_column_message rid = ''reserved column '' @ rid @ '' is not addressable''"

definition is_si_target :: "selection \<Rightarrow> table_target \<Rightarrow> bool" where
  "is_si_target sel tt \<longleftrightarrow> lookup_storage_integrity (tt_db tt) (tt_table tt) (sel_dynamic sel) \<noteq> None"

fun any_semantic_si :: "selection \<Rightarrow> table_target list \<Rightarrow> engine_error + bool" where
  "any_semantic_si sel [] = Inr False"
| "any_semantic_si sel (tt # tts) =
     bind_result (semantic_table_target tt) (\<lambda>t. if is_si_target sel t then Inr True else any_semantic_si sel tts)"

text \<open>The modifiers that only the tokens show; there is no text to read when the caller passed none.\<close>

definition token_modifiers :: "engine \<Rightarrow> gostring \<Rightarrow> selection \<Rightarrow> engine_error + bool" where
  "token_modifiers e sql sel =
     bind_result (with_offset_targets e sql) (\<lambda>offsets.
     bind_result (prewhere_targets e sql) (\<lambda>prewheres.
     map_sum id (\<lambda>hit. hit \<or> list_ex (is_si_target sel) prewheres) (any_semantic_si sel offsets)))"

definition si_table_modified :: "engine \<Rightarrow> json \<Rightarrow> gostring \<Rightarrow> selection \<Rightarrow> engine_error + bool" where
  "si_table_modified e ast sql sel =
     bind_result (unsupported_table_wrapper_targets ast) (\<lambda>targets.
     bind_result (any_semantic_si sel targets) (\<lambda>hit. if hit then Inr True else token_modifiers e sql sel))"

definition reserved_column_hit :: "json \<Rightarrow> selection \<Rightarrow> engine_error + bool" where
  "reserved_column_hit ast sel =
     references_identifier_in_scope ast (reserved_row_id (sel_dynamic sel))
       (\<lambda>tt. map_sum id (is_si_target sel) (semantic_table_target tt))"

text \<open>What a query on a storage-integrity table may not hold.\<close>

definition si_query_check :: "engine \<Rightarrow> json \<Rightarrow> gostring \<Rightarrow> selection \<Rightarrow> check" where
  "si_query_check e ast sql sel resp =
     (if sel_mode sel \<noteq> ModeDynamic \<or> \<not> touches_storage_integrity (r_accessed resp) then Inr (False, resp)
      else run_checks
        [with_result (si_table_modified e ast sql sel)
           (\<lambda>hit. refuse_with (if hit then Some (CodeRewriteError, wrapper_reject_message) else None)),
         with_result (reserved_column_hit ast sel)
           (\<lambda>hit. refuse_with (if hit then Some (CodeRewriteError, reserved_column_message (reserved_row_id (sel_dynamic sel)))
                              else None))] resp)"

definition namespace_check :: "json \<Rightarrow> selection \<Rightarrow> check" where
  "namespace_check ast sel =
     with_result (collect_namespace_refs ast) (\<lambda>refs resp. Inr (reject_si_namespaces sel CodeRewriteError refs resp))"

definition when_active :: "selection \<Rightarrow> check \<Rightarrow> check" where
  "when_active sel c resp = (if storage_integrity_surface_active (sel_dynamic sel) then c resp else Inr (False, resp))"

definition dynamic_select_check :: "engine \<Rightarrow> json \<Rightarrow> gostring \<Rightarrow> selection \<Rightarrow> table_target list \<Rightarrow> check" where
  "dynamic_select_check e ast sql sel originals resp =
     (if sel_mode sel \<noteq> ModeDynamic then Inr (False, resp)
      else run_checks
        [namespace_check ast sel, when_active sel (reject_disallowed_carriers e ast),
         when_active sel (reject_ungoverned_reads e ast sql sel),
         refuse_with (first_some (map (original_refusal sel) originals)), si_query_check e ast sql sel] resp)"

section \<open>The tables\<close>

text \<open>
  What the callback of \<open>RewriteSelectTables\<close> keeps: the rewrites, the last error, and the first name that does not
  resolve.
\<close>

record table_state =
  ts_rewrites :: "(gostring \<times> gostring) list"
  ts_error :: "engine_error option"
  ts_unresolved :: "gostring option"

definition decide_resolved_table :: "selection \<Rightarrow> table_state \<Rightarrow> table_target \<Rightarrow> table_decision \<times> table_state" where
  "decide_resolved_table sel s tt =
     (let oc = resolve (tt_db tt) (tt_table tt) sel
      in if sel_mode sel = ModeDynamic \<and> tt_db tt = [] \<and> o_status oc = StatusInvalid then
           (ActionSkip, s\<lparr>ts_unresolved := (case ts_unresolved s of Some n \<Rightarrow> Some n | None \<Rightarrow> Some (tt_table tt))\<rparr>)
         else let (d, rewrites) = decide_table tt oc (ts_rewrites s) in (d, s\<lparr>ts_rewrites := rewrites\<rparr>))"

definition decide_si_table ::
    "engine \<Rightarrow> selection \<Rightarrow> table_state \<Rightarrow> table_target \<Rightarrow> si_table \<Rightarrow> table_decision \<times> table_state" where
  "decide_si_table e sel s tt tbl =
     (case si_decision quote_identifier e tt tbl (get_storage_integrity (sel_dynamic sel)) (ts_rewrites s) of
        Inl err \<Rightarrow> (ActionSkip, s\<lparr>ts_error := Some err\<rparr>)
      | Inr (d, rewrites) \<Rightarrow> (d, s\<lparr>ts_rewrites := rewrites\<rparr>))"

definition decide_select_table :: "engine \<Rightarrow> selection \<Rightarrow> table_state \<Rightarrow> table_target \<Rightarrow> table_decision \<times> table_state" where
  "decide_select_table e sel s tt0 =
     (case (if si_active sel then semantic_table_target tt0 else Inr tt0) of
        Inl err \<Rightarrow> (ActionSkip, s\<lparr>ts_error := Some err\<rparr>)
      | Inr tt \<Rightarrow>
          (case (if sel_mode sel = ModeDynamic then lookup_storage_integrity (tt_db tt) (tt_table tt) (sel_dynamic sel)
                 else None) of
             Some (tbl, _) \<Rightarrow> decide_si_table e sel s tt tbl
           | None \<Rightarrow> decide_resolved_table sel s tt))"

text \<open>The tables rewritten, the options applied; the tree of a refusal is the one before.\<close>

definition finish_select :: "rewrite_option list \<Rightarrow> json \<Rightarrow> engine_error + json" where
  "finish_select opts tree = bind_result (apply_options opts tree) force_global_for_remote_asymmetry"

definition rewrite_tables :: "engine \<Rightarrow> rewrite_option list \<Rightarrow> selection \<Rightarrow> json \<Rightarrow> response \<Rightarrow> engine_error + json \<times> response" where
  "rewrite_tables e opts sel ast resp =
     bind_result
       (rewrite_select_tables (decide_select_table e sel) ast
          \<lparr>ts_rewrites = r_table_rewrites resp, ts_error = None, ts_unresolved = None\<rparr>)
       (\<lambda>(tree, s).
          let done' = resp\<lparr>r_table_rewrites := ts_rewrites s\<rparr>
          in case (ts_error s, ts_unresolved s) of
               (Some err, _) \<Rightarrow> Inl err
             | (None, Some name) \<Rightarrow>
                 Inr (ast, refuse CodeInvalidRewriteRequest (unresolved_unqualified_table_message name) done')
             | (None, None) \<Rightarrow> map_sum id (\<lambda>final. (final, done')) (finish_select opts tree))"

section \<open>The pipeline\<close>

definition select_resp :: "engine \<Rightarrow> rewrite_option list \<Rightarrow> selection \<Rightarrow> table_target list \<Rightarrow> response" where
  "select_resp e opts sel originals =
     (new_write_resp StSelect)
       \<lparr>r_failed_cte_aliases := all_failed_aliases e opts, r_accessed := build_accessed originals sel\<rparr>"

definition rewrite_checked_select :: "engine \<Rightarrow> rewrite_option list \<Rightarrow> selection \<Rightarrow> json \<Rightarrow> response \<Rightarrow> engine_error + json \<times> response" where
  "rewrite_checked_select e opts sel ast resp =
     (case rewrite_string_lookups sel ast resp of
        (True, tree, refused) \<Rightarrow> Inr (tree, refused)
      | (False, tree, resp') \<Rightarrow> rewrite_tables e opts sel tree resp')"

definition rewrite_select_core :: "engine \<Rightarrow> json \<Rightarrow> rewrite_option list \<Rightarrow> gostring \<Rightarrow> engine_error + json \<times> response" where
  "rewrite_select_core e ast0 opts sql =
     (let sel = find_active opts
      in bind_result (inject_options e opts ast0) (\<lambda>ast.
         bind_result (select_originals sel ast) (\<lambda>originals.
         bind_result (dynamic_select_check e ast sql sel originals (select_resp e opts sel originals)) (\<lambda>(refused, resp).
           if refused then Inr (ast, resp) else rewrite_checked_select e opts sel ast resp))))"

definition rewrite_select :: "engine \<Rightarrow> json \<Rightarrow> rewrite_option list \<Rightarrow> gostring \<Rightarrow> engine_error + response" where
  "rewrite_select e ast opts sql =
     bind_result (rewrite_select_core e ast opts sql) (\<lambda>(rewritten, resp).
       if r_code resp \<noteq> CodeSuccess then Inr (clear_on_unresolved resp)
       else map_sum id (\<lambda>out. echo out resp) (e_generate e rewritten))"

end
