(* ===== verification/Mutation_Reads.thy ===== *)
theory Mutation_Reads
  imports Node_Collect Drop_Grammar
begin

text \<open>
  The reads of a mutation (\<open>engine/mutation_reads.go\<close>). A structured \<open>UPDATE\<close> or \<open>DELETE\<close> is read from its tree. The
  action of an \<open>ALTER TABLE\<close> is opaque to the parser: its text after the action keyword is put behind a sentinel
  table as an \<open>UPDATE\<close> or a \<open>DELETE\<close> of its own. Either tree counts only when its regeneration has the tokens of the
  text it was parsed from. An error means that the reads are not known, and its handler refuses the statement.
\<close>

section \<open>The exact round trip\<close>

definition probe_tokens_equal :: "raw_token \<Rightarrow> raw_token \<Rightarrow> bool" where
  "probe_tokens_equal want got \<longleftrightarrow>
     tk_type want = tk_type got \<and>
     (tk_text want = tk_text got \<or>
      mutation_probe_keyword_token want \<and> mutation_probe_keyword_token got \<and> equal_fold (tk_text want) (tk_text got))"

definition covers_text :: "gostring \<Rightarrow> raw_token list \<Rightarrow> bool" where
  "covers_text probe toks \<longleftrightarrow> toks \<noteq> [] \<and> tk_end (last toks) = length (trim_right_space probe)"

text \<open>\<open>None\<close> when the regeneration is exact.\<close>

definition mutation_round_trip :: "engine \<Rightarrow> gostring \<Rightarrow> json \<Rightarrow> engine_error option" where
  "mutation_round_trip e probe ast =
     (case e_generate e ast of
        Inl err \<Rightarrow> Some err
      | Inr generated \<Rightarrow>
          (case (tokenize_raw e probe, tokenize_raw e generated) of
             (Inl err, _) \<Rightarrow> Some err
           | (Inr want, Inl err) \<Rightarrow> Some err
           | (Inr want, Inr got) \<Rightarrow>
               if \<not> covers_text probe want then Some (MutationUnproven ''tokenizer did not consume the complete input'')
               else if length want \<noteq> length got then Some (MutationUnproven ''probe lost tokens'')
               else if \<not> list_all2 probe_tokens_equal want got then Some (MutationUnproven ''token changed'')
               else None))"

section \<open>The reads of an expression\<close>

definition mutation_read_of :: "read_event \<Rightarrow> mutation_read list" where
  "mutation_read_of ev =
     (case ev of
        SeenTable _ tt \<Rightarrow> [MutationTable tt]
      | SeenNamespace d \<Rightarrow> [MutationNamespace (ref_with_origins d)]
      | SeenInTable d \<Rightarrow>
          if rd_table_origin d = OriginIdentifier \<and> tt_table (nr_target (rd_ref d)) \<noteq> []
          then [MutationTable (nr_target (rd_ref d))] else []
      | _ \<Rightarrow> [])"

definition collect_mutation_expression :: "json \<Rightarrow> engine_error + mutation_read list" where
  "collect_mutation_expression node =
     map_sum id (\<lambda>evs. concat (map (mutation_read_of \<circ> snd) evs)) (walk (Suc (size node)) WalkExpression unbound_scope node)"

record mutation_surface =
  ms_assignments :: "mutation_read list"
  ms_predicate :: "mutation_read list"

definition no_surface :: mutation_surface where
  "no_surface = \<lparr>ms_assignments = [], ms_predicate = []\<rparr>"

text \<open>The value of one assignment, which is a pair with a name on the left.\<close>

definition assignment_value :: "json \<Rightarrow> json option" where
  "assignment_value a =
     (case a of
        JArray [name, v] \<Rightarrow> if concrete_identifier_name name \<noteq> [] then Some v else None
      | _ \<Rightarrow> None)"

definition assignment_reads :: "json \<Rightarrow> engine_error + mutation_read list" where
  "assignment_reads a =
     (case assignment_value a of
        None \<Rightarrow> Inl (MutationUnproven ''UPDATE assignment has an unproven shape'')
      | Some v \<Rightarrow> collect_mutation_expression v)"

definition structured_mutation_surface :: "gostring \<Rightarrow> json \<Rightarrow> engine_error + mutation_surface" where
  "structured_mutation_surface kind body =
     (let sets = elements (field ''set'' body);
          assigned = (if kind \<noteq> NodeUpdate then Inr []
                      else if sets = [] then Inl (MutationUnproven ''UPDATE mutation has no proven assignments'')
                      else sum_concat (map assignment_reads sets));
          where' = field ''where_clause'' body
      in case assigned of
           Inl err \<Rightarrow> Inl err
         | Inr reads \<Rightarrow>
             if where' = JNull then Inr \<lparr>ms_assignments = reads, ms_predicate = []\<rparr>
             else map_sum id (\<lambda>p. \<lparr>ms_assignments = reads, ms_predicate = p\<rparr>) (collect_mutation_expression where'))"

section \<open>The action of an ALTER TABLE\<close>

definition mutation_probe_table :: gostring where
  "mutation_probe_table = ''__hg_si_probe''"

definition skip_words :: "gostring list \<Rightarrow> raw_token list \<Rightarrow> raw_token list" where
  "skip_words ws toks =
     (if length ws \<le> length toks \<and> list_all2 (\<lambda>t w. token_text_is t w) (take (length ws) toks) ws
      then drop (length ws) toks else toks)"

definition mutation_cluster_token :: "raw_token \<Rightarrow> bool" where
  "mutation_cluster_token tok \<longleftrightarrow> is_name_tok (tk_type tok) \<or> tk_type tok = ''STRING''"

definition skip_mutation_cluster :: "raw_token list \<Rightarrow> raw_token list" where
  "skip_mutation_cluster toks =
     (case toks of
        a # b # c # rest \<Rightarrow>
          if token_text_is a ''ON'' \<and> token_text_is b ''CLUSTER'' \<and> mutation_cluster_token c then rest else toks
      | _ \<Rightarrow> toks)"

text \<open>The node kind the action stands for, and where its text begins.\<close>

definition alter_mutation_tail :: "raw_token list \<Rightarrow> (gostring \<times> nat) option" where
  "alter_mutation_tail toks =
     (case toks of
        a # t # rest \<Rightarrow>
          if length toks < 4 \<or> \<not> token_text_is a ''ALTER'' \<or> \<not> token_text_is t ''TABLE'' then None
          else (case consume_mutation_qualified_name (skip_words [''IF'', ''EXISTS''] rest) of
                  None \<Rightarrow> None
                | Some after \<Rightarrow>
                    (case skip_mutation_cluster after of
                       [] \<Rightarrow> None
                     | action # _ \<Rightarrow>
                         if token_text_is action ''UPDATE'' then Some (NodeUpdate, tk_end action)
                         else if token_text_is action ''DELETE'' then Some (NodeDelete, tk_end action)
                         else None))
      | _ \<Rightarrow> None)"

definition mutation_probe :: "gostring \<Rightarrow> gostring \<Rightarrow> gostring" where
  "mutation_probe kind tail =
     (if kind = NodeDelete then ''DELETE FROM '' @ mutation_probe_table @ '' '' @ tail
      else ''UPDATE '' @ mutation_probe_table @ '' SET '' @ tail)"

text \<open>The parsed probe, when it is of the kind asked for and its target is exactly the sentinel.\<close>

definition probe_body :: "gostring \<Rightarrow> json \<Rightarrow> engine_error + json" where
  "probe_body kind ast =
     (case body_of ast of
        Inl err \<Rightarrow> Inl err
      | Inr (k, None) \<Rightarrow> Inl (MutationUnproven ''probe kind'')
      | Inr (k, Some body) \<Rightarrow>
          (let tt = decode_table_target (field ''table'' body)
           in if k \<noteq> kind then Inl (MutationUnproven ''probe kind'')
              else if tt_db tt \<noteq> [] \<or> tt_table tt \<noteq> mutation_probe_table \<or> tt_alias tt \<noteq> [] then
                Inl (MutationUnproven ''probe target is not the exact sentinel'')
              else if kind = NodeDelete \<and> field ''where_clause'' body = JNull then
                Inl (MutationUnproven ''DELETE probe lost its predicate'')
              else Inr body))"

definition probed_surface :: "engine \<Rightarrow> gostring \<Rightarrow> gostring \<Rightarrow> engine_error + mutation_surface" where
  "probed_surface e kind tail =
     (case e_parse_one e (mutation_probe kind tail) of
        Inl err \<Rightarrow> Inl err
      | Inr ast \<Rightarrow>
          (case probe_body kind ast of
             Inl err \<Rightarrow> Inl err
           | Inr body \<Rightarrow>
               (case mutation_round_trip e (mutation_probe kind tail) ast of
                  Some err \<Rightarrow> Inl err
                | None \<Rightarrow> structured_mutation_surface kind body)))"

text \<open>\<open>collectAlterMutationSurface\<close> and the check of its callers that it applied.\<close>

definition alter_mutation_surface :: "engine \<Rightarrow> gostring \<Rightarrow> engine_error + mutation_surface" where
  "alter_mutation_surface e sql =
     (case tokenize_raw e sql of
        Inl err \<Rightarrow> Inl err
      | Inr toks \<Rightarrow>
          (case alter_mutation_tail toks of
             None \<Rightarrow> Inl (MutationUnproven ''probe did not match source grammar'')
           | Some (kind, start) \<Rightarrow>
               (let tail = trim_space (drop start sql)
                in if tail = [] then Inl (MutationUnproven ''ALTER mutation action tail is empty'')
                   else probed_surface e kind tail)))"

section \<open>A statement\<close>

definition mutation_tag :: "gostring \<Rightarrow> bool" where
  "mutation_tag w \<longleftrightarrow> equal_fold w ''UPDATE'' \<or> equal_fold w ''DELETE''"

definition mutation_action :: "json \<Rightarrow> bool" where
  "mutation_action action \<longleftrightarrow>
     list_ex (\<lambda>(tag, payload).
       mutation_tag tag \<or>
       equal_fold tag ''RAW'' \<and>
       mutation_tag (takeWhile (\<lambda>c. c \<noteq> CHR '' '') (trim_space (json_string (field ''sql'' payload))))) (members action)"

definition alter_body_has_mutation :: "json \<Rightarrow> bool" where
  "alter_body_has_mutation body \<longleftrightarrow> list_ex mutation_action (elements (field ''actions'' body))"

definition exact_structured_surface :: "engine \<Rightarrow> gostring \<Rightarrow> json \<Rightarrow> gostring \<Rightarrow> json \<Rightarrow> engine_error + mutation_surface" where
  "exact_structured_surface e kind ast sql body =
     (if trim_space sql = [] then Inl (MutationUnproven ''mutation source SQL is required'')
      else case mutation_round_trip e sql ast of
             Some err \<Rightarrow> Inl err
           | None \<Rightarrow> structured_mutation_surface kind body)"

definition collect_mutation_read_surface :: "engine \<Rightarrow> json \<Rightarrow> gostring \<Rightarrow> engine_error + mutation_surface" where
  "collect_mutation_read_surface e ast sql =
     (case body_of ast of
        Inl err \<Rightarrow> Inl err
      | Inr (kind, None) \<Rightarrow> Inr no_surface
      | Inr (kind, Some body) \<Rightarrow>
          if kind = NodeUpdate \<or> kind = NodeDelete then exact_structured_surface e kind ast sql body
          else if kind = NodeCommand then
            (let raw = json_string (field ''this'' body)
             in if classify_write_command raw \<noteq> CmdAlterUpdate then Inr no_surface
                else alter_mutation_surface e (if trim_space sql = [] then raw else sql))
          else if kind = NodeAlterTable then
            (if \<not> alter_body_has_mutation body then Inr no_surface
             else if trim_space sql = [] then Inl (MutationUnproven ''ALTER mutation source SQL is required'')
             else alter_mutation_surface e sql)
          else Inr no_surface)"

text \<open>The reads in the order the write handler inspects them.\<close>

definition mutation_reads :: "engine \<Rightarrow> json \<Rightarrow> gostring \<Rightarrow> engine_error + mutation_read list" where
  "mutation_reads e ast sql = map_sum id (\<lambda>s. ms_assignments s @ ms_predicate s) (collect_mutation_read_surface e ast sql)"

end
