(* ===== verification/Pipeline.thy ===== *)
theory Pipeline
  imports Select_Core Mutation_Reads Object_Target Fidelity Create_Forms Error_Session
begin

text \<open>
  The rewrite pipeline of \<open>native.go\<close>: \<open>doRewrite\<close> with the two CREATE forms it normalises, the stages of
  \<open>rewriteStatement\<close> in their order, and \<open>finalize\<close>, through which every handled response leaves. The preflight, the
  handlers of the writes, the grants, the database-level statements and the read side are those of this development.
  The record \<open>stages\<close> holds what is not: Unicode upper case (\<open>unicode.ToUpper\<close>), the texts of the errors, and the
  token-level name collector and live-view grammar of \<open>engine/lexical.go\<close>. A run-time panic of the code is an error value here that no stage turns into a response.
\<close>

section \<open>The stages that are parameters\<close>

type_synonym handler = "engine \<Rightarrow> json \<Rightarrow> gostring \<Rightarrow> rewrite_option list \<Rightarrow> engine_error + response option"

record stages =
  st_upper :: "gostring \<Rightarrow> gostring"
  st_error_text :: "engine_error \<Rightarrow> gostring"
  st_config_text :: "config_error \<Rightarrow> gostring"
  st_name_refs :: "engine \<Rightarrow> json \<Rightarrow> gostring \<Rightarrow> engine_error + name_ref list"
  st_live_view :: "engine \<Rightarrow> json \<Rightarrow> gostring \<Rightarrow> engine_error + bool"

text \<open>The checks of a write, with the collectors of the engine.\<close>

definition write_checks :: preflight_checks where
  "write_checks =
     \<lparr>pc_functions = collect_table_function_targets, pc_mutation = mutation_reads,
      pc_namespaces = collect_namespace_and_in_table_refs, pc_carriers = reject_disallowed_carriers,
      pc_ungoverned = reject_ungoverned_reads\<rparr>"

definition is_panic :: "engine_error \<Rightarrow> bool" where
  "is_panic err \<longleftrightarrow> (case err of SliceOutOfRange _ _ \<Rightarrow> True | NilMapWrite \<Rightarrow> True | _ \<Rightarrow> False)"

section \<open>Leaving the pipeline\<close>

text \<open>What a response leaves with that is not a Success.\<close>

definition finish_reject ::
    "stages \<Rightarrow> engine \<Rightarrow> json \<Rightarrow> gostring \<Rightarrow> contract_version \<Rightarrow> selection \<Rightarrow> response \<Rightarrow> response" where
  "finish_reject st e ast sql version sel resp =
     (let cleared = resp\<lparr>r_statement_type := StUnspecified\<rparr>;
          echoed = (if r_sql_after_rewrite cleared = [] then echo sql cleared else cleared)
      in if version \<noteq> ContractUnspecified
         then annotate_si_reject (st_name_refs st) collect_select_tables e echoed ast sql sel else echoed)"

text \<open>The gates of a Success, the last of them in dynamic mode only; a gate that fails answers the refusal.\<close>

definition identity_gate :: "engine \<Rightarrow> json \<Rightarrow> gostring \<Rightarrow> selection \<Rightarrow> gostring option" where
  "identity_gate e ast sql sel =
     (if sel_mode sel \<noteq> ModeDynamic then None
      else case first_deployment_identity_name e ast sql of
             Inl _ \<Rightarrow> Some unsupported_statement_message
           | Inr (Some name) \<Rightarrow> Some (function_not_accessible_message name)
           | Inr None \<Rightarrow> None)"

definition finalize ::
    "stages \<Rightarrow> engine \<Rightarrow> json \<Rightarrow> gostring \<Rightarrow> existence_clause \<Rightarrow> contract_version \<Rightarrow> selection \<Rightarrow> response \<Rightarrow>
     engine_error + response" where
  "finalize st e ast sql ec version sel resp0 =
     (let resp = resp0\<lparr>r_existence_clause := ec, r_si_contract_version := version\<rparr>;
          reject = finish_reject st e ast sql version sel
      in if r_code resp \<noteq> CodeSuccess then Inr (reject resp)
         else case reject_system_tables_on_success collect_object_refs e ast sql sel resp of
                (True, refused) \<Rightarrow> Inr (reject refused)
              | (False, checked) \<Rightarrow>
                  (case check_regenerated (st_upper st) e sql ast of
                     Some err \<Rightarrow>
                       if is_panic err then Inl err
                       else Inr (reject (echo sql (refuse CodeUnsupportedStatement unsupported_statement_message checked)))
                   | None \<Rightarrow>
                       (case identity_gate e ast sql sel of
                          None \<Rightarrow> Inr checked
                        | Some msg \<Rightarrow> Inr (reject (echo sql (refuse CodeUnsupportedStatement msg checked))))))"

text \<open>\<open>sealStorageIntegrityHandlerError\<close>.\<close>

definition seal_handler_error ::
    "stages \<Rightarrow> engine \<Rightarrow> json \<Rightarrow> gostring \<Rightarrow> existence_clause \<Rightarrow> contract_version \<Rightarrow> selection \<Rightarrow> response \<Rightarrow>
     engine_error \<Rightarrow> engine_error + response" where
  "seal_handler_error st e ast sql ec version sel resp err =
     (if is_panic err then Inl err
      else if version = ContractUnspecified then
        (if sel_mode sel \<noteq> ModeDynamic then Inl err
         else finalize st e ast sql ec version sel (refuse CodeUnsupportedStatement unsupported_statement_message resp))
      else finalize st e ast sql ec version sel (refuse CodeUnsupportedStatement si_unmodelled_message resp))"

section \<open>The request\<close>

definition si_contract_message :: gostring where
  "si_contract_message = ''storage-integrity contract version V1 or V2 is required''"

text \<open>The version the response is stamped with, and the message of an invalid request.\<close>

definition check_request :: "stages \<Rightarrow> selection \<Rightarrow> contract_version \<times> gostring option" where
  "check_request st sel =
     (let dyn = sel_dynamic sel; version = get_contract_version (get_storage_integrity dyn);
          databases = map_option (st_config_text st) (validate_protected_databases dyn)
      in if sel_mode sel \<noteq> ModeDynamic then (ContractUnspecified, None)
         else if \<not> storage_integrity_surface_active dyn then (ContractUnspecified, databases)
         else if version \<notin> {ContractV1, ContractV2} then (ContractUnspecified, Some si_contract_message)
         else case validate_storage_integrity dyn of
                Some err \<Rightarrow> (ContractUnspecified, Some (st_config_text st err))
              | None \<Rightarrow> (version, databases))"

definition initial_response :: "gostring \<Rightarrow> contract_version \<Rightarrow> response" where
  "initial_response sql version =
     (new_write_resp StUnspecified)\<lparr>r_message := [], r_sql_after_rewrite := sql, r_si_contract_version := version\<rparr>"

definition existence_of :: "json \<Rightarrow> existence_clause" where
  "existence_of ast =
     (case existence_clause_of ast of
        Inl _ \<Rightarrow> ExistenceUnspecified
      | Inr (notExists, exists) \<Rightarrow>
          if notExists then ExistenceIfNotExists else if exists then ExistenceIfExists else ExistenceUnspecified)"

section \<open>The handlers in their order\<close>

definition handlers_of :: "stages \<Rightarrow> handler list" where
  "handlers_of st =
     [preflight_table_references, \<lambda>e. rewrite_write (rewrite_select_core e) (preflight_si_write write_checks) e,
      rewrite_db_level collect_select_tables, rewrite_describe collect_select_tables, rewrite_exists_show_create,
      rewrite_grant]"

fun first_handled :: "handler list \<Rightarrow> handler" where
  "first_handled [] e ast sql opts = Inr None"
| "first_handled (h # hs) e ast sql opts =
     (case h e ast sql opts of
        Inl err \<Rightarrow> Inl err
      | Inr (Some resp) \<Rightarrow> Inr (Some resp)
      | Inr None \<Rightarrow> first_handled hs e ast sql opts)"

definition is_read_kind :: "json \<Rightarrow> bool" where
  "is_read_kind ast \<longleftrightarrow> node_kind ast \<in> Inr ` {NodeSelect, NodeUnion, NodeIntersect, NodeExcept}"

definition handle :: "stages \<Rightarrow> handler" where
  "handle st e ast sql opts =
     (case first_handled (handlers_of st) e ast sql opts of
        Inr None \<Rightarrow>
          if is_read_kind ast then map_sum id Some (rewrite_select e ast opts sql) else Inr None
      | other \<Rightarrow> other)"

section \<open>Statements no handler models\<close>

definition session_set :: "engine \<Rightarrow> json \<Rightarrow> set_check" where
  "session_set e ast =
     (if node_kind ast \<noteq> Inr NodeCommand then NotASet
      else check_session_set e (case command_sql ast of Inr text \<Rightarrow> text | Inl _ \<Rightarrow> []))"

definition unmodelled_refusal :: "engine \<Rightarrow> json \<Rightarrow> contract_version \<Rightarrow> selection \<Rightarrow> (rewrite_code \<times> gostring) option" where
  "unmodelled_refusal e ast version sel =
     (if version \<noteq> ContractUnspecified then Some (CodeUnsupportedStatement, si_unmodelled_message)
      else if sel_mode sel \<noteq> ModeDynamic then None
      else case session_set e ast of
             NotASet \<Rightarrow> Some (CodeUnsupportedStatement, unsupported_statement_message)
           | SetRefused code msg \<Rightarrow> Some (code, msg)
           | SetAdmitted \<Rightarrow> None)"

definition unmodelled :: "engine \<Rightarrow> json \<Rightarrow> contract_version \<Rightarrow> selection \<Rightarrow> response \<Rightarrow> response" where
  "unmodelled e ast version sel resp =
     (case unmodelled_refusal e ast version sel of
        Some (code, msg) \<Rightarrow> refuse code msg resp
      | None \<Rightarrow>
          refuse CodeSuccess ''success''
            (case e_generate e ast of Inr gen \<Rightarrow> if gen \<noteq> [] then echo gen resp else resp | Inl _ \<Rightarrow> resp))"

section \<open>One statement\<close>

text \<open>The two gates before any policy: the message of the refusal.\<close>

definition statement_gates :: "stages \<Rightarrow> engine \<Rightarrow> json \<Rightarrow> gostring \<Rightarrow> contract_version \<Rightarrow> gostring option" where
  "statement_gates st e ast sql version =
     (if version \<noteq> ContractUnspecified \<and> st_live_view st e ast sql \<noteq> Inr False then Some si_unmodelled_message
      else if check_parsed_in_full e sql ast \<noteq> None then Some unsupported_statement_message
      else None)"

definition rewrite_parsed ::
    "stages \<Rightarrow> engine \<Rightarrow> json \<Rightarrow> gostring \<Rightarrow> rewrite_option list \<Rightarrow> contract_version \<Rightarrow> response \<Rightarrow>
     engine_error + response" where
  "rewrite_parsed st e ast sql opts version resp0 =
     (let sel = find_active opts; ec = existence_of ast; resp = resp0\<lparr>r_statement_type := classify ast\<rparr>;
          leave = finalize st e ast sql ec version sel
      in case statement_gates st e ast sql version of
           Some msg \<Rightarrow> leave (refuse CodeUnsupportedStatement msg resp)
         | None \<Rightarrow>
             (case handle st e ast sql opts of
                Inl err \<Rightarrow> seal_handler_error st e ast sql ec version sel resp err
              | Inr (Some handled) \<Rightarrow> leave handled
              | Inr None \<Rightarrow> leave (unmodelled e ast version sel resp)))"

definition rewrite_statement :: "stages \<Rightarrow> engine \<Rightarrow> gostring \<Rightarrow> rewrite_option list \<Rightarrow> engine_error + response" where
  "rewrite_statement st e sql opts =
     (let (version, invalid) = check_request st (find_active opts); resp = initial_response sql version
      in case invalid of
           Some msg \<Rightarrow> Inr (refuse CodeInvalidRewriteRequest msg resp)
         | None \<Rightarrow>
             (case e_parse_one e sql of
                Inl err \<Rightarrow> Inr (refuse CodeSyntaxError (st_error_text st err) resp)
              | Inr ast \<Rightarrow> rewrite_parsed st e ast sql opts version resp))"

section \<open>The CREATE forms\<close>

datatype pipeline_error =
  HandlerError engine_error | EmptyNotRestored empty_error | EmptyNotRead engine_error | ViewCommentNotRestored

definition seal_create_form ::
    "gostring \<Rightarrow> rewrite_option list \<Rightarrow> pipeline_error \<Rightarrow> response \<Rightarrow> pipeline_error + response" where
  "seal_create_form sql opts cause resp =
     (if sel_mode (find_active opts) \<noteq> ModeDynamic then Inl cause
      else Inr ((new_write_resp StUnspecified)
             \<lparr>r_code := CodeUnsupportedStatement,
              r_message := (if r_si_contract_version resp \<noteq> ContractUnspecified then si_unmodelled_message
                            else unsupported_statement_message),
              r_sql_after_rewrite := sql, r_existence_clause := r_existence_clause resp,
              r_si_contract_version := r_si_contract_version resp\<rparr>))"

text \<open>Rewrite \<open>text\<close>, put back what was taken off, and echo the caller's SQL on a rejection.\<close>

definition rewrite_form ::
    "stages \<Rightarrow> engine \<Rightarrow> gostring \<Rightarrow> rewrite_option list \<Rightarrow> gostring \<Rightarrow> (gostring \<Rightarrow> pipeline_error + gostring) \<Rightarrow>
     pipeline_error + response" where
  "rewrite_form st e sql opts text put_back =
     (case rewrite_statement st e text opts of
        Inl err \<Rightarrow> Inl (HandlerError err)
      | Inr resp \<Rightarrow>
          if r_code resp \<noteq> CodeSuccess then Inr (echo sql resp)
          else case put_back (r_sql_after_rewrite resp) of
                 Inr out \<Rightarrow> Inr (echo out resp)
               | Inl cause \<Rightarrow> seal_create_form sql opts cause resp)"

definition do_rewrite :: "stages \<Rightarrow> engine \<Rightarrow> gostring \<Rightarrow> rewrite_option list \<Rightarrow> pipeline_error + response" where
  "do_rewrite st e sql opts =
     (case strip_view_comment e sql of
        Some (stripped, comment) \<Rightarrow>
          rewrite_form st e sql opts stripped
            (\<lambda>out. case append_view_comment out comment of Some t \<Rightarrow> Inr t | None \<Rightarrow> Inl ViewCommentNotRestored)
      | None \<Rightarrow>
          (case strip_create_table_empty e sql of
             NotEmptyForm \<Rightarrow> map_sum HandlerError id (rewrite_statement st e sql opts)
           | StrippedEmpty stripped \<Rightarrow>
               rewrite_form st e sql opts stripped (\<lambda>out. map_sum EmptyNotRestored id (insert_create_table_empty e out))
           | StripFailed err \<Rightarrow> rewrite_form st e sql opts sql (\<lambda>_. Inl (EmptyNotRead err))))"

section \<open>The connection\<close>

text \<open>\<open>NativeRewriter.Rewrite\<close> with the account's options, and the sessions it can reach.\<close>

definition connection_rewrite ::
    "stages \<Rightarrow> engine \<Rightarrow> (gostring \<Rightarrow> rewrite_option list) \<Rightarrow> gostring \<Rightarrow> gostring \<Rightarrow> session \<Rightarrow> session" where
  "connection_rewrite st e options sql account s =
     (case do_rewrite st e sql (options account) of
        Inl _ \<Rightarrow> s
      | Inr resp \<Rightarrow> stash sql account (options account) resp s)"

inductive reachable :: "stages \<Rightarrow> engine \<Rightarrow> (gostring \<Rightarrow> rewrite_option list) \<Rightarrow> session \<Rightarrow> bool"
  for st e options where
  fresh: "reachable st e options new_session"
| rewrite: "reachable st e options s \<Longrightarrow> reachable st e options (connection_rewrite st e options sql account s)"
| closed: "reachable st e options s \<Longrightarrow> reachable st e options (session_close s)"

end
