(* ===== verification/Check_Facts.thy ===== *)
theory Check_Facts
  imports Preflight Object_Facts
begin

text \<open>
  The contract of a check of \<open>handlers/preflight.go\<close> and its instances. A check that passes gives the response back
  as it was, one that refuses leaves a code other than Success, and neither touches the rewritten text; a sequence of
  checks keeps the contract and passes exactly when each of them does.
\<close>

section \<open>The contract\<close>

locale lawful_check =
  fixes check :: check
  assumes passes_unchanged: "check resp = Inr (False, resp') \<Longrightarrow> resp' = resp"
    and refuses_coded: "check resp = Inr (True, resp') \<Longrightarrow> r_code resp' \<noteq> CodeSuccess"
    and keeps_resp_text: "check resp = Inr (b, resp') \<Longrightarrow> r_sql_after_rewrite resp' = r_sql_after_rewrite resp"
begin

lemma Success_passes: "check resp = Inr (b, resp') \<Longrightarrow> r_code resp' = CodeSuccess \<Longrightarrow> \<not> b \<and> resp' = resp"
  using passes_unchanged refuses_coded by (cases b) auto

lemma text_ok_check: "check resp = Inr (b, resp') \<Longrightarrow> r_sql_after_rewrite resp = [] \<Longrightarrow> text_ok sql resp'"
  using keeps_resp_text by (simp add: text_ok_empty)

end

definition passes :: "check \<Rightarrow> response \<Rightarrow> bool" where
  "passes c resp \<longleftrightarrow> c resp = Inr (False, resp)"

section \<open>Building checks\<close>

named_theorems lawful

lemma lawful_refuse_with [lawful]:
  "(\<And>code msg. verdict = Some (code, msg) \<Longrightarrow> code \<noteq> CodeSuccess) \<Longrightarrow> lawful_check (refuse_with verdict)"
  by unfold_locales (auto simp: refuse_with_def keeps_text split: option.splits)

lemma lawful_unsupported [lawful]: "lawful_check (unsupported msg)"
  by (auto simp: unsupported_def intro: lawful)

lemma lawful_unsupported_if [lawful]: "lawful_check (unsupported_if b)"
  by (simp add: unsupported_if_def lawful)

lemma lawful_with_result [lawful]: "(\<And>x. r = Inr x \<Longrightarrow> lawful_check (f x)) \<Longrightarrow> lawful_check (with_result r f)"
  by unfold_locales
    (auto simp: with_result_def split: sum.splits dest: lawful_check.passes_unchanged lawful_check.refuses_coded
      lawful_check.keeps_resp_text)

lemma run_checks_passes:
  "(\<And>c. c \<in> set cs \<Longrightarrow> lawful_check c) \<Longrightarrow> run_checks cs resp = Inr (False, resp') \<longleftrightarrow> resp' = resp \<and> (\<forall>c \<in> set cs. passes c resp)"
proof (induction cs arbitrary: resp)
  case (Cons c cs)
  show ?case
  proof (cases "c resp")
    case (Inr p)
    show ?thesis
    proof (cases "fst p")
      case False
      then have "p = (False, resp)"
        using Cons.prems [of c] Inr lawful_check.passes_unchanged [of c resp "snd p"] by (cases p) auto
      then show ?thesis using Cons Inr by (auto simp: passes_def)
    qed (use Inr in \<open>cases p, auto simp: passes_def\<close>)
  qed (simp add: passes_def)
qed auto

lemma run_checks_refuses:
  "(\<And>c. c \<in> set cs \<Longrightarrow> lawful_check c) \<Longrightarrow> run_checks cs resp = Inr (b, resp') \<Longrightarrow>
     r_sql_after_rewrite resp' = r_sql_after_rewrite resp \<and> (b \<longrightarrow> r_code resp' \<noteq> CodeSuccess)"
proof (induction cs arbitrary: resp)
  case (Cons c cs)
  have lc: "lawful_check c" using Cons.prems(1) by simp
  obtain p where p: "c resp = Inr p" using Cons.prems(2) by (cases "c resp") auto
  obtain b' r where br: "p = (b', r)" by fastforce
  note texts = lawful_check.keeps_resp_text [OF lc p [unfolded br]]
  show ?case
  proof (cases b')
    case True
    then show ?thesis using Cons.prems(2) p br texts lawful_check.refuses_coded [OF lc] by auto
  next
    case False
    then show ?thesis using Cons.prems Cons.IH [of r] p br texts by auto
  qed
qed auto

lemma lawful_run_checks [lawful]: "(\<And>c. c \<in> set cs \<Longrightarrow> lawful_check c) \<Longrightarrow> lawful_check (run_checks cs)"
  by unfold_locales (use run_checks_passes [of cs] run_checks_refuses [of cs] in blast)+

section \<open>The checks of the code\<close>

interpretation carriers: lawful_check "reject_disallowed_carriers e ast"
  unfolding reject_disallowed_carriers_def by (intro lawful) (auto intro!: lawful)

lemma settings_verdict_coded: "settings_verdict assignments = Some (code, msg) \<Longrightarrow> code \<noteq> CodeSuccess"
  by (induction assignments) (auto split: if_splits)

lemma lawful_settings [lawful]: "lawful_check (reject_sql_bearing_settings e ast sql)"
  unfolding reject_sql_bearing_settings_def by (intro lawful) (auto intro!: lawful dest: settings_verdict_coded)

lemma lawful_qualifiers [lawful]: "lawful_check (reject_opaque_reserved_qualifiers e ast sql sel)"
  by unfold_locales
    (auto simp: reject_opaque_reserved_qualifiers_def with_result_def refuse_qualifier_def keeps_text
      split: if_splits sum.splits option.splits)

interpretation ungoverned: lawful_check "reject_ungoverned_reads e ast sql sel"
  unfolding reject_ungoverned_reads_def by (intro lawful) (auto intro!: lawful)

section \<open>The preflight\<close>

lemma run_steps_Some: "run_steps ss = Inr (Some r) \<Longrightarrow> Inr (Answer r) \<in> set ss"
  by (induction ss) (auto split: sum.splits verdict.splits)

lemma answered_text:
  "answer_invalid sql msg = Answer r \<Longrightarrow> text_ok sql r" "answer_unsupported sql msg = Answer r \<Longrightarrow> text_ok sql r"
  "answer_check sql p = Answer r \<Longrightarrow> text_ok sql r" "answer_protected sql dyn db = Answer r \<Longrightarrow> text_ok sql r"
  "answer_lookup sql calls = Answer r \<Longrightarrow> text_ok sql r" "answer_target_call sql dyn call = Answer r \<Longrightarrow> text_ok sql r"
  by (auto simp: answer_invalid_def answer_unsupported_def answer_check_def answer_protected_def answer_lookup_def
      answer_target_call_def split: prod.splits if_splits option.splits list.splits)

lemma preflight_answer_cases:
  assumes "preflight_table_references e ast sql opts = Inr (Some r)"
  obtains "parameter_step e ast sql = Inr (Answer r)" | "unmodelled_step e ast sql (find_active opts) = Inr (Answer r)"
    | "protected_step e ast sql (find_active opts) = Inr (Answer r)" | "system_step e ast sql (find_active opts) = Inr (Answer r)"
    | c where "lawful_check c" "inactive_step sql (find_active opts) c = Inr (Answer r)"
    | "command_text_step e ast sql (find_active opts) = Inr (Answer r)"
    | "raw_lookup_step e ast sql = Inr (Answer r)" | "ast_lookup_step ast sql = Inr (Answer r)"
proof -
  let ?sel = "find_active opts"
  have "Inr (Answer r) \<in> set (preflight_steps e ast sql ?sel)"
    using assms run_steps_Some by (auto simp: preflight_table_references_def Let_def split: if_splits)
  then have "parameter_step e ast sql = Inr (Answer r) \<or> unmodelled_step e ast sql ?sel = Inr (Answer r) \<or>
      protected_step e ast sql ?sel = Inr (Answer r) \<or> system_step e ast sql ?sel = Inr (Answer r) \<or>
      inactive_step sql ?sel (reject_disallowed_carriers e ast) = Inr (Answer r) \<or>
      command_text_step e ast sql ?sel = Inr (Answer r) \<or> raw_lookup_step e ast sql = Inr (Answer r) \<or>
      ast_lookup_step ast sql = Inr (Answer r) \<or>
      inactive_step sql ?sel (reject_ungoverned_reads e ast sql ?sel) = Inr (Answer r)"
    unfolding preflight_steps_def by (simp add: eq_commute [of "Inr (Answer r)"])
  then show thesis
    using that carriers.lawful_check_axioms ungoverned.lawful_check_axioms by blast
qed

lemma preflight_text: "preflight_table_references e ast sql opts = Inr (Some r) \<Longrightarrow> text_ok sql r"
proof (erule preflight_answer_cases)
  assume "command_text_step e ast sql (find_active opts) = Inr (Answer r)"
  then show ?thesis
    by (auto simp: command_text_step_def command_text_verdict_def map_sum_def
        split: sum.splits if_splits option.splits verdict.splits intro: answered_text)
qed (auto simp: parameter_step_def unmodelled_step_def protected_step_def system_step_def inactive_step_def
    raw_lookup_step_def ast_lookup_step_def map_sum_def reject_system_table_def
    split: sum.splits if_splits option.splits prod.splits intro: answered_text)

end
