(* ===== verification/Node_Edit_Facts.thy ===== *)
theory Node_Edit_Facts
  imports Node_Collect Write_Slots_Facts "HOL-Library.Sublist"
begin

text \<open>
  The rewrite of a read changes what it decides and nothing else: paths of a tree are an addressable store, the
  decisions are asked for the tables the collector lists, in its order, and a subtree apart from every table
  expression and every operand is left as it was. The edits of the outermost \<open>SELECT\<close> read back.
\<close>

section \<open>Paths as an addressable store\<close>
















section \<open>RewriteSelectTables\<close>


definition decision_state :: "('s \<Rightarrow> table_target \<Rightarrow> table_decision \<times> 's) \<Rightarrow> table_target list \<Rightarrow> 's \<Rightarrow> 's" where
  "decision_state decide tts s = fold (\<lambda>tt s. snd (decide s tt)) tts s"

lemma rewrite_events_state:
  "snd (rewrite_events decide evs tree s) = decision_state decide (concat (map (select_table_of \<circ> snd) evs)) s"
  by (induction decide evs tree s rule: rewrite_events.induct)
    (auto simp: decision_state_def select_table_of_def split: option.split prod.split)


lemma rewrite_select_tables_Inr:
  assumes "rewrite_select_tables decide ast s = Inr (tree, s')"
  obtains evs where "decode_root ast = Inr ast" "walk_statement_objects ast = Inr evs"
    "rewrite_events decide evs ast s = (tree, s')"
    "collect_select_tables ast = Inr (concat (map (select_table_of \<circ> snd) evs))"
proof -
  have ast: "decode_root ast = Inr ast" using assms by (auto simp: rewrite_select_tables_def decode_root_def split: json.splits)
  then obtain evs where evs: "walk_statement_objects ast = Inr evs" "rewrite_events decide evs ast s = (tree, s')"
    using assms by (auto simp: rewrite_select_tables_def map_sum_def split: sum.splits)
  then show thesis using that ast by (simp add: collect_select_tables_def collect_def)
qed

lemma rewrite_select_tables_collects:
  assumes "rewrite_select_tables decide ast s = Inr (tree, s')"
  shows "\<exists>tts. collect_select_tables ast = Inr tts \<and> s' = decision_state decide tts s"
  using rewrite_select_tables_Inr [OF assms] rewrite_events_state [of decide] by (metis snd_conv)




section \<open>The outermost SELECT\<close>

lemma decimal_value_snoc: "decimal_value (ds @ [c]) = decimal_value ds * 10 + (of_char c - 48)"
  by (simp add: decimal_value_def)

lemma digit_char: "d < 10 \<Longrightarrow> is_digit_byte (char_of (48 + d :: nat)) \<and> of_char (char_of (48 + d :: nat)) - 48 = (d :: nat)"
  by (auto simp: is_digit_byte_def less_eq_char_simp less_eq_char_def)

lemma nat_text_digits: "decimal_value (nat_text n) = n \<and> list_all is_digit_byte (nat_text n) \<and> nat_text n \<noteq> []"
proof (induction n rule: nat_text.induct)
  case (1 n)
  show ?case
  proof (cases "n < 10")
    case True
    then show ?thesis
      using digit_char [of n] by (subst (1 2 3) nat_text.simps) (simp add: decimal_value_def)
  next
    case False
    have "n mod 10 < 10" by simp
    from digit_char [OF this] show ?thesis
      using False 1 by (subst (1 2 3) nat_text.simps) (simp add: decimal_value_snoc)
  qed
qed

lemma digit_not_sign: "is_digit_byte c \<Longrightarrow> c \<noteq> CHR ''-'' \<and> c \<noteq> CHR ''+''"
  by (auto simp: is_digit_byte_def less_eq_char_def)

lemma parse_int64_text:
  assumes "- (2 ^ 63) \<le> i" "i < 2 ^ 63"
  shows "parse_int64 (int_text i) = Some i"
proof (cases "i < 0")
  case True
  then show ?thesis
    using assms nat_text_digits [of "nat (- i)"] by (simp add: parse_int64_def int_text_def Let_def)
next
  case False
  obtain c cs where digits: "nat_text (nat i) = c # cs" using nat_text_digits [of "nat i"] by (cases "nat_text (nat i)") auto
  then have "is_digit_byte c" using nat_text_digits [of "nat i"] by simp
  then show ?thesis
    using assms False digit_not_sign nat_text_digits [of "nat i"] digits
    by (simp add: parse_int64_def int_text_def Let_def)
qed

lemma decode_root_object: "is_object j \<Longrightarrow> decode_root j = Inr j"
  by (auto simp: decode_root_def is_object_iff)

lemma edit_outer_select_Inr:
  assumes "edit_outer_select f ast = Inr tree"
  shows "field NodeSelect tree = f (field NodeSelect ast)" "is_object tree" "is_object (field NodeSelect ast)"
  using assms by (auto simp: edit_outer_select_def decode_root_def split: json.splits if_splits)

lemma edit_outer_select_object:
  "is_object tree \<Longrightarrow> is_object (field NodeSelect tree) \<Longrightarrow>
     edit_outer_select f tree = Inr (put NodeSelect (f (field NodeSelect tree)) tree)"
  by (simp add: edit_outer_select_def decode_root_object)

lemma get_limit_set_limit:
  assumes "set_limit n ast = Inr tree" "- (2 ^ 63) \<le> n" "n < 2 ^ 63"
  shows "get_limit tree = Inr (Some n)"
proof -
  note edited = edit_outer_select_Inr [OF assms(1) [unfolded set_limit_def]]
  have "field ''literal'' (field ''this'' (field ''limit'' (field NodeSelect tree))) =
      JObject [(''literal_type'', JString ''number''), (''value'', JString (int_text n))]"
    unfolding edited(1) field_put by (simp add: field_def num_literal_def)
  moreover have "edit_outer_select id tree = Inr (put NodeSelect (field NodeSelect tree) tree)"
    using edited(1,2) by (simp add: edit_outer_select_object)
  ultimately show ?thesis
    using parse_int64_text [OF assms(2,3)] by (simp add: get_limit_def Let_def field_def [of _ "JObject _"] json_string_def)
qed

end
