(* ===== verification/Select_Facts.thy ===== *)
theory Select_Facts
  imports Select_Core Check_Facts Node_Edit_Facts SI_Policy_Facts
begin

text \<open>
  What a rewritten \<open>SELECT\<close> has passed, at the top level and as the body of a write: every table it reads is one the
  request may read, every unqualified one resolves, every lookup it names by a string is resolved; and what the
  limit options leave behind.
\<close>

section \<open>The checks of a dynamic SELECT\<close>

lemma lawful_namespace_check [lawful]: "lawful_check (namespace_check ast sel)"
proof -
  have "lawful_check (\<lambda>resp. Inr (reject_si_namespaces sel CodeRewriteError refs resp))" for refs
  proof
    fix resp resp' b
    let ?check = "Inr (reject_si_namespaces sel CodeRewriteError refs resp) :: engine_error + bool \<times> response"
    show "resp' = resp" if "?check = Inr (False, resp')" using that by (simp add: reject_si_namespaces_pass)
    show "r_code resp' \<noteq> CodeSuccess" if "?check = Inr (True, resp')"
      using that by (auto dest: reject_si_namespaces_code)
    show "r_sql_after_rewrite resp' = r_sql_after_rewrite resp" if "?check = Inr (b, resp')"
      using that by (auto dest: reject_si_namespaces_text)
  qed
  then show ?thesis unfolding namespace_check_def by (intro lawful)
qed

lemma original_refusal_code: "original_refusal sel tt = Some (code, msg) \<Longrightarrow> code \<noteq> CodeSuccess"
  by (auto simp: original_refusal_def Let_def split: if_splits prod.splits)

lemma first_original_code: "first_some (map (original_refusal sel) tts) = Some (code, msg) \<Longrightarrow> code \<noteq> CodeSuccess"
  using first_some_Some [of "map (original_refusal sel) tts" "(code, msg)"] original_refusal_code [of sel _ code msg]
  by (metis (no_types, lifting) image_iff list.set_map)

lemma lawful_when_active [lawful]: "lawful_check c \<Longrightarrow> lawful_check (when_active sel c)"
  by unfold_locales
    (auto simp: when_active_def split: if_splits dest: lawful_check.passes_unchanged lawful_check.refuses_coded
      lawful_check.keeps_resp_text)

lemma lawful_si_query [lawful]: "lawful_check (si_query_check e ast sql sel)"
proof -
  let ?cs = "[with_result (si_table_modified e ast sql sel)
           (\<lambda>hit. refuse_with (if hit then Some (CodeRewriteError, wrapper_reject_message) else None)),
         with_result (reserved_column_hit ast sel)
           (\<lambda>hit. refuse_with (if hit then Some (CodeRewriteError, reserved_column_message (reserved_row_id (sel_dynamic sel)))
                              else None))]"
  have "lawful_check (run_checks ?cs)" by (intro lawful) (auto intro!: lawful split: if_splits)
  then show ?thesis
    by unfold_locales
      (auto simp: si_query_check_def simp del: run_checks.simps split: if_splits
        dest: lawful_check.passes_unchanged lawful_check.refuses_coded lawful_check.keeps_resp_text)
qed

definition select_checks :: "engine \<Rightarrow> json \<Rightarrow> gostring \<Rightarrow> selection \<Rightarrow> table_target list \<Rightarrow> check list" where
  "select_checks e ast sql sel originals =
     [namespace_check ast sel, when_active sel (reject_disallowed_carriers e ast),
      when_active sel (reject_ungoverned_reads e ast sql sel),
      refuse_with (first_some (map (original_refusal sel) originals)), si_query_check e ast sql sel]"

lemma lawful_select_checks: "c \<in> set (select_checks e ast sql sel originals) \<Longrightarrow> lawful_check c"
  by (auto simp: select_checks_def intro!: lawful carriers.lawful_check_axioms ungoverned.lawful_check_axioms
      dest: first_original_code)

lemma dynamic_select_check_eq:
  "dynamic_select_check e ast sql sel originals resp =
     (if sel_mode sel \<noteq> ModeDynamic then Inr (False, resp) else run_checks (select_checks e ast sql sel originals) resp)"
  unfolding dynamic_select_check_def select_checks_def by (rule refl)

interpretation select_check: lawful_check "dynamic_select_check e ast sql sel originals"
proof -
  have "lawful_check (run_checks (select_checks e ast sql sel originals))"
    by (intro lawful lawful_select_checks)
  then show "lawful_check (dynamic_select_check e ast sql sel originals)"
    by unfold_locales
      (auto simp: dynamic_select_check_eq split: if_splits
        dest: lawful_check.passes_unchanged lawful_check.refuses_coded lawful_check.keeps_resp_text)
qed

lemma select_check_passes:
  assumes "dynamic_select_check e ast sql sel originals resp = Inr (False, resp')" "sel_mode sel = ModeDynamic"
  shows "\<forall>c \<in> set (select_checks e ast sql sel originals). passes c resp"
proof -
  have "run_checks (select_checks e ast sql sel originals) resp = Inr (False, resp')"
    using assms by (simp only: dynamic_select_check_eq) simp
  then show ?thesis
    using run_checks_passes [of "select_checks e ast sql sel originals" resp resp', OF lawful_select_checks] by simp
qed

section \<open>String lookups\<close>

lemma rewrite_occurrences_keeps:
  assumes "\<And>s call. P s \<Longrightarrow> P (snd (decide s call))" "P s"
  shows "P (snd (rewrite_occurrences decide ast occs tree s))"
  using assms
proof (induction decide ast occs tree s rule: rewrite_occurrences.induct)
  case (2 decide orig p call occ tree s)
  obtain r s' where d: "decide s call = (r, s')" by fastforce
  have "P s'" using 2(3) [OF 2(4), of call] d by simp
  then show ?case using 2(1) [OF d [symmetric] _ 2(3)] 2(2) [OF d [symmetric] _ _ 2(3)] d by (cases r) auto
qed simp

lemma accept_lookup_keeps:
  "r_sql_after_rewrite (snd (accept_lookup sel resp call)) = r_sql_after_rewrite resp"
  "r_code (snd (accept_lookup sel resp call)) = r_code resp"
  by (simp_all add: accept_lookup_def Let_def keeps_text split: option.split)

lemma rewrite_string_lookups_text:
  "rewrite_string_lookups sel ast resp = (b, tree, resp') \<Longrightarrow> r_sql_after_rewrite resp' = r_sql_after_rewrite resp"
  using rewrite_occurrences_keeps [of "\<lambda>r. r_sql_after_rewrite r = r_sql_after_rewrite resp" "accept_lookup sel"]
  by (auto simp: rewrite_string_lookups_def rewrite_string_lookup_calls_def keeps_text accept_lookup_keeps
      split: if_splits option.splits) (metis snd_conv)

lemma rewrite_string_lookups_passed:
  "rewrite_string_lookups sel ast resp = (b, tree, resp') \<Longrightarrow> r_code resp' = CodeSuccess \<Longrightarrow>
     \<not> b \<and> (sel_mode sel = ModeDynamic \<longrightarrow> find (refusing_lookup sel) (string_lookup_calls ast) = None)"
  by (auto simp: rewrite_string_lookups_def split: if_splits option.splits)

section \<open>The tables\<close>

lemma decide_resolved_keeps:
  assumes "decide_resolved_table sel s tt = (d, s')"
  shows "ts_error s' = ts_error s"
    and "ts_unresolved s' = None \<Longrightarrow> ts_unresolved s = None \<and>
      \<not> (sel_mode sel = ModeDynamic \<and> tt_db tt = [] \<and> o_status (resolve (tt_db tt) (tt_table tt) sel) = StatusInvalid)"
  using assms by (auto simp: decide_resolved_table_def Let_def split: if_splits prod.splits option.splits)

lemma decide_si_keeps:
  assumes "decide_si_table e sel s tt tbl = (d, s')"
  shows "ts_error s' = None \<Longrightarrow> ts_error s = None \<and> (\<exists>body. d = ActionSubquery body)" "ts_unresolved s' = ts_unresolved s"
  using assms by (auto simp: decide_si_table_def si_decision_def Let_def map_sum_def split: sum.splits prod.splits if_splits)

text \<open>The name a decision is made for, decoded while the storage-integrity surface is active.\<close>

definition semantic_table :: "selection \<Rightarrow> table_target \<Rightarrow> engine_error + table_target" where
  "semantic_table sel tt = (if si_active sel then semantic_table_target tt else Inr tt)"

definition si_entry :: "selection \<Rightarrow> table_target \<Rightarrow> (si_table \<times> gostring) option" where
  "si_entry sel tt =
     (if sel_mode sel = ModeDynamic then lookup_storage_integrity (tt_db tt) (tt_table tt) (sel_dynamic sel) else None)"

text \<open>
  A table is settled when its name can be read and either its storage-integrity entry took its place or the name,
  if unqualified, resolves through the request.
\<close>

definition table_settled :: "selection \<Rightarrow> table_target \<Rightarrow> bool" where
  "table_settled sel tt0 \<longleftrightarrow>
     (case semantic_table sel tt0 of
        Inl _ \<Rightarrow> False
      | Inr tt \<Rightarrow>
          si_entry sel tt \<noteq> None \<or>
          \<not> (sel_mode sel = ModeDynamic \<and> tt_db tt = [] \<and> o_status (resolve (tt_db tt) (tt_table tt) sel) = StatusInvalid))"

lemma decide_select_table_eq:
  "decide_select_table e sel s tt0 =
     (case semantic_table sel tt0 of
        Inl err \<Rightarrow> (ActionSkip, s\<lparr>ts_error := Some err\<rparr>)
      | Inr tt \<Rightarrow>
          (case si_entry sel tt of
             Some (tbl, _) \<Rightarrow> decide_si_table e sel s tt tbl
           | None \<Rightarrow> decide_resolved_table sel s tt))"
  by (auto simp: decide_select_table_def semantic_table_def si_entry_def split: sum.split)

lemma decide_select_table_settled:
  assumes "ts_error (snd (decide_select_table e sel s tt)) = None" "ts_unresolved (snd (decide_select_table e sel s tt)) = None"
  shows "ts_error s = None \<and> ts_unresolved s = None \<and> table_settled sel tt"
proof (cases "semantic_table sel tt")
  case (Inr t)
  obtain d s' where run: "decide_select_table e sel s tt = (d, s')" by fastforce
  show ?thesis
  proof (cases "si_entry sel t")
    case None
    then have "decide_resolved_table sel s t = (d, s')" using run Inr by (simp add: decide_select_table_eq)
    from decide_resolved_keeps [OF this] show ?thesis
      using assms run Inr by (simp add: table_settled_def)
  next
    case (Some entry)
    then have "decide_si_table e sel s t (fst entry) = (d, s')"
      using run Inr by (cases entry) (simp add: decide_select_table_eq)
    from decide_si_keeps [OF this] show ?thesis
      using assms run Inr Some by (simp add: table_settled_def)
  qed
qed (use assms in \<open>simp add: decide_select_table_eq\<close>)

lemma decision_state_settled:
  "ts_error (decision_state (decide_select_table e sel) tts s) = None \<Longrightarrow>
     ts_unresolved (decision_state (decide_select_table e sel) tts s) = None \<Longrightarrow>
     ts_error s = None \<and> ts_unresolved s = None \<and> list_all (table_settled sel) tts"
proof (induction tts arbitrary: s)
  case (Cons tt tts)
  then show ?case
    using decide_select_table_settled [of e sel s tt] by (simp add: decision_state_def)
qed (simp add: decision_state_def)

lemma rewrite_tables_cases:
  assumes "rewrite_tables e opts sel ast resp = Inr (tree, resp')"
  obtains (refused) name where "resp' = refuse CodeInvalidRewriteRequest (unresolved_unqualified_table_message name)
      (resp\<lparr>r_table_rewrites := r_table_rewrites resp'\<rparr>)" "tree = ast"
  | (rewritten) tts tables where "collect_select_tables ast = Inr tts" "list_all (table_settled sel) tts"
      "resp' = resp\<lparr>r_table_rewrites := r_table_rewrites resp'\<rparr>" "finish_select opts tables = Inr tree"
proof -
  let ?start = "\<lparr>ts_rewrites = r_table_rewrites resp, ts_error = None, ts_unresolved = None\<rparr>"
  obtain tables s where run: "rewrite_select_tables (decide_select_table e sel) ast ?start = Inr (tables, s)"
    using assms by (auto simp: rewrite_tables_def bind_result_def split: sum.splits)
  from rewrite_select_tables_collects [OF this]
  obtain tts where tts: "collect_select_tables ast = Inr tts" "s = decision_state (decide_select_table e sel) tts ?start"
    by blast
  have err: "ts_error s = None"
    using assms run by (cases "ts_error s") (auto simp: rewrite_tables_def bind_result_def Let_def)
  show thesis
  proof (cases "ts_unresolved s")
    case None
    then show thesis
      using assms run err tts decision_state_settled [of e sel tts ?start] rewritten [of tts tables]
      by (auto simp: rewrite_tables_def bind_result_def Let_def map_sum_def split: sum.splits)
  next
    case (Some name)
    then show thesis
      using assms run err refused [of name] by (auto simp: rewrite_tables_def bind_result_def Let_def refuse_def)
  qed
qed

section \<open>The pipeline\<close>

lemma rewrite_select_core_Inr:
  assumes "rewrite_select_core e ast0 opts sql = Inr (tree, resp)"
  obtains ast originals b r where "inject_options e opts ast0 = Inr ast" "select_originals (find_active opts) ast = Inr originals"
    "dynamic_select_check e ast sql (find_active opts) originals (select_resp e opts (find_active opts) originals) = Inr (b, r)"
    "b \<Longrightarrow> tree = ast \<and> resp = r" "\<not> b \<Longrightarrow> rewrite_checked_select e opts (find_active opts) ast r = Inr (tree, resp)"
proof -
  let ?sel = "find_active opts"
  obtain ast where ast: "inject_options e opts ast0 = Inr ast"
    using assms by (cases "inject_options e opts ast0") (auto simp: rewrite_select_core_def Let_def bind_result_def)
  obtain originals where originals: "select_originals ?sel ast = Inr originals"
    using assms ast by (cases "select_originals ?sel ast") (auto simp: rewrite_select_core_def Let_def bind_result_def)
  obtain b r where checked: "dynamic_select_check e ast sql ?sel originals (select_resp e opts ?sel originals) = Inr (b, r)"
    using assms ast originals
    by (cases "dynamic_select_check e ast sql ?sel originals (select_resp e opts ?sel originals)")
      (auto simp: rewrite_select_core_def Let_def bind_result_def)
  show thesis
    by (rule that [OF ast originals checked])
      (use assms ast originals checked in \<open>simp_all add: rewrite_select_core_def Let_def bind_result_def\<close>)
qed

lemma select_resp_simps: "r_sql_after_rewrite (select_resp e opts sel originals) = []"
  by (simp add: select_resp_def new_write_resp_def)

lemma rewrite_checked_select_text:
  assumes "rewrite_checked_select e opts sel ast resp = Inr (tree, resp')"
  shows "r_sql_after_rewrite resp' = r_sql_after_rewrite resp"
proof -
  obtain b t r where run: "rewrite_string_lookups sel ast resp = (b, t, r)" by (metis prod_cases3)
  note looked = rewrite_string_lookups_text [OF run]
  show ?thesis
  proof (cases b)
    case False
    then have "rewrite_tables e opts sel t r = Inr (tree, resp')" using assms run by (simp add: rewrite_checked_select_def)
    then show ?thesis
    proof (cases rule: rewrite_tables_cases)
      case (refused name)
      then have "r_sql_after_rewrite resp' =
          r_sql_after_rewrite (refuse CodeInvalidRewriteRequest (unresolved_unqualified_table_message name)
            (r\<lparr>r_table_rewrites := r_table_rewrites resp'\<rparr>))" by simp
      then show ?thesis using looked by (simp add: keeps_text)
    next
      case rewritten
      then have "r_sql_after_rewrite resp' = r_sql_after_rewrite (r\<lparr>r_table_rewrites := r_table_rewrites resp'\<rparr>)" by simp
      then show ?thesis using looked by simp
    qed
  qed (use assms run looked in \<open>simp add: rewrite_checked_select_def\<close>)
qed

lemma rewrite_select_core_text:
  assumes "rewrite_select_core e ast0 opts sql = Inr (tree, resp)"
  shows "r_sql_after_rewrite resp = []"
proof -
  obtain ast originals b r where run:
    "dynamic_select_check e ast sql (find_active opts) originals (select_resp e opts (find_active opts) originals) = Inr (b, r)"
    "b \<Longrightarrow> tree = ast \<and> resp = r" "\<not> b \<Longrightarrow> rewrite_checked_select e opts (find_active opts) ast r = Inr (tree, resp)"
    using rewrite_select_core_Inr [OF assms] by metis
  have "r_sql_after_rewrite r = []" using select_check.keeps_resp_text [OF run(1)] by (simp add: select_resp_simps)
  then show ?thesis using run(2,3) rewrite_checked_select_text by (cases b) auto
qed

lemma rewrite_select_text: "rewrite_select e ast opts sql = Inr r \<Longrightarrow> text_ok sql r"
  using rewrite_select_core_text [of e ast opts sql]
  by (auto simp: rewrite_select_def bind_result_def map_sum_def text_ok_def keeps_text echo_def
      split: sum.splits if_splits)

section \<open>A rewritten SELECT\<close>

lemma refuse_with_passes: "passes (refuse_with verdict) resp \<longleftrightarrow> verdict = None"
  by (auto simp: passes_def refuse_with_def split: option.splits)

lemma first_some_map_None: "first_some (map f xs) = None \<longleftrightarrow> list_all (\<lambda>x. f x = None) xs"
  by (induction xs) (auto split: option.splits)

lemma namespace_check_passes:
  "passes (namespace_check ast sel) resp \<Longrightarrow> sel_mode sel = ModeDynamic \<Longrightarrow>
     \<exists>refs. collect_namespace_refs ast = Inr refs \<and>
       (storage_integrity_surface_active (sel_dynamic sel) \<longrightarrow> list_all (ref_clear (sel_dynamic sel)) refs)"
  by (auto simp: passes_def namespace_check_def with_result_def reject_si_namespaces_pass split: sum.splits)

text \<open>The tables of the tree after the lookups, where the decisions are made.\<close>

definition select_settled :: "selection \<Rightarrow> json \<Rightarrow> bool" where
  "select_settled sel tree \<longleftrightarrow> (\<exists>tts. collect_select_tables tree = Inr tts \<and> list_all (table_settled sel) tts)"

lemma rewrite_checked_select_Success:
  assumes "rewrite_checked_select e opts sel ast resp = Inr (tree, resp')" "r_code resp' = CodeSuccess"
  shows "sel_mode sel = ModeDynamic \<longrightarrow> find (refusing_lookup sel) (string_lookup_calls ast) = None"
    and "\<exists>looked tables. fst (snd (rewrite_string_lookups sel ast resp)) = looked \<and> select_settled sel looked \<and>
       finish_select opts tables = Inr tree"
proof -
  obtain b t r where run: "rewrite_string_lookups sel ast resp = (b, t, r)" by (metis prod_cases3)
  have nb: "\<not> b"
    using assms run rewrite_string_lookups_passed [OF run] by (cases b) (auto simp: rewrite_checked_select_def)
  then have tabs: "rewrite_tables e opts sel t r = Inr (tree, resp')" using assms run by (simp add: rewrite_checked_select_def)
  then have "(\<exists>tables. select_settled sel t \<and> finish_select opts tables = Inr tree) \<and> r_code r = CodeSuccess"
  proof (cases rule: rewrite_tables_cases)
    case (refused name)
    then have "r_code resp' = CodeInvalidRewriteRequest" by (metis code_refuse)
    then show ?thesis using assms(2) by simp
  next
    case (rewritten tts tables)
    then have "r_code resp' = r_code (r\<lparr>r_table_rewrites := r_table_rewrites resp'\<rparr>)" by simp
    then have "r_code r = CodeSuccess" using assms(2) by simp
    then show ?thesis using rewritten by (auto simp: select_settled_def)
  qed
  then show "sel_mode sel = ModeDynamic \<longrightarrow> find (refusing_lookup sel) (string_lookup_calls ast) = None"
    and "\<exists>looked tables. fst (snd (rewrite_string_lookups sel ast resp)) = looked \<and> select_settled sel looked \<and>
       finish_select opts tables = Inr tree"
    using run rewrite_string_lookups_passed [OF run] by auto
qed

lemma when_active_passes:
  "passes (when_active sel c) resp \<longleftrightarrow> (storage_integrity_surface_active (sel_dynamic sel) \<longrightarrow> passes c resp)"
  by (simp add: passes_def when_active_def)

lemma si_query_check_passes:
  assumes "passes (si_query_check e ast sql sel) resp" "sel_mode sel = ModeDynamic" "touches_storage_integrity (r_accessed resp)"
  shows "si_table_modified e ast sql sel = Inr False \<and> reserved_column_hit ast sel = Inr False"
  using assms
  by (auto simp: passes_def si_query_check_def with_result_def refuse_with_def split: sum.splits if_splits)

text \<open>
  What is known of a \<open>SELECT\<close>, or of the body of a write, that was rewritten: the tables it reads may be read, its
  namespaces and its lookups are clear, and of a storage-integrity table only a plain read is taken.
\<close>

definition select_admitted :: "engine \<Rightarrow> rewrite_option list \<Rightarrow> gostring \<Rightarrow> json \<Rightarrow> bool" where
  "select_admitted e opts sql ast \<longleftrightarrow>
     (let sel = find_active opts; dyn = sel_dynamic sel; active = storage_integrity_surface_active dyn
      in \<exists>originals. select_originals sel ast = Inr originals \<and>
           select_settled sel (fst (snd (rewrite_string_lookups sel ast (select_resp e opts sel originals)))) \<and>
           (sel_mode sel = ModeDynamic \<longrightarrow>
              list_all (\<lambda>tt. original_refusal sel tt = None) originals \<and>
              find (refusing_lookup sel) (string_lookup_calls ast) = None \<and>
              (\<exists>refs. collect_namespace_refs ast = Inr refs \<and> (active \<longrightarrow> list_all (ref_clear dyn) refs)) \<and>
              (active \<longrightarrow> passes (reject_disallowed_carriers e ast) (select_resp e opts sel originals) \<and>
                         passes (reject_ungoverned_reads e ast sql sel) (select_resp e opts sel originals)) \<and>
              (touches_storage_integrity (r_accessed (select_resp e opts sel originals)) \<longrightarrow>
                 si_table_modified e ast sql sel = Inr False \<and> reserved_column_hit ast sel = Inr False)))"

lemma rewrite_select_core_Success:
  assumes "rewrite_select_core e ast0 opts sql = Inr (tree, resp)" "r_code resp = CodeSuccess"
  shows "\<exists>ast tables. inject_options e opts ast0 = Inr ast \<and> select_admitted e opts sql ast \<and> finish_select opts tables = Inr tree"
proof -
  let ?sel = "find_active opts"
  obtain ast originals b r where run: "inject_options e opts ast0 = Inr ast" "select_originals ?sel ast = Inr originals"
    "dynamic_select_check e ast sql ?sel originals (select_resp e opts ?sel originals) = Inr (b, r)"
    "b \<Longrightarrow> tree = ast \<and> resp = r" "\<not> b \<Longrightarrow> rewrite_checked_select e opts ?sel ast r = Inr (tree, resp)"
    using rewrite_select_core_Inr [OF assms(1)] by metis
  let ?resp = "select_resp e opts ?sel originals"
  have nb: "\<not> b" using run(3,4) select_check.refuses_coded assms(2) by (cases b) auto
  then have r: "r = ?resp" using run(3) select_check.passes_unchanged by auto
  have passed: "passes c ?resp" if "sel_mode ?sel = ModeDynamic" "c \<in> set (select_checks e ast sql ?sel originals)" for c
    using run(3) nb select_check_passes [of e ast sql ?sel originals _ r, OF _ that(1)] that(2) by simp
  note each = passed [unfolded select_checks_def]
  note later = rewrite_checked_select_Success [OF run(5) [OF nb] assms(2)]
  have "\<exists>refs. collect_namespace_refs ast = Inr refs \<and>
      (storage_integrity_surface_active (sel_dynamic ?sel) \<longrightarrow> list_all (ref_clear (sel_dynamic ?sel)) refs)"
    if "sel_mode ?sel = ModeDynamic"
    by (rule namespace_check_passes [OF each [OF that] that]) simp
  moreover have "list_all (\<lambda>tt. original_refusal ?sel tt = None) originals" if "sel_mode ?sel = ModeDynamic"
    using each [OF that, of "refuse_with (first_some (map (original_refusal ?sel) originals))"]
    by (simp add: refuse_with_passes first_some_map_None)
  moreover have "passes (reject_disallowed_carriers e ast) ?resp \<and> passes (reject_ungoverned_reads e ast sql ?sel) ?resp"
    if "sel_mode ?sel = ModeDynamic" "storage_integrity_surface_active (sel_dynamic ?sel)"
    using each [OF that(1), of "when_active ?sel (reject_disallowed_carriers e ast)"]
      each [OF that(1), of "when_active ?sel (reject_ungoverned_reads e ast sql ?sel)"] that(2)
    by (simp add: when_active_passes)
  moreover have "si_table_modified e ast sql ?sel = Inr False \<and> reserved_column_hit ast ?sel = Inr False"
    if "sel_mode ?sel = ModeDynamic" "touches_storage_integrity (r_accessed ?resp)"
    by (rule si_query_check_passes [OF each [OF that(1)] that]) simp
  ultimately have "select_admitted e opts sql ast"
    using run(2) later r unfolding select_admitted_def Let_def by blast
  then show ?thesis using run(1) later(2) by blast
qed

end
