(* ===== verification/Pipeline_Facts.thy ===== *)
theory Pipeline_Facts
  imports Pipeline Select_Facts
begin

text \<open>
  What leaves the pipeline: a dynamic request is always answered, a Success has passed every gate, a refusal
  carries the caller's statement, and the session keeps exactly that.
\<close>

section \<open>Every dynamic request is answered\<close>







section \<open>The gates of a Success\<close>

lemma finish_reject_code: "r_code (finish_reject st e ast sql version sel resp) = r_code resp"
  by (auto simp: finish_reject_def annotate_si_reject_def annotate_message_def Let_def echo_def
      split: sum.splits option.splits)

lemma reject_system_tables_code:
  "reject_system_tables_on_success refs e ast sql sel resp = (True, r) \<Longrightarrow> r_code r \<noteq> CodeSuccess"
  by (auto simp: reject_system_tables_on_success_def reject_system_table_def Let_def clear_rewrites_def refuse_def
      echo_def record_accessed_write_unique_def split: if_splits sum.splits option.splits)

lemma reject_system_tables_pass:
  "reject_system_tables_on_success refs e ast sql sel resp = (False, r) \<Longrightarrow> r = resp"
  by (auto simp: reject_system_tables_on_success_def split: if_splits sum.splits option.splits)

definition success_gates :: "stages \<Rightarrow> engine \<Rightarrow> json \<Rightarrow> gostring \<Rightarrow> selection \<Rightarrow> bool" where
  "success_gates st e ast sql sel \<longleftrightarrow>
     check_regenerated (st_upper st) e sql ast = None \<and> identity_gate e ast sql sel = None \<and>
     (sel_mode sel = ModeDynamic \<and> storage_integrity_surface_active (sel_dynamic sel) \<longrightarrow>
        (\<exists>refs. collect_object_refs e ast sql = Inr refs \<and> list_all (system_ref_allowed (sel_dynamic sel)) refs))"

lemma finalize_Success:
  assumes "finalize st e ast sql ec version sel resp = Inr r" "r_code r = CodeSuccess"
  shows "r_code resp = CodeSuccess \<and> r = resp\<lparr>r_existence_clause := ec, r_si_contract_version := version\<rparr> \<and>
     success_gates st e ast sql sel"
proof -
  define stamped where "stamped = resp\<lparr>r_existence_clause := ec, r_si_contract_version := version\<rparr>"
  obtain rejected r1 where sys:
    "reject_system_tables_on_success collect_object_refs e ast sql sel stamped = (rejected, r1)" by fastforce
  have refused: "r_code (refuse CodeUnsupportedStatement msg x) \<noteq> CodeSuccess" for msg x by (simp add: refuse_def)
  have code: "r_code stamped = CodeSuccess"
    using assms by (auto simp: finalize_def Let_def stamped_def finish_reject_code split: if_splits)
  have pass: "\<not> rejected"
    using assms code sys reject_system_tables_code
    by (auto simp: finalize_def Let_def stamped_def finish_reject_code)
  have regen: "check_regenerated (st_upper st) e sql ast = None"
    using assms code sys pass refused
    by (cases "check_regenerated (st_upper st) e sql ast")
      (auto simp: finalize_def Let_def stamped_def [symmetric] finish_reject_code split: if_splits)
  have identity: "identity_gate e ast sql sel = None"
    using assms code sys pass refused regen
    by (cases "identity_gate e ast sql sel")
      (auto simp: finalize_def Let_def stamped_def [symmetric] finish_reject_code split: if_splits)
  have "r = stamped"
    using assms code sys pass regen identity reject_system_tables_pass [of collect_object_refs e ast sql sel stamped r1]
    by (auto simp: finalize_def Let_def stamped_def [symmetric])
  moreover have "sel_mode sel = ModeDynamic \<and> storage_integrity_surface_active (sel_dynamic sel) \<longrightarrow>
        (\<exists>refs. collect_object_refs e ast sql = Inr refs \<and> list_all (system_ref_allowed (sel_dynamic sel)) refs)"
    using system_tables_pass_iff [of collect_object_refs e ast sql sel stamped] sys pass
    by (auto split: sum.splits)
  ultimately show ?thesis
    using code regen identity by (simp add: success_gates_def stamped_def)
qed

text \<open>What is known of a statement whose rewrite is a Success.\<close>

definition admitted_statement :: "stages \<Rightarrow> engine \<Rightarrow> gostring \<Rightarrow> rewrite_option list \<Rightarrow> response \<Rightarrow> bool" where
  "admitted_statement st e sql opts resp \<longleftrightarrow>
     (let sel = find_active opts; version = fst (check_request st sel)
      in snd (check_request st sel) = None \<and>
         (\<exists>ast. e_parse_one e sql = Inr ast \<and> statement_gates st e ast sql version = None \<and>
            success_gates st e ast sql sel \<and>
            (case handle st e ast sql opts of
               Inl _ \<Rightarrow> False
             | Inr (Some handled) \<Rightarrow>
                 r_code handled = CodeSuccess \<and>
                 resp = handled\<lparr>r_existence_clause := existence_of ast, r_si_contract_version := version\<rparr>
             | Inr None \<Rightarrow> unmodelled_refusal e ast version sel = None)))"

lemma seal_handler_error_code:
  "seal_handler_error st e ast sql ec version sel resp err = Inr r \<Longrightarrow> r_code r \<noteq> CodeSuccess"
  by (auto simp: seal_handler_error_def refuse_def split: if_splits dest: finalize_Success)

lemma unmodelled_code:
  "unmodelled_refusal e ast version sel = Some (code, msg) \<Longrightarrow> r_code (unmodelled e ast version sel resp) = code"
  by (simp add: unmodelled_def refuse_def)

lemma settings_verdict_code: "settings_verdict assignments = Some (code, msg) \<Longrightarrow> code \<noteq> CodeSuccess"
  by (induction assignments) (auto split: if_splits)

lemma rewrite_parsed_Success:
  assumes "rewrite_parsed st e ast sql opts version resp0 = Inr r" "r_code r = CodeSuccess"
  shows "statement_gates st e ast sql version = None \<and> success_gates st e ast sql (find_active opts) \<and>
     (case handle st e ast sql opts of
        Inl _ \<Rightarrow> False
      | Inr (Some handled) \<Rightarrow>
          r_code handled = CodeSuccess \<and>
          r = handled\<lparr>r_existence_clause := existence_of ast, r_si_contract_version := version\<rparr>
      | Inr None \<Rightarrow> r_code (unmodelled e ast version (find_active opts) (resp0\<lparr>r_statement_type := classify ast\<rparr>)) = CodeSuccess)"
proof -
  have gates: "statement_gates st e ast sql version = None"
    using assms by (auto simp: rewrite_parsed_def Let_def refuse_def split: option.splits dest: finalize_Success)
  show ?thesis
  proof (cases "handle st e ast sql opts")
    case (Inl err)
    then show ?thesis
      using assms gates seal_handler_error_code by (fastforce simp: rewrite_parsed_def Let_def)
  next
    case (Inr handled)
    then show ?thesis
      using assms gates by (cases handled) (auto simp: rewrite_parsed_def Let_def dest: finalize_Success)
  qed
qed

lemma unmodelled_refusal_code:
  "unmodelled_refusal e ast version sel = Some (code, msg) \<Longrightarrow> code \<noteq> CodeSuccess"
  by (auto simp: unmodelled_refusal_def session_set_def check_session_set_def
      split: if_splits set_check.splits prod.splits option.splits dest: settings_verdict_code)

lemma rewrite_statement_Success:
  assumes "rewrite_statement st e sql opts = Inr resp" "r_code resp = CodeSuccess"
  shows "admitted_statement st e sql opts resp"
proof -
  obtain version invalid where request: "check_request st (find_active opts) = (version, invalid)" by fastforce
  have valid: "invalid = None"
    using assms request by (cases invalid) (auto simp: rewrite_statement_def Let_def refuse_def)
  obtain ast where ast: "e_parse_one e sql = Inr ast"
    using assms request valid by (cases "e_parse_one e sql") (auto simp: rewrite_statement_def Let_def refuse_def)
  have "rewrite_parsed st e ast sql opts version (initial_response sql version) = Inr resp"
    using assms(1) request valid ast by (simp add: rewrite_statement_def Let_def)
  note parsed = rewrite_parsed_Success [OF this assms(2)]
  have "unmodelled_refusal e ast version (find_active opts) = None" if "handle st e ast sql opts = Inr None"
    using parsed that unmodelled_code unmodelled_refusal_code
    by (cases "unmodelled_refusal e ast version (find_active opts)") fastforce+
  then show ?thesis
    using parsed request valid ast
    by (auto simp: admitted_statement_def Let_def split: sum.splits option.splits)
qed

lemma echo_same: "echo (r_sql_after_rewrite resp) resp = resp"
  by (simp add: echo_def)

lemma rewrite_form_Success:
  assumes "rewrite_form st e sql opts stripped put_back = Inr resp" "r_code resp = CodeSuccess"
  obtains resp0 out where "admitted_statement st e stripped opts resp0" "r_code resp0 = CodeSuccess"
    "put_back (r_sql_after_rewrite resp0) = Inr out" "resp = echo out resp0"
proof -
  obtain resp0 where run: "rewrite_statement st e stripped opts = Inr resp0"
    using assms(1) by (cases "rewrite_statement st e stripped opts") (auto simp: rewrite_form_def)
  have code: "r_code resp0 = CodeSuccess"
    using assms run by (auto simp: rewrite_form_def split: if_splits)
  obtain out where out: "put_back (r_sql_after_rewrite resp0) = Inr out"
    using assms run code
    by (cases "put_back (r_sql_after_rewrite resp0)") (auto simp: rewrite_form_def seal_create_form_def split: if_splits)
  have "resp = echo out resp0" using assms run code out by (simp add: rewrite_form_def)
  then show thesis
    using that [OF rewrite_statement_Success [OF run code] code out] by blast
qed

text \<open>The statement the pipeline rewrote for a request, and the text put restored around its result.\<close>

definition answered_by :: "engine \<Rightarrow> gostring \<Rightarrow> gostring \<Rightarrow> gostring \<Rightarrow> gostring \<Rightarrow> bool" where
  "answered_by e sql stripped rewritten out \<longleftrightarrow>
     (case strip_view_comment e sql of
        Some (rest, comment) \<Rightarrow> stripped = rest \<and> append_view_comment rewritten comment = Some out
      | None \<Rightarrow>
          (case strip_create_table_empty e sql of
             NotEmptyForm \<Rightarrow> stripped = sql \<and> out = rewritten
           | StrippedEmpty rest \<Rightarrow> stripped = rest \<and> insert_create_table_empty e rewritten = Inr out
           | StripFailed _ \<Rightarrow> False))"

lemma do_rewrite_Success:
  assumes "do_rewrite st e sql opts = Inr resp" "r_code resp = CodeSuccess"
  shows "\<exists>stripped resp0 out. admitted_statement st e stripped opts resp0 \<and> r_code resp0 = CodeSuccess \<and>
     answered_by e sql stripped (r_sql_after_rewrite resp0) out \<and> resp = echo out resp0"
proof (cases "strip_view_comment e sql")
  case (Some p)
  obtain rest comment where p: "p = (rest, comment)" by fastforce
  let ?restored = "\<lambda>out. case append_view_comment out comment of Some t \<Rightarrow> Inr t | None \<Rightarrow> Inl ViewCommentNotRestored"
  have "rewrite_form st e sql opts rest ?restored = Inr resp" using assms(1) Some p by (simp add: do_rewrite_def)
  then obtain resp0 out where "admitted_statement st e rest opts resp0" "r_code resp0 = CodeSuccess"
    "?restored (r_sql_after_rewrite resp0) = Inr out" "resp = echo out resp0"
    using rewrite_form_Success [OF _ assms(2)] by blast
  then show ?thesis
    using Some p by (auto simp: answered_by_def split: option.splits)
next
  case None
  show ?thesis
  proof (cases "strip_create_table_empty e sql")
    case NotEmptyForm
    then have "rewrite_statement st e sql opts = Inr resp"
      using assms(1) None by (auto simp: do_rewrite_def map_sum_def split: sum.splits)
    note admitted = rewrite_statement_Success [OF this assms(2)]
    show ?thesis
      by (intro exI [of _ sql] exI [of _ resp] exI [of _ "r_sql_after_rewrite resp"])
        (use admitted assms(2) None NotEmptyForm in \<open>simp add: answered_by_def echo_same\<close>)
  next
    case (StrippedEmpty rest)
    let ?restored = "\<lambda>out. map_sum EmptyNotRestored id (insert_create_table_empty e out)"
    have "rewrite_form st e sql opts rest ?restored = Inr resp" using assms(1) None StrippedEmpty by (simp add: do_rewrite_def)
    then obtain resp0 out where "admitted_statement st e rest opts resp0" "r_code resp0 = CodeSuccess"
      "?restored (r_sql_after_rewrite resp0) = Inr out" "resp = echo out resp0"
      using rewrite_form_Success [OF _ assms(2)] by blast
    then show ?thesis
      using None StrippedEmpty by (auto simp: answered_by_def map_sum_def split: sum.splits)
  next
    case (StripFailed err)
    have "rewrite_form st e sql opts sql (\<lambda>_. Inl (EmptyNotRead err)) = Inr resp"
      using assms(1) None StripFailed by (simp add: do_rewrite_def)
    then show ?thesis using rewrite_form_Success [OF _ assms(2)] by blast
  qed
qed

section \<open>A refusal echoes the statement\<close>

lemma write_checks_quiet: "quiet write_checks"
  using carriers.keeps_resp_text by (auto simp: quiet_def write_checks_def)

lemma first_handled_text:
  assumes "first_handled hs e ast sql opts = Inr (Some r)"
    and "\<And>h. h \<in> set hs \<Longrightarrow> h e ast sql opts = Inr (Some r) \<Longrightarrow> text_ok sql r"
  shows "text_ok sql r"
  using assms
proof (induction hs)
  case (Cons h hs)
  show ?case
  proof (cases "h e ast sql opts")
    case (Inr handled)
    then show ?thesis using Cons by (cases handled) auto
  qed (use Cons.prems(1) in simp)
qed simp

lemma handle_text:
  assumes "handle st e ast sql opts = Inr (Some r)"
  shows "text_ok sql r"
proof (cases "first_handled (handlers_of st) e ast sql opts")
  case (Inr handled)
  show ?thesis
  proof (cases handled)
    case None
    then show ?thesis
      using assms Inr by (auto simp: handle_def map_sum_def split: if_splits sum.splits dest: rewrite_select_text)
  next
    case (Some r')
    then have "first_handled (handlers_of st) e ast sql opts = Inr (Some r)" using assms Inr by (simp add: handle_def)
    then show ?thesis
    proof (rule first_handled_text)
      fix h assume h: "h \<in> set (handlers_of st)" "h e ast sql opts = Inr (Some r)"
      then show "text_ok sql r"
        using rewrite_write_text [OF _ write_checks_quiet, of "rewrite_select_core e" e ast sql opts r]
          rewrite_grant_text [of e ast sql opts r]
        by (auto simp: handlers_of_def
            intro: preflight_text rewrite_db_level_text rewrite_describe_text rewrite_exists_show_create_text)
    qed
  qed
qed (use assms in \<open>simp add: handle_def\<close>)

lemma annotate_keeps [simp]:
  "r_sql_after_rewrite (annotate_si_reject name_refs tables e resp ast sql sel) = r_sql_after_rewrite resp"
  "r_statement_type (annotate_si_reject name_refs tables e resp ast sql sel) = r_statement_type resp"
  by (auto simp: annotate_si_reject_def annotate_message_def Let_def split: sum.splits option.splits)

text \<open>A refusal as it leaves: the caller's statement, and no statement type.\<close>

definition refusal_of :: "gostring \<Rightarrow> response \<Rightarrow> bool" where
  "refusal_of sql resp \<longleftrightarrow> r_sql_after_rewrite resp = sql \<and> r_statement_type resp = StUnspecified"

lemma finish_reject_refusal:
  "r_sql_after_rewrite resp \<in> {[], sql} \<Longrightarrow> refusal_of sql (finish_reject st e ast sql version sel resp)"
  by (auto simp: finish_reject_def refusal_of_def Let_def echo_def)

lemma finalize_refusal:
  assumes "finalize st e ast sql ec version sel resp = Inr r" "r_code r \<noteq> CodeSuccess" "text_ok sql resp"
  shows "refusal_of sql r"
proof -
  define stamped where "stamped = resp\<lparr>r_existence_clause := ec, r_si_contract_version := version\<rparr>"
  have ok: "text_ok sql stamped" using assms(3) by (simp add: text_ok_def stamped_def)
  obtain rejected r1 where sys:
    "reject_system_tables_on_success collect_object_refs e ast sql sel stamped = (rejected, r1)" by fastforce
  have echoed: "refusal_of sql (finish_reject st e ast sql version sel (echo sql x))" for x
    by (rule finish_reject_refusal) (simp add: echo_def)
  have r1: "rejected \<Longrightarrow> \<exists>x. r1 = echo sql x"
    using sys by (auto simp: reject_system_tables_on_success_def split: if_splits sum.splits option.splits)
  show ?thesis
  proof (cases "r_code stamped = CodeSuccess")
    case True
    show ?thesis
    proof (cases rejected)
      case r: True
      then obtain x where "r1 = echo sql x" using r1 by blast
      then show ?thesis
        using assms(1) True r sys echoed [of x] by (simp add: finalize_def stamped_def Let_def)
    next
      case False
      then have "r1 = stamped" using sys reject_system_tables_pass by auto
      then show ?thesis
        using assms True False sys echoed
        by (auto simp: finalize_def Let_def stamped_def [symmetric] split: option.splits if_splits)
    qed
  next
    case False
    then show ?thesis
      using assms(1) ok finish_reject_refusal [of stamped]
      by (auto simp: finalize_def Let_def stamped_def text_ok_def)
  qed
qed

lemma rewrite_parsed_refusal:
  assumes "rewrite_parsed st e ast sql opts version (initial_response sql v) = Inr r" "r_code r \<noteq> CodeSuccess"
  shows "refusal_of sql r"
proof -
  define resp where "resp = (initial_response sql v)\<lparr>r_statement_type := classify ast\<rparr>"
  have own: "r_sql_after_rewrite resp = sql" by (simp add: resp_def initial_response_def)
  have refused: "text_ok sql (refuse code msg resp)" for code msg by (simp add: text_ok_def refuse_def own)
  have other: "text_ok sql (unmodelled e ast version sel resp)" for sel
  proof (cases "unmodelled_refusal e ast version sel")
    case None
    then show ?thesis by (simp add: unmodelled_def text_ok_def)
  next
    case (Some p)
    then show ?thesis using refused by (cases p) (simp add: unmodelled_def)
  qed
  show ?thesis
  proof (cases "statement_gates st e ast sql version")
    case (Some msg)
    then show ?thesis
      using assms finalize_refusal [OF _ assms(2) refused] by (auto simp: rewrite_parsed_def Let_def resp_def [symmetric])
  next
    case None
    show ?thesis
    proof (cases "handle st e ast sql opts")
      case (Inl err)
      then show ?thesis
        using assms None finalize_refusal [OF _ assms(2) refused]
        by (auto simp: rewrite_parsed_def Let_def resp_def [symmetric] seal_handler_error_def split: if_splits)
    next
      case (Inr handled)
      then show ?thesis
        using assms None finalize_refusal [OF _ assms(2) other] finalize_refusal [OF _ assms(2) handle_text]
        by (cases handled) (auto simp: rewrite_parsed_def Let_def resp_def [symmetric])
    qed
  qed
qed

lemma rewrite_statement_refusal:
  assumes "rewrite_statement st e sql opts = Inr r" "r_code r \<noteq> CodeSuccess"
  shows "refusal_of sql r"
proof -
  obtain version invalid where request: "check_request st (find_active opts) = (version, invalid)" by fastforce
  have early: "refusal_of sql (refuse code msg (initial_response sql version))" for code msg
    by (simp add: refusal_of_def refuse_def initial_response_def new_write_resp_def)
  show ?thesis
  proof (cases invalid)
    case None
    then show ?thesis
      using assms request early rewrite_parsed_refusal [OF _ assms(2)]
      by (cases "e_parse_one e sql") (auto simp: rewrite_statement_def Let_def)
  next
    case (Some msg)
    then show ?thesis using assms(1) request early by (auto simp: rewrite_statement_def Let_def)
  qed
qed

lemma rewrite_form_refusal:
  assumes "rewrite_form st e sql opts stripped put_back = Inr r" "r_code r \<noteq> CodeSuccess"
  shows "refusal_of sql r"
proof -
  obtain resp where run: "rewrite_statement st e stripped opts = Inr resp"
    using assms(1) by (cases "rewrite_statement st e stripped opts") (auto simp: rewrite_form_def)
  show ?thesis
  proof (cases "r_code resp = CodeSuccess")
    case True
    then show ?thesis
      using assms(1,2) run
      by (auto simp: rewrite_form_def seal_create_form_def refusal_of_def new_write_resp_def split: sum.splits if_splits)
  next
    case False
    then have "r = echo sql resp" using assms(1) run by (simp add: rewrite_form_def)
    then show ?thesis
      using rewrite_statement_refusal [OF run False] by (simp add: refusal_of_def echo_def)
  qed
qed

lemma do_rewrite_refusal:
  assumes "do_rewrite st e sql opts = Inr r" "r_code r \<noteq> CodeSuccess"
  shows "refusal_of sql r"
  using assms(1) rewrite_form_refusal [OF _ assms(2)] rewrite_statement_refusal [OF _ assms(2)]
  by (auto simp: do_rewrite_def map_sum_def split: option.splits prod.splits strip_result.splits sum.splits)

section \<open>The properties\<close>

text \<open>
  C1. A Success is the answer of one statement, the client's without the CREATE form the pipeline takes off and
  puts restored, that passed everything: the request is valid, the statement is parsed in full, a handler admitted it
  (or, in dynamic mode, it is a plain session SET), its regeneration spells it, it names no deployment-identity
  function in dynamic mode, and under an active storage-integrity surface no refused system table.
\<close>

theorem success_admitted:
  assumes "do_rewrite st e sql opts = Inr resp" "r_code resp = CodeSuccess"
  shows "\<exists>stripped resp0 out. admitted_statement st e stripped opts resp0 \<and> r_code resp0 = CodeSuccess \<and>
     answered_by e sql stripped (r_sql_after_rewrite resp0) out \<and> resp = echo out resp0"
  using do_rewrite_Success [OF assms] .

text \<open>
  C2. A response that is not a Success carries the caller's own statement and no statement type, whichever stage
  refused it and whatever that stage had already written: nothing of a partial rewrite reaches the client.
\<close>

theorem refusal_echoes:
  assumes "do_rewrite st e sql opts = Inr resp" "r_code resp \<noteq> CodeSuccess"
  shows "r_sql_after_rewrite resp = sql \<and> r_statement_type resp = StUnspecified"
  using do_rewrite_refusal [OF assms] by (simp add: refusal_of_def)

definition passive_stages :: stages where
  "passive_stages =
     \<lparr>st_upper = to_upper, st_error_text = (\<lambda>_. ''error''), st_config_text = (\<lambda>_. ''config''),
      st_name_refs = (\<lambda>_ _ _. Inr []), st_live_view = (\<lambda>_ _ _. Inr False)\<rparr>"

definition pipeline_engine :: engine where
  "pipeline_engine =
     grant_engine\<lparr>e_parse_one := (\<lambda>sql. if sql = grant_sql then Inr grant_ast else Inl (EngineError []))\<rparr>"

definition read_sql :: gostring where
  "read_sql = ''SELECT a''"

definition read_engine :: engine where
  "read_engine =
     \<lparr>e_tokenize = (\<lambda>sql. if sql = read_sql then
        Inr [\<lparr>wt_type = ''SELECT'', wt_text = ''SELECT'', wt_start = 0, wt_end = 6\<rparr>,
             \<lparr>wt_type = ''VAR'', wt_text = ''a'', wt_start = 7, wt_end = 8\<rparr>] else Inl (EngineError [])),
      e_parse_one = (\<lambda>sql. if sql = read_sql then Inr (JObject [(''select'', JObject [])]) else Inl (EngineError [])),
      e_generate = (\<lambda>_. Inr read_sql), e_parse_generic = (\<lambda>_. Inl (EngineError []))\<rparr>"

definition plain_options :: "rewrite_option list" where
  "plain_options =
     [\<lparr>ro_op = OpTableNameRewrite,
       ro_table_name_args = Some \<lparr>tn_static = None, tn_dynamic = Some (sample_args\<lparr>da_storage_integrity := None\<rparr>)\<rparr>,
       ro_ctes = [], ro_limit = LimitUnset, ro_offset = 0, ro_settings = []\<rparr>]"

text \<open>The run the witnesses share.\<close>

lemma read_run:
  obtains resp where "do_rewrite passive_stages read_engine read_sql plain_options = Inr resp"
    "r_code resp = CodeSuccess" "r_statement_type resp = StSelect"
proof -
  have "case do_rewrite passive_stages read_engine read_sql plain_options of
      Inr resp \<Rightarrow> r_code resp = CodeSuccess \<and> r_statement_type resp = StSelect | Inl _ \<Rightarrow> False"
    by code_simp
  then show thesis using that by (auto split: sum.splits)
qed

lemma success_admitted_witness:
  "\<exists>resp stripped resp0 out. do_rewrite passive_stages read_engine read_sql plain_options = Inr resp \<and>
     r_statement_type resp = StSelect \<and>
     admitted_statement passive_stages read_engine stripped plain_options resp0 \<and>
     answered_by read_engine read_sql stripped (r_sql_after_rewrite resp0) out \<and> resp = echo out resp0"
proof -
  obtain resp where run: "do_rewrite passive_stages read_engine read_sql plain_options = Inr resp"
    "r_code resp = CodeSuccess" "r_statement_type resp = StSelect"
    by (rule read_run)
  from success_admitted [OF run(1,2)] run show ?thesis by metis
qed

definition failing_stages :: stages where
  "failing_stages = passive_stages\<lparr>st_live_view := (\<lambda>_ _ _. Inl (EngineError ''limit''))\<rparr>"

lemma refusal_echoes_witness:
  "\<exists>resp. do_rewrite failing_stages pipeline_engine grant_sql sample_options = Inr resp \<and>
     r_message resp = si_unmodelled_message \<and> r_sql_after_rewrite resp = grant_sql"
proof -
  have "case do_rewrite failing_stages pipeline_engine grant_sql sample_options of
      Inr resp \<Rightarrow> r_code resp \<noteq> CodeSuccess \<and> r_message resp = si_unmodelled_message | Inl _ \<Rightarrow> False"
    by code_simp
  then obtain resp where run: "do_rewrite failing_stages pipeline_engine grant_sql sample_options = Inr resp"
    "r_code resp \<noteq> CodeSuccess" "r_message resp = si_unmodelled_message"
    by (auto split: sum.splits)
  from refusal_echoes [OF run(1,2)] run show ?thesis by blast
qed


section \<open>The connection\<close>

text \<open>What a session may remember.\<close>

definition remembered :: "stages \<Rightarrow> engine \<Rightarrow> (gostring \<Rightarrow> rewrite_option list) \<Rightarrow> call_context \<Rightarrow> bool" where
  "remembered st e options ctx \<longleftrightarrow>
     cc_options ctx = options (cc_account ctx) \<and>
     (\<exists>resp. do_rewrite st e (cc_sql ctx) (cc_options ctx) = Inr resp \<and> cc_code ctx = r_code resp \<and>
        cc_sql_after ctx = r_sql_after_rewrite resp \<and> cc_table_rewrites ctx = r_table_rewrites resp \<and>
        cc_database_rewrites ctx = r_database_rewrites resp) \<and>
     (cc_code ctx \<noteq> CodeSuccess \<longrightarrow> cc_sql_after ctx = cc_sql ctx)"

lemma connection_rewrite_remembered:
  assumes "case ses_last s of None \<Rightarrow> True | Some ctx \<Rightarrow> remembered st e options ctx"
  shows "case ses_last (connection_rewrite st e options sql account s) of
     None \<Rightarrow> True | Some ctx \<Rightarrow> remembered st e options ctx"
proof (cases "do_rewrite st e sql (options account)")
  case (Inr resp)
  then show ?thesis
    using do_rewrite_refusal [OF Inr]
    by (auto simp: connection_rewrite_def stash_def remembered_def refusal_of_def)
qed (use assms in \<open>simp add: connection_rewrite_def\<close>)

lemma reachable_remembered:
  assumes "reachable st e options s"
  shows "case ses_last s of None \<Rightarrow> True | Some ctx \<Rightarrow> remembered st e options ctx"
  using assms
proof induction
  case (rewrite s sql account)
  then show ?case using connection_rewrite_remembered by blast
qed (simp_all add: new_session_def session_close_def)

text \<open>
  C4. Invariant of a connection: after any sequence of rewrites and closings, what it remembers is the answer of
  the pipeline to the remembered statement under the options of the remembered account, and where that answer was
  a refusal, the remembered rewritten text is the statement itself, so no error text is inverted through a
  rewrite that was never sent.
\<close>

theorem connection_invariant:
  assumes "reachable st e options s" "ses_last s = Some ctx"
  shows "remembered st e options ctx"
  using reachable_remembered [OF assms(1)] assms(2) by simp

lemma connection_invariant_witness:
  "\<exists>s ctx. reachable passive_stages read_engine (\<lambda>_. plain_options) s \<and> ses_last s = Some ctx \<and>
     cc_code ctx = CodeSuccess \<and> remembered passive_stages read_engine (\<lambda>_. plain_options) ctx"
proof -
  let ?s = "connection_rewrite passive_stages read_engine (\<lambda>_. plain_options) read_sql ''acc'' new_session"
  have reach: "reachable passive_stages read_engine (\<lambda>_. plain_options) ?s"
    by (intro reachable.intros)
  obtain resp where run: "do_rewrite passive_stages read_engine read_sql plain_options = Inr resp"
    "r_code resp = CodeSuccess"
    by (rule read_run)
  then obtain ctx where "ses_last ?s = Some ctx" "cc_code ctx = CodeSuccess"
    by (simp add: connection_rewrite_def stash_def)
  with connection_invariant [OF reach] reach show ?thesis by blast
qed

end
