(* ===== verification/Preflight_Facts.thy ===== *)
theory Preflight_Facts
  imports Pipeline_Facts
begin

text \<open>
  The preflight of a dynamic request lets a statement through exactly when it is clear of everything the preflight
  looks for, or when it is a command of no modelled class under an active storage-integrity surface; such a command
  is never a Success of the pipeline, so every Success is of a clear statement.
\<close>

section \<open>A clear statement\<close>

definition databases_clear :: "engine \<Rightarrow> json \<Rightarrow> gostring \<Rightarrow> dynamic_args option \<Rightarrow> bool" where
  "databases_clear e ast sql dyn \<longleftrightarrow>
     (\<exists>dbs blind. collect_database_reference_sets e ast sql = Inr (dbs, blind) \<and>
        list_all (\<lambda>db. protected_database db dyn \<longrightarrow> is_si_physical_database db dyn \<and> db \<notin> set blind) (with_context dyn dbs))"

definition target_call_clear :: "dynamic_args option \<Rightarrow> (object_verb \<times> gostring \<times> gostring list) option \<Rightarrow> bool" where
  "target_call_clear dyn call \<longleftrightarrow>
     (case call of
        None \<Rightarrow> True
      | Some (_, name, dbs) \<Rightarrow>
          table_function_refusal name = None \<and> list_all (\<lambda>db. \<not> protected_database db dyn) dbs)"

definition command_clear :: "engine \<Rightarrow> json \<Rightarrow> dynamic_args option \<Rightarrow> bool" where
  "command_clear e ast dyn \<longleftrightarrow>
     (\<exists>kind. node_kind ast = Inr kind \<and>
        (kind = NodeCommand \<longrightarrow>
           (\<exists>command f. command_sql ast = Inr command \<and> collect_command_text_findings e command = Some f \<and>
              cf_lookup_calls f = [] \<and> target_call_clear dyn (cf_target_call f))))"

definition inactive_clear :: "engine \<Rightarrow> json \<Rightarrow> gostring \<Rightarrow> selection \<Rightarrow> bool" where
  "inactive_clear e ast sql sel \<longleftrightarrow>
     (\<not> storage_integrity_surface_active (sel_dynamic sel) \<longrightarrow>
        passes (reject_disallowed_carriers e ast) fresh_resp \<and> passes (reject_ungoverned_reads e ast sql sel) fresh_resp)"

definition preflight_clear :: "engine \<Rightarrow> json \<Rightarrow> gostring \<Rightarrow> selection \<Rightarrow> bool" where
  "preflight_clear e ast sql sel \<longleftrightarrow>
     table_position_parameter e ast sql = Inr False \<and> unmodelled_command e ast sql sel = Inr False \<and>
     databases_clear e ast sql (sel_dynamic sel) \<and>
     (\<exists>refused si. system_table_scan collect_object_refs e ast sql sel = Inr (refused, si) \<and> (refused = None \<or> si)) \<and>
     inactive_clear e ast sql sel \<and> command_clear e ast (sel_dynamic sel) \<and>
     collect_raw_action_string_lookup_calls e ast sql = Some [] \<and>
     list_all (\<lambda>call. \<not> refused_lookup call) (string_lookup_calls ast)"

section \<open>The steps\<close>

lemma parameter_step_iff: "parameter_step e ast sql = Inr Continue \<longleftrightarrow> table_position_parameter e ast sql = Inr False"
  by (cases "table_position_parameter e ast sql") (auto simp: parameter_step_def answer_invalid_def)

lemma unmodelled_step_Continue: "unmodelled_step e ast sql sel = Inr Continue \<longleftrightarrow> unmodelled_command e ast sql sel = Inr False"
  by (cases "unmodelled_command e ast sql sel") (auto simp: unmodelled_step_def)

lemma unmodelled_step_Leave:
  "unmodelled_step e ast sql sel = Inr LeaveToHandlers \<longleftrightarrow>
     unmodelled_command e ast sql sel = Inr True \<and> storage_integrity_surface_active (sel_dynamic sel)"
  by (cases "unmodelled_command e ast sql sel") (auto simp: unmodelled_step_def)

lemma find_None_list_all: "find P xs = None \<longleftrightarrow> list_all (\<lambda>x. \<not> P x) xs"
  by (auto simp: find_None_iff list_all_iff)

lemma answer_protected_Continue: "answer_protected sql dyn db = Continue \<longleftrightarrow> db = None"
  by (auto simp: answer_protected_def split: option.splits)

lemma protected_step_iff:
  "protected_step e ast sql sel = Inr Continue \<longleftrightarrow> databases_clear e ast sql (sel_dynamic sel)"
proof -
  have eq: "(\<not> refused_database dyn blind db) \<longleftrightarrow> (protected_database db dyn \<longrightarrow> is_si_physical_database db dyn \<and> db \<notin> set blind)"
    for dyn blind db by (auto simp: refused_database_def)
  show ?thesis
    by (cases "collect_database_reference_sets e ast sql")
      (auto simp: protected_step_def databases_clear_def answer_protected_Continue find_None_list_all eq)
qed

lemma system_step_iff:
  "system_step e ast sql sel = Inr Continue \<longleftrightarrow>
     (\<exists>refused si. system_table_scan collect_object_refs e ast sql sel = Inr (refused, si) \<and> (refused = None \<or> si))"
proof (cases "system_table_scan collect_object_refs e ast sql sel")
  case (Inr p)
  obtain refused si where p: "p = (refused, si)" by fastforce
  show ?thesis by (cases refused) (simp_all add: system_step_def Inr p)
qed (simp add: system_step_def)

lemma inactive_step_iff:
  assumes "lawful_check c"
  shows "inactive_step sql sel c = Inr Continue \<longleftrightarrow>
    (\<not> storage_integrity_surface_active (sel_dynamic sel) \<longrightarrow> passes c fresh_resp)"
proof (cases "c fresh_resp")
  case (Inr p)
  obtain b r where p: "p = (b, r)" by fastforce
  show ?thesis
  proof (cases b)
    case False
    then have "r = fresh_resp" using lawful_check.passes_unchanged [OF assms] Inr p by simp
    then show ?thesis using Inr p False by (simp add: inactive_step_def answer_check_def passes_def)
  qed (use Inr p in \<open>simp add: inactive_step_def answer_check_def passes_def\<close>)
qed (simp add: inactive_step_def passes_def)

lemma answer_lookup_Continue: "answer_lookup sql calls = Continue \<longleftrightarrow> calls = []"
  by (auto simp: answer_lookup_def answer_invalid_def split: list.splits)

lemma answer_target_Continue: "answer_target_call sql dyn call = Continue \<longleftrightarrow> target_call_clear dyn call"
  by (auto simp: answer_target_call_def target_call_clear_def answer_unsupported_def answer_protected_Continue
      find_None_list_all split: option.splits prod.splits)

lemma command_verdict_Continue:
  "command_text_verdict e sql sel command = Continue \<longleftrightarrow>
     (\<exists>f. collect_command_text_findings e command = Some f \<and> cf_lookup_calls f = [] \<and>
        target_call_clear (sel_dynamic sel) (cf_target_call f))"
proof (cases "collect_command_text_findings e command")
  case (Some f)
  then show ?thesis
    by (cases "cf_lookup_calls f")
      (simp_all add: command_text_verdict_def answer_lookup_def answer_invalid_def answer_target_Continue)
qed (simp add: command_text_verdict_def answer_unsupported_def)

lemma command_step_iff: "command_text_step e ast sql sel = Inr Continue \<longleftrightarrow> command_clear e ast (sel_dynamic sel)"
proof (cases "node_kind ast")
  case (Inr kind)
  then show ?thesis
    by (cases "command_sql ast") (auto simp: command_text_step_def command_clear_def command_verdict_Continue)
qed (simp add: command_text_step_def command_clear_def)

lemma raw_step_iff:
  "raw_lookup_step e ast sql = Inr Continue \<longleftrightarrow> collect_raw_action_string_lookup_calls e ast sql = Some []"
  by (auto simp: raw_lookup_step_def answer_unsupported_def answer_lookup_Continue split: option.splits)

lemma ast_step_iff:
  "ast_lookup_step ast sql = Inr Continue \<longleftrightarrow> list_all (\<lambda>call. \<not> refused_lookup call) (string_lookup_calls ast)"
  by (simp add: ast_lookup_step_def answer_lookup_Continue filter_empty_conv list_all_iff)

text \<open>Only the step for unmodelled commands leaves a statement to the handlers.\<close>

lemma steps_leave:
  "parameter_step e ast sql \<noteq> Inr LeaveToHandlers" "protected_step e ast sql sel \<noteq> Inr LeaveToHandlers"
  "system_step e ast sql sel \<noteq> Inr LeaveToHandlers" "inactive_step sql sel c \<noteq> Inr LeaveToHandlers"
  "command_text_step e ast sql sel \<noteq> Inr LeaveToHandlers" "raw_lookup_step e ast sql \<noteq> Inr LeaveToHandlers"
  "ast_lookup_step ast sql \<noteq> Inr LeaveToHandlers"
  by (auto simp: parameter_step_def protected_step_def system_step_def inactive_step_def command_text_step_def
      raw_lookup_step_def ast_lookup_step_def map_sum_def answer_check_def answer_lookup_def answer_invalid_def
      answer_unsupported_def answer_protected_def command_text_verdict_def answer_target_call_def
      split: sum.splits option.splits if_splits prod.splits list.splits verdict.splits)

lemma run_steps_None:
  "run_steps (s # ss) = Inr None \<longleftrightarrow> s = Inr LeaveToHandlers \<or> s = Inr Continue \<and> run_steps ss = Inr None"
  by (cases s) (auto split: verdict.splits)

lemmas step_iffs = parameter_step_iff unmodelled_step_Continue unmodelled_step_Leave protected_step_iff system_step_iff
  command_step_iff raw_step_iff ast_step_iff

lemma preflight_None_iff:
  assumes "sel_mode (find_active opts) = ModeDynamic"
  shows "preflight_table_references e ast sql opts = Inr None \<longleftrightarrow>
     preflight_clear e ast sql (find_active opts) \<or>
     (table_position_parameter e ast sql = Inr False \<and> unmodelled_command e ast sql (find_active opts) = Inr True \<and>
      storage_integrity_surface_active (sel_dynamic (find_active opts)))"
proof -
  let ?sel = "find_active opts"
  have ends: "run_steps [] = Inr None" by simp
  have "preflight_table_references e ast sql opts = run_steps (preflight_steps e ast sql ?sel)"
    using assms by (simp add: preflight_table_references_def Let_def)
  then show ?thesis
    by (simp only: preflight_steps_def run_steps_None steps_leave step_iffs ends
        inactive_step_iff [OF carriers.lawful_check_axioms] inactive_step_iff [OF ungoverned.lawful_check_axioms])
      (auto simp: preflight_clear_def inactive_clear_def)
qed

section \<open>The properties\<close>

text \<open>
  C7. In dynamic mode the preflight lets a statement through to the handlers exactly when it is clear (no parameter
  in a table position, a command of a modelled class, no protected database outside the storage-integrity ones that
  the handlers see, no refused system table, no lookup by string that a SELECT does not resolve, no refused function
  in the place of a name and, while the storage-integrity surface is inactive, no refused table function, engine or
  setting and no ungoverned read), or is a command of no modelled class that the active surface refuses later.
\<close>

theorem preflight_iff:
  assumes "sel_mode (find_active opts) = ModeDynamic"
  shows "preflight_table_references e ast sql opts = Inr None \<longleftrightarrow>
     preflight_clear e ast sql (find_active opts) \<or>
     (table_position_parameter e ast sql = Inr False \<and> unmodelled_command e ast sql (find_active opts) = Inr True \<and>
      storage_integrity_surface_active (sel_dynamic (find_active opts)))"
  using preflight_None_iff [OF assms] .

section \<open>A Success has passed the preflight\<close>

lemma tokenized_of_gates:
  "statement_gates st e ast sql version = None \<Longrightarrow> \<exists>toks. tokenize_raw e sql = Inr toks"
  by (cases "tokenize_raw e sql") (auto simp: statement_gates_def check_parsed_in_full_def split: if_splits)

lemma write_checks_refusing: "refusing write_checks"
  using carriers.refuses_coded ungoverned.refuses_coded by (auto simp: refusing_def write_checks_def)

lemma answered_code:
  "answer_invalid sql msg = Answer r \<Longrightarrow> r_code r \<noteq> CodeSuccess"
  "answer_unsupported sql msg = Answer r \<Longrightarrow> r_code r \<noteq> CodeSuccess"
  "answer_protected sql dyn db = Answer r \<Longrightarrow> r_code r \<noteq> CodeSuccess"
  "answer_lookup sql calls = Answer r \<Longrightarrow> r_code r \<noteq> CodeSuccess"
  "answer_target_call sql dyn call = Answer r \<Longrightarrow> r_code r \<noteq> CodeSuccess"
  by (auto simp: answer_invalid_def answer_unsupported_def answer_protected_def answer_lookup_def
      answer_target_call_def split: prod.splits if_splits option.splits list.splits)

lemma inactive_step_code:
  assumes "lawful_check c" "inactive_step sql sel c = Inr (Answer r)"
  shows "r_code r \<noteq> CodeSuccess"
  using assms(2) lawful_check.refuses_coded [OF assms(1)]
  by (auto simp: inactive_step_def answer_check_def map_sum_def split: if_splits sum.splits)

lemma preflight_refuses: "preflight_table_references e ast sql opts = Inr (Some r) \<Longrightarrow> r_code r \<noteq> CodeSuccess"
proof (erule preflight_answer_cases)
  assume "command_text_step e ast sql (find_active opts) = Inr (Answer r)"
  then show ?thesis
    by (auto simp: command_text_step_def command_text_verdict_def map_sum_def
        split: sum.splits if_splits option.splits verdict.splits dest: answered_code)
qed (auto simp: parameter_step_def unmodelled_step_def protected_step_def system_step_def
    raw_lookup_step_def ast_lookup_step_def map_sum_def reject_system_table_def clear_rewrites_def Let_def
    record_accessed_write_unique_def
    split: sum.splits if_splits option.splits prod.splits dest: answered_code inactive_step_code)

lemma inspect_flags_kind: "wi_kind (inspect_flags kind body) = kind"
  by (simp add: inspect_flags_def no_info_def Let_def)

lemma node_kind_Inr: "node_kind ast = Inr kind \<Longrightarrow> \<exists>v. ast = JObject [(kind, v)]"
  by (auto simp: node_kind_def split: json.splits list.splits)

lemma inspect_write_kind:
  assumes "inspect_write ast = Inr info" "node_kind ast = Inr kind"
  shows "wi_kind info = kind"
proof -
  obtain v where ast: "ast = JObject [(kind, v)]" using node_kind_Inr [OF assms(2)] by blast
  show ?thesis
  proof (cases "is_object v")
    case True
    then show ?thesis
      using assms(1) inspect_flags_kind [of kind v] unfolding ast by (auto simp: inspect_write_def body_of_def Let_def)
  next
    case False
    then show ?thesis
      using assms(1) unfolding ast by (auto simp: inspect_write_def body_of_def no_info_def)
  qed
qed

lemma parse_db_level_tokens: "tokenize_raw e sql = Inr toks \<Longrightarrow> \<exists>info. parse_db_level reader e sql = Inr info"
  by (cases toks) (auto simp: parse_db_level_def Let_def)

lemma unmodelled_cases:
  assumes "unmodelled_command e ast sql sel = Inr True" "tokenize_raw e sql = Inr toks"
  obtains t db where "node_kind ast = Inr NodeCommand" "parse_object_target e sql = Inr t" "ob_verb t = VerbNone"
    "parse_db_level collect_select_tables e sql = Inr db" "dl_kind db = DBNone"
    "\<And>info. inspect_write ast = Inr info \<Longrightarrow> wi_sub info \<notin> {CmdRename, CmdExchange, CmdAlterUpdate} \<and>
       (\<forall>gp. parse_grant e sql = Inr gp \<longrightarrow> \<not> gr_is_grant_verb gp)"
proof -
  have kind: "node_kind ast = Inr NodeCommand" and other: "\<not> command_class_modelled e ast sql sel"
    using assms(1) by (cases "node_kind ast"; simp add: unmodelled_command_def)+
  obtain t where t: "parse_object_target e sql = Inr t" using assms(2) by (simp add: parse_object_target_def)
  have none: "ob_verb t = VerbNone" using other t by (simp add: command_class_modelled_def split: if_splits)
  obtain db where db: "parse_db_level collect_select_tables e sql = Inr db" using parse_db_level_tokens [OF assms(2)] by blast
  have "dl_kind db = DBNone" using other t none db by (simp add: command_class_modelled_def split: if_splits)
  moreover have "wi_sub info \<notin> {CmdRename, CmdExchange, CmdAlterUpdate} \<and>
       (\<forall>gp. parse_grant e sql = Inr gp \<longrightarrow> \<not> gr_is_grant_verb gp)" if "inspect_write ast = Inr info" for info
    using other t none db calculation that by (simp add: command_class_modelled_def split: if_splits sum.splits)
  ultimately show thesis using that kind t none db by blast
qed

lemma unmodelled_write:
  assumes "unmodelled_command e ast sql (find_active opts) = Inr True" "tokenize_raw e sql = Inr toks"
    and "rewrite_write core (preflight_si_write write_checks) e ast sql opts = Inr (Some r)"
  shows "r_code r \<noteq> CodeSuccess"
proof (rule unmodelled_cases [OF assms(1,2)])
  let ?sel = "find_active opts"
  fix t db
  assume kind: "node_kind ast = Inr NodeCommand"
    and other: "\<And>info. inspect_write ast = Inr info \<Longrightarrow> wi_sub info \<notin> {CmdRename, CmdExchange, CmdAlterUpdate} \<and>
      (\<forall>gp. parse_grant e sql = Inr gp \<longrightarrow> \<not> gr_is_grant_verb gp)"
  obtain info siDrop where run: "inspect_write ast = Inr info" "si_drop_allowed e sql info ?sel = Inr siDrop"
    "preflight_si_write write_checks e ast sql info ?sel siDrop = Inr (Some r) \<or>
      dispatch_write core e ast sql info opts ?sel siDrop = Inr (Some r)"
    using assms(3) by (auto simp: rewrite_write_def Let_def split: sum.splits option.splits)
  have "dispatch_write core e ast sql info opts ?sel siDrop = dispatch_command e ast sql info ?sel"
    using inspect_write_kind [OF run(1) kind] by (simp add: dispatch_write_def node_kind_defs NodeInsert_def NodeCommand_def)
  then show "r_code r \<noteq> CodeSuccess"
    using run(3) other [OF run(1)] preflight_code [OF _ write_checks_refusing]
    by (auto simp: dispatch_command_def Let_def split: if_splits sum.splits)
qed

lemma unmodelled_handled:
  assumes "unmodelled_command e ast sql (find_active opts) = Inr True" "tokenize_raw e sql = Inr toks"
    and "first_handled (handlers_of st) e ast sql opts = Inr (Some r)"
  shows "r_code r \<noteq> CodeSuccess"
proof (rule unmodelled_cases [OF assms(1,2)])
  fix t db
  assume kind: "node_kind ast = Inr NodeCommand" and t: "parse_object_target e sql = Inr t" "ob_verb t = VerbNone"
    and db: "parse_db_level collect_select_tables e sql = Inr db" "dl_kind db = DBNone"
    and other: "\<And>info. inspect_write ast = Inr info \<Longrightarrow> wi_sub info \<notin> {CmdRename, CmdExchange, CmdAlterUpdate} \<and>
      (\<forall>gp. parse_grant e sql = Inr gp \<longrightarrow> \<not> gr_is_grant_verb gp)"
  let ?written = "rewrite_write (rewrite_select_core e) (preflight_si_write write_checks) e ast sql opts"
  have nones: "rewrite_db_level collect_select_tables e ast sql opts = Inr None"
    "rewrite_describe collect_select_tables e ast sql opts = Inr None" "rewrite_exists_show_create e ast sql opts = Inr None"
    using kind t db by (simp_all add: rewrite_describe_def rewrite_exists_show_create_def rewrite_db_level_def
        dispatch_db_command_def NodeCommand_def node_kind_defs)
  have grant: "rewrite_grant e ast sql opts \<noteq> Inr (Some r)" if "inspect_write ast = Inr info" for info
    using other [OF that] kind by (cases "parse_grant e sql") (simp_all add: rewrite_grant_def)
  have "\<exists>info. inspect_write ast = Inr info" if "?written = Inr x" for x
    using that by (cases "inspect_write ast") (simp_all add: rewrite_write_def)
  then show "r_code r \<noteq> CodeSuccess"
    using assms(3) preflight_refuses [of e ast sql opts r] unmodelled_write [OF assms(1,2), of "rewrite_select_core e" r]
      grant nones
    by (cases "preflight_table_references e ast sql opts"; cases ?written) (auto simp: handlers_of_def split: option.splits sum.splits)
qed

lemma admitted_preflight:
  assumes "admitted_statement st e sql opts resp" "r_code resp = CodeSuccess" "sel_mode (find_active opts) = ModeDynamic"
  shows "\<exists>ast. e_parse_one e sql = Inr ast \<and> preflight_clear e ast sql (find_active opts)"
proof -
  let ?sel = "find_active opts"
  define version where "version = fst (check_request st ?sel)"
  obtain ast where ast: "e_parse_one e sql = Inr ast" "statement_gates st e ast sql version = None"
    and request: "snd (check_request st ?sel) = None"
    and handled: "case handle st e ast sql opts of Inl _ \<Rightarrow> False
       | Inr (Some h) \<Rightarrow> r_code h = CodeSuccess \<and> resp = h\<lparr>r_existence_clause := existence_of ast, r_si_contract_version := version\<rparr>
       | Inr None \<Rightarrow> unmodelled_refusal e ast version ?sel = None"
    using assms(1) unfolding admitted_statement_def Let_def version_def by blast
  obtain toks where toks: "tokenize_raw e sql = Inr toks" using tokenized_of_gates [OF ast(2)] by blast
  have pre: "preflight_table_references e ast sql opts = Inr None"
    using handled preflight_refuses [of e ast sql opts]
    by (cases "preflight_table_references e ast sql opts")
      (auto simp: handle_def handlers_of_def split: option.splits)
  have "\<not> (unmodelled_command e ast sql ?sel = Inr True \<and> storage_integrity_surface_active (sel_dynamic ?sel))"
  proof
    assume other: "unmodelled_command e ast sql ?sel = Inr True \<and> storage_integrity_surface_active (sel_dynamic ?sel)"
    then have kind: "node_kind ast = Inr NodeCommand"
      by (cases "node_kind ast") (auto simp: unmodelled_command_def)
    then have "\<not> is_read_kind ast" by (simp add: is_read_kind_def NodeCommand_def node_kind_defs)
    moreover have "version \<noteq> ContractUnspecified"
      using other request assms(3) by (auto simp: version_def check_request_def Let_def split: if_splits option.splits)
    ultimately show False
      using handled unmodelled_handled [OF conjunct1 [OF other] toks, of st]
      by (cases "first_handled (handlers_of st) e ast sql opts")
        (auto simp: handle_def unmodelled_refusal_def split: option.splits)
  qed
  then show ?thesis using ast pre preflight_None_iff [OF assms(3)] by blast
qed

text \<open>
  C5. In dynamic mode a Success of the pipeline is the answer of a statement that is clear of everything the
  preflight refuses, whichever handler answered it: among others it names no protected database but the
  storage-integrity ones its handlers see, neither in its tree nor in its opaque text, and its logical context is
  not one either.
\<close>

theorem success_preflighted:
  assumes "do_rewrite st e sql opts = Inr resp" "r_code resp = CodeSuccess" "sel_mode (find_active opts) = ModeDynamic"
  shows "\<exists>stripped rewritten ast. answered_by e sql stripped rewritten (r_sql_after_rewrite resp) \<and>
     e_parse_one e stripped = Inr ast \<and> preflight_clear e ast stripped (find_active opts)"
proof -
  obtain stripped resp0 out where run: "admitted_statement st e stripped opts resp0" "r_code resp0 = CodeSuccess"
    "answered_by e sql stripped (r_sql_after_rewrite resp0) out" "resp = echo out resp0"
    using do_rewrite_Success [OF assms(1,2)] by blast
  then show ?thesis using admitted_preflight [OF run(1,2) assms(3)] by (auto simp: echo_def)
qed

lemma success_preflighted_witness:
  "\<exists>resp stripped rewritten ast. do_rewrite passive_stages read_engine read_sql plain_options = Inr resp \<and>
     answered_by read_engine read_sql stripped rewritten (r_sql_after_rewrite resp) \<and>
     e_parse_one read_engine stripped = Inr ast \<and> preflight_clear read_engine ast stripped (find_active plain_options)"
proof -
  obtain resp where run: "do_rewrite passive_stages read_engine read_sql plain_options = Inr resp"
    "r_code resp = CodeSuccess"
    by (rule read_run)
  have "sel_mode (find_active plain_options) = ModeDynamic" by code_simp
  from success_preflighted [OF run this] run show ?thesis by blast
qed

lemma preflight_iff_witness:
  "preflight_clear read_engine (JObject [(''select'', JObject [])]) read_sql (find_active plain_options)"
proof -
  have dyn: "sel_mode (find_active plain_options) = ModeDynamic" by code_simp
  moreover have "preflight_table_references read_engine (JObject [(''select'', JObject [])]) read_sql plain_options = Inr None"
    by code_simp
  moreover have "\<not> storage_integrity_surface_active (sel_dynamic (find_active plain_options))" by code_simp
  ultimately show ?thesis
    using preflight_iff [of plain_options read_engine "JObject [(''select'', JObject [])]" read_sql] by blast
qed

end
