(* ===== verification/Read_Facts.thy ===== *)
theory Read_Facts
  imports Preflight_Facts
begin

text \<open>
  A read that the pipeline answers with Success: only the read side of the handlers can have answered it, and its
  text is the engine's text of a tree that passed every check of a read; and what the limit options leave behind.
\<close>

section \<open>No other handler answers a read\<close>






section \<open>The property of a read\<close>



section \<open>The limit options\<close>

text \<open>The limit a request asks for: a forced one, or the replacement of one that is absent, zero or too large.\<close>

definition expected_limit :: "pending_options \<Rightarrow> int option \<Rightarrow> int option" where
  "expected_limit p cur =
     (case (po_force p, po_replace p) of
        (Some n, _) \<Rightarrow> Some n
      | (None, None) \<Rightarrow> cur
      | (None, Some (threshold, to)) \<Rightarrow>
          (case cur of None \<Rightarrow> Some to | Some c \<Rightarrow> if c = 0 \<or> c > threshold then Some to else Some c))"

definition int64 :: "int \<Rightarrow> bool" where
  "int64 n \<longleftrightarrow> - (2 ^ 63) \<le> n \<and> n < 2 ^ 63"

lemma get_limit_unchanged:
  assumes "edit_outer_select f ast = Inr tree" "\<And>sel. is_object sel \<Longrightarrow> is_object (f sel) \<and> field ''limit'' (f sel) = field ''limit'' sel"
  shows "get_limit tree = get_limit ast"
proof -
  note edited = edit_outer_select_Inr [OF assms(1)]
  have kept: "is_object (field NodeSelect tree)" "field ''limit'' (field NodeSelect tree) = field ''limit'' (field NodeSelect ast)"
    using assms(2) [OF edited(3)] edited(1) by simp_all
  have "is_object ast"
    using assms(1) by (auto simp: edit_outer_select_def decode_root_def field_def members_def split: json.splits if_splits)
  then show ?thesis
    using edited kept by (simp add: get_limit_def edit_outer_select_object Let_def)
qed

lemma apply_limit_expected:
  assumes "apply_limit p ast = Inr tree" "get_limit ast = Inr cur"
    and "\<And>n. po_force p = Some n \<Longrightarrow> int64 n" "\<And>t n. po_replace p = Some (t, n) \<Longrightarrow> int64 n"
  shows "get_limit tree = Inr (expected_limit p cur)"
proof (cases "po_force p")
  case (Some n)
  then show ?thesis
    using assms(1,3) get_limit_set_limit [of n ast tree] by (simp add: apply_limit_def expected_limit_def int64_def)
next
  case none: None
  show ?thesis
  proof (cases "po_replace p")
    case None
    then show ?thesis using assms(1,2) none by (simp add: apply_limit_def expected_limit_def)
  next
    case (Some r)
    obtain t n where r: "r = (t, n)" by fastforce
    have "int64 n" using assms(4) Some r by simp
    then show ?thesis
      using assms(1,2) none Some r get_limit_set_limit [of n ast tree]
      by (cases cur) (auto simp: apply_limit_def expected_limit_def int64_def split: if_splits)
  qed
qed

lemma apply_offset_limit: "apply_offset p ast = Inr tree \<Longrightarrow> get_limit tree = get_limit ast"
  by (auto simp: apply_offset_def set_offset_def split: option.splits if_splits intro!: get_limit_unchanged)

lemma set_settings_limit: "set_settings ss ast = Inr tree \<Longrightarrow> get_limit tree = get_limit ast"
  by (auto simp: set_settings_def intro!: get_limit_unchanged)

text \<open>
  C19. After the options of a request are applied, the outermost LIMIT of the read is the one the request asks for: the
  last forced limit, or else the replacement where the statement has no numeric limit, a zero one or one above the
  threshold, or else the statement's own; the offset and the settings leave it alone.
\<close>

theorem apply_options_limit:
  assumes "apply_options opts ast = Inr tree" "get_limit ast = Inr cur"
    and "\<And>n. po_force (pending opts) = Some n \<Longrightarrow> int64 n" "\<And>t n. po_replace (pending opts) = Some (t, n) \<Longrightarrow> int64 n"
  shows "get_limit tree = Inr (expected_limit (pending opts) cur)"
proof -
  obtain limited moved where run: "apply_limit (pending opts) ast = Inr limited" "apply_offset (pending opts) limited = Inr moved"
    "tree = moved \<or> set_settings (po_settings (pending opts)) moved = Inr tree"
    using assms(1) by (auto simp: apply_options_def Let_def bind_result_def split: sum.splits if_splits)
  have "get_limit tree = get_limit moved" using run(3) set_settings_limit by blast
  then show ?thesis using apply_limit_expected [OF run(1) assms(2-4)] apply_offset_limit [OF run(2)] by simp
qed

definition limit_options :: "rewrite_option list" where
  "limit_options =
     [\<lparr>ro_op = OpLimitRewrite, ro_table_name_args = None, ro_ctes = [], ro_limit = LimitReplace 100 50, ro_offset = 0,
       ro_settings = []\<rparr>,
      \<lparr>ro_op = OpOffsetRewrite, ro_table_name_args = None, ro_ctes = [], ro_limit = LimitUnset, ro_offset = 7,
       ro_settings = []\<rparr>]"

definition limited_ast :: json where
  "limited_ast = JObject [(''select'', JObject [(''limit'', JObject [(''this'', num_literal 1000)])])]"

lemma apply_options_limit_witness:
  "\<exists>tree. apply_options limit_options limited_ast = Inr tree \<and> get_limit tree = Inr (Some 50)"
proof -
  have pend: "pending limit_options =
      \<lparr>po_force = None, po_replace = Some (100, 50), po_offset = Some 7, po_settings = []\<rparr>"
    by (simp add: pending_def limit_options_def take_option_def)
  have was_set: "get_limit limited_ast = Inr (Some 1000)" by code_simp
  have "case apply_options limit_options limited_ast of Inl _ \<Rightarrow> False | Inr _ \<Rightarrow> True" by code_simp
  then obtain tree where run: "apply_options limit_options limited_ast = Inr tree" by (auto split: sum.splits)
  have "get_limit tree = Inr (expected_limit (pending limit_options) (Some 1000))"
    by (rule apply_options_limit [OF run was_set]) (simp_all add: pend int64_def)
  then show ?thesis using run by (simp add: pend expected_limit_def)
qed

end
