(* ===== verification/Spec2Isabelle.thy ===== *)
theory Spec2Isabelle
  imports Hidden_Names Lexeme_Facts Drop_Grammar Raw_Splice_Facts Statement_Gate_Facts
    Fidelity_Facts Precedence_Facts Error_Session_Facts Settings_Facts Allowlists_Facts Create_Forms_Facts
    Opaque_Text_Facts Write_Body_Facts SI_Policy_Facts Grant_Facts Show_Facts Node_Walk_Facts
    Scope_Facts Read_Facts
begin

text \<open>
  A verification development for rewriter-go, which rewrites the ClickHouse SQL of one account: logical names become
  the physical names the request maps them to, and whatever would reach a database the account may not see is
  refused. Sources are named by their paths under \<open>src/internal/\<close> (\<open>native.go\<close>, \<open>service.go\<close> under \<open>src/\<close>).

  \<^bold>\<open>The program and its theories.\<close> A statement goes through \<open>native.go\<close>: \<open>Pipeline.do_rewrite\<close> takes off the CREATE forms
  the parser does not know (\<open>Create_Forms\<close>: \<open>engine/create_empty.go\<close>, \<open>view_comment.go\<close>), checks the request
  (\<open>Name_Contract\<close>: \<open>nameresolve/contract.go\<close>, \<open>protected.go\<close>), parses, and applies two gates: that the parser read the
  whole text (\<open>Statement_Gate\<close>: \<open>engine/guard.go\<close>, \<open>wholestmt.go\<close>), and the live-view grammar. Then the first handler
  that claims the statement answers it. The handlers, in their order: the preflight (\<open>Preflight\<close>:
  \<open>handlers/preflight.go\<close>, with \<open>References\<close>: \<open>engine/references.go\<close>,
  \<open>systemrefs.go\<close>; \<open>Allowlists\<close>; \<open>Settings_Gate\<close>; \<open>Opaque_Text\<close>:
  \<open>engine/ungoverned.go\<close>, \<open>parameters.go\<close>), the writes (\<open>Write_Slots\<close>,
  \<open>Raw_Splice\<close>, \<open>Embedded_Body\<close>: \<open>engine/writes.go\<close>;
  \<open>Mutation_Reads\<close>: \<open>engine/mutation_reads.go\<close>; \<open>Write_Policy\<close>,
  \<open>Write_Dispatch\<close>: \<open>handlers/writes.go\<close>; \<open>SI_Policy\<close>: the storage-integrity
  files of \<open>handlers\<close>), the database level (\<open>Db_Level\<close>, \<open>Db_Level_Handlers\<close>),
  single objects (\<open>Object_Target\<close>), grants (\<open>Grant\<close>), and last the reads
  (\<open>Select_Core\<close>: \<open>handlers/select.go\<close>, \<open>options.go\<close>,
  \<open>lookups.go\<close>). \<open>Pipeline.finalize\<close> lets a Success out only past the fidelity gate
  (\<open>Fidelity\<close>, \<open>Precedence\<close>, \<open>Lexeme\<close>: \<open>engine/regenerated*.go\<close>),
  which compares the statement with its regeneration token by token. \<open>Error_Session\<close> keeps what a
  connection remembers and, with \<open>Reverse\<close> and \<open>Hidden_Names\<close>, puts the client's names back
  into an error text or withholds it.

  The statements are read in two ways. From the tree: \<open>Node_Refs\<close>, \<open>Node_Walk\<close>, \<open>Node_Collect\<close>, \<open>Node_Edit\<close> and
  \<open>Read_Scope\<close> are \<open>engine/nodes.go\<close>, \<open>scope.go\<close> and \<open>global.go\<close>. One walk lists the events of a statement (a table, a
  table function, an IN operand, a namespace, a parameter), each with its path; every collector filters that list, and
  the rewrite of a read edits the tree at those paths. From the tokens: \<open>Engine_Tokens\<close> normalises the parser's
  tokens, \<open>Drop_Grammar\<close>, \<open>Name_Grammar\<close> and the token scans above read them. Names are resolved by \<open>Name_Resolve\<close>
  (\<open>nameresolve/resolve.go\<close>) and decoded by \<open>Name_Escape\<close> (\<open>engine/nameescape.go\<close>). \<open>Go_Prelude\<close> and \<open>Go_Utf8\<close> hold what is
  used of Go, with the shared lemmas on byte strings and association lists; \<open>Proto_Options\<close> holds the messages.

  \<^bold>\<open>How state and values correspond.\<close> A Go string is a list of bytes. A struct is a record, an enumeration a datatype. A
  decoded AST is a JSON value whose objects are association lists: where Go ranges over a map, the order of the list
  stands for Go's random one, and \<open>Scope_Facts.scope_order_matters\<close> shows an answer that depends on it. A Go map that is
  written is an association list with \<open>AList.update\<close>. An error is the left side of a sum, a refusal is a response whose
  code is not Success, and a run-time panic is an error value (\<open>Pipeline.is_panic\<close>) that nothing catches. A callback
  that records what it decides is a function that returns its new state. The per-connection state is the record
  \<open>session\<close>, its reachable values the inductive predicate \<open>Pipeline.reachable\<close>.

  \<^bold>\<open>What the lemmas show.\<close> Of the whole pipeline (\<open>Pipeline_Facts\<close>, \<open>Preflight_Facts\<close>, \<open>Read_Facts\<close>): a Success has passed
  every gate and is of a statement clear of everything the preflight refuses; a Success of a read passed every check of
  a read; a refusal carries the caller's statement; a dynamic request is always answered; and a connection remembers
  only that. Of the handlers (\<open>SI_Policy_Facts\<close>, \<open>Write_*_Facts\<close>, \<open>Grant_Facts\<close>, \<open>Show_Facts\<close>, \<open>Select_Facts\<close>): what a
  Success of each has been checked for and what its text names. Of the walks (\<open>Node_Walk_Facts\<close>, \<open>Node_Edit_Facts\<close>): the
  walk ends, the rewrite decides exactly the collected tables and changes nothing apart from them. Of the gates and
  scans: each accepts exactly the language its specification describes. Interfaces are locales: \<open>lawful_check\<close>
  (\<open>Check_Facts\<close>), \<open>cell_store\<close> (\<open>Write_Slots_Facts\<close>, interpreted for the slots of a write and for the paths of a tree),
  \<open>embedded_body\<close> and \<open>comma_list\<close>.

  \<^bold>\<open>Bounds and fuel.\<close> \<open>Node_Walk.walk\<close> has fuel; the size of the node is enough, and
  \<open>Node_Walk_Facts.statement_walk_terminates\<close> proves that the walk of a statement never runs out. The recursions over
  queries (\<open>scope_walk\<close>, \<open>global_walk\<close>) end by the size of the tree. Limits are read as 64-bit integers
  (\<open>Node_Edit.parse_int64\<close>); other numbers are the sizes of texts and are natural numbers.

  \<^bold>\<open>Parameters.\<close> The parser (\<open>engine\<close>: its tokenizer, parser and generator) is third-party code and an argument of
  every definition that calls it, with nothing assumed of it. The record \<open>Pipeline.stages\<close> holds Unicode upper case,
  the texts of errors, and \<open>NameRefsFromAST\<close> and \<open>ClassifyLiveView\<close> of \<open>engine/lexical.go\<close>; the theorems hold for
  every value of it.

  \<^bold>\<open>Not modelled.\<close> The grammars behind those two functions of \<open>lexical.go\<close>; what \<open>engine/polyglot.go\<close>
  does around the foreign parser (\<open>ingest_names.go\<close>, \<open>funcspelling.go\<close>, \<open>view_columns.go\<close>), so that \<open>e_parse_one\<close> is the
  tree after it; materialization (\<open>materialize*.go\<close>) and the snapshot query language (\<open>snapshot*.go\<close>), two entry points
  apart from the rewriter; the loading of the foreign library, the command-line tools and the test harness, which are
  input and output.
\<close>

end
